(* ===== verification/Go_Prelude.thy ===== *)
theory Go_Prelude
  imports Main "HOL-Library.List_Lexorder" "HOL-Library.Char_ord"
begin

section \<open>Shared vocabulary of the development\<close>

text \<open>
  Types, collections and list lemmas that every component uses. A Go \<^verbatim>\<open>error\<close> is its
  text, a fallible Go function returns \<open>'a result\<close> (\<open>Inl\<close> is the error), a Go map is a
  map or an association list in one iteration order, and a Go \<^verbatim>\<open>string\<close> is a list of
  bytes (\<^typ>\<open>string\<close>). Byte-wise order of strings is the lexicographic order of
  \<^verbatim>\<open>HOL-Library.List_Lexorder\<close>.
\<close>

type_synonym error = string
type_synonym 'a result = "error + 'a"
type_synonym 'v go_map = "(string \<times> 'v) list"

named_theorems go_strings \<open>equations of the modelled parts of package strings\<close>
named_theorems scan_simps \<open>one-step equations of the policy scans\<close>
named_theorems audit_simps \<open>record updates of the audit state\<close>

subsection \<open>Results\<close>

abbreviation ok :: "'a \<Rightarrow> 'a result" where
  "ok \<equiv> Inr"

abbreviation err :: "string \<Rightarrow> 'a result" where
  "err \<equiv> Inl"

fun res_bind :: "'a result \<Rightarrow> ('a \<Rightarrow> 'b result) \<Rightarrow> 'b result" where
  "res_bind (Inl e) f = Inl e"
| "res_bind (Inr x) f = f x"

fun map_error :: "(error \<Rightarrow> error) \<Rightarrow> 'a result \<Rightarrow> 'a result" where
  "map_error f (Inl e) = Inl (f e)"
| "map_error f (Inr x) = Inr x"

fun is_ok :: "'a result \<Rightarrow> bool" where
  "is_ok (Inl e) = False"
| "is_ok (Inr x) = True"

text \<open>
  A loop that converts every element of a slice and returns at the first error.
\<close>

fun map_result :: "('a \<Rightarrow> 'b result) \<Rightarrow> 'a list \<Rightarrow> 'b list result" where
  "map_result f [] = Inr []"
| "map_result f (x # xs) =
     (case f x of
        Inl e \<Rightarrow> Inl e
      | Inr y \<Rightarrow> (case map_result f xs of Inl e \<Rightarrow> Inl e | Inr ys \<Rightarrow> Inr (y # ys)))"

lemma res_bind_Inr: "res_bind r f = Inr y \<longleftrightarrow> (\<exists>x. r = Inr x \<and> f x = Inr y)"
  by (cases r) auto

lemma map_error_Inr [simp]: "map_error f r = Inr y \<longleftrightarrow> r = Inr y"
  by (cases r) auto

lemma is_ok_iff: "is_ok r \<longleftrightarrow> (\<exists>x. r = Inr x)"
  by (cases r) auto

lemma map_result_Inr_iff:
  "map_result f xs = Inr ys \<longleftrightarrow> list_all2 (\<lambda>x y. f x = Inr y) xs ys"
proof (induction xs arbitrary: ys)
  case Nil
  then show ?case by auto
next
  case (Cons x xs)
  show ?case
    by (cases "f x"; cases "map_result f xs") (auto simp: list_all2_Cons1 simp flip: Cons.IH)
qed

lemma map_result_length: "map_result f xs = Inr ys \<Longrightarrow> length ys = length xs"
  by (simp add: map_result_Inr_iff list_all2_lengthD)

lemma map_result_member:
  assumes "map_result f xs = Inr ys" and "y \<in> set ys"
  shows "\<exists>x \<in> set xs. f x = Inr y"
  using assms by (induction xs arbitrary: ys) (auto split: sum.splits)

lemma map_result_Inl:
  "map_result f xs = Inl e \<Longrightarrow> \<exists>x \<in> set xs. f x = Inl e"
  by (induction xs) (auto split: sum.splits)

lemma map_result_ok: "(\<And>x. x \<in> set xs \<Longrightarrow> is_ok (f x)) \<Longrightarrow> is_ok (map_result f xs)"
proof (induction xs)
  case (Cons a xs)
  from Cons.prems[of a] obtain y where "f a = Inr y" by (auto simp: is_ok_iff)
  moreover from Cons obtain ys where "map_result f xs = Inr ys" by (auto simp: is_ok_iff)
  ultimately show ?case by simp
qed simp

text \<open>
  The idiom \<^verbatim>\<open>if matched, reason := f(x); !matched\<close> as a conditional.
\<close>

lemma case_matched:
  "(case p of (False, reason) \<Rightarrow> f reason | (True, _) \<Rightarrow> b) = (if fst p then b else f (snd p))"
  by (cases p) (simp split: bool.splits)

subsection \<open>Reasoning along the branches of a handler\<close>

text \<open>
  \<open>holds Q r\<close> marks the result of a handler; the introduction rules follow the handler's
  bindings and branches, so that a property of a long handler splits into one small goal per
  return statement, with the conditions of its path as assumptions.
\<close>

definition holds :: "('a \<Rightarrow> bool) \<Rightarrow> 'a \<Rightarrow> bool" where
  "holds Q r \<longleftrightarrow> Q r"

lemma holds_let: "(\<And>x. x = t \<Longrightarrow> holds Q (f x)) \<Longrightarrow> holds Q (Let t f)"
  by simp

lemma holds_if:
  "(c \<Longrightarrow> holds Q a) \<Longrightarrow> (\<not> c \<Longrightarrow> holds Q b) \<Longrightarrow> holds Q (if c then a else b)"
  by simp

lemma holds_sum:
  "(\<And>e. s = Inl e \<Longrightarrow> holds Q (f e)) \<Longrightarrow> (\<And>x. s = Inr x \<Longrightarrow> holds Q (g x)) \<Longrightarrow>
   holds Q (case s of Inl e \<Rightarrow> f e | Inr x \<Rightarrow> g x)"
  by (cases s) simp_all

lemma holds_option:
  "(s = None \<Longrightarrow> holds Q f) \<Longrightarrow> (\<And>x. s = Some x \<Longrightarrow> holds Q (g x)) \<Longrightarrow>
   holds Q (case s of None \<Rightarrow> f | Some x \<Rightarrow> g x)"
  by (cases s) simp_all

lemma holds_prod:
  "(\<And>a b. p = (a, b) \<Longrightarrow> holds Q (f a b)) \<Longrightarrow> holds Q (case p of (a, b) \<Rightarrow> f a b)"
  by (cases p) simp

lemmas holds_intros = holds_let holds_if holds_sum holds_option holds_prod

subsection \<open>Association lists as Go maps\<close>

text \<open>
  \<open>gm_put k v m\<close> is \<^verbatim>\<open>m[k] = v\<close>: an existing key keeps its place, a new key is appended.
\<close>

fun gm_put :: "'k \<Rightarrow> 'v \<Rightarrow> ('k \<times> 'v) list \<Rightarrow> ('k \<times> 'v) list" where
  "gm_put k v [] = [(k, v)]"
| "gm_put k v ((k', v') # m) = (if k = k' then (k, v) # m else (k', v') # gm_put k v m)"

definition gm_delete :: "'k \<Rightarrow> ('k \<times> 'v) list \<Rightarrow> ('k \<times> 'v) list" where
  "gm_delete k m = filter (\<lambda>kv. fst kv \<noteq> k) m"

lemma map_of_gm_put [simp]: "map_of (gm_put k v m) = (map_of m)(k \<mapsto> v)"
  by (induction k v m rule: gm_put.induct) auto

lemma keys_gm_put [simp]: "fst ` set (gm_put k v m) = insert k (fst ` set m)"
  by (induction k v m rule: gm_put.induct) auto

lemma distinct_gm_put: "distinct (map fst m) \<Longrightarrow> distinct (map fst (gm_put k v m))"
proof (induction k v m rule: gm_put.induct)
  case (2 k v k' v' m)
  then show ?case
    using keys_gm_put[of k v m] by (auto simp del: keys_gm_put)
qed simp

lemma map_of_gm_delete [simp]: "map_of (gm_delete k m) = (map_of m)(k := None)"
  unfolding gm_delete_def by (induction m) auto

lemma distinct_gm_delete: "distinct (map fst m) \<Longrightarrow> distinct (map fst (gm_delete k m))"
  unfolding gm_delete_def by (rule distinct_map_filter)

subsection \<open>Lists\<close>

lemma takeWhile_eq_self: "takeWhile P xs = xs \<longleftrightarrow> (\<forall>x \<in> set xs. P x)"
  by (induction xs) auto

lemma dropWhile_idem [simp]: "dropWhile P (dropWhile P xs) = dropWhile P xs"
  by (induction xs) auto

lemma list_all_filter_all: "list_all P xs \<Longrightarrow> filter P xs = xs"
  by (simp add: list_all_iff)

end
