(* ===== verification/Go_Strings.thy ===== *)
theory Go_Strings
  imports Go_Prelude "HOL-Library.Sublist"
begin

section \<open>Packages strings, strconv, fmt and net/textproto\<close>

text \<open>
  The functions of the Go standard library that the sources call on strings. Strings are byte
  lists; \<^verbatim>\<open>TrimSpace\<close>, \<^verbatim>\<open>ToLower\<close> and \<^verbatim>\<open>ToUpper\<close> are the library's ASCII fast
  paths, which are exact on ASCII text (bytes from 128 on are left alone; Go would decode
  them as UTF-8 first). \<^verbatim>\<open>strconv.Atoi\<close> has the range check of the 64-bit \<^verbatim>\<open>int\<close>.
\<close>

subsection \<open>Characters\<close>

abbreviation ord :: "char \<Rightarrow> nat" where
  "ord \<equiv> of_char"

definition is_space :: "char \<Rightarrow> bool" where
  "is_space c \<longleftrightarrow> (9 \<le> ord c \<and> ord c \<le> 13) \<or> ord c = 32"

definition is_digit :: "char \<Rightarrow> bool" where
  "is_digit c \<longleftrightarrow> 48 \<le> ord c \<and> ord c \<le> 57"

definition is_upper :: "char \<Rightarrow> bool" where
  "is_upper c \<longleftrightarrow> 65 \<le> ord c \<and> ord c \<le> 90"

definition is_lower :: "char \<Rightarrow> bool" where
  "is_lower c \<longleftrightarrow> 97 \<le> ord c \<and> ord c \<le> 122"

definition lower_char :: "char \<Rightarrow> char" where
  "lower_char c = (if is_upper c then char_of (ord c + 32) else c)"

definition upper_char :: "char \<Rightarrow> char" where
  "upper_char c = (if is_lower c then char_of (ord c - 32) else c)"

lemma ord_lower_char: "ord (lower_char c) = (if is_upper c then ord c + 32 else ord c)"
  by (auto simp: lower_char_def is_upper_def)

lemma ord_upper_char: "ord (upper_char c) = (if is_lower c then ord c - 32 else ord c)"
  by (auto simp: upper_char_def is_lower_def)

lemma char_eq_ord: "c = d \<longleftrightarrow> ord c = ord d"
  by simp

lemma lower_char_idem [simp]: "lower_char (lower_char c) = lower_char c"
  by (simp add: char_eq_ord ord_lower_char is_upper_def del: of_char_eq_iff)

lemma upper_char_idem [simp]: "upper_char (upper_char c) = upper_char c"
  by (auto simp: char_eq_ord ord_upper_char is_lower_def simp del: of_char_eq_iff)

lemma lower_upper_char [simp]: "lower_char (upper_char c) = lower_char c"
  by (auto simp: char_eq_ord ord_lower_char ord_upper_char is_lower_def is_upper_def
      simp del: of_char_eq_iff)

lemma is_space_lower [simp]: "is_space (lower_char c) = is_space c"
  by (auto simp: is_space_def ord_lower_char is_upper_def)

lemma is_space_upper [simp]: "is_space (upper_char c) = is_space c"
  by (auto simp: is_space_def ord_upper_char is_lower_def)

subsection \<open>Trimming and case\<close>

definition trim_left_by :: "(char \<Rightarrow> bool) \<Rightarrow> string \<Rightarrow> string" where
  "trim_left_by P s = dropWhile P s"

definition trim_right_by :: "(char \<Rightarrow> bool) \<Rightarrow> string \<Rightarrow> string" where
  "trim_right_by P s = rev (dropWhile P (rev s))"

text \<open>\<^verbatim>\<open>strings.TrimSpace\<close>, \<^verbatim>\<open>strings.Trim\<close>, \<^verbatim>\<open>strings.TrimRight\<close>.\<close>

definition trim_space :: "string \<Rightarrow> string" where
  "trim_space s = trim_right_by is_space (trim_left_by is_space s)"

definition trim_cutset :: "string \<Rightarrow> string \<Rightarrow> string" where
  "trim_cutset cs s = trim_right_by (\<lambda>c. c \<in> set cs) (trim_left_by (\<lambda>c. c \<in> set cs) s)"

definition trim_right_cutset :: "string \<Rightarrow> string \<Rightarrow> string" where
  "trim_right_cutset cs s = trim_right_by (\<lambda>c. c \<in> set cs) s"

definition to_lower :: "string \<Rightarrow> string" where
  "to_lower s = map lower_char s"

definition to_upper :: "string \<Rightarrow> string" where
  "to_upper s = map upper_char s"

definition equal_fold :: "string \<Rightarrow> string \<Rightarrow> bool" where
  "equal_fold s t \<longleftrightarrow> to_lower s = to_lower t"

lemma trim_left_by_idem [simp]: "trim_left_by P (trim_left_by P s) = trim_left_by P s"
  by (simp add: trim_left_by_def)

lemma trim_right_by_idem [simp]: "trim_right_by P (trim_right_by P s) = trim_right_by P s"
  by (simp add: trim_right_by_def)

lemma trim_right_by_Nil [simp]: "trim_right_by P [] = []"
  by (simp add: trim_right_by_def)

lemma trim_left_by_Nil [simp]: "trim_left_by P [] = []"
  by (simp add: trim_left_by_def)

lemma trim_right_by_Cons:
  "trim_right_by P (c # s) =
     (if P c \<and> trim_right_by P s = [] then [] else c # trim_right_by P s)"
  by (auto simp: trim_right_by_def dropWhile_append)

lemma trim_right_by_hd: "trim_right_by P (c # s) \<noteq> [] \<Longrightarrow> hd (trim_right_by P (c # s)) = c"
  by (auto simp: trim_right_by_Cons)

lemma trim_left_right_commute:
  "trim_left_by P (trim_right_by P s) = trim_right_by P (trim_left_by P s)"
proof (induction s)
  case (Cons c s)
  then show ?case
    by (auto simp: trim_left_by_def trim_right_by_Cons)
qed simp

lemma trim_space_idem [simp]: "trim_space (trim_space s) = trim_space s"
  by (simp add: trim_space_def trim_left_right_commute)

lemma trim_space_Nil [simp]: "trim_space [] = []"
  by (simp add: trim_space_def)

lemma trim_right_by_last: "trim_right_by P s \<noteq> [] \<Longrightarrow> \<not> P (last (trim_right_by P s))"
  by (metis (no_types, lifting) hd_dropWhile last_rev rev_is_Nil_conv trim_right_by_def)

lemma trim_right_by_set: "set (trim_right_by P s) \<subseteq> set s"
  unfolding trim_right_by_def by (metis set_dropWhileD set_rev subsetI)

lemma trim_space_set: "set (trim_space s) \<subseteq> set s"
  unfolding trim_space_def trim_left_by_def
  by (meson set_dropWhileD subset_iff trim_right_by_set)

lemma trim_space_id:
  "(\<forall>c \<in> set s. \<not> is_space c) \<Longrightarrow> trim_space s = s"
  by (induction s)
    (auto simp: trim_space_def trim_left_by_def trim_right_by_Cons
      dest: arg_cong[where f = "trim_right_by is_space"] split: if_splits)

lemma trim_space_ends:
  assumes "s \<noteq> []" and "\<not> is_space (hd s)" and "\<not> is_space (last s)"
  shows "trim_space s = s"
proof -
  have "dropWhile is_space s = s" using assms(1,2) by (cases s) auto
  moreover have "dropWhile is_space (rev s) = rev s"
    using assms(1,3) by (cases s rule: rev_cases) auto
  ultimately show ?thesis
    by (simp add: trim_space_def trim_left_by_def trim_right_by_def)
qed

lemma to_lower_eq_self: "to_lower s = s \<longleftrightarrow> (\<forall>c \<in> set s. lower_char c = c)"
  by (induction s) (auto simp: to_lower_def)

lemma to_lower_Nil [simp]: "to_lower [] = []" "to_lower s = [] \<longleftrightarrow> s = []"
  by (simp_all add: to_lower_def)

lemma to_upper_Nil [simp]: "to_upper [] = []" "to_upper s = [] \<longleftrightarrow> s = []"
  by (simp_all add: to_upper_def)

lemma to_lower_idem [simp]: "to_lower (to_lower s) = to_lower s"
  by (simp add: to_lower_def comp_def)

lemma to_upper_idem [simp]: "to_upper (to_upper s) = to_upper s"
  by (simp add: to_upper_def comp_def)

lemma trim_space_to_lower: "trim_space (to_lower s) = to_lower (trim_space s)"
  by (simp add: trim_space_def to_lower_def trim_right_by_def trim_left_by_def
      dropWhile_map rev_map comp_def)

lemma trim_space_to_upper: "trim_space (to_upper s) = to_upper (trim_space s)"
  by (simp add: trim_space_def to_upper_def trim_right_by_def trim_left_by_def
      dropWhile_map rev_map comp_def)

subsection \<open>Prefixes, suffixes and substrings\<close>

definition has_prefix :: "string \<Rightarrow> string \<Rightarrow> bool" where
  "has_prefix s p \<longleftrightarrow> prefix p s"

definition has_suffix :: "string \<Rightarrow> string \<Rightarrow> bool" where
  "has_suffix s p \<longleftrightarrow> suffix p s"

definition trim_prefix :: "string \<Rightarrow> string \<Rightarrow> string" where
  "trim_prefix s p = (if has_prefix s p then drop (length p) s else s)"

definition trim_suffix :: "string \<Rightarrow> string \<Rightarrow> string" where
  "trim_suffix s p = (if has_suffix s p then take (length s - length p) s else s)"

fun contains_str :: "string \<Rightarrow> string \<Rightarrow> bool" where
  "contains_str [] sub \<longleftrightarrow> sub = []"
| "contains_str (c # s) sub \<longleftrightarrow> has_prefix (c # s) sub \<or> contains_str s sub"

definition contains_char :: "string \<Rightarrow> char \<Rightarrow> bool" where
  "contains_char s c \<longleftrightarrow> c \<in> set s"

definition count_char :: "string \<Rightarrow> char \<Rightarrow> nat" where
  "count_char s c = length (filter (\<lambda>d. d = c) s)"

text \<open>
  \<^verbatim>\<open>strings.Cut\<close> with a one-byte separator (also \<^verbatim>\<open>IndexByte\<close> followed by slicing):
  the part before the first separator and the part after it.
\<close>

fun str_cut :: "char \<Rightarrow> string \<Rightarrow> (string \<times> string) option" where
  "str_cut c [] = None"
| "str_cut c (d # s) =
     (if d = c then Some ([], s) else map_option (\<lambda>(a, b). (d # a, b)) (str_cut c s))"

text \<open>\<^verbatim>\<open>strings.Split\<close> with a one-byte separator, and \<^verbatim>\<open>strings.Join\<close>.\<close>

fun split_on :: "char \<Rightarrow> string \<Rightarrow> string list" where
  "split_on c [] = [[]]"
| "split_on c (d # s) =
     (if d = c then [] # split_on c s
      else (case split_on c s of [] \<Rightarrow> [[d]] | p # ps \<Rightarrow> (d # p) # ps))"

fun join :: "string \<Rightarrow> string list \<Rightarrow> string" where
  "join sep [] = []"
| "join sep [p] = p"
| "join sep (p # q # ps) = p @ sep @ join sep (q # ps)"

definition replace_char :: "char \<Rightarrow> char \<Rightarrow> string \<Rightarrow> string" where
  "replace_char a b s = map (\<lambda>c. if c = a then b else c) s"

text \<open>\<^verbatim>\<open>strings.Fields\<close>: the maximal runs of non-space bytes.\<close>

fun str_fields_acc :: "string \<Rightarrow> string \<Rightarrow> string list" where
  "str_fields_acc acc [] = (if acc = [] then [] else [rev acc])"
| "str_fields_acc acc (c # s) =
     (if is_space c then (if acc = [] then str_fields_acc [] s else rev acc # str_fields_acc [] s)
      else str_fields_acc (c # acc) s)"

definition str_fields :: "string \<Rightarrow> string list" where
  "str_fields s = str_fields_acc [] s"

lemma str_cut_Some:
  "str_cut c s = Some (a, b) \<longleftrightarrow> s = a @ c # b \<and> c \<notin> set a"
proof (induction s arbitrary: a)
  case (Cons d s)
  then show ?case
    by (cases a) (auto split: option.splits)
qed simp

lemma str_cut_None: "str_cut c s = None \<longleftrightarrow> c \<notin> set s"
  by (induction s) auto

lemma str_cut_app [simp]: "c \<notin> set a \<Longrightarrow> str_cut c (a @ c # b) = Some (a, b)"
  by (simp add: str_cut_Some)

lemma split_on_nonempty [simp]: "split_on c s \<noteq> []"
  by (induction s) (auto split: list.splits)

lemma split_on_no_sep: "p \<in> set (split_on c s) \<Longrightarrow> c \<notin> set p"
proof (induction s arbitrary: p)
  case (Cons d s)
  then show ?case
    by (cases "split_on c s") (auto split: if_splits)
qed simp

lemma split_on_single: "c \<notin> set s \<Longrightarrow> split_on c s = [s]"
  by (induction s) auto

lemma split_on_app: "c \<notin> set a \<Longrightarrow> split_on c (a @ c # b) = a # split_on c b"
  by (induction a) auto

lemma join_split_on [simp]: "join [c] (split_on c s) = s"
proof (induction s)
  case (Cons d s)
  then show ?case
    by (cases "split_on c s" rule: list.exhaust; cases "tl (split_on c s)") auto
qed simp

lemma split_on_join:
  "ps \<noteq> [] \<Longrightarrow> \<forall>p \<in> set ps. c \<notin> set p \<Longrightarrow> split_on c (join [c] ps) = ps"
  by (induction "[c]" ps rule: join.induct) (auto simp: split_on_single split_on_app)

lemma length_split_on: "length (split_on c s) = Suc (count_char s c)"
  by (induction s) (auto simp: count_char_def split: list.splits)


lemma to_lower_app [simp]: "to_lower (s @ t) = to_lower s @ to_lower t"
  by (simp add: to_lower_def)

lemma lower_char_colon: "lower_char c = CHR '':'' \<longleftrightarrow> c = CHR '':''"
  by (auto simp: char_eq_ord ord_lower_char is_upper_def simp del: of_char_eq_iff)

lemma count_char_to_lower: "count_char (to_lower s) CHR '':'' = count_char s CHR '':''"
  by (induction s) (auto simp: count_char_def to_lower_def lower_char_colon)

lemma count_char_pos: "0 < count_char s c \<Longrightarrow> c \<in> set s"
  by (induction s) (auto simp: count_char_def split: if_splits)

lemma contains_str_sublist: "contains_str s sub \<longleftrightarrow> sublist sub s"
proof (induction s)
  case (Cons c s)
  then show ?case
    by (simp only: contains_str.simps has_prefix_def sublist_Cons_right)
qed simp

lemma contains_str_iff: "contains_str s sub \<longleftrightarrow> (\<exists>a b. s = a @ sub @ b)"
  by (simp add: contains_str_sublist sublist_def)

lemma str_fields_acc_nonempty:
  "p \<in> set (str_fields_acc acc s) \<Longrightarrow> \<forall>c \<in> set acc. \<not> is_space c \<Longrightarrow>
   p \<noteq> [] \<and> (\<forall>c \<in> set p. \<not> is_space c)"
proof (induction s arbitrary: acc)
  case Nil
  then show ?case by (cases "acc = []") auto
next
  case (Cons c s)
  show ?case
  proof (cases "is_space c")
    case True
    then show ?thesis
      using Cons.prems Cons.IH[of "[]"] by (cases "acc = []") auto
  next
    case False
    then show ?thesis
      using Cons.prems by (intro Cons.IH[of "c # acc"]) auto
  qed
qed

lemma str_fields_member: "p \<in> set (str_fields s) \<Longrightarrow> p \<noteq> [] \<and> (\<forall>c \<in> set p. \<not> is_space c)"
  unfolding str_fields_def by (rule str_fields_acc_nonempty) auto

subsection \<open>Numbers\<close>

text \<open>
  \<^verbatim>\<open>strconv.Itoa\<close> and \<^verbatim>\<open>strconv.Atoi\<close>. \<open>Atoi\<close> takes an optional sign and decimal
  digits and fails outside the range of a 64-bit \<^verbatim>\<open>int\<close>.
\<close>

definition digit_char :: "nat \<Rightarrow> char" where
  "digit_char d = char_of (48 + d)"

definition digit_val :: "char \<Rightarrow> nat" where
  "digit_val c = ord c - 48"

fun digits_of :: "nat \<Rightarrow> string" where
  "digits_of n =
     (if n < 10 then [digit_char n] else digits_of (n div 10) @ [digit_char (n mod 10)])"

declare digits_of.simps [simp del]

definition itoa :: "int \<Rightarrow> string" where
  "itoa i = (if i < 0 then CHR ''-'' # digits_of (nat (- i)) else digits_of (nat i))"

definition digits_val :: "string \<Rightarrow> nat" where
  "digits_val s = foldl (\<lambda>n c. 10 * n + digit_val c) 0 s"

definition all_digits :: "string \<Rightarrow> bool" where
  "all_digits s \<longleftrightarrow> s \<noteq> [] \<and> list_all is_digit s"

definition strip_sign :: "string \<Rightarrow> bool \<times> string" where
  "strip_sign s =
     (case s of
        [] \<Rightarrow> (False, [])
      | c # r \<Rightarrow> if c = CHR ''-'' then (True, r) else if c = CHR ''+'' then (False, r)
                else (False, s))"

definition atoi :: "string \<Rightarrow> int option" where
  "atoi s =
     (let (neg, d) = strip_sign s in
      if \<not> all_digits d then None
      else let v = (if neg then - int (digits_val d) else int (digits_val d)) in
           if v < - (2 ^ 63) \<or> 2 ^ 63 \<le> v then None else Some v)"

lemma digit_char_props:
  assumes "d < 10"
  shows "is_digit (digit_char d)" and "digit_val (digit_char d) = d"
  using assms by (simp_all add: is_digit_def digit_char_def digit_val_def)

lemma digits_of_digits: "all_digits (digits_of n)"
proof (induction n rule: digits_of.induct)
  case (1 n)
  then show ?case
    by (subst digits_of.simps) (auto simp: all_digits_def digit_char_props)
qed

lemma digits_val_snoc: "digits_val (s @ [c]) = 10 * digits_val s + digit_val c"
  by (simp add: digits_val_def)

lemma digits_val_digits_of [simp]: "digits_val (digits_of n) = n"
proof (induction n rule: digits_of.induct)
  case (1 n)
  show ?case
  proof (cases "n < 10")
    case True
    then show ?thesis
      by (subst digits_of.simps) (simp add: digits_val_def digit_char_props)
  next
    case False
    then show ?thesis
      by (subst digits_of.simps) (simp add: digits_val_snoc digit_char_props 1)
  qed
qed

lemma strip_sign_digits: "all_digits s \<Longrightarrow> strip_sign s = (False, s)"
  by (cases s) (auto simp: strip_sign_def all_digits_def is_digit_def)

lemma atoi_itoa: "- (2 ^ 63) \<le> i \<Longrightarrow> i < 2 ^ 63 \<Longrightarrow> atoi (itoa i) = Some i"
proof (cases "i < 0")
  case True
  assume "- (2 ^ 63) \<le> i" "i < 2 ^ 63"
  moreover have "strip_sign (itoa i) = (True, digits_of (nat (- i)))"
    using True by (simp add: itoa_def strip_sign_def)
  ultimately show ?thesis
    using True by (simp add: atoi_def digits_of_digits)
next
  case False
  assume "- (2 ^ 63) \<le> i" "i < 2 ^ 63"
  moreover have "strip_sign (itoa i) = (False, digits_of (nat i))"
    using False by (simp add: itoa_def strip_sign_digits digits_of_digits)
  ultimately show ?thesis
    using False by (simp add: atoi_def digits_of_digits)
qed

lemma itoa_chars: "c \<in> set (itoa i) \<Longrightarrow> is_digit c \<or> c = CHR ''-''"
  using digits_of_digits[of "nat i"] digits_of_digits[of "nat (- i)"]
  by (auto simp: itoa_def all_digits_def list_all_iff split: if_splits)

lemma trim_space_itoa [simp]: "trim_space (itoa i) = itoa i"
  by (rule trim_space_id) (auto simp: is_space_def is_digit_def dest: itoa_chars)

lemma itoa_no_minus: "0 \<le> i \<Longrightarrow> CHR ''-'' \<notin> set (itoa i)"
  using digits_of_digits[of "nat i"]
  by (auto simp: itoa_def all_digits_def list_all_iff is_digit_def)

lemma digits_of_inj: "digits_of m = digits_of n \<longleftrightarrow> m = n"
  by (metis digits_val_digits_of)

lemma digits_of_not_minus: "digits_of m \<noteq> CHR ''-'' # s"
  using digits_of_digits[of m] by (auto simp: all_digits_def is_digit_def)

lemma itoa_inj: "itoa i = itoa j \<longleftrightarrow> i = j"
  using digits_of_not_minus digits_of_not_minus[THEN not_sym]
  by (auto simp: itoa_def digits_of_inj)

subsection \<open>Quoting, header names, replacement\<close>

text \<open>
  \<^verbatim>\<open>fmt\<close>'s \<^verbatim>\<open>%q\<close> (\<^verbatim>\<open>strconv.Quote\<close>); bytes outside printable ASCII are written as
  the hexadecimal escapes Go uses for bytes that are not valid UTF-8.
\<close>

definition hex_char :: "nat \<Rightarrow> char" where
  "hex_char n = (if n < 10 then char_of (48 + n) else char_of (87 + n))"

definition quote_char :: "char \<Rightarrow> string" where
  "quote_char c =
     (if c = CHR 0x22 then [CHR 0x5C, CHR 0x22]
      else if c = CHR 0x5C then [CHR 0x5C, CHR 0x5C]
      else if 32 \<le> ord c \<and> ord c < 127 then [c]
      else if ord c = 7 then [CHR 0x5C, CHR ''a'']
      else if ord c = 8 then [CHR 0x5C, CHR ''b'']
      else if ord c = 12 then [CHR 0x5C, CHR ''f'']
      else if ord c = 10 then [CHR 0x5C, CHR ''n'']
      else if ord c = 13 then [CHR 0x5C, CHR ''r'']
      else if ord c = 9 then [CHR 0x5C, CHR ''t'']
      else if ord c = 11 then [CHR 0x5C, CHR ''v'']
      else [CHR 0x5C, CHR ''x'', hex_char (ord c div 16), hex_char (ord c mod 16)])"

definition go_quote :: "string \<Rightarrow> string" where
  "go_quote s = [CHR 0x22] @ concat (map quote_char s) @ [CHR 0x22]"

text \<open>\<^verbatim>\<open>textproto.CanonicalMIMEHeaderKey\<close>.\<close>

definition is_token_char :: "char \<Rightarrow> bool" where
  "is_token_char c \<longleftrightarrow> is_digit c \<or> is_upper c \<or> is_lower c \<or> c \<in> set ''!#$%&*+-.^_|~'' \<or>
     ord c = 39 \<or> ord c = 96"

fun canonical_from :: "bool \<Rightarrow> string \<Rightarrow> string" where
  "canonical_from up [] = []"
| "canonical_from up (c # s) =
     (let c' = (if up then upper_char c else lower_char c) in
      c' # canonical_from (c' = CHR ''-'') s)"

definition canonical_mime_header_key :: "string \<Rightarrow> string" where
  "canonical_mime_header_key s =
     (if s = [] \<or> \<not> list_all is_token_char s then s else canonical_from True s)"

text \<open>\<^verbatim>\<open>strings.ReplaceAll\<close> for a non-empty pattern.\<close>

function replace_all :: "string \<Rightarrow> string \<Rightarrow> string \<Rightarrow> string" where
  "replace_all old new s =
     (if s = [] \<or> old = [] then s
      else if has_prefix s old then new @ replace_all old new (drop (length old) s)
      else hd s # replace_all old new (tl s))"
  by auto
termination
  by (relation "measure (\<lambda>(old, new, s). length s)")
    (auto simp: has_prefix_def diff_less)

declare replace_all.simps [simp del]

lemma canonical_from_idem: "canonical_from b (canonical_from b s) = canonical_from b s"
  by (induction b s rule: canonical_from.induct) (auto simp: Let_def split: if_splits)

end
