(* ===== verification/Go_Net.thy ===== *)
theory Go_Net
  imports Go_Strings "HOL-Library.Word"
begin

unbundle bit_operations_syntax

section \<open>Package net: addresses, networks and host:port\<close>

text \<open>
  The parts of \<^verbatim>\<open>net\<close> and \<^verbatim>\<open>net/netip\<close> that the policy, the manager and the supervisor
  call. An address is a list of 4 or 16 bytes, as \<^verbatim>\<open>net.IP\<close> is; \<open>parse_ip\<close> is
  \<^verbatim>\<open>net.ParseIP\<close> (always the 16-byte form), \<open>ip_contains\<close> is \<^verbatim>\<open>IPNet.Contains\<close>,
  \<open>split_host_port\<close> is \<^verbatim>\<open>net.SplitHostPort\<close>.
\<close>

type_synonym byte = "8 word"
type_synonym ip = "byte list"

record ipnet =
  net_ip :: ip
  net_mask :: "byte list"

subsection \<open>Parsing addresses\<close>

definition parse_octet :: "string \<Rightarrow> byte option" where
  "parse_octet s =
     (if all_digits s \<and> (length s = 1 \<or> hd s \<noteq> CHR ''0'') \<and> digits_val s \<le> 255
      then Some (of_nat (digits_val s)) else None)"

definition parse_ipv4 :: "string \<Rightarrow> byte list option" where
  "parse_ipv4 s =
     (case map parse_octet (split_on CHR ''.'' s) of
        [Some a, Some b, Some c, Some d] \<Rightarrow> Some [a, b, c, d]
      | _ \<Rightarrow> None)"

definition hex_val :: "char \<Rightarrow> nat option" where
  "hex_val c =
     (if is_digit c then Some (ord c - 48)
      else if 97 \<le> ord c \<and> ord c \<le> 102 then Some (ord c - 87)
      else if 65 \<le> ord c \<and> ord c \<le> 70 then Some (ord c - 55)
      else None)"

definition hex_number :: "string \<Rightarrow> nat" where
  "hex_number s = foldl (\<lambda>n c. 16 * n + the (hex_val c)) 0 s"

definition hex_run :: "string \<Rightarrow> string" where
  "hex_run s = takeWhile (\<lambda>c. hex_val c \<noteq> None) s"

definition chunk_bytes :: "nat \<Rightarrow> byte list" where
  "chunk_bytes n = [of_nat (n div 256), of_nat (n mod 256)]"

text \<open>
  The loop of \<^verbatim>\<open>parseIPv6\<close>: the bytes read so far, the position of the ellipsis and the
  rest of the text. At most eight groups fit, so eight rounds are the whole loop; what
  remains unread after them is an error. The result is the bytes, the ellipsis and the rest.
\<close>

fun ipv6_groups ::
  "nat \<Rightarrow> byte list \<Rightarrow> nat option \<Rightarrow> string \<Rightarrow> (byte list \<times> nat option \<times> string) option" where
  "ipv6_groups 0 bs el s = Some (bs, el, s)"
| "ipv6_groups (Suc n) bs el s =
     (let g = hex_run s; r = drop (length g) s in
      if g = [] \<or> 4 < length g then None
      else if r \<noteq> [] \<and> hd r = CHR ''.'' then
        (if (el = None \<and> length bs \<noteq> 12) \<or> 16 < length bs + 4 then None
         else case parse_ipv4 s of None \<Rightarrow> None | Some v4 \<Rightarrow> Some (bs @ v4, el, []))
      else
        let bs' = bs @ chunk_bytes (hex_number g) in
        case r of
          [] \<Rightarrow> Some (bs', el, [])
        | c # r' \<Rightarrow>
            if c \<noteq> CHR '':'' \<or> r' = [] then None
            else if hd r' = CHR '':'' then
              (if el \<noteq> None then None
               else if tl r' = [] then Some (bs', Some (length bs'), [])
               else ipv6_groups n bs' (Some (length bs')) (tl r'))
            else ipv6_groups n bs' el r')"

definition parse_ipv6 :: "string \<Rightarrow> ip option" where
  "parse_ipv6 s =
     (let lead = has_prefix s ''::''; s' = (if lead then drop 2 s else s) in
      if lead \<and> s' = [] then Some (replicate 16 0)
      else case ipv6_groups 8 [] (if lead then Some 0 else None) s' of
             None \<Rightarrow> None
           | Some (bs, el, rest) \<Rightarrow>
               if rest \<noteq> [] then None
               else if length bs < 16 then
                 (case el of
                    None \<Rightarrow> None
                  | Some e \<Rightarrow> Some (take e bs @ replicate (16 - length bs) 0 @ drop e bs))
               else if el \<noteq> None then None
               else Some bs)"

definition v4_in_v6_prefix :: "byte list" where
  "v4_in_v6_prefix = replicate 10 0 @ [0xFF, 0xFF]"

text \<open>
  \<^verbatim>\<open>netip.ParseAddr\<close> for addresses without a zone; the callers in package \<^verbatim>\<open>net\<close> refuse
  every address with a zone. The result says whether the address has 32 or 128 bits.
\<close>

definition parse_addr :: "string \<Rightarrow> (nat \<times> ip) option" where
  "parse_addr s =
     (if CHR ''%'' \<in> set s then None
      else case dropWhile (\<lambda>c. c \<noteq> CHR ''.'' \<and> c \<noteq> CHR '':'') s of
             [] \<Rightarrow> None
           | c # _ \<Rightarrow>
               if c = CHR ''.'' then map_option (\<lambda>v. (32, v4_in_v6_prefix @ v)) (parse_ipv4 s)
               else map_option (\<lambda>v. (128, v)) (parse_ipv6 s))"

definition parse_ip :: "string \<Rightarrow> ip option" where
  "parse_ip s = map_option snd (parse_addr s)"

definition to4 :: "ip \<Rightarrow> ip option" where
  "to4 a = (if length a = 4 then Some a
            else if length a = 16 \<and> take 12 a = v4_in_v6_prefix then Some (drop 12 a)
            else None)"

subsection \<open>Networks\<close>

definition mask_byte :: "nat \<Rightarrow> byte" where
  "mask_byte k = (if 8 \<le> k then 0xFF else of_nat (256 - 2 ^ (8 - k)))"

definition cidr_mask :: "nat \<Rightarrow> nat \<Rightarrow> byte list" where
  "cidr_mask ones bits = map (\<lambda>i. mask_byte (ones - 8 * i)) [0..<bits div 8]"

definition ip_mask :: "ip \<Rightarrow> byte list \<Rightarrow> ip" where
  "ip_mask a m =
     (let a' = (if length m = 4 \<and> length a = 16 \<and> take 12 a = v4_in_v6_prefix
                then drop 12 a else a) in
      if length a' \<noteq> length m then [] else map2 (AND) a' m)"

definition parse_cidr :: "string \<Rightarrow> ipnet result" where
  "parse_cidr s =
     (let bad = err (''invalid CIDR address: '' @ s) in
      case str_cut CHR ''/'' s of
        None \<Rightarrow> bad
      | Some (addr, m) \<Rightarrow>
          (case parse_addr addr of
             None \<Rightarrow> bad
           | Some (bits, a) \<Rightarrow>
               if \<not> all_digits m \<or> bits < digits_val m then bad
               else let mask = cidr_mask (digits_val m) bits in
                    ok \<lparr>net_ip = ip_mask a mask, net_mask = mask\<rparr>))"

definition network_number_and_mask :: "ipnet \<Rightarrow> (ip \<times> byte list) option" where
  "network_number_and_mask n =
     (let a = (case to4 (net_ip n) of Some v \<Rightarrow> v | None \<Rightarrow> net_ip n); m = net_mask n in
      if length a \<noteq> 4 \<and> length a \<noteq> 16 then None
      else if length m = 4 then (if length a = 4 then Some (a, m) else None)
      else if length m = 16 then Some (a, if length a = 4 then drop 12 m else m)
      else None)"

definition ip_contains :: "ipnet \<Rightarrow> ip \<Rightarrow> bool" where
  "ip_contains n a =
     (let a' = (case to4 a of Some v \<Rightarrow> v | None \<Rightarrow> a) in
      case network_number_and_mask n of
        None \<Rightarrow> a' = []
      | Some (nn, m) \<Rightarrow>
          length a' = length nn \<and> list_all (\<lambda>(x, y, k). x AND k = y AND k) (zip nn (zip a' m)))"

subsection \<open>host:port\<close>

definition last_colon :: "string \<Rightarrow> (string \<times> string) option" where
  "last_colon s = map_option (\<lambda>(a, b). (rev b, rev a)) (str_cut CHR '':'' (rev s))"

definition addr_error :: "string \<Rightarrow> string \<Rightarrow> error" where
  "addr_error addr why = ''address '' @ addr @ '': '' @ why"

definition split_host_port :: "string \<Rightarrow> (string \<times> string) result" where
  "split_host_port hp =
     (case last_colon hp of
        None \<Rightarrow> err (addr_error hp ''missing port in address'')
      | Some (before, port) \<Rightarrow>
          if hd hp = CHR ''['' then
            (case str_cut CHR '']'' hp of
               None \<Rightarrow> err (addr_error hp ''missing ']' in address'')
             | Some (a, rest) \<Rightarrow>
                 if rest = [] then err (addr_error hp ''missing port in address'')
                 else if a @ '']'' \<noteq> before then
                   (if hd rest = CHR '':'' then err (addr_error hp ''too many colons in address'')
                    else err (addr_error hp ''missing port in address''))
                 else if CHR ''['' \<in> set (tl hp) then
                   err (addr_error hp ''unexpected '[' in address'')
                 else if CHR '']'' \<in> set rest then
                   err (addr_error hp ''unexpected ']' in address'')
                 else ok (tl a, port))
          else if CHR '':'' \<in> set before then err (addr_error hp ''too many colons in address'')
          else if CHR ''['' \<in> set hp then err (addr_error hp ''unexpected '[' in address'')
          else if CHR '']'' \<in> set hp then err (addr_error hp ''unexpected ']' in address'')
          else ok (before, port))"

definition join_host_port :: "string \<Rightarrow> string \<Rightarrow> string" where
  "join_host_port host port =
     (if CHR '':'' \<in> set host then ''['' @ host @ '']:'' @ port else host @ '':'' @ port)"


subsection \<open>Facts the components use\<close>

lemma parse_ipv4_length: "parse_ipv4 s = Some v \<Longrightarrow> length v = 4"
  by (auto simp: parse_ipv4_def split: list.splits option.splits)

lemma chunk_bytes_length [simp]: "length (chunk_bytes n) = 2"
  by (simp add: chunk_bytes_def)

lemma ipv6_groups_bounds:
  assumes "ipv6_groups n bs el s = Some (bs', el', rest)"
    and "length bs + 2 * n = 16" and "\<And>e. el = Some e \<Longrightarrow> e \<le> length bs"
  shows "length bs' \<le> 16 \<and> (\<forall>e. el' = Some e \<longrightarrow> e \<le> length bs')"
  using assms
proof (induction n bs el s rule: ipv6_groups.induct)
  case (2 n bs el s)
  then show ?case
    by (fastforce simp: Let_def split: if_splits list.splits option.splits
        dest: parse_ipv4_length)
qed auto

lemma parse_ipv6_length: "parse_ipv6 s = Some a \<Longrightarrow> length a = 16"
  by (auto simp: parse_ipv6_def Let_def split: if_splits option.splits
      dest!: ipv6_groups_bounds)

lemma v4_in_v6_prefix_length [simp]: "length v4_in_v6_prefix = 12"
  by (simp add: v4_in_v6_prefix_def)

lemma parse_addr_cases:
  assumes "parse_addr s = Some (bits, a)"
  shows "(bits = 32 \<and> (\<exists>v. a = v4_in_v6_prefix @ v \<and> length v = 4)) \<or>
         (bits = 128 \<and> length a = 16)"
  using assms
  by (auto simp: parse_addr_def split: if_splits list.splits
      dest: parse_ipv4_length parse_ipv6_length)

lemma parse_ip_length: "parse_ip s = Some a \<Longrightarrow> length a = 16"
  using parse_addr_cases by (fastforce simp: parse_ip_def)

lemma cidr_mask_length [simp]: "length (cidr_mask n bits) = bits div 8"
  by (simp add: cidr_mask_def)

text \<open>A parsed network has an address of four or sixteen bytes and a mask of that length.\<close>

lemma parse_cidr_wf:
  assumes "parse_cidr s = Inr n"
  shows "length (net_ip n) = length (net_mask n) \<and> length (net_mask n) \<in> {4, 16}"
proof -
  from assms obtain addr m bits a where a: "parse_addr addr = Some (bits, a)"
    and n: "n = \<lparr>net_ip = ip_mask a (cidr_mask (digits_val m) bits),
                 net_mask = cidr_mask (digits_val m) bits\<rparr>"
    by (auto simp: parse_cidr_def Let_def split: option.splits if_splits)
  from parse_addr_cases[OF a] show ?thesis
    by (auto simp: n ip_mask_def Let_def)
qed

lemma and_mask_idem: "(x AND k) AND k = x AND (k::byte)"
  by (simp add: and.assoc)

lemma list_all_mask_self:
  "length a = length m \<Longrightarrow>
   list_all (\<lambda>(x, y, k). x AND k = y AND (k::byte)) (zip (map2 (AND) a m) (zip a m))"
  by (induction a m rule: list_induct2) (auto simp: and_mask_idem)

text \<open>
  An address written with a prefix length in four-byte form belongs to its own network.
\<close>

lemma parse_cidr_contains_self:
  assumes "parse_cidr s = Inr n" and "str_cut CHR ''/'' s = Some (addr, m)"
    and "parse_addr addr = Some (32, a)"
  shows "ip_contains n a"
proof -
  from parse_addr_cases[OF assms(3)] obtain v
    where a: "a = v4_in_v6_prefix @ v" "length v = 4" by auto
  let ?m = "cidr_mask (digits_val m) 32"
  from assms a have n: "n = \<lparr>net_ip = map2 (AND) v ?m, net_mask = ?m\<rparr>"
    by (auto simp: parse_cidr_def Let_def ip_mask_def split: if_splits)
  show ?thesis
    using a list_all_mask_self[of v ?m]
    by (simp add: n ip_contains_def network_number_and_mask_def to4_def Let_def)
qed

lemma str_cut_rev_last:
  "c \<notin> set b \<Longrightarrow> str_cut c (rev (a @ c # b)) = Some (rev b, rev a)"
  by (simp add: str_cut_Some)

lemma last_colon_app [simp]: "CHR '':'' \<notin> set b \<Longrightarrow> last_colon (a @ CHR '':'' # b) = Some (a, b)"
  using str_cut_rev_last[of "CHR '':''" b a] by (simp add: last_colon_def)

lemma last_colon_Some: "last_colon s = Some (a, b) \<Longrightarrow> s = a @ CHR '':'' # b \<and> CHR '':'' \<notin> set b"
  by (auto simp: last_colon_def str_cut_Some rev_swap)

lemma split_join_host_port:
  assumes "CHR ''['' \<notin> set host" "CHR '']'' \<notin> set host"
    and "CHR '':'' \<notin> set port" "CHR ''['' \<notin> set port" "CHR '']'' \<notin> set port"
  shows "split_host_port (join_host_port host port) = Inr (host, port)"
proof (cases "CHR '':'' \<in> set host")
  case True
  let ?hp = "(CHR ''['' # host @ '']'') @ CHR '':'' # port"
  have "last_colon ?hp = Some (CHR ''['' # host @ '']'', port)"
    using assms(3) by (rule last_colon_app)
  moreover have "str_cut CHR '']'' ?hp = Some (CHR ''['' # host, CHR '':'' # port)"
    using assms(2) by (simp add: str_cut_Some)
  ultimately show ?thesis
    using True assms by (simp add: join_host_port_def split_host_port_def)
next
  case False
  have "hd (host @ CHR '':'' # port) \<noteq> CHR ''[''"
    using assms(1) by (cases host) auto
  then show ?thesis
    using False assms by (simp add: join_host_port_def split_host_port_def)
qed

lemma split_host_port_shape:
  assumes "split_host_port hp = Inr (host, port)"
  shows "CHR '':'' \<notin> set port \<and> (hp = host @ CHR '':'' # port \<or>
         hp = CHR ''['' # host @ CHR '']'' # CHR '':'' # port)"
proof -
  from assms obtain before where lc: "last_colon hp = Some (before, port)"
    by (auto simp: split_host_port_def split: option.splits if_splits)
  note hp = last_colon_Some[OF lc]
  show ?thesis
  proof (cases "hd hp = CHR ''[''")
    case False
    then show ?thesis using assms lc hp
      by (auto simp: split_host_port_def split: if_splits)
  next
    case True
    with assms lc obtain a rest where c: "str_cut CHR '']'' hp = Some (a, rest)"
      and b: "a @ '']'' = before" and h: "host = tl a"
      by (auto simp: split_host_port_def split: option.splits if_splits)
    from c have "hp = a @ CHR '']'' # rest" by (simp add: str_cut_Some)
    with True have "a \<noteq> [] \<and> hd a = CHR ''[''" by (cases a) auto
    then have "a = CHR ''['' # host" using h by (cases a) auto
    with b hp show ?thesis by auto
  qed
qed

end
