(* ===== verification/Policy.thy ===== *)
theory Policy
  imports Go_Net
begin

section \<open>The egress policy: policy.go and policy\_eval.go\<close>

text \<open>
  Compilation of the user's rules (\<open>compilePolicy\<close>), normalisation of hostnames and CONNECT
  targets, the match functions of one compiled rule, and the four evaluations of a compiled
  policy: \<open>evaluate\<close>, \<open>evaluateRequest\<close>, \<open>evaluateDNS\<close> and \<open>evaluateConnect\<close>. A compiled
  regular expression is its \<^verbatim>\<open>MatchString\<close> predicate; \<^verbatim>\<open>regexp.Compile\<close> is the
  parameter \<open>re\<close> of the compilers. Every loop over the rules is a recursion with the loop's
  variables as arguments; the locale \<open>allow_scan\<close> states what such a loop promises and is
  interpreted for each of the four.
\<close>

subsection \<open>Data\<close>

type_synonym regexp = "string \<Rightarrow> bool"
type_synonym regexp_compile = "string \<Rightarrow> regexp result"
type_synonym http_header = "(string \<times> string list) list"

record PolicyRule =
  pr_HostPatterns :: "string list"
  pr_IPCIDRs :: "string list"
  pr_HTTPMethods :: "string list"
  pr_ConnectPorts :: "string list"
  pr_PathPatterns :: "string list"
  pr_HeaderPatterns :: "(string \<times> string list) list"
  pr_BodyPatterns :: "string list"

type_synonym NetworkPolicy = "PolicyRule list"

record portRange =
  range_start :: int
  range_end :: int

record compiledPolicyRule =
  hostPatterns :: "regexp list"
  ipCIDRs :: "ipnet list"
  httpMethods :: "string list"
  connectPorts :: "portRange list"
  pathPatterns :: "regexp list"
  headerPatterns :: "(string \<times> regexp list) list"
  bodyPatterns :: "regexp list"

type_synonym compiledPolicy = "compiledPolicyRule list"

record PolicyRequest =
  rq_Method :: string
  rq_Host :: string
  rq_Path :: string
  rq_Header :: http_header
  rq_Body :: string
  rq_BodyTooLarge :: bool

record policyEvaluation =
  Allowed :: bool
  Reasons :: "string list"

subsection \<open>Ports and hostnames\<close>

definition isIPv6Literal :: "string \<Rightarrow> bool" where
  "isIPv6Literal host \<longleftrightarrow> parse_ip host \<noteq> None \<and> contains_char host CHR '':''"

definition splitHostPortStrict :: "string \<Rightarrow> (string \<times> string) result" where
  "splitHostPortStrict hostport =
     (case split_host_port hostport of
        Inl e \<Rightarrow> err e
      | Inr (host, port) \<Rightarrow>
          (case atoi port of
             None \<Rightarrow> err (''invalid port '' @ go_quote port)
           | Some n \<Rightarrow> if n < 0 \<or> n > 65535 then err (''invalid port '' @ go_quote port)
                       else ok (host, port)))"

definition normalizePolicyHostname :: "string \<Rightarrow> string result" where
  "normalizePolicyHostname hostname =
     (let normalized = to_lower (trim_space hostname) in
      if normalized = [] then err ''request hostname is required''
      else if \<not> contains_char normalized CHR '':'' then ok normalized
      else if has_prefix normalized ''['' then
        (if has_suffix normalized '']'' then
           (let inner = trim_space (trim_prefix (trim_suffix normalized '']'') ''['') in
            if inner = [] then err ''request hostname is required''
            else if \<not> isIPv6Literal inner then err (''invalid host '' @ go_quote hostname)
            else ok inner)
         else
           (case splitHostPortStrict normalized of
              Inl e \<Rightarrow> err (''invalid host:port '' @ go_quote hostname)
            | Inr (h, p) \<Rightarrow>
                (let host = trim_space (to_lower h) in
                 if \<not> isIPv6Literal host then err (''invalid host '' @ go_quote hostname)
                 else ok host)))
      else if count_char normalized CHR '':'' = 1 then
        (case splitHostPortStrict normalized of
           Inl e \<Rightarrow> err (''invalid host:port '' @ go_quote hostname)
         | Inr (h, p) \<Rightarrow>
             (let host = to_lower (trim_space h) in
              if host = [] then err ''request hostname is required'' else ok host))
      else err (''invalid host '' @ go_quote hostname))"

definition parsePortNumber :: "string \<Rightarrow> int result" where
  "parsePortNumber s =
     (case atoi (trim_space s) of
        None \<Rightarrow> err (''invalid port '' @ go_quote s)
      | Some port \<Rightarrow> if port \<le> 0 \<or> port > 65535 then err (''invalid port '' @ go_quote s)
                     else ok port)"

definition parseConnectPortSpec :: "string \<Rightarrow> portRange result" where
  "parseConnectPortSpec spec =
     (let normalized = trim_space spec in
      if normalized = [] then err ''port spec cannot be empty''
      else if contains_char normalized CHR ''-'' then
        (case split_on CHR ''-'' normalized of
           [a, b] \<Rightarrow>
             res_bind (parsePortNumber a) (\<lambda>lo.
             res_bind (parsePortNumber b) (\<lambda>hi.
               if lo > hi then err (''invalid descending port range '' @ go_quote spec)
               else ok \<lparr>range_start = lo, range_end = hi\<rparr>))
         | _ \<Rightarrow> err (''invalid port range '' @ go_quote spec))
      else
        res_bind (parsePortNumber normalized)
          (\<lambda>port. ok \<lparr>range_start = port, range_end = port\<rparr>))"

fun matchConnectPort :: "portRange list \<Rightarrow> int \<Rightarrow> bool" where
  "matchConnectPort [] port \<longleftrightarrow> False"
| "matchConnectPort (a # ranges) port \<longleftrightarrow>
     (if port \<ge> range_start a \<and> port \<le> range_end a then True
      else matchConnectPort ranges port)"

definition splitConnectTarget :: "string \<Rightarrow> (string \<times> int) result" where
  "splitConnectTarget hostport =
     (case splitHostPortStrict (trim_space hostport) of
        Inl e \<Rightarrow> err ''CONNECT target must be host:port''
      | Inr (host, portText) \<Rightarrow>
          (let normalizedHost = to_lower (trim_space host) in
           if normalizedHost = [] then err ''CONNECT target host is required''
           else if contains_char normalizedHost CHR '':'' \<and> \<not> isIPv6Literal normalizedHost
           then err (''invalid CONNECT target host '' @ go_quote host)
           else case atoi portText of
                  None \<Rightarrow> err (''invalid CONNECT target port '' @ go_quote portText)
                | Some port \<Rightarrow>
                    if port = 0 then err (''invalid CONNECT target port '' @ go_quote portText)
                    else ok (normalizedHost, port)))"

subsection \<open>Compilation\<close>

definition compileRegexps ::
  "regexp_compile \<Rightarrow> string list \<Rightarrow> (string \<Rightarrow> error \<Rightarrow> error) \<Rightarrow> regexp list result" where
  "compileRegexps re patterns wrap = map_result (\<lambda>p. map_error (wrap p) (re p)) patterns"

fun compileHeaderValues ::
  "regexp_compile \<Rightarrow> nat \<Rightarrow> string \<Rightarrow> string \<Rightarrow> string list \<Rightarrow>
   (string \<times> regexp list) list \<Rightarrow> (string \<times> regexp list) list result" where
  "compileHeaderValues re i headerName name [] compiled = ok compiled"
| "compileHeaderValues re i headerName name (p # ps) compiled =
     (case re p of
        Inl e \<Rightarrow> err (''compile rule '' @ itoa (int i) @ '' header pattern '' @ go_quote p @
                      '' for '' @ go_quote headerName @ '': '' @ e)
      | Inr m \<Rightarrow>
          compileHeaderValues re i headerName name ps
            (gm_put name ((case map_of compiled name of None \<Rightarrow> [] | Some ms \<Rightarrow> ms) @ [m])
               compiled))"

fun compileHeaderPatterns ::
  "regexp_compile \<Rightarrow> nat \<Rightarrow> (string \<times> string list) list \<Rightarrow>
   (string \<times> regexp list) list \<Rightarrow> (string \<times> regexp list) list result" where
  "compileHeaderPatterns re i [] compiled = ok compiled"
| "compileHeaderPatterns re i ((headerName, vals) # rest) compiled =
     (let name = to_lower (trim_space (canonical_mime_header_key headerName)) in
      if name = [] then
        err (''rule '' @ itoa (int i) @ '' header pattern name cannot be empty'')
      else
        res_bind (compileHeaderValues re i headerName name vals compiled)
          (compileHeaderPatterns re i rest))"

definition compileMethods :: "nat \<Rightarrow> string list \<Rightarrow> string list result" where
  "compileMethods i methods =
     map_result
       (\<lambda>m. let normalized = to_upper (trim_space m) in
            if normalized = [] then
              err (''rule '' @ itoa (int i) @ '' HTTP method cannot be empty'')
            else ok normalized)
       methods"

definition compilePolicyRule ::
  "regexp_compile \<Rightarrow> nat \<Rightarrow> PolicyRule \<Rightarrow> compiledPolicyRule result" where
  "compilePolicyRule re i rule =
     (let ri = itoa (int i) in
      res_bind (compileMethods i (pr_HTTPMethods rule)) (\<lambda>methods.
      res_bind
        (compileRegexps re (pr_HostPatterns rule)
           (\<lambda>p e. ''compile rule '' @ ri @ '' host pattern '' @ go_quote p @ '': '' @ e)) (\<lambda>hosts.
      res_bind
        (map_result
           (\<lambda>c. map_error
                  (\<lambda>e. ''parse rule '' @ ri @ '' IP CIDR '' @ go_quote c @ '': '' @ e)
                  (parse_cidr (trim_space c)))
           (pr_IPCIDRs rule)) (\<lambda>cidrs.
      res_bind
        (map_result
           (\<lambda>s. map_error
                  (\<lambda>e. ''parse rule '' @ ri @ '' connect port spec '' @ go_quote s @ '': '' @ e)
                  (parseConnectPortSpec s))
           (pr_ConnectPorts rule)) (\<lambda>ports.
      res_bind
        (compileRegexps re (pr_PathPatterns rule)
           (\<lambda>p e. ''compile rule '' @ ri @ '' path pattern '' @ go_quote p @ '': '' @ e)) (\<lambda>paths.
      res_bind (compileHeaderPatterns re i (pr_HeaderPatterns rule) []) (\<lambda>headers.
      res_bind
        (compileRegexps re (pr_BodyPatterns rule)
           (\<lambda>p e. ''compile rule '' @ ri @ '' body pattern '' @ go_quote p @ '': '' @ e)) (\<lambda>bodies.
      ok \<lparr>hostPatterns = hosts, ipCIDRs = cidrs, httpMethods = remdups methods,
          connectPorts = ports, pathPatterns = paths, headerPatterns = headers,
          bodyPatterns = bodies\<rparr>))))))))"

definition compilePolicy :: "regexp_compile \<Rightarrow> NetworkPolicy \<Rightarrow> compiledPolicy result" where
  "compilePolicy re policy = map_result (\<lambda>(i, rule). compilePolicyRule re i rule)
     (enumerate 0 policy)"


subsection \<open>Matching one compiled rule\<close>

definition hasHTTPMethods :: "compiledPolicyRule \<Rightarrow> bool" where
  "hasHTTPMethods r \<longleftrightarrow> length (httpMethods r) > 0"

definition hasConnectPorts :: "compiledPolicyRule \<Rightarrow> bool" where
  "hasConnectPorts r \<longleftrightarrow> length (connectPorts r) > 0"

definition hasPathPatterns :: "compiledPolicyRule \<Rightarrow> bool" where
  "hasPathPatterns r \<longleftrightarrow> length (pathPatterns r) > 0"

definition hasHeaderPatterns :: "compiledPolicyRule \<Rightarrow> bool" where
  "hasHeaderPatterns r \<longleftrightarrow> length (headerPatterns r) > 0"

definition hasBodyPatterns :: "compiledPolicyRule \<Rightarrow> bool" where
  "hasBodyPatterns r \<longleftrightarrow> length (bodyPatterns r) > 0"

definition hasIPCIDRs :: "compiledPolicyRule \<Rightarrow> bool" where
  "hasIPCIDRs r \<longleftrightarrow> length (ipCIDRs r) > 0"

definition hostnameDeniedReason :: "string \<Rightarrow> string" where
  "hostnameDeniedReason host = ''hostname '' @ host @ '' is not allowed by policy''"

fun any_regexp :: "regexp list \<Rightarrow> string \<Rightarrow> bool" where
  "any_regexp [] s \<longleftrightarrow> False"
| "any_regexp (m # ms) s \<longleftrightarrow> (if m s then True else any_regexp ms s)"

fun any_network :: "ipnet list \<Rightarrow> ip \<Rightarrow> bool" where
  "any_network [] a \<longleftrightarrow> False"
| "any_network (n # ns) a \<longleftrightarrow> (if ip_contains n a then True else any_network ns a)"

definition matchesHostDetailed :: "compiledPolicyRule \<Rightarrow> string \<Rightarrow> bool \<times> string" where
  "matchesHostDetailed r host =
     (let hostMatched = (hostPatterns r = [] \<or> any_regexp (hostPatterns r) host) in
      if \<not> hostMatched then (False, hostnameDeniedReason host)
      else if ipCIDRs r = [] then (True, [])
      else case parse_ip host of
             None \<Rightarrow> (False, hostnameDeniedReason host)
           | Some a \<Rightarrow>
               if any_network (ipCIDRs r) a then (True, [])
               else (False, ''ip literal '' @ host @ '' is not allowed by policy''))"

definition matchesHost :: "compiledPolicyRule \<Rightarrow> string \<Rightarrow> bool" where
  "matchesHost r host = fst (matchesHostDetailed r host)"

definition matchesMethod :: "compiledPolicyRule \<Rightarrow> string \<Rightarrow> bool" where
  "matchesMethod r m \<longleftrightarrow> (if httpMethods r = [] then True else m \<in> set (httpMethods r))"

definition matchesPath :: "compiledPolicyRule \<Rightarrow> string \<Rightarrow> bool" where
  "matchesPath r path \<longleftrightarrow> (if pathPatterns r = [] then True else any_regexp (pathPatterns r) path)"

definition normalizedHeaders :: "http_header \<Rightarrow> http_header" where
  "normalizedHeaders headers =
     foldl (\<lambda>m (name, vals). gm_put (to_lower (canonical_mime_header_key name)) vals m) [] headers"

fun headerValueMatches :: "regexp list \<Rightarrow> string list \<Rightarrow> bool" where
  "headerValueMatches rules [] \<longleftrightarrow> False"
| "headerValueMatches rules (v # vs) \<longleftrightarrow>
     (if any_regexp rules v then True else headerValueMatches rules vs)"

fun matchHeaderNames ::
  "(string \<times> regexp list) list \<Rightarrow> http_header \<Rightarrow> string list \<Rightarrow> bool \<times> string" where
  "matchHeaderNames pats normalized [] = (True, [])"
| "matchHeaderNames pats normalized (name # names) =
     (let rules = (case map_of pats name of None \<Rightarrow> [] | Some ms \<Rightarrow> ms);
          vals = (case map_of normalized name of None \<Rightarrow> [] | Some vs \<Rightarrow> vs) in
      if \<not> headerValueMatches rules vals
      then (False, ''header '' @ name @ '' is not allowed by policy'')
      else matchHeaderNames pats normalized names)"

definition matchesHeadersDetailed :: "compiledPolicyRule \<Rightarrow> http_header \<Rightarrow> bool \<times> string" where
  "matchesHeadersDetailed r headers =
     (if headerPatterns r = [] then (True, [])
      else matchHeaderNames (headerPatterns r) (normalizedHeaders headers)
             (sort (map fst (headerPatterns r))))"

definition matchesHeaders :: "compiledPolicyRule \<Rightarrow> http_header \<Rightarrow> bool" where
  "matchesHeaders r headers = fst (matchesHeadersDetailed r headers)"

definition matchesBodyDetailed :: "compiledPolicyRule \<Rightarrow> string \<Rightarrow> bool \<times> string" where
  "matchesBodyDetailed r body =
     (if bodyPatterns r = [] then (True, [])
      else if any_regexp (bodyPatterns r) body then (True, [])
      else (False, ''request body is not allowed by policy''))"

definition matchesBody :: "compiledPolicyRule \<Rightarrow> string \<Rightarrow> bool" where
  "matchesBody r body = fst (matchesBodyDetailed r body)"

subsection \<open>Evaluating a compiled policy\<close>

definition allowedEvaluation :: policyEvaluation where
  "allowedEvaluation = \<lparr>Allowed = True, Reasons = []\<rparr>"

definition deniedEvaluation :: "string \<Rightarrow> policyEvaluation" where
  "deniedEvaluation reason = \<lparr>Allowed = False, Reasons = [reason]\<rparr>"

definition firstReasonAsError :: "policyEvaluation \<Rightarrow> error option" where
  "firstReasonAsError e =
     (if Allowed e then None
      else case Reasons e of
             r # _ \<Rightarrow> Some r
           | [] \<Rightarrow> Some ''request is denied by policy'')"

definition evaluationFromError :: "error option \<Rightarrow> policyEvaluation" where
  "evaluationFromError e =
     (case e of Some m \<Rightarrow> deniedEvaluation m | None \<Rightarrow> allowedEvaluation)"

text \<open>The idiom \<^verbatim>\<open>if firstReason == "" { firstReason = reason }\<close> of every loop.\<close>

definition keepFirst :: "string \<Rightarrow> string \<Rightarrow> string" where
  "keepFirst firstReason reason = (if firstReason = [] then reason else firstReason)"

definition denyWith :: "string \<Rightarrow> string \<Rightarrow> policyEvaluation" where
  "denyWith dflt firstReason =
     (if firstReason \<noteq> [] then deniedEvaluation firstReason else deniedEvaluation dflt)"

fun evaluateConnectLoop ::
  "string \<Rightarrow> int \<Rightarrow> bool \<Rightarrow> string \<Rightarrow> compiledPolicyRule list \<Rightarrow> policyEvaluation" where
  "evaluateConnectLoop host port transparent firstReason [] =
     denyWith (if transparent then ''no policy rule matched connect target''
               else ''no policy rule matched CONNECT target'') firstReason"
| "evaluateConnectLoop host port transparent firstReason (r # rs) =
     (if hasHTTPMethods r \<or> hasPathPatterns r \<or> hasHeaderPatterns r \<or> hasBodyPatterns r
      then evaluateConnectLoop host port transparent firstReason rs
      else if transparent \<and> hasConnectPorts r
      then evaluateConnectLoop host port transparent firstReason rs
      else case matchesHostDetailed r host of
        (False, reason) \<Rightarrow>
          evaluateConnectLoop host port transparent (keepFirst firstReason reason) rs
      | (True, _) \<Rightarrow>
          if \<not> transparent \<and> (connectPorts r = [] \<or> \<not> matchConnectPort (connectPorts r) port)
          then evaluateConnectLoop host port transparent
                 (keepFirst firstReason (''CONNECT port '' @ itoa port @ '' is not allowed'')) rs
          else allowedEvaluation)"

definition evaluateConnect ::
  "compiledPolicy \<Rightarrow> string \<Rightarrow> int \<Rightarrow> bool \<Rightarrow> policyEvaluation" where
  "evaluateConnect p host port transparent =
     (if transparent then
        (case normalizePolicyHostname host of
           Inl e \<Rightarrow> evaluationFromError (Some e)
         | Inr normalized \<Rightarrow> evaluateConnectLoop normalized port transparent [] p)
      else
        (let normalized = to_lower (trim_space host) in
         if normalized = [] then deniedEvaluation ''CONNECT target host is required''
         else evaluateConnectLoop normalized port transparent [] p))"

fun evaluateLoop ::
  "string \<Rightarrow> string \<Rightarrow> string \<Rightarrow> compiledPolicyRule list \<Rightarrow> policyEvaluation" where
  "evaluateLoop m host firstReason [] = denyWith ''no policy rule matched request'' firstReason"
| "evaluateLoop m host firstReason (r # rs) =
     (if hasConnectPorts r \<or> hasPathPatterns r \<or> hasHeaderPatterns r \<or> hasBodyPatterns r
      then evaluateLoop m host firstReason rs
      else if \<not> matchesMethod r m
      then evaluateLoop m host
             (keepFirst firstReason (''method '' @ m @ '' is not allowed by policy'')) rs
      else case matchesHostDetailed r host of
        (False, reason) \<Rightarrow> evaluateLoop m host (keepFirst firstReason reason) rs
      | (True, _) \<Rightarrow> allowedEvaluation)"

definition evaluate :: "compiledPolicy \<Rightarrow> string \<Rightarrow> string \<Rightarrow> bool \<Rightarrow> policyEvaluation" where
  "evaluate p method0 hostname connect =
     (let m = to_upper (trim_space method0) in
      if m = [] then deniedEvaluation ''request method is required''
      else if connect \<and> m \<noteq> ''CONNECT''
      then deniedEvaluation ''connect requests must use CONNECT method''
      else if m = ''CONNECT'' \<and> \<not> connect
      then deniedEvaluation ''CONNECT method requires connect request type''
      else if connect then
        (case splitConnectTarget hostname of
           Inl e \<Rightarrow> evaluationFromError (Some e)
         | Inr (host, port) \<Rightarrow> evaluateConnect p host port False)
      else
        (case normalizePolicyHostname hostname of
           Inl e \<Rightarrow> evaluationFromError (Some e)
         | Inr host \<Rightarrow> evaluateLoop m host [] p))"

fun evaluateRequestLoop ::
  "string \<Rightarrow> string \<Rightarrow> string \<Rightarrow> PolicyRequest \<Rightarrow> bool \<times> string \<Rightarrow>
   compiledPolicyRule list \<Rightarrow> policyEvaluation" where
  "evaluateRequestLoop m host path req (bodyTooLarge, firstReason) [] =
     (if bodyTooLarge then deniedEvaluation ''request body exceeds inspection limit''
      else denyWith ''no policy rule matched request'' firstReason)"
| "evaluateRequestLoop m host path req (bodyTooLarge, firstReason) (r # rs) =
     (if hasConnectPorts r
      then evaluateRequestLoop m host path req (bodyTooLarge, firstReason) rs
      else if \<not> matchesMethod r m
      then evaluateRequestLoop m host path req
             (bodyTooLarge,
              keepFirst firstReason (''method '' @ m @ '' is not allowed by policy'')) rs
      else case matchesHostDetailed r host of
        (False, reason) \<Rightarrow>
          evaluateRequestLoop m host path req (bodyTooLarge, keepFirst firstReason reason) rs
      | (True, _) \<Rightarrow>
          if \<not> matchesPath r path
          then evaluateRequestLoop m host path req
                 (bodyTooLarge,
                  keepFirst firstReason
                    (''path '' @ go_quote path @ '' is not allowed by policy'')) rs
          else case matchesHeadersDetailed r (rq_Header req) of
            (False, reason) \<Rightarrow>
              evaluateRequestLoop m host path req (bodyTooLarge, keepFirst firstReason reason) rs
          | (True, _) \<Rightarrow>
              if rq_BodyTooLarge req \<and> hasBodyPatterns r
              then evaluateRequestLoop m host path req (True, firstReason) rs
              else case matchesBodyDetailed r (rq_Body req) of
                (False, reason) \<Rightarrow>
                  evaluateRequestLoop m host path req
                    (bodyTooLarge, keepFirst firstReason reason) rs
              | (True, _) \<Rightarrow> allowedEvaluation)"

definition evaluateRequest :: "compiledPolicy \<Rightarrow> PolicyRequest \<Rightarrow> policyEvaluation" where
  "evaluateRequest p req =
     (let m = to_upper (trim_space (rq_Method req)) in
      if m = [] then deniedEvaluation ''request method is required''
      else case normalizePolicyHostname (rq_Host req) of
        Inl e \<Rightarrow> evaluationFromError (Some e)
      | Inr host \<Rightarrow>
          (let path = (if trim_space (rq_Path req) = [] then ''/'' else trim_space (rq_Path req)) in
           evaluateRequestLoop m host path req (False, []) p))"

fun evaluateDNSLoop :: "string \<Rightarrow> string \<Rightarrow> compiledPolicyRule list \<Rightarrow> policyEvaluation" where
  "evaluateDNSLoop host firstReason [] =
     denyWith ''no policy rule matched dns hostname'' firstReason"
| "evaluateDNSLoop host firstReason (r # rs) =
     (if hasIPCIDRs r \<or> hasHTTPMethods r \<or> hasConnectPorts r \<or> hasPathPatterns r \<or>
         hasHeaderPatterns r \<or> hasBodyPatterns r
      then evaluateDNSLoop host firstReason rs
      else case matchesHostDetailed r host of
        (False, reason) \<Rightarrow> evaluateDNSLoop host (keepFirst firstReason reason) rs
      | (True, _) \<Rightarrow> allowedEvaluation)"

definition evaluateDNS :: "compiledPolicy \<Rightarrow> string \<Rightarrow> policyEvaluation" where
  "evaluateDNS p host =
     (let normalized = to_lower (trim_space (trim_suffix host ''.'')) in
      if normalized = [] then deniedEvaluation ''dns hostname is required''
      else evaluateDNSLoop normalized [] p)"

definition Check :: "compiledPolicy \<Rightarrow> string \<Rightarrow> string \<Rightarrow> bool \<Rightarrow> error option" where
  "Check p m hostname connect = firstReasonAsError (evaluate p m hostname connect)"

definition CheckRequest :: "compiledPolicy \<Rightarrow> PolicyRequest \<Rightarrow> error option" where
  "CheckRequest p req = firstReasonAsError (evaluateRequest p req)"

definition CheckDNS :: "compiledPolicy \<Rightarrow> string \<Rightarrow> error option" where
  "CheckDNS p host = firstReasonAsError (evaluateDNS p host)"

definition CheckTransparentConnect :: "compiledPolicy \<Rightarrow> string \<Rightarrow> error option" where
  "CheckTransparentConnect p host = firstReasonAsError (evaluateConnect p host 0 True)"


subsection \<open>What one rule allows, declaratively\<close>

definition host_allowed :: "compiledPolicyRule \<Rightarrow> string \<Rightarrow> bool" where
  "host_allowed r host \<longleftrightarrow>
     (hostPatterns r = [] \<or> (\<exists>m \<in> set (hostPatterns r). m host)) \<and>
     (ipCIDRs r = [] \<or>
      (\<exists>a. parse_ip host = Some a \<and> (\<exists>n \<in> set (ipCIDRs r). ip_contains n a)))"

definition some_value_matches :: "regexp list \<Rightarrow> string list \<Rightarrow> bool" where
  "some_value_matches ms vals \<longleftrightarrow> (\<exists>v \<in> set vals. \<exists>m \<in> set ms. m v)"

definition headers_allowed :: "compiledPolicyRule \<Rightarrow> http_header \<Rightarrow> bool" where
  "headers_allowed r headers \<longleftrightarrow>
     (\<forall>name \<in> fst ` set (headerPatterns r).
        \<exists>vals ms. map_of (normalizedHeaders headers) name = Some vals \<and>
          map_of (headerPatterns r) name = Some ms \<and> some_value_matches ms vals)"

definition connect_rule_allows :: "string \<Rightarrow> int \<Rightarrow> compiledPolicyRule \<Rightarrow> bool" where
  "connect_rule_allows host port r \<longleftrightarrow>
     httpMethods r = [] \<and> pathPatterns r = [] \<and> headerPatterns r = [] \<and> bodyPatterns r = [] \<and>
     host_allowed r host \<and>
     (\<exists>a \<in> set (connectPorts r). range_start a \<le> port \<and> port \<le> range_end a)"

definition transparent_rule_allows :: "string \<Rightarrow> compiledPolicyRule \<Rightarrow> bool" where
  "transparent_rule_allows host r \<longleftrightarrow>
     httpMethods r = [] \<and> pathPatterns r = [] \<and> headerPatterns r = [] \<and> bodyPatterns r = [] \<and>
     connectPorts r = [] \<and> host_allowed r host"

definition dns_rule_allows :: "string \<Rightarrow> compiledPolicyRule \<Rightarrow> bool" where
  "dns_rule_allows host r \<longleftrightarrow>
     httpMethods r = [] \<and> pathPatterns r = [] \<and> headerPatterns r = [] \<and> bodyPatterns r = [] \<and>
     connectPorts r = [] \<and> ipCIDRs r = [] \<and> host_allowed r host"

definition plain_rule_allows :: "string \<Rightarrow> string \<Rightarrow> compiledPolicyRule \<Rightarrow> bool" where
  "plain_rule_allows m host r \<longleftrightarrow>
     connectPorts r = [] \<and> pathPatterns r = [] \<and> headerPatterns r = [] \<and> bodyPatterns r = [] \<and>
     (httpMethods r = [] \<or> m \<in> set (httpMethods r)) \<and> host_allowed r host"

definition request_rule_allows ::
  "string \<Rightarrow> string \<Rightarrow> string \<Rightarrow> PolicyRequest \<Rightarrow> compiledPolicyRule \<Rightarrow> bool" where
  "request_rule_allows m host path req r \<longleftrightarrow>
     connectPorts r = [] \<and> (httpMethods r = [] \<or> m \<in> set (httpMethods r)) \<and>
     host_allowed r host \<and>
     (pathPatterns r = [] \<or> (\<exists>f \<in> set (pathPatterns r). f path)) \<and>
     headers_allowed r (rq_Header req) \<and>
     (bodyPatterns r = [] \<or>
      (\<not> rq_BodyTooLarge req \<and> (\<exists>f \<in> set (bodyPatterns r). f (rq_Body req))))"

lemmas has_defs =
  hasHTTPMethods_def hasConnectPorts_def hasPathPatterns_def hasHeaderPatterns_def
  hasBodyPatterns_def hasIPCIDRs_def

lemma any_regexp_iff [simp]: "any_regexp ms s \<longleftrightarrow> (\<exists>m \<in> set ms. m s)"
  by (induction ms) auto

lemma any_network_iff [simp]: "any_network ns a \<longleftrightarrow> (\<exists>n \<in> set ns. ip_contains n a)"
  by (induction ns) auto

lemma headerValueMatches_iff [simp]:
  "headerValueMatches ms vs \<longleftrightarrow> some_value_matches ms vs"
  by (induction vs) (auto simp: some_value_matches_def)

lemma some_value_matches_Nil [simp]:
  "\<not> some_value_matches [] vs" "\<not> some_value_matches ms []"
  by (simp_all add: some_value_matches_def)

lemma matchConnectPort_iff [simp]:
  "matchConnectPort rs port \<longleftrightarrow> (\<exists>a \<in> set rs. range_start a \<le> port \<and> port \<le> range_end a)"
  by (induction rs) auto

lemma matchesHostDetailed_iff: "fst (matchesHostDetailed r host) \<longleftrightarrow> host_allowed r host"
  by (auto simp: matchesHostDetailed_def host_allowed_def Let_def split: option.splits)

lemma matchesHostDetailed_reason:
  "matchesHostDetailed r host = (False, reason) \<Longrightarrow> reason \<noteq> []"
  by (auto simp: matchesHostDetailed_def hostnameDeniedReason_def Let_def
      split: if_splits option.splits)

lemma matchesMethod_iff: "matchesMethod r m \<longleftrightarrow> httpMethods r = [] \<or> m \<in> set (httpMethods r)"
  by (simp add: matchesMethod_def)

lemma matchesPath_iff: "matchesPath r s \<longleftrightarrow> pathPatterns r = [] \<or> (\<exists>f \<in> set (pathPatterns r). f s)"
  by (simp add: matchesPath_def)

lemma matchHeaderNames_iff:
  "fst (matchHeaderNames pats norm names) \<longleftrightarrow>
     (\<forall>name \<in> set names. \<exists>vals ms. map_of norm name = Some vals \<and>
        map_of pats name = Some ms \<and> some_value_matches ms vals)"
proof (induction names)
  case (Cons name names)
  then show ?case
    by (cases "map_of norm name"; cases "map_of pats name") (auto simp: Let_def)
qed simp

lemma matchesHeadersDetailed_iff:
  "fst (matchesHeadersDetailed r headers) \<longleftrightarrow> headers_allowed r headers"
  by (auto simp: matchesHeadersDetailed_def headers_allowed_def matchHeaderNames_iff)

lemma matchHeaderNames_reason:
  "matchHeaderNames pats norm names = (False, reason) \<Longrightarrow> reason \<noteq> []"
  by (induction names) (auto simp: Let_def split: if_splits)

lemma matchesHeadersDetailed_reason:
  "matchesHeadersDetailed r headers = (False, reason) \<Longrightarrow> reason \<noteq> []"
  by (auto simp: matchesHeadersDetailed_def split: if_splits dest: matchHeaderNames_reason)

lemma matchesBodyDetailed_iff:
  "fst (matchesBodyDetailed r body) \<longleftrightarrow>
     bodyPatterns r = [] \<or> (\<exists>f \<in> set (bodyPatterns r). f body)"
  by (auto simp: matchesBodyDetailed_def)

lemmas match_iffs =
  matchesHostDetailed_iff matchesMethod_iff matchesPath_iff matchesHeadersDetailed_iff
  matchesBodyDetailed_iff

subsection \<open>The contract of a scan over allow rules\<close>

text \<open>
  Each evaluation walks the rules once and keeps some loop state. The contract: a rule that
  hits ends the walk with the allowed evaluation, any other rule only changes the loop
  state, and the end of the list denies with one non-empty reason. Whatever the loop state,
  the answer is then the existence of a hitting rule.
\<close>

locale allow_scan =
  fixes scan :: "'s \<Rightarrow> compiledPolicyRule list \<Rightarrow> policyEvaluation"
    and hit :: "compiledPolicyRule \<Rightarrow> bool"
    and step :: "compiledPolicyRule \<Rightarrow> 's \<Rightarrow> 's"
    and finish :: "'s \<Rightarrow> string"
  assumes scan_Nil: "scan s [] = deniedEvaluation (finish s)"
    and scan_Cons:
      "scan s (r # rs) = (if hit r then allowedEvaluation else scan (step r s) rs)"
    and finish_nonempty: "finish s \<noteq> []"
begin

lemma scan_allowed_iff: "Allowed (scan s rs) \<longleftrightarrow> (\<exists>r \<in> set rs. hit r)"
  by (induction rs arbitrary: s)
    (auto simp: scan_Nil scan_Cons allowedEvaluation_def deniedEvaluation_def)

lemma scan_result:
  "scan s rs = allowedEvaluation \<or> (\<exists>m. m \<noteq> [] \<and> scan s rs = deniedEvaluation m)"
proof (induction rs arbitrary: s)
  case Nil
  then show ?case using finish_nonempty[of s] by (auto simp: scan_Nil)
next
  case (Cons r rs)
  then show ?case by (simp add: scan_Cons)
qed

lemma scan_order: "set rs = set rs' \<Longrightarrow> Allowed (scan s rs) = Allowed (scan s' rs')"
  by (simp add: scan_allowed_iff)

lemma scan_denied_state:
  "\<not> Allowed (scan s rs) \<Longrightarrow> scan s rs = deniedEvaluation (finish (fold step rs s))"
  by (induction rs arbitrary: s)
    (auto simp: scan_Nil scan_Cons allowedEvaluation_def split: if_splits)

end

lemma keepFirst_nonempty: "x \<noteq> [] \<Longrightarrow> keepFirst s x \<noteq> []"
  by (simp add: keepFirst_def)

lemma denyWith_eq: "denyWith d f = deniedEvaluation (if f \<noteq> [] then f else d)"
  by (simp add: denyWith_def)

definition dns_step :: "string \<Rightarrow> compiledPolicyRule \<Rightarrow> string \<Rightarrow> string" where
  "dns_step host r first =
     (if hasIPCIDRs r \<or> hasHTTPMethods r \<or> hasConnectPorts r \<or> hasPathPatterns r \<or>
         hasHeaderPatterns r \<or> hasBodyPatterns r then first
      else keepFirst first (snd (matchesHostDetailed r host)))"

definition plain_step :: "string \<Rightarrow> string \<Rightarrow> compiledPolicyRule \<Rightarrow> string \<Rightarrow> string" where
  "plain_step m host r first =
     (if hasConnectPorts r \<or> hasPathPatterns r \<or> hasHeaderPatterns r \<or> hasBodyPatterns r
      then first
      else if \<not> matchesMethod r m
      then keepFirst first (''method '' @ m @ '' is not allowed by policy'')
      else keepFirst first (snd (matchesHostDetailed r host)))"

definition connect_step ::
  "string \<Rightarrow> int \<Rightarrow> bool \<Rightarrow> compiledPolicyRule \<Rightarrow> string \<Rightarrow> string" where
  "connect_step host port transparent r first =
     (if hasHTTPMethods r \<or> hasPathPatterns r \<or> hasHeaderPatterns r \<or> hasBodyPatterns r \<or>
         (transparent \<and> hasConnectPorts r) then first
      else if \<not> fst (matchesHostDetailed r host)
      then keepFirst first (snd (matchesHostDetailed r host))
      else keepFirst first (''CONNECT port '' @ itoa port @ '' is not allowed''))"

definition request_step ::
  "string \<Rightarrow> string \<Rightarrow> string \<Rightarrow> PolicyRequest \<Rightarrow> compiledPolicyRule \<Rightarrow>
   bool \<times> string \<Rightarrow> bool \<times> string" where
  "request_step m host path req r s =
     (if hasConnectPorts r then s
      else if \<not> matchesMethod r m
      then (fst s, keepFirst (snd s) (''method '' @ m @ '' is not allowed by policy''))
      else if \<not> fst (matchesHostDetailed r host)
      then (fst s, keepFirst (snd s) (snd (matchesHostDetailed r host)))
      else if \<not> matchesPath r path
      then (fst s, keepFirst (snd s) (''path '' @ go_quote path @ '' is not allowed by policy''))
      else if \<not> fst (matchesHeadersDetailed r (rq_Header req))
      then (fst s, keepFirst (snd s) (snd (matchesHeadersDetailed r (rq_Header req))))
      else if rq_BodyTooLarge req \<and> hasBodyPatterns r then (True, snd s)
      else (fst s, keepFirst (snd s) (snd (matchesBodyDetailed r (rq_Body req)))))"

definition connect_hit :: "string \<Rightarrow> int \<Rightarrow> bool \<Rightarrow> compiledPolicyRule \<Rightarrow> bool" where
  "connect_hit host port transparent r \<longleftrightarrow>
     (if transparent then transparent_rule_allows host r else connect_rule_allows host port r)"

interpretation dns_scan: allow_scan "evaluateDNSLoop host" "dns_rule_allows host" "dns_step host"
  "\<lambda>f. if f \<noteq> [] then f else ''no policy rule matched dns hostname''" for host
proof unfold_locales
  fix s r rs
  show "evaluateDNSLoop host s (r # rs) =
    (if dns_rule_allows host r then allowedEvaluation else evaluateDNSLoop host (dns_step host r s) rs)"
    using matchesHostDetailed_iff[of r host]
    by (cases "matchesHostDetailed r host")
      (auto simp: dns_rule_allows_def dns_step_def has_defs split: bool.splits)
qed (auto simp: denyWith_eq)

interpretation plain_scan: allow_scan "evaluateLoop m host" "plain_rule_allows m host"
  "plain_step m host" "\<lambda>f. if f \<noteq> [] then f else ''no policy rule matched request''" for m host
proof unfold_locales
  fix s r rs
  show "evaluateLoop m host s (r # rs) =
    (if plain_rule_allows m host r then allowedEvaluation
     else evaluateLoop m host (plain_step m host r s) rs)"
    using matchesHostDetailed_iff[of r host]
    by (cases "matchesHostDetailed r host")
      (auto simp: plain_rule_allows_def plain_step_def has_defs matchesMethod_iff
        split: bool.splits)
qed (auto simp: denyWith_eq)

interpretation connect_scan: allow_scan "evaluateConnectLoop host port transparent"
  "connect_hit host port transparent" "connect_step host port transparent"
  "\<lambda>f. if f \<noteq> [] then f else if transparent then ''no policy rule matched connect target''
       else ''no policy rule matched CONNECT target''" for host port transparent
proof unfold_locales
  fix s r rs
  show "evaluateConnectLoop host port transparent s (r # rs) =
    (if connect_hit host port transparent r then allowedEvaluation
     else evaluateConnectLoop host port transparent (connect_step host port transparent r s) rs)"
    using matchesHostDetailed_iff[of r host]
    by (cases "matchesHostDetailed r host"; cases transparent)
      (auto simp: connect_hit_def connect_rule_allows_def transparent_rule_allows_def
        connect_step_def has_defs split: bool.splits)
qed (auto simp: denyWith_eq)

lemma request_rule_allows_code:
  "request_rule_allows m host path req r \<longleftrightarrow>
     \<not> hasConnectPorts r \<and> matchesMethod r m \<and> fst (matchesHostDetailed r host) \<and>
     matchesPath r path \<and> fst (matchesHeadersDetailed r (rq_Header req)) \<and>
     \<not> (rq_BodyTooLarge req \<and> hasBodyPatterns r) \<and>
     fst (matchesBodyDetailed r (rq_Body req))"
  unfolding request_rule_allows_def match_iffs has_defs by auto

interpretation request_scan: allow_scan "evaluateRequestLoop m host path req"
  "request_rule_allows m host path req" "request_step m host path req"
  "\<lambda>(big, f). if big then ''request body exceeds inspection limit''
             else if f \<noteq> [] then f else ''no policy rule matched request''" for m host path req
proof unfold_locales
  fix s r rs
  show "evaluateRequestLoop m host path req s (r # rs) =
    (if request_rule_allows m host path req r then allowedEvaluation
     else evaluateRequestLoop m host path req (request_step m host path req r s) rs)"
    by (cases s) (simp add: request_rule_allows_code request_step_def case_matched)
qed (auto simp: denyWith_eq split: prod.splits)


subsection \<open>Normal forms\<close>

lemma to_lower_trim_space [simp]:
  "to_lower (trim_space (to_lower (trim_space s))) = to_lower (trim_space s)"
  by (simp add: trim_space_to_lower)

lemma splitConnectTarget_Inr:
  assumes "splitConnectTarget t = Inr (host, port)"
  shows "to_lower (trim_space host) = host \<and> host \<noteq> [] \<and> 1 \<le> port \<and> port \<le> 65535"
proof -
  from assms obtain h pt where s: "splitHostPortStrict (trim_space t) = Inr (h, pt)"
    and h: "host = to_lower (trim_space h)" "host \<noteq> []"
    and p: "atoi pt = Some port" "port \<noteq> 0"
    by (auto simp: splitConnectTarget_def Let_def split: sum.splits if_splits option.splits)
  from s p have "0 \<le> port \<and> port \<le> 65535"
    by (auto simp: splitHostPortStrict_def split: sum.splits if_splits option.splits)
  with h p show ?thesis by simp
qed

lemma normalize_plain:
  "n \<noteq> [] \<Longrightarrow> to_lower n = n \<Longrightarrow> trim_space n = n \<Longrightarrow> CHR '':'' \<notin> set n \<Longrightarrow>
   normalizePolicyHostname n = Inr n"
  by (simp add: normalizePolicyHostname_def contains_char_def)

lemma normalize_bracketed:
  assumes "n \<noteq> []" and "to_lower n = n" and "trim_space n = n" and "isIPv6Literal n"
  shows "normalizePolicyHostname (''['' @ n @ '']'') = Inr n"
proof -
  have t: "trim_space (CHR ''['' # n @ '']'') = CHR ''['' # n @ '']''"
    by (rule trim_space_ends) (simp_all add: is_space_def)
  have l: "to_lower (CHR ''['' # n @ '']'') = CHR ''['' # n @ '']''"
    using assms(2) by (simp add: to_lower_def lower_char_def is_upper_def)
  have "CHR '':'' \<in> set n" using assms(4) by (simp add: isIPv6Literal_def contains_char_def)
  then show ?thesis
    using assms t l
    by (simp add: normalizePolicyHostname_def Let_def contains_char_def has_prefix_def
        has_suffix_def trim_prefix_def trim_suffix_def suffix_def)
qed

lemma trim_suffix_set: "set (trim_suffix s p) \<subseteq> set s"
  by (auto simp: trim_suffix_def dest: in_set_takeD)

lemma trim_prefix_set: "set (trim_prefix s p) \<subseteq> set s"
  by (auto simp: trim_prefix_def dest: in_set_dropD)

lemma splitHostPortStrict_shape:
  assumes "splitHostPortStrict hp = Inr (host, port)"
  shows "hp = host @ CHR '':'' # port \<or> hp = CHR ''['' # host @ CHR '']'' # CHR '':'' # port"
  using assms split_host_port_shape[of hp host port]
  by (auto simp: splitHostPortStrict_def split: sum.splits option.splits if_splits)

lemma normalizePolicyHostname_Inr:
  assumes "normalizePolicyHostname h = Inr n"
  shows "n \<noteq> [] \<and> to_lower n = n \<and> trim_space n = n \<and> (CHR '':'' \<in> set n \<longrightarrow> isIPv6Literal n)"
proof -
  let ?N = "to_lower (trim_space h)"
  let ?inner = "trim_space (trim_prefix (trim_suffix ?N '']'') ''['')"
  have N: "to_lower ?N = ?N" "trim_space ?N = ?N"
    by (simp_all add: trim_space_to_lower)
  consider (plain) "n = ?N" "?N \<noteq> []" "CHR '':'' \<notin> set ?N"
    | (inner) "n = ?inner" "n \<noteq> []" "isIPv6Literal n"
    | (bracket) h' where "n = trim_space (to_lower h')" "isIPv6Literal n"
    | (port) h' p where "splitHostPortStrict ?N = Inr (h', p)" "n = to_lower (trim_space h')"
        "n \<noteq> []" "count_char ?N CHR '':'' = 1"
    using assms
    by (auto simp: normalizePolicyHostname_def Let_def contains_char_def
        split: if_splits sum.splits)
  then show ?thesis
  proof cases
    case plain
    with N show ?thesis by simp
  next
    case inner
    have "set n \<subseteq> set ?N"
      unfolding inner(1) using trim_space_set trim_prefix_set trim_suffix_set by blast
    moreover have "\<forall>c \<in> set ?N. lower_char c = c"
      using N(1) to_lower_eq_self by blast
    ultimately have "to_lower n = n" by (auto simp: to_lower_eq_self)
    with inner show ?thesis by simp
  next
    case bracket
    then show ?thesis
      by (auto simp: isIPv6Literal_def contains_char_def trim_space_to_lower)
  next
    case port
    have "CHR '':'' \<notin> set h'"
      using splitHostPortStrict_shape[OF port(1)] port(4)
      by (auto simp: count_char_def filter_empty_conv)
    then have "CHR '':'' \<notin> set n"
      using trim_space_set[of h'] lower_char_colon unfolding port(2) to_lower_def
      by (auto simp: lower_char_colon dest!: sym[of "CHR '':''"])
    with port show ?thesis by (simp add: trim_space_to_lower)
  qed
qed

lemma parsePortNumber_Inr: "parsePortNumber s = Inr n \<Longrightarrow> 1 \<le> n \<and> n \<le> 65535"
  by (auto simp: parsePortNumber_def split: option.splits if_splits)

lemma parsePortNumber_itoa: "1 \<le> n \<Longrightarrow> n \<le> 65535 \<Longrightarrow> parsePortNumber (itoa n) = Inr n"
  by (simp add: parsePortNumber_def atoi_itoa)

subsection \<open>Well-formed compiled rules\<close>

definition port_range_wf :: "portRange \<Rightarrow> bool" where
  "port_range_wf a \<longleftrightarrow> 1 \<le> range_start a \<and> range_start a \<le> range_end a \<and> range_end a \<le> 65535"

definition compiled_rule_wf :: "compiledPolicyRule \<Rightarrow> bool" where
  "compiled_rule_wf r \<longleftrightarrow>
     (\<forall>a \<in> set (connectPorts r). port_range_wf a) \<and>
     (\<forall>n \<in> set (ipCIDRs r). length (net_ip n) = length (net_mask n) \<and>
        length (net_mask n) \<in> {4, 16}) \<and>
     distinct (httpMethods r) \<and>
     (\<forall>m \<in> set (httpMethods r). m \<noteq> [] \<and> to_upper (trim_space m) = m) \<and>
     distinct (map fst (headerPatterns r)) \<and>
     (\<forall>(name, ms) \<in> set (headerPatterns r). name \<noteq> [] \<and> to_lower name = name \<and> ms \<noteq> [])"

lemma parseConnectPortSpec_wf: "parseConnectPortSpec s = Inr a \<Longrightarrow> port_range_wf a"
  by (auto simp: parseConnectPortSpec_def Let_def port_range_wf_def res_bind_Inr
      split: if_splits list.splits dest!: parsePortNumber_Inr)

definition header_map_wf :: "(string \<times> regexp list) list \<Rightarrow> bool" where
  "header_map_wf hm \<longleftrightarrow> distinct (map fst hm) \<and>
     (\<forall>(name, ms) \<in> set hm. name \<noteq> [] \<and> to_lower name = name \<and> ms \<noteq> [])"

lemma set_gm_put: "set (gm_put k v m) \<subseteq> insert (k, v) (set m)"
  by (induction k v m rule: gm_put.induct) auto

lemma header_map_wf_put:
  "header_map_wf hm \<Longrightarrow> name \<noteq> [] \<Longrightarrow> to_lower name = name \<Longrightarrow> ms \<noteq> [] \<Longrightarrow>
   header_map_wf (gm_put name ms hm)"
  using set_gm_put[of name ms hm] by (auto simp: header_map_wf_def distinct_gm_put)

lemma compileHeaderValues_wf:
  "compileHeaderValues re i h name ps hm = Inr hm' \<Longrightarrow> header_map_wf hm \<Longrightarrow> name \<noteq> [] \<Longrightarrow>
   to_lower name = name \<Longrightarrow> header_map_wf hm'"
  by (induction re i h name ps hm rule: compileHeaderValues.induct)
    (auto simp: header_map_wf_put split: sum.splits)

lemma compileHeaderPatterns_wf:
  "compileHeaderPatterns re i hs hm = Inr hm' \<Longrightarrow> header_map_wf hm \<Longrightarrow> header_map_wf hm'"
  by (induction re i hs hm rule: compileHeaderPatterns.induct)
    (auto simp: Let_def res_bind_Inr dest: compileHeaderValues_wf split: if_splits)

lemma compilePolicyRule_wf:
  assumes "compilePolicyRule re i rule = Inr r"
  shows "compiled_rule_wf r"
proof -
  from assms obtain methods cidrs ports headers where
    m: "compileMethods i (pr_HTTPMethods rule) = Inr methods"
    and c: "map_result (\<lambda>c. map_error
               (\<lambda>e. ''parse rule '' @ itoa (int i) @ '' IP CIDR '' @ go_quote c @ '': '' @ e)
               (parse_cidr (trim_space c))) (pr_IPCIDRs rule) = Inr cidrs"
    and p: "map_result (\<lambda>s. map_error
               (\<lambda>e. ''parse rule '' @ itoa (int i) @ '' connect port spec '' @ go_quote s @ '': '' @ e)
               (parseConnectPortSpec s)) (pr_ConnectPorts rule) = Inr ports"
    and h: "compileHeaderPatterns re i (pr_HeaderPatterns rule) [] = Inr headers"
    and r: "ipCIDRs r = cidrs" "httpMethods r = remdups methods" "connectPorts r = ports"
      "headerPatterns r = headers"
    by (auto simp: compilePolicyRule_def Let_def res_bind_Inr)
  have "m \<noteq> [] \<and> to_upper (trim_space m) = m" if "m \<in> set methods" for m
    using map_result_member[OF m[unfolded compileMethods_def] that]
    by (auto simp: Let_def trim_space_to_upper split: if_splits)
  moreover have "length (net_ip n) = length (net_mask n) \<and> length (net_mask n) \<in> {4, 16}"
    if "n \<in> set cidrs" for n
    using map_result_member[OF c that] parse_cidr_wf by auto
  moreover have "port_range_wf a" if "a \<in> set ports" for a
    using map_result_member[OF p that] parseConnectPortSpec_wf by auto
  moreover have "header_map_wf headers"
    using h by (rule compileHeaderPatterns_wf) (simp add: header_map_wf_def)
  ultimately show ?thesis
    by (auto simp: compiled_rule_wf_def header_map_wf_def r)
qed


subsection \<open>Evaluations as the existence of a rule\<close>

lemma denied_not_allowed [simp]: "\<not> Allowed (deniedEvaluation m)"
  by (simp add: deniedEvaluation_def)

lemma allowed_allowed [simp]: "Allowed allowedEvaluation"
  by (simp add: allowedEvaluation_def)

lemma evaluationFromError_Some [simp]: "evaluationFromError (Some e) = deniedEvaluation e"
  by (simp add: evaluationFromError_def)

lemma evaluateConnect_allowed:
  "Allowed (evaluateConnect p host port transparent) \<longleftrightarrow>
     (if transparent
      then (\<exists>h. normalizePolicyHostname host = Inr h \<and> (\<exists>r \<in> set p. transparent_rule_allows h r))
      else to_lower (trim_space host) \<noteq> [] \<and>
           (\<exists>r \<in> set p. connect_rule_allows (to_lower (trim_space host)) port r))"
  by (auto simp: evaluateConnect_def Let_def connect_scan.scan_allowed_iff connect_hit_def
      split: sum.splits)

lemma evaluateRequest_allowed:
  "Allowed (evaluateRequest p req) \<longleftrightarrow>
     to_upper (trim_space (rq_Method req)) \<noteq> [] \<and>
     (\<exists>host. normalizePolicyHostname (rq_Host req) = Inr host \<and>
        (\<exists>r \<in> set p. request_rule_allows (to_upper (trim_space (rq_Method req))) host
           (if trim_space (rq_Path req) = [] then ''/'' else trim_space (rq_Path req)) req r))"
  by (auto simp: evaluateRequest_def Let_def request_scan.scan_allowed_iff split: sum.splits)

lemma evaluateDNS_allowed:
  "Allowed (evaluateDNS p host) \<longleftrightarrow>
     (let h = to_lower (trim_space (trim_suffix host ''.'')) in
      h \<noteq> [] \<and> (\<exists>r \<in> set p. dns_rule_allows h r))"
  by (simp add: evaluateDNS_def Let_def dns_scan.scan_allowed_iff)

lemma evaluate_plain_allowed:
  "Allowed (evaluate p m hostname False) \<longleftrightarrow>
     (let m' = to_upper (trim_space m) in
      m' \<noteq> [] \<and> m' \<noteq> ''CONNECT'' \<and>
      (\<exists>h. normalizePolicyHostname hostname = Inr h \<and> (\<exists>r \<in> set p. plain_rule_allows m' h r)))"
  by (auto simp: evaluate_def Let_def plain_scan.scan_allowed_iff split: sum.splits)

lemma evaluate_connect_allowed:
  "Allowed (evaluate p m target True) \<longleftrightarrow>
     to_upper (trim_space m) = ''CONNECT'' \<and>
     (\<exists>host port. splitConnectTarget target = Inr (host, port) \<and>
        (\<exists>r \<in> set p. connect_rule_allows host port r))"
  using splitConnectTarget_Inr[of target]
  by (cases "splitConnectTarget target")
    (auto simp: evaluate_def Let_def evaluateConnect_allowed)

text \<open>The result of an evaluation: allowed without a reason, or denied with one.\<close>

definition evaluation_wf :: "policyEvaluation \<Rightarrow> bool" where
  "evaluation_wf e \<longleftrightarrow> e = allowedEvaluation \<or> (\<exists>m. m \<noteq> [] \<and> e = deniedEvaluation m)"

lemma evaluation_wf_intros [simp, intro]:
  "evaluation_wf allowedEvaluation"
  "m \<noteq> [] \<Longrightarrow> evaluation_wf (deniedEvaluation m)"
  by (auto simp: evaluation_wf_def)

lemmas scan_wf =
  dns_scan.scan_result[folded evaluation_wf_def]
  plain_scan.scan_result[folded evaluation_wf_def]
  connect_scan.scan_result[folded evaluation_wf_def]
  request_scan.scan_result[folded evaluation_wf_def]

lemma normalizePolicyHostname_error: "normalizePolicyHostname h = Inl e \<Longrightarrow> e \<noteq> []"
  by (auto simp: normalizePolicyHostname_def Let_def split: if_splits sum.splits)

lemma splitConnectTarget_error: "splitConnectTarget h = Inl e \<Longrightarrow> e \<noteq> []"
  by (auto simp: splitConnectTarget_def Let_def split: if_splits sum.splits option.splits)

lemma evaluateConnect_wf: "evaluation_wf (evaluateConnect p host port transparent)"
  by (auto simp: evaluateConnect_def Let_def scan_wf split: sum.splits
      dest: normalizePolicyHostname_error)

lemma evaluateRequest_wf: "evaluation_wf (evaluateRequest p req)"
  by (auto simp: evaluateRequest_def Let_def scan_wf split: sum.splits
      dest: normalizePolicyHostname_error)

lemma evaluateDNS_wf: "evaluation_wf (evaluateDNS p host)"
  by (auto simp: evaluateDNS_def Let_def scan_wf)

lemma evaluate_wf: "evaluation_wf (evaluate p m hostname connect)"
  by (auto simp: evaluate_def Let_def scan_wf evaluateConnect_wf split: sum.splits
      dest: normalizePolicyHostname_error splitConnectTarget_error)

lemma firstReasonAsError_wf:
  "evaluation_wf e \<Longrightarrow>
   (firstReasonAsError e = None \<longleftrightarrow> Allowed e) \<and>
   (\<not> Allowed e \<longrightarrow> (\<exists>m. m \<noteq> [] \<and> Reasons e = [m] \<and> firstReasonAsError e = Some m))"
  by (auto simp: evaluation_wf_def firstReasonAsError_def allowedEvaluation_def
      deniedEvaluation_def)

subsection \<open>Properties\<close>

text \<open>
  C1. A visible HTTP request is allowed exactly when its method is not blank, its host
  normalises, and some rule without CONNECT ports matches the method, the host, the path
  (a blank path is \<^verbatim>\<open>/\<close>), every header pattern, and the body; a rule with body patterns
  never matches a request whose body exceeded the inspection limit.
\<close>

theorem evaluateRequest_refines:
  "Allowed (evaluateRequest p req) \<longleftrightarrow>
     trim_space (rq_Method req) \<noteq> [] \<and>
     (\<exists>host. normalizePolicyHostname (rq_Host req) = Inr host \<and>
        (\<exists>r \<in> set p. request_rule_allows (to_upper (trim_space (rq_Method req))) host
           (if trim_space (rq_Path req) = [] then ''/'' else trim_space (rq_Path req)) req r))"
  by (simp add: evaluateRequest_allowed)

text \<open>
  C4. A CONNECT request is allowed exactly when its method is CONNECT, its target is a
  \<^verbatim>\<open>host:port\<close> with a usable port, and some rule without HTTP methods, paths, headers or
  bodies allows the host and has a port range around the port. A rule without CONNECT ports
  never allows an explicit CONNECT.
\<close>

theorem evaluate_connect_refines:
  "Allowed (evaluate p m target True) \<longleftrightarrow>
     to_upper (trim_space m) = ''CONNECT'' \<and>
     (\<exists>host port. splitConnectTarget target = Inr (host, port) \<and>
        (\<exists>r \<in> set p. connect_rule_allows host port r))"
  by (rule evaluate_connect_allowed)

text \<open>
  A transparent connection and a DNS lookup are allowed exactly when some rule made of
  host constraints only allows the normalised host; for DNS the rule has no CIDR either, and
  one trailing dot of the name is ignored.
\<close>

theorem evaluate_names_refine:
  "(Allowed (evaluateConnect p host 0 True) \<longleftrightarrow>
      (\<exists>h. normalizePolicyHostname host = Inr h \<and> (\<exists>r \<in> set p. transparent_rule_allows h r))) \<and>
   (Allowed (evaluateDNS p host) \<longleftrightarrow>
      (\<exists>h. h = to_lower (trim_space (trim_suffix host ''.'')) \<and> h \<noteq> [] \<and>
         (\<exists>r \<in> set p. dns_rule_allows h r)))"
  by (simp add: evaluateConnect_allowed evaluateDNS_allowed Let_def)

text \<open>
  Adding rules never turns an allowed request, CONNECT, transparent connection or DNS
  lookup into a denied one, whatever the order and the repetition of the rules; so the
  decision depends only on the set of rules.
\<close>

theorem evaluation_monotone:
  assumes "set p \<subseteq> set q"
  shows "(Allowed (evaluate p m host connect) \<longrightarrow> Allowed (evaluate q m host connect)) \<and>
    (Allowed (evaluateRequest p req) \<longrightarrow> Allowed (evaluateRequest q req)) \<and>
    (Allowed (evaluateDNS p host) \<longrightarrow> Allowed (evaluateDNS q host)) \<and>
    (Allowed (evaluateConnect p host port t) \<longrightarrow> Allowed (evaluateConnect q host port t))"
  using assms
  by (cases connect; cases t)
    (auto simp: evaluate_plain_allowed evaluate_connect_allowed evaluateRequest_allowed
      evaluateDNS_allowed evaluateConnect_allowed Let_def)

text \<open>
  Every evaluation is either allowed or carries exactly one non-empty reason, and the
  \<^verbatim>\<open>Check\<close> functions return no error exactly when the evaluation allows and otherwise
  return that reason.
\<close>

theorem checks_report_reason:
  "evaluation_wf (evaluate p m host connect) \<and> evaluation_wf (evaluateRequest p req) \<and>
   evaluation_wf (evaluateDNS p host) \<and> evaluation_wf (evaluateConnect p host port t) \<and>
   (CheckRequest p req = None \<longleftrightarrow> Allowed (evaluateRequest p req)) \<and>
   (Check p m host connect = None \<longleftrightarrow> Allowed (evaluate p m host connect)) \<and>
   (CheckDNS p host = None \<longleftrightarrow> Allowed (evaluateDNS p host)) \<and>
   (CheckTransparentConnect p host = None \<longleftrightarrow> Allowed (evaluateConnect p host 0 True))"
  using evaluate_wf evaluateRequest_wf evaluateDNS_wf evaluateConnect_wf
  by (simp add: CheckRequest_def Check_def CheckDNS_def CheckTransparentConnect_def
      firstReasonAsError_wf)

text \<open>
  The evaluation that sees only the method and the host never allows more than the
  evaluation of the full request with that method and host.
\<close>

theorem evaluate_sound_for_request:
  assumes "Allowed (evaluate p (rq_Method req) (rq_Host req) False)"
  shows "Allowed (evaluateRequest p req)"
proof -
  have "request_rule_allows m h s req r" if "plain_rule_allows m h r" for m h s r
    using that by (simp add: plain_rule_allows_def request_rule_allows_def headers_allowed_def)
  with assms show ?thesis
    unfolding evaluate_plain_allowed evaluateRequest_allowed Let_def by blast
qed

text \<open>
  C37. Compiling a policy keeps the number and the order of the rules, and every compiled
  rule is well formed: port ranges lie in 1..65535 and do not descend, networks have an
  address and a mask of one length, methods are trimmed, upper case and distinct, header
  names are non-empty, lower case and distinct and have at least one pattern.
\<close>

theorem compilePolicy_wf:
  assumes "compilePolicy re policy = Inr p"
  shows "length p = length policy \<and> (\<forall>r \<in> set p. compiled_rule_wf r) \<and>
    (\<forall>i < length p. compilePolicyRule re i (policy ! i) = Inr (p ! i))"
proof -
  have all: "list_all2 (\<lambda>x y. (case x of (i, rule) \<Rightarrow> compilePolicyRule re i rule) = Inr y)
    (enumerate 0 policy) p"
    using assms by (simp add: compilePolicy_def map_result_Inr_iff)
  then have len: "length p = length policy"
    by (auto dest: list_all2_lengthD)
  have nth: "compilePolicyRule re i (policy ! i) = Inr (p ! i)" if "i < length p" for i
    using list_all2_nthD2[OF all that] that len by (simp add: nth_enumerate_eq)
  then have "\<forall>r \<in> set p. compiled_rule_wf r"
    by (metis compilePolicyRule_wf in_set_conv_nth)
  with len nth show ?thesis by simp
qed

text \<open>
  C38. A CONNECT port range written as two decimal numbers parses to that range, and every
  range that parses lies in 1..65535 without descending, so a port it admits is a valid
  TCP port.
\<close>

theorem parseConnectPortSpec_range:
  assumes "1 \<le> lo" and "lo \<le> hi" and "hi \<le> 65535"
  shows "parseConnectPortSpec (itoa lo @ ''-'' @ itoa hi) =
           Inr \<lparr>range_start = lo, range_end = hi\<rparr> \<and>
         parseConnectPortSpec (itoa lo) = Inr \<lparr>range_start = lo, range_end = lo\<rparr> \<and>
         (\<forall>spec a port. parseConnectPortSpec spec = Inr a \<and> matchConnectPort [a] port \<longrightarrow>
            1 \<le> port \<and> port \<le> 65535)"
proof -
  have nonempty: "itoa lo \<noteq> []"
    using assms digits_of_digits[of "nat lo"] by (auto simp: itoa_def all_digits_def)
  have no_minus: "CHR ''-'' \<notin> set (itoa lo)" "CHR ''-'' \<notin> set (itoa hi)"
    using assms by (simp_all add: itoa_no_minus)
  have chars: "\<forall>c \<in> set (itoa lo @ ''-'' @ itoa hi). \<not> is_space c"
    by (auto simp: is_space_def is_digit_def dest!: itoa_chars)
  have "split_on CHR ''-'' (itoa lo @ ''-'' @ itoa hi) = [itoa lo, itoa hi]"
    using no_minus by (simp add: split_on_app split_on_single)
  then have "parseConnectPortSpec (itoa lo @ ''-'' @ itoa hi) =
      Inr \<lparr>range_start = lo, range_end = hi\<rparr>"
    unfolding parseConnectPortSpec_def trim_space_id[OF chars] Let_def
    using assms by (simp add: contains_char_def parsePortNumber_itoa)
  moreover have "parseConnectPortSpec (itoa lo) = Inr \<lparr>range_start = lo, range_end = lo\<rparr>"
    using assms nonempty no_minus
    by (simp add: parseConnectPortSpec_def Let_def contains_char_def parsePortNumber_itoa)
  ultimately show ?thesis
    by (auto dest!: parseConnectPortSpec_wf simp: port_range_wf_def)
qed

text \<open>
  A host that normalises gives a non-empty, lower-case name without surrounding space.
  If the name has no colon it normalises to itself, otherwise it is an IPv6 literal and its
  bracketed form normalises to it.
\<close>

theorem normalizePolicyHostname_normal:
  assumes "normalizePolicyHostname h = Inr n"
  shows "n \<noteq> [] \<and> to_lower n = n \<and> trim_space n = n \<and>
    (if CHR '':'' \<in> set n
     then isIPv6Literal n \<and> normalizePolicyHostname (''['' @ n @ '']'') = Inr n
     else normalizePolicyHostname n = Inr n)"
proof (cases "CHR '':'' \<in> set n")
  case True
  with normalizePolicyHostname_Inr[OF assms] normalize_bracketed[of n] show ?thesis
    by simp
next
  case False
  with normalizePolicyHostname_Inr[OF assms] show ?thesis
    by (simp add: normalize_plain)
qed


text \<open>
  A transparent connection to an IPv6 literal without brackets is denied by every
  policy: a host with two or more colons that does not start with a bracket never
  normalises, so not even a rule whose network contains the address can allow it.
\<close>

theorem transparent_bare_ipv6_denied:
  assumes "2 \<le> count_char (trim_space host) CHR '':''"
    and "\<not> has_prefix (to_lower (trim_space host)) ''[''"
  shows "evaluateConnect p host port True = deniedEvaluation (''invalid host '' @ go_quote host)"
proof -
  have c: "2 \<le> count_char (to_lower (trim_space host)) CHR '':''"
    using assms(1) by (simp add: count_char_to_lower)
  then have "CHR '':'' \<in> set (to_lower (trim_space host))"
    by (intro count_char_pos) simp
  with c assms(2) show ?thesis
    by (auto simp: evaluateConnect_def normalizePolicyHostname_def Let_def contains_char_def)
qed

subsection \<open>Witnesses\<close>

definition example_rule :: compiledPolicyRule where
  "example_rule =
     \<lparr>hostPatterns = [\<lambda>h. h = ''example.com''], ipCIDRs = [], httpMethods = [''GET''],
      connectPorts = [], pathPatterns = [], headerPatterns = [], bodyPatterns = []\<rparr>"

definition example_request :: PolicyRequest where
  "example_request =
     \<lparr>rq_Method = ''get'', rq_Host = ''Example.com:80'', rq_Path = ''/v1'', rq_Header = [],
      rq_Body = [], rq_BodyTooLarge = True\<rparr>"

definition example_policy :: NetworkPolicy where
  "example_policy =
     [\<lparr>pr_HostPatterns = [''a''], pr_IPCIDRs = ['' 10.0.0.0/8''], pr_HTTPMethods = ['' get''],
       pr_ConnectPorts = [''1-3'', ''7''], pr_PathPatterns = [],
       pr_HeaderPatterns = [(''x-token'', [''t''])], pr_BodyPatterns = []\<rparr>]"

theorem evaluation_monotone_witness:
  "Allowed (evaluateRequest [example_rule] example_request) \<and>
   Allowed (evaluateRequest [example_rule\<lparr>httpMethods := [''PUT'']\<rparr>, example_rule] example_request)"
proof
  show a: "Allowed (evaluateRequest [example_rule] example_request)"
    by code_simp
  show "Allowed (evaluateRequest [example_rule\<lparr>httpMethods := [''PUT'']\<rparr>, example_rule]
    example_request)"
    using evaluation_monotone[of "[example_rule]"
        "[example_rule\<lparr>httpMethods := [''PUT'']\<rparr>, example_rule]" _ _ _ example_request] a
    by simp
qed

theorem evaluate_sound_for_request_witness:
  "Allowed (evaluate [example_rule] ''get'' ''Example.com:80'' False) \<and>
   Allowed (evaluateRequest [example_rule] example_request)"
proof
  show a: "Allowed (evaluate [example_rule] ''get'' ''Example.com:80'' False)"
    by code_simp
  show "Allowed (evaluateRequest [example_rule] example_request)"
    by (rule evaluate_sound_for_request) (use a in \<open>simp add: example_request_def\<close>)
qed

theorem compilePolicy_wf_witness:
  "\<exists>p. compilePolicy (\<lambda>s. Inr (\<lambda>t. s = t)) example_policy = Inr p \<and> length p = 1 \<and>
     list_all compiled_rule_wf p"
proof -
  have "is_ok (compileMethods 0 ['' get''])" "is_ok (parse_cidr (trim_space '' 10.0.0.0/8''))"
    "is_ok (parseConnectPortSpec ''1-3'')" "is_ok (parseConnectPortSpec ''7'')"
    "is_ok (compileHeaderPatterns (\<lambda>s. Inr (\<lambda>t. s = t)) 0 [(''x-token'', [''t''])] [])"
    by code_simp+
  then have "is_ok (compilePolicy (\<lambda>s. Inr (\<lambda>t. s = t)) example_policy)"
    by (auto simp: is_ok_iff compilePolicy_def compilePolicyRule_def compileRegexps_def
        example_policy_def)
  then obtain p where p: "compilePolicy (\<lambda>s. Inr (\<lambda>t. s = t)) example_policy = Inr p"
    by (auto simp: is_ok_iff)
  show ?thesis
    using compilePolicy_wf[OF p] p by (simp add: example_policy_def list_all_iff)
qed

theorem parseConnectPortSpec_range_witness:
  "parseConnectPortSpec (itoa 80 @ ''-'' @ itoa 443) = Inr \<lparr>range_start = 80, range_end = 443\<rparr>"
  using parseConnectPortSpec_range[of 80 443] by simp

theorem normalizePolicyHostname_normal_witness:
  "normalizePolicyHostname ''[::A]:8'' = Inr ''::a'' \<and> isIPv6Literal ''::a''"
proof -
  have n: "normalizePolicyHostname ''[::A]:8'' = Inr ''::a''"
    by code_simp
  show ?thesis
    using normalizePolicyHostname_normal[OF n] n by simp
qed

theorem transparent_bare_ipv6_denied_witness:
  "parse_ip ''::a'' \<noteq> None \<and> \<not> Allowed (evaluateConnect [example_rule] ''::a'' 443 True)"
proof -
  have "2 \<le> count_char (trim_space ''::a'') CHR '':''"
    "\<not> has_prefix (to_lower (trim_space ''::a'')) ''[''"
    by code_simp+
  then have "\<not> Allowed (evaluateConnect [example_rule] ''::a'' 443 True)"
    using transparent_bare_ipv6_denied[of "''::a''" "[example_rule]" 443] by simp
  moreover have "parse_ip ''::a'' \<noteq> None" by code_simp
  ultimately show ?thesis by simp
qed

end
