(* ===== verification/Access_Audit.thy ===== *)
theory Access_Audit
  imports Policy "HOL-Library.Product_Lexorder" "HOL-Library.Multiset"
begin

section \<open>Access events and their aggregation\<close>

text \<open>
  \<^verbatim>\<open>accesslog.go\<close> and \<^verbatim>\<open>accesssummary.go\<close>: the access event, the three aggregations kept
  per sandbox (domains, host summaries, request rows) and their snapshots. Go maps are
  association lists in one iteration order. A time is its number of nanoseconds, the zero
  time is 0. The locale \<open>aggregation\<close> is the contract of one counter of one of these maps;
  it is interpreted for every counter of the three.
\<close>

type_synonym PolicyMode = string
type_synonym TrafficMode = string

record accessEvent =
  ev_Time :: int
  ev_SandboxID :: string
  ev_TrafficMode :: TrafficMode
  ev_Kind :: string
  ev_Protocol :: string
  ev_ProtocolSource :: string
  ev_ProtocolConfidence :: string
  ev_Host :: string
  ev_Port :: int
  ev_Method :: string
  ev_Path :: string
  ev_Allowed :: bool
  ev_StatusCode :: int
  ev_Result :: string
  ev_Error :: string
  ev_PolicyMode :: PolicyMode
  ev_PolicyAllowed :: bool
  ev_PolicyViolations :: "string list"

text \<open>The zero value of the Go struct; composite literals update some of its fields.\<close>

definition zero_event :: accessEvent where
  "zero_event =
     \<lparr>ev_Time = 0, ev_SandboxID = [], ev_TrafficMode = [], ev_Kind = [], ev_Protocol = [],
      ev_ProtocolSource = [], ev_ProtocolConfidence = [], ev_Host = [], ev_Port = 0,
      ev_Method = [], ev_Path = [], ev_Allowed = False, ev_StatusCode = 0, ev_Result = [],
      ev_Error = [], ev_PolicyMode = [], ev_PolicyAllowed = False, ev_PolicyViolations = []\<rparr>"

record AccessLogEntry =
  le_Time :: int
  le_SandboxID :: string
  le_TrafficMode :: TrafficMode
  le_Kind :: string
  le_Protocol :: string
  le_ProtocolSource :: string
  le_ProtocolConfidence :: string
  le_Host :: string
  le_Port :: int
  le_Method :: string
  le_Path :: string
  le_Allowed :: bool
  le_StatusCode :: int
  le_Result :: string
  le_Error :: string
  le_PolicyMode :: PolicyMode
  le_PolicyAllowed :: bool
  le_PolicyViolations :: "string list"

definition toAccessLogEntry :: "accessEvent \<Rightarrow> AccessLogEntry" where
  "toAccessLogEntry e =
     \<lparr>le_Time = ev_Time e, le_SandboxID = ev_SandboxID e, le_TrafficMode = ev_TrafficMode e,
      le_Kind = ev_Kind e, le_Protocol = ev_Protocol e, le_ProtocolSource = ev_ProtocolSource e,
      le_ProtocolConfidence = ev_ProtocolConfidence e, le_Host = ev_Host e, le_Port = ev_Port e,
      le_Method = ev_Method e, le_Path = ev_Path e, le_Allowed = ev_Allowed e,
      le_StatusCode = ev_StatusCode e, le_Result = ev_Result e, le_Error = ev_Error e,
      le_PolicyMode = ev_PolicyMode e, le_PolicyAllowed = ev_PolicyAllowed e,
      le_PolicyViolations = ev_PolicyViolations e\<rparr>"

record AccessedDomain =
  ad_Host :: string
  ad_TrafficMode :: TrafficMode
  ad_Attempts :: int
  ad_LastResult :: string
  ad_LastError :: string
  ad_LastSeenAt :: int
  ad_LastPort :: int
  ad_ConnectSeen :: bool
  ad_HTTPSeen :: bool
  ad_MITMSeen :: bool

record AccessedHostSummary =
  hs_Host :: string
  hs_TrafficMode :: TrafficMode
  hs_Attempts :: int
  hs_LastResult :: string
  hs_LastError :: string
  hs_LastSeenAt :: int
  hs_LastPort :: int
  hs_ConnectSeen :: bool
  hs_HTTPSeen :: bool
  hs_MITMSeen :: bool
  hs_DNSSeen :: bool
  hs_PolicyViolations :: int
  hs_PolicyAllowedCount :: int
  hs_PolicyDeniedCount :: int

record RequestAggregate =
  ra_Kind :: string
  ra_Host :: string
  ra_Port :: int
  ra_Method :: string
  ra_Path :: string
  ra_Attempts :: int
  ra_AllowedCount :: int
  ra_DeniedCount :: int
  ra_PolicyAllowedCount :: int
  ra_PolicyDeniedCount :: int
  ra_LastSeenAt :: int
  ra_LastStatusCode :: int
  ra_LastError :: string

record sandboxAuditState =
  sa_domains :: "(string \<times> AccessedDomain) list"
  sa_hosts :: "(string \<times> AccessedHostSummary) list"
  sa_requests :: "(string \<times> RequestAggregate) list"

type_synonym managerAuditState = "(string \<times> sandboxAuditState) list"

record AccessSummary =
  as_Hosts :: "AccessedHostSummary list"
  as_Requests :: "RequestAggregate list"

subsection \<open>Modes and hosts\<close>

definition normalizePolicyMode :: "PolicyMode \<Rightarrow> PolicyMode result" where
  "normalizePolicyMode mode =
     (if mode = [] then ok ''enforce''
      else if mode = ''enforce'' \<or> mode = ''audit'' then ok mode
      else err (''invalid policy mode '' @ go_quote mode))"

definition normalizedPolicyModeOrDefault :: "PolicyMode \<Rightarrow> PolicyMode" where
  "normalizedPolicyModeOrDefault mode =
     (case normalizePolicyMode mode of Inl _ \<Rightarrow> ''enforce'' | Inr m \<Rightarrow> m)"

definition normalizeTrafficMode :: "TrafficMode \<Rightarrow> TrafficMode" where
  "normalizeTrafficMode mode =
     (let normalized = to_lower (trim_space mode) in
      if normalized = [] then ''proxy'' else normalized)"

definition eventWithPolicyMetadata ::
  "accessEvent \<Rightarrow> PolicyMode \<Rightarrow> policyEvaluation \<Rightarrow> accessEvent" where
  "eventWithPolicyMetadata e mode eval =
     e\<lparr>ev_PolicyMode := normalizedPolicyModeOrDefault mode, ev_PolicyAllowed := Allowed eval,
       ev_PolicyViolations := Reasons eval\<rparr>"

definition normalizeHostPort :: "string \<Rightarrow> int \<Rightarrow> string \<times> int" where
  "normalizeHostPort host port =
     (let trimmed = trim_space host in
      if trimmed = [] then ([], port)
      else case split_host_port trimmed of
             Inl _ \<Rightarrow> (to_lower trimmed, port)
           | Inr (h, p) \<Rightarrow> (to_lower h, case atoi p of None \<Rightarrow> port | Some n \<Rightarrow> n))"

definition eventHostPort :: "accessEvent \<Rightarrow> string \<times> int" where
  "eventHostPort e =
     (let (host, port) = normalizeHostPort (ev_Host e) (ev_Port e) in
      (if host = [] then to_lower (ev_Host e) else host, port))"

subsection \<open>Recording\<close>

definition newAccessedDomain :: "string \<Rightarrow> AccessedDomain" where
  "newAccessedDomain host =
     \<lparr>ad_Host = host, ad_TrafficMode = [], ad_Attempts = 0, ad_LastResult = [], ad_LastError = [],
      ad_LastSeenAt = 0, ad_LastPort = 0, ad_ConnectSeen = False, ad_HTTPSeen = False,
      ad_MITMSeen = False\<rparr>"

definition recordAccessedDomain ::
  "(string \<times> AccessedDomain) list \<Rightarrow> accessEvent \<Rightarrow> (string \<times> AccessedDomain) list" where
  "recordAccessedDomain st e =
     (let (host, port) = eventHostPort e;
          entry = (case map_of st host of None \<Rightarrow> newAccessedDomain host | Some x \<Rightarrow> x);
          entry = entry\<lparr>ad_TrafficMode := normalizeTrafficMode (ev_TrafficMode e),
                        ad_Attempts := ad_Attempts entry + 1, ad_LastResult := ev_Result e,
                        ad_LastError := ev_Error e, ad_LastSeenAt := ev_Time e,
                        ad_LastPort := port\<rparr>;
          entry = (if ev_Kind e = ''connect'' then entry\<lparr>ad_ConnectSeen := True\<rparr>
                   else if ev_Kind e = ''http'' then entry\<lparr>ad_HTTPSeen := True\<rparr>
                   else if ev_Kind e = ''mitm'' then entry\<lparr>ad_MITMSeen := True\<rparr>
                   else entry) in
      gm_put host entry st)"

definition newHostSummary :: "string \<Rightarrow> AccessedHostSummary" where
  "newHostSummary host =
     \<lparr>hs_Host = host, hs_TrafficMode = [], hs_Attempts = 0, hs_LastResult = [], hs_LastError = [],
      hs_LastSeenAt = 0, hs_LastPort = 0, hs_ConnectSeen = False, hs_HTTPSeen = False,
      hs_MITMSeen = False, hs_DNSSeen = False, hs_PolicyViolations = 0,
      hs_PolicyAllowedCount = 0, hs_PolicyDeniedCount = 0\<rparr>"

definition recordHostSummaryAggregate ::
  "(string \<times> AccessedHostSummary) list \<Rightarrow> accessEvent \<Rightarrow>
   (string \<times> AccessedHostSummary) list" where
  "recordHostSummaryAggregate st e =
     (let (host, port) = eventHostPort e;
          entry = (case map_of st host of None \<Rightarrow> newHostSummary host | Some x \<Rightarrow> x);
          entry = entry\<lparr>hs_TrafficMode := normalizeTrafficMode (ev_TrafficMode e),
                        hs_Attempts := hs_Attempts entry + 1, hs_LastResult := ev_Result e,
                        hs_LastError := ev_Error e, hs_LastSeenAt := ev_Time e,
                        hs_LastPort := port\<rparr>;
          entry = (if ev_Kind e = ''connect'' \<or> ev_Kind e = ''transparent_connect''
                   then entry\<lparr>hs_ConnectSeen := True\<rparr>
                   else if ev_Kind e = ''http'' then entry\<lparr>hs_HTTPSeen := True\<rparr>
                   else if ev_Kind e = ''mitm'' then entry\<lparr>hs_MITMSeen := True\<rparr>
                   else if ev_Kind e = ''dns'' then entry\<lparr>hs_DNSSeen := True\<rparr>
                   else entry);
          entry = (if ev_PolicyAllowed e
                   then entry\<lparr>hs_PolicyAllowedCount := hs_PolicyAllowedCount entry + 1\<rparr>
                   else entry\<lparr>hs_PolicyDeniedCount := hs_PolicyDeniedCount entry + 1\<rparr>);
          entry = entry\<lparr>hs_PolicyViolations :=
                          hs_PolicyViolations entry + int (length (ev_PolicyViolations e))\<rparr> in
      gm_put host entry st)"

definition requestAggregateKey ::
  "string \<Rightarrow> string \<Rightarrow> int \<Rightarrow> string \<Rightarrow> string \<Rightarrow> string" where
  "requestAggregateKey kind host port m path =
     join [CHR 0x00] [kind, host, itoa port, m, path]"

definition newRequestAggregate :: "accessEvent \<Rightarrow> string \<Rightarrow> int \<Rightarrow> RequestAggregate" where
  "newRequestAggregate e host port =
     \<lparr>ra_Kind = ev_Kind e, ra_Host = host, ra_Port = port, ra_Method = ev_Method e,
      ra_Path = ev_Path e, ra_Attempts = 0, ra_AllowedCount = 0, ra_DeniedCount = 0,
      ra_PolicyAllowedCount = 0, ra_PolicyDeniedCount = 0, ra_LastSeenAt = 0,
      ra_LastStatusCode = 0, ra_LastError = []\<rparr>"

definition recordRequestAggregate ::
  "(string \<times> RequestAggregate) list \<Rightarrow> accessEvent \<Rightarrow> (string \<times> RequestAggregate) list" where
  "recordRequestAggregate st e =
     (let (host, port) = eventHostPort e;
          key = requestAggregateKey (ev_Kind e) host port (ev_Method e) (ev_Path e);
          entry = (case map_of st key of None \<Rightarrow> newRequestAggregate e host port | Some x \<Rightarrow> x);
          entry = entry\<lparr>ra_Attempts := ra_Attempts entry + 1\<rparr>;
          entry = (if ev_Allowed e then entry\<lparr>ra_AllowedCount := ra_AllowedCount entry + 1\<rparr>
                   else entry\<lparr>ra_DeniedCount := ra_DeniedCount entry + 1\<rparr>);
          entry = (if ev_PolicyAllowed e
                   then entry\<lparr>ra_PolicyAllowedCount := ra_PolicyAllowedCount entry + 1\<rparr>
                   else entry\<lparr>ra_PolicyDeniedCount := ra_PolicyDeniedCount entry + 1\<rparr>);
          entry = entry\<lparr>ra_LastSeenAt := ev_Time e, ra_LastStatusCode := ev_StatusCode e,
                        ra_LastError := ev_Error e\<rparr> in
      gm_put key entry st)"

definition newSandboxAuditState :: sandboxAuditState where
  "newSandboxAuditState = \<lparr>sa_domains = [], sa_hosts = [], sa_requests = []\<rparr>"

definition updateAuditStateLocked :: "managerAuditState \<Rightarrow> accessEvent \<Rightarrow> managerAuditState" where
  "updateAuditStateLocked st e =
     (if ev_SandboxID e = [] then st
      else
        let sb = (case map_of st (ev_SandboxID e) of
                    None \<Rightarrow> newSandboxAuditState | Some s \<Rightarrow> s) in
        gm_put (ev_SandboxID e)
          \<lparr>sa_domains = recordAccessedDomain (sa_domains sb) e,
           sa_hosts = recordHostSummaryAggregate (sa_hosts sb) e,
           sa_requests = recordRequestAggregate (sa_requests sb) e\<rparr> st)"

text \<open>
  The audit state of the manager inside the global \<^verbatim>\<open>auditStateByManager\<close>: absent or a map
  of sandboxes. Removing the last sandbox drops the whole entry.
\<close>

definition auditStateLocked :: "managerAuditState option \<Rightarrow> managerAuditState" where
  "auditStateLocked a = (case a of None \<Rightarrow> [] | Some st \<Rightarrow> st)"

definition initAuditStateLocked ::
  "managerAuditState option \<Rightarrow> string \<Rightarrow> managerAuditState option" where
  "initAuditStateLocked a sid =
     (if sid = [] then a
      else let st = auditStateLocked a in
           case map_of st sid of
             None \<Rightarrow> Some (gm_put sid newSandboxAuditState st)
           | Some _ \<Rightarrow> Some st)"

definition removeAuditStateLocked ::
  "managerAuditState option \<Rightarrow> string \<Rightarrow> managerAuditState option" where
  "removeAuditStateLocked a sid =
     (if sid = [] then a
      else case a of
             None \<Rightarrow> None
           | Some st \<Rightarrow> let st' = gm_delete sid st in if st' = [] then None else Some st')"

subsection \<open>Snapshots\<close>

definition snapshotAccessedDomains :: "(string \<times> AccessedDomain) list \<Rightarrow> AccessedDomain list" where
  "snapshotAccessedDomains st = map snd st"

definition snapshotHostSummaries ::
  "(string \<times> AccessedHostSummary) list \<Rightarrow> AccessedHostSummary list" where
  "snapshotHostSummaries st = sort_key hs_Host (map snd st)"

definition aggregate_order ::
  "RequestAggregate \<Rightarrow> string \<times> string \<times> int \<times> string \<times> string" where
  "aggregate_order r = (ra_Kind r, ra_Host r, ra_Port r, ra_Method r, ra_Path r)"

definition snapshotRequestAggregates ::
  "(string \<times> RequestAggregate) list \<Rightarrow> RequestAggregate list" where
  "snapshotRequestAggregates st = sort_key aggregate_order (map snd st)"

definition accessSummarySnapshot :: "managerAuditState option \<Rightarrow> string \<Rightarrow> AccessSummary" where
  "accessSummarySnapshot a sid =
     (case a of
        None \<Rightarrow> \<lparr>as_Hosts = [], as_Requests = []\<rparr>
      | Some st \<Rightarrow>
          if sid = [] then \<lparr>as_Hosts = [], as_Requests = []\<rparr>
          else (case map_of st sid of
                  None \<Rightarrow> \<lparr>as_Hosts = [], as_Requests = []\<rparr>
                | Some s \<Rightarrow> \<lparr>as_Hosts = snapshotHostSummaries (sa_hosts s),
                             as_Requests = snapshotRequestAggregates (sa_requests s)\<rparr>))"

definition accessedDomainsSnapshot :: "managerAuditState option \<Rightarrow> string \<Rightarrow> AccessedDomain list" where
  "accessedDomainsSnapshot a sid =
     (case a of
        None \<Rightarrow> []
      | Some st \<Rightarrow>
          if sid = [] then []
          else (case map_of st sid of
                  None \<Rightarrow> [] | Some s \<Rightarrow> snapshotAccessedDomains (sa_domains s)))"


subsection \<open>The contract of one counter\<close>

text \<open>
  A counter of an aggregation map: recording an event changes only the entry of the event's
  key, and adds the event's weight to that entry's counter (which starts at zero). After any
  sequence of events the counter of a key is the sum of the weights of its events.
\<close>

definition counter :: "('v \<Rightarrow> int) \<Rightarrow> 'v option \<Rightarrow> int" where
  "counter f v = (case v of None \<Rightarrow> 0 | Some x \<Rightarrow> f x)"

locale aggregation =
  fixes record_event :: "('k \<times> 'v) list \<Rightarrow> accessEvent \<Rightarrow> ('k \<times> 'v) list"
    and key_of :: "accessEvent \<Rightarrow> 'k"
    and count_of :: "'v \<Rightarrow> int"
    and weight :: "accessEvent \<Rightarrow> int"
  assumes record_same:
      "\<exists>v. map_of (record_event st e) (key_of e) = Some v \<and>
           count_of v = counter count_of (map_of st (key_of e)) + weight e"
    and record_other: "k \<noteq> key_of e \<Longrightarrow> map_of (record_event st e) k = map_of st k"
begin

lemma record_counter:
  "counter count_of (map_of (record_event st e) k) =
   counter count_of (map_of st k) + (if key_of e = k then weight e else 0)"
proof (cases "key_of e = k")
  case True
  obtain v where "map_of (record_event st e) (key_of e) = Some v"
      "count_of v = counter count_of (map_of st (key_of e)) + weight e"
    using record_same by blast
  with True show ?thesis by (simp add: counter_def)
next
  case False
  then show ?thesis by (simp add: record_other)
qed

lemma records_counter:
  "counter count_of (map_of (foldl record_event st es) k) =
   counter count_of (map_of st k) + (\<Sum>e\<leftarrow>filter (\<lambda>e. key_of e = k) es. weight e)"
  by (induction es arbitrary: st) (simp_all add: record_counter)

lemma records_present:
  "map_of (foldl record_event st es) k = None \<longleftrightarrow>
   map_of st k = None \<and> (\<forall>e \<in> set es. key_of e \<noteq> k)"
proof (induction es arbitrary: st)
  case (Cons e es)
  have "map_of (record_event st e) k = None \<longleftrightarrow> map_of st k = None \<and> key_of e \<noteq> k"
    using record_same[of st e] record_other[of k e st] by (cases "key_of e = k") auto
  then show ?case by (auto simp: Cons.IH)
qed simp

end

definition event_key :: "accessEvent \<Rightarrow> string" where
  "event_key e = requestAggregateKey (ev_Kind e) (fst (eventHostPort e)) (snd (eventHostPort e))
     (ev_Method e) (ev_Path e)"

lemmas record_defs =
  recordAccessedDomain_def recordHostSummaryAggregate_def recordRequestAggregate_def
  newAccessedDomain_def newHostSummary_def newRequestAggregate_def

interpretation domain_attempts: aggregation recordAccessedDomain "\<lambda>e. fst (eventHostPort e)"
  ad_Attempts "\<lambda>e. 1"
  by unfold_locales
    (auto simp: record_defs counter_def Let_def split: prod.splits option.splits)

interpretation host_attempts: aggregation recordHostSummaryAggregate "\<lambda>e. fst (eventHostPort e)"
  hs_Attempts "\<lambda>e. 1"
  by unfold_locales
    (auto simp: record_defs counter_def Let_def split: prod.splits option.splits)

interpretation host_policy_allowed: aggregation recordHostSummaryAggregate
  "\<lambda>e. fst (eventHostPort e)" hs_PolicyAllowedCount "\<lambda>e. if ev_PolicyAllowed e then 1 else 0"
  by unfold_locales
    (auto simp: record_defs counter_def Let_def split: prod.splits option.splits)

interpretation host_policy_denied: aggregation recordHostSummaryAggregate
  "\<lambda>e. fst (eventHostPort e)" hs_PolicyDeniedCount "\<lambda>e. if ev_PolicyAllowed e then 0 else 1"
  by unfold_locales
    (auto simp: record_defs counter_def Let_def split: prod.splits option.splits)

interpretation host_violations: aggregation recordHostSummaryAggregate
  "\<lambda>e. fst (eventHostPort e)" hs_PolicyViolations "\<lambda>e. int (length (ev_PolicyViolations e))"
  by unfold_locales
    (auto simp: record_defs counter_def Let_def split: prod.splits option.splits)

interpretation request_attempts: aggregation recordRequestAggregate event_key
  ra_Attempts "\<lambda>e. 1"
  by unfold_locales
    (auto simp: record_defs counter_def event_key_def Let_def split: prod.splits option.splits)

interpretation request_allowed: aggregation recordRequestAggregate event_key
  ra_AllowedCount "\<lambda>e. if ev_Allowed e then 1 else 0"
  by unfold_locales
    (auto simp: record_defs counter_def event_key_def Let_def split: prod.splits option.splits)

interpretation request_denied: aggregation recordRequestAggregate event_key
  ra_DeniedCount "\<lambda>e. if ev_Allowed e then 0 else 1"
  by unfold_locales
    (auto simp: record_defs counter_def event_key_def Let_def split: prod.splits option.splits)

interpretation request_policy_allowed: aggregation recordRequestAggregate event_key
  ra_PolicyAllowedCount "\<lambda>e. if ev_PolicyAllowed e then 1 else 0"
  by unfold_locales
    (auto simp: record_defs counter_def event_key_def Let_def split: prod.splits option.splits)

interpretation request_policy_denied: aggregation recordRequestAggregate event_key
  ra_PolicyDeniedCount "\<lambda>e. if ev_PolicyAllowed e then 0 else 1"
  by unfold_locales
    (auto simp: record_defs counter_def event_key_def Let_def split: prod.splits option.splits)


subsection \<open>Totals, keys and isolation of sandboxes\<close>

lemma sum_gm_put:
  "(\<Sum>kv\<leftarrow>gm_put k v m. f (snd kv)) = (\<Sum>kv\<leftarrow>m. f (snd kv)) - counter f (map_of m k) + (f v :: int)"
  by (induction k v m rule: gm_put.induct) (auto simp: counter_def)

lemma recordHost_put:
  "\<exists>v. recordHostSummaryAggregate st e = gm_put (fst (eventHostPort e)) v st \<and>
       hs_Host v = (case map_of st (fst (eventHostPort e)) of
                      None \<Rightarrow> fst (eventHostPort e) | Some x \<Rightarrow> hs_Host x) \<and>
       hs_Attempts v = counter hs_Attempts (map_of st (fst (eventHostPort e))) + 1"
  by (auto simp: recordHostSummaryAggregate_def newHostSummary_def counter_def Let_def
      split: prod.splits option.splits)

lemma recordRequest_put:
  "\<exists>v. recordRequestAggregate st e = gm_put (event_key e) v st \<and>
       aggregate_order v =
         (case map_of st (event_key e) of
            None \<Rightarrow> (ev_Kind e, fst (eventHostPort e), snd (eventHostPort e), ev_Method e, ev_Path e)
          | Some x \<Rightarrow> aggregate_order x) \<and>
       ra_Attempts v = counter ra_Attempts (map_of st (event_key e)) + 1"
  by (auto simp: recordRequestAggregate_def newRequestAggregate_def counter_def event_key_def
      aggregate_order_def Let_def split: prod.splits option.splits)

definition host_map_wf :: "nat \<Rightarrow> (string \<times> AccessedHostSummary) list \<Rightarrow> bool" where
  "host_map_wf n st \<longleftrightarrow> distinct (map fst st) \<and> (\<forall>(k, v) \<in> set st. hs_Host v = k) \<and>
     (\<Sum>kv\<leftarrow>st. hs_Attempts (snd kv)) = int n"

definition request_key :: "string \<times> string \<times> int \<times> string \<times> string \<Rightarrow> string" where
  "request_key = (\<lambda>(kind, host, port, m, path). requestAggregateKey kind host port m path)"

definition request_map_wf :: "nat \<Rightarrow> (string \<times> RequestAggregate) list \<Rightarrow> bool" where
  "request_map_wf n st \<longleftrightarrow> distinct (map fst st) \<and>
     (\<forall>(k, v) \<in> set st. request_key (aggregate_order v) = k) \<and>
     (\<Sum>kv\<leftarrow>st. ra_Attempts (snd kv)) = int n"

lemma host_map_wf_record:
  assumes "host_map_wf n st"
  shows "host_map_wf (Suc n) (recordHostSummaryAggregate st e)"
proof -
  obtain v where v: "recordHostSummaryAggregate st e = gm_put (fst (eventHostPort e)) v st"
      "hs_Host v = (case map_of st (fst (eventHostPort e)) of
                      None \<Rightarrow> fst (eventHostPort e) | Some x \<Rightarrow> hs_Host x)"
      "hs_Attempts v = counter hs_Attempts (map_of st (fst (eventHostPort e))) + 1"
    using recordHost_put by blast
  have "hs_Host v = fst (eventHostPort e)"
    using assms v(2) by (auto simp: host_map_wf_def split: option.splits dest!: map_of_SomeD)
  then show ?thesis
    using assms v(1,3) set_gm_put[of "fst (eventHostPort e)" v st]
    by (auto simp: host_map_wf_def distinct_gm_put sum_gm_put)
qed

lemma request_map_wf_record:
  assumes "request_map_wf n st"
  shows "request_map_wf (Suc n) (recordRequestAggregate st e)"
proof -
  obtain v where v: "recordRequestAggregate st e = gm_put (event_key e) v st"
      "aggregate_order v = (case map_of st (event_key e) of
            None \<Rightarrow> (ev_Kind e, fst (eventHostPort e), snd (eventHostPort e), ev_Method e, ev_Path e)
          | Some x \<Rightarrow> aggregate_order x)"
      "ra_Attempts v = counter ra_Attempts (map_of st (event_key e)) + 1"
    using recordRequest_put by blast
  have "request_key (aggregate_order v) = event_key e"
    using assms v(2)
    by (cases "map_of st (event_key e)")
      (auto simp: request_map_wf_def request_key_def event_key_def dest!: map_of_SomeD)
  then show ?thesis
    using assms v(1,3) set_gm_put[of "event_key e" v st]
    by (auto simp: request_map_wf_def distinct_gm_put sum_gm_put)
qed

lemma host_map_wf_records: "host_map_wf n st \<Longrightarrow>
  host_map_wf (n + length es) (foldl recordHostSummaryAggregate st es)"
proof (induction es arbitrary: n st)
  case (Cons e es)
  show ?case using Cons.IH[OF host_map_wf_record[OF Cons.prems]] by simp
qed simp

lemma request_map_wf_records: "request_map_wf n st \<Longrightarrow>
  request_map_wf (n + length es) (foldl recordRequestAggregate st es)"
proof (induction es arbitrary: n st)
  case (Cons e es)
  show ?case using Cons.IH[OF request_map_wf_record[OF Cons.prems]] by simp
qed simp

lemma update_other_sandbox:
  "sid \<noteq> ev_SandboxID e \<Longrightarrow> map_of (updateAuditStateLocked st e) sid = map_of st sid"
  by (simp add: updateAuditStateLocked_def Let_def)

definition sandbox_state :: "managerAuditState \<Rightarrow> string \<Rightarrow> sandboxAuditState" where
  "sandbox_state st sid =
     (case map_of st sid of None \<Rightarrow> newSandboxAuditState | Some s \<Rightarrow> s)"

definition record_in_sandbox :: "sandboxAuditState \<Rightarrow> accessEvent \<Rightarrow> sandboxAuditState" where
  "record_in_sandbox s e =
     \<lparr>sa_domains = recordAccessedDomain (sa_domains s) e,
      sa_hosts = recordHostSummaryAggregate (sa_hosts s) e,
      sa_requests = recordRequestAggregate (sa_requests s) e\<rparr>"

lemma updates_by_sandbox:
  assumes "sid \<noteq> []"
  shows "sandbox_state (foldl updateAuditStateLocked st es) sid =
    foldl record_in_sandbox (sandbox_state st sid) (filter (\<lambda>e. ev_SandboxID e = sid) es)"
proof (induction es arbitrary: st)
  case (Cons e es)
  have "sandbox_state (updateAuditStateLocked st e) sid =
      (if ev_SandboxID e = sid then record_in_sandbox (sandbox_state st sid) e
       else sandbox_state st sid)"
    using assms
    by (auto simp: sandbox_state_def record_in_sandbox_def updateAuditStateLocked_def Let_def)
  then show ?case by (simp add: Cons.IH)
qed simp

lemma foldl_record_in_sandbox:
  "foldl record_in_sandbox s es =
     \<lparr>sa_domains = foldl recordAccessedDomain (sa_domains s) es,
      sa_hosts = foldl recordHostSummaryAggregate (sa_hosts s) es,
      sa_requests = foldl recordRequestAggregate (sa_requests s) es\<rparr>"
  by (induction es arbitrary: s) (simp_all add: record_in_sandbox_def)

lemma sandbox_state_of_events:
  assumes "sid \<noteq> []"
  shows "sandbox_state (foldl updateAuditStateLocked [] es) sid =
     \<lparr>sa_domains = foldl recordAccessedDomain [] (filter (\<lambda>e. ev_SandboxID e = sid) es),
      sa_hosts = foldl recordHostSummaryAggregate [] (filter (\<lambda>e. ev_SandboxID e = sid) es),
      sa_requests = foldl recordRequestAggregate [] (filter (\<lambda>e. ev_SandboxID e = sid) es)\<rparr>"
  using updates_by_sandbox[OF assms, of "[]" es]
  by (simp add: foldl_record_in_sandbox sandbox_state_def newSandboxAuditState_def)

lemma accessSummarySnapshot_state:
  "sid \<noteq> [] \<Longrightarrow> accessSummarySnapshot (Some st) sid =
     \<lparr>as_Hosts = snapshotHostSummaries (sa_hosts (sandbox_state st sid)),
      as_Requests = snapshotRequestAggregates (sa_requests (sandbox_state st sid))\<rparr>"
  by (simp add: accessSummarySnapshot_def sandbox_state_def newSandboxAuditState_def
      snapshotHostSummaries_def snapshotRequestAggregates_def split: option.splits)

lemma join_cons_sep:
  fixes c :: char
  assumes "c \<notin> set a" "c \<notin> set b"
  shows "a @ c # x = b @ c # y \<longleftrightarrow> a = b \<and> x = y"
  using assms str_cut_app[of c a x] str_cut_app[of c b y] by (metis option.inject prod.inject)

lemma itoa_no_nul: "CHR 0x00 \<notin> set (itoa i)"
  by (auto dest!: itoa_chars simp: is_digit_def)


subsection \<open>Properties\<close>

text \<open>
  After any sequence of events, the request row of a key exists exactly when an event
  has that key, and its counters are the numbers of those events: attempts, allowed, denied,
  allowed by policy and denied by policy. So attempts are allowed plus denied, and also
  allowed by policy plus denied by policy.
\<close>

theorem request_rows_count_events:
  "(case map_of (foldl recordRequestAggregate [] es) k of
      None \<Rightarrow> filter (\<lambda>e. event_key e = k) es = []
    | Some r \<Rightarrow>
        filter (\<lambda>e. event_key e = k) es \<noteq> [] \<and>
        ra_Attempts r = int (length (filter (\<lambda>e. event_key e = k) es)) \<and>
        ra_AllowedCount r = int (length (filter (\<lambda>e. event_key e = k \<and> ev_Allowed e) es)) \<and>
        ra_DeniedCount r = int (length (filter (\<lambda>e. event_key e = k \<and> \<not> ev_Allowed e) es)) \<and>
        ra_PolicyAllowedCount r =
          int (length (filter (\<lambda>e. event_key e = k \<and> ev_PolicyAllowed e) es)) \<and>
        ra_PolicyDeniedCount r =
          int (length (filter (\<lambda>e. event_key e = k \<and> \<not> ev_PolicyAllowed e) es)) \<and>
        ra_Attempts r = ra_AllowedCount r + ra_DeniedCount r \<and>
        ra_Attempts r = ra_PolicyAllowedCount r + ra_PolicyDeniedCount r)"
proof -
  have one: "(\<Sum>e\<leftarrow>xs. 1) = int (length xs)" for xs :: "accessEvent list"
    by (induction xs) simp_all
  have ind: "(\<Sum>e\<leftarrow>filter P xs. if Q e then 1 else 0) = int (length (filter (\<lambda>e. P e \<and> Q e) xs))"
    for P Q and xs :: "accessEvent list"
    by (induction xs) simp_all
  have nind: "(\<Sum>e\<leftarrow>filter P xs. if Q e then 0 else 1) =
      int (length (filter (\<lambda>e. P e \<and> \<not> Q e) xs))" for P Q and xs :: "accessEvent list"
    by (induction xs) simp_all
  have split: "length (filter P xs) = length (filter (\<lambda>e. P e \<and> Q e) xs) +
      length (filter (\<lambda>e. P e \<and> \<not> Q e) xs)" for P Q and xs :: "accessEvent list"
    by (induction xs) simp_all
  note counts = request_attempts.records_counter[of "[]" es k]
    request_allowed.records_counter[of "[]" es k] request_denied.records_counter[of "[]" es k]
    request_policy_allowed.records_counter[of "[]" es k]
    request_policy_denied.records_counter[of "[]" es k]
  show ?thesis
  proof (cases "map_of (foldl recordRequestAggregate [] es) k")
    case None
    with request_attempts.records_present[of "[]" es k] show ?thesis
      by (simp add: filter_empty_conv)
  next
    case (Some r)
    with request_attempts.records_present[of "[]" es k] have "filter (\<lambda>e. event_key e = k) es \<noteq> []"
      by (auto simp: filter_empty_conv)
    with Some counts split[of "\<lambda>e. event_key e = k" es ev_Allowed]
      split[of "\<lambda>e. event_key e = k" es ev_PolicyAllowed]
    show ?thesis by (simp add: counter_def one ind nind)
  qed
qed

text \<open>
  The key of a request row determines its kind, host, port, method and path, as long as
  kind, host and method contain no NUL byte; so two different requests never share a row.
\<close>

theorem requestAggregateKey_inj:
  assumes "CHR 0x00 \<notin> set kind" "CHR 0x00 \<notin> set host" "CHR 0x00 \<notin> set m"
    and "CHR 0x00 \<notin> set kind'" "CHR 0x00 \<notin> set host'" "CHR 0x00 \<notin> set m'"
  shows "requestAggregateKey kind host port m path = requestAggregateKey kind' host' port' m' path' \<longleftrightarrow>
    kind = kind' \<and> host = host' \<and> port = port' \<and> m = m' \<and> path = path'"
  using assms itoa_no_nul by (simp add: requestAggregateKey_def join_cons_sep itoa_inj)

text \<open>
  C36. The access summary of a sandbox lists each host once in ascending order and the
  request rows in ascending order of kind, host, port, method and path without repetition;
  the attempts of the hosts and of the rows both add up to the number of events recorded for
  that sandbox, whatever was recorded for other sandboxes in between.
\<close>

theorem accessSummary_totals:
  assumes "sid \<noteq> []"
  shows "let s = accessSummarySnapshot (Some (foldl updateAuditStateLocked [] es)) sid;
             n = int (length (filter (\<lambda>e. ev_SandboxID e = sid) es)) in
         sorted (map hs_Host (as_Hosts s)) \<and> distinct (map hs_Host (as_Hosts s)) \<and>
         sorted (map aggregate_order (as_Requests s)) \<and>
         distinct (map aggregate_order (as_Requests s)) \<and>
         (\<Sum>h\<leftarrow>as_Hosts s. hs_Attempts h) = n \<and> (\<Sum>r\<leftarrow>as_Requests s. ra_Attempts r) = n"
proof -
  let ?es = "filter (\<lambda>e. ev_SandboxID e = sid) es"
  let ?h = "foldl recordHostSummaryAggregate [] ?es" and ?r = "foldl recordRequestAggregate [] ?es"
  have h: "host_map_wf (length ?es) ?h" and r: "request_map_wf (length ?es) ?r"
    using host_map_wf_records[of 0 "[]"] request_map_wf_records[of 0 "[]"]
    by (simp_all add: host_map_wf_def request_map_wf_def)
  have keyed: "distinct (map (f \<circ> snd) st)"
    if "distinct (map fst st)" "\<forall>(k, v) \<in> set st. g (f v) = (k :: string)"
    for st :: "(string \<times> 'v) list" and f :: "'v \<Rightarrow> 'w" and g
    using that by (induction st) (fastforce simp: image_iff)+
  have sum_sort: "(\<Sum>x\<leftarrow>sort_key f xs. w x) = (\<Sum>x\<leftarrow>xs. w x)"
    for f :: "'v \<Rightarrow> 'w :: linorder" and w :: "'v \<Rightarrow> int" and xs
    by (metis mset_map mset_sort sum_mset_sum_list)
  have dist_sort: "distinct (map f (sort_key f xs)) = distinct (map f xs)"
    for f :: "'v \<Rightarrow> 'w :: linorder" and xs
    by (metis mset_eq_imp_distinct_iff mset_map mset_sort)
  have "distinct (map (hs_Host \<circ> snd) ?h)"
    using h keyed[of ?h "\<lambda>x. x" hs_Host] by (simp add: host_map_wf_def)
  moreover have "distinct (map (aggregate_order \<circ> snd) ?r)"
    using r keyed[of ?r request_key aggregate_order] by (simp add: request_map_wf_def)
  ultimately show ?thesis
    using h r assms
    by (simp add: accessSummarySnapshot_state sandbox_state_of_events Let_def dist_sort sum_sort
        snapshotHostSummaries_def snapshotRequestAggregates_def host_map_wf_def request_map_wf_def
        comp_def)
qed

subsection \<open>Witnesses\<close>

definition example_event :: accessEvent where
  "example_event = zero_event\<lparr>ev_SandboxID := ''s'', ev_Kind := ''http'', ev_Host := ''A:8'',
     ev_Method := ''GET'', ev_Path := ''/'', ev_Allowed := True, ev_PolicyAllowed := True\<rparr>"

theorem requestAggregateKey_inj_witness:
  "requestAggregateKey ''http'' ''a'' 8 ''GET'' ''/'' \<noteq> requestAggregateKey ''http'' ''a'' 8 ''GET'' ''/x''"
  using requestAggregateKey_inj[of "''http''" "''a''" "''GET''" "''http''" "''a''" "''GET''" 8 "''/''" 8
      "''/x''"] by simp

theorem accessSummary_totals_witness:
  "(\<Sum>h\<leftarrow>as_Hosts (accessSummarySnapshot
      (Some (foldl updateAuditStateLocked [] [example_event, example_event])) ''s''). hs_Attempts h) = 2"
  using accessSummary_totals[of "''s''" "[example_event, example_event]"]
  by (simp add: Let_def example_event_def)

end
