(* ===== verification/Helper_Proto.thy ===== *)
theory Helper_Proto
  imports Access_Audit
begin

section \<open>Messages between host and helper: internal/helperproto\<close>

text \<open>
  The messages of \<^verbatim>\<open>messages.go\<close>, one record per Go struct, and the envelope with its
  optional parts. An envelope is meant to carry one message; \<open>envelopeKind\<close> is the switch
  of \<^verbatim>\<open>Envelope.Kind\<close>, which names the first part that is present.
\<close>

definition ProtocolVersion :: int where
  "ProtocolVersion = 9"

record Hello =
  he_ProtocolVersion :: int
  he_SandboxID :: string

record Ready =
  rd_ProtocolVersion :: int
  rd_ProxyAddr :: string
  rd_DNSAddr :: string
  rd_TCPAddr :: string

record ProxyRequest =
  px_Method :: string
  px_URL :: string
  px_Header :: http_header
  px_Body :: string

record ProxyResponse =
  ps_StatusCode :: int
  ps_Header :: http_header
  ps_Body :: string
  ps_Error :: string

record ProtocolMetadata =
  pm_Protocol :: string
  pm_Source :: string
  pm_Confidence :: string

record ConnectRequest =
  cq_Host :: string
  cq_Port :: int
  cq_Transparent :: bool
  cq_ProtocolMetadata :: ProtocolMetadata

record ConnectResponse =
  cs_StatusCode :: int
  cs_Message :: string
  cs_Error :: string

record DNSRequest =
  dq_Network :: string
  dq_Host :: string
  dq_Port :: int
  dq_Payload :: string

record DNSResponse =
  dn_Payload :: string
  dn_Error :: string

record LeafCertRequest =
  lq_Host :: string

record LeafCertResponse =
  lr_CertPEM :: string
  lr_KeyPEM :: string
  lr_Error :: string

record MITMRequest =
  mq_Scheme :: string
  mq_Authority :: string
  mq_Host :: string
  mq_Method :: string
  mq_Path :: string
  mq_RawQuery :: string
  mq_Header :: http_header
  mq_Body :: string
  mq_Proto :: string
  mq_BodyTooLarge :: bool

record MITMResponse =
  mr_StatusCode :: int
  mr_Header :: http_header
  mr_Body :: string
  mr_Error :: string

record TunnelFrame =
  tf_Data :: string

record TunnelClose =
  tc_Write :: bool
  tc_Error :: string

record TerminalSize =
  ts_Rows :: "16 word"
  ts_Cols :: "16 word"

record ExecRequest =
  xq_Argv :: "string list"
  xq_Env :: "string list"
  xq_WorkDir :: string
  xq_Interactive :: bool
  xq_Terminal :: bool
  xq_InitialSize :: "TerminalSize option"

record ExecInput =
  xi_Data :: string
  xi_EOF :: bool
  xi_Resize :: "TerminalSize option"
  xi_Cancel :: bool

record StreamFrame =
  sf_Stream :: string
  sf_Data :: string

record ExecResult =
  xr_ExitCode :: int
  xr_Stderr :: string
  xr_Error :: string

record Envelope =
  en_ID :: "64 word"
  en_Hello :: "Hello option"
  en_Ready :: "Ready option"
  en_ProxyRequest :: "ProxyRequest option"
  en_ProxyResponse :: "ProxyResponse option"
  en_ConnectRequest :: "ConnectRequest option"
  en_ConnectResponse :: "ConnectResponse option"
  en_DNSRequest :: "DNSRequest option"
  en_DNSResponse :: "DNSResponse option"
  en_LeafCertRequest :: "LeafCertRequest option"
  en_LeafCertResponse :: "LeafCertResponse option"
  en_MITMRequest :: "MITMRequest option"
  en_MITMResponse :: "MITMResponse option"
  en_TunnelFrame :: "TunnelFrame option"
  en_TunnelClose :: "TunnelClose option"
  en_ExecRequest :: "ExecRequest option"
  en_ExecInput :: "ExecInput option"
  en_StreamFrame :: "StreamFrame option"
  en_ExecResult :: "ExecResult option"

definition envelopeKind :: "Envelope \<Rightarrow> string" where
  "envelopeKind e =
     (if en_Hello e \<noteq> None then ''hello''
      else if en_Ready e \<noteq> None then ''ready''
      else if en_ProxyRequest e \<noteq> None then ''proxy_request''
      else if en_ProxyResponse e \<noteq> None then ''proxy_response''
      else if en_ConnectRequest e \<noteq> None then ''connect_request''
      else if en_ConnectResponse e \<noteq> None then ''connect_response''
      else if en_DNSRequest e \<noteq> None then ''dns_request''
      else if en_DNSResponse e \<noteq> None then ''dns_response''
      else if en_LeafCertRequest e \<noteq> None then ''leaf_cert_request''
      else if en_LeafCertResponse e \<noteq> None then ''leaf_cert_response''
      else if en_MITMRequest e \<noteq> None then ''mitm_request''
      else if en_MITMResponse e \<noteq> None then ''mitm_response''
      else if en_TunnelFrame e \<noteq> None then ''tunnel_frame''
      else if en_TunnelClose e \<noteq> None then ''tunnel_close''
      else if en_ExecRequest e \<noteq> None then ''exec_request''
      else if en_ExecInput e \<noteq> None then ''exec_input''
      else if en_StreamFrame e \<noteq> None then ''stream_frame''
      else if en_ExecResult e \<noteq> None then ''exec_result''
      else ''unknown'')"

end
