(* ===== verification/Go_Path.thy ===== *)
theory Go_Path
  imports Go_Strings
begin

section \<open>Packages path and path/filepath\<close>

text \<open>
  Lexical path functions on slash-separated paths. \<open>path_clean\<close> is \<^verbatim>\<open>path.Clean\<close> (and
  \<^verbatim>\<open>filepath.Clean\<close> on Unix), written on the list of path elements: empty elements and
  dots are dropped, a double dot removes the element before it, and at the root it is
  dropped.
\<close>

fun clean_elems :: "bool \<Rightarrow> string list \<Rightarrow> string list \<Rightarrow> string list" where
  "clean_elems rooted out [] = rev out"
| "clean_elems rooted out (e # es) =
     (if e = [] \<or> e = ''.'' then clean_elems rooted out es
      else if e = ''..'' then
        (case out of
           [] \<Rightarrow> if rooted then clean_elems rooted [] es else clean_elems rooted [''..''] es
         | o1 # os \<Rightarrow> if o1 = ''..'' then clean_elems rooted (''..'' # out) es
                     else clean_elems rooted os es)
      else clean_elems rooted (e # out) es)"

definition is_rooted :: "string \<Rightarrow> bool" where
  "is_rooted p \<longleftrightarrow> p \<noteq> [] \<and> hd p = CHR ''/''"

definition path_clean :: "string \<Rightarrow> string" where
  "path_clean p =
     (if p = [] then ''.''
      else let es = clean_elems (is_rooted p) [] (split_on CHR ''/'' p) in
           if is_rooted p then CHR ''/'' # join ''/'' es
           else if es = [] then ''.'' else join ''/'' es)"

text \<open>\<^verbatim>\<open>filepath.Join\<close>: empty elements are ignored, the rest is joined and cleaned.\<close>

definition path_join :: "string list \<Rightarrow> string" where
  "path_join es =
     (let ne = filter (\<lambda>e. e \<noteq> []) es in if ne = [] then [] else path_clean (join ''/'' ne))"

text \<open>The elements of a cleaned absolute path.\<close>

definition plain_elem :: "string \<Rightarrow> bool" where
  "plain_elem e \<longleftrightarrow> e \<noteq> [] \<and> e \<noteq> ''.'' \<and> e \<noteq> ''..'' \<and> CHR ''/'' \<notin> set e"

definition path_elems :: "string \<Rightarrow> string list" where
  "path_elems p = clean_elems True [] (split_on CHR ''/'' p)"

lemma clean_elems_rooted:
  assumes "list_all plain_elem out" and "\<forall>e \<in> set es. CHR ''/'' \<notin> set e"
  shows "list_all plain_elem (clean_elems True out es)"
  using assms
proof (induction True out es rule: clean_elems.induct)
  case (2 out e es)
  then show ?case
    by (cases out) (auto simp: plain_elem_def)
qed (auto simp: list_all_iff)

lemma path_elems_plain: "list_all plain_elem (path_elems p)"
  unfolding path_elems_def by (rule clean_elems_rooted) (auto dest: split_on_no_sep)

text \<open>
  The elements of a cleaned relative path: some double dots, then plain elements.
\<close>

lemma clean_elems_relative:
  assumes "out = ps @ replicate n ''..''" and "list_all plain_elem ps"
    and "\<forall>e \<in> set es. CHR ''/'' \<notin> set e"
  shows "\<exists>ps' n'. clean_elems False out es = replicate n' ''..'' @ ps' \<and> list_all plain_elem ps'"
  using assms
proof (induction es arbitrary: out ps n)
  case Nil
  then show ?case
    by (intro exI[of _ "rev ps"] exI[of _ n]) (auto simp: list_all_iff)
next
  case (Cons e es)
  consider "e = [] \<or> e = ''.''" | "e = ''..''" | "e \<noteq> []" "e \<noteq> ''.''" "e \<noteq> ''..''" by blast
  then show ?case
  proof cases
    case 1
    then show ?thesis using Cons.IH[of out ps n] Cons.prems by auto
  next
    case 2
    show ?thesis
    proof (cases ps)
      case Nil
      then show ?thesis
        using 2 Cons.prems Cons.IH[of "''..'' # out" "[]" "Suc n"] by (cases n) auto
    next
      case (Cons q qs)
      then show ?thesis
        using 2 Cons.prems Cons.IH[of "qs @ replicate n ''..''" qs n]
        by (auto simp: plain_elem_def)
    qed
  next
    case 3
    then show ?thesis
      using Cons.prems Cons.IH[of "e # out" "e # ps" n] by (auto simp: plain_elem_def)
  qed
qed

lemma clean_elems_id:
  "list_all plain_elem es \<Longrightarrow> clean_elems r out es = rev out @ es"
  by (induction es arbitrary: out) (auto simp: plain_elem_def)

lemma split_on_join_plain:
  "list_all plain_elem es \<Longrightarrow> es \<noteq> [] \<Longrightarrow> split_on CHR ''/'' (join ''/'' es) = es"
  by (rule split_on_join) (auto simp: list_all_iff plain_elem_def)

lemma path_elems_join:
  "list_all plain_elem es \<Longrightarrow> path_elems (CHR ''/'' # join ''/'' es) = es"
  by (cases "es = []") (simp_all add: path_elems_def split_on_join_plain clean_elems_id)

lemma path_clean_rooted: "is_rooted p \<Longrightarrow> path_clean p = CHR ''/'' # join ''/'' (path_elems p)"
  by (auto simp: path_clean_def path_elems_def is_rooted_def Let_def)

lemma path_clean_idem_rooted: "is_rooted p \<Longrightarrow> path_clean (path_clean p) = path_clean p"
  by (simp add: path_clean_rooted path_elems_join path_elems_plain is_rooted_def)

end
