(* ===== verification/Docker_Policy.thy ===== *)
theory Docker_Policy
  imports Policy Go_Path
begin

section \<open>The Docker socket policy\<close>

text \<open>
  \<^verbatim>\<open>docker_socket.go\<close>, \<^verbatim>\<open>docker_socket_mapping.go\<close>, \<^verbatim>\<open>docker_socket_policy.go\<close> and
  \<^verbatim>\<open>docker_socket_build.go\<close>: the mapping of a raw Docker API request to an operation, the
  compilation and the first-match evaluation of Docker rules, and the inspection of build
  requests. Parameters: \<open>re\<close> is \<^verbatim>\<open>regexp.Compile\<close>, \<open>tar_names\<close> reads the entry names of a
  tar archive up to its end or an error (\<^verbatim>\<open>archive/tar\<close>), \<open>json_objects\<close> decodes a JSON array
  of objects and gives its length (\<^verbatim>\<open>encoding/json\<close>). The query of a request URL is the
  parsed multi-map \<^verbatim>\<open>url.Values\<close>.
\<close>

type_synonym DockerRuleAction = string
type_synonym DockerOperation = string
type_synonym url_values = "(string \<times> string list) list"
type_synonym tar_reader = "string \<Rightarrow> string list result"
type_synonym json_array = "string \<Rightarrow> nat result"

record dockerBuildRequest =
  br_Dockerfile :: string
  br_Remote :: string
  br_Tags :: "string list"
  br_BodyKind :: string

record dockerSocketRequest =
  ds_Method :: string
  ds_Path :: string
  ds_Operation :: DockerOperation
  ds_Build :: "dockerBuildRequest option"

record DockerHTTPMatch =
  hm_Methods :: "string list"
  hm_PathPatterns :: "string list"

record DockerBuildMatch =
  bm_Context :: string
  bm_DockerfilePaths :: "string list"

record DockerSocketRule =
  dr_Action :: DockerRuleAction
  dr_Operations :: "DockerOperation list"
  dr_HTTP :: "DockerHTTPMatch option"
  dr_Build :: "DockerBuildMatch option"

record DockerSocketPolicy =
  dp_DefaultAction :: DockerRuleAction
  dp_Rules :: "DockerSocketRule list"

record compiledDockerBuildMatch =
  cb_context :: string
  cb_dockerfilePatterns :: "regexp list"

record compiledDockerSocketRule =
  cd_action :: DockerRuleAction
  cd_operations :: "DockerOperation list"
  cd_httpMethods :: "string list"
  cd_pathPatterns :: "regexp list"
  cd_build :: "compiledDockerBuildMatch option"

record compiledDockerSocketPolicy =
  cp_defaultAction :: DockerRuleAction
  cp_rules :: "compiledDockerSocketRule list"

record dockerRequestMeta =
  dm_Method :: string
  dm_Path :: string
  dm_Operation :: DockerOperation

definition normalizeDockerOperation :: "string \<Rightarrow> DockerOperation" where
  "normalizeDockerOperation op = to_lower (trim_space op)"

subsection \<open>Mapping requests to operations\<close>

text \<open>
  \<^verbatim>\<open>^/v[0-9]+(?:\.[0-9]+)?(?:/|$)\<close> anchored at the start of the path: the rest of the
  path after the version prefix, if the path has one.
\<close>

definition strip_digits :: "string \<Rightarrow> string option" where
  "strip_digits s = (if s \<noteq> [] \<and> is_digit (hd s) then Some (dropWhile is_digit s) else None)"

definition version_end :: "string \<Rightarrow> string option" where
  "version_end s = (case s of [] \<Rightarrow> Some [] | c # r \<Rightarrow> if c = CHR ''/'' then Some r else None)"

definition dockerAPIVersionPrefix :: "string \<Rightarrow> string option" where
  "dockerAPIVersionPrefix s =
     (if \<not> has_prefix s ''/v'' then None
      else case strip_digits (drop 2 s) of
        None \<Rightarrow> None
      | Some r \<Rightarrow>
          (case version_end r of
             Some rest \<Rightarrow> Some rest
           | None \<Rightarrow>
               if hd r \<noteq> CHR ''.'' then None
               else case strip_digits (tl r) of None \<Rightarrow> None | Some r' \<Rightarrow> version_end r'))"

definition normalizeDockerAPIPath :: "string \<Rightarrow> string" where
  "normalizeDockerAPIPath path =
     (let normalized = trim_space path in
      if normalized = [] then ''/''
      else
        let noquery = (case str_cut CHR ''?'' normalized of None \<Rightarrow> normalized | Some (a, _) \<Rightarrow> a) in
        if noquery = [] then ''/''
        else
          let rooted = (if has_prefix noquery ''/'' then noquery else ''/'' @ noquery);
              unversioned =
                (case dockerAPIVersionPrefix rooted of None \<Rightarrow> rooted | Some rest \<Rightarrow> ''/'' @ rest) in
          if unversioned = [] then ''/''
          else if length unversioned > 1 then
            (let t = trim_right_cutset ''/'' unversioned in if t = [] then ''/'' else t)
          else unversioned)"

definition splitPathSegments :: "string \<Rightarrow> string list" where
  "splitPathSegments path =
     (let trimmed = trim_cutset ''/'' path in
      if trimmed = [] then [] else split_on CHR ''/'' trimmed)"

definition pathSegmentCount :: "string \<Rightarrow> nat" where
  "pathSegmentCount path = length (splitPathSegments path)"

fun matchSegments :: "string list \<Rightarrow> string list \<Rightarrow> bool" where
  "matchSegments (s # ss) (p # ps) \<longleftrightarrow>
     (if p = ''*'' then (if s = [] then False else matchSegments ss ps)
      else if s \<noteq> p then False else matchSegments ss ps)"
| "matchSegments _ _ \<longleftrightarrow> True"

definition matchPathPattern :: "string \<Rightarrow> string \<Rightarrow> bool" where
  "matchPathPattern path pattern \<longleftrightarrow>
     (let ss = splitPathSegments path; ps = splitPathSegments pattern in
      if length ss \<noteq> length ps then False else matchSegments ss ps)"

definition mapDockerRequest :: "string \<Rightarrow> string \<Rightarrow> dockerRequestMeta" where
  "mapDockerRequest m path =
     (let nm = to_upper (trim_space m); np = normalizeDockerAPIPath path;
          op = (if nm = ''POST'' \<and> np = ''/images/create'' then ''image_pull''
                else if nm = ''GET'' \<and> has_prefix np ''/images/'' \<and> has_suffix np ''/json'' \<and>
                        pathSegmentCount np \<ge> 3 then ''image_inspect''
                else if nm = ''POST'' \<and> np = ''/build'' then ''build''
                else if nm = ''POST'' \<and> matchPathPattern np ''/containers/*/exec'' then ''exec_create''
                else if nm = ''POST'' \<and> matchPathPattern np ''/exec/*/start'' then ''exec_start''
                else if nm = ''GET'' \<and> matchPathPattern np ''/containers/*/archive''
                then ''archive_read''
                else ''unknown'') in
      \<lparr>dm_Method = nm, dm_Path = np, dm_Operation = op\<rparr>)"

definition isPayloadAwareOperation :: "DockerOperation \<Rightarrow> bool" where
  "isPayloadAwareOperation op \<longleftrightarrow>
     normalizeDockerOperation op \<in> {''build'', ''exec_create'', ''exec_start''}"

definition isStreamingDockerOperation :: "DockerOperation \<Rightarrow> bool" where
  "isStreamingDockerOperation op \<longleftrightarrow>
     normalizeDockerOperation op \<in> {''image_pull'', ''build'', ''exec_start''}"

subsection \<open>Compiling rules\<close>

definition normalizeDockerRuleAction :: "DockerRuleAction \<Rightarrow> bool \<Rightarrow> DockerRuleAction result" where
  "normalizeDockerRuleAction action allowDefault =
     (let normalized = to_lower (trim_space action) in
      if normalized = [] \<and> allowDefault then ok ''deny''
      else if normalized = ''allow'' \<or> normalized = ''deny'' then ok normalized
      else err (''invalid docker rule action '' @ go_quote action))"

definition normalizeDockerBuildContextMatch :: "string \<Rightarrow> string result" where
  "normalizeDockerBuildContextMatch v =
     (let normalized = to_lower (trim_space v) in
      if normalized = [] \<or> normalized = ''local_only'' then ok normalized
      else err (''invalid docker build context match '' @ go_quote v))"

definition compileDockerBuildMatch ::
  "regexp_compile \<Rightarrow> nat \<Rightarrow> DockerBuildMatch \<Rightarrow> compiledDockerBuildMatch result" where
  "compileDockerBuildMatch re i m =
     (case normalizeDockerBuildContextMatch (bm_Context m) of
        Inl e \<Rightarrow> err (''rule '' @ itoa (int i) @ '' build context: '' @ e)
      | Inr context \<Rightarrow>
          (case map_result
                  (\<lambda>p. map_error (\<lambda>e. ''compile rule '' @ itoa (int i) @
                          '' build dockerfile path pattern '' @ go_quote p @ '': '' @ e) (re p))
                  (bm_DockerfilePaths m) of
             Inl e \<Rightarrow> err e
           | Inr ps \<Rightarrow> ok \<lparr>cb_context = context, cb_dockerfilePatterns = ps\<rparr>))"

definition compileDockerHTTP ::
  "regexp_compile \<Rightarrow> nat \<Rightarrow> DockerHTTPMatch option \<Rightarrow> (string list \<times> regexp list) result" where
  "compileDockerHTTP re i http =
     (case http of
        None \<Rightarrow> ok ([], [])
      | Some h \<Rightarrow>
          (case compileMethods i (hm_Methods h) of
             Inl e \<Rightarrow> err e
           | Inr ms \<Rightarrow>
               (case map_result
                       (\<lambda>p. map_error (\<lambda>e. ''compile rule '' @ itoa (int i) @
                               '' HTTP path pattern '' @ go_quote p @ '': '' @ e) (re p))
                       (hm_PathPatterns h) of
                  Inl e \<Rightarrow> err e
                | Inr ps \<Rightarrow> ok (remdups ms, ps))))"

definition compileDockerSocketRule ::
  "regexp_compile \<Rightarrow> nat \<Rightarrow> DockerSocketRule \<Rightarrow> compiledDockerSocketRule result" where
  "compileDockerSocketRule re i rule =
     (case normalizeDockerRuleAction (dr_Action rule) False of
        Inl e \<Rightarrow> err (''rule '' @ itoa (int i) @ '' action: '' @ e)
      | Inr action \<Rightarrow>
          (case map_result
                  (\<lambda>op. let n = normalizeDockerOperation op in
                        if n = [] then err (''rule '' @ itoa (int i) @ '' operation cannot be empty'')
                        else ok n)
                  (dr_Operations rule) of
             Inl e \<Rightarrow> err e
           | Inr ops \<Rightarrow>
               (case compileDockerHTTP re i (dr_HTTP rule) of
                  Inl e \<Rightarrow> err e
                | Inr (ms, ps) \<Rightarrow>
                    (case dr_Build rule of
                       None \<Rightarrow> ok \<lparr>cd_action = action, cd_operations = remdups ops,
                                  cd_httpMethods = ms, cd_pathPatterns = ps, cd_build = None\<rparr>
                     | Some b \<Rightarrow>
                         (case compileDockerBuildMatch re i b of
                            Inl e \<Rightarrow> err e
                          | Inr cb \<Rightarrow> ok \<lparr>cd_action = action, cd_operations = remdups ops,
                                       cd_httpMethods = ms, cd_pathPatterns = ps,
                                       cd_build = Some cb\<rparr>)))))"

definition compileDockerSocketPolicy ::
  "regexp_compile \<Rightarrow> DockerSocketPolicy \<Rightarrow> compiledDockerSocketPolicy result" where
  "compileDockerSocketPolicy re policy =
     (case normalizeDockerRuleAction (dp_DefaultAction policy) True of
        Inl e \<Rightarrow> err e
      | Inr d \<Rightarrow>
          (case map_result (\<lambda>(i, rule). compileDockerSocketRule re i rule)
                  (enumerate 0 (dp_Rules policy)) of
             Inl e \<Rightarrow> err e
           | Inr rules \<Rightarrow> ok \<lparr>cp_defaultAction = d, cp_rules = rules\<rparr>))"

subsection \<open>Evaluating rules\<close>

definition dockerBuildMatches ::
  "compiledDockerBuildMatch option \<Rightarrow> dockerBuildRequest option \<Rightarrow> bool" where
  "dockerBuildMatches m req =
     (case m of
        None \<Rightarrow> True
      | Some b \<Rightarrow>
          (case req of
             None \<Rightarrow> False
           | Some r \<Rightarrow>
               if cb_context b = ''local_only'' \<and> br_Remote r \<noteq> [] then False
               else if cb_context b = ''local_only'' \<and> br_BodyKind r \<noteq> ''tar'' then False
               else if cb_dockerfilePatterns b = [] then True
               else any_regexp (cb_dockerfilePatterns b) (br_Dockerfile r)))"

definition dockerRuleMatches :: "compiledDockerSocketRule \<Rightarrow> dockerSocketRequest \<Rightarrow> bool" where
  "dockerRuleMatches r req =
     (if cd_operations r \<noteq> [] \<and>
         normalizeDockerOperation (ds_Operation req) \<notin> set (cd_operations r) then False
      else if cd_httpMethods r \<noteq> [] \<and>
         to_upper (trim_space (ds_Method req)) \<notin> set (cd_httpMethods r) then False
      else if cd_pathPatterns r \<noteq> [] \<and>
         \<not> any_regexp (cd_pathPatterns r)
             (if trim_space (ds_Path req) = [] then ''/'' else trim_space (ds_Path req)) then False
      else if \<not> dockerBuildMatches (cd_build r) (ds_Build req) then False
      else True)"

fun dockerEvaluateRules ::
  "DockerRuleAction \<Rightarrow> compiledDockerSocketRule list \<Rightarrow> dockerSocketRequest \<Rightarrow> DockerRuleAction" where
  "dockerEvaluateRules d [] req = (if d = [] then ''deny'' else d)"
| "dockerEvaluateRules d (r # rs) req =
     (if \<not> dockerRuleMatches r req then dockerEvaluateRules d rs req else cd_action r)"

definition dockerEvaluate ::
  "compiledDockerSocketPolicy option \<Rightarrow> dockerSocketRequest \<Rightarrow> DockerRuleAction" where
  "dockerEvaluate p req =
     (case p of
        None \<Rightarrow> ''deny''
      | Some c \<Rightarrow> dockerEvaluateRules (cp_defaultAction c) (cp_rules c) req)"


subsection \<open>Inspecting build requests\<close>

text \<open>
  The parts of an \<^verbatim>\<open>http.Request\<close> that the Docker socket proxy reads; the body is the
  bytes it yields and the error, if any, after them. \<open>first_value\<close> is
  \<^verbatim>\<open>url.Values.Get\<close>; \<open>header_get\<close> is \<^verbatim>\<open>http.Header.Get\<close>.
\<close>

record dockerHTTPRequest =
  hr_Method :: string
  hr_Path :: string
  hr_RawPath :: string
  hr_RawQuery :: string
  hr_Query :: url_values
  hr_Header :: http_header
  hr_Host :: string
  hr_Body :: "(string \<times> error option) option"
  hr_ContentLength :: int

definition first_value :: "(string \<times> string list) list \<Rightarrow> string \<Rightarrow> string" where
  "first_value m k = (case map_of m k of Some (v # _) \<Rightarrow> v | _ \<Rightarrow> [])"

definition header_get :: "http_header \<Rightarrow> string \<Rightarrow> string" where
  "header_get h k = first_value h (canonical_mime_header_key k)"

definition normalizeDockerBuildTags :: "string list \<Rightarrow> string list" where
  "normalizeDockerBuildTags vals = filter (\<lambda>t. t \<noteq> []) (map trim_space vals)"

definition normalizeDockerBuildPath :: "string \<Rightarrow> string" where
  "normalizeDockerBuildPath v =
     (let trimmed = trim_space v in
      if trimmed = [] then ''Dockerfile''
      else
        let cleaned = path_clean (replace_char (CHR 0x5C) CHR ''/'' trimmed) in
        if cleaned = ''.'' \<or> cleaned = [] then []
        else if has_prefix cleaned ''/'' then []
        else if cleaned = ''..'' then []
        else if has_prefix cleaned ''../'' then []
        else cleaned)"

definition setDockerBuildBodyKind ::
  "dockerBuildRequest \<Rightarrow> string \<Rightarrow> dockerBuildRequest result" where
  "setDockerBuildBodyKind b kind =
     (if kind = [] then ok b
      else if br_BodyKind b = [] then ok (b\<lparr>br_BodyKind := kind\<rparr>)
      else if br_BodyKind b = kind then ok b
      else err (''conflicting docker build context signals: '' @ br_BodyKind b @ '' and '' @ kind))"

fun parseDockerBuildPush :: "bool \<Rightarrow> string list \<Rightarrow> bool result" where
  "parseDockerBuildPush sawTruthy [] = ok sawTruthy"
| "parseDockerBuildPush sawTruthy (v # vs) =
     (let t = to_lower (trim_space v) in
      if t \<in> {''1'', ''t'', ''true'', ''yes''} then parseDockerBuildPush True vs
      else if t \<in> {''0'', ''f'', ''false'', ''no''} then parseDockerBuildPush sawTruthy vs
      else if t = [] then err ''docker build push parameter cannot be empty''
      else err (''docker build push parameter '' @ go_quote v @ '' is ambiguous''))"

fun checkBuildOutput :: "string list \<Rightarrow> string result" where
  "checkBuildOutput [] = ok ''export''"
| "checkBuildOutput (v # vs) =
     (if trim_space v = [] then err ''docker build output parameter cannot be empty''
      else checkBuildOutput vs)"

fun checkBuildOutputs :: "json_array \<Rightarrow> string list \<Rightarrow> string result" where
  "checkBuildOutputs json [] = ok ''export''"
| "checkBuildOutputs json (v # vs) =
     (let t = trim_space v in
      if t = [] then err ''docker build outputs parameter cannot be empty''
      else case json t of
             Inl e \<Rightarrow> err (''parse docker build outputs: '' @ e)
           | Inr n \<Rightarrow> if n = 0 then err ''docker build outputs parameter cannot be empty''
                      else checkBuildOutputs json vs)"

definition detectDockerBuildExport :: "json_array \<Rightarrow> url_values \<Rightarrow> string result" where
  "detectDockerBuildExport json q =
     (let rest =
        (case map_of q ''output'' of
           Some vs \<Rightarrow> checkBuildOutput vs
         | None \<Rightarrow>
             (case map_of q ''outputs'' of
                Some vs \<Rightarrow> checkBuildOutputs json vs
              | None \<Rightarrow> ok [])) in
      case map_of q ''push'' of
        None \<Rightarrow> rest
      | Some vs \<Rightarrow>
          (case parseDockerBuildPush False vs of
             Inl e \<Rightarrow> err e
           | Inr push \<Rightarrow> if push then ok ''export'' else rest))"

definition validateDockerBuildContextBody ::
  "tar_reader \<Rightarrow> dockerHTTPRequest \<Rightarrow> string \<Rightarrow> string \<Rightarrow> bool result" where
  "validateDockerBuildContextBody tar_names req body dockerfilePath =
     (if body = [] then ok False
      else
        let contentType = trim_space (header_get (hr_Header req) ''Content-Type'') in
        if contentType \<noteq> [] \<and> \<not> has_prefix (to_lower contentType) ''application/x-tar''
        then err (''unsupported docker build content type '' @ go_quote contentType)
        else case tar_names body of
               Inl e \<Rightarrow> err (''read docker build context tar: '' @ e)
             | Inr names \<Rightarrow>
                 if \<not> list_ex (\<lambda>n. normalizeDockerBuildPath n = dockerfilePath) names
                 then err (''docker build context missing dockerfile '' @ go_quote dockerfilePath)
                 else ok True)"

definition setKindIf :: "bool \<Rightarrow> string \<Rightarrow> dockerBuildRequest \<Rightarrow> dockerBuildRequest result" where
  "setKindIf c kind b = (if c then setDockerBuildBodyKind b kind else ok b)"

definition inspectDockerBuildRequest ::
  "tar_reader \<Rightarrow> json_array \<Rightarrow> dockerHTTPRequest option \<Rightarrow> string \<Rightarrow> dockerBuildRequest result" where
  "inspectDockerBuildRequest tar_names json req0 body =
     (case req0 of
        None \<Rightarrow> err ''build request is required''
      | Some req \<Rightarrow>
          let q = hr_Query req;
              b0 = \<lparr>br_Dockerfile = normalizeDockerBuildPath (first_value q ''dockerfile''),
                    br_Remote = trim_space (first_value q ''remote''),
                    br_Tags = normalizeDockerBuildTags
                                (case map_of q ''t'' of None \<Rightarrow> [] | Some vs \<Rightarrow> vs),
                    br_BodyKind = []\<rparr> in
          if br_Dockerfile b0 = [] then err ''build dockerfile path cannot be empty''
          else
            res_bind (setKindIf (br_Remote b0 \<noteq> []) ''remote'' b0) (\<lambda>b1.
            res_bind (detectDockerBuildExport json q) (\<lambda>exportKind.
            res_bind (setKindIf (exportKind \<noteq> []) exportKind b1) (\<lambda>b2.
            res_bind (validateDockerBuildContextBody tar_names req body (br_Dockerfile b2))
              (\<lambda>hasTarBody.
            res_bind (setKindIf hasTarBody ''tar'' b2) (\<lambda>b3.
              if br_BodyKind b3 = [] then err ''unsupported docker build request body''
              else ok b3))))))"

subsection \<open>The mapping: lemmas\<close>

lemma supported_operation_path:
  assumes "dm_Operation (mapDockerRequest m path) = ''build''"
  shows "normalizeDockerAPIPath path = ''/build'' \<and> to_upper (trim_space m) = ''POST''"
  using assms by (auto simp: mapDockerRequest_def Let_def split: if_splits)

lemma trim_right_slash_last:
  "trim_right_cutset ''/'' s \<noteq> [] \<Longrightarrow> last (trim_right_cutset ''/'' s) \<noteq> CHR ''/''"
  using trim_right_by_last[of "\<lambda>c. c \<in> set ''/''" s] by (auto simp: trim_right_cutset_def)

lemma trim_right_slash_rooted:
  assumes "trim_right_cutset ''/'' (CHR ''/'' # s) \<noteq> []"
  shows "hd (trim_right_cutset ''/'' (CHR ''/'' # s)) = CHR ''/''"
  using trim_right_by_hd assms unfolding trim_right_cutset_def by blast

lemma trim_right_cutset_set: "set (trim_right_cutset cs s) \<subseteq> set s"
  unfolding trim_right_cutset_def by (rule trim_right_by_set)

lemma strip_digits_set: "strip_digits s = Some r \<Longrightarrow> set r \<subseteq> set s"
  by (auto simp: strip_digits_def dest: set_dropWhileD split: if_splits)

lemma version_end_set: "version_end s = Some r \<Longrightarrow> set r \<subseteq> set s"
  by (auto simp: version_end_def split: list.splits if_splits)

lemma dockerAPIVersionPrefix_set: "dockerAPIVersionPrefix s = Some r \<Longrightarrow> set r \<subseteq> set s"
proof -
  assume a: "dockerAPIVersionPrefix s = Some r"
  then obtain d where d: "strip_digits (drop 2 s) = Some d"
    by (auto simp: dockerAPIVersionPrefix_def split: if_splits option.splits)
  have sub: "set d \<subseteq> set s" using strip_digits_set[OF d] set_drop_subset[of 2 s] by blast
  show ?thesis
  proof (cases "version_end d")
    case (Some rest)
    then have "r = rest" using a d by (auto simp: dockerAPIVersionPrefix_def split: if_splits)
    then show ?thesis using version_end_set[OF Some] sub by blast
  next
    case None
    then have "d \<noteq> []" by (auto simp: version_end_def)
    then have tl: "set (tl d) \<subseteq> set d" by (cases d) auto
    from a d None obtain d' where "strip_digits (tl d) = Some d'" "version_end d' = Some r"
      by (auto simp: dockerAPIVersionPrefix_def split: if_splits option.splits)
    then show ?thesis using strip_digits_set version_end_set tl sub by blast
  qed
qed


lemma normalizeDockerAPIPath_cases:
  obtains "normalizeDockerAPIPath path = ''/''"
  | u where "normalizeDockerAPIPath path = trim_right_cutset ''/'' (CHR ''/'' # u)"
      "trim_right_cutset ''/'' (CHR ''/'' # u) \<noteq> []" "CHR ''?'' \<notin> set u"
proof -
  define n where "n = trim_space path"
  define q where "q = (case str_cut CHR ''?'' n of None \<Rightarrow> n | Some (a, _) \<Rightarrow> a)"
  define r where "r = (if has_prefix q ''/'' then q else ''/'' @ q)"
  define v where "v = (case dockerAPIVersionPrefix r of None \<Rightarrow> r | Some rest \<Rightarrow> ''/'' @ rest)"
  have "CHR ''?'' \<notin> set q"
    by (auto simp: q_def str_cut_Some str_cut_None split: option.splits)
  then have r: "CHR ''?'' \<notin> set r" by (auto simp: r_def)
  have "\<exists>u. r = CHR ''/'' # u" by (cases q) (auto simp: r_def has_prefix_def)
  then have "\<exists>u. v = CHR ''/'' # u"
    by (cases "dockerAPIVersionPrefix r") (auto simp: v_def)
  then obtain u where u: "v = CHR ''/'' # u" by blast
  have "CHR ''?'' \<notin> set v"
    using r dockerAPIVersionPrefix_set[of r] by (auto simp: v_def split: option.splits)
  then have nq: "CHR ''?'' \<notin> set u" using u by auto
  have eq: "normalizeDockerAPIPath path =
      (if n = [] \<or> q = [] then ''/''
       else if length v > 1 then
         (if trim_right_cutset ''/'' v = [] then ''/'' else trim_right_cutset ''/'' v)
       else v)"
    using u by (simp add: normalizeDockerAPIPath_def Let_def flip: n_def q_def r_def v_def)
  show thesis
  proof (cases "n = [] \<or> q = [] \<or> u = [] \<or> trim_right_cutset ''/'' v = []")
    case True
    then have "normalizeDockerAPIPath path = ''/''" using u by (auto simp: eq)
    then show thesis by (rule that(1))
  next
    case False
    then show thesis using that(2)[of u] nq u eq by auto
  qed
qed

lemma normalizeDockerBuildPath_safe:
  assumes "normalizeDockerBuildPath v \<noteq> []"
  shows "\<exists>es. es \<noteq> [] \<and> list_all plain_elem es \<and> normalizeDockerBuildPath v = join ''/'' es"
proof (cases "trim_space v = []")
  case True
  then show ?thesis
    by (intro exI[of _ "[''Dockerfile'']"])
      (simp add: normalizeDockerBuildPath_def plain_elem_def)
next
  case False
  let ?p = "replace_char (CHR 0x5C) CHR ''/'' (trim_space v)"
  have ne: "?p \<noteq> []" using False by (simp add: replace_char_def)
  have nb: "normalizeDockerBuildPath v = path_clean ?p" and safe: "\<not> has_prefix (path_clean ?p) ''/''"
      "path_clean ?p \<noteq> ''..''" "\<not> has_prefix (path_clean ?p) ''../''" "path_clean ?p \<noteq> ''.''"
    using assms False by (auto simp: normalizeDockerBuildPath_def Let_def split: if_splits)
  have nr: "\<not> is_rooted ?p"
    using safe(1) ne by (auto simp: path_clean_def Let_def has_prefix_def)
  let ?es = "clean_elems False [] (split_on CHR ''/'' ?p)"
  have pc: "path_clean ?p = join ''/'' ?es" and es: "?es \<noteq> []"
    using nr ne safe(4) by (auto simp: path_clean_def Let_def)
  obtain ps n where dd: "?es = replicate n ''..'' @ ps" "list_all plain_elem ps"
    using clean_elems_relative[of "[]" "[]" 0 "split_on CHR ''/'' ?p"] split_on_no_sep by auto
  have "n = 0"
  proof (rule ccontr)
    assume "n \<noteq> 0"
    then obtain k where "?es = ''..'' # (replicate k ''..'' @ ps)" using dd(1) by (cases n) auto
    then show False
      using safe(2,3) unfolding pc by (cases "replicate k ''..'' @ ps") (auto simp: has_prefix_def)
  qed
  then show ?thesis using dd es pc nb by auto
qed

lemma setKindIf_Inr:
  assumes "setKindIf c kind b = Inr b'" and "kind \<noteq> []"
  shows "br_Dockerfile b' = br_Dockerfile b \<and> br_Remote b' = br_Remote b \<and>
    br_Tags b' = br_Tags b \<and>
    (if c then br_BodyKind b' = kind \<and> br_BodyKind b \<in> {[], kind} else b' = b)"
  using assms by (auto simp: setKindIf_def setDockerBuildBodyKind_def split: if_splits)

lemma checkBuildOutput_Inr: "checkBuildOutput vs = Inr k \<Longrightarrow> k = ''export''"
  by (induction vs) (auto split: if_splits)

lemma checkBuildOutputs_Inr: "checkBuildOutputs json vs = Inr k \<Longrightarrow> k = ''export''"
  by (induction json vs rule: checkBuildOutputs.induct)
    (auto simp: Let_def split: if_splits sum.splits)

lemma detectDockerBuildExport_Inr:
  "detectDockerBuildExport json q = Inr k \<Longrightarrow> k = [] \<or> k = ''export''"
  by (auto simp: detectDockerBuildExport_def Let_def split: option.splits sum.splits if_splits
      dest: checkBuildOutput_Inr checkBuildOutputs_Inr)

lemma validateDockerBuildContextBody_Inr:
  "validateDockerBuildContextBody tar_names req body df = Inr b \<Longrightarrow>
   (b \<longleftrightarrow> body \<noteq> []) \<and>
   (b \<longrightarrow> (\<exists>names. tar_names body = Inr names \<and> (\<exists>n \<in> set names. normalizeDockerBuildPath n = df)))"
  by (auto simp: validateDockerBuildContextBody_def Let_def list_ex_iff
      split: if_splits sum.splits)

subsection \<open>Properties\<close>

text \<open>
  The normalised API path always starts with a slash, has no query, and does not end in
  a slash unless it is the root.
\<close>

theorem normalizeDockerAPIPath_shape:
  "normalizeDockerAPIPath path = ''/'' \<or>
   (hd (normalizeDockerAPIPath path) = CHR ''/'' \<and> last (normalizeDockerAPIPath path) \<noteq> CHR ''/'' \<and>
    1 < length (normalizeDockerAPIPath path) \<and> CHR ''?'' \<notin> set (normalizeDockerAPIPath path))"
proof (rule normalizeDockerAPIPath_cases[of path])
  fix u
  assume n: "normalizeDockerAPIPath path = trim_right_cutset ''/'' (CHR ''/'' # u)"
    and ne: "trim_right_cutset ''/'' (CHR ''/'' # u) \<noteq> []" and q: "CHR ''?'' \<notin> set u"
  let ?t = "trim_right_cutset ''/'' (CHR ''/'' # u)"
  have h: "hd ?t = CHR ''/''" and l: "last ?t \<noteq> CHR ''/''"
    using ne trim_right_slash_rooted trim_right_slash_last by blast+
  have "1 < length ?t" using ne h l by (cases ?t; cases "tl ?t") auto
  moreover have "CHR ''?'' \<notin> set ?t" using q trim_right_cutset_set[of "''/''" "CHR ''/'' # u"] by auto
  ultimately show ?thesis using h l n by simp
qed simp

text \<open>
  A compiled Docker policy decides by its first matching rule and falls back to its
  default, and the decision is always \<^verbatim>\<open>allow\<close> or \<^verbatim>\<open>deny\<close>.
\<close>

theorem dockerEvaluate_first_match:
  assumes "compileDockerSocketPolicy re policy = Inr c"
  shows "dockerEvaluate (Some c) req =
      (case find (\<lambda>r. dockerRuleMatches r req) (cp_rules c) of
         Some r \<Rightarrow> cd_action r
       | None \<Rightarrow> cp_defaultAction c) \<and>
    dockerEvaluate (Some c) req \<in> {''allow'', ''deny''}"
proof -
  have act: "a \<in> {''allow'', ''deny''}" if "normalizeDockerRuleAction x d = Inr a" for a x d
    using that by (auto simp: normalizeDockerRuleAction_def Let_def split: if_splits)
  from assms have d: "cp_defaultAction c \<in> {''allow'', ''deny''}"
    by (auto simp: compileDockerSocketPolicy_def split: sum.splits dest: act)
  have r: "cd_action r \<in> {''allow'', ''deny''}" if "compileDockerSocketRule re i rule = Inr r" for i rule r
    using that act[of "dr_Action rule" False]
    by (auto simp: compileDockerSocketRule_def split: sum.splits option.splits)
  have rs: "cd_action r \<in> {''allow'', ''deny''}" if "r \<in> set (cp_rules c)" for r
    using assms that r by (auto simp: compileDockerSocketPolicy_def split: sum.splits
        dest!: map_result_member)
  have "dockerEvaluateRules dft rules req =
      (case find (\<lambda>r. dockerRuleMatches r req) rules of Some r \<Rightarrow> cd_action r | None \<Rightarrow> dft)"
    if "dft \<noteq> []" for dft rules
    using that by (induction dft rules req rule: dockerEvaluateRules.induct) auto
  moreover have "cp_defaultAction c \<noteq> []" using d by auto
  ultimately have e: "dockerEvaluate (Some c) req =
      (case find (\<lambda>r. dockerRuleMatches r req) (cp_rules c) of
         Some r \<Rightarrow> cd_action r | None \<Rightarrow> cp_defaultAction c)"
    by (simp add: dockerEvaluate_def)
  have found: "r \<in> set rules" if "find P rules = Some r" for P r and rules :: "'c list"
    using that by (auto simp: find_Some_iff)
  show ?thesis
  proof (cases "find (\<lambda>r. dockerRuleMatches r req) (cp_rules c)")
    case (Some r)
    then show ?thesis using rs[OF found[OF Some]] by (simp add: e)
  qed (use d in \<open>simp add: e\<close>)
qed

text \<open>
  C34. An accepted build request names a Dockerfile by a relative path of plain elements, so
  it cannot leave the build context; its context is exactly one of a remote, an export and a
  tar body. A request with a body is always the tar form: then there is no remote, no export
  was requested, and the archive has an entry for the Dockerfile.
\<close>

theorem inspectDockerBuildRequest_sound:
  assumes "inspectDockerBuildRequest tar_names json (Some req) body = Inr b"
  shows "(\<exists>es. es \<noteq> [] \<and> list_all plain_elem es \<and> br_Dockerfile b = join ''/'' es) \<and>
    br_BodyKind b \<in> {''remote'', ''export'', ''tar''} \<and>
    (br_Remote b \<noteq> [] \<longleftrightarrow> br_BodyKind b = ''remote'') \<and>
    (body \<noteq> [] \<longleftrightarrow> br_BodyKind b = ''tar'') \<and>
    (body \<noteq> [] \<longrightarrow> detectDockerBuildExport json (hr_Query req) = Inr [] \<and>
       (\<exists>names. tar_names body = Inr names \<and>
          (\<exists>n \<in> set names. normalizeDockerBuildPath n = br_Dockerfile b)))"
proof -
  let ?q = "hr_Query req"
  let ?b0 = "\<lparr>br_Dockerfile = normalizeDockerBuildPath (first_value ?q ''dockerfile''),
              br_Remote = trim_space (first_value ?q ''remote''),
              br_Tags = normalizeDockerBuildTags (case map_of ?q ''t'' of None \<Rightarrow> [] | Some vs \<Rightarrow> vs),
              br_BodyKind = []\<rparr>"
  from assms obtain b1 k b2 t where ne: "br_Dockerfile ?b0 \<noteq> []"
    and b1: "setKindIf (br_Remote ?b0 \<noteq> []) ''remote'' ?b0 = Inr b1"
    and k: "detectDockerBuildExport json ?q = Inr k"
    and b2: "setKindIf (k \<noteq> []) k b1 = Inr b2"
    and t: "validateDockerBuildContextBody tar_names req body (br_Dockerfile b2) = Inr t"
    and b3: "setKindIf t ''tar'' b2 = Inr b" and kind: "br_BodyKind b \<noteq> []"
    by (auto simp: inspectDockerBuildRequest_def Let_def res_bind_Inr split: if_splits)
  note f1 = setKindIf_Inr[OF b1, simplified] and f3 = setKindIf_Inr[OF b3, simplified]
  note kc = detectDockerBuildExport_Inr[OF k] and tc = validateDockerBuildContextBody_Inr[OF t]
  have f2: "br_Dockerfile b2 = br_Dockerfile b1 \<and> br_Remote b2 = br_Remote b1 \<and>
      (if k \<noteq> [] then br_BodyKind b2 = ''export'' \<and> br_BodyKind b1 \<in> {[], ''export''} else b2 = b1)"
    using kc setKindIf_Inr[OF b2] b2 by (auto simp: setKindIf_def)
  have df: "br_Dockerfile b = normalizeDockerBuildPath (first_value ?q ''dockerfile'')"
    using f1 f2 f3 by simp
  have safe: "\<exists>es. es \<noteq> [] \<and> list_all plain_elem es \<and> br_Dockerfile b = join ''/'' es"
    using ne normalizeDockerBuildPath_safe by (simp add: df)
  have kinds: "br_BodyKind b \<in> {''remote'', ''export'', ''tar''} \<and>
      (br_Remote b \<noteq> [] \<longleftrightarrow> br_BodyKind b = ''remote'') \<and> (t \<longleftrightarrow> br_BodyKind b = ''tar'') \<and>
      (t \<longrightarrow> k = [])"
    using f1 f2 f3 kc kind
    by (cases "trim_space (first_value ?q ''remote'') = []"; cases "k = []"; cases t) simp_all
  have "br_Dockerfile b2 = br_Dockerfile b" using f3 by simp
  with safe kinds tc k show ?thesis by simp
qed

text \<open>
  Where every rule that allows is a build rule restricted to local contexts and the
  default is to deny, the only requests a Docker policy allows are builds with a tar context
  and without a remote.
\<close>

theorem local_only_builds:
  assumes "cp_defaultAction c \<noteq> ''allow''"
    and "\<forall>r \<in> set (cp_rules c). cd_action r = ''allow'' \<longrightarrow>
           (\<exists>m. cd_build r = Some m \<and> cb_context m = ''local_only'')"
    and "dockerEvaluate (Some c) req = ''allow''"
  shows "\<exists>b. ds_Build req = Some b \<and> br_Remote b = [] \<and> br_BodyKind b = ''tar''"
proof -
  have "\<exists>r \<in> set rules. cd_action r = ''allow'' \<and> dockerRuleMatches r req"
    if "dockerEvaluateRules d rules req = ''allow''" "d \<noteq> ''allow''" for d rules
    using that by (induction d rules req rule: dockerEvaluateRules.induct) (auto split: if_splits)
  then obtain r where "r \<in> set (cp_rules c)" "cd_action r = ''allow''" "dockerRuleMatches r req"
    using assms(1,3) by (auto simp: dockerEvaluate_def)
  with assms(2) obtain m where "cd_build r = Some m" "cb_context m = ''local_only''"
      "dockerBuildMatches (cd_build r) (ds_Build req)"
    by (auto simp: dockerRuleMatches_def split: if_splits)
  then show ?thesis
    by (auto simp: dockerBuildMatches_def split: option.splits if_splits)
qed


subsection \<open>Witnesses\<close>

definition example_docker_policy :: DockerSocketPolicy where
  "example_docker_policy =
     \<lparr>dp_DefaultAction = [],
      dp_Rules = [\<lparr>dr_Action = '' allow'', dr_Operations = ['' build''], dr_HTTP = None,
                   dr_Build = Some \<lparr>bm_Context = ''local_only'', bm_DockerfilePaths = []\<rparr>\<rparr>]\<rparr>"

definition example_build_http :: dockerHTTPRequest where
  "example_build_http =
     \<lparr>hr_Method = ''POST'', hr_Path = ''/v1.4/build'', hr_RawPath = [],
      hr_RawQuery = ''dockerfile=./a/../D'', hr_Query = [(''dockerfile'', [''./a/../D''])],
      hr_Header = [(''Content-Type'', [''application/x-tar''])], hr_Host = ''docker'',
      hr_Body = Some (''D'', None), hr_ContentLength = 1\<rparr>"

definition example_build :: dockerBuildRequest where
  "example_build = \<lparr>br_Dockerfile = ''D'', br_Remote = [], br_Tags = [], br_BodyKind = ''tar''\<rparr>"

definition example_docker_request :: dockerSocketRequest where
  "example_docker_request =
     \<lparr>ds_Method = ''POST'', ds_Path = ''/build'', ds_Operation = ''build'',
      ds_Build = Some example_build\<rparr>"

definition example_docker_compiled :: compiledDockerSocketPolicy where
  "example_docker_compiled =
     \<lparr>cp_defaultAction = ''deny'',
      cp_rules = [\<lparr>cd_action = ''allow'', cd_operations = [''build''], cd_httpMethods = [],
                   cd_pathPatterns = [],
                   cd_build = Some \<lparr>cb_context = ''local_only'', cb_dockerfilePatterns = []\<rparr>\<rparr>]\<rparr>"

lemma example_docker_compiles:
  "compileDockerSocketPolicy (\<lambda>s. Inr (\<lambda>t. s = t)) example_docker_policy =
   Inr example_docker_compiled"
  by (simp add: compileDockerSocketPolicy_def compileDockerSocketRule_def compileDockerHTTP_def
      compileDockerBuildMatch_def normalizeDockerRuleAction_def normalizeDockerBuildContextMatch_def
      normalizeDockerOperation_def example_docker_policy_def example_docker_compiled_def
      trim_space_def trim_left_by_def trim_right_by_def is_space_def to_lower_def lower_char_def
      is_upper_def Let_def)

theorem dockerEvaluate_first_match_witness:
  "dockerEvaluate (Some example_docker_compiled) example_docker_request \<in> {''allow'', ''deny''}"
  using dockerEvaluate_first_match[OF example_docker_compiles] by blast

theorem inspectDockerBuildRequest_sound_witness:
  "inspectDockerBuildRequest (\<lambda>b. Inr [b]) (\<lambda>_. Inr 0) (Some example_build_http) ''D'' =
     Inr example_build \<and>
   br_BodyKind example_build \<in> {''remote'', ''export'', ''tar''}"
proof -
  have i: "inspectDockerBuildRequest (\<lambda>b. Inr [b]) (\<lambda>_. Inr 0) (Some example_build_http) ''D'' =
    Inr example_build"
    by code_simp
  show ?thesis using inspectDockerBuildRequest_sound[OF i] i by blast
qed

theorem local_only_builds_witness:
  "\<exists>b. ds_Build example_docker_request = Some b \<and> br_Remote b = [] \<and> br_BodyKind b = ''tar''"
proof (rule local_only_builds[of example_docker_compiled])
  show "dockerEvaluate (Some example_docker_compiled) example_docker_request = ''allow''"
    by code_simp
qed (simp_all add: example_docker_compiled_def)

end
