(* ===== verification/Proxy_Service.thy ===== *)
theory Proxy_Service
  imports Helper_Proto Docker_Policy
begin

section \<open>The host-side proxy and CONNECT services\<close>

text \<open>
  \<^verbatim>\<open>manager_proxy_service.go\<close> and \<^verbatim>\<open>manager_connect_service.go\<close>. A handler returns the
  requests it sent upstream, the events it recorded and its response. Parameters:
  \<open>parse_url\<close> is \<^verbatim>\<open>url.Parse\<close>, \<open>new_request\<close> the error of \<^verbatim>\<open>http.NewRequestWithContext\<close>, and
  \<open>round_trip\<close> the HTTP transport. A response body is the bytes it yields and the error, if
  any, after them.
\<close>

record go_url =
  u_Scheme :: string
  u_Host :: string
  u_Port :: string
  u_Path :: string
  u_RawQuery :: string

record out_request =
  or_Method :: string
  or_URL :: go_url
  or_Header :: http_header
  or_Host :: string
  or_Body :: string

type_synonym body_stream = "(string \<times> error option) option"

record http_response =
  hp_StatusCode :: int
  hp_Header :: http_header
  hp_Body :: body_stream

type_synonym url_parser = "string \<Rightarrow> go_url result"
type_synonym request_check = "string \<Rightarrow> go_url \<Rightarrow> error option"
type_synonym transport = "out_request \<Rightarrow> http_response result"

record managerProxyService =
  sv_maxRequestBodyBytes :: int
  sv_maxResponseBodyBytes :: int
  sv_policyMode :: PolicyMode

record 'r served =
  sd_upstream :: "out_request list"
  sd_events :: "accessEvent list"
  sd_response :: 'r

definition newManagerProxyService :: "int \<Rightarrow> int \<Rightarrow> PolicyMode \<Rightarrow> managerProxyService" where
  "newManagerProxyService maxReq maxResp mode =
     \<lparr>sv_maxRequestBodyBytes = maxReq, sv_maxResponseBodyBytes = maxResp,
      sv_policyMode = normalizedPolicyModeOrDefault mode\<rparr>"

definition readBoundedResponse :: "body_stream \<Rightarrow> int \<Rightarrow> (string \<times> bool) result" where
  "readBoundedResponse body maxBytes =
     (case body of
        None \<Rightarrow> ok ([], False)
      | Some (data, e) \<Rightarrow>
          if maxBytes \<le> 0 then (case e of None \<Rightarrow> ok (data, False) | Some m \<Rightarrow> err m)
          else
            let limited = take (nat (maxBytes + 1)) data in
            if int (length limited) > maxBytes then ok (take (nat maxBytes) limited, True)
            else case e of Some m \<Rightarrow> err m | None \<Rightarrow> ok (limited, False))"

definition classifyProxyAccessProtocol :: "string \<Rightarrow> string \<times> string \<times> string" where
  "classifyProxyAccessProtocol scheme =
     (let s = to_lower (trim_space scheme) in
      if s = ''https'' then (''https'', ''http_headers'', ''definite'')
      else if s = ''http'' \<or> s = [] then (''http'', ''http_headers'', ''definite'')
      else (s, ''http_headers'', ''probable''))"

definition isGRPCMITMRequest :: "MITMRequest \<Rightarrow> bool" where
  "isGRPCMITMRequest req \<longleftrightarrow>
     (if \<not> has_prefix (to_upper (trim_space (mq_Proto req))) ''HTTP/2'' then False
      else has_prefix (to_lower (trim_space (header_get (mq_Header req) ''Content-Type'')))
             ''application/grpc'')"

definition classifyMITMAccessProtocol :: "MITMRequest \<Rightarrow> string \<times> string \<times> string" where
  "classifyMITMAccessProtocol req =
     (if isGRPCMITMRequest req then (''grpc'', ''http_headers'', ''definite'')
      else (''https'', ''http_connect'', ''definite''))"

definition defaultPortForScheme :: "string \<Rightarrow> int" where
  "defaultPortForScheme scheme =
     (if to_lower scheme = ''https'' then 443 else if to_lower scheme = ''http'' then 80 else 0)"

definition authorityPort :: "string \<Rightarrow> string" where
  "authorityPort authority =
     (if authority = [] then []
      else case split_host_port authority of Inl _ \<Rightarrow> [] | Inr (_, port) \<Rightarrow> port)"

definition mitmHostPort :: "string \<Rightarrow> string \<Rightarrow> string \<Rightarrow> string \<times> int" where
  "mitmHostPort requestHost0 authority scheme =
     (let requestHost = trim_space requestHost0;
          base = (if requestHost = [] then authority else requestHost) in
      if base = [] then normalizeHostPort base 0
      else if requestHost \<noteq> [] then
        (if authorityPort base \<noteq> [] then
           (case atoi (authorityPort base) of
              Some p \<Rightarrow> normalizeHostPort base p | None \<Rightarrow> normalizeHostPort base 0)
         else if authorityPort authority \<noteq> [] \<and> atoi (authorityPort authority) \<noteq> None then
           normalizeHostPort base (the (atoi (authorityPort authority)))
         else normalizeHostPort base (defaultPortForScheme scheme))
      else if authorityPort base \<noteq> [] then
        normalizeHostPort base
          (case atoi (authorityPort base) of Some p \<Rightarrow> p | None \<Rightarrow> 0)
      else normalizeHostPort base (defaultPortForScheme scheme))"

definition validateMITMHostAuthority :: "string \<Rightarrow> string \<Rightarrow> error option" where
  "validateMITMHostAuthority requestHost authority =
     (if trim_space authority = [] \<or> trim_space requestHost = [] then None
      else case normalizePolicyHostname requestHost of
        Inl e \<Rightarrow> Some e
      | Inr h \<Rightarrow>
          (case normalizePolicyHostname authority of
             Inl e \<Rightarrow> Some e
           | Inr a \<Rightarrow>
               if h \<noteq> a then Some (''request host '' @ go_quote h @
                 '' does not match upstream authority '' @ go_quote a)
               else None))"

definition text_header :: http_header where
  "text_header = [(''Content-Type'', [''text/plain; charset=utf-8''])]"

definition denied_event :: "accessEvent \<Rightarrow> int \<Rightarrow> string \<Rightarrow> accessEvent" where
  "denied_event e status msg =
     e\<lparr>ev_Allowed := False, ev_StatusCode := status, ev_Result := ''denied'', ev_Error := msg\<rparr>"

definition upstream_error_event :: "accessEvent \<Rightarrow> string \<Rightarrow> accessEvent" where
  "upstream_error_event e msg =
     e\<lparr>ev_Allowed := True, ev_Result := ''upstream_error'', ev_Error := msg\<rparr>"

definition reason_text :: "policyEvaluation \<Rightarrow> string" where
  "reason_text eval = (case firstReasonAsError eval of None \<Rightarrow> [] | Some m \<Rightarrow> m)"

definition proxy_error :: "string \<Rightarrow> ProxyResponse" where
  "proxy_error e = \<lparr>ps_StatusCode = 0, ps_Header = [], ps_Body = [], ps_Error = e\<rparr>"

definition proxy_denied :: "int \<Rightarrow> string \<Rightarrow> ProxyResponse" where
  "proxy_denied status e =
     \<lparr>ps_StatusCode = status, ps_Header = text_header,
      ps_Body = ''proxy request denied: '' @ e @ [CHR 0x0A], ps_Error = []\<rparr>"

definition effective_method :: "string \<Rightarrow> string" where
  "effective_method m = (if m = [] then ''GET'' else m)"

definition proxyTargetPort :: "go_url \<Rightarrow> int" where
  "proxyTargetPort u =
     (if u_Port u \<noteq> [] then (case atoi (u_Port u) of Some p \<Rightarrow> p | None \<Rightarrow> 0)
      else if to_lower (u_Scheme u) = ''https'' then 443
      else if to_lower (u_Scheme u) = ''http'' then 80 else 0)"

definition HandleProxyRequest ::
  "url_parser \<Rightarrow> request_check \<Rightarrow> transport \<Rightarrow> managerProxyService \<Rightarrow> compiledPolicy \<Rightarrow>
   string \<Rightarrow> ProxyRequest \<Rightarrow> ProxyResponse served" where
  "HandleProxyRequest parse_url new_request round_trip s policy sid req =
     (case parse_url (px_URL req) of
        Inl e \<Rightarrow> \<lparr>sd_upstream = [], sd_events = [],
                  sd_response = proxy_error (''parse request URL '' @ go_quote (px_URL req) @ '': '' @ e)\<rparr>
      | Inr target \<Rightarrow>
          let path = (if u_Path target = [] then ''/'' else u_Path target);
              (host, port) = normalizeHostPort (u_Host target) (proxyTargetPort target);
              (protocol, source, confidence) = classifyProxyAccessProtocol (u_Scheme target);
              eval = evaluateRequest policy
                \<lparr>rq_Method = px_Method req, rq_Host = u_Host target, rq_Path = path,
                 rq_Header = px_Header req, rq_Body = px_Body req, rq_BodyTooLarge = False\<rparr>;
              event = eventWithPolicyMetadata
                (zero_event\<lparr>ev_SandboxID := sid, ev_Kind := ''http'', ev_Protocol := protocol,
                   ev_ProtocolSource := source, ev_ProtocolConfidence := confidence,
                   ev_Host := host, ev_Port := port, ev_Method := px_Method req,
                   ev_Path := path\<rparr>) (sv_policyMode s) eval in
          if sv_maxRequestBodyBytes s > 0 \<and> int (length (px_Body req)) > sv_maxRequestBodyBytes s
          then \<lparr>sd_upstream = [],
                sd_events = [denied_event event 413 ''request body exceeds inspection limit''],
                sd_response = proxy_denied 413 ''request body exceeds inspection limit''\<rparr>
          else if \<not> Allowed eval \<and> sv_policyMode s \<noteq> ''audit''
          then \<lparr>sd_upstream = [], sd_events = [denied_event event 403 (reason_text eval)],
                sd_response = proxy_denied 403 (reason_text eval)\<rparr>
          else case new_request (px_Method req) target of
            Some e \<Rightarrow> \<lparr>sd_upstream = [], sd_events = [upstream_error_event event e],
                       sd_response = proxy_error (''build outbound request: '' @ e)\<rparr>
          | None \<Rightarrow>
              let out = \<lparr>or_Method = effective_method (px_Method req), or_URL = target,
                         or_Header = px_Header req, or_Host = u_Host target,
                         or_Body = px_Body req\<rparr> in
              (case round_trip out of
                 Inl e \<Rightarrow> \<lparr>sd_upstream = [out], sd_events = [upstream_error_event event e],
                           sd_response = proxy_error e\<rparr>
               | Inr resp \<Rightarrow>
                   let answered = event\<lparr>ev_StatusCode := hp_StatusCode resp\<rparr> in
                   (case readBoundedResponse (hp_Body resp) (sv_maxResponseBodyBytes s) of
                      Inl e \<Rightarrow> \<lparr>sd_upstream = [out], sd_events = [upstream_error_event answered e],
                                sd_response = proxy_error (''read outbound response body: '' @ e)\<rparr>
                    | Inr (body, tooLarge) \<Rightarrow>
                        if tooLarge
                        then \<lparr>sd_upstream = [out],
                              sd_events = [upstream_error_event answered
                                ''upstream response body exceeds configured limit''],
                              sd_response =
                                proxy_error ''upstream response body exceeds configured limit''\<rparr>
                        else \<lparr>sd_upstream = [out],
                              sd_events = [answered\<lparr>ev_Allowed := True, ev_Result := ''allowed'',
                                                    ev_Error := []\<rparr>],
                              sd_response = \<lparr>ps_StatusCode = hp_StatusCode resp,
                                ps_Header = hp_Header resp, ps_Body = body, ps_Error = []\<rparr>\<rparr>)))"


definition mitm_denied :: "int \<Rightarrow> string \<Rightarrow> MITMResponse" where
  "mitm_denied status e =
     \<lparr>mr_StatusCode = status, mr_Header = text_header,
      mr_Body = ''proxy request denied: '' @ e @ [CHR 0x0A], mr_Error = []\<rparr>"

definition mitm_error :: "int \<Rightarrow> string \<Rightarrow> MITMResponse" where
  "mitm_error status e = \<lparr>mr_StatusCode = status, mr_Header = [], mr_Body = [], mr_Error = e\<rparr>"

definition mitmAuthority :: "MITMRequest \<Rightarrow> string" where
  "mitmAuthority req = (if mq_Authority req = [] then mq_Host req else mq_Authority req)"

definition mitmPolicyHost :: "MITMRequest \<Rightarrow> string" where
  "mitmPolicyHost req = (if mq_Host req = [] then mitmAuthority req else mq_Host req)"

text \<open>\<^verbatim>\<open>http.NewRequest\<close> takes the host of the URL without an empty port.\<close>

definition remove_empty_port :: "string \<Rightarrow> string" where
  "remove_empty_port host = (if has_suffix host '':'' then trim_suffix host '':'' else host)"

definition HandleMITMRequest ::
  "request_check \<Rightarrow> transport \<Rightarrow> managerProxyService \<Rightarrow> compiledPolicy \<Rightarrow> string \<Rightarrow>
   MITMRequest \<Rightarrow> MITMResponse served" where
  "HandleMITMRequest new_request round_trip s policy sid req =
     (let scheme = (if mq_Scheme req = [] then ''https'' else mq_Scheme req);
          authority = mitmAuthority req;
          policyHost = mitmPolicyHost req;
          path = (if mq_Path req = [] then ''/'' else mq_Path req);
          (host, port) = mitmHostPort (mq_Host req) authority scheme;
          (protocol, source, confidence) = classifyMITMAccessProtocol req;
          eval = evaluateRequest policy
            \<lparr>rq_Method = mq_Method req, rq_Host = policyHost, rq_Path = mq_Path req,
             rq_Header = mq_Header req, rq_Body = mq_Body req,
             rq_BodyTooLarge = mq_BodyTooLarge req\<rparr>;
          event = eventWithPolicyMetadata
            (zero_event\<lparr>ev_SandboxID := sid, ev_Kind := ''mitm'', ev_Protocol := protocol,
               ev_ProtocolSource := source, ev_ProtocolConfidence := confidence,
               ev_Host := host, ev_Port := port, ev_Method := mq_Method req,
               ev_Path := path\<rparr>) (sv_policyMode s) eval in
      if mq_BodyTooLarge req
      then \<lparr>sd_upstream = [],
            sd_events = [denied_event event 413 ''request body exceeds inspection limit''],
            sd_response = mitm_denied 413 ''request body exceeds inspection limit''\<rparr>
      else case validateMITMHostAuthority policyHost authority of
        Some e \<Rightarrow> \<lparr>sd_upstream = [], sd_events = [denied_event event 403 e],
                   sd_response = mitm_denied 403 e\<rparr>
      | None \<Rightarrow>
          if sv_maxRequestBodyBytes s > 0 \<and> int (length (mq_Body req)) > sv_maxRequestBodyBytes s
          then \<lparr>sd_upstream = [],
                sd_events = [denied_event event 413 ''request body exceeds inspection limit''],
                sd_response = mitm_denied 413 ''request body exceeds inspection limit''\<rparr>
          else if \<not> Allowed eval \<and> sv_policyMode s \<noteq> ''audit''
          then \<lparr>sd_upstream = [], sd_events = [denied_event event 403 (reason_text eval)],
                sd_response = mitm_denied 403 (reason_text eval)\<rparr>
          else if authority = []
          then \<lparr>sd_upstream = [],
                sd_events = [denied_event event 400 ''MITM request authority is required''],
                sd_response = mitm_error 400 ''MITM request authority is required''\<rparr>
          else
            let target = \<lparr>u_Scheme = scheme, u_Host = authority, u_Port = authorityPort authority,
                          u_Path = path, u_RawQuery = mq_RawQuery req\<rparr> in
            case new_request (mq_Method req) target of
              Some e \<Rightarrow> \<lparr>sd_upstream = [], sd_events = [upstream_error_event event e],
                         sd_response = mitm_error 502 (''build outbound MITM request: '' @ e)\<rparr>
            | None \<Rightarrow>
                let out = \<lparr>or_Method = effective_method (mq_Method req), or_URL = target,
                           or_Header = mq_Header req,
                           or_Host = (if mq_Host req \<noteq> [] then mq_Host req
                                      else remove_empty_port authority),
                           or_Body = mq_Body req\<rparr> in
                (case round_trip out of
                   Inl e \<Rightarrow> \<lparr>sd_upstream = [out], sd_events = [upstream_error_event event e],
                             sd_response = mitm_error 502 e\<rparr>
                 | Inr resp \<Rightarrow>
                     let answered = event\<lparr>ev_StatusCode := hp_StatusCode resp\<rparr> in
                     (case readBoundedResponse (hp_Body resp) (sv_maxResponseBodyBytes s) of
                        Inl e \<Rightarrow>
                          \<lparr>sd_upstream = [out], sd_events = [upstream_error_event answered e],
                           sd_response = mitm_error 502 (''read outbound MITM response body: '' @ e)\<rparr>
                      | Inr (body, tooLarge) \<Rightarrow>
                          if tooLarge
                          then \<lparr>sd_upstream = [out],
                                sd_events = [upstream_error_event answered
                                  ''upstream response body exceeds configured limit''],
                                sd_response = mitm_error 502
                                  ''upstream response body exceeds configured limit''\<rparr>
                          else \<lparr>sd_upstream = [out],
                                sd_events = [answered\<lparr>ev_Allowed := True,
                                  ev_Result := ''allowed'', ev_Error := []\<rparr>],
                                sd_response = \<lparr>mr_StatusCode = hp_StatusCode resp,
                                  mr_Header = hp_Header resp, mr_Body = body, mr_Error = []\<rparr>\<rparr>)))"

definition connectAccessKind :: "bool \<Rightarrow> string" where
  "connectAccessKind transparent = (if transparent then ''transparent_connect'' else ''connect'')"

definition HandleConnectRequest ::
  "PolicyMode \<Rightarrow> compiledPolicy \<Rightarrow> string \<Rightarrow> ConnectRequest \<Rightarrow> ConnectResponse served" where
  "HandleConnectRequest mode0 policy sid req =
     (let mode = normalizedPolicyModeOrDefault mode0;
          (host, port) = normalizeHostPort (cq_Host req) (cq_Port req);
          eval = (if cq_Transparent req then evaluateConnect policy (cq_Host req) (cq_Port req) True
                  else evaluateConnect policy (cq_Host req) (cq_Port req) False);
          event = eventWithPolicyMetadata
            (zero_event\<lparr>ev_SandboxID := sid, ev_Kind := connectAccessKind (cq_Transparent req),
               ev_Protocol := pm_Protocol (cq_ProtocolMetadata req),
               ev_ProtocolSource := pm_Source (cq_ProtocolMetadata req),
               ev_ProtocolConfidence := pm_Confidence (cq_ProtocolMetadata req),
               ev_Host := host, ev_Port := port, ev_Method := ''CONNECT''\<rparr>) mode eval in
      if \<not> Allowed eval \<and> mode \<noteq> ''audit''
      then \<lparr>sd_upstream = [], sd_events = [denied_event event 403 (reason_text eval)],
            sd_response = \<lparr>cs_StatusCode = 403, cs_Message = ''connect request denied'',
                           cs_Error = reason_text eval\<rparr>\<rparr>
      else \<lparr>sd_upstream = [],
            sd_events = [event\<lparr>ev_Allowed := True, ev_StatusCode := 200, ev_Result := ''allowed''\<rparr>],
            sd_response = \<lparr>cs_StatusCode = 200, cs_Message = [], cs_Error = []\<rparr>\<rparr>)"

subsection \<open>The contract of a gated service\<close>

text \<open>
  What the manager relies on: a served request sends at most one request upstream and
  records at most one event; it goes upstream only when the policy allows it or the mode is
  audit; and the event tells both the policy decision and whether the request was let
  through.
\<close>

definition proxy_eval :: "url_parser \<Rightarrow> compiledPolicy \<Rightarrow> ProxyRequest \<Rightarrow> policyEvaluation" where
  "proxy_eval parse_url policy req =
     (case parse_url (px_URL req) of
        Inl e \<Rightarrow> deniedEvaluation e
      | Inr u \<Rightarrow> evaluateRequest policy
                  \<lparr>rq_Method = px_Method req, rq_Host = u_Host u,
                   rq_Path = (if u_Path u = [] then ''/'' else u_Path u),
                   rq_Header = px_Header req, rq_Body = px_Body req, rq_BodyTooLarge = False\<rparr>)"

definition mitm_eval :: "compiledPolicy \<Rightarrow> MITMRequest \<Rightarrow> policyEvaluation" where
  "mitm_eval policy req =
     evaluateRequest policy
       \<lparr>rq_Method = mq_Method req, rq_Host = mitmPolicyHost req, rq_Path = mq_Path req,
        rq_Header = mq_Header req, rq_Body = mq_Body req, rq_BodyTooLarge = mq_BodyTooLarge req\<rparr>"

locale gated_service =
  fixes serve :: "'q \<Rightarrow> 'r served"
    and decide :: "'q \<Rightarrow> policyEvaluation"
    and audit :: bool
  assumes gate: "sd_upstream (serve q) \<noteq> [] \<Longrightarrow> Allowed (decide q) \<or> audit"
    and one_upstream: "length (sd_upstream (serve q)) \<le> 1"
    and one_event: "length (sd_events (serve q)) \<le> 1"
    and upstream_recorded:
      "sd_upstream (serve q) \<noteq> [] \<Longrightarrow> \<exists>e. sd_events (serve q) = [e] \<and> ev_Allowed e"
    and event_decision:
      "e \<in> set (sd_events (serve q)) \<Longrightarrow> ev_PolicyAllowed e = Allowed (decide q)"
    and event_allowed:
      "e \<in> set (sd_events (serve q)) \<Longrightarrow> ev_Allowed e \<Longrightarrow> Allowed (decide q) \<or> audit"
begin

lemma enforced_upstream: "\<not> audit \<Longrightarrow> sd_upstream (serve q) \<noteq> [] \<Longrightarrow> Allowed (decide q)"
  using gate by blast

lemma enforced_event:
  "\<not> audit \<Longrightarrow> e \<in> set (sd_events (serve q)) \<Longrightarrow> ev_Allowed e \<Longrightarrow> ev_PolicyAllowed e"
  using event_decision event_allowed by blast

lemma upstream_le_allowed:
  "length (concat (map (\<lambda>q. sd_upstream (serve q)) qs)) \<le>
   length (filter ev_Allowed (concat (map (\<lambda>q. sd_events (serve q)) qs)))"
proof (induction qs)
  case (Cons q qs)
  have "length (sd_upstream (serve q)) \<le> length (filter ev_Allowed (sd_events (serve q)))"
    using one_upstream[of q] upstream_recorded[of q] by (cases "sd_upstream (serve q) = []") auto
  with Cons show ?case by simp
qed simp

end

lemma event_metadata_sel [simp]:
  "ev_PolicyAllowed (eventWithPolicyMetadata e m v) = Allowed v"
  "ev_PolicyViolations (eventWithPolicyMetadata e m v) = Reasons v"
  "ev_PolicyMode (eventWithPolicyMetadata e m v) = normalizedPolicyModeOrDefault m"
  by (simp_all add: eventWithPolicyMetadata_def)

lemmas event_defs = denied_event_def upstream_error_event_def

definition served_gate :: "'r served \<Rightarrow> policyEvaluation \<Rightarrow> bool \<Rightarrow> bool" where
  "served_gate d v aud \<longleftrightarrow>
     (sd_upstream d \<noteq> [] \<longrightarrow> Allowed v \<or> aud) \<and>
     length (sd_upstream d) \<le> 1 \<and> length (sd_events d) \<le> 1 \<and>
     (sd_upstream d \<noteq> [] \<longrightarrow> (\<exists>e. sd_events d = [e] \<and> ev_Allowed e)) \<and>
     (\<forall>e \<in> set (sd_events d). ev_PolicyAllowed e = Allowed v \<and>
        (ev_Allowed e \<longrightarrow> Allowed v \<or> aud))"

lemma served_gate_simps [simp]:
  "served_gate \<lparr>sd_upstream = [], sd_events = [], sd_response = r\<rparr> v aud"
  "served_gate \<lparr>sd_upstream = [], sd_events = [e], sd_response = r\<rparr> v aud \<longleftrightarrow>
     ev_PolicyAllowed e = Allowed v \<and> (ev_Allowed e \<longrightarrow> Allowed v \<or> aud)"
  "served_gate \<lparr>sd_upstream = [out], sd_events = [e], sd_response = r\<rparr> v aud \<longleftrightarrow>
     ev_Allowed e \<and> ev_PolicyAllowed e = Allowed v \<and> (Allowed v \<or> aud)"
  by (auto simp: served_gate_def)

lemma HandleProxyRequest_gate:
  "served_gate (HandleProxyRequest pu nr rt s policy sid req) (proxy_eval pu policy req)
     (sv_policyMode s = ''audit'')"
proof -
  have "holds (\<lambda>d. served_gate d (proxy_eval pu policy req) (sv_policyMode s = ''audit''))
      (HandleProxyRequest pu nr rt s policy sid req)"
    unfolding HandleProxyRequest_def proxy_eval_def
    by (intro holds_intros) (simp_all add: event_defs holds_def)
  then show ?thesis by (simp add: holds_def)
qed

lemma HandleMITMRequest_gate:
  "served_gate (HandleMITMRequest nr rt s policy sid req) (mitm_eval policy req)
     (sv_policyMode s = ''audit'')"
proof -
  have "holds (\<lambda>d. served_gate d (mitm_eval policy req) (sv_policyMode s = ''audit''))
      (HandleMITMRequest nr rt s policy sid req)"
    unfolding HandleMITMRequest_def mitm_eval_def
    by (intro holds_intros) (simp_all add: event_defs holds_def)
  then show ?thesis by (simp add: holds_def)
qed

lemma HandleConnectRequest_gate:
  "served_gate (HandleConnectRequest mode policy sid req)
     (evaluateConnect policy (cq_Host req) (cq_Port req) (cq_Transparent req))
     (normalizedPolicyModeOrDefault mode = ''audit'')"
proof -
  have "holds (\<lambda>d. served_gate d (evaluateConnect policy (cq_Host req) (cq_Port req) (cq_Transparent req))
      (normalizedPolicyModeOrDefault mode = ''audit'')) (HandleConnectRequest mode policy sid req)"
    unfolding HandleConnectRequest_def
    by (cases "cq_Transparent req"; intro holds_intros; simp add: event_defs holds_def)
  then show ?thesis by (simp add: holds_def)
qed

interpretation proxy_gate: gated_service "HandleProxyRequest pu nr rt s policy sid"
  "proxy_eval pu policy" "sv_policyMode s = ''audit''" for pu nr rt s policy sid
  using HandleProxyRequest_gate[of pu nr rt s policy sid, unfolded served_gate_def]
  by unfold_locales blast+

interpretation mitm_gate: gated_service "HandleMITMRequest nr rt s policy sid"
  "mitm_eval policy" "sv_policyMode s = ''audit''" for nr rt s policy sid
  using HandleMITMRequest_gate[of nr rt s policy sid, unfolded served_gate_def]
  by unfold_locales blast+

interpretation connect_gate: gated_service "HandleConnectRequest mode policy sid"
  "\<lambda>req. evaluateConnect policy (cq_Host req) (cq_Port req) (cq_Transparent req)"
  "normalizedPolicyModeOrDefault mode = ''audit''" for mode policy sid
  using HandleConnectRequest_gate[of mode policy sid, unfolded served_gate_def]
  by unfold_locales blast+


subsection \<open>What is sent upstream\<close>

definition sends_only :: "'r served \<Rightarrow> (out_request \<Rightarrow> bool) \<Rightarrow> bool" where
  "sends_only d P \<longleftrightarrow> (\<forall>out \<in> set (sd_upstream d). P out)"

lemma sends_only_simps [simp]:
  "sends_only \<lparr>sd_upstream = [], sd_events = es, sd_response = r\<rparr> P"
  "sends_only \<lparr>sd_upstream = [out], sd_events = es, sd_response = r\<rparr> P \<longleftrightarrow> P out"
  by (simp_all add: sends_only_def)

lemma HandleProxyRequest_sends:
  "holds (\<lambda>d. sends_only d
     (\<lambda>out. pu (px_URL req) = Inr (or_URL out) \<and> or_Host out = u_Host (or_URL out) \<and>
            or_Body out = px_Body req \<and> or_Header out = px_Header req \<and>
            (sv_maxRequestBodyBytes s > 0 \<longrightarrow>
               int (length (px_Body req)) \<le> sv_maxRequestBodyBytes s)))
     (HandleProxyRequest pu nr rt s policy sid req)"
  unfolding HandleProxyRequest_def by (intro holds_intros) (auto simp: holds_def)

lemma HandleMITMRequest_sends:
  "holds (\<lambda>d. sends_only d
     (\<lambda>out. u_Host (or_URL out) = mitmAuthority req \<and> \<not> mq_BodyTooLarge req \<and>
            mitmAuthority req \<noteq> [] \<and> or_Body out = mq_Body req \<and>
            validateMITMHostAuthority (mitmPolicyHost req) (mitmAuthority req) = None \<and>
            (sv_maxRequestBodyBytes s > 0 \<longrightarrow>
               int (length (mq_Body req)) \<le> sv_maxRequestBodyBytes s)))
     (HandleMITMRequest nr rt s policy sid req)"
  unfolding HandleMITMRequest_def by (intro holds_intros) (auto simp: holds_def)

subsection \<open>Properties\<close>


text \<open>
  In enforce mode a MITM request that reaches the upstream was allowed by the policy for
  a host that normalises to the same name as the authority it is sent to: a request cannot
  be evaluated under one host and be delivered to another. Its body was fully inspected and
  is within the limit.
\<close>

theorem mitm_upstream_same_host:
  assumes "sv_policyMode s \<noteq> ''audit''"
    and "out \<in> set (sd_upstream (HandleMITMRequest nr rt s policy sid req))"
    and "trim_space (mitmAuthority req) \<noteq> []"
  shows "\<exists>h. normalizePolicyHostname (u_Host (or_URL out)) = Inr h \<and>
      normalizePolicyHostname (mitmPolicyHost req) = Inr h \<and>
      Allowed (mitm_eval policy req) \<and> \<not> mq_BodyTooLarge req \<and> or_Body out = mq_Body req \<and>
      (sv_maxRequestBodyBytes s > 0 \<longrightarrow> int (length (or_Body out)) \<le> sv_maxRequestBodyBytes s)"
proof -
  let ?d = "HandleMITMRequest nr rt s policy sid req"
  have ne: "sd_upstream ?d \<noteq> []" using assms(2) by auto
  have s: "u_Host (or_URL out) = mitmAuthority req" "\<not> mq_BodyTooLarge req"
      "or_Body out = mq_Body req"
      "validateMITMHostAuthority (mitmPolicyHost req) (mitmAuthority req) = None"
      "sv_maxRequestBodyBytes s > 0 \<longrightarrow> int (length (mq_Body req)) \<le> sv_maxRequestBodyBytes s"
    using HandleMITMRequest_sends[of req s nr rt policy sid] assms(2)
    by (auto simp: sends_only_def holds_def)
  have al: "Allowed (mitm_eval policy req)"
    using assms(1) ne by (rule mitm_gate.enforced_upstream)
  then obtain h where h: "normalizePolicyHostname (mitmPolicyHost req) = Inr h"
    by (auto simp: mitm_eval_def evaluateRequest_allowed)
  then have "trim_space (mitmPolicyHost req) \<noteq> []"
    by (auto simp: normalizePolicyHostname_def)
  then have "normalizePolicyHostname (mitmAuthority req) = Inr h"
    using s(4) h assms(3) by (auto simp: validateMITMHostAuthority_def split: sum.splits if_splits)
  with h al s show ?thesis by auto
qed

text \<open>
  Over any sequence of proxied requests, in either mode, the number of requests that
  reached the upstream is at most the number of recorded events marked allowed; and in
  enforce mode no event is marked allowed while the policy denied it.
\<close>

theorem upstream_accounted:
  "length (concat (map (\<lambda>q. sd_upstream (HandleProxyRequest pu nr rt s policy sid q)) qs)) \<le>
   length (filter ev_Allowed
     (concat (map (\<lambda>q. sd_events (HandleProxyRequest pu nr rt s policy sid q)) qs))) \<and>
   (sv_policyMode s = ''audit'' \<or>
    filter (\<lambda>e. ev_Allowed e \<and> \<not> ev_PolicyAllowed e)
      (concat (map (\<lambda>q. sd_events (HandleProxyRequest pu nr rt s policy sid q)) qs)) = [])"
  using proxy_gate.upstream_le_allowed proxy_gate.enforced_event
  by (auto simp: filter_empty_conv)

text \<open>
  Reading a bounded body returns at most the limit: a body within the limit is returned
  whole unless the stream fails, a longer one is cut at the limit and reported as too large,
  even when the stream would fail later.
\<close>

theorem readBoundedResponse_spec:
  assumes "0 < maxBytes"
  shows "readBoundedResponse (Some (data, e)) maxBytes =
    (if int (length data) > maxBytes then Inr (take (nat maxBytes) data, True)
     else case e of Some m \<Rightarrow> Inl m | None \<Rightarrow> Inr (data, False))"
  using assms by (auto simp: readBoundedResponse_def Let_def min_def nat_add_distrib
      split: option.splits)

text \<open>
  A CONNECT request is answered with status 200 exactly when the policy allows it or the
  mode is audit, and with 403 and a reason otherwise; one event is recorded, and its status,
  outcome and policy decision agree with the answer.
\<close>

theorem connect_answer:
  "let d = HandleConnectRequest mode policy sid req;
       v = evaluateConnect policy (cq_Host req) (cq_Port req) (cq_Transparent req);
       pass = (Allowed v \<or> mode = ''audit'') in
   cs_StatusCode (sd_response d) = (if pass then 200 else 403) \<and>
   (pass = (cs_Error (sd_response d) = [])) \<and>
   map ev_StatusCode (sd_events d) = [cs_StatusCode (sd_response d)] \<and>
   map ev_Allowed (sd_events d) = [pass] \<and>
   map ev_PolicyAllowed (sd_events d) = [Allowed v] \<and>
   map ev_PolicyViolations (sd_events d) = [Reasons v]"
proof -
  let ?v = "evaluateConnect policy (cq_Host req) (cq_Port req) (cq_Transparent req)"
  have mode: "normalizedPolicyModeOrDefault mode = ''audit'' \<longleftrightarrow> mode = ''audit''"
    by (auto simp: normalizedPolicyModeOrDefault_def normalizePolicyMode_def)
  have v: "(if cq_Transparent req then evaluateConnect policy (cq_Host req) (cq_Port req) True
      else evaluateConnect policy (cq_Host req) (cq_Port req) False) = ?v"
    by simp
  have "\<not> Allowed ?v \<Longrightarrow> reason_text ?v \<noteq> []"
    using firstReasonAsError_wf[OF evaluateConnect_wf[of policy "cq_Host req" "cq_Port req"
        "cq_Transparent req"]] by (auto simp: reason_text_def)
  then show ?thesis
    by (cases "normalizeHostPort (cq_Host req) (cq_Port req)")
      (simp add: HandleConnectRequest_def v mode denied_event_def Let_def)
qed


subsection \<open>Witnesses\<close>

definition example_url :: go_url where
  "example_url = \<lparr>u_Scheme = ''http'', u_Host = ''example.com'', u_Port = [], u_Path = ''/'',
                  u_RawQuery = []\<rparr>"

definition example_service :: managerProxyService where
  "example_service = newManagerProxyService 4 0 []"

definition example_proxy_request :: ProxyRequest where
  "example_proxy_request =
     \<lparr>px_Method = ''GET'', px_URL = ''u'', px_Header = [], px_Body = ''abc''\<rparr>"

definition example_mitm_request :: MITMRequest where
  "example_mitm_request =
     \<lparr>mq_Scheme = [], mq_Authority = ''example.com:4'', mq_Host = ''Example.com'',
      mq_Method = ''GET'', mq_Path = ''/'', mq_RawQuery = [], mq_Header = [], mq_Body = ''abc'',
      mq_Proto = [], mq_BodyTooLarge = False\<rparr>"

definition example_transport :: transport where
  "example_transport out = Inr \<lparr>hp_StatusCode = 200, hp_Header = [], hp_Body = None\<rparr>"

definition example_proxy_out :: out_request where
  "example_proxy_out = \<lparr>or_Method = ''GET'', or_URL = example_url, or_Header = [],
                        or_Host = ''example.com'', or_Body = ''abc''\<rparr>"


theorem mitm_upstream_same_host_witness:
  "\<exists>out h. sd_upstream (HandleMITMRequest (\<lambda>_ _. None) example_transport example_service
     [example_rule] ''s'' example_mitm_request) = [out] \<and>
     normalizePolicyHostname (u_Host (or_URL out)) = Inr h"
proof -
  let ?d = "HandleMITMRequest (\<lambda>_ _. None) example_transport example_service
     [example_rule] ''s'' example_mitm_request"
  have "length (sd_upstream ?d) = 1" by code_simp
  then obtain out where out: "sd_upstream ?d = [out]" by (auto simp: length_Suc_conv)
  have "sv_policyMode example_service \<noteq> ''audit''"
      "trim_space (mitmAuthority example_mitm_request) \<noteq> []" by code_simp+
  with mitm_upstream_same_host[of example_service out "\<lambda>_ _. None" example_transport
      "[example_rule]" "''s''" example_mitm_request] out
  show ?thesis by auto
qed

theorem readBoundedResponse_spec_witness:
  "readBoundedResponse (Some (''abc'', Some ''reset'')) 2 = Inr (''ab'', True)"
  using readBoundedResponse_spec[of 2 "''abc''" "Some ''reset''"] by (simp add: numeral_2_eq_2)

end
