(* ===== verification/Sandbox_Registry.thy ===== *)
theory Sandbox_Registry
  imports Proxy_Service
begin

section \<open>The sandbox registry: proxy\_registry.go\<close>

text \<open>
  The registry keeps, per sandbox id, the attached sandbox (none between \<^verbatim>\<open>Register\<close> and
  \<^verbatim>\<open>Attach\<close>) and the policy. The locale \<open>sandbox_store\<close> is what the manager relies on; it
  is interpreted on the registry.
\<close>

record Sandbox =
  sb_id :: string
  sb_trafficMode :: TrafficMode
  sb_policyMode :: PolicyMode

record sandboxRegistry =
  rg_defaultPolicy :: compiledPolicy
  rg_sandboxes :: "(string \<times> Sandbox option) list"
  rg_policies :: "(string \<times> compiledPolicy) list"

definition newSandboxRegistry :: "compiledPolicy \<Rightarrow> sandboxRegistry" where
  "newSandboxRegistry p = \<lparr>rg_defaultPolicy = p, rg_sandboxes = [], rg_policies = []\<rparr>"

definition regRegister ::
  "sandboxRegistry \<Rightarrow> string \<Rightarrow> compiledPolicy option \<Rightarrow> sandboxRegistry result" where
  "regRegister r sid policy0 =
     (if sid = [] then err ''sandbox ID is required''
      else
        let policy = (case policy0 of None \<Rightarrow> rg_defaultPolicy r | Some p \<Rightarrow> p) in
        if map_of (rg_sandboxes r) sid \<noteq> None
        then err (''sandbox '' @ go_quote sid @ '' is already registered'')
        else ok (r\<lparr>rg_sandboxes := gm_put sid None (rg_sandboxes r),
                   rg_policies := gm_put sid policy (rg_policies r)\<rparr>))"

definition regAttach :: "sandboxRegistry \<Rightarrow> string \<Rightarrow> Sandbox \<Rightarrow> sandboxRegistry result" where
  "regAttach r sid sb =
     (if map_of (rg_sandboxes r) sid = None
      then err (''sandbox '' @ go_quote sid @ '' is not registered'')
      else ok (r\<lparr>rg_sandboxes := gm_put sid (Some sb) (rg_sandboxes r)\<rparr>))"

definition regUnregister :: "sandboxRegistry \<Rightarrow> string \<Rightarrow> sandboxRegistry" where
  "regUnregister r sid =
     r\<lparr>rg_sandboxes := gm_delete sid (rg_sandboxes r),
       rg_policies := gm_delete sid (rg_policies r)\<rparr>"

definition regPolicy :: "sandboxRegistry \<Rightarrow> string \<Rightarrow> compiledPolicy option" where
  "regPolicy r sid = map_of (rg_policies r) sid"

definition regHas :: "sandboxRegistry \<Rightarrow> string \<Rightarrow> bool" where
  "regHas r sid \<longleftrightarrow> map_of (rg_sandboxes r) sid \<noteq> None"

definition regSandbox :: "sandboxRegistry \<Rightarrow> string \<Rightarrow> Sandbox option option" where
  "regSandbox r sid = map_of (rg_sandboxes r) sid"

definition regAttachedSandboxes :: "sandboxRegistry \<Rightarrow> Sandbox list" where
  "regAttachedSandboxes r = List.map_filter snd (rg_sandboxes r)"

subsection \<open>The contract\<close>

locale sandbox_store =
  fixes register :: "'r \<Rightarrow> string \<Rightarrow> 'p option \<Rightarrow> 'r result"
    and attach :: "'r \<Rightarrow> string \<Rightarrow> 's \<Rightarrow> 'r result"
    and unregister :: "'r \<Rightarrow> string \<Rightarrow> 'r"
    and has :: "'r \<Rightarrow> string \<Rightarrow> bool"
    and policy :: "'r \<Rightarrow> string \<Rightarrow> 'p option"
    and dflt :: "'r \<Rightarrow> 'p"
    and valid :: "'r \<Rightarrow> bool"
  assumes register_iff: "is_ok (register r sid p) \<longleftrightarrow> sid \<noteq> [] \<and> \<not> has r sid"
    and register_has: "register r sid p = Inr r' \<Longrightarrow> has r' k \<longleftrightarrow> k = sid \<or> has r k"
    and register_policy: "register r sid p = Inr r' \<Longrightarrow>
      policy r' k = (if k = sid then Some (case p of None \<Rightarrow> dflt r | Some q \<Rightarrow> q) else policy r k)"
    and attach_keeps: "attach r sid s = Inr r' \<Longrightarrow>
      has r' k = has r k \<and> policy r' k = policy r k \<and> has r sid"
    and unregister_has: "has (unregister r sid) k \<longleftrightarrow> k \<noteq> sid \<and> has r k"
    and unregister_policy:
      "policy (unregister r sid) k = (if k = sid then None else policy r k)"
    and valid_register: "valid r \<Longrightarrow> register r sid p = Inr r' \<Longrightarrow> valid r'"
    and valid_attach: "valid r \<Longrightarrow> attach r sid s = Inr r' \<Longrightarrow> valid r'"
    and valid_unregister: "valid r \<Longrightarrow> valid (unregister r sid)"
    and valid_has: "valid r \<Longrightarrow> has r k \<longleftrightarrow> policy r k \<noteq> None"
begin

lemma no_double_register: "register r sid p = Inr r' \<Longrightarrow> \<not> is_ok (register r' sid q)"
  using register_iff register_has by blast

lemma reregister:
  assumes "register r sid p = Inr r'"
  shows "is_ok (register (unregister r' sid) sid q)"
  using assms register_iff[of r sid p] by (simp add: register_iff unregister_has)

lemma isolated:
  assumes "k \<noteq> sid" and "register r sid p = Inr r1"
  shows "policy (unregister r1 sid) k = policy r k"
  using assms by (simp add: unregister_policy register_policy)

end

definition registry_valid :: "sandboxRegistry \<Rightarrow> bool" where
  "registry_valid r \<longleftrightarrow>
     (\<forall>k. map_of (rg_sandboxes r) k = None \<longleftrightarrow> map_of (rg_policies r) k = None)"

lemmas registry_defs =
  regRegister_def regAttach_def regUnregister_def regPolicy_def regHas_def regSandbox_def
  registry_valid_def newSandboxRegistry_def

interpretation store: sandbox_store regRegister regAttach regUnregister regHas regPolicy
  rg_defaultPolicy registry_valid
  by unfold_locales
    (auto simp: registry_defs Let_def split: if_splits option.splits)

end
