(* ===== verification/Dns_Service.thy ===== *)
theory Dns_Service
  imports Proxy_Service
begin

section \<open>The host-side DNS service: manager\_dns\_service.go\<close>

text \<open>
  Validation and the hosts of a query, the choice among the system's DNS servers, the TCP
  framing and the removal of AAAA records. Parameters: \<open>dns_start\<close> and \<open>dns_questions\<close> are
  the parser of package \<^verbatim>\<open>dnsmessage\<close> (the error of \<^verbatim>\<open>Start\<close>; the question names or the
  error of \<^verbatim>\<open>AllQuestions\<close>), \<open>dns_unpack\<close> and \<open>dns_pack\<close> its message codec, and \<open>dial\<close> the
  network: a connection says what a write is answered with.
\<close>

type_synonym dns_start = "string \<Rightarrow> error option"
type_synonym dns_questions = "string \<Rightarrow> string list result"

record dns_parser =
  dp_start :: dns_start
  dp_questions :: dns_questions

record dns_resource =
  rs_Type :: nat
  rs_Data :: string

record dns_message =
  ms_Head :: string
  ms_Answers :: "dns_resource list"
  ms_Authorities :: "dns_resource list"
  ms_Additionals :: "dns_resource list"

record dns_codec =
  dc_unpack :: "string \<Rightarrow> dns_message result"
  dc_pack :: "dns_message \<Rightarrow> string result"

text \<open>
  A connection: the error of setting the deadline, the answer of one datagram exchange, and
  for a stream the bytes that arrive after a write with the error that ends them.
\<close>

record dns_conn =
  cn_deadline :: "error option"
  cn_udp :: "string \<Rightarrow> string result"
  cn_tcp :: "string \<Rightarrow> (string \<times> error) result"

type_synonym dns_dial = "string \<Rightarrow> string \<Rightarrow> dns_conn result"

definition validateDNSQuery :: "dns_parser \<Rightarrow> string \<Rightarrow> error option" where
  "validateDNSQuery ps payload =
     (case dp_start ps payload of
        Some e \<Rightarrow> Some (''parse dns query: '' @ e)
      | None \<Rightarrow> (case dp_questions ps payload of
                   Inl e \<Rightarrow> Some (''parse dns query questions: '' @ e)
                 | Inr _ \<Rightarrow> None))"

fun collectHosts :: "string list \<Rightarrow> string list \<Rightarrow> string list" where
  "collectHosts hosts [] = hosts"
| "collectHosts hosts (q # qs) =
     (let host = to_lower (trim_space (trim_suffix q ''.'')) in
      if host = [] then collectHosts hosts qs
      else if host \<in> set hosts then collectHosts hosts qs
      else collectHosts (hosts @ [host]) qs)"

definition dnsQuestionHosts :: "dns_parser \<Rightarrow> string \<Rightarrow> string list result" where
  "dnsQuestionHosts ps payload =
     (case dp_start ps payload of
        Some e \<Rightarrow> err (''parse dns query: '' @ e)
      | None \<Rightarrow> (case dp_questions ps payload of
                   Inl e \<Rightarrow> err (''parse dns query questions: '' @ e)
                 | Inr qs \<Rightarrow> ok (collectHosts [] qs)))"

definition normalizeDNSNetwork :: "string \<Rightarrow> string result" where
  "normalizeDNSNetwork network =
     (let n = to_lower (trim_space network) in
      if n \<in> {[], ''udp'', ''udp4'', ''udp6''} then ok ''udp''
      else if n \<in> {''tcp'', ''tcp4'', ''tcp6''} then ok ''tcp''
      else err (''unsupported dns network '' @ go_quote network))"

text \<open>The content of \<^verbatim>\<open>/etc/resolv.conf\<close>, absent when it cannot be opened.\<close>

definition resolv_line :: "string \<Rightarrow> string list" where
  "resolv_line raw =
     (let line = trim_space raw in
      if line = [] \<or> has_prefix line ''#'' \<or> has_prefix line '';'' then []
      else case str_fields line of
             kw # server # _ \<Rightarrow> if kw = ''nameserver'' then [join_host_port server ''53''] else []
           | _ \<Rightarrow> [])"

definition systemDNSServers :: "string option \<Rightarrow> string list" where
  "systemDNSServers file =
     (case file of
        None \<Rightarrow> [''127.0.0.1:53'']
      | Some text \<Rightarrow>
          let servers = concat (map resolv_line (split_on CHR 0x0A text)) in
          if servers = [] then [''127.0.0.1:53''] else servers)"

definition put_uint16 :: "nat \<Rightarrow> string" where
  "put_uint16 n = [char_of (n div 256 mod 256), char_of (n mod 256)]"

definition get_uint16 :: "string \<Rightarrow> nat" where
  "get_uint16 s = 256 * of_char (s ! 0) + of_char (s ! 1)"

definition roundTripDNSUDP :: "dns_conn \<Rightarrow> string \<Rightarrow> string result" where
  "roundTripDNSUDP conn payload =
     (case cn_udp conn payload of Inl e \<Rightarrow> err e | Inr data \<Rightarrow> ok (take 65536 data))"

definition roundTripDNSTCP :: "dns_conn \<Rightarrow> string \<Rightarrow> string result" where
  "roundTripDNSTCP conn payload =
     (if length payload > 65535
      then err (''dns payload length '' @ itoa (int (length payload)) @
                '' exceeds tcp frame maximum '' @ itoa 65535)
      else case cn_tcp conn (put_uint16 (length payload) @ payload) of
             Inl e \<Rightarrow> err e
           | Inr (stream, e) \<Rightarrow>
               if length stream < 2 then err e
               else
                 let responseLen = get_uint16 (take 2 stream); rest = drop 2 stream in
                 if length rest < responseLen then err e else ok (take responseLen rest))"

definition dnsRoundTrip :: "dns_dial \<Rightarrow> string \<Rightarrow> string \<Rightarrow> string \<Rightarrow> string result" where
  "dnsRoundTrip dial network upstream payload =
     (case dial network upstream of
        Inl e \<Rightarrow> err e
      | Inr conn \<Rightarrow>
          (case cn_deadline conn of
             Some e \<Rightarrow> err e
           | None \<Rightarrow> if network = ''tcp'' then roundTripDNSTCP conn payload
                     else roundTripDNSUDP conn payload))"

text \<open>\<^verbatim>\<open>errors.Join\<close> separates the texts by newlines.\<close>

fun tryServers ::
  "dns_dial \<Rightarrow> string \<Rightarrow> string \<Rightarrow> error option \<Rightarrow> string list \<Rightarrow> string result" where
  "tryServers dial network payload e [] =
     (case e of None \<Rightarrow> err ''no DNS servers configured'' | Some m \<Rightarrow> err m)"
| "tryServers dial network payload e (upstream # rest) =
     (case dnsRoundTrip dial network upstream payload of
        Inr response \<Rightarrow> ok response
      | Inl m \<Rightarrow>
          let line = network @ '' '' @ upstream @ '': '' @ m in
          tryServers dial network payload
            (Some (case e of None \<Rightarrow> line | Some p \<Rightarrow> p @ [CHR 0x0A] @ line)) rest)"

definition dnsHandleQuery ::
  "dns_parser \<Rightarrow> dns_dial \<Rightarrow> string list \<Rightarrow> string \<Rightarrow> string \<Rightarrow> string result" where
  "dnsHandleQuery ps dial servers network payload =
     (if payload = [] then err ''dns query payload is empty''
      else case validateDNSQuery ps payload of
        Some e \<Rightarrow> err e
      | None \<Rightarrow>
          (case normalizeDNSNetwork network of
             Inl e \<Rightarrow> err e
           | Inr n \<Rightarrow> tryServers dial n payload None servers))"

definition TypeAAAA :: nat where
  "TypeAAAA = 28"

definition filterAAAAResources :: "dns_resource list \<Rightarrow> dns_resource list" where
  "filterAAAAResources rs = filter (\<lambda>r. rs_Type r \<noteq> TypeAAAA) rs"

definition stripAAAARecords :: "dns_codec \<Rightarrow> string \<Rightarrow> string result" where
  "stripAAAARecords codec payload =
     (case dc_unpack codec payload of
        Inl e \<Rightarrow> err (''parse dns response: '' @ e)
      | Inr msg \<Rightarrow>
          (case dc_pack codec
                  (msg\<lparr>ms_Answers := filterAAAAResources (ms_Answers msg),
                       ms_Authorities := filterAAAAResources (ms_Authorities msg),
                       ms_Additionals := filterAAAAResources (ms_Additionals msg)\<rparr>) of
             Inl e \<Rightarrow> err (''pack dns response: '' @ e)
           | Inr filtered \<Rightarrow> ok filtered))"

subsection \<open>Lemmas\<close>

lemma collectHosts_spec:
  "distinct hosts \<Longrightarrow> [] \<notin> set hosts \<Longrightarrow>
   distinct (collectHosts hosts qs) \<and> [] \<notin> set (collectHosts hosts qs) \<and>
   set (collectHosts hosts qs) =
     set hosts \<union> ((\<lambda>q. to_lower (trim_space (trim_suffix q ''.''))) ` set qs - {[]})"
proof (induction qs arbitrary: hosts)
  case (Cons q qs)
  define h where "h = to_lower (trim_space (trim_suffix q ''.''))"
  have eq: "collectHosts hosts (q # qs) =
      (if h = [] \<or> h \<in> set hosts then collectHosts hosts qs else collectHosts (hosts @ [h]) qs)"
    by (simp add: Let_def h_def)
  show ?case
  proof (cases "h = [] \<or> h \<in> set hosts")
    case True
    then show ?thesis using Cons.IH[OF Cons.prems] Cons.prems unfolding eq h_def by auto
  next
    case False
    then have "distinct (hosts @ [h])" "[] \<notin> set (hosts @ [h])" using Cons.prems by auto
    from Cons.IH[OF this] False show ?thesis unfolding eq by (auto simp: h_def[symmetric])
  qed
qed simp

lemma get_put_uint16: "n < 65536 \<Longrightarrow> get_uint16 (put_uint16 n) = n"
  by (simp add: get_uint16_def put_uint16_def)

lemma put_uint16_length [simp]: "length (put_uint16 n) = 2"
  by (simp add: put_uint16_def)

lemma tryServers_Inr:
  "tryServers dial network payload e servers = Inr resp \<longleftrightarrow>
   (\<exists>pre s post. servers = pre @ s # post \<and> dnsRoundTrip dial network s payload = Inr resp \<and>
      (\<forall>t \<in> set pre. \<not> is_ok (dnsRoundTrip dial network t payload)))"
proof (induction servers arbitrary: e)
  case Nil
  then show ?case by (simp split: option.splits)
next
  case (Cons s servers)
  show ?case
  proof (cases "dnsRoundTrip dial network s payload")
    case (Inl m)
    have "(\<exists>pre t post. s # servers = pre @ t # post \<and> dnsRoundTrip dial network t payload = Inr resp \<and>
        (\<forall>u \<in> set pre. \<not> is_ok (dnsRoundTrip dial network u payload))) \<longleftrightarrow>
      (\<exists>pre t post. servers = pre @ t # post \<and> dnsRoundTrip dial network t payload = Inr resp \<and>
        (\<forall>u \<in> set pre. \<not> is_ok (dnsRoundTrip dial network u payload)))"
      (is "?L \<longleftrightarrow> ?R")
    proof
      assume ?L
      then obtain pre t post where p: "s # servers = pre @ t # post"
        "dnsRoundTrip dial network t payload = Inr resp"
        "\<forall>u \<in> set pre. \<not> is_ok (dnsRoundTrip dial network u payload)" by blast
      then show ?R using Inl by (cases pre) auto
    next
      assume ?R
      then obtain pre t post where "servers = pre @ t # post"
        "dnsRoundTrip dial network t payload = Inr resp"
        "\<forall>u \<in> set pre. \<not> is_ok (dnsRoundTrip dial network u payload)" by blast
      then show ?L using Inl by (intro exI[of _ "s # pre"] exI[of _ t] exI[of _ post]) auto
    qed
    then show ?thesis using Inl by (simp add: Cons.IH Let_def)
  next
    case (Inr r)
    show ?thesis
    proof
      assume "tryServers dial network payload e (s # servers) = Inr resp"
      then show "\<exists>pre t post. s # servers = pre @ t # post \<and>
          dnsRoundTrip dial network t payload = Inr resp \<and>
          (\<forall>u \<in> set pre. \<not> is_ok (dnsRoundTrip dial network u payload))"
        using Inr by (intro exI[of _ "[]"] exI[of _ s] exI[of _ servers]) simp
    next
      assume "\<exists>pre t post. s # servers = pre @ t # post \<and>
          dnsRoundTrip dial network t payload = Inr resp \<and>
          (\<forall>u \<in> set pre. \<not> is_ok (dnsRoundTrip dial network u payload))"
      then show "tryServers dial network payload e (s # servers) = Inr resp"
        using Inr by (auto simp: Cons_eq_append_conv)
    qed
  qed
qed

subsection \<open>Properties\<close>

text \<open>
  A query is answered by the first server, in order, whose round trip succeeds, and only
  after the query parsed and its network was udp or tcp; there is always a server to try,
  since without any \<^verbatim>\<open>nameserver\<close> line the loopback resolver is used.
\<close>

theorem dnsHandleQuery_first_server:
  "(dnsHandleQuery ps dial (systemDNSServers file) network payload = Inr resp) =
   (payload \<noteq> [] \<and> validateDNSQuery ps payload = None \<and>
    (\<exists>n pre s post. normalizeDNSNetwork network = Inr n \<and> n \<in> {''udp'', ''tcp''} \<and>
       systemDNSServers file = pre @ s # post \<and> dnsRoundTrip dial n s payload = Inr resp \<and>
       filter (\<lambda>t. is_ok (dnsRoundTrip dial n t payload)) pre = [])) \<and>
   systemDNSServers file \<noteq> []"
proof -
  have net: "normalizeDNSNetwork network = Inr n \<Longrightarrow> n \<in> {''udp'', ''tcp''}" for n
    by (auto simp: normalizeDNSNetwork_def Let_def split: if_splits)
  have "systemDNSServers file \<noteq> []"
    by (auto simp: systemDNSServers_def Let_def split: option.splits)
  then show ?thesis
    using net
    by (auto simp: dnsHandleQuery_def tryServers_Inr filter_empty_conv split: option.splits sum.splits)
qed

text \<open>
  The TCP framing is a round trip: a payload of at most 65535 bytes is sent with its
  length in front, and a response framed the same way is returned exactly, whatever follows
  it in the stream.
\<close>

theorem dns_tcp_framing:
  assumes "length payload \<le> 65535" and "length response \<le> 65535"
    and "cn_tcp conn (put_uint16 (length payload) @ payload) =
           Inr (put_uint16 (length response) @ response @ junk, e)"
  shows "roundTripDNSTCP conn payload = Inr response"
  using assms get_put_uint16[of "length response"]
  by (simp add: roundTripDNSTCP_def Let_def)

text \<open>
  The hosts of a query are lower case, distinct and non-empty, and they are exactly the
  non-empty normalised question names.
\<close>

theorem dnsQuestionHosts_spec:
  assumes "dnsQuestionHosts ps payload = Inr hosts"
  shows "\<exists>qs. dp_questions ps payload = Inr qs \<and> distinct hosts \<and> [] \<notin> set hosts \<and>
    set hosts = (\<lambda>q. to_lower (trim_space (trim_suffix q ''.''))) ` set qs - {[]}"
  using assms collectHosts_spec[of "[]"]
  by (auto simp: dnsQuestionHosts_def split: option.splits sum.splits)

subsection \<open>Witnesses\<close>

theorem dns_tcp_framing_witness:
  "roundTripDNSTCP \<lparr>cn_deadline = None, cn_udp = (\<lambda>_. Inl ''e''),
      cn_tcp = (\<lambda>w. Inr (put_uint16 1 @ ''r'' @ ''junk'', ''EOF''))\<rparr> ''q'' = Inr ''r''"
  by (rule dns_tcp_framing[where junk = "''junk''" and e = "''EOF''"]) simp_all

theorem dnsQuestionHosts_spec_witness:
  "\<exists>hosts. dnsQuestionHosts \<lparr>dp_start = (\<lambda>_. None), dp_questions = (\<lambda>_. Inr [''a.'', ''.'', ''a''])\<rparr> ''p'' =
     Inr hosts \<and> distinct hosts"
proof -
  let ?ps = "\<lparr>dp_start = (\<lambda>_. None), dp_questions = (\<lambda>_. Inr [''a.'', ''.'', ''a''])\<rparr> :: dns_parser"
  have "dnsQuestionHosts ?ps ''p'' = Inr (collectHosts [] [''a.'', ''.'', ''a''])"
    by (simp add: dnsQuestionHosts_def)
  with dnsQuestionHosts_spec[OF this] show ?thesis by auto
qed

end
