(* ===== verification/Manager.thy ===== *)
theory Manager
  imports Sandbox_Registry Dns_Service
begin

section \<open>The proxy manager: api.go, manager.go, manager\_audit.go\<close>

text \<open>
  The manager owns the registry, the audit state and the access log, and answers the
  requests the helper sends for a sandbox. Each handler is the whole Go handler: it looks up
  the sandbox's policy, runs the service and records the service's events. Handlers return
  the new manager, what was forwarded upstream and the response. The clock is the parameter
  \<open>now\<close>.
\<close>

record DockerSocketOptions =
  do_Enabled :: bool
  do_MountPath :: string
  do_TargetSocketPath :: string
  do_Policy :: DockerSocketPolicy

record ProxyOptions =
  po_ListenAddr :: string
  po_MaxRequestBodyBytes :: int
  po_MaxResponseBodyBytes :: int
  po_NetworkPolicy :: NetworkPolicy
  po_PolicyMode :: PolicyMode
  po_MITMEnabled :: bool
  po_DockerSocket :: DockerSocketOptions

record ProxyManager =
  mg_registry :: sandboxRegistry
  mg_audit :: "managerAuditState option"
  mg_accessLog :: "AccessLogEntry list"
  mg_listenAddr :: string
  mg_requestBodyLimitBytes :: int
  mg_responseBodyLimitBytes :: int
  mg_policyMode :: PolicyMode
  mg_mitmEnabled :: bool
  mg_dockerSocket :: DockerSocketOptions
  mg_dockerSocketPolicy :: "compiledDockerSocketPolicy option"
  mg_nextSandboxID :: "64 word"

subsection \<open>Creation\<close>

definition defaultProxyAddr :: string where
  "defaultProxyAddr = ''127.0.0.1:31111''"

definition zero_docker_options :: DockerSocketOptions where
  "zero_docker_options = \<lparr>do_Enabled = False, do_MountPath = [], do_TargetSocketPath = [],
     do_Policy = \<lparr>dp_DefaultAction = [], dp_Rules = []\<rparr>\<rparr>"

definition newProxyManager :: "compiledPolicy \<Rightarrow> ProxyManager" where
  "newProxyManager policy =
     \<lparr>mg_registry = newSandboxRegistry policy, mg_audit = None, mg_accessLog = [],
      mg_listenAddr = defaultProxyAddr, mg_requestBodyLimitBytes = 0,
      mg_responseBodyLimitBytes = 0, mg_policyMode = ''enforce'', mg_mitmEnabled = False,
      mg_dockerSocket = zero_docker_options, mg_dockerSocketPolicy = None,
      mg_nextSandboxID = 0\<rparr>"

definition effectiveRequestBodyLimit :: "ProxyOptions \<Rightarrow> int" where
  "effectiveRequestBodyLimit opts =
     (if po_MaxRequestBodyBytes opts > 0 then po_MaxRequestBodyBytes opts else 1048576)"

definition effectiveResponseBodyLimit :: "ProxyOptions \<Rightarrow> int" where
  "effectiveResponseBodyLimit opts =
     (if po_MaxResponseBodyBytes opts > 0 then po_MaxResponseBodyBytes opts else 0)"

text \<open>
  \<open>resolve\<close> is the error of \<^verbatim>\<open>net.ResolveTCPAddr\<close>, \<open>new_ca\<close> the error of creating the MITM
  certificate authority.
\<close>

definition NewProxyManager ::
  "regexp_compile \<Rightarrow> (string \<Rightarrow> error option) \<Rightarrow> error option \<Rightarrow> ProxyOptions \<Rightarrow>
   ProxyManager result" where
  "NewProxyManager re resolve new_ca opts =
     res_bind (compilePolicy re (po_NetworkPolicy opts)) (\<lambda>policy.
     res_bind (compileDockerSocketPolicy re (do_Policy (po_DockerSocket opts))) (\<lambda>docker.
     res_bind (normalizePolicyMode (po_PolicyMode opts)) (\<lambda>mode.
       if po_MaxRequestBodyBytes opts < 0
       then err ''max request body bytes must be non-negative''
       else if po_MaxResponseBodyBytes opts < 0
       then err ''max response body bytes must be non-negative''
       else
         let listen = (if trim_space (po_ListenAddr opts) = [] then defaultProxyAddr
                       else trim_space (po_ListenAddr opts)) in
         case resolve listen of
           Some e \<Rightarrow> err (''resolve proxy listen address '' @ go_quote listen @ '': '' @ e)
         | None \<Rightarrow>
             if po_MITMEnabled opts \<and> new_ca \<noteq> None then err (the new_ca)
             else ok ((newProxyManager policy)
               \<lparr>mg_listenAddr := listen,
                mg_requestBodyLimitBytes := effectiveRequestBodyLimit opts,
                mg_responseBodyLimitBytes := effectiveResponseBodyLimit opts,
                mg_policyMode := mode, mg_mitmEnabled := po_MITMEnabled opts,
                mg_dockerSocket := po_DockerSocket opts,
                mg_dockerSocketPolicy := Some docker\<rparr>))))"

subsection \<open>Registration\<close>

definition registerSandbox ::
  "ProxyManager \<Rightarrow> string \<Rightarrow> compiledPolicy option \<Rightarrow> ProxyManager result" where
  "registerSandbox m sid policy =
     (case regRegister (mg_registry m) sid policy of
        Inl e \<Rightarrow> err e
      | Inr r \<Rightarrow> ok (m\<lparr>mg_registry := r, mg_audit := initAuditStateLocked (mg_audit m) sid\<rparr>))"

definition attachSandbox :: "ProxyManager \<Rightarrow> string \<Rightarrow> Sandbox \<Rightarrow> ProxyManager result" where
  "attachSandbox m sid sb =
     (case regAttach (mg_registry m) sid sb of
        Inl e \<Rightarrow> err e | Inr r \<Rightarrow> ok (m\<lparr>mg_registry := r\<rparr>))"

definition unregisterSandbox :: "ProxyManager \<Rightarrow> string \<Rightarrow> ProxyManager" where
  "unregisterSandbox m sid =
     m\<lparr>mg_registry := regUnregister (mg_registry m) sid,
       mg_audit := removeAuditStateLocked (mg_audit m) sid\<rparr>"

definition policyForSandbox :: "ProxyManager \<Rightarrow> string \<Rightarrow> compiledPolicy option" where
  "policyForSandbox m sid = regPolicy (mg_registry m) sid"

definition nextSandboxName :: "ProxyManager \<Rightarrow> string \<Rightarrow> ProxyManager \<times> string" where
  "nextSandboxName m requested =
     (let trimmed = trim_space requested in
      if trimmed \<noteq> [] then (m, trimmed)
      else let n = mg_nextSandboxID m + 1 in
           (m\<lparr>mg_nextSandboxID := n\<rparr>, ''sandbox-'' @ itoa (uint n)))"

definition policyModeForSandbox :: "ProxyManager \<Rightarrow> string \<Rightarrow> PolicyMode" where
  "policyModeForSandbox m sid =
     (if sid \<noteq> [] then
        (case regSandbox (mg_registry m) sid of
           Some (Some sb) \<Rightarrow> normalizedPolicyModeOrDefault (sb_policyMode sb)
         | _ \<Rightarrow> normalizedPolicyModeOrDefault (mg_policyMode m))
      else normalizedPolicyModeOrDefault (mg_policyMode m))"

definition trafficModeForSandbox :: "ProxyManager \<Rightarrow> string \<Rightarrow> TrafficMode" where
  "trafficModeForSandbox m sid =
     (if sid = [] then ''proxy''
      else case regSandbox (mg_registry m) sid of
             Some (Some sb) \<Rightarrow> normalizeTrafficMode (sb_trafficMode sb)
           | _ \<Rightarrow> ''proxy'')"

subsection \<open>Recording\<close>

definition completeEvent :: "int \<Rightarrow> ProxyManager \<Rightarrow> accessEvent \<Rightarrow> accessEvent" where
  "completeEvent now m e =
     (let e = (if ev_Time e = 0 then e\<lparr>ev_Time := now\<rparr> else e);
          e = (if ev_TrafficMode e = []
               then e\<lparr>ev_TrafficMode := trafficModeForSandbox m (ev_SandboxID e)\<rparr> else e) in
      e\<lparr>ev_TrafficMode := normalizeTrafficMode (ev_TrafficMode e)\<rparr>)"

definition recordAccessEvent :: "int \<Rightarrow> ProxyManager \<Rightarrow> accessEvent \<Rightarrow> ProxyManager" where
  "recordAccessEvent now m e0 =
     (if ev_SandboxID e0 = [] then m
      else
        let e = completeEvent now m e0 in
        if \<not> regHas (mg_registry m) (ev_SandboxID e) then m
        else m\<lparr>mg_audit := Some (updateAuditStateLocked (auditStateLocked (mg_audit m)) e),
               mg_accessLog := mg_accessLog m @ [toAccessLogEntry e]\<rparr>)"

definition recordAll :: "int \<Rightarrow> ProxyManager \<Rightarrow> accessEvent list \<Rightarrow> ProxyManager" where
  "recordAll now m es = foldl (recordAccessEvent now) m es"

subsection \<open>Handlers\<close>

definition not_registered :: "string \<Rightarrow> string" where
  "not_registered sid = ''sandbox '' @ go_quote sid @ '' is not registered''"

definition manager_service :: "ProxyManager \<Rightarrow> string \<Rightarrow> managerProxyService" where
  "manager_service m sid =
     newManagerProxyService (mg_requestBodyLimitBytes m) (mg_responseBodyLimitBytes m)
       (policyModeForSandbox m sid)"

definition handleProxyRequest ::
  "url_parser \<Rightarrow> request_check \<Rightarrow> transport \<Rightarrow> int \<Rightarrow> ProxyManager \<Rightarrow> string \<Rightarrow> ProxyRequest \<Rightarrow>
   ProxyManager \<times> out_request list \<times> ProxyResponse" where
  "handleProxyRequest pu nr rt now m sid req =
     (case policyForSandbox m sid of
        None \<Rightarrow> (m, [], proxy_error (not_registered sid))
      | Some policy \<Rightarrow>
          let d = HandleProxyRequest pu nr rt (manager_service m sid) policy sid req in
          (recordAll now m (sd_events d), sd_upstream d, sd_response d))"

definition handleConnectRequest ::
  "int \<Rightarrow> ProxyManager \<Rightarrow> string \<Rightarrow> ConnectRequest \<Rightarrow> ProxyManager \<times> ConnectResponse" where
  "handleConnectRequest now m sid req =
     (case policyForSandbox m sid of
        None \<Rightarrow> (m, \<lparr>cs_StatusCode = 502, cs_Message = [], cs_Error = not_registered sid\<rparr>)
      | Some policy \<Rightarrow>
          let d = HandleConnectRequest (policyModeForSandbox m sid) policy sid req in
          (recordAll now m (sd_events d), sd_response d))"

definition handleMITMRequest ::
  "request_check \<Rightarrow> transport \<Rightarrow> int \<Rightarrow> ProxyManager \<Rightarrow> string \<Rightarrow> MITMRequest \<Rightarrow>
   ProxyManager \<times> out_request list \<times> MITMResponse" where
  "handleMITMRequest nr rt now m sid req =
     (case policyForSandbox m sid of
        None \<Rightarrow> (m, [], mitm_error 502 (not_registered sid))
      | Some policy \<Rightarrow>
          let d = HandleMITMRequest nr rt (manager_service m sid) policy sid req in
          (recordAll now m (sd_events d), sd_upstream d, sd_response d))"

definition dns_event ::
  "string \<Rightarrow> PolicyMode \<Rightarrow> bool \<Rightarrow> int \<Rightarrow> string \<Rightarrow> string \<Rightarrow> string \<times> policyEvaluation \<Rightarrow>
   accessEvent" where
  "dns_event sid mode allowed status result e = (\<lambda>(host, eval).
     eventWithPolicyMetadata
       (zero_event\<lparr>ev_SandboxID := sid, ev_Kind := ''dns'', ev_Host := host, ev_Port := 53,
          ev_Allowed := allowed, ev_StatusCode := status, ev_Result := result,
          ev_Error := e\<rparr>) mode eval)"

fun evaluateHosts ::
  "compiledPolicy \<Rightarrow> PolicyMode \<Rightarrow> string list \<Rightarrow>
   (string \<times> policyEvaluation) + (string \<times> policyEvaluation) list" where
  "evaluateHosts policy mode [] = Inr []"
| "evaluateHosts policy mode (host # hosts) =
     (let eval = evaluateDNS policy host in
      if \<not> Allowed eval \<and> mode \<noteq> ''audit'' then Inl (host, eval)
      else case evaluateHosts policy mode hosts of
             Inl d \<Rightarrow> Inl d | Inr es \<Rightarrow> Inr ((host, eval) # es))"

definition dns_error :: "string \<Rightarrow> DNSResponse" where
  "dns_error e = \<lparr>dn_Payload = [], dn_Error = e\<rparr>"

text \<open>
  The result has the payloads handed to the DNS service; the service is
  \<^verbatim>\<open>HandleQueryWithNetwork\<close> of a new DNS service, \<open>query\<close> here.
\<close>

definition handleDNSRequest ::
  "dns_parser \<Rightarrow> dns_codec \<Rightarrow> (string \<Rightarrow> string \<Rightarrow> string result) \<Rightarrow> int \<Rightarrow> ProxyManager \<Rightarrow> string \<Rightarrow>
   DNSRequest \<Rightarrow> ProxyManager \<times> string list \<times> DNSResponse" where
  "handleDNSRequest ps codec query now m sid req =
     (case policyForSandbox m sid of
        None \<Rightarrow> (m, [], dns_error (not_registered sid))
      | Some policy \<Rightarrow>
          (case dnsQuestionHosts ps (dq_Payload req) of
             Inl e \<Rightarrow> (m, [], dns_error e)
           | Inr qhosts \<Rightarrow>
               let hosts = (if qhosts = [] \<and> trim_space (dq_Host req) \<noteq> []
                            then [trim_space (dq_Host req)] else qhosts);
                   mode = policyModeForSandbox m sid in
               (case evaluateHosts policy mode hosts of
                  Inl (host, eval) \<Rightarrow>
                    (recordAccessEvent now m
                       (dns_event sid mode False 403 ''denied'' (reason_text eval) (host, eval)),
                     [], dns_error (''dns request denied: '' @ reason_text eval))
                | Inr evals \<Rightarrow>
                    (case query (dq_Network req) (dq_Payload req) of
                       Inl e \<Rightarrow>
                         (recordAll now m (map (dns_event sid mode True 502 ''upstream_error'' e) evals),
                          [dq_Payload req], dns_error e)
                     | Inr payload \<Rightarrow>
                         (case (if trafficModeForSandbox m sid = ''transparent''
                                then stripAAAARecords codec payload else ok payload) of
                            Inl e \<Rightarrow> (m, [dq_Payload req], dns_error e)
                          | Inr final \<Rightarrow>
                              (recordAll now m (map (dns_event sid mode True 200 ''allowed'' []) evals),
                               [dq_Payload req], \<lparr>dn_Payload = final, dn_Error = []\<rparr>))))))"

text \<open>\<open>leaf\<close> issues a certificate and key for a host, as the MITM authority does.\<close>

definition handleLeafCertRequest ::
  "(string \<Rightarrow> (string \<times> string) result) \<Rightarrow> ProxyManager \<Rightarrow> string \<Rightarrow> LeafCertResponse" where
  "handleLeafCertRequest leaf m host =
     (if \<not> mg_mitmEnabled m
      then \<lparr>lr_CertPEM = [], lr_KeyPEM = [], lr_Error = ''MITM CA is not configured''\<rparr>
      else case leaf host of
             Inl e \<Rightarrow> \<lparr>lr_CertPEM = [], lr_KeyPEM = [], lr_Error = e\<rparr>
           | Inr (cert, key) \<Rightarrow> \<lparr>lr_CertPEM = cert, lr_KeyPEM = key, lr_Error = []\<rparr>)"


subsection \<open>Reachable managers\<close>

text \<open>
  The operations that change a manager, as a step relation, and the states reachable from a
  new manager. The handlers change the manager only by recording events.
\<close>

inductive manager_step :: "ProxyManager \<Rightarrow> ProxyManager \<Rightarrow> bool" where
  step_register: "registerSandbox m sid p = Inr m' \<Longrightarrow> manager_step m m'"
| step_attach: "attachSandbox m sid sb = Inr m' \<Longrightarrow> manager_step m m'"
| step_unregister: "manager_step m (unregisterSandbox m sid)"
| step_record: "manager_step m (recordAccessEvent now m e)"
| step_name: "nextSandboxName m requested = (m', name) \<Longrightarrow> manager_step m m'"

inductive_cases manager_stepE: "manager_step m m'"

inductive manager_reachable :: "ProxyManager \<Rightarrow> ProxyManager \<Rightarrow> bool" for m0 where
  reach_start: "manager_reachable m0 m0"
| reach_step: "manager_reachable m0 m \<Longrightarrow> manager_step m m' \<Longrightarrow> manager_reachable m0 m'"

definition manager_inv :: "ProxyManager \<Rightarrow> bool" where
  "manager_inv m \<longleftrightarrow> registry_valid (mg_registry m) \<and> \<not> regHas (mg_registry m) [] \<and>
     (\<forall>sid. map_of (auditStateLocked (mg_audit m)) sid \<noteq> None \<longleftrightarrow> regHas (mg_registry m) sid)"

lemma audit_init:
  "map_of (auditStateLocked (initAuditStateLocked a sid)) k \<noteq> None \<longleftrightarrow>
   (k = sid \<and> sid \<noteq> []) \<or> map_of (auditStateLocked a) k \<noteq> None"
  by (auto simp: initAuditStateLocked_def auditStateLocked_def Let_def split: option.splits)

lemma audit_remove:
  "map_of (auditStateLocked (removeAuditStateLocked a sid)) k \<noteq> None \<longleftrightarrow>
   map_of (auditStateLocked a) k \<noteq> None \<and> (k \<noteq> sid \<or> sid = [])"
proof (cases a)
  case (Some st)
  have "map_of st k = None" if "gm_delete sid st = []" "k \<noteq> sid"
    using map_of_gm_delete[of sid st] that by (metis fun_upd_apply map_of.simps(1))
  then show ?thesis
    using Some by (auto simp: removeAuditStateLocked_def auditStateLocked_def Let_def)
qed (auto simp: removeAuditStateLocked_def auditStateLocked_def)

lemma audit_update:
  "ev_SandboxID e \<noteq> [] \<Longrightarrow> map_of (updateAuditStateLocked st e) k \<noteq> None \<longleftrightarrow>
   k = ev_SandboxID e \<or> map_of st k \<noteq> None"
  by (auto simp: updateAuditStateLocked_def Let_def)

lemma completeEvent_id [simp]: "ev_SandboxID (completeEvent now m e) = ev_SandboxID e"
  by (simp add: completeEvent_def Let_def)

lemma manager_inv_new: "manager_inv (newProxyManager p)"
  by (simp add: manager_inv_def newProxyManager_def registry_defs auditStateLocked_def)

lemma manager_inv_register:
  "manager_inv m \<Longrightarrow> registerSandbox m sid p = Inr m' \<Longrightarrow> manager_inv m'"
proof -
  assume inv: "manager_inv m" and r: "registerSandbox m sid p = Inr m'"
  from r obtain reg where reg: "regRegister (mg_registry m) sid p = Inr reg"
    and m': "m' = m\<lparr>mg_registry := reg, mg_audit := initAuditStateLocked (mg_audit m) sid\<rparr>"
    by (auto simp: registerSandbox_def split: sum.splits)
  have "sid \<noteq> []" using reg by (auto simp: regRegister_def split: if_splits)
  then show "manager_inv m'"
    using inv store.valid_register[OF _ reg] store.register_has[OF reg] audit_init[of "mg_audit m" sid]
    by (auto simp: manager_inv_def m')
qed

lemma manager_inv_unregister: "manager_inv m \<Longrightarrow> manager_inv (unregisterSandbox m sid)"
  using store.valid_unregister audit_remove[of "mg_audit m" sid]
  by (auto simp: manager_inv_def unregisterSandbox_def store.unregister_has)

lemma manager_inv_record: "manager_inv m \<Longrightarrow> manager_inv (recordAccessEvent now m e)"
proof -
  assume inv: "manager_inv m"
  let ?e = "completeEvent now m e"
  show "manager_inv (recordAccessEvent now m e)"
  proof (cases "ev_SandboxID e \<noteq> [] \<and> regHas (mg_registry m) (ev_SandboxID e)")
    case True
    then have "recordAccessEvent now m e =
        m\<lparr>mg_audit := Some (updateAuditStateLocked (auditStateLocked (mg_audit m)) ?e),
          mg_accessLog := mg_accessLog m @ [toAccessLogEntry ?e]\<rparr>"
      by (simp add: recordAccessEvent_def Let_def)
    then show ?thesis
      using inv True audit_update[of ?e "auditStateLocked (mg_audit m)"]
      by (auto simp: manager_inv_def auditStateLocked_def)
  next
    case False
    then show ?thesis using inv by (auto simp: recordAccessEvent_def Let_def)
  qed
qed

lemma manager_inv_step: "manager_step m m' \<Longrightarrow> manager_inv m \<Longrightarrow> manager_inv m'"
proof (induction rule: manager_step.induct)
  case (step_attach m sid sb m')
  then obtain reg where reg: "regAttach (mg_registry m) sid sb = Inr reg"
    and m': "m' = m\<lparr>mg_registry := reg\<rparr>" by (auto simp: attachSandbox_def split: sum.splits)
  with step_attach.prems show ?case
    using store.valid_attach[OF _ reg] store.attach_keeps[OF reg] by (simp add: manager_inv_def)
next
  case (step_name m requested m' name)
  then show ?case by (auto simp: nextSandboxName_def Let_def manager_inv_def split: if_splits)
qed (auto intro: manager_inv_register manager_inv_unregister manager_inv_record)

lemma manager_reachable_trans:
  "manager_reachable m0 m1 \<Longrightarrow> manager_reachable m1 m2 \<Longrightarrow> manager_reachable m0 m2"
proof (rotate_tac, induction rule: manager_reachable.induct)
  case (reach_step m m')
  then show ?case by (blast intro: manager_reachable.reach_step)
qed

lemma recordAll_reachable: "manager_reachable m (recordAll now m es)"
proof (induction es arbitrary: m)
  case Nil
  then show ?case by (simp add: recordAll_def reach_start)
next
  case (Cons e es)
  have "manager_reachable m (recordAccessEvent now m e)"
    by (meson reach_start reach_step step_record)
  moreover have "manager_reachable (recordAccessEvent now m e) (recordAll now m (e # es))"
    using Cons.IH[of "recordAccessEvent now m e"] by (simp add: recordAll_def)
  ultimately show ?case by (rule manager_reachable_trans)
qed

lemma recordAll_registry [simp]: "mg_registry (recordAll now m es) = mg_registry m"
  unfolding recordAll_def
  by (induction es arbitrary: m) (simp_all add: recordAccessEvent_def Let_def)

lemma policyMode_cases: "policyModeForSandbox m sid \<in> {''enforce'', ''audit''}"
  by (auto simp: policyModeForSandbox_def normalizedPolicyModeOrDefault_def normalizePolicyMode_def
      split: option.splits)

lemma evaluateHosts_Inr:
  "evaluateHosts policy mode hosts = Inr evals \<Longrightarrow>
   map fst evals = hosts \<and>
   (\<forall>(h, v) \<in> set evals. v = evaluateDNS policy h \<and> (mode = ''audit'' \<or> Allowed v))"
proof (induction hosts arbitrary: evals)
  case (Cons h hosts)
  then obtain es where es: "evaluateHosts policy mode hosts = Inr es"
      "evals = (h, evaluateDNS policy h) # es" "mode = ''audit'' \<or> Allowed (evaluateDNS policy h)"
    by (auto simp: Let_def split: if_splits sum.splits)
  then show ?case using Cons.IH[OF es(1)] by auto
qed simp

lemma evaluateHosts_Inl:
  "evaluateHosts policy mode hosts = Inl (h, v) \<Longrightarrow>
   h \<in> set hosts \<and> v = evaluateDNS policy h \<and> \<not> Allowed v \<and> mode \<noteq> ''audit''"
  by (induction policy mode hosts rule: evaluateHosts.induct)
    (auto simp: Let_def split: if_splits sum.splits)

subsection \<open>Properties\<close>


text \<open>
  Every handler keeps the registry unchanged and leaves the manager in a state reachable
  by recording events; for a sandbox that is not registered it answers with an error, sends
  nothing upstream and changes nothing.
\<close>

theorem handlers_frame:
  "manager_reachable m (fst (handleProxyRequest pu nr rt now m sid preq)) \<and>
   manager_reachable m (fst (handleMITMRequest nr rt now m sid mreq)) \<and>
   manager_reachable m (fst (handleConnectRequest now m sid creq)) \<and>
   manager_reachable m (fst (handleDNSRequest ps codec query now m sid dreq)) \<and>
   (case policyForSandbox m sid of Some _ \<Rightarrow> True | None \<Rightarrow>
    (fst (handleProxyRequest pu nr rt now m sid preq) = m \<and>
     fst (snd (handleProxyRequest pu nr rt now m sid preq)) = [] \<and>
     fst (handleMITMRequest nr rt now m sid mreq) = m \<and>
     fst (snd (handleMITMRequest nr rt now m sid mreq)) = [] \<and>
     handleConnectRequest now m sid creq =
       (m, \<lparr>cs_StatusCode = 502, cs_Message = [], cs_Error = not_registered sid\<rparr>) \<and>
     handleDNSRequest ps codec query now m sid dreq = (m, [], dns_error (not_registered sid))))"
proof -
  have one: "manager_reachable m (recordAccessEvent now m e)" for e
    by (meson reach_start reach_step step_record)
  have "manager_reachable m (fst (handleDNSRequest ps codec query now m sid dreq))"
    by (auto simp: handleDNSRequest_def Let_def recordAll_reachable one reach_start
        split: option.split sum.split)
  moreover have "manager_reachable m (fst (handleProxyRequest pu nr rt now m sid preq))"
      "manager_reachable m (fst (handleMITMRequest nr rt now m sid mreq))"
      "manager_reachable m (fst (handleConnectRequest now m sid creq))"
    by (simp_all add: handleProxyRequest_def handleMITMRequest_def handleConnectRequest_def Let_def
        recordAll_reachable reach_start split: option.split)
  ultimately show ?thesis
    by (auto simp: handleProxyRequest_def handleMITMRequest_def handleConnectRequest_def
        handleDNSRequest_def split: option.split)
qed


text \<open>
  A DNS query that names no host, such as a query for the root, sent without a host
  field, is forwarded whatever the policy says, and a successful answer leaves no event:
  the manager is unchanged.
\<close>

theorem dns_without_names_unchecked:
  assumes "policyForSandbox m sid = Some policy"
    and "dnsQuestionHosts ps (dq_Payload req) = Inr []" and "trim_space (dq_Host req) = []"
    and "query (dq_Network req) (dq_Payload req) = Inr answer"
    and "trafficModeForSandbox m sid \<noteq> ''transparent''"
  shows "handleDNSRequest ps codec query now m sid req =
    (m, [dq_Payload req], \<lparr>dn_Payload = answer, dn_Error = []\<rparr>)"
  using assms by (simp add: handleDNSRequest_def recordAll_def)

text \<open>
  A manager created from options has the compiled default policy as the policy of
  sandboxes registered without one, a mode that is enforce or audit, a positive request body
  limit, and a Docker policy; no sandbox is registered yet.
\<close>

theorem NewProxyManager_defaults:
  assumes "NewProxyManager re resolve new_ca opts = Inr m"
  shows "compilePolicy re (po_NetworkPolicy opts) = Inr (rg_defaultPolicy (mg_registry m)) \<and>
    mg_policyMode m \<in> {''enforce'', ''audit''} \<and> 0 < mg_requestBodyLimitBytes m \<and>
    0 \<le> mg_responseBodyLimitBytes m \<and> mg_dockerSocketPolicy m \<noteq> None \<and>
    mg_listenAddr m \<noteq> [] \<and> (\<forall>sid. \<not> regHas (mg_registry m) sid)"
proof -
  define listen where "listen = (if trim_space (po_ListenAddr opts) = [] then defaultProxyAddr
    else trim_space (po_ListenAddr opts))"
  from assms obtain policy docker mode where
    p: "compilePolicy re (po_NetworkPolicy opts) = Inr policy"
    and mode: "normalizePolicyMode (po_PolicyMode opts) = Inr mode"
    and m: "m = (newProxyManager policy)
               \<lparr>mg_listenAddr := listen,
                mg_requestBodyLimitBytes := effectiveRequestBodyLimit opts,
                mg_responseBodyLimitBytes := effectiveResponseBodyLimit opts,
                mg_policyMode := mode, mg_mitmEnabled := po_MITMEnabled opts,
                mg_dockerSocket := po_DockerSocket opts,
                mg_dockerSocketPolicy := Some docker\<rparr>"
    unfolding NewProxyManager_def res_bind_Inr Let_def listen_def[symmetric]
    by (auto split: if_split_asm option.split_asm)
  have "mode \<in> {''enforce'', ''audit''}"
    using mode by (auto simp: normalizePolicyMode_def split: if_splits)
  moreover have "listen \<noteq> []" by (simp add: listen_def defaultProxyAddr_def)
  ultimately show ?thesis
    unfolding m by (simp add: p newProxyManager_def newSandboxRegistry_def regHas_def
        effectiveRequestBodyLimit_def effectiveResponseBodyLimit_def)
qed

subsection \<open>Witnesses\<close>

definition example_dns_rule :: compiledPolicyRule where
  "example_dns_rule = example_rule\<lparr>httpMethods := []\<rparr>"

definition example_parser :: "string list \<Rightarrow> dns_parser" where
  "example_parser names = \<lparr>dp_start = (\<lambda>_. None), dp_questions = (\<lambda>_. Inr names)\<rparr>"

definition example_codec :: dns_codec where
  "example_codec = \<lparr>dc_unpack = (\<lambda>s. Inl s), dc_pack = (\<lambda>_. Inl [])\<rparr>"

definition example_manager :: ProxyManager where
  "example_manager = (newProxyManager [example_dns_rule])
     \<lparr>mg_registry := \<lparr>rg_defaultPolicy = [example_dns_rule], rg_sandboxes = [(''s'', None)],
                      rg_policies = [(''s'', [example_dns_rule])]\<rparr>,
      mg_audit := Some [(''s'', newSandboxAuditState)]\<rparr>"

definition example_dns_request :: DNSRequest where
  "example_dns_request = \<lparr>dq_Network = [], dq_Host = [], dq_Port = 53, dq_Payload = ''q''\<rparr>"

definition example_options :: ProxyOptions where
  "example_options =
     \<lparr>po_ListenAddr = [], po_MaxRequestBodyBytes = 0, po_MaxResponseBodyBytes = 0,
      po_NetworkPolicy = [], po_PolicyMode = [], po_MITMEnabled = False,
      po_DockerSocket = zero_docker_options\<rparr>"

lemma example_manager_registered:
  "registerSandbox (newProxyManager [example_dns_rule]) ''s'' None = Inr example_manager"
  by (simp add: registerSandbox_def newProxyManager_def registry_defs Let_def example_manager_def
      initAuditStateLocked_def auditStateLocked_def)



theorem dns_without_names_unchecked_witness:
  "handleDNSRequest (example_parser [''.'']) example_codec (\<lambda>_ _. Inr ''r'') 1
     example_manager ''s'' example_dns_request =
   (example_manager, [''q''], \<lparr>dn_Payload = ''r'', dn_Error = []\<rparr>)"
proof -
  have h: "policyForSandbox example_manager ''s'' = Some [example_dns_rule]"
    by (simp add: policyForSandbox_def regPolicy_def example_manager_def)
  have n: "dnsQuestionHosts (example_parser [''.'']) (dq_Payload example_dns_request) = Inr []"
      "trim_space (dq_Host example_dns_request) = []"
      "trafficModeForSandbox example_manager ''s'' \<noteq> ''transparent''"
    by code_simp+
  show ?thesis
    using dns_without_names_unchecked[OF h n(1,2), of "\<lambda>_ _. Inr ''r''" "''r''"] n(3)
    by (simp add: example_dns_request_def)
qed

theorem NewProxyManager_defaults_witness:
  "\<exists>m. NewProxyManager (\<lambda>s. Inr (\<lambda>t. s = t)) (\<lambda>_. None) None example_options = Inr m \<and>
     0 < mg_requestBodyLimitBytes m"
proof -
  have "is_ok (NewProxyManager (\<lambda>s. Inr (\<lambda>t. s = t)) (\<lambda>_. None) None example_options)"
    by (simp add: NewProxyManager_def example_options_def compilePolicy_def zero_docker_options_def
        compileDockerSocketPolicy_def normalizeDockerRuleAction_def normalizePolicyMode_def Let_def)
  then obtain m where
    m: "NewProxyManager (\<lambda>s. Inr (\<lambda>t. s = t)) (\<lambda>_. None) None example_options = Inr m"
    by (auto simp: is_ok_iff)
  from NewProxyManager_defaults[OF m] m show ?thesis by blast
qed

end
