(* ===== verification/Docker_Proxy.thy ===== *)
theory Docker_Proxy
  imports Manager
begin

section \<open>The Docker socket proxy: docker\_socket\_proxy.go\<close>

text \<open>
  The effective options of a sandbox's Docker socket and the handler that mediates every
  request on it. Parameters: \<open>tar_names\<close> and \<open>json\<close> as in the build inspection, \<open>new_request\<close>
  the error of building the outgoing request, and \<open>docker_do\<close> the Docker daemon behind the
  HTTP client. Writing to the sandbox's side of the connection is taken to succeed; copying
  an answer fails only when reading it does.
\<close>

record docker_out =
  dout_Method :: string
  dout_Path :: string
  dout_RawPath :: string
  dout_RawQuery :: string
  dout_Host :: string
  dout_Header :: http_header
  dout_Body :: "(string \<times> error option) option"

record docker_answer =
  da_StatusCode :: int
  da_Header :: http_header
  da_Body :: string

type_synonym docker_daemon = "docker_out \<Rightarrow> http_response result"

subsection \<open>Options\<close>

definition hasDockerSocketPolicyOverride :: "DockerSocketPolicy \<Rightarrow> bool" where
  "hasDockerSocketPolicyOverride p \<longleftrightarrow> dp_DefaultAction p \<noteq> [] \<or> length (dp_Rules p) > 0"

definition defaultDockerSocketPath :: string where
  "defaultDockerSocketPath = ''/var/run/docker.sock''"

definition mergeDockerSocketOptions ::
  "DockerSocketOptions \<Rightarrow> DockerSocketOptions \<Rightarrow> DockerSocketOptions" where
  "mergeDockerSocketOptions mgr opts =
     \<lparr>do_Enabled = (if do_Enabled opts then True else do_Enabled mgr),
      do_MountPath = (if trim_space (do_MountPath opts) \<noteq> [] then trim_space (do_MountPath opts)
                      else do_MountPath mgr),
      do_TargetSocketPath =
        (if trim_space (do_TargetSocketPath opts) \<noteq> [] then trim_space (do_TargetSocketPath opts)
         else do_TargetSocketPath mgr),
      do_Policy = (if hasDockerSocketPolicyOverride (do_Policy opts) then do_Policy opts
                   else do_Policy mgr)\<rparr>"

definition defaultDockerSocketPaths :: "DockerSocketOptions \<Rightarrow> DockerSocketOptions" where
  "defaultDockerSocketPaths eff =
     eff\<lparr>do_MountPath := (if trim_space (do_MountPath eff) = [] then defaultDockerSocketPath
                          else do_MountPath eff),
         do_TargetSocketPath :=
           (if trim_space (do_TargetSocketPath eff) = [] then defaultDockerSocketPath
            else do_TargetSocketPath eff)\<rparr>"

definition effectiveDockerSocketConfig ::
  "regexp_compile \<Rightarrow> ProxyManager \<Rightarrow> DockerSocketOptions \<Rightarrow>
   (DockerSocketOptions \<times> compiledDockerSocketPolicy) result" where
  "effectiveDockerSocketConfig re m opts =
     (let eff = mergeDockerSocketOptions (mg_dockerSocket m) opts in
      case (if hasDockerSocketPolicyOverride (do_Policy opts)
            then compileDockerSocketPolicy re (do_Policy opts)
            else case mg_dockerSocketPolicy m of
                   Some c \<Rightarrow> ok c
                 | None \<Rightarrow> compileDockerSocketPolicy re (do_Policy eff)) of
        Inl e \<Rightarrow> err e
      | Inr c \<Rightarrow>
          if \<not> do_Enabled eff then ok (eff, c)
          else ok (defaultDockerSocketPaths eff, c))"

fun sanitize_loop :: "bool \<Rightarrow> string \<Rightarrow> string" where
  "sanitize_loop lastDash [] = []"
| "sanitize_loop lastDash (c # s) =
     (if is_lower c \<or> is_upper c \<or> is_digit c \<or> c = CHR ''-'' \<or> c = CHR ''_'' \<or> c = CHR ''.''
      then c # sanitize_loop False s
      else if \<not> lastDash then CHR ''-'' # sanitize_loop True s
      else sanitize_loop lastDash s)"

definition sanitizeDockerSocketSandboxID :: "string \<Rightarrow> string" where
  "sanitizeDockerSocketSandboxID sid =
     (let trimmed = trim_space sid in
      if trimmed = [] then ''sandbox''
      else
        let sanitized = trim_cutset ''-_.'' (sanitize_loop False trimmed) in
        if sanitized = [] then ''sandbox''
        else if length sanitized > 48 then take 48 sanitized
        else sanitized)"

subsection \<open>Hop-by-hop headers\<close>

definition header_del :: "string \<Rightarrow> http_header \<Rightarrow> http_header" where
  "header_del k h = gm_delete (canonical_mime_header_key k) h"

definition header_values :: "http_header \<Rightarrow> string \<Rightarrow> string list" where
  "header_values h k = (case map_of h (canonical_mime_header_key k) of None \<Rightarrow> [] | Some vs \<Rightarrow> vs)"

definition connection_tokens :: "http_header \<Rightarrow> string list" where
  "connection_tokens h =
     filter (\<lambda>t. t \<noteq> [])
       (map trim_space (concat (map (split_on CHR '','') (header_values h ''Connection''))))"

definition hop_by_hop_names :: "string list" where
  "hop_by_hop_names =
     [''Connection'', ''Keep-Alive'', ''Proxy-Authenticate'', ''Proxy-Authorization'',
      ''Proxy-Connection'', ''TE'', ''Trailer'', ''Transfer-Encoding'', ''Upgrade'']"

definition stripHopByHopHeaders :: "http_header \<Rightarrow> http_header" where
  "stripHopByHopHeaders h =
     fold header_del hop_by_hop_names
       (fold (\<lambda>t. header_del (canonical_mime_header_key t)) (connection_tokens h) h)"

subsection \<open>Operations and events\<close>

definition isPhase1DockerOperationSupported :: "DockerOperation \<Rightarrow> bool" where
  "isPhase1DockerOperationSupported op \<longleftrightarrow>
     normalizeDockerOperation op \<in> {''image_pull'', ''image_inspect'', ''build''}"

definition requiresDockerSocketRequestInspection :: "DockerOperation \<Rightarrow> bool" where
  "requiresDockerSocketRequestInspection op \<longleftrightarrow> normalizeDockerOperation op = ''build''"

definition dockerSocketEventWithPolicy ::
  "accessEvent \<Rightarrow> PolicyMode \<Rightarrow> bool \<Rightarrow> string \<Rightarrow> accessEvent" where
  "dockerSocketEventWithPolicy e mode allowed reason =
     (let e = e\<lparr>ev_PolicyMode := normalizedPolicyModeOrDefault mode, ev_PolicyAllowed := allowed\<rparr> in
      if \<not> allowed \<and> trim_space reason \<noteq> [] then e\<lparr>ev_PolicyViolations := [reason]\<rparr> else e)"

definition writeDockerSocketDenied ::
  "int \<Rightarrow> ProxyManager \<Rightarrow> accessEvent \<Rightarrow> int \<Rightarrow> ProxyManager \<times> docker_out list \<times> docker_answer" where
  "writeDockerSocketDenied now m e0 statusCode =
     (let e = (if ev_StatusCode e0 = 0 then e0\<lparr>ev_StatusCode := statusCode\<rparr> else e0);
          e = e\<lparr>ev_Allowed := False, ev_Result := ''denied''\<rparr>;
          e = (if ev_Error e = [] \<and> ev_PolicyViolations e \<noteq> []
               then e\<lparr>ev_Error := hd (ev_PolicyViolations e)\<rparr> else e) in
      (recordAccessEvent now m e, [],
       \<lparr>da_StatusCode = statusCode, da_Header = text_header,
        da_Body = ''docker request denied: '' @ ev_Error e @ [CHR 0x0A]\<rparr>))"

definition writeDockerSocketUpstreamResponse :: "http_response \<Rightarrow> docker_answer \<times> error option" where
  "writeDockerSocketUpstreamResponse resp =
     (let (data, e) = (case hp_Body resp of None \<Rightarrow> ([], None) | Some b \<Rightarrow> b) in
      (\<lparr>da_StatusCode = hp_StatusCode resp, da_Header = stripHopByHopHeaders (hp_Header resp),
        da_Body = data\<rparr>, e))"

text \<open>\<^verbatim>\<open>http.Error\<close> with status 502.\<close>

definition docker_bad_gateway :: "string \<Rightarrow> docker_answer" where
  "docker_bad_gateway e = \<lparr>da_StatusCode = 502, da_Header = text_header, da_Body = e @ [CHR 0x0A]\<rparr>"

subsection \<open>The handler\<close>

definition docker_base_event :: "string \<Rightarrow> dockerHTTPRequest \<Rightarrow> accessEvent" where
  "docker_base_event sid req =
     zero_event\<lparr>ev_SandboxID := sid, ev_Kind := ''docker_socket'',
       ev_Method := to_upper (trim_space (hr_Method req)),
       ev_Path := dm_Path (mapDockerRequest (hr_Method req) (hr_Path req)),
       ev_Host := ''docker'', ev_Port := 0\<rparr>"

text \<open>The second half of the handler: the request has a policy decision or audit lets it by.\<close>

definition forwardDockerRequest ::
  "(docker_out \<Rightarrow> error option) \<Rightarrow> docker_daemon \<Rightarrow> int \<Rightarrow> ProxyManager \<Rightarrow> accessEvent \<Rightarrow>
   dockerHTTPRequest \<Rightarrow> (string \<times> error option) option \<Rightarrow>
   ProxyManager \<times> docker_out list \<times> docker_answer" where
  "forwardDockerRequest new_request docker_do now m event req outBody =
     (let out = \<lparr>dout_Method = effective_method (hr_Method req), dout_Path = hr_Path req,
                 dout_RawPath = hr_RawPath req, dout_RawQuery = hr_RawQuery req,
                 dout_Host = hr_Host req, dout_Header = stripHopByHopHeaders (hr_Header req),
                 dout_Body = outBody\<rparr> in
      case new_request out of
        Some e \<Rightarrow> (recordAccessEvent now m (upstream_error_event event e), [], docker_bad_gateway e)
      | None \<Rightarrow>
          (case docker_do out of
             Inl e \<Rightarrow> (recordAccessEvent now m (upstream_error_event event e), [out],
                       docker_bad_gateway e)
           | Inr resp \<Rightarrow>
               let answered = event\<lparr>ev_StatusCode := hp_StatusCode resp\<rparr>;
                   (answer, e) = writeDockerSocketUpstreamResponse resp in
               (case e of
                  Some msg \<Rightarrow> (recordAccessEvent now m (upstream_error_event answered msg), [out], answer)
                | None \<Rightarrow>
                    (recordAccessEvent now m (answered\<lparr>ev_Allowed := True, ev_Result := ''allowed'',
                                                       ev_Error := []\<rparr>), [out], answer))))"

definition serveDockerSocketProxy ::
  "tar_reader \<Rightarrow> json_array \<Rightarrow> (docker_out \<Rightarrow> error option) \<Rightarrow> docker_daemon \<Rightarrow> int \<Rightarrow>
   ProxyManager \<Rightarrow> string \<Rightarrow> compiledDockerSocketPolicy option \<Rightarrow> dockerHTTPRequest \<Rightarrow>
   ProxyManager \<times> docker_out list \<times> docker_answer" where
  "serveDockerSocketProxy tar_names json new_request docker_do now m sid policy req =
     (let meta = mapDockerRequest (hr_Method req) (hr_Path req);
          mode = policyModeForSandbox m sid;
          event = docker_base_event sid req;
          deny = (\<lambda>reason. writeDockerSocketDenied now m
                            (dockerSocketEventWithPolicy event mode False reason)) in
      if dm_Operation meta = ''unknown''
      then deny (''docker endpoint '' @ go_quote (dm_Path meta) @ '' is not supported'') 403
      else if \<not> isPhase1DockerOperationSupported (dm_Operation meta)
      then deny (''docker operation '' @ go_quote (dm_Operation meta) @ '' is not supported in phase 1'') 403
      else
        let inspectBody = requiresDockerSocketRequestInspection (dm_Operation meta) in
        case (if inspectBody then readBoundedResponse (hr_Body req) (mg_requestBodyLimitBytes m)
              else ok ([], False)) of
          Inl e \<Rightarrow> deny (''read docker request body: '' @ e) 403
        | Inr (body, tooLarge) \<Rightarrow>
            if tooLarge then deny ''docker request body exceeds inspection limit'' 413
            else
              let outBody = (if inspectBody then Some (body, None) else hr_Body req) in
              case (if dm_Operation meta = ''build''
                    then (case inspectDockerBuildRequest tar_names json (Some req) body of
                            Inl e \<Rightarrow> err e | Inr b \<Rightarrow> ok (Some b))
                    else ok None) of
                Inl e \<Rightarrow> deny e 403
              | Inr buildReq \<Rightarrow>
                  let decision = dockerEvaluate policy
                        \<lparr>ds_Method = dm_Method meta, ds_Path = dm_Path meta,
                         ds_Operation = dm_Operation meta, ds_Build = buildReq\<rparr>;
                      policyAllowed = (decision = ''allow'');
                      event = dockerSocketEventWithPolicy event mode policyAllowed
                        (''docker operation '' @ go_quote (dm_Operation meta) @
                         '' is not allowed by policy'') in
                  if \<not> policyAllowed \<and> mode \<noteq> ''audit''
                  then writeDockerSocketDenied now m event 403
                  else forwardDockerRequest new_request docker_do now m event req outBody)"


subsection \<open>Lemmas\<close>

lemma fold_header_del:
  "map_of (fold header_del ks h) k =
   (if k \<in> canonical_mime_header_key ` set ks then None else map_of h k)"
  by (induction ks arbitrary: h) (auto simp: header_del_def)

lemma token_lower: "is_token_char (lower_char c) = is_token_char c"
proof (cases "is_upper c")
  case True
  then have "is_lower (lower_char c)" by (simp add: is_lower_def is_upper_def ord_lower_char)
  with True show ?thesis by (simp add: is_token_char_def)
qed (simp add: lower_char_def)

lemma token_upper: "is_token_char (upper_char c) = is_token_char c"
proof (cases "is_lower c")
  case True
  then have "is_upper (upper_char c)"
    by (auto simp: is_lower_def is_upper_def ord_upper_char)
  with True show ?thesis by (simp add: is_token_char_def)
qed (simp add: upper_char_def)

lemma canonical_from_token:
  "list_all is_token_char (canonical_from b s) = list_all is_token_char s"
  by (induction b s rule: canonical_from.induct) (simp_all add: Let_def token_lower token_upper)

lemma canonical_from_Nil: "canonical_from b s = [] \<longleftrightarrow> s = []"
  by (cases s) (simp_all add: Let_def)

lemma canonical_idem [simp]:
  "canonical_mime_header_key (canonical_mime_header_key s) = canonical_mime_header_key s"
  by (simp add: canonical_mime_header_key_def canonical_from_idem canonical_from_token
      canonical_from_Nil)

lemma stripHopByHopHeaders_lookup:
  "map_of (stripHopByHopHeaders h) k =
   (if k \<in> canonical_mime_header_key ` (set hop_by_hop_names \<union> set (connection_tokens h))
    then None else map_of h k)"
proof -
  have "map_of (fold (\<lambda>t. header_del (canonical_mime_header_key t)) ts h0) j =
      (if j \<in> canonical_mime_header_key ` set ts then None else map_of h0 j)" for ts h0 j
    by (induction ts arbitrary: h0) (auto simp: header_del_def)
  then show ?thesis
    by (auto simp: stripHopByHopHeaders_def fold_header_del)
qed

definition safe_id_char :: "char \<Rightarrow> bool" where
  "safe_id_char c \<longleftrightarrow> is_lower c \<or> is_upper c \<or> is_digit c \<or> c \<in> set ''-_.''"

lemma sanitize_loop_safe: "c \<in> set (sanitize_loop b s) \<Longrightarrow> safe_id_char c"
  by (induction b s rule: sanitize_loop.induct)
    (auto simp: safe_id_char_def split: if_splits)

lemma trim_cutset_ends:
  assumes "trim_cutset cs s \<noteq> []"
  shows "hd (trim_cutset cs s) \<notin> set cs \<and> set (trim_cutset cs s) \<subseteq> set s"
proof -
  let ?l = "dropWhile (\<lambda>c. c \<in> set cs) s"
  have sub: "set (trim_cutset cs s) \<subseteq> set s"
    using trim_right_by_set[of _ ?l] set_dropWhileD[of _ "\<lambda>c. c \<in> set cs" s]
    unfolding trim_cutset_def trim_left_by_def by blast
  have ne: "?l \<noteq> []"
  proof
    assume "?l = []"
    then show False
      using assms by (simp only: trim_cutset_def trim_left_by_def trim_right_by_Nil)
  qed
  then have "hd ?l \<notin> set cs" using hd_dropWhile[OF ne] by simp
  moreover obtain x xs where "?l = x # xs" using ne by (cases ?l) auto
  then have "hd (trim_cutset cs s) = hd ?l"
    using assms trim_right_by_hd[of "\<lambda>c. c \<in> set cs" x xs]
    by (simp add: trim_cutset_def trim_left_by_def)
  ultimately show ?thesis using sub by simp
qed

text \<open>What the handler may send to the daemon.\<close>

definition docker_gate ::
  "tar_reader \<Rightarrow> json_array \<Rightarrow> ProxyManager \<Rightarrow> string \<Rightarrow> compiledDockerSocketPolicy option \<Rightarrow>
   dockerHTTPRequest \<Rightarrow> docker_out \<Rightarrow> bool" where
  "docker_gate tar_names json m sid policy req out \<longleftrightarrow>
     (let meta = mapDockerRequest (hr_Method req) (hr_Path req) in
      \<exists>build. dm_Operation meta \<in> {''image_pull'', ''image_inspect'', ''build''} \<and>
        (dockerEvaluate policy
           \<lparr>ds_Method = dm_Method meta, ds_Path = dm_Path meta, ds_Operation = dm_Operation meta,
            ds_Build = build\<rparr> = ''allow'' \<or> policyModeForSandbox m sid = ''audit'') \<and>
        dout_Path out = hr_Path req \<and> dout_Header out = stripHopByHopHeaders (hr_Header req) \<and>
        (if dm_Operation meta = ''build''
         then \<exists>body b. build = Some b \<and> dout_Body out = Some (body, None) \<and>
                inspectDockerBuildRequest tar_names json (Some req) body = Inr b \<and>
                readBoundedResponse (hr_Body req) (mg_requestBodyLimitBytes m) = Inr (body, False)
         else build = None \<and> dout_Body out = hr_Body req))"

definition docker_sends :: "(docker_out \<Rightarrow> bool) \<Rightarrow> 'm \<times> docker_out list \<times> docker_answer \<Rightarrow> bool" where
  "docker_sends P r \<longleftrightarrow> length (fst (snd r)) \<le> 1 \<and> (\<forall>out \<in> set (fst (snd r)). P out)"

lemma denied_sends: "holds (docker_sends P) (writeDockerSocketDenied now m e c)"
  by (simp add: writeDockerSocketDenied_def Let_def docker_sends_def holds_def)

lemma forward_sends:
  assumes "\<And>out. dout_Path out = hr_Path req \<Longrightarrow> dout_Body out = b \<Longrightarrow>
    dout_Header out = stripHopByHopHeaders (hr_Header req) \<Longrightarrow> P out"
  shows "holds (docker_sends P) (forwardDockerRequest nr dd now m ev req b)"
  unfolding forwardDockerRequest_def
  by (intro holds_intros) (simp_all add: docker_sends_def holds_def assms)

lemma mapped_operation_cases:
  "dm_Operation (mapDockerRequest m path) \<in>
   {''image_pull'', ''image_inspect'', ''build'', ''exec_create'', ''exec_start'', ''archive_read'',
    ''unknown''}"
  by (simp add: mapDockerRequest_def Let_def)

lemma phase1_iff:
  assumes "op \<in> {''image_pull'', ''image_inspect'', ''build'', ''exec_create'', ''exec_start'',
    ''archive_read'', ''unknown''}"
  shows "isPhase1DockerOperationSupported op \<longleftrightarrow> op \<in> {''image_pull'', ''image_inspect'', ''build''}"
    and "requiresDockerSocketRequestInspection op \<longleftrightarrow> op = ''build''"
proof -
  have "normalizeDockerOperation x = x" if "x \<in> {''image_pull'', ''image_inspect'', ''build'',
      ''exec_create'', ''exec_start'', ''archive_read'', ''unknown''}" for x
    using that by (auto simp: normalizeDockerOperation_def trim_space_def trim_left_by_def
        trim_right_by_def is_space_def to_lower_def lower_char_def is_upper_def)
  from this[OF assms]
  show "isPhase1DockerOperationSupported op \<longleftrightarrow> op \<in> {''image_pull'', ''image_inspect'', ''build''}"
    "requiresDockerSocketRequestInspection op \<longleftrightarrow> op = ''build''"
    by (simp_all add: isPhase1DockerOperationSupported_def requiresDockerSocketRequestInspection_def)
qed

lemma serve_sends:
  "holds (docker_sends (docker_gate tn js m sid policy req))
     (serveDockerSocketProxy tn js nr dd now m sid policy req)"
proof -
  note ops = phase1_iff[OF mapped_operation_cases[of "hr_Method req" "hr_Path req"]]
  show ?thesis
    unfolding serveDockerSocketProxy_def
    apply (intro holds_intros)
          apply (simp_all only: denied_sends)
    apply (rule forward_sends)
    apply (auto simp: docker_gate_def ops Let_def split: if_splits sum.splits)
    done
qed


lemma record_log:
  "ev_SandboxID e \<noteq> [] \<Longrightarrow> regHas (mg_registry m) (ev_SandboxID e) \<Longrightarrow>
   mg_accessLog (recordAccessEvent now m e) =
     mg_accessLog m @ [toAccessLogEntry (completeEvent now m e)]"
  by (simp add: recordAccessEvent_def Let_def)

lemma logged_outcome [simp]:
  "le_Allowed (toAccessLogEntry (completeEvent now m e)) = ev_Allowed e"
  "le_PolicyAllowed (toAccessLogEntry (completeEvent now m e)) = ev_PolicyAllowed e"
  by (simp_all add: toAccessLogEntry_def completeEvent_def Let_def)

definition logs_one :: "ProxyManager \<Rightarrow> ProxyManager \<times> docker_out list \<times> docker_answer \<Rightarrow> bool" where
  "logs_one m r \<longleftrightarrow>
     (\<exists>entry. mg_accessLog (fst r) = mg_accessLog m @ [entry] \<and>
        (fst (snd r) \<noteq> [] \<longrightarrow> le_Allowed entry) \<and>
        (le_Allowed entry \<longrightarrow> le_PolicyAllowed entry \<or>
           policyModeForSandbox m (le_SandboxID entry) = ''audit'') \<and>
        (\<not> le_Allowed entry \<longrightarrow> da_StatusCode (snd (snd r)) \<in> {403, 413}))"

lemma docker_event_sel [simp]:
  "ev_SandboxID (dockerSocketEventWithPolicy e mode al reason) = ev_SandboxID e"
  "ev_PolicyAllowed (dockerSocketEventWithPolicy e mode al reason) = al"
  "ev_Allowed (dockerSocketEventWithPolicy e mode al reason) = ev_Allowed e"
  by (simp_all add: dockerSocketEventWithPolicy_def Let_def)

lemma docker_base_sel [simp]: "ev_SandboxID (docker_base_event sid req) = sid"
  by (simp add: docker_base_event_def)

lemma logged_id [simp]: "le_SandboxID (toAccessLogEntry (completeEvent now m e)) = ev_SandboxID e"
  by (simp add: toAccessLogEntry_def completeEvent_def Let_def)

lemma denied_logs:
  assumes "ev_SandboxID e \<noteq> []" "regHas (mg_registry m) (ev_SandboxID e)" "c \<in> {403, 413}"
  shows "holds (logs_one m) (writeDockerSocketDenied now m e c)"
  using assms by (auto simp: writeDockerSocketDenied_def Let_def logs_one_def holds_def record_log)

lemma forward_logs:
  assumes "ev_SandboxID e \<noteq> []" "regHas (mg_registry m) (ev_SandboxID e)"
    and "ev_PolicyAllowed e \<or> policyModeForSandbox m (ev_SandboxID e) = ''audit''"
  shows "holds (logs_one m) (forwardDockerRequest nr dd now m e req b)"
  unfolding forwardDockerRequest_def
  by (intro holds_intros)
    (use assms in \<open>simp_all add: logs_one_def holds_def record_log upstream_error_event_def\<close>)

lemma serve_logs:
  assumes "sid \<noteq> []" and "regHas (mg_registry m) sid"
  shows "holds (logs_one m) (serveDockerSocketProxy tn js nr dd now m sid policy req)"
  unfolding serveDockerSocketProxy_def
  apply (intro holds_intros)
        apply (simp_all only: denied_logs docker_event_sel docker_base_sel assms not_False_eq_True
      insertI1 insertI2)
  apply (rule forward_logs)
    apply (use assms in auto)
  done

subsection \<open>Properties\<close>


text \<open>
  Every request served for a registered sandbox adds exactly one entry to the access
  log. An entry is marked allowed whenever something was sent to the daemon, and only if the
  policy allowed the request or the sandbox is in audit mode; otherwise the answer is 403 or
  413.
\<close>

theorem docker_request_logged:
  assumes "sid \<noteq> []" and "regHas (mg_registry m) sid"
  shows "\<exists>entry. mg_accessLog (fst (serveDockerSocketProxy tn js nr dd now m sid policy req)) =
      mg_accessLog m @ [entry] \<and>
    (fst (snd (serveDockerSocketProxy tn js nr dd now m sid policy req)) \<noteq> [] \<longrightarrow> le_Allowed entry) \<and>
    (le_Allowed entry \<longrightarrow> le_PolicyAllowed entry \<or>
       policyModeForSandbox m (le_SandboxID entry) = ''audit'') \<and>
    (\<not> le_Allowed entry \<longrightarrow>
       da_StatusCode (snd (snd (serveDockerSocketProxy tn js nr dd now m sid policy req))) \<in> {403, 413})"
  using serve_logs[OF assms, of tn js nr dd now policy req]
  unfolding holds_def logs_one_def .

text \<open>
  Removing hop-by-hop headers removes exactly the fixed names and the names listed in the
  Connection header, and keeps the values of every other header.
\<close>

theorem stripHopByHopHeaders_spec:
  "map_of (stripHopByHopHeaders h) k =
   (if k \<in> canonical_mime_header_key ` (set hop_by_hop_names \<union> set (connection_tokens h))
    then None else map_of h k)"
  by (rule stripHopByHopHeaders_lookup)

text \<open>
  The sanitised sandbox id is non-empty, at most 48 bytes long, consists of letters,
  digits, dashes, underscores and dots, and does not start with a dot, so it is a single
  file name element that is neither hidden nor a parent reference.
\<close>

theorem sanitizeDockerSocketSandboxID_safe:
  "sanitizeDockerSocketSandboxID sid \<noteq> [] \<and> length (sanitizeDockerSocketSandboxID sid) \<le> 48 \<and>
   list_all safe_id_char (sanitizeDockerSocketSandboxID sid) \<and>
   hd (sanitizeDockerSocketSandboxID sid) \<notin> {CHR ''-'', CHR ''_'', CHR ''.''}"
proof (cases "trim_space sid = [] \<or> trim_cutset ''-_.'' (sanitize_loop False (trim_space sid)) = []")
  case True
  then have "sanitizeDockerSocketSandboxID sid = ''sandbox''"
    by (auto simp: sanitizeDockerSocketSandboxID_def Let_def)
  then show ?thesis by (simp add: safe_id_char_def is_lower_def)
next
  case False
  let ?t = "trim_cutset ''-_.'' (sanitize_loop False (trim_space sid))"
  have t: "hd ?t \<notin> set ''-_.''" "set ?t \<subseteq> set (sanitize_loop False (trim_space sid))"
    using False trim_cutset_ends[of "''-_.''" "sanitize_loop False (trim_space sid)"] by auto
  have safe: "list_all safe_id_char ?t"
    using t(2) sanitize_loop_safe by (auto simp: list_all_iff)
  have eq: "sanitizeDockerSocketSandboxID sid = (if length ?t > 48 then take 48 ?t else ?t)"
    using False by (simp add: sanitizeDockerSocketSandboxID_def Let_def)
  have "list_all safe_id_char (take 48 ?t)"
    using safe by (auto simp: list_all_iff dest: in_set_takeD)
  moreover have "hd (take 48 ?t) = hd ?t" using False by (cases ?t) auto
  ultimately show ?thesis using safe t(1) False unfolding eq by auto
qed

text \<open>
  The effective Docker configuration of a sandbox: mediation is enabled when the manager
  or the sandbox enables it, a policy of the sandbox replaces the manager's, and an enabled
  configuration always has a mount path and a target socket.
\<close>

theorem effectiveDockerSocketConfig_spec:
  assumes "effectiveDockerSocketConfig re m opts = Inr (eff, c)"
  shows "do_Enabled eff = (do_Enabled (mg_dockerSocket m) \<or> do_Enabled opts) \<and>
    (if hasDockerSocketPolicyOverride (do_Policy opts)
     then compileDockerSocketPolicy re (do_Policy opts) = Inr c
     else case mg_dockerSocketPolicy m of
            Some d \<Rightarrow> c = d
          | None \<Rightarrow> compileDockerSocketPolicy re (do_Policy (mg_dockerSocket m)) = Inr c) \<and>
    (do_Enabled eff \<longrightarrow> trim_space (do_MountPath eff) \<noteq> [] \<and> trim_space (do_TargetSocketPath eff) \<noteq> [])"
proof -
  have path: "trim_space defaultDockerSocketPath \<noteq> []"
    by (simp add: defaultDockerSocketPath_def trim_space_def trim_left_by_def trim_right_by_def
        is_space_def)
  show ?thesis
    using assms path
    by (cases "hasDockerSocketPolicyOverride (do_Policy opts)")
      (auto simp: effectiveDockerSocketConfig_def mergeDockerSocketOptions_def
        defaultDockerSocketPaths_def Let_def split: sum.splits option.splits if_split_asm)
qed

subsection \<open>Witnesses\<close>

definition example_daemon :: docker_daemon where
  "example_daemon out = Inr \<lparr>hp_StatusCode = 200, hp_Header = [], hp_Body = None\<rparr>"

definition example_allow_all :: compiledDockerSocketPolicy where
  "example_allow_all = \<lparr>cp_defaultAction = ''allow'', cp_rules = []\<rparr>"

definition example_pull_http :: dockerHTTPRequest where
  "example_pull_http = example_build_http\<lparr>hr_Path := ''/images/create'', hr_Header := []\<rparr>"


theorem docker_request_logged_witness:
  "\<exists>entry. mg_accessLog (fst (serveDockerSocketProxy (\<lambda>b. Inr [b]) (\<lambda>_. Inr 0) (\<lambda>_. None)
     example_daemon 1 example_manager ''s'' None example_build_http)) = [entry]"
proof -
  have "mg_accessLog example_manager = []" "regHas (mg_registry example_manager) ''s''"
    by (simp_all add: example_manager_def newProxyManager_def regHas_def)
  with docker_request_logged[of "''s''" example_manager "\<lambda>b. Inr [b]" "\<lambda>_. Inr 0" "\<lambda>_. None"
      example_daemon 1 None example_build_http]
  show ?thesis by auto
qed

theorem effectiveDockerSocketConfig_spec_witness:
  "\<exists>eff c. effectiveDockerSocketConfig (\<lambda>s. Inr (\<lambda>t. s = t)) example_manager
     (zero_docker_options\<lparr>do_Enabled := True\<rparr>) = Inr (eff, c) \<and> do_Enabled eff"
proof -
  let ?o = "zero_docker_options\<lparr>do_Enabled := True\<rparr>"
  have "is_ok (effectiveDockerSocketConfig (\<lambda>s. Inr (\<lambda>t. s = t)) example_manager ?o)"
    by (simp add: effectiveDockerSocketConfig_def mergeDockerSocketOptions_def zero_docker_options_def example_manager_def
        newProxyManager_def hasDockerSocketPolicyOverride_def compileDockerSocketPolicy_def
        normalizeDockerRuleAction_def Let_def)
  then obtain eff c where
    e: "effectiveDockerSocketConfig (\<lambda>s. Inr (\<lambda>t. s = t)) example_manager ?o = Inr (eff, c)"
    by (auto simp: is_ok_iff)
  from effectiveDockerSocketConfig_spec[OF e] e show ?thesis by simp
qed

end
