(* ===== verification/Seccomp_Profile.thy ===== *)
theory Seccomp_Profile
  imports Go_Strings "HOL-Library.Word"
begin

section \<open>Seccomp profiles: seccomp.go\<close>

text \<open>
  The hardening profile of a sandbox: options, their validation, the built-in rules and the
  compilation into a filter. libseccomp is a parameter: \<open>ls_AddRule\<close> stands for \<^verbatim>\<open>AddRule\<close> (no
  conditions) and \<^verbatim>\<open>AddRuleConditional\<close>, \<open>ls_ExportBPF\<close> for the program text that \<^verbatim>\<open>ExportBPF\<close>
  writes. The files of a program are events, so that leaks show.
\<close>

unbundle bit_operations_syntax

subsection \<open>Options\<close>

record SeccompCondition =
  sc_Argument :: nat
  sc_Operation :: string
  sc_Value :: "64 word"
  sc_Mask :: "64 word"

record SeccompRule =
  sr_Syscall :: string
  sr_Action :: string
  sr_Errno :: int
  sr_Conditions :: "SeccompCondition list"

record SeccompOptions =
  so_Disabled :: bool
  so_Profile :: string
  so_Rules :: "SeccompRule list"

record normalizedSeccompOptions =
  no_disabled :: bool
  no_profile :: string
  no_rules :: "SeccompRule list"

record seccompRuleSpec =
  rs_rule :: SeccompRule
  rs_optional :: bool

definition isZeroSeccompOptions :: "SeccompOptions \<Rightarrow> bool" where
  "isZeroSeccompOptions opts \<longleftrightarrow> \<not> so_Disabled opts \<and> so_Profile opts = [] \<and> so_Rules opts = []"

text \<open>\<open>docker_build\<close> is \<^verbatim>\<open>opts.DockerBuild.Enabled\<close>.\<close>

definition effectiveSeccompOptions :: "bool \<Rightarrow> SeccompOptions \<Rightarrow> SeccompOptions" where
  "effectiveSeccompOptions docker_build opts =
     (if docker_build \<and> isZeroSeccompOptions opts
      then \<lparr>so_Disabled = True, so_Profile = [], so_Rules = []\<rparr> else opts)"

definition DenySyscall :: "string \<Rightarrow> SeccompRule" where
  "DenySyscall name = \<lparr>sr_Syscall = name, sr_Action = ''errno'', sr_Errno = 1, sr_Conditions = []\<rparr>"

definition normalizeSeccompOptions :: "SeccompOptions \<Rightarrow> normalizedSeccompOptions" where
  "normalizeSeccompOptions opts =
     (let n = \<lparr>no_disabled = so_Disabled opts, no_profile = so_Profile opts, no_rules = so_Rules opts\<rparr> in
      if no_disabled n then n
      else if no_profile n = [] then n\<lparr>no_profile := ''baseline''\<rparr> else n)"

definition normalizeSeccompAction :: "string \<Rightarrow> string" where
  "normalizeSeccompAction action =
     (if trim_space action = [] then ''errno'' else to_lower (trim_space action))"

definition normalizeSeccompCompareOp :: "string \<Rightarrow> string" where
  "normalizeSeccompCompareOp oper = to_lower (trim_space oper)"

definition compare_ops :: "string list" where
  "compare_ops = [''ne'', ''lt'', ''le'', ''eq'', ''ge'', ''gt'', ''masked-eq'']"

definition validateSeccompCondition :: "SeccompRule \<Rightarrow> SeccompCondition \<Rightarrow> string option" where
  "validateSeccompCondition rule c =
     (if sc_Argument c > 5
      then Some (''sandbox seccomp rule for '' @ go_quote (sr_Syscall rule) @
        '' uses invalid argument index '' @ itoa (int (sc_Argument c)))
      else if normalizeSeccompCompareOp (sc_Operation c) \<notin> set compare_ops
      then Some (''sandbox seccomp compare op '' @ go_quote (sc_Operation c) @ '' is not supported'')
      else if normalizeSeccompCompareOp (sc_Operation c) = ''masked-eq'' \<and> sc_Mask c = 0
      then Some (''sandbox seccomp masked-eq rule for '' @ go_quote (sr_Syscall rule) @
        '' requires a non-zero mask'')
      else None)"

text \<open>A loop over checks that returns the first error.\<close>

fun first_error :: "('a \<Rightarrow> string option) \<Rightarrow> 'a list \<Rightarrow> string option" where
  "first_error check [] = None"
| "first_error check (x # xs) = (case check x of Some e \<Rightarrow> Some e | None \<Rightarrow> first_error check xs)"

definition validateSeccompRule :: "SeccompRule \<Rightarrow> string option" where
  "validateSeccompRule rule =
     (if trim_space (sr_Syscall rule) = [] then Some ''sandbox seccomp rule syscall is required''
      else if normalizeSeccompAction (sr_Action rule) \<notin> {''errno'', ''trap'', ''kill-process''}
      then Some (''sandbox seccomp action '' @ go_quote (sr_Action rule) @ '' is not supported'')
      else if normalizeSeccompAction (sr_Action rule) \<noteq> ''errno'' \<and> sr_Errno rule \<noteq> 0
      then Some (''sandbox seccomp rule for '' @ go_quote (sr_Syscall rule) @ '' sets errno without errno action'')
      else if sr_Errno rule < 0 \<or> sr_Errno rule > 0x7fff
      then Some (''sandbox seccomp errno for '' @ go_quote (sr_Syscall rule) @ '' must be between 0 and 32767'')
      else first_error (validateSeccompCondition rule) (sr_Conditions rule))"

definition validateSeccompOptions :: "SeccompOptions \<Rightarrow> string option" where
  "validateSeccompOptions opts =
     (let normalized = normalizeSeccompOptions opts in
      if no_disabled normalized then None
      else if no_profile normalized \<notin> {''baseline'', ''restricted'', ''custom''}
      then Some (''sandbox seccomp profile '' @ go_quote (so_Profile opts) @ '' is not supported'')
      else first_error validateSeccompRule (no_rules normalized))"

subsection \<open>Built-in rules\<close>

definition denyRequiredSyscall :: "string \<Rightarrow> seccompRuleSpec" where
  "denyRequiredSyscall name = \<lparr>rs_rule = DenySyscall name, rs_optional = False\<rparr>"

definition denyOptionalSyscall :: "string \<Rightarrow> seccompRuleSpec" where
  "denyOptionalSyscall name = \<lparr>rs_rule = DenySyscall name, rs_optional = True\<rparr>"

definition denyOptionalSyscallErrno :: "string \<Rightarrow> int \<Rightarrow> seccompRuleSpec" where
  "denyOptionalSyscallErrno name errno =
     \<lparr>rs_rule = \<lparr>sr_Syscall = name, sr_Action = ''errno'', sr_Errno = errno, sr_Conditions = []\<rparr>,
      rs_optional = True\<rparr>"

text \<open>A rule of the tables with one condition: action and errno are the zero values.\<close>

definition conditional_spec :: "string \<Rightarrow> SeccompCondition \<Rightarrow> seccompRuleSpec" where
  "conditional_spec name c =
     \<lparr>rs_rule = \<lparr>sr_Syscall = name, sr_Action = [], sr_Errno = 0, sr_Conditions = [c]\<rparr>, rs_optional = False\<rparr>"

abbreviation (input) TIOCSTI :: "64 word" where "TIOCSTI \<equiv> 0x5412"
abbreviation (input) PR_SET_SECCOMP :: "64 word" where "PR_SET_SECCOMP \<equiv> 22"

definition namespaceCloneFlags :: "64 word list" where
  "namespaceCloneFlags =
     [0x02000000, 0x08000000, 0x40000000, 0x00020000, 0x20000000, 0x00000080, 0x10000000, 0x04000000]"

definition baselineSeccompRuleSpecs :: "seccompRuleSpec list" where
  "baselineSeccompRuleSpecs =
     [conditional_spec ''ioctl''
        \<lparr>sc_Argument = 1, sc_Operation = ''eq'', sc_Value = TIOCSTI, sc_Mask = 0\<rparr>] @
     map denyRequiredSyscall
       [''mount'', ''umount2'', ''pivot_root'', ''unshare'', ''setns'', ''bpf'', ''ioperm'', ''iopl'',
        ''reboot'', ''swapon'', ''swapoff'', ''syslog'', ''add_key'', ''request_key'', ''keyctl''] @
     map denyOptionalSyscall
       [''open_by_handle_at'', ''name_to_handle_at'', ''move_mount'', ''open_tree'', ''fsopen'',
        ''fsconfig'', ''fsmount'', ''fspick'', ''mount_setattr'', ''perf_event_open'', ''userfaultfd'',
        ''fanotify_init'', ''init_module'', ''finit_module'', ''delete_module'', ''kexec_load'',
        ''kexec_file_load''] @
     [denyRequiredSyscall ''ptrace''] @
     map denyOptionalSyscall [''process_vm_readv'', ''process_vm_writev'', ''kcmp'', ''pidfd_getfd''] @
     [denyOptionalSyscallErrno ''clone3'' 38] @
     map (\<lambda>flag. conditional_spec ''clone''
       \<lparr>sc_Argument = 0, sc_Operation = ''masked-eq'', sc_Value = flag, sc_Mask = flag\<rparr>) namespaceCloneFlags"

definition restrictedSeccompRuleSpecs :: "seccompRuleSpec list" where
  "restrictedSeccompRuleSpecs =
     [denyRequiredSyscall ''seccomp'',
      conditional_spec ''prctl''
        \<lparr>sc_Argument = 0, sc_Operation = ''eq'', sc_Value = PR_SET_SECCOMP, sc_Mask = 0\<rparr>]"

definition seccompProfileRules :: "string \<Rightarrow> seccompRuleSpec list" where
  "seccompProfileRules profile =
     (if profile = ''baseline'' then baselineSeccompRuleSpecs
      else if profile = ''restricted'' then baselineSeccompRuleSpecs @ restrictedSeccompRuleSpecs
      else [])"

subsection \<open>Compilation\<close>

datatype ScmpAction = ActAllow | ActErrno int | ActTrap | ActKillProcess | ActNotify

datatype ScmpCompareOp =
  CompareNotEqual | CompareLess | CompareLessOrEqual | CompareEqual | CompareGreaterEqual
| CompareGreater | CompareMaskedEqual

record ScmpCondition =
  cd_Argument :: nat
  cd_Op :: ScmpCompareOp
  cd_Operand1 :: "64 word"
  cd_Operand2 :: "64 word"

record 'f libseccomp =
  ls_NewFilter :: "'f result"
  ls_GetSyscallFromName :: "string \<Rightarrow> int result"
  ls_MakeCondition :: "nat \<Rightarrow> ScmpCompareOp \<Rightarrow> 64 word list \<Rightarrow> ScmpCondition result"
  ls_AddRule :: "'f \<Rightarrow> int \<Rightarrow> ScmpAction \<Rightarrow> ScmpCondition list \<Rightarrow> 'f result"
  ls_ExportBPF :: "'f \<Rightarrow> 8 word list result"

text \<open>\<^verbatim>\<open>int16(errno)\<close> wraps around.\<close>

definition seccompActionForRule :: "SeccompRule \<Rightarrow> ScmpAction result" where
  "seccompActionForRule rule =
     (let action = normalizeSeccompAction (sr_Action rule) in
      if action = ''errno''
      then Inr (ActErrno (sint (word_of_int (if sr_Errno rule = 0 then 1 else sr_Errno rule) :: 16 word)))
      else if action = ''trap'' then Inr ActTrap
      else if action = ''kill-process'' then Inr ActKillProcess
      else Inl (''sandbox seccomp action '' @ go_quote (sr_Action rule) @ '' is not supported''))"

definition seccompCompareOpForCondition :: "string \<Rightarrow> ScmpCompareOp result" where
  "seccompCompareOpForCondition oper =
     (let n = normalizeSeccompCompareOp oper in
      if n = ''ne'' then Inr CompareNotEqual
      else if n = ''lt'' then Inr CompareLess
      else if n = ''le'' then Inr CompareLessOrEqual
      else if n = ''eq'' then Inr CompareEqual
      else if n = ''ge'' then Inr CompareGreaterEqual
      else if n = ''gt'' then Inr CompareGreater
      else if n = ''masked-eq'' then Inr CompareMaskedEqual
      else Inl (''sandbox seccomp compare op '' @ go_quote oper @ '' is not supported''))"

definition compileCondition :: "'f libseccomp \<Rightarrow> SeccompRule \<Rightarrow> SeccompCondition \<Rightarrow> ScmpCondition result" where
  "compileCondition lib rule c =
     (case seccompCompareOpForCondition (sc_Operation c) of
        Inl e \<Rightarrow> Inl e
      | Inr oper \<Rightarrow>
          map_error (\<lambda>e. ''build seccomp condition for '' @ go_quote (sr_Syscall rule) @ '': '' @ e)
            (ls_MakeCondition lib (sc_Argument c) oper
               (if oper = CompareMaskedEqual then [sc_Mask c, sc_Value c] else [sc_Value c])))"

definition seccompConditionsForRule :: "'f libseccomp \<Rightarrow> SeccompRule \<Rightarrow> ScmpCondition list result" where
  "seccompConditionsForRule lib rule = map_result (compileCondition lib rule) (sr_Conditions rule)"

definition addSeccompRule :: "'f libseccomp \<Rightarrow> seccompRuleSpec \<Rightarrow> 'f \<Rightarrow> 'f result" where
  "addSeccompRule lib spec f =
     (let rule = rs_rule spec in
      case ls_GetSyscallFromName lib (trim_space (sr_Syscall rule)) of
        Inl e \<Rightarrow> if rs_optional spec then Inr f
                 else Inl (''resolve seccomp syscall '' @ go_quote (sr_Syscall rule) @ '': '' @ e)
      | Inr call \<Rightarrow>
          (case seccompActionForRule rule of
             Inl e \<Rightarrow> Inl e
           | Inr action \<Rightarrow>
               (case seccompConditionsForRule lib rule of
                  Inl e \<Rightarrow> Inl e
                | Inr conditions \<Rightarrow>
                    map_error (\<lambda>e. (if conditions = [] then ''add seccomp rule for ''
                                    else ''add seccomp conditional rule for '') @
                                   go_quote (sr_Syscall rule) @ '': '' @ e)
                      (ls_AddRule lib f call action conditions))))"

fun addSeccompRules :: "'f libseccomp \<Rightarrow> seccompRuleSpec list \<Rightarrow> 'f \<Rightarrow> 'f result" where
  "addSeccompRules lib [] f = Inr f"
| "addSeccompRules lib (spec # specs) f =
     (case addSeccompRule lib spec f of Inl e \<Rightarrow> Inl e | Inr f \<Rightarrow> addSeccompRules lib specs f)"

subsection \<open>Program files\<close>

datatype program_file = Memfd int | TempFile string

datatype file_event = FileOpened program_file | FileClosed program_file | PathRemoved string

text \<open>
  The calls on files: \<^verbatim>\<open>memfd_create\<close> (its errno with the text), \<^verbatim>\<open>os.CreateTemp\<close>, the two calls of
  \<^verbatim>\<open>Seek\<close> and \<^verbatim>\<open>io.ReadAll\<close>.
\<close>

record program_calls =
  pc_memfd :: "int \<times> string + int"
  pc_temp :: "string result"
  pc_seek :: "string option"
  pc_rewind :: "string option"
  pc_read :: "string option"

record preparedSeccompProgram =
  pp_file :: program_file
  pp_bytes :: "8 word list"

fun cleanup_events :: "program_file \<Rightarrow> file_event list" where
  "cleanup_events (Memfd fd) = []"
| "cleanup_events (TempFile path) = [PathRemoved path]"

definition closeProgram :: "program_file \<Rightarrow> file_event list" where
  "closeProgram file = FileClosed file # cleanup_events file"

text \<open>\<^verbatim>\<open>ENOSYS\<close> is 38, \<^verbatim>\<open>EINVAL\<close> is 22; a descriptor number below zero has no file handle.\<close>

definition newSeccompProgramFile :: "program_calls \<Rightarrow> program_file result" where
  "newSeccompProgramFile calls =
     (case pc_memfd calls of
        Inr fd \<Rightarrow> if fd < 0 then Inl ''create seccomp memfd handle'' else Inr (Memfd fd)
      | Inl (errno, e) \<Rightarrow>
          if errno \<noteq> 38 \<and> errno \<noteq> 22 then Inl (''create seccomp memfd: '' @ e)
          else case pc_temp calls of
                 Inl t \<Rightarrow> Inl (''create seccomp temp file: '' @ t)
               | Inr path \<Rightarrow> Inr (TempFile path))"

definition prepareSeccompProgram ::
  "'f libseccomp \<Rightarrow> program_calls \<Rightarrow> SeccompOptions \<Rightarrow>
   (preparedSeccompProgram option) result \<times> file_event list" where
  "prepareSeccompProgram lib calls opts =
     (let normalized = normalizeSeccompOptions opts in
      if no_disabled normalized then (Inr None, [])
      else case validateSeccompOptions opts of
        Some e \<Rightarrow> (Inl e, [])
      | None \<Rightarrow>
          (case ls_NewFilter lib of
             Inl e \<Rightarrow> (Inl (''create seccomp filter: '' @ e), [])
           | Inr f \<Rightarrow>
               (case addSeccompRules lib
                       (seccompProfileRules (no_profile normalized) @
                        map (\<lambda>rule. \<lparr>rs_rule = rule, rs_optional = False\<rparr>) (no_rules normalized)) f of
                  Inl e \<Rightarrow> (Inl e, [])
                | Inr f \<Rightarrow>
                    (case newSeccompProgramFile calls of
                       Inl e \<Rightarrow> (Inl e, [])
                     | Inr file \<Rightarrow>
                         (case ls_ExportBPF lib f of
                            Inl e \<Rightarrow> (Inl (''export seccomp program: '' @ e), FileOpened file # closeProgram file)
                          | Inr program \<Rightarrow>
                              (case pc_seek calls of
                                 Some e \<Rightarrow> (Inl (''rewind seccomp program: '' @ e),
                                            FileOpened file # closeProgram file)
                               | None \<Rightarrow> (Inr (Some \<lparr>pp_file = file, pp_bytes = program\<rparr>),
                                          [FileOpened file])))))))"

definition compileSeccompProgram ::
  "'f libseccomp \<Rightarrow> program_calls \<Rightarrow> SeccompOptions \<Rightarrow> (8 word list) result \<times> file_event list" where
  "compileSeccompProgram lib calls opts =
     (case prepareSeccompProgram lib calls opts of
        (Inl e, ev) \<Rightarrow> (Inl e, ev)
      | (Inr None, ev) \<Rightarrow> (Inr [], ev)
      | (Inr (Some p), ev) \<Rightarrow>
          (case pc_rewind calls of
             Some e \<Rightarrow> (Inl (''rewind seccomp program: '' @ e), ev @ closeProgram (pp_file p))
           | None \<Rightarrow>
               (case pc_read calls of
                  Some e \<Rightarrow> (Inl (''read seccomp program: '' @ e), ev @ closeProgram (pp_file p))
                | None \<Rightarrow> (Inr (pp_bytes p), ev @ closeProgram (pp_file p)))))"

subsection \<open>What a program does\<close>

text \<open>
  The documented behaviour of libseccomp and the kernel: a filter has the rules that were added;
  conditions compare an argument as an unsigned 64-bit number; a program takes the action of a
  rule that matches the call, and the default action when none does. \<open>rules\<close> observes a filter,
  \<open>decide\<close> is a program run by the kernel.
\<close>

type_synonym scmp_rule = "int \<times> ScmpAction \<times> ScmpCondition list"

fun compare_holds :: "ScmpCompareOp \<Rightarrow> 64 word \<Rightarrow> 64 word \<Rightarrow> 64 word \<Rightarrow> bool" where
  "compare_holds CompareNotEqual a x y \<longleftrightarrow> a \<noteq> x"
| "compare_holds CompareLess a x y \<longleftrightarrow> a < x"
| "compare_holds CompareLessOrEqual a x y \<longleftrightarrow> a \<le> x"
| "compare_holds CompareEqual a x y \<longleftrightarrow> a = x"
| "compare_holds CompareGreaterEqual a x y \<longleftrightarrow> a \<ge> x"
| "compare_holds CompareGreater a x y \<longleftrightarrow> a > x"
| "compare_holds CompareMaskedEqual a x y \<longleftrightarrow> a AND x = y"

definition scmp_matches :: "scmp_rule \<Rightarrow> int \<Rightarrow> (nat \<Rightarrow> 64 word) \<Rightarrow> bool" where
  "scmp_matches r nr args \<longleftrightarrow> (case r of (call, action, conds) \<Rightarrow> call = nr \<and>
     (\<forall>c \<in> set conds. compare_holds (cd_Op c) (args (cd_Argument c)) (cd_Operand1 c) (cd_Operand2 c)))"

definition seccomp_laws ::
  "'f libseccomp \<Rightarrow> ('f \<Rightarrow> scmp_rule list) \<Rightarrow>
   (8 word list \<Rightarrow> int \<Rightarrow> (nat \<Rightarrow> 64 word) \<Rightarrow> ScmpAction) \<Rightarrow> bool" where
  "seccomp_laws lib rules decide \<longleftrightarrow>
     (\<forall>f. ls_NewFilter lib = Inr f \<longrightarrow> rules f = []) \<and>
     (\<forall>f call action conds f'. ls_AddRule lib f call action conds = Inr f' \<longrightarrow>
        rules f' = rules f @ [(call, action, conds)]) \<and>
     (\<forall>arg oper vs c. ls_MakeCondition lib arg oper vs = Inr c \<longrightarrow>
        c = \<lparr>cd_Argument = arg, cd_Op = oper, cd_Operand1 = vs ! 0,
             cd_Operand2 = (if oper = CompareMaskedEqual then vs ! 1 else 0)\<rparr>) \<and>
     (\<forall>f program nr args. ls_ExportBPF lib f = Inr program \<longrightarrow>
        (if \<exists>r \<in> set (rules f). scmp_matches r nr args
         then \<exists>r \<in> set (rules f). scmp_matches r nr args \<and> decide program nr args = fst (snd r)
         else decide program nr args = ActAllow))"

lemma seccomp_lawsD:
  assumes "seccomp_laws lib rules decide"
  shows "ls_NewFilter lib = Inr f \<Longrightarrow> rules f = []"
    and "ls_AddRule lib f call action conds = Inr f' \<Longrightarrow> rules f' = rules f @ [(call, action, conds)]"
    and "ls_MakeCondition lib arg oper vs = Inr c \<Longrightarrow>
      c = \<lparr>cd_Argument = arg, cd_Op = oper, cd_Operand1 = vs ! 0,
           cd_Operand2 = (if oper = CompareMaskedEqual then vs ! 1 else 0)\<rparr>"
    and "ls_ExportBPF lib f = Inr program \<Longrightarrow>
      (if \<exists>r \<in> set (rules f). scmp_matches r nr args
       then \<exists>r \<in> set (rules f). scmp_matches r nr args \<and> decide program nr args = fst (snd r)
       else decide program nr args = ActAllow)"
  using assms unfolding seccomp_laws_def by blast+

text \<open>The specification: when a rule of the options matches a call.\<close>

definition condition_holds :: "SeccompCondition \<Rightarrow> (nat \<Rightarrow> 64 word) \<Rightarrow> bool" where
  "condition_holds c args \<longleftrightarrow>
     (let a = args (sc_Argument c); n = normalizeSeccompCompareOp (sc_Operation c) in
      if n = ''ne'' then a \<noteq> sc_Value c
      else if n = ''lt'' then a < sc_Value c
      else if n = ''le'' then a \<le> sc_Value c
      else if n = ''eq'' then a = sc_Value c
      else if n = ''ge'' then a \<ge> sc_Value c
      else if n = ''gt'' then a > sc_Value c
      else a AND sc_Mask c = sc_Value c)"

definition spec_matches ::
  "'f libseccomp \<Rightarrow> seccompRuleSpec \<Rightarrow> int \<Rightarrow> (nat \<Rightarrow> 64 word) \<Rightarrow> bool" where
  "spec_matches lib spec nr args \<longleftrightarrow>
     ls_GetSyscallFromName lib (trim_space (sr_Syscall (rs_rule spec))) = Inr nr \<and>
     (\<forall>c \<in> set (sr_Conditions (rs_rule spec)). condition_holds c args)"

definition effective_specs :: "SeccompOptions \<Rightarrow> seccompRuleSpec list" where
  "effective_specs opts =
     seccompProfileRules (no_profile (normalizeSeccompOptions opts)) @
     map (\<lambda>rule. \<lparr>rs_rule = rule, rs_optional = False\<rparr>) (so_Rules opts)"

lemma compileCondition_holds:
  assumes laws: "seccomp_laws lib rules decide" and "compileCondition lib rule c = Inr d"
  shows "compare_holds (cd_Op d) (args (cd_Argument d)) (cd_Operand1 d) (cd_Operand2 d) \<longleftrightarrow>
    condition_holds c args"
  using assms(2)
  by (auto simp: compileCondition_def seccompCompareOpForCondition_def condition_holds_def Let_def
      split: sum.splits if_splits dest!: seccomp_lawsD(3)[OF laws])

lemma addSeccompRule_rules:
  assumes laws: "seccomp_laws lib rules decide" and "addSeccompRule lib spec f = Inr f'"
  shows "(\<exists>r \<in> set (rules f'). scmp_matches r nr args) \<longleftrightarrow>
      (\<exists>r \<in> set (rules f). scmp_matches r nr args) \<or> spec_matches lib spec nr args"
    and "ActAllow \<notin> (fst \<circ> snd) ` set (rules f) \<Longrightarrow> ActAllow \<notin> (fst \<circ> snd) ` set (rules f')"
proof -
  have conds: "scmp_matches (call, action, ds) nr args \<longleftrightarrow>
      call = nr \<and> (\<forall>c \<in> set (sr_Conditions (rs_rule spec)). condition_holds c args)"
    if "seccompConditionsForRule lib (rs_rule spec) = Inr ds" for ds call action
  proof -
    have "(\<forall>d \<in> set ds. compare_holds (cd_Op d) (args (cd_Argument d)) (cd_Operand1 d) (cd_Operand2 d)) \<longleftrightarrow>
        (\<forall>c \<in> set (sr_Conditions (rs_rule spec)). condition_holds c args)"
      using that compileCondition_holds[OF laws, of "rs_rule spec"]
      unfolding seccompConditionsForRule_def map_result_Inr_iff
      by (induction rule: list_all2_induct) auto
    then show ?thesis by (simp add: scmp_matches_def)
  qed
  show "(\<exists>r \<in> set (rules f'). scmp_matches r nr args) \<longleftrightarrow>
      (\<exists>r \<in> set (rules f). scmp_matches r nr args) \<or> spec_matches lib spec nr args"
    using assms(2)
    by (auto simp: addSeccompRule_def Let_def spec_matches_def conds
        split: sum.splits if_splits dest!: seccomp_lawsD(2)[OF laws])
  show "ActAllow \<notin> (fst \<circ> snd) ` set (rules f) \<Longrightarrow> ActAllow \<notin> (fst \<circ> snd) ` set (rules f')"
    using assms(2)
    by (auto simp: addSeccompRule_def Let_def seccompActionForRule_def
        split: sum.splits if_splits dest!: seccomp_lawsD(2)[OF laws])
qed

lemma addSeccompRules_rules:
  assumes laws: "seccomp_laws lib rules decide"
  shows "addSeccompRules lib specs f = Inr f' \<Longrightarrow> ActAllow \<notin> (fst \<circ> snd) ` set (rules f) \<Longrightarrow>
    ActAllow \<notin> (fst \<circ> snd) ` set (rules f') \<and>
    ((\<exists>r \<in> set (rules f'). scmp_matches r nr args) \<longleftrightarrow>
      (\<exists>r \<in> set (rules f). scmp_matches r nr args) \<or> (\<exists>spec \<in> set specs. spec_matches lib spec nr args))"
proof (induction specs arbitrary: f)
  case (Cons spec specs)
  from Cons.prems(1) obtain f1 where f1: "addSeccompRule lib spec f = Inr f1"
    "addSeccompRules lib specs f1 = Inr f'" by (auto split: sum.splits)
  note step = addSeccompRule_rules[OF laws f1(1)]
  from Cons.IH[OF f1(2) step(2)[OF Cons.prems(2)]] show ?case by (auto simp: step(1))
qed simp

lemma no_rules_normalize: "no_rules (normalizeSeccompOptions opts) = so_Rules opts"
  by (simp add: normalizeSeccompOptions_def Let_def)

lemma prepared_program_decides:
  assumes laws: "seccomp_laws lib rules decide"
    and run: "prepareSeccompProgram lib calls opts = (Inr (Some program), events)"
  shows "decide (pp_bytes program) nr args \<noteq> ActAllow \<longleftrightarrow>
    (\<exists>spec \<in> set (effective_specs opts). spec_matches lib spec nr args)"
proof -
  obtain f0 f where f: "ls_NewFilter lib = Inr f0" "addSeccompRules lib (effective_specs opts) f0 = Inr f"
    "ls_ExportBPF lib f = Inr (pp_bytes program)"
    using run by (auto simp: prepareSeccompProgram_def Let_def effective_specs_def no_rules_normalize
        split: if_splits option.splits sum.splits)
  have r0: "rules f0 = []" using seccomp_lawsD(1)[OF laws f(1)] .
  have "ActAllow \<notin> (fst \<circ> snd) ` set (rules f)"
    and "(\<exists>r \<in> set (rules f). scmp_matches r nr args) \<longleftrightarrow>
      (\<exists>spec \<in> set (effective_specs opts). spec_matches lib spec nr args)"
    using addSeccompRules_rules[OF laws f(2), of nr args] by (simp_all add: r0)
  moreover note seccomp_lawsD(4)[OF laws f(3), of nr args]
  ultimately show ?thesis by (force split: if_splits)
qed

text \<open>
  C10. A compiled program stops a call exactly when a rule of the selected profile or of the user
  names the call and all its conditions hold; every other call is allowed.
\<close>

theorem seccomp_program_refines:
  assumes "seccomp_laws lib rules decide"
    and "prepareSeccompProgram lib calls opts = (Inr (Some program), events)"
  shows "decide (pp_bytes program) nr args \<noteq> ActAllow \<longleftrightarrow>
    (\<exists>spec \<in> set (effective_specs opts). spec_matches lib spec nr args)"
  using prepared_program_decides[OF assms] .

subsection \<open>What the profiles guarantee\<close>

lemma baseline_specs_effective:
  assumes "\<not> so_Disabled opts" and "so_Profile opts \<in> {[], ''baseline'', ''restricted''}"
  shows "set baselineSeccompRuleSpecs \<subseteq> set (effective_specs opts)"
  using assms by (auto simp: effective_specs_def normalizeSeccompOptions_def seccompProfileRules_def Let_def)

text \<open>A call with one of several single-bit flags set matches the rule of one of them.\<close>

lemma and_flag_cases:
  fixes a :: "64 word"
  assumes "a AND foldr (OR) flags 0 \<noteq> 0" and "\<And>flag. flag \<in> set flags \<Longrightarrow> \<exists>n < 64. flag = push_bit n 1"
  shows "\<exists>flag \<in> set flags. a AND flag = flag"
proof -
  obtain i where i: "bit a i" "bit (foldr (OR) flags 0) i"
    using assms(1) by (auto simp: bit_eq_iff bit_and_iff)
  then obtain flag where flag: "flag \<in> set flags" "bit flag i"
    by (induction flags) (auto simp: bit_or_iff)
  from assms(2)[OF flag(1)] obtain n where n: "flag = push_bit n 1" by blast
  have "a AND flag = flag"
  proof (rule bit_eqI)
    show "bit (a AND flag) m = bit flag m" for m
      using i(1) flag(2) by (auto simp: n bit_and_iff bit_exp_iff push_bit_eq_mult)
  qed
  with flag(1) show ?thesis by blast
qed

lemma namespace_flags_single:
  assumes "flag \<in> set namespaceCloneFlags"
  shows "\<exists>n < 64. flag = push_bit n 1"
proof -
  have eq: "namespaceCloneFlags = map (\<lambda>n. push_bit n 1) [25, 27, 30, 17, 29, 7, 28, 26]"
    by (simp add: namespaceCloneFlags_def push_bit_eq_mult)
  have "flag \<in> (\<lambda>n. push_bit n 1) ` set [25, 27, 30, 17, 29, 7, 28, 26 :: nat]"
    using assms unfolding eq set_map .
  then obtain n where n: "flag = push_bit n 1" "n \<in> set [25, 27, 30, 17, 29, 7, 28, 26 :: nat]"
    by (rule imageE)
  from n(2) have "n < 64" by auto
  with n(1) show ?thesis by blast
qed

text \<open>
  C11. With the default, baseline or restricted profile no user rule reopens what the baseline
  closes: the denied calls are stopped with any arguments, \<^verbatim>\<open>clone\<close> is stopped whenever one of the
  eight namespace flags is set, and \<^verbatim>\<open>ioctl\<close> with the command \<^verbatim>\<open>TIOCSTI\<close>.
\<close>

theorem baseline_always_enforced:
  assumes "seccomp_laws lib rules decide"
    and "prepareSeccompProgram lib calls opts = (Inr (Some program), events)"
    and "so_Profile opts \<in> {[], ''baseline'', ''restricted''}"
  shows "(spec \<in> set baselineSeccompRuleSpecs \<and> sr_Conditions (rs_rule spec) = [] \<and>
      ls_GetSyscallFromName lib (trim_space (sr_Syscall (rs_rule spec))) = Inr nr \<longrightarrow>
      decide (pp_bytes program) nr args \<noteq> ActAllow) \<and>
    (ls_GetSyscallFromName lib ''clone'' = Inr nr \<and> args 0 AND foldr (OR) namespaceCloneFlags 0 \<noteq> 0 \<longrightarrow>
      decide (pp_bytes program) nr args \<noteq> ActAllow) \<and>
    (ls_GetSyscallFromName lib ''ioctl'' = Inr nr \<and> args 1 = TIOCSTI \<longrightarrow>
      decide (pp_bytes program) nr args \<noteq> ActAllow)"
proof -
  have "\<not> so_Disabled opts"
    using assms(2) by (auto simp: prepareSeccompProgram_def normalizeSeccompOptions_def Let_def split: if_splits)
  note specs = baseline_specs_effective[OF this assms(3)]
  have stop: "decide (pp_bytes program) nr args \<noteq> ActAllow"
    if "spec \<in> set baselineSeccompRuleSpecs" "spec_matches lib spec nr args" for spec
  proof -
    have "\<exists>spec \<in> set (effective_specs opts). spec_matches lib spec nr args" using that specs by blast
    then show ?thesis unfolding prepared_program_decides[OF assms(1,2)] .
  qed
  have trim: "trim_space ''clone'' = ''clone''" "trim_space ''ioctl'' = ''ioctl''"
    "normalizeSeccompCompareOp ''eq'' = ''eq''" "normalizeSeccompCompareOp ''masked-eq'' = ''masked-eq''"
    by code_simp+
  have clone: "decide (pp_bytes program) nr args \<noteq> ActAllow"
    if nr: "ls_GetSyscallFromName lib ''clone'' = Inr nr" and bits: "args 0 AND foldr (OR) namespaceCloneFlags 0 \<noteq> 0"
  proof -
    obtain flag where flag: "flag \<in> set namespaceCloneFlags" "args 0 AND flag = flag"
      using and_flag_cases[OF bits namespace_flags_single] by blast
    let ?spec = "conditional_spec ''clone''
      \<lparr>sc_Argument = 0, sc_Operation = ''masked-eq'', sc_Value = flag, sc_Mask = flag\<rparr>"
    have "?spec \<in> set baselineSeccompRuleSpecs"
      using flag(1) unfolding baselineSeccompRuleSpecs_def set_append set_map by blast
    moreover have "spec_matches lib ?spec nr args"
      using flag(2) nr by (simp add: spec_matches_def conditional_spec_def condition_holds_def trim)
    ultimately show ?thesis by (rule stop)
  qed
  have ioctl: "decide (pp_bytes program) nr args \<noteq> ActAllow"
    if "ls_GetSyscallFromName lib ''ioctl'' = Inr nr" and "args 1 = TIOCSTI"
    using that
    by (intro stop[of "conditional_spec ''ioctl''
        \<lparr>sc_Argument = 1, sc_Operation = ''eq'', sc_Value = TIOCSTI, sc_Mask = 0\<rparr>"])
      (simp_all add: baselineSeccompRuleSpecs_def spec_matches_def conditional_spec_def condition_holds_def trim)
  show ?thesis using stop[of spec] clone ioctl by (auto simp: spec_matches_def)
qed

lemma first_error_None: "first_error check xs = None \<longleftrightarrow> (\<forall>x \<in> set xs. check x = None)"
  by (induction xs) (auto split: option.splits)

text \<open>
  Validation is complete: every rule of accepted options has an action that stops the call, with
  an errno between 1 and 32767 that survives the conversion to 16 bits, and every condition has a
  comparison and an argument that the compiler supports.
\<close>

theorem validated_rules_compile:
  assumes "validateSeccompOptions opts = None" and "\<not> so_Disabled opts" and "rule \<in> set (so_Rules opts)"
  shows "\<exists>action. seccompActionForRule rule = Inr action \<and> action \<noteq> ActAllow \<and>
    (\<forall>e. action = ActErrno e \<longrightarrow> 1 \<le> e \<and> e \<le> 32767 \<and> (e = sr_Errno rule \<or> sr_Errno rule = 0 \<and> e = 1)) \<and>
    (\<forall>c \<in> set (sr_Conditions rule). sc_Argument c \<le> 5 \<and> is_ok (seccompCompareOpForCondition (sc_Operation c)))"
proof -
  have ok: "validateSeccompRule rule = None"
    using assms by (auto simp: validateSeccompOptions_def Let_def no_rules_normalize first_error_None
        normalizeSeccompOptions_def split: if_splits)
  have conds: "sc_Argument c \<le> 5 \<and> is_ok (seccompCompareOpForCondition (sc_Operation c))"
    if "c \<in> set (sr_Conditions rule)" for c
    using ok that
    by (auto simp: validateSeccompRule_def first_error_None validateSeccompCondition_def compare_ops_def
        seccompCompareOpForCondition_def split: if_splits)
  have sint: "sint (word_of_int n :: 16 word) = n" if "0 \<le> n" "n \<le> 32767" for n
    using that by (simp add: signed_of_int take_bit_int_eq_self signed_take_bit_int_eq_self)
  from ok have "normalizeSeccompAction (sr_Action rule) \<in> {''errno'', ''trap'', ''kill-process''}"
    "0 \<le> sr_Errno rule" "sr_Errno rule \<le> 32767"
    by (auto simp: validateSeccompRule_def split: if_splits)
  then show ?thesis using conds sint[of "sr_Errno rule"] sint[of 1]
    by (auto simp: seccompActionForRule_def Let_def)
qed

text \<open>
  The baseline compares all 64 bits of the command of \<^verbatim>\<open>ioctl\<close>, of which the kernel reads the
  lower 32: a program without user rules allows the command \<open>0x100005412\<close>, which the kernel
  executes as \<^verbatim>\<open>TIOCSTI\<close>.
\<close>

theorem tiocsti_with_high_bits_allowed:
  assumes "seccomp_laws lib rules decide"
    and "prepareSeccompProgram lib calls opts = (Inr (Some program), events)"
    and "so_Rules opts = []" and "ls_GetSyscallFromName lib ''ioctl'' = Inr nr"
    and "\<And>name. ls_GetSyscallFromName lib name = Inr nr \<Longrightarrow> name = ''ioctl''"
    and "args 1 = 0x100005412"
  shows "decide (pp_bytes program) nr args = ActAllow \<and> (ucast (args 1) :: 32 word) = ucast TIOCSTI"
proof -
  have "\<not> spec_matches lib spec nr args" if "spec \<in> set (effective_specs opts)" for spec
  proof
    assume m: "spec_matches lib spec nr args"
    then have io: "trim_space (sr_Syscall (rs_rule spec)) = ''ioctl''"
      using assms(5) by (simp add: spec_matches_def)
    have "spec \<in> set (baselineSeccompRuleSpecs @ restrictedSeccompRuleSpecs)"
      using that assms(3) by (auto simp: effective_specs_def seccompProfileRules_def split: if_splits)
    moreover have "list_all (\<lambda>spec. trim_space (sr_Syscall (rs_rule spec)) = ''ioctl'' \<longrightarrow>
        spec = conditional_spec ''ioctl'' \<lparr>sc_Argument = 1, sc_Operation = ''eq'', sc_Value = TIOCSTI, sc_Mask = 0\<rparr>)
        (baselineSeccompRuleSpecs @ restrictedSeccompRuleSpecs)"
      by code_simp
    ultimately have spec: "spec = conditional_spec ''ioctl''
        \<lparr>sc_Argument = 1, sc_Operation = ''eq'', sc_Value = TIOCSTI, sc_Mask = 0\<rparr>"
      using io by (auto simp: list_all_iff)
    have "normalizeSeccompCompareOp ''eq'' = ''eq''" by code_simp
    with m show False
      unfolding spec by (simp add: spec_matches_def conditional_spec_def condition_holds_def assms(6)[unfolded One_nat_def])
  qed
  then have "\<not> (\<exists>spec \<in> set (effective_specs opts). spec_matches lib spec nr args)" by blast
  then have "decide (pp_bytes program) nr args = ActAllow"
    using prepared_program_decides[OF assms(1,2), of nr args] by blast
  then show ?thesis by (simp add: assms(6)[unfolded One_nat_def])
qed

text \<open>Files that are still open, and temporary files that were not removed.\<close>

definition left_open :: "file_event list \<Rightarrow> program_file set" where
  "left_open events = {f. FileOpened f \<in> set events \<and>
     (FileClosed f \<notin> set events \<or> (\<exists>path. f = TempFile path \<and> PathRemoved path \<notin> set events))}"

text \<open>
  A failed preparation leaves no file behind, a successful one only the file of the program,
  and reading the program text closes and removes this one too, whatever fails.
\<close>

theorem program_files_closed:
  "left_open (snd (prepareSeccompProgram lib calls opts)) =
     (case fst (prepareSeccompProgram lib calls opts) of
        Inr (Some p) \<Rightarrow> {pp_file p} | _ \<Rightarrow> {}) \<and>
   left_open (snd (compileSeccompProgram lib calls opts)) = {}"
proof
  let ?r = "prepareSeccompProgram lib calls opts"
  have shape: "(\<exists>p. ?r = (Inr (Some p), [FileOpened (pp_file p)])) \<or>
      (\<forall>p. fst ?r \<noteq> Inr (Some p)) \<and> (snd ?r = [] \<or> (\<exists>f. snd ?r = FileOpened f # closeProgram f))"
    by (auto simp: prepareSeccompProgram_def Let_def split: option.splits sum.splits)
  have closed: "left_open (FileOpened f # closeProgram f) = {}" for f
    by (cases f) (auto simp: left_open_def closeProgram_def)
  have one: "left_open [FileOpened f] = {f}" "left_open [] = {}" for f by (auto simp: left_open_def)
  show "left_open (snd ?r) = (case fst ?r of Inr (Some p) \<Rightarrow> {pp_file p} | _ \<Rightarrow> {})"
    using shape by (elim disjE exE conjE) (simp_all add: one closed split: sum.split option.split)
  show "left_open (snd (compileSeccompProgram lib calls opts)) = {}"
  proof (cases "\<exists>p. ?r = (Inr (Some p), [FileOpened (pp_file p)])")
    case True
    then obtain p where r: "?r = (Inr (Some p), [FileOpened (pp_file p)])" by blast
    show ?thesis by (simp add: compileSeccompProgram_def r closed split: option.split)
  next
    case False
    with shape have ev: "snd ?r = [] \<or> (\<exists>f. snd ?r = FileOpened f # closeProgram f)"
      and none: "\<And>p. fst ?r \<noteq> Inr (Some p)" by blast+
    have "snd (compileSeccompProgram lib calls opts) = snd ?r"
      using none by (cases ?r) (auto simp: compileSeccompProgram_def split: sum.split option.split)
    with ev show ?thesis by (auto simp: one closed)
  qed
qed

subsection \<open>A library that satisfies the laws\<close>

text \<open>
  A filter is the list of its rules and resolves a few calls; the one program text it exports is
  that of the baseline.
\<close>

definition ex_numbers :: "(string \<times> int) list" where
  "ex_numbers = map (\<lambda>(i, spec). (sr_Syscall (rs_rule spec), int i))
     (enumerate 0 (baselineSeccompRuleSpecs @ restrictedSeccompRuleSpecs))"

definition ex_resolve :: "string \<Rightarrow> int result" where
  "ex_resolve name = (case map_of ex_numbers name of None \<Rightarrow> Inl ''unknown syscall'' | Some nr \<Rightarrow> Inr nr)"

definition ex_condition :: "nat \<Rightarrow> ScmpCompareOp \<Rightarrow> 64 word list \<Rightarrow> ScmpCondition result" where
  "ex_condition arg oper vs = Inr \<lparr>cd_Argument = arg, cd_Op = oper, cd_Operand1 = vs ! 0,
     cd_Operand2 = (if oper = CompareMaskedEqual then vs ! 1 else 0)\<rparr>"

definition ex_opts :: SeccompOptions where
  "ex_opts = \<lparr>so_Disabled = False, so_Profile = [], so_Rules = []\<rparr>"

definition ex_partial_lib :: "scmp_rule list libseccomp" where
  "ex_partial_lib =
     \<lparr>ls_NewFilter = Inr [], ls_GetSyscallFromName = ex_resolve, ls_MakeCondition = ex_condition,
      ls_AddRule = (\<lambda>f call action conds. Inr (f @ [(call, action, conds)])),
      ls_ExportBPF = (\<lambda>f. Inl [])\<rparr>"

definition ex_rules :: "scmp_rule list" where
  "ex_rules = (case addSeccompRules ex_partial_lib (effective_specs ex_opts) [] of Inl e \<Rightarrow> [] | Inr f \<Rightarrow> f)"

definition ex_lib :: "scmp_rule list libseccomp" where
  "ex_lib = ex_partial_lib\<lparr>ls_ExportBPF := (\<lambda>f. if f = ex_rules then Inr [1] else Inl ''no memory'')\<rparr>"

definition ex_decide :: "8 word list \<Rightarrow> int \<Rightarrow> (nat \<Rightarrow> 64 word) \<Rightarrow> ScmpAction" where
  "ex_decide program nr args =
     (case find (\<lambda>r. scmp_matches r nr args) ex_rules of None \<Rightarrow> ActAllow | Some r \<Rightarrow> fst (snd r))"

definition ex_program_calls :: program_calls where
  "ex_program_calls = \<lparr>pc_memfd = Inr 5, pc_temp = Inl [], pc_seek = None, pc_rewind = None, pc_read = None\<rparr>"

lemma find_SomeD: "find P xs = Some x \<Longrightarrow> x \<in> set xs \<and> P x"
  by (auto simp: find_Some_iff)

lemma ex_decide_rule:
  "if \<exists>r \<in> set ex_rules. scmp_matches r nr args
   then \<exists>r \<in> set ex_rules. scmp_matches r nr args \<and> ex_decide program nr args = fst (snd r)
   else ex_decide program nr args = ActAllow"
proof (cases "find (\<lambda>r. scmp_matches r nr args) ex_rules")
  case None
  then have "\<not> (\<exists>r \<in> set ex_rules. scmp_matches r nr args)" unfolding find_None_iff by blast
  with None show ?thesis by (simp add: ex_decide_def)
next
  case (Some r)
  with find_SomeD[OF Some] show ?thesis by (auto simp: ex_decide_def)
qed

lemma ex_seccomp_laws: "seccomp_laws ex_lib (\<lambda>f. f) ex_decide"
  using ex_decide_rule
  by (auto simp: seccomp_laws_def ex_lib_def ex_partial_lib_def ex_condition_def split: if_splits)

lemma ex_specs_added:
  "list_all (\<lambda>spec. is_ok (ex_resolve (trim_space (sr_Syscall (rs_rule spec)))) \<and>
     normalizeSeccompAction (sr_Action (rs_rule spec)) = ''errno'' \<and>
     list_all (\<lambda>c. is_ok (seccompCompareOpForCondition (sc_Operation c))) (sr_Conditions (rs_rule spec))) specs \<Longrightarrow>
   is_ok (addSeccompRules ex_partial_lib specs f)"
proof (induction specs arbitrary: f)
  case (Cons spec specs)
  let ?rule = "rs_rule spec"
  have "is_ok (compileCondition ex_partial_lib ?rule c)" if "c \<in> set (sr_Conditions ?rule)" for c
  proof -
    have "is_ok (seccompCompareOpForCondition (sc_Operation c))"
      using Cons.prems that by (simp add: list_all_iff)
    then obtain oper where "seccompCompareOpForCondition (sc_Operation c) = Inr oper"
      unfolding is_ok_iff by blast
    then show ?thesis by (simp add: compileCondition_def ex_partial_lib_def ex_condition_def)
  qed
  then have "is_ok (seccompConditionsForRule ex_partial_lib ?rule)"
    unfolding seccompConditionsForRule_def by (rule map_result_ok)
  then obtain ds where ds: "seccompConditionsForRule ex_partial_lib ?rule = Inr ds"
    unfolding is_ok_iff ..
  obtain nr where "ls_GetSyscallFromName ex_partial_lib (trim_space (sr_Syscall ?rule)) = Inr nr"
    using Cons.prems by (auto simp: is_ok_iff ex_partial_lib_def)
  moreover obtain action where "seccompActionForRule ?rule = Inr action"
    using Cons.prems by (simp add: seccompActionForRule_def)
  moreover have "\<exists>f'. ls_AddRule ex_partial_lib f nr action ds = Inr f'" by (simp add: ex_partial_lib_def)
  ultimately have "\<exists>f'. addSeccompRule ex_partial_lib spec f = Inr f'"
    using ds by (simp add: addSeccompRule_def)
  then show ?case using Cons.IH Cons.prems by auto
qed simp

lemma ex_program:
  "prepareSeccompProgram ex_lib ex_program_calls ex_opts =
     (Inr (Some \<lparr>pp_file = Memfd 5, pp_bytes = [1]\<rparr>), [FileOpened (Memfd 5)])"
proof -
  have sel: "ls_MakeCondition ex_lib = ls_MakeCondition ex_partial_lib" "ls_AddRule ex_lib = ls_AddRule ex_partial_lib"
    "ls_GetSyscallFromName ex_lib = ls_GetSyscallFromName ex_partial_lib"
    by (simp_all add: ex_lib_def)
  have "compileCondition ex_lib rule = compileCondition ex_partial_lib rule" for rule
    by (rule ext) (simp only: compileCondition_def sel)
  then have "addSeccompRule ex_lib spec f = addSeccompRule ex_partial_lib spec f" for spec f
    unfolding addSeccompRule_def seccompConditionsForRule_def sel by presburger
  then have same: "addSeccompRules ex_lib specs f = addSeccompRules ex_partial_lib specs f" for specs f
    by (induction specs arbitrary: f) (simp_all split: sum.split)
  have "is_ok (addSeccompRules ex_partial_lib (effective_specs ex_opts) [])"
    by (rule ex_specs_added) code_simp
  then have "addSeccompRules ex_lib (effective_specs ex_opts) [] = Inr ex_rules"
    by (auto simp: same ex_rules_def is_ok_iff)
  moreover have "effective_specs ex_opts = seccompProfileRules ''baseline''"
    "normalizeSeccompOptions ex_opts = \<lparr>no_disabled = False, no_profile = ''baseline'', no_rules = []\<rparr>"
    "validateSeccompOptions ex_opts = None"
    by (simp_all add: effective_specs_def validateSeccompOptions_def ex_opts_def normalizeSeccompOptions_def)
  moreover have "newSeccompProgramFile ex_program_calls = Inr (Memfd 5)" "pc_seek ex_program_calls = None"
    "ls_ExportBPF ex_lib ex_rules = Inr [1]" "ls_NewFilter ex_lib = Inr []"
    by (simp_all add: newSeccompProgramFile_def ex_program_calls_def ex_lib_def ex_partial_lib_def)
  ultimately show ?thesis by (simp add: prepareSeccompProgram_def)
qed

definition ex_mount :: int where
  "ex_mount = (case ex_resolve ''mount'' of Inl e \<Rightarrow> - 1 | Inr nr \<Rightarrow> nr)"

definition ex_ioctl :: int where
  "ex_ioctl = (case ex_resolve ''ioctl'' of Inl e \<Rightarrow> - 1 | Inr nr \<Rightarrow> nr)"

lemma ex_lib_resolve: "ls_GetSyscallFromName ex_lib = ex_resolve"
  by (simp add: ex_lib_def ex_partial_lib_def)

lemma ex_calls: "ex_resolve ''mount'' = Inr ex_mount" "ex_resolve ''ioctl'' = Inr ex_ioctl"
  "trim_space ''mount'' = ''mount''" "ex_ioctl = 0" "list_all (\<lambda>(n, nr). nr = 0 \<longrightarrow> n = ''ioctl'') ex_numbers"
  by code_simp+

lemma ex_mount_spec:
  "denyRequiredSyscall ''mount'' \<in> set baselineSeccompRuleSpecs"
  "sr_Conditions (rs_rule (denyRequiredSyscall ''mount'')) = []"
  "sr_Syscall (rs_rule (denyRequiredSyscall ''mount'')) = ''mount''"
  by (simp_all add: baselineSeccompRuleSpecs_def denyRequiredSyscall_def DenySyscall_def)

theorem seccomp_program_refines_witness:
  "seccomp_laws ex_lib (\<lambda>f. f) ex_decide \<and> ex_decide [1] ex_mount (\<lambda>i. 0) \<noteq> ActAllow"
proof -
  have "denyRequiredSyscall ''mount'' \<in> set (effective_specs ex_opts)"
    using baseline_specs_effective[of ex_opts] ex_mount_spec(1) by (auto simp: ex_opts_def)
  moreover have "spec_matches ex_lib (denyRequiredSyscall ''mount'') ex_mount (\<lambda>i. 0)"
    by (simp add: spec_matches_def ex_mount_spec ex_calls ex_lib_resolve)
  ultimately have "\<exists>spec \<in> set (effective_specs ex_opts). spec_matches ex_lib spec ex_mount (\<lambda>i. 0)" by blast
  with seccomp_program_refines[OF ex_seccomp_laws ex_program, of ex_mount "\<lambda>i. 0"] ex_seccomp_laws
  show ?thesis by simp
qed

theorem baseline_always_enforced_witness:
  "seccomp_laws ex_lib (\<lambda>f. f) ex_decide \<and> ex_decide [1] ex_mount (\<lambda>i. 0) \<noteq> ActAllow"
  using baseline_always_enforced[OF ex_seccomp_laws ex_program, of "denyRequiredSyscall ''mount''" ex_mount "\<lambda>i. 0"]
    ex_mount_spec ex_seccomp_laws by (simp add: ex_calls ex_lib_resolve) (simp add: ex_opts_def)

theorem tiocsti_with_high_bits_allowed_witness:
  "ex_resolve ''ioctl'' = Inr ex_ioctl \<and> ex_decide [1] ex_ioctl (\<lambda>i. 0x100005412) = ActAllow"
proof -
  have "name = ''ioctl''" if "ex_resolve name = Inr ex_ioctl" for name
  proof -
    have "(name, 0) \<in> set ex_numbers"
      using that by (auto simp: ex_resolve_def ex_calls(4) split: option.splits dest: map_of_SomeD)
    with ex_calls(5) show ?thesis by (auto simp: list_all_iff)
  qed
  then show ?thesis
    using tiocsti_with_high_bits_allowed[OF ex_seccomp_laws ex_program, of ex_ioctl "\<lambda>i. 0x100005412"]
    by (simp add: ex_lib_resolve ex_calls(2)) (simp add: ex_opts_def)
qed

definition ex_user_rule :: SeccompRule where
  "ex_user_rule = \<lparr>sr_Syscall = ''mkdir'', sr_Action = '' Errno'', sr_Errno = 13, sr_Conditions = []\<rparr>"

theorem validated_rules_compile_witness:
  "\<exists>action. seccompActionForRule ex_user_rule = Inr action \<and> action \<noteq> ActAllow"
proof -
  have "validateSeccompOptions \<lparr>so_Disabled = False, so_Profile = ''custom'', so_Rules = [ex_user_rule]\<rparr> = None"
    by code_simp
  from validated_rules_compile[OF this, of ex_user_rule] show ?thesis by auto
qed

end
