(* ===== verification/Host_Io.thy ===== *)
theory Host_Io
  imports Go_Path Access_Audit Seccomp_Profile
begin

section \<open>Host calls\<close>

text \<open>
  Files, directories and programs of the host, as the sandbox code uses them. The history of a
  run is the list of the calls made so far. The host is a parameter: a record with one function
  per call, from the history and the call's arguments to its answer, so that an answer may
  depend on everything that was done before. An operation maps a history to its result and the
  longer history.
\<close>

record FileInfo =
  fi_IsDir :: bool
  fi_IsRegular :: bool
  fi_Perm :: int

text \<open>
  Sockets, files and processes that are open until they are closed, and how waiting for a process
  ends: its exit status arrives, the time is over, or the process is seen to be gone.
\<close>

datatype resource =
    BridgeParent
  | BridgeChild
  | HelperLog
  | DockerListener
  | SeccompFile program_file

datatype exit_status = ExitOk | ExitCode int | Signaled int | WaitFailed string

datatype wait_outcome = Received exit_status | TimedOut | SeenGone

datatype host_call =
    Stat string
  | ReadFile string
  | ReadDir string
  | Getwd
  | LookPath string
  | Ldd string
  | Geteuid
  | CurrentUser
  | MkdirTemp string "string option"
  | MkdirAll string int
  | Chmod string int
  | CreateFile string int
  | WriteFile string string int
  | OpenRead string
  | TruncFile string int
  | CopyData string string
  | RemoveAll string
  | RuntimeBinary
  | Open resource
  | OpenFailed resource
  | Close resource
  | Created string
  | Remove string
  | Walk string
  | StartProcess
  | StartClient
  | CloseClient
  | CloseServer
  | Wait int wait_outcome
  | Signal int

type_synonym history = "host_call list"
type_synonym 'a io = "history \<Rightarrow> 'a \<times> history"

record host =
  h_GOOS :: string
  h_Stat :: "history \<Rightarrow> string \<Rightarrow> FileInfo result"
  h_ReadFile :: "history \<Rightarrow> string \<Rightarrow> string result"
  h_ReadDir :: "history \<Rightarrow> string \<Rightarrow> (string \<times> bool) list result"
  h_Getwd :: "history \<Rightarrow> string result"
  h_LookPath :: "history \<Rightarrow> string \<Rightarrow> string result"
  h_Ldd :: "history \<Rightarrow> string \<Rightarrow> string option \<times> string"
  h_Geteuid :: "history \<Rightarrow> int"
  h_CurrentUser :: "history \<Rightarrow> string result"
  h_MkdirTemp :: "history \<Rightarrow> string \<Rightarrow> string result"
  h_MkdirAll :: "history \<Rightarrow> string \<Rightarrow> int \<Rightarrow> unit result"
  h_Chmod :: "history \<Rightarrow> string \<Rightarrow> int \<Rightarrow> unit result"
  h_CreateFile :: "history \<Rightarrow> string \<Rightarrow> int \<Rightarrow> unit result"
  h_WriteFile :: "history \<Rightarrow> string \<Rightarrow> string \<Rightarrow> int \<Rightarrow> unit result"
  h_OpenRead :: "history \<Rightarrow> string \<Rightarrow> unit result"
  h_TruncFile :: "history \<Rightarrow> string \<Rightarrow> int \<Rightarrow> unit result"
  h_CopyData :: "history \<Rightarrow> string \<Rightarrow> string \<Rightarrow> unit result"
  h_RemoveAll :: "history \<Rightarrow> string \<Rightarrow> error option"
  h_Remove :: "history \<Rightarrow> string \<Rightarrow> error option"
  h_RuntimeBinary :: "history \<Rightarrow> string result"
  h_Open :: "history \<Rightarrow> resource \<Rightarrow> unit result"
  h_Close :: "history \<Rightarrow> resource \<Rightarrow> error option"
  h_TempName :: "history \<Rightarrow> string"
  h_StartProcess :: "history \<Rightarrow> unit result"
  h_StartClient :: "history \<Rightarrow> string result"
  h_CloseClient :: "history \<Rightarrow> error option"
  h_CloseServer :: "history \<Rightarrow> error option"
  h_Wait :: "history \<Rightarrow> int \<Rightarrow> wait_outcome"
  h_Signal :: "history \<Rightarrow> int \<Rightarrow> error option"

definition io_return :: "'a \<Rightarrow> 'a io" where
  "io_return x = (\<lambda>t. (x, t))"

definition io_call :: "(history \<Rightarrow> 'a) \<Rightarrow> host_call \<Rightarrow> 'a io" where
  "io_call answer c = (\<lambda>t. (answer t, t @ [c]))"

definition io_bind :: "'a io \<Rightarrow> ('a \<Rightarrow> 'b io) \<Rightarrow> 'b io" where
  "io_bind m f = (\<lambda>t. case m t of (x, t') \<Rightarrow> f x t')"

abbreviation io_err :: "error \<Rightarrow> 'a result io" where
  "io_err e \<equiv> io_return (Inl e)"

abbreviation io_ok :: "'a \<Rightarrow> 'a result io" where
  "io_ok x \<equiv> io_return (Inr x)"

text \<open>Returning early with a wrapped error, and a loop that returns at the first error.\<close>

definition io_try :: "(error \<Rightarrow> error) \<Rightarrow> 'a result io \<Rightarrow> ('a \<Rightarrow> 'b result io) \<Rightarrow> 'b result io" where
  "io_try wrap m f = io_bind m (\<lambda>r. case r of Inl e \<Rightarrow> io_err (wrap e) | Inr x \<Rightarrow> f x)"

abbreviation io_must :: "'a result io \<Rightarrow> ('a \<Rightarrow> 'b result io) \<Rightarrow> 'b result io" where
  "io_must \<equiv> io_try (\<lambda>e. e)"

abbreviation ctx :: "string \<Rightarrow> error \<Rightarrow> error" where
  "ctx s \<equiv> \<lambda>e. s @ '': '' @ e"

fun io_each :: "('a \<Rightarrow> 'b result io) \<Rightarrow> 'a list \<Rightarrow> 'b list result io" where
  "io_each f [] = io_ok []"
| "io_each f (x # xs) = io_must (f x) (\<lambda>y. io_must (io_each f xs) (\<lambda>ys. io_ok (y # ys)))"

definition os_Stat :: "host \<Rightarrow> string \<Rightarrow> FileInfo result io" where
  "os_Stat h p = io_call (\<lambda>t. h_Stat h t p) (Stat p)"

definition os_ReadFile :: "host \<Rightarrow> string \<Rightarrow> string result io" where
  "os_ReadFile h p = io_call (\<lambda>t. h_ReadFile h t p) (ReadFile p)"

definition os_ReadDir :: "host \<Rightarrow> string \<Rightarrow> (string \<times> bool) list result io" where
  "os_ReadDir h p = io_call (\<lambda>t. h_ReadDir h t p) (ReadDir p)"

definition os_Getwd :: "host \<Rightarrow> string result io" where
  "os_Getwd h = io_call (h_Getwd h) Getwd"

definition os_Geteuid :: "host \<Rightarrow> int io" where
  "os_Geteuid h = io_call (h_Geteuid h) Geteuid"

definition exec_LookPath :: "host \<Rightarrow> string \<Rightarrow> string result io" where
  "exec_LookPath h p = io_call (\<lambda>t. h_LookPath h t p) (LookPath p)"

definition user_Current :: "host \<Rightarrow> string result io" where
  "user_Current h = io_call (h_CurrentUser h) CurrentUser"

definition os_MkdirTemp :: "host \<Rightarrow> string \<Rightarrow> string result io" where
  "os_MkdirTemp h p = (\<lambda>t. case h_MkdirTemp h t p of
     Inl e \<Rightarrow> (Inl e, t @ [MkdirTemp p None]) | Inr dir \<Rightarrow> (Inr dir, t @ [MkdirTemp p (Some dir)]))"

definition os_MkdirAll :: "host \<Rightarrow> string \<Rightarrow> int \<Rightarrow> unit result io" where
  "os_MkdirAll h p mode = io_call (\<lambda>t. h_MkdirAll h t p mode) (MkdirAll p mode)"

definition os_Chmod :: "host \<Rightarrow> string \<Rightarrow> int \<Rightarrow> unit result io" where
  "os_Chmod h p mode = io_call (\<lambda>t. h_Chmod h t p mode) (Chmod p mode)"

definition os_WriteFile :: "host \<Rightarrow> string \<Rightarrow> string \<Rightarrow> int \<Rightarrow> unit result io" where
  "os_WriteFile h p content mode = io_call (\<lambda>t. h_WriteFile h t p content mode) (WriteFile p content mode)"

text \<open>Opening with \<^verbatim>\<open>O_CREATE\<close> and closing at once.\<close>

definition os_CreateFile :: "host \<Rightarrow> string \<Rightarrow> int \<Rightarrow> unit result io" where
  "os_CreateFile h p mode = io_call (\<lambda>t. h_CreateFile h t p mode) (CreateFile p mode)"

definition os_OpenRead :: "host \<Rightarrow> string \<Rightarrow> unit result io" where
  "os_OpenRead h p = io_call (\<lambda>t. h_OpenRead h t p) (OpenRead p)"

text \<open>Opening with \<^verbatim>\<open>O_CREATE | O_WRONLY | O_TRUNC\<close>, and copying an open file into it.\<close>

definition os_TruncFile :: "host \<Rightarrow> string \<Rightarrow> int \<Rightarrow> unit result io" where
  "os_TruncFile h p mode = io_call (\<lambda>t. h_TruncFile h t p mode) (TruncFile p mode)"

definition os_CopyData :: "host \<Rightarrow> string \<Rightarrow> string \<Rightarrow> unit result io" where
  "os_CopyData h src dst = io_call (\<lambda>t. h_CopyData h t src dst) (CopyData src dst)"

definition os_RemoveAll :: "host \<Rightarrow> string \<Rightarrow> error option io" where
  "os_RemoveAll h p = io_call (\<lambda>t. h_RemoveAll h t p) (RemoveAll p)"

definition os_Open :: "host \<Rightarrow> resource \<Rightarrow> unit result io" where
  "os_Open h r = (\<lambda>t. case h_Open h t r of
     Inl e \<Rightarrow> (Inl e, t @ [OpenFailed r]) | Inr _ \<Rightarrow> (Inr (), t @ [Open r]))"

definition os_Remove :: "host \<Rightarrow> string \<Rightarrow> error option io" where
  "os_Remove h p = io_call (\<lambda>t. h_Remove h t p) (Remove p)"

definition os_Close :: "host \<Rightarrow> resource \<Rightarrow> error option io" where
  "os_Close h r = io_call (\<lambda>t. h_Close h t r) (Close r)"

subsection \<open>More of package path/filepath\<close>

definition filepath_Abs :: "host \<Rightarrow> string \<Rightarrow> string result io" where
  "filepath_Abs h p =
     (if is_rooted p then io_ok (path_clean p)
      else io_must (os_Getwd h) (\<lambda>wd. io_ok (path_join [wd, p])))"

definition filepath_Dir :: "string \<Rightarrow> string" where
  "filepath_Dir p = path_clean (rev (dropWhile (\<lambda>c. c \<noteq> CHR ''/'') (rev p)))"

definition filepath_Base :: "string \<Rightarrow> string" where
  "filepath_Base p =
     (if p = [] then ''.''
      else let q = trim_right_by (\<lambda>c. c = CHR ''/'') p;
               b = rev (takeWhile (\<lambda>c. c \<noteq> CHR ''/'') (rev q)) in
           if b = [] then ''/'' else b)"

text \<open>
  \<^verbatim>\<open>filepath.Rel\<close> on the elements of the cleaned paths: the common elements are dropped, one
  double dot per remaining element of the base leads up.
\<close>

fun drop_common :: "'a list \<Rightarrow> 'a list \<Rightarrow> 'a list \<times> 'a list" where
  "drop_common (x # xs) (y # ys) = (if x = y then drop_common xs ys else (x # xs, y # ys))"
| "drop_common xs ys = (xs, ys)"

definition nonempty_elems :: "string \<Rightarrow> string list" where
  "nonempty_elems p = filter (\<lambda>e. e \<noteq> []) (split_on CHR ''/'' p)"

definition filepath_Rel :: "string \<Rightarrow> string \<Rightarrow> string result" where
  "filepath_Rel basepath targpath =
     (let base = path_clean basepath; targ = path_clean targpath in
      if targ = base then ok ''.''
      else
        let base = (if base = ''.'' then [] else base) in
        if is_rooted base \<noteq> is_rooted targ
        then err (''Rel: can't make '' @ targpath @ '' relative to '' @ basepath)
        else case drop_common (nonempty_elems base) (nonempty_elems targ) of
               (bs, ts) \<Rightarrow>
                 if bs \<noteq> [] \<and> hd bs = ''..''
                 then err (''Rel: can't make '' @ targpath @ '' relative to '' @ basepath)
                 else ok (join ''/'' (replicate (length bs) ''..'' @ ts)))"

lemma split_on_append:
  "split_on c (x @ c # y) = split_on c x @ split_on c y"
  by (induction x) (auto split: list.split)

lemma join_append: "xs \<noteq> [] \<Longrightarrow> ys \<noteq> [] \<Longrightarrow> join sep (xs @ ys) = join sep xs @ sep @ join sep ys"
proof (induction sep xs rule: join.induct)
  case (2 sep p)
  then show ?case by (cases ys) auto
qed auto

subsection \<open>Calls of an operation\<close>

text \<open>\<open>calls P m\<close>: whatever the history, \<open>m\<close> only adds calls that satisfy \<open>P\<close>.\<close>

definition calls :: "(host_call \<Rightarrow> bool) \<Rightarrow> 'a io \<Rightarrow> bool" where
  "calls P m \<longleftrightarrow> (\<forall>t. \<exists>cs. snd (m t) = t @ cs \<and> list_all P cs)"

lemma calls_return [intro!, simp]: "calls P (io_return x)"
  by (auto simp: calls_def io_return_def)

lemma calls_call [intro!, simp]: "calls P (io_call a c) \<longleftrightarrow> P c"
  by (auto simp: calls_def io_call_def)

lemma calls_bind:
  assumes "calls P m" and "\<And>t x t'. m t = (x, t') \<Longrightarrow> calls P (f x)"
  shows "calls P (io_bind m f)"
proof -
  have "\<exists>cs. snd (io_bind m f t) = t @ cs \<and> list_all P cs" for t
  proof -
    obtain x t' where m: "m t = (x, t')" by fastforce
    from assms(1) m obtain cs where "t' = t @ cs" "list_all P cs" by (auto simp: calls_def) (metis snd_conv)
    moreover from assms(2)[OF m] obtain ds where "snd (f x t') = t' @ ds" "list_all P ds"
      by (auto simp: calls_def)
    ultimately show ?thesis by (simp add: io_bind_def m)
  qed
  then show ?thesis by (simp add: calls_def)
qed

lemma calls_try:
  assumes "calls P m" and "\<And>t x t'. m t = (Inr x, t') \<Longrightarrow> calls P (f x)"
  shows "calls P (io_try wrap m f)"
  unfolding io_try_def
  by (rule calls_bind[OF assms(1)]) (auto split: sum.split intro: assms(2))

lemma calls_each:
  assumes "\<And>x. x \<in> set xs \<Longrightarrow> calls P (f x)"
  shows "calls P (io_each f xs)"
  using assms by (induction xs) (auto intro!: calls_try)

lemma calls_if: "(b \<Longrightarrow> calls P m) \<Longrightarrow> (\<not> b \<Longrightarrow> calls P m') \<Longrightarrow> calls P (if b then m else m')"
  by simp

lemma calls_let: "(\<And>x. x = v \<Longrightarrow> calls P (f x)) \<Longrightarrow> calls P (Let v f)"
  by simp

lemma calls_option:
  "(x = None \<Longrightarrow> calls P m) \<Longrightarrow> (\<And>y. x = Some y \<Longrightarrow> calls P (f y)) \<Longrightarrow>
   calls P (case x of None \<Rightarrow> m | Some y \<Rightarrow> f y)"
  by (cases x) auto

lemma calls_prod: "(\<And>a b. x = (a, b) \<Longrightarrow> calls P (f a b)) \<Longrightarrow> calls P (case x of (a, b) \<Rightarrow> f a b)"
  by (cases x) auto

lemma calls_sum:
  "(\<And>e. x = Inl e \<Longrightarrow> calls P (f e)) \<Longrightarrow> (\<And>y. x = Inr y \<Longrightarrow> calls P (g y)) \<Longrightarrow>
   calls P (case x of Inl e \<Rightarrow> f e | Inr y \<Rightarrow> g y)"
  by (cases x) auto

lemma calls_list:
  "(xs = [] \<Longrightarrow> calls P m) \<Longrightarrow> (\<And>y ys. xs = y # ys \<Longrightarrow> calls P (f y ys)) \<Longrightarrow>
   calls P (case xs of [] \<Rightarrow> m | y # ys \<Rightarrow> f y ys)"
  by (cases xs) auto

lemma calls_mono: "calls P m \<Longrightarrow> (\<And>c. P c \<Longrightarrow> Q c) \<Longrightarrow> calls Q m"
  by (fastforce simp: calls_def list_all_iff)

lemmas calls_intros = calls_try calls_bind calls_each calls_if calls_let calls_option calls_prod calls_sum calls_list

lemmas os_defs = os_Stat_def os_ReadFile_def os_ReadDir_def os_Getwd_def os_Geteuid_def exec_LookPath_def
  user_Current_def os_MkdirAll_def os_Chmod_def os_WriteFile_def os_CreateFile_def
  os_OpenRead_def os_TruncFile_def os_CopyData_def os_RemoveAll_def

text \<open>\<open>results Q m\<close>: whatever the history, the result of \<open>m\<close> satisfies \<open>Q\<close>.\<close>

definition results :: "('a \<Rightarrow> bool) \<Rightarrow> 'a io \<Rightarrow> bool" where
  "results Q m \<longleftrightarrow> (\<forall>t. Q (fst (m t)))"

lemma resultsD: "results Q m \<Longrightarrow> m t = (x, t') \<Longrightarrow> Q x"
  unfolding results_def by (metis fst_conv)

lemma results_return [simp]: "results Q (io_return x) \<longleftrightarrow> Q x"
  by (simp add: results_def io_return_def)

lemma results_True [simp]: "results (\<lambda>r. True) m"
  by (simp add: results_def)

lemma results_call: "(\<And>t. Q (a t)) \<Longrightarrow> results Q (io_call a c)"
  by (simp add: results_def io_call_def)

lemma results_bind:
  "(\<And>t x t'. m t = (x, t') \<Longrightarrow> results Q (f x)) \<Longrightarrow> results Q (io_bind m f)"
  by (simp add: results_def io_bind_def split: prod.split)

lemma results_try:
  assumes "results (\<lambda>r. \<forall>e. r = Inl e \<longrightarrow> Q (Inl (wrap e))) m"
    and "\<And>t x t'. m t = (Inr x, t') \<Longrightarrow> results Q (f x)"
  shows "results Q (io_try wrap m f)"
  unfolding results_def
proof
  fix t
  show "Q (fst (io_try wrap m f t))"
    using assms(1) assms(2)[of t]
    by (cases "m t"; cases "fst (m t)") (auto simp: results_def io_try_def io_bind_def io_return_def, metis fst_conv)
qed

lemma results_mono: "results P m \<Longrightarrow> (\<And>x. P x \<Longrightarrow> Q x) \<Longrightarrow> results Q m"
  by (simp add: results_def)

lemma results_cases:
  "(b \<Longrightarrow> results Q m) \<Longrightarrow> (\<not> b \<Longrightarrow> results Q m') \<Longrightarrow> results Q (if b then m else m')"
  "(x = None \<Longrightarrow> results Q m) \<Longrightarrow> (\<And>y. x = Some y \<Longrightarrow> results Q (k y)) \<Longrightarrow>
     results Q (case x of None \<Rightarrow> m | Some y \<Rightarrow> k y)"
  "(xs = [] \<Longrightarrow> results Q m) \<Longrightarrow> (\<And>y ys. xs = y # ys \<Longrightarrow> results Q (l y ys)) \<Longrightarrow>
     results Q (case xs of [] \<Rightarrow> m | y # ys \<Rightarrow> l y ys)"
  "(\<And>a b. z = (a, b) \<Longrightarrow> results Q (p a b)) \<Longrightarrow> results Q (case z of (a, b) \<Rightarrow> p a b)"
  "(\<And>y. y = v \<Longrightarrow> results Q (g y)) \<Longrightarrow> results Q (Let v g)"
  by (simp, cases x, auto, cases xs, auto, cases z, auto)

lemma io_try_Inr:
  "io_try wrap m f t = (Inr y, t'') \<longleftrightarrow> (\<exists>x t'. m t = (Inr x, t') \<and> f x t' = (Inr y, t''))"
  by (auto simp: io_try_def io_bind_def io_return_def split: prod.splits sum.splits)

lemma io_bind_eq: "io_bind m f t = (y, t'') \<longleftrightarrow> (\<exists>x t'. m t = (x, t') \<and> f x t' = (y, t''))"
  by (auto simp: io_bind_def split: prod.splits)

lemma io_return_eq [simp]: "io_return x t = (y, t') \<longleftrightarrow> y = x \<and> t' = t"
  by (auto simp: io_return_def)

lemma io_each_Inr: "io_each f xs t = (Inr ys, t') \<Longrightarrow> length ys = length xs"
  by (induction xs arbitrary: t ys t') (auto simp: io_return_def io_try_Inr)

text \<open>Paths below a directory.\<close>

definition inside :: "string \<Rightarrow> string \<Rightarrow> bool" where
  "inside root p \<longleftrightarrow> is_rooted p \<and> prefix (path_elems root) (path_elems p)"

text \<open>
  A call that changes nothing, and one that changes files only below \<open>root\<close>. Creating the directories that lead to the existing
  \<open>root\<close> changes nothing.
\<close>

fun reading :: "host_call \<Rightarrow> bool" where
  "reading (Stat p) = True"
| "reading (ReadFile p) = True"
| "reading (ReadDir p) = True"
| "reading Getwd = True"
| "reading (LookPath p) = True"
| "reading (Ldd p) = True"
| "reading Geteuid = True"
| "reading CurrentUser = True"
| "reading (OpenRead p) = True"
| "reading _ = False"

fun confined :: "string \<Rightarrow> host_call \<Rightarrow> bool" where
  "confined root (MkdirAll p mode) = (inside root p \<or> inside p root)"
| "confined root (Chmod p mode) = inside root p"
| "confined root (CreateFile p mode) = inside root p"
| "confined root (WriteFile p content mode) = inside root p"
| "confined root (TruncFile p mode) = inside root p"
| "confined root (CopyData src p) = inside root p"
| "confined root c = reading c"

lemma reading_confined: "reading c \<Longrightarrow> confined root c"
  by (cases c) auto

end
