(* ===== verification/Host_Held.thy ===== *)
theory Host_Held
  imports Host_Io
begin

section \<open>What a history holds\<close>

text \<open>
  Open resources, temporary directories and temporary files, as a multiset computed from the
  history. \<open>triple P m Q\<close> says that \<open>m\<close>, run by an owner of \<open>P\<close>, turns \<open>P\<close> into \<open>Q\<close> of its result and
  touches nothing else that is held.
\<close>

text \<open>A call with its own error handler.\<close>

definition io_else :: "'a result io \<Rightarrow> (error \<Rightarrow> 'b result io) \<Rightarrow> ('a \<Rightarrow> 'b result io) \<Rightarrow> 'b result io" where
  "io_else m failed f = io_bind m (\<lambda>r. case r of Inl e \<Rightarrow> failed e | Inr x \<Rightarrow> f x)"

lemma io_else_cases:
  assumes "io_else m failed f t = (y, t'')"
  obtains (failed) e t' where "m t = (Inl e, t')" "failed e t' = (y, t'')"
    | (ok) x t' where "m t = (Inr x, t')" "f x t' = (y, t'')"
proof -
  from assms obtain r t' where r: "m t = (r, t')" "(case r of Inl e \<Rightarrow> failed e | Inr x \<Rightarrow> f x) t' = (y, t'')"
    by (auto simp: io_else_def io_bind_eq)
  then show thesis using failed ok by (cases r) auto
qed

lemma results_else:
  assumes "\<And>e. results Q (failed e)" and "\<And>t x t'. m t = (Inr x, t') \<Longrightarrow> results Q (f x)"
  shows "results Q (io_else m failed f)"
  unfolding io_else_def by (rule results_bind) (auto split: sum.split intro: assms)

datatype item = Res resource | Dir string | File string

fun hold :: "item multiset \<Rightarrow> host_call \<Rightarrow> item multiset" where
  "hold M (Open r) = M + {#Res r#}"
| "hold M (Close r) = M - {#Res r#}"
| "hold M CloseClient = M - {#Res BridgeParent#}"
| "hold M (MkdirTemp p (Some d)) = M + {#Dir d#}"
| "hold M (RemoveAll d) = M - {#Dir d#}"
| "hold M (Created p) = M + {#File p#}"
| "hold M (Remove p) = M - {#File p#}"
| "hold M c = M"

definition held :: "history \<Rightarrow> item multiset" where
  "held t = foldl hold {#} t"

definition triple :: "item multiset \<Rightarrow> 'a io \<Rightarrow> ('a \<Rightarrow> item multiset) \<Rightarrow> bool" where
  "triple P m Q \<longleftrightarrow>
     (\<forall>t x t'. m t = (x, t') \<longrightarrow> (\<exists>cs. t' = t @ cs \<and> (\<forall>M. foldl hold (M + P) cs = M + Q x)))"

lemma tripleD:
  "triple P m Q \<Longrightarrow> m t = (x, t') \<Longrightarrow> \<exists>cs. t' = t @ cs \<and> (\<forall>M. foldl hold (M + P) cs = M + Q x)"
  unfolding triple_def by blast

lemma tripleI:
  "(\<And>t x t'. m t = (x, t') \<Longrightarrow> \<exists>cs. t' = t @ cs \<and> (\<forall>M. foldl hold (M + P) cs = M + Q x)) \<Longrightarrow> triple P m Q"
  unfolding triple_def by blast

lemma triple_held:
  assumes "triple P m Q" and "m t = (x, t')" and "held t = M + P"
  shows "held t' = M + Q x"
  using tripleD[OF assms(1,2)] assms(3) by (auto simp: held_def)

lemma triple_return: "P = Q x \<Longrightarrow> triple P (io_return x) Q"
  by (simp add: triple_def)

lemma triple_bind:
  assumes "triple P m Q" and "\<And>t x t'. m t = (x, t') \<Longrightarrow> triple (Q x) (f x) R"
  shows "triple P (io_bind m f) R"
proof (rule tripleI)
  fix t y t''
  assume "io_bind m f t = (y, t'')"
  then obtain x t' where m: "m t = (x, t')" and f: "f x t' = (y, t'')" by (auto simp: io_bind_eq)
  from tripleD[OF assms(1) m] tripleD[OF assms(2)[OF m] f]
  show "\<exists>cs. t'' = t @ cs \<and> (\<forall>M. foldl hold (M + P) cs = M + R y)" by force
qed

lemma triple_frame:
  assumes "triple P m Q"
  shows "triple (P + F) m (\<lambda>x. Q x + F)"
proof (rule tripleI)
  fix t x t'
  assume "m t = (x, t')"
  from tripleD[OF assms this] obtain cs where cs: "t' = t @ cs" "\<And>M. foldl hold (M + P) cs = M + Q x" by blast
  have "foldl hold (M + (P + F)) cs = M + (Q x + F)" for M using cs(2)[of "M + F"] by (simp add: ac_simps)
  with cs(1) show "\<exists>cs. t' = t @ cs \<and> (\<forall>M. foldl hold (M + (P + F)) cs = M + (Q x + F))" by blast
qed

lemma triple_else:
  assumes "triple P m (\<lambda>r. case r of Inl e \<Rightarrow> E | Inr x \<Rightarrow> Q x)"
    and "\<And>e. triple E (failed e) R" and "\<And>t x t'. m t = (Inr x, t') \<Longrightarrow> triple (Q x) (f x) R"
  shows "triple P (io_else m failed f) R"
  unfolding io_else_def
  by (rule triple_bind[OF assms(1)]) (auto split: sum.split intro: assms(2,3))

lemma triple_try:
  assumes "triple P m (\<lambda>r. case r of Inl e \<Rightarrow> E | Inr x \<Rightarrow> Q x)"
    and "\<And>e. E = R (Inl e)" and "\<And>t x t'. m t = (Inr x, t') \<Longrightarrow> triple (Q x) (f x) R"
  shows "triple P (io_try wrap m f) R"
  using triple_else[OF assms(1), of "\<lambda>e. io_err (wrap e)" R f] assms(2,3)
  by (simp add: io_else_def io_try_def triple_return)

lemma triple_call: "(\<And>M. hold (M + P) c = M + Q) \<Longrightarrow> triple P (io_call a c) (\<lambda>_. Q)"
  by (auto simp: triple_def io_call_def)

lemma foldl_quiet: "list_all (\<lambda>c. \<forall>M. hold M c = M) cs \<Longrightarrow> foldl hold M cs = M"
  by (induction cs arbitrary: M) auto

lemma triple_quiet:
  assumes "calls (\<lambda>c. \<forall>M. hold M c = M) m"
  shows "triple P m (\<lambda>_. P)"
proof (rule tripleI)
  fix t x t'
  assume "m t = (x, t')"
  moreover from assms obtain cs where "snd (m t) = t @ cs" "list_all (\<lambda>c. \<forall>M. hold M c = M) cs"
    unfolding calls_def by blast
  ultimately show "\<exists>cs. t' = t @ cs \<and> (\<forall>M. foldl hold (M + P) cs = M + P)"
    by (intro exI[of _ cs]) (simp add: foldl_quiet)
qed

lemma confined_quiet: "confined root c \<Longrightarrow> \<forall>M. hold M c = M"
  by (cases c) auto

end
