(* ===== verification/Docker_Build.thy ===== *)
theory Docker_Build
  imports Host_Held
begin

section \<open>The docker build shim: internal/dockerbuild\<close>

text \<open>
  Inside the sandbox the command \<^verbatim>\<open>docker build\<close> is the tool itself, which turns the arguments into a call
  of \<^verbatim>\<open>buildctl\<close>. So that builds trust the intercepting proxy, the Dockerfile is rewritten: certificates and
  settings are copied in before the instructions that run programs. Parameters: the Dockerfile parser,
  URL and certificate parsing, the encoders of the trust store and of XML, and the builder's programs.
\<close>

subsection \<open>Environment\<close>

definition lookupEnvValue :: "string list \<Rightarrow> string \<Rightarrow> string option" where
  "lookupEnvValue env key =
     map_option (\<lambda>e. trim_prefix e (key @ ''='')) (find (\<lambda>e. has_prefix e (key @ ''='')) (rev env))"

definition proxyBuildKeys :: "string list" where
  "proxyBuildKeys = [''HTTP_PROXY'', ''HTTPS_PROXY'', ''NO_PROXY'', ''http_proxy'', ''https_proxy'', ''no_proxy'']"

definition proxyBuildArgsFromEnv :: "string list \<Rightarrow> string list" where
  "proxyBuildArgsFromEnv env =
     concat (map (\<lambda>key. case lookupEnvValue env key of Some value \<Rightarrow> [key @ ''='' @ value] | None \<Rightarrow> []) proxyBuildKeys)"

definition splitEnvEntry :: "string \<Rightarrow> (string \<times> string) option" where
  "splitEnvEntry entry =
     (if entry = [] then None
      else case str_cut CHR ''='' entry of None \<Rightarrow> Some (entry, []) | Some kv \<Rightarrow> Some kv)"

definition filterBuilderProxyEnv :: "string list \<Rightarrow> string list" where
  "filterBuilderProxyEnv env =
     filter (\<lambda>entry. case splitEnvEntry entry of None \<Rightarrow> False | Some (key, _) \<Rightarrow> key \<notin> set proxyBuildKeys) env"

definition bboxProxyArgsOnlyEnvKey :: string where
  "bboxProxyArgsOnlyEnvKey = ''BBOX_DOCKER_BUILD_PROXY_ARGS_ONLY''"

definition filterBuilderControlEnv :: "string list \<Rightarrow> string list" where
  "filterBuilderControlEnv env =
     filter (\<lambda>entry. case splitEnvEntry entry of None \<Rightarrow> False | Some (key, _) \<Rightarrow> key \<noteq> bboxProxyArgsOnlyEnvKey) env"

definition withBuilderRuntimeEnv :: "string list \<Rightarrow> string list" where
  "withBuilderRuntimeEnv env =
     (let out = filterBuilderControlEnv env;
          out = (case lookupEnvValue env bboxProxyArgsOnlyEnvKey of
                   Some value \<Rightarrow> if trim_space value = ''1'' then filterBuilderProxyEnv out else out
                 | None \<Rightarrow> out) in
      case lookupEnvValue out ''GODEBUG'' of
        None \<Rightarrow> out @ [''GODEBUG=netdns=cgo'']
      | Some godebug \<Rightarrow>
          if trim_space godebug = [] then out @ [''GODEBUG=netdns=cgo'']
          else if contains_str godebug ''netdns='' then out
          else out @ [''GODEBUG='' @ godebug @ '',netdns=cgo''])"

subsection \<open>Proxy settings: proxyconfig.go\<close>

record proxyConfig =
  pc_HTTPHost :: string
  pc_HTTPPort :: string
  pc_HTTPSHost :: string
  pc_HTTPSPort :: string
  pc_NonProxyHosts :: "string list"

definition proxyEnabled :: "proxyConfig \<Rightarrow> bool" where
  "proxyEnabled cfg \<longleftrightarrow> pc_HTTPHost cfg \<noteq> [] \<and> pc_HTTPPort cfg \<noteq> [] \<or> pc_HTTPSHost cfg \<noteq> [] \<and> pc_HTTPSPort cfg \<noteq> []"

definition preferredProxyEnvValue :: "string list \<Rightarrow> string \<Rightarrow> string \<Rightarrow> string option" where
  "preferredProxyEnvValue env uppercase lowercase =
     (let nonblank = (\<lambda>v. if trim_space v = [] then None else Some (trim_space v)) in
      case lookupEnvValue env uppercase of
        Some value \<Rightarrow> nonblank value
      | None \<Rightarrow> (case lookupEnvValue env lowercase of Some value \<Rightarrow> nonblank value | None \<Rightarrow> None))"

definition defaultPortForProxyScheme :: "string \<Rightarrow> string" where
  "defaultPortForProxyScheme scheme = (if to_lower (trim_space scheme) = ''https'' then ''443'' else ''80'')"

definition normalizeProxyPort :: "string \<Rightarrow> string result" where
  "normalizeProxyPort raw =
     (case atoi (trim_space raw) of
        None \<Rightarrow> err (''proxy port '' @ go_quote raw @ '' is not numeric'')
      | Some port \<Rightarrow>
          if port \<le> 0 \<or> port > 65535 then err (''proxy port '' @ itoa port @ '' is out of range'')
          else ok (itoa port))"

text \<open>A parsed URL: its scheme, \<^verbatim>\<open>Hostname()\<close> and \<^verbatim>\<open>Port()\<close>.\<close>

type_synonym proxy_url_parser = "string \<Rightarrow> (string \<times> string \<times> string) result"

definition parseProxyURL :: "proxy_url_parser \<Rightarrow> string \<Rightarrow> string \<Rightarrow> (string \<times> string) result" where
  "parseProxyURL parse raw defaultScheme =
     (let trimmed = trim_space raw;
          value = (if contains_str trimmed ''://'' then trimmed else defaultScheme @ ''://'' @ trimmed) in
      if trimmed = [] then err ''proxy value is empty''
      else case parse value of
        Inl e \<Rightarrow> err (''invalid proxy URL: '' @ e)
      | Inr (rawScheme, rawHost, rawPort) \<Rightarrow>
          let lowered = to_lower (trim_space rawScheme); scheme = (if lowered = [] then defaultScheme else lowered);
              host = trim_space rawHost;
              port = (if trim_space rawPort = [] then defaultPortForProxyScheme scheme else trim_space rawPort) in
          if scheme \<noteq> ''http'' \<and> scheme \<noteq> ''https'' then err (''unsupported proxy scheme '' @ go_quote scheme)
          else if host = [] then err ''proxy host is empty''
          else res_bind (normalizeProxyPort port) (\<lambda>p. ok (host, p)))"

definition splitNonProxyHosts :: "string \<Rightarrow> string list" where
  "splitNonProxyHosts raw = filter (\<lambda>h. h \<noteq> []) (map trim_space (split_on CHR '','' raw))"

definition proxyEndpoint ::
  "proxy_url_parser \<Rightarrow> string list \<Rightarrow> string \<Rightarrow> string \<Rightarrow> string \<Rightarrow> string \<Rightarrow> (string \<times> string) result" where
  "proxyEndpoint parse env uppercase lowercase scheme name =
     (case preferredProxyEnvValue env uppercase lowercase of
        None \<Rightarrow> ok ([], [])
      | Some raw \<Rightarrow> map_error (\<lambda>e. ''parse '' @ name @ '' proxy: '' @ e) (parseProxyURL parse raw scheme))"

definition proxyConfigFromEnv :: "proxy_url_parser \<Rightarrow> string list \<Rightarrow> proxyConfig result" where
  "proxyConfigFromEnv parse env =
     res_bind (proxyEndpoint parse env ''HTTP_PROXY'' ''http_proxy'' ''http'' ''HTTP'') (\<lambda>(httpHost, httpPort).
     res_bind (proxyEndpoint parse env ''HTTPS_PROXY'' ''https_proxy'' ''https'' ''HTTPS'') (\<lambda>(httpsHost, httpsPort).
     ok \<lparr>pc_HTTPHost = httpHost, pc_HTTPPort = httpPort, pc_HTTPSHost = httpsHost, pc_HTTPSPort = httpsPort,
         pc_NonProxyHosts = (case preferredProxyEnvValue env ''NO_PROXY'' ''no_proxy'' of
           None \<Rightarrow> [] | Some raw \<Rightarrow> splitNonProxyHosts raw)\<rparr>))"

definition isValidJavaNonProxyHost :: "string \<Rightarrow> bool" where
  "isValidJavaNonProxyHost host \<longleftrightarrow>
     host \<noteq> [] \<and> \<not> has_prefix host ''.'' \<and> \<not> has_suffix host ''.'' \<and> \<not> contains_str host ''..'' \<and>
     list_all (\<lambda>c. is_lower c \<or> is_upper c \<or> is_digit c \<or> c = CHR ''.'' \<or> c = CHR ''-'' \<or> c = CHR ''_'') host"

definition normalizeJavaNonProxyEntry :: "string \<Rightarrow> string option" where
  "normalizeJavaNonProxyEntry raw =
     (let entry = trim_space raw; starred = (\<lambda>suffix. if isValidJavaNonProxyHost suffix then Some (''*.'' @ suffix) else None) in
      if entry = [] then None
      else if entry = ''*'' then Some entry
      else if list_ex (\<lambda>c. c \<in> set (''[]/| '' @ [CHR 0x09, CHR 0x0D, CHR 0x0A])) entry then None
      else if has_prefix entry ''.'' then starred (trim_prefix entry ''.'')
      else if has_prefix entry ''*.'' then starred (trim_prefix entry ''*.'')
      else if contains_char entry CHR ''*'' \<or> contains_char entry CHR '':'' then None
      else if isValidJavaNonProxyHost entry then Some entry else None)"

fun nonProxyEntries :: "string list \<Rightarrow> string list \<Rightarrow> string list" where
  "nonProxyEntries normalized [] = normalized"
| "nonProxyEntries normalized (entry # entries) =
     (case normalizeJavaNonProxyEntry entry of
        None \<Rightarrow> nonProxyEntries normalized entries
      | Some parsed \<Rightarrow> nonProxyEntries (if parsed \<in> set normalized then normalized else normalized @ [parsed]) entries)"

definition javaNonProxyHosts :: "string list \<Rightarrow> string" where
  "javaNonProxyHosts nonProxy = join ''|'' (nonProxyEntries [] nonProxy)"

definition javaProxyOptions :: "proxyConfig \<Rightarrow> string list" where
  "javaProxyOptions cfg =
     (if pc_HTTPHost cfg \<noteq> [] \<and> pc_HTTPPort cfg \<noteq> []
      then [''-Dhttp.proxyHost='' @ pc_HTTPHost cfg, ''-Dhttp.proxyPort='' @ pc_HTTPPort cfg] else []) @
     (if pc_HTTPSHost cfg \<noteq> [] \<and> pc_HTTPSPort cfg \<noteq> []
      then [''-Dhttps.proxyHost='' @ pc_HTTPSHost cfg, ''-Dhttps.proxyPort='' @ pc_HTTPSPort cfg] else []) @
     (if javaNonProxyHosts (pc_NonProxyHosts cfg) \<noteq> []
      then [''-Dhttp.nonProxyHosts='' @ javaNonProxyHosts (pc_NonProxyHosts cfg)] else [])"

definition javaProxyOptionsFromEnv :: "proxy_url_parser \<Rightarrow> string list \<Rightarrow> string list result" where
  "javaProxyOptionsFromEnv parse env = res_bind (proxyConfigFromEnv parse env) (\<lambda>cfg. ok (javaProxyOptions cfg))"

record maven_proxy =
  mp_ID :: string
  mp_Active :: bool
  mp_Protocol :: string
  mp_Host :: string
  mp_Port :: string
  mp_NonProxyHosts :: string

definition mavenProxies :: "proxyConfig \<Rightarrow> maven_proxy list" where
  "mavenProxies cfg =
     (let nonProxy = javaNonProxyHosts (pc_NonProxyHosts cfg) in
      (if pc_HTTPHost cfg \<noteq> [] \<and> pc_HTTPPort cfg \<noteq> []
       then [\<lparr>mp_ID = ''bbox-http-proxy'', mp_Active = True, mp_Protocol = ''http'', mp_Host = pc_HTTPHost cfg,
              mp_Port = pc_HTTPPort cfg, mp_NonProxyHosts = nonProxy\<rparr>] else []) @
      (if pc_HTTPSHost cfg \<noteq> [] \<and> pc_HTTPSPort cfg \<noteq> []
       then [\<lparr>mp_ID = ''bbox-https-proxy'', mp_Active = True, mp_Protocol = ''https'', mp_Host = pc_HTTPSHost cfg,
              mp_Port = pc_HTTPSPort cfg, mp_NonProxyHosts = nonProxy\<rparr>] else []))"

definition renderMavenSettings :: "(maven_proxy list \<Rightarrow> string result) \<Rightarrow> proxyConfig \<Rightarrow> string result" where
  "renderMavenSettings marshal cfg =
     (if \<not> proxyEnabled cfg then err ''proxy config is empty'' else marshal (mavenProxies cfg))"

subsection \<open>Trust stores: truststore.go\<close>

record generatedTruststore =
  gt_Path :: string
  gt_Password :: string
  gt_Type :: string

definition no_truststore :: generatedTruststore where
  "no_truststore = \<lparr>gt_Path = [], gt_Password = [], gt_Type = []\<rparr>"

text \<open>
  \<^verbatim>\<open>pem.Decode\<close> gives the type and the bytes of the next block and the place of its last byte; what
  remains is behind it.
\<close>

record 'cert cert_calls =
  ct_pem :: "string \<Rightarrow> ((string \<times> string) \<times> nat) option"
  ct_x509 :: "string \<Rightarrow> 'cert result"
  ct_pkcs12 :: "'cert list \<Rightarrow> string \<Rightarrow> string result"
  ct_password :: string

definition certsOrError :: "'cert list \<Rightarrow> 'cert list result" where
  "certsOrError certs = (if certs = [] then err ''parse PEM trust bundle: no certificates found'' else ok certs)"

function parseTrustBundleCertificates :: "'cert cert_calls \<Rightarrow> string \<Rightarrow> 'cert list \<Rightarrow> 'cert list result" where
  "parseTrustBundleCertificates ct remaining certs =
     (if remaining = [] then certsOrError certs
      else case ct_pem ct remaining of
        None \<Rightarrow> if trim_space remaining = [] then certsOrError certs else err ''parse PEM trust bundle: invalid PEM data''
      | Some ((ty, bytes), k) \<Rightarrow>
          if ty \<noteq> ''CERTIFICATE'' then parseTrustBundleCertificates ct (drop (Suc k) remaining) certs
          else (case ct_x509 ct bytes of
              Inl e \<Rightarrow> err (''parse PEM certificate: '' @ e)
            | Inr cert \<Rightarrow> parseTrustBundleCertificates ct (drop (Suc k) remaining) (certs @ [cert])))"
  by pat_completeness auto
termination by (relation "measure (\<lambda>(_, remaining, _). length remaining)") auto

declare parseTrustBundleCertificates.simps [simp del]

definition bboxJavaTruststoreFileName :: string where
  "bboxJavaTruststoreFileName = ''bbox-truststore.p12''"

definition bboxMavenSettingsFileName :: string where
  "bboxMavenSettingsFileName = ''bbox-maven-settings.xml''"

definition writePKCS12Truststore :: "host \<Rightarrow> 'cert cert_calls \<Rightarrow> string \<Rightarrow> string \<Rightarrow> generatedTruststore result io" where
  "writePKCS12Truststore h ct stageDir pemBundle =
     (case parseTrustBundleCertificates ct pemBundle [] of
        Inl e \<Rightarrow> io_err e
      | Inr certs \<Rightarrow>
          (case ct_pkcs12 ct certs (ct_password ct) of
             Inl e \<Rightarrow> io_err (''encode PKCS#12 truststore: '' @ e)
           | Inr encoded \<Rightarrow>
               let path = path_join [stageDir, bboxJavaTruststoreFileName] in
               io_try (ctx (''write PKCS#12 truststore '' @ path)) (os_WriteFile h path encoded 420) (\<lambda>_.
               io_ok \<lparr>gt_Path = path, gt_Password = ct_password ct, gt_Type = ''PKCS12''\<rparr>)))"

subsection \<open>Rewriting the Dockerfile: rewrite.go\<close>

record trustInjectionOptions =
  ti_pemPath :: string
  ti_javaTruststorePath :: string
  ti_javaToolOptions :: "string list"
  ti_mavenSettingsPath :: string

definition injectedTrustBundlePrimaryPath :: string where
  "injectedTrustBundlePrimaryPath = ''/etc/ssl/certs/ca-certificates.crt''"

definition injectedTrustBundleDestinations :: "string list" where
  "injectedTrustBundleDestinations =
     [''/etc/ssl/certs/ca-certificates.crt'', ''/etc/ssl/cert.pem'', ''/etc/pki/tls/certs/ca-bundle.crt'']"

definition injectedJavaTruststorePath :: string where
  "injectedJavaTruststorePath = ''/etc/ssl/certs/bbox-truststore.p12''"

definition injectedMavenSettingsPath :: string where
  "injectedMavenSettingsPath = ''/etc/maven/bbox-settings.xml''"

definition bboxTrustContextName :: string where
  "bboxTrustContextName = ''bbox_mitm_trust''"

definition bboxTrustBundleFileName :: string where
  "bboxTrustBundleFileName = ''bbox-trust-bundle.pem''"

definition copy_line :: "string \<Rightarrow> string \<Rightarrow> string" where
  "copy_line name dest = ''COPY --from='' @ bboxTrustContextName @ '' /'' @ name @ '' '' @ dest @ [CHR 0x0A]"

definition pemVariables :: "string list" where
  "pemVariables = [''SSL_CERT_FILE'', ''NODE_EXTRA_CA_CERTS'', ''NPM_CONFIG_CAFILE'', ''CURL_CA_BUNDLE'', ''REQUESTS_CA_BUNDLE'',
     ''PIP_CERT'', ''GIT_SSL_CAINFO'']"

definition trustBundlePerRunInjectionSnippet :: "trustInjectionOptions \<Rightarrow> string" where
  "trustBundlePerRunInjectionSnippet injection =
     (if trim_space (ti_pemPath injection) = [] then []
      else concat (map (copy_line bboxTrustBundleFileName) injectedTrustBundleDestinations) @
           concat (map (\<lambda>v. ''ENV '' @ v @ ''='' @ ti_pemPath injection @ [CHR 0x0A]) pemVariables))"

definition trustStageBootstrapSnippet :: "trustInjectionOptions \<Rightarrow> string" where
  "trustStageBootstrapSnippet injection =
     (if trim_space (ti_javaTruststorePath injection) \<noteq> []
      then copy_line bboxJavaTruststoreFileName (ti_javaTruststorePath injection) else []) @
     (if ti_javaToolOptions injection \<noteq> []
      then ''ENV JAVA_TOOL_OPTIONS '' @ join '' '' (ti_javaToolOptions injection) @ '' ${JAVA_TOOL_OPTIONS}'' @ [CHR 0x0A] else []) @
     (if trim_space (ti_mavenSettingsPath injection) \<noteq> []
      then copy_line bboxMavenSettingsFileName (ti_mavenSettingsPath injection) @
           ''ENV MAVEN_ARGS --settings '' @ ti_mavenSettingsPath injection @ '' ${MAVEN_ARGS}'' @ [CHR 0x0A] else [])"

definition javaTruststoreOptions :: "generatedTruststore \<Rightarrow> string list" where
  "javaTruststoreOptions ts =
     (if trim_space (gt_Path ts) = [] \<or> trim_space (gt_Type ts) = [] \<or> trim_space (gt_Password ts) = [] then []
      else [''-Djavax.net.ssl.trustStore='' @ injectedJavaTruststorePath, ''-Djavax.net.ssl.trustStoreType='' @ gt_Type ts,
            ''-Djavax.net.ssl.trustStorePassword='' @ gt_Password ts])"

text \<open>
  The parser gives the instructions with the line on which each starts, \<open>None\<close> for no tree. The scan
  marks the lines of the RUN instructions and whether each is the first of its stage.
\<close>

type_synonym dockerfile_parser = "string \<Rightarrow> (string \<times> int) list option result"

definition instruction :: "string \<times> int \<Rightarrow> string" where
  "instruction child = to_lower (trim_space (fst child))"

fun runLines :: "bool \<Rightarrow> (string \<times> int) list \<Rightarrow> (int \<times> bool) list" where
  "runLines sawRun [] = []"
| "runLines sawRun (child # children) =
     (let sawRun = (if instruction child = ''from'' then False else sawRun) in
      if instruction child = ''run'' \<and> snd child > 0 then (snd child, \<not> sawRun) # runLines True children
      else runLines sawRun children)"

fun split_after :: "string \<Rightarrow> string list" where
  "split_after [] = [[]]"
| "split_after (c # cs) =
     (if c = CHR 0x0A then [c] # split_after cs
      else case split_after cs of [] \<Rightarrow> [[c]] | l # ls \<Rightarrow> (c # l) # ls)"

fun injectLines :: "(int \<Rightarrow> string) \<Rightarrow> int \<Rightarrow> string list \<Rightarrow> string" where
  "injectLines before lineNo [] = []"
| "injectLines before lineNo (line # ls) = before lineNo @ line @ injectLines before (lineNo + 1) ls"

definition rewriteDockerfileWithTrustBundle :: "dockerfile_parser \<Rightarrow> string \<Rightarrow> trustInjectionOptions \<Rightarrow> string result" where
  "rewriteDockerfileWithTrustBundle parse content opts =
     (case parse content of
        Inl e \<Rightarrow> err e
      | Inr None \<Rightarrow> ok content
      | Inr (Some children) \<Rightarrow>
          let perRun = trustBundlePerRunInjectionSnippet opts; bootstrap = trustStageBootstrapSnippet opts;
              marked = runLines False children;
              injectBeforeLine = (if perRun = [] then {} else fst ` set marked);
              injectStageBootstrap = (if bootstrap = [] then {} else fst ` set (filter snd marked)) in
          if perRun = [] \<and> bootstrap = [] then ok content
          else if injectBeforeLine = {} \<and> injectStageBootstrap = {} then ok content
          else ok (injectLines (\<lambda>lineNo. (if lineNo \<in> injectStageBootstrap then bootstrap else []) @
                                         (if lineNo \<in> injectBeforeLine then perRun else [])) 1 (split_after content)))"

subsection \<open>The rewritten Dockerfile\<close>

definition is_run :: "string \<times> int \<Rightarrow> bool" where
  "is_run child \<longleftrightarrow> instruction child = ''run'' \<and> snd child > 0"

text \<open>The \<open>k\<close>-th instruction is a RUN, and since the last FROM before it there was none.\<close>

definition first_run :: "(string \<times> int) list \<Rightarrow> nat \<Rightarrow> bool" where
  "first_run children k \<longleftrightarrow> k < length children \<and> is_run (children ! k) \<and>
     (\<forall>j < k. is_run (children ! j) \<longrightarrow> (\<exists>m. j < m \<and> m < k \<and> instruction (children ! m) = ''from''))"

definition run_seen :: "bool \<Rightarrow> (string \<times> int) list \<Rightarrow> nat \<Rightarrow> bool" where
  "run_seen sawRun children k \<longleftrightarrow>
     (\<exists>j < k. is_run (children ! j) \<and> (\<forall>m. j < m \<and> m < k \<longrightarrow> instruction (children ! m) \<noteq> ''from'')) \<or>
     sawRun \<and> (\<forall>m < k. instruction (children ! m) \<noteq> ''from'')"

lemma run_seen_Suc:
  "run_seen sawRun (c # cs) (Suc k) \<longleftrightarrow> run_seen (is_run c \<or> instruction c \<noteq> ''from'' \<and> sawRun) cs k"
proof -
  have split: "(\<forall>m::nat. Q m) \<longleftrightarrow> Q 0 \<and> (\<forall>m. Q (Suc m))" for Q by (metis not0_implies_Suc)
  have shift: "(\<forall>m. Suc j < m \<and> m < Suc k \<longrightarrow> P ((c # cs) ! m)) \<longleftrightarrow> (\<forall>m. j < m \<and> m < k \<longrightarrow> P (cs ! m))"
    "(\<forall>m. 0 < m \<and> m < Suc k \<longrightarrow> P ((c # cs) ! m)) \<longleftrightarrow> (\<forall>m < k. P (cs ! m))" for j and P :: "string \<times> int \<Rightarrow> bool"
    by (subst split; simp)+
  have run: "is_run c \<Longrightarrow> instruction c \<noteq> ''from''" by (simp add: is_run_def)
  show ?thesis
    unfolding run_seen_def Ex_less_Suc2 All_less_Suc2 nth_Cons_0 nth_Cons_Suc
      shift(1)[where P = "\<lambda>x. instruction x \<noteq> ''from''"] shift(2)[where P = "\<lambda>x. instruction x \<noteq> ''from''"]
    using run by blast
qed

lemma runLines_Cons:
  "runLines sawRun (c # cs) = (if is_run c then [(snd c, \<not> sawRun)] else []) @ runLines (is_run c \<or> instruction c \<noteq> ''from'' \<and> sawRun) cs"
  by (auto simp: is_run_def Let_def)

lemma runLines_spec:
  "(l, first) \<in> set (runLines sawRun cs) \<longleftrightarrow>
     (\<exists>k < length cs. is_run (cs ! k) \<and> l = snd (cs ! k) \<and> first = (\<not> run_seen sawRun cs k))"
proof (induction cs arbitrary: sawRun)
  case (Cons c cs)
  have "run_seen sawRun (c # cs) 0 = sawRun" by (simp add: run_seen_def)
  then show ?case
    unfolding length_Cons Ex_less_Suc2 nth_Cons_0 nth_Cons_Suc run_seen_Suc runLines_Cons set_append Un_iff Cons
    by (simp, blast)
qed simp

lemma first_run_seen: "first_run cs k \<longleftrightarrow> k < length cs \<and> is_run (cs ! k) \<and> \<not> run_seen False cs k"
  by (auto simp: first_run_def run_seen_def)

lemma split_after_concat [simp]: "concat (split_after s) = s"
  by (induction s) (auto split: list.split)

lemma injectLines_nothing: "injectLines (\<lambda>_. []) n ls = concat ls"
  by (induction ls arbitrary: n) auto

lemma injectLines_chunks:
  "injectLines before n ls = concat (map (\<lambda>(ins, line). ins @ line) (zip (map (\<lambda>i. before (n + int i)) [0..<length ls]) ls))"
proof (induction ls arbitrary: n)
  case (Cons l ls)
  have "map (\<lambda>i. before (n + int i)) [0..<length (l # ls)] = before n # map (\<lambda>i. before (n + 1 + int i)) [0..<length ls]"
    by (simp add: upt_conv_Cons map_Suc_upt[symmetric] comp_def ac_simps del: upt_Suc)
  with Cons show ?case by simp
qed simp

text \<open>
  C33. The rewritten Dockerfile is the original, line for line, with the certificates copied in directly
  before every RUN instruction and the settings for Java and Maven before the first RUN of every stage,
  and with nothing inserted anywhere else.
\<close>

theorem dockerfile_rewrite:
  assumes "parse content = Inr (Some children)" and "rewriteDockerfileWithTrustBundle parse content opts = Inr out"
  shows "\<exists>chunks. out = concat (map (\<lambda>(ins, line). ins @ line) chunks) \<and> map snd chunks = split_after content \<and>
     concat (map snd chunks) = content \<and>
     (\<forall>i < length chunks. fst (chunks ! i) =
        (if \<exists>k. first_run children k \<and> snd (children ! k) = int i + 1 then trustStageBootstrapSnippet opts else []) @
        (if \<exists>k < length children. is_run (children ! k) \<and> snd (children ! k) = int i + 1
         then trustBundlePerRunInjectionSnippet opts else []))"
proof -
  let ?run = "\<lambda>l. \<exists>k < length children. is_run (children ! k) \<and> snd (children ! k) = l"
  let ?first = "\<lambda>l. \<exists>k. first_run children k \<and> snd (children ! k) = l"
  let ?before = "\<lambda>l. (if ?first l then trustStageBootstrapSnippet opts else []) @
     (if ?run l then trustBundlePerRunInjectionSnippet opts else [])"
  have run: "l \<in> fst ` set (runLines False children) \<longleftrightarrow> ?run l" for l
  proof -
    have "l \<in> fst ` set (runLines False children) \<longleftrightarrow> (\<exists>b. (l, b) \<in> set (runLines False children))" by force
    then show ?thesis by (auto simp: runLines_spec)
  qed
  have first: "l \<in> fst ` set (filter snd (runLines False children)) \<longleftrightarrow> ?first l" for l
    using runLines_spec[of l] by (auto simp: first_run_seen image_iff)
  define R where "R = (if trustBundlePerRunInjectionSnippet opts = [] then {} else fst ` set (runLines False children))"
  define S where "S = (if trustStageBootstrapSnippet opts = [] then {} else fst ` set (filter snd (runLines False children)))"
  let ?b = "\<lambda>l. (if l \<in> S then trustStageBootstrapSnippet opts else []) @ (if l \<in> R then trustBundlePerRunInjectionSnippet opts else [])"
  have "?b = ?before" unfolding R_def S_def by (rule ext) (simp only: run first split: if_split, auto)
  moreover have "rewriteDockerfileWithTrustBundle parse content opts =
      (if trustBundlePerRunInjectionSnippet opts = [] \<and> trustStageBootstrapSnippet opts = [] then ok content
       else if R = {} \<and> S = {} then ok content else ok (injectLines ?b 1 (split_after content)))"
    unfolding rewriteDockerfileWithTrustBundle_def Let_def assms(1) sum.case option.case R_def[symmetric] S_def[symmetric] ..
  then have "out = (if trustBundlePerRunInjectionSnippet opts = [] \<and> trustStageBootstrapSnippet opts = [] \<or> R = {} \<and> S = {}
      then content else injectLines ?b 1 (split_after content))"
    using assms(2) by (metis (no_types, lifting) sum.inject(2))
  moreover have "injectLines ?b 1 (split_after content) = content"
    if "trustBundlePerRunInjectionSnippet opts = [] \<and> trustStageBootstrapSnippet opts = [] \<or> R = {} \<and> S = {}"
  proof -
    have "?b = (\<lambda>_. [])" using that by (intro ext) auto
    then show ?thesis by (simp only: injectLines_nothing split_after_concat)
  qed
  ultimately have "out = injectLines ?before 1 (split_after content)" by presburger
  then show ?thesis
    by (intro exI[of _ "zip (map (\<lambda>i. ?before (1 + int i)) [0..<length (split_after content)]) (split_after content)"])
      (simp add: injectLines_chunks add.commute)
qed

subsection \<open>Hosts without proxy\<close>

lemma valid_host_plain: "isValidJavaNonProxyHost s \<Longrightarrow> s \<noteq> [] \<and> (\<forall>c \<in> set s. c \<noteq> CHR ''|'' \<and> \<not> is_space c)"
  by (auto simp: isValidJavaNonProxyHost_def list_all_iff is_lower_def is_upper_def is_digit_def is_space_def)

lemma nonproxy_entry_plain:
  assumes "normalizeJavaNonProxyEntry h = Some e"
  shows "e \<noteq> [] \<and> CHR ''|'' \<notin> set e \<and> (\<forall>c \<in> set e. \<not> is_space c)"
proof -
  from assms consider "e = ''*''" | s where "e = ''*.'' @ s" "isValidJavaNonProxyHost s" | "isValidJavaNonProxyHost e"
    unfolding normalizeJavaNonProxyEntry_def Let_def by (metis option.distinct(1) option.inject)
  then show ?thesis
  proof cases
    case 2
    with valid_host_plain[of s] show ?thesis by (auto simp: is_space_def)
  qed (use valid_host_plain[of e] in \<open>auto simp: is_space_def\<close>)
qed

lemma nonProxyEntries_spec:
  assumes "distinct acc"
  shows "distinct (nonProxyEntries acc hs) \<and>
     set (nonProxyEntries acc hs) = set acc \<union> {e. \<exists>h \<in> set hs. normalizeJavaNonProxyEntry h = Some e}"
  using assms by (induction hs arbitrary: acc) (auto split: option.split)

text \<open>
  The list of hosts without proxy for Java has exactly the accepted entries, each once; it reads back by
  its separator and has no blank, so that no entry can add an option of its own.
\<close>

theorem java_non_proxy_roundtrip:
  assumes "javaNonProxyHosts hs \<noteq> []"
  shows "distinct (split_on CHR ''|'' (javaNonProxyHosts hs)) \<and>
     set (split_on CHR ''|'' (javaNonProxyHosts hs)) = {e. \<exists>h \<in> set hs. normalizeJavaNonProxyEntry h = Some e} \<and>
     (\<forall>c \<in> set (javaNonProxyHosts hs). \<not> is_space c)"
proof -
  let ?es = "nonProxyEntries [] hs"
  have es: "distinct ?es" "set ?es = {e. \<exists>h \<in> set hs. normalizeJavaNonProxyEntry h = Some e}"
    using nonProxyEntries_spec[of "[]" hs] by simp_all
  have chars: "c \<in> set (join sep xs) \<Longrightarrow> c \<in> set sep \<or> (\<exists>x \<in> set xs. c \<in> set x)" for c sep xs
    by (induction sep xs rule: join.induct) auto
  have "?es \<noteq> []" using assms by (auto simp: javaNonProxyHosts_def)
  then have "split_on CHR ''|'' (javaNonProxyHosts hs) = ?es"
    unfolding javaNonProxyHosts_def using es(2) nonproxy_entry_plain by (intro split_on_join) auto
  moreover have "\<forall>c \<in> set (javaNonProxyHosts hs). \<not> is_space c"
    using es(2) nonproxy_entry_plain by (auto simp: javaNonProxyHosts_def is_space_def dest!: chars)
  ultimately show ?thesis using es by simp
qed

theorem java_non_proxy_roundtrip_witness:
  "distinct (split_on CHR ''|'' (javaNonProxyHosts [''.a.b'', ''x y'', ''*.a.b'', ''h'']))"
proof -
  have "javaNonProxyHosts [''.a.b'', ''x y'', ''*.a.b'', ''h''] \<noteq> []" by code_simp
  from java_non_proxy_roundtrip[OF this] show ?thesis by simp
qed

subsection \<open>The builder's environment\<close>

lemma lookupEnvValue_snoc: "lookupEnvValue (env @ [key @ ''='' @ v]) key = Some v"
  by (simp add: lookupEnvValue_def has_prefix_def trim_prefix_def)

lemma lookupEnvValue_None: "lookupEnvValue env key = None \<longleftrightarrow> (\<forall>e \<in> set env. \<not> has_prefix e (key @ ''=''))"
  by (auto simp: lookupEnvValue_def find_None_iff)

lemma split_prefixed:
  assumes "has_prefix e (key @ ''='')" and "CHR ''='' \<notin> set key"
  shows "\<exists>v. splitEnvEntry e = Some (key, v)"
proof -
  from assms(1) obtain v where "e = key @ CHR ''='' # v" by (auto simp: has_prefix_def prefix_def)
  then show ?thesis using assms(2) by (auto simp: splitEnvEntry_def str_cut_Some split: option.split)
qed

text \<open>
  The builder resolves names through the C library, and when the proxy is only for build arguments
  it has no proxy variable of its own.
\<close>

theorem builder_environment:
  "(\<exists>v. lookupEnvValue (withBuilderRuntimeEnv env) ''GODEBUG'' = Some v \<and> contains_str v ''netdns='') \<and>
   (map_option trim_space (lookupEnvValue env bboxProxyArgsOnlyEnvKey) = Some ''1'' \<and> key \<in> set proxyBuildKeys \<longrightarrow>
      lookupEnvValue (withBuilderRuntimeEnv env) key = None)"
proof (intro conjI impI)
  define out where "out = (case lookupEnvValue env bboxProxyArgsOnlyEnvKey of
     Some value \<Rightarrow> if trim_space value = ''1'' then filterBuilderProxyEnv (filterBuilderControlEnv env) else filterBuilderControlEnv env
   | None \<Rightarrow> filterBuilderControlEnv env)"
  have w: "withBuilderRuntimeEnv env = (case lookupEnvValue out ''GODEBUG'' of
       None \<Rightarrow> out @ [''GODEBUG'' @ ''='' @ ''netdns=cgo'']
     | Some g \<Rightarrow> if trim_space g = [] then out @ [''GODEBUG'' @ ''='' @ ''netdns=cgo'']
                 else if contains_str g ''netdns='' then out else out @ [''GODEBUG'' @ ''='' @ g @ '',netdns=cgo''])"
    unfolding withBuilderRuntimeEnv_def Let_def out_def[symmetric] by (cases "lookupEnvValue out ''GODEBUG''") simp_all
  have "contains_str ''netdns=cgo'' ''netdns=''" by code_simp
  moreover have "contains_str (v @ '',netdns=cgo'') ''netdns=''" for v
    unfolding contains_str_iff by (intro exI[of _ "v @ '',''"] exI[of _ "''cgo''"]) simp
  ultimately show "\<exists>v. lookupEnvValue (withBuilderRuntimeEnv env) ''GODEBUG'' = Some v \<and> contains_str v ''netdns=''"
    unfolding w by (cases "lookupEnvValue out ''GODEBUG''")
      (simp_all only: option.case lookupEnvValue_snoc option.inject ex_simps simp_thms split: if_split, blast)
next
  assume "map_option trim_space (lookupEnvValue env bboxProxyArgsOnlyEnvKey) = Some ''1'' \<and> key \<in> set proxyBuildKeys"
  then obtain flag where only: "lookupEnvValue env bboxProxyArgsOnlyEnvKey = Some flag" "trim_space flag = ''1''"
    and key: "key \<in> set proxyBuildKeys" by auto
  let ?out = "filterBuilderProxyEnv (filterBuilderControlEnv env)"
  have plain: "CHR ''='' \<notin> set key" "\<not> has_prefix (''GODEBUG='' @ v) (key @ ''='')" for v
    using key by (auto simp: proxyBuildKeys_def has_prefix_def)
  have "\<not> has_prefix e (key @ ''='')" if "e \<in> set ?out" for e
    using that key split_prefixed[OF _ plain(1), of e] by (auto simp: filterBuilderProxyEnv_def split: option.splits)
  moreover have "set (withBuilderRuntimeEnv env) \<subseteq> set ?out \<union> {''GODEBUG='' @ v |v. True}"
    using only by (auto simp: withBuilderRuntimeEnv_def Let_def split: option.splits)
  ultimately show "lookupEnvValue (withBuilderRuntimeEnv env) key = None"
    using plain(2) unfolding lookupEnvValue_None by blast
qed

subsection \<open>A concrete Dockerfile\<close>

definition example_dockerfile :: string where
  "example_dockerfile = ''FROM a'' @ [CHR 0x0A] @ ''RUN b'' @ [CHR 0x0A] @ ''RUN c''"

theorem dockerfile_rewrite_witness:
  "\<exists>out chunks. rewriteDockerfileWithTrustBundle (\<lambda>_. Inr (Some [(''FROM'', 1), (''RUN'', 2), (''RUN'', 3)])) example_dockerfile
       \<lparr>ti_pemPath = ''/p'', ti_javaTruststorePath = [], ti_javaToolOptions = [''-D''], ti_mavenSettingsPath = []\<rparr> = Inr out \<and>
     out = concat (map (\<lambda>(ins, line). ins @ line) chunks) \<and> concat (map snd chunks) = example_dockerfile"
proof -
  let ?parse = "\<lambda>_ :: string. Inr (Some [(''FROM'', 1), (''RUN'', 2), (''RUN'', 3)]) :: (string \<times> int) list option result"
  let ?opts = "\<lparr>ti_pemPath = ''/p'', ti_javaTruststorePath = [], ti_javaToolOptions = [''-D''], ti_mavenSettingsPath = []\<rparr>"
  have "is_ok (rewriteDockerfileWithTrustBundle ?parse example_dockerfile ?opts)" by code_simp
  then obtain out where "rewriteDockerfileWithTrustBundle ?parse example_dockerfile ?opts = Inr out" by (auto simp: is_ok_iff)
  with dockerfile_rewrite[of ?parse example_dockerfile _ ?opts out] show ?thesis by blast
qed

end
