(* ===== verification/Sandbox_Root.thy ===== *)
theory Sandbox_Root
  imports Host_Io
begin

section \<open>Staging of the sandbox root: internal/sandboxroot\<close>

text \<open>
  The resolution of binaries, libraries and script interpreters (\<^verbatim>\<open>resolve.go\<close>), the tools of
  the docker build support (\<^verbatim>\<open>builder_tools.go\<close>) and the staging of everything into a fresh
  directory (\<^verbatim>\<open>stage.go\<close>). Staging only ever changes files below that directory and removes it
  when it fails.
\<close>

subsection \<open>Resolving: resolve.go\<close>

definition ResolveBinary :: "host \<Rightarrow> string \<Rightarrow> string result io" where
  "ResolveBinary h nameOrPath =
     (if nameOrPath = [] then io_err ''binary path is required''
      else if contains_char nameOrPath CHR ''/'' then
        io_try (ctx (''resolve absolute binary path '' @ go_quote nameOrPath)) (filepath_Abs h nameOrPath) (\<lambda>absPath.
        io_try (ctx (''binary '' @ go_quote absPath)) (os_Stat h absPath) (\<lambda>_.
        io_ok absPath))
      else
        io_try (ctx (''resolve binary '' @ go_quote nameOrPath)) (exec_LookPath h nameOrPath) (\<lambda>resolved.
        io_try (ctx (''resolve absolute binary path '' @ go_quote resolved)) (filepath_Abs h resolved) io_ok))"

text \<open>\<^verbatim>\<open>strings.SplitN(s, sep, 2)\<close> with two parts.\<close>

fun cut_str :: "string \<Rightarrow> string \<Rightarrow> (string \<times> string) option" where
  "cut_str sep [] = None"
| "cut_str sep (c # s) =
     (if has_prefix (c # s) sep then Some ([], drop (length sep) (c # s))
      else map_option (\<lambda>(a, b). (c # a, b)) (cut_str sep s))"

definition lddLine :: "string \<Rightarrow> string list" where
  "lddLine line0 =
     (let line = trim_space line0 in
      if line = [] then []
      else
        let fields = (case cut_str ''=>'' line of
                        Some (_, rest) \<Rightarrow> str_fields (trim_space rest)
                      | None \<Rightarrow> str_fields line) in
        if fields \<noteq> [] \<and> has_prefix (hd fields) ''/'' then [hd fields] else [])"

definition ParseLddOutput :: "string \<Rightarrow> string list" where
  "ParseLddOutput output = concat (map lddLine (split_on (CHR 0x0A) output))"

definition RuntimeFilesForBinary :: "host \<Rightarrow> string \<Rightarrow> string list result io" where
  "RuntimeFilesForBinary h binaryPath =
     io_bind (io_call (\<lambda>t. h_Ldd h t binaryPath) (Ldd binaryPath)) (\<lambda>r.
       case r of
         (Some e, output) \<Rightarrow>
           if contains_str output ''not a dynamic executable'' then io_ok []
           else io_err (''ldd '' @ binaryPath @ '': '' @ e @ '': '' @ trim_space output)
       | (None, output) \<Rightarrow> io_ok (ParseLddOutput output))"

fun envShebangTarget :: "string list \<Rightarrow> string option" where
  "envShebangTarget [] = None"
| "envShebangTarget (arg0 # args) =
     (let arg = trim_space arg0 in
      if arg = [] then envShebangTarget args
      else if has_prefix arg ''-'' then envShebangTarget args
      else Some arg)"

definition scriptInterpreterChain :: "host \<Rightarrow> string \<Rightarrow> string list result io" where
  "scriptInterpreterChain h path =
     io_try (ctx (''read potential script '' @ go_quote path)) (os_ReadFile h path) (\<lambda>content.
       let line = trim_space (hd (split_on (CHR 0x0A) content)) in
       if \<not> has_prefix line ''#!'' then io_ok []
       else case str_fields (trim_space (trim_prefix line ''#!'')) of
              [] \<Rightarrow> io_err (''script '' @ go_quote path @ '' has an empty shebang'')
            | interpreter # args \<Rightarrow>
                if \<not> is_rooted interpreter
                then io_err (''script '' @ go_quote path @ '' uses non-absolute shebang interpreter '' @
                             go_quote interpreter)
                else if filepath_Base interpreter = ''env'' then
                  (case envShebangTarget args of
                     Some target \<Rightarrow>
                       io_try (ctx (''resolve env shebang target '' @ go_quote target @ '' for '' @ go_quote path))
                         (ResolveBinary h target) (\<lambda>resolved. io_ok [interpreter, resolved])
                   | None \<Rightarrow> io_ok [interpreter])
                else io_ok [interpreter])"

text \<open>
  The recursion of \<^verbatim>\<open>filesForCommandRecursive\<close> follows interpreters until none is new. It takes
  fuel; the empty error text, which no call of the code gives, stands for fuel that ran out. The
  set \<^verbatim>\<open>seen\<close> that the recursive calls share is threaded through.
\<close>

definition out_of_fuel :: error where
  "out_of_fuel = []"

fun filesForCommandRecursive ::
    "host \<Rightarrow> nat \<Rightarrow> string \<Rightarrow> string list \<Rightarrow> (string list \<times> string list) result io"
  and interpreterFiles ::
    "host \<Rightarrow> nat \<Rightarrow> string list \<Rightarrow> string list \<Rightarrow> (string list \<times> string list) result io" where
  "filesForCommandRecursive h 0 commandPath seen = io_err out_of_fuel"
| "filesForCommandRecursive h (Suc n) commandPath seen =
     (let path = path_clean commandPath in
      if path \<in> set seen then io_ok ([], seen)
      else
        io_must (RuntimeFilesForBinary h path) (\<lambda>runtimeFiles.
        io_must (scriptInterpreterChain h path) (\<lambda>interpreters.
        io_must (interpreterFiles h n interpreters (path # seen)) (\<lambda>(files, seen').
        io_ok (path # runtimeFiles @ files, seen')))))"
| "interpreterFiles h n [] seen = io_ok ([], seen)"
| "interpreterFiles h n (i # is) seen =
     io_must (filesForCommandRecursive h n i seen) (\<lambda>(files, seen').
     io_must (interpreterFiles h n is seen') (\<lambda>(rest, seen'').
     io_ok (files @ rest, seen'')))"

definition FilesForCommand :: "host \<Rightarrow> nat \<Rightarrow> string \<Rightarrow> string list result io" where
  "FilesForCommand h fuel commandPath =
     io_must (filesForCommandRecursive h fuel commandPath []) (\<lambda>(files, seen). io_ok files)"

subsection \<open>Docker build tools: builder\_tools.go\<close>

record DockerBuildOptions =
  db_Enabled :: bool
  db_BuildkitdPath :: string
  db_BuildctlPath :: string
  db_RuncPath :: string
  db_PodmanPath :: string
  db_NewuidmapPath :: string
  db_NewgidmapPath :: string

record BuilderTooling =
  bt_BuildkitdPath :: string
  bt_BuildctlPath :: string
  bt_RuncPath :: string
  bt_PodmanPath :: string
  bt_NewuidmapPath :: string
  bt_NewgidmapPath :: string

definition resolveTool :: "host \<Rightarrow> string \<Rightarrow> string \<Rightarrow> string \<Rightarrow> string result io" where
  "resolveTool h override fallback label =
     (let candidate = trim_space override;
          candidate = (if candidate = [] then fallback else candidate) in
      io_try (ctx (''resolve '' @ label)) (ResolveBinary h candidate) io_ok)"

text \<open>\<^verbatim>\<open>bufio.Scanner\<close> gives up at a line that does not fit its buffer of 65536 bytes.\<close>

fun scanSubordinateIDs :: "string \<Rightarrow> string \<Rightarrow> string list \<Rightarrow> bool result" where
  "scanSubordinateIDs path entry [] = ok False"
| "scanSubordinateIDs path entry (line # lines) =
     (if 65536 \<le> int (length line) then err (''scan '' @ path @ '': bufio.Scanner: token too long'')
      else if has_prefix (trim_space line) entry then ok True
      else scanSubordinateIDs path entry lines)"

definition FileHasSubordinateIDEntry :: "host \<Rightarrow> string \<Rightarrow> string \<Rightarrow> bool result io" where
  "FileHasSubordinateIDEntry h path username =
     io_try (ctx (''open '' @ path)) (os_ReadFile h path) (\<lambda>content.
       io_return (scanSubordinateIDs path (username @ '':'') (split_on (CHR 0x0A) content)))"

fun checkSubordinateIDs :: "host \<Rightarrow> string \<Rightarrow> string list \<Rightarrow> unit result io" where
  "checkSubordinateIDs h username [] = io_ok ()"
| "checkSubordinateIDs h username (path # paths) =
     io_must (FileHasSubordinateIDEntry h path username) (\<lambda>found.
       if found then checkSubordinateIDs h username paths
       else io_err (path @ '' does not contain an entry for '' @ username))"

definition ValidateSubordinateIDMappingsForUser :: "host \<Rightarrow> string \<Rightarrow> string \<Rightarrow> string \<Rightarrow> unit result io" where
  "ValidateSubordinateIDMappingsForUser h username subuidPath subgidPath =
     (if trim_space username = [] then io_err ''current username is empty''
      else checkSubordinateIDs h username [subuidPath, subgidPath])"

definition ValidateSubordinateIDMappings :: "host \<Rightarrow> unit result io" where
  "ValidateSubordinateIDMappings h =
     io_try (ctx ''resolve current user'') (user_Current h) (\<lambda>username.
       ValidateSubordinateIDMappingsForUser h username ''/etc/subuid'' ''/etc/subgid'')"

definition ResolveDockerBuildSupport :: "host \<Rightarrow> DockerBuildOptions \<Rightarrow> BuilderTooling option result io" where
  "ResolveDockerBuildSupport h opts =
     (if \<not> db_Enabled opts then io_ok None
      else if h_GOOS h \<noteq> ''linux'' then io_err ''docker build sandbox support is only available on linux''
      else
        io_must (resolveTool h (db_BuildkitdPath opts) ''buildkitd'' ''buildkitd'') (\<lambda>buildkitd.
        io_must (resolveTool h (db_BuildctlPath opts) ''buildctl'' ''buildctl'') (\<lambda>buildctl.
        io_must (resolveTool h (db_RuncPath opts) ''runc'' ''runc'') (\<lambda>runc.
        io_must (resolveTool h (db_PodmanPath opts) ''podman'' ''podman'') (\<lambda>podman.
        io_must (resolveTool h (db_NewuidmapPath opts) ''newuidmap'' ''newuidmap'') (\<lambda>newuidmap.
        io_must (resolveTool h (db_NewgidmapPath opts) ''newgidmap'' ''newgidmap'') (\<lambda>newgidmap.
        io_must (ValidateSubordinateIDMappings h) (\<lambda>_.
        io_ok (Some \<lparr>bt_BuildkitdPath = buildkitd, bt_BuildctlPath = buildctl, bt_RuncPath = runc,
          bt_PodmanPath = podman, bt_NewuidmapPath = newuidmap, bt_NewgidmapPath = newgidmap\<rparr>)))))))))"

definition PrependPATHDir :: "string \<Rightarrow> string \<Rightarrow> string" where
  "PrependPATHDir pathValue dir0 =
     (let dir = trim_space dir0 in
      if dir = [] then pathValue
      else join '':'' (dir # filter (\<lambda>part. trim_space part \<noteq> [] \<and> part \<noteq> dir) (split_on CHR '':'' pathValue)))"

definition DefaultSandboxBinDir :: string where
  "DefaultSandboxBinDir = ''/app/bin''"

subsection \<open>Staging: stage.go\<close>

definition DefaultSandboxBBoxPath :: string where
  "DefaultSandboxBBoxPath = ''/app/bbox''"

definition mitmTrustBundlePaths :: "string list" where
  "mitmTrustBundlePaths =
     [''/etc/ssl/certs/ca-certificates.crt'', ''/etc/pki/tls/certs/ca-bundle.crt'', ''/etc/ssl/cert.pem'']"

record StageOptions =
  so_Binaries :: "string list"
  so_DockerBuild :: DockerBuildOptions

record StageResult =
  sr_Root :: string
  sr_Builder :: "BuilderTooling option"

definition SandboxPathInRoot :: "string \<Rightarrow> string \<Rightarrow> string result" where
  "SandboxPathInRoot root sandboxPath =
     (let cleanRoot = path_clean root in
      if cleanRoot = ''.'' \<or> cleanRoot = [] then err ''staging root is required''
      else
        let cleanSandboxPath = trim_prefix (path_clean sandboxPath) ''/'';
            dest = path_join [cleanRoot, cleanSandboxPath] in
        case filepath_Rel cleanRoot dest of
          Inl e \<Rightarrow> err (''map sandbox path '' @ go_quote sandboxPath @ '' into '' @ go_quote root @ '': '' @ e)
        | Inr rel \<Rightarrow>
            if rel = ''..'' \<or> has_prefix rel ''../''
            then err (''sandbox path '' @ go_quote sandboxPath @ '' escapes staging root'')
            else ok dest)"

definition CopyFileToPath :: "host \<Rightarrow> string \<Rightarrow> string \<Rightarrow> string \<Rightarrow> unit result io" where
  "CopyFileToPath h root hostPath sandboxPath =
     io_try (ctx (''stat '' @ hostPath)) (os_Stat h hostPath) (\<lambda>info.
       if \<not> fi_IsRegular info then io_err (hostPath @ '' is not a regular file'')
       else
         io_try (ctx (''open '' @ hostPath)) (os_OpenRead h hostPath) (\<lambda>_.
         case SandboxPathInRoot root sandboxPath of
           Inl e \<Rightarrow> io_err e
         | Inr dest \<Rightarrow>
             io_try (ctx (''mkdir '' @ filepath_Dir dest)) (os_MkdirAll h (filepath_Dir dest) 493) (\<lambda>_.
             io_try (ctx (''create '' @ dest)) (os_TruncFile h dest (fi_Perm info)) (\<lambda>_.
             io_try (ctx (''copy '' @ hostPath @ '' to '' @ dest)) (os_CopyData h hostPath dest) io_ok))))"

definition CopyFileIntoRoot :: "host \<Rightarrow> string \<Rightarrow> string \<Rightarrow> unit result io" where
  "CopyFileIntoRoot h root hostPath = CopyFileToPath h root hostPath hostPath"

fun FirstExistingPath :: "host \<Rightarrow> string list \<Rightarrow> string option io" where
  "FirstExistingPath h [] = io_return None"
| "FirstExistingPath h (path # paths) =
     io_bind (os_Stat h path) (\<lambda>r. if is_ok r then io_return (Some path) else FirstExistingPath h paths)"

text \<open>The multiarch directories of one library root; a directory that cannot be read has none.\<close>

definition multiarchDirs :: "host \<Rightarrow> string \<Rightarrow> string list io" where
  "multiarchDirs h root =
     io_bind (os_ReadDir h root) (\<lambda>r. case r of
       Inl e \<Rightarrow> io_return []
     | Inr entries \<Rightarrow>
         io_return (sort (map (\<lambda>(name, isDir). path_join [root, name])
           (filter (\<lambda>(name, isDir). isDir \<and> has_suffix name ''-linux-gnu'') entries))))"

definition NSSModuleCandidatePaths :: "host \<Rightarrow> string \<Rightarrow> string list io" where
  "NSSModuleCandidatePaths h module =
     io_bind (multiarchDirs h ''/usr/lib'') (\<lambda>usr.
     io_bind (multiarchDirs h ''/lib'') (\<lambda>lib.
     io_return (map (\<lambda>dir. path_join [dir, module])
       ([''/usr/lib'', ''/lib'', ''/usr/lib64'', ''/lib64''] @ usr @ lib))))"

definition HostTrustBundleContent :: "host \<Rightarrow> string result io" where
  "HostTrustBundleContent h =
     io_bind (FirstExistingPath h mitmTrustBundlePaths) (\<lambda>r. case r of
       None \<Rightarrow> io_err (''no host trust bundle found in ['' @ join '' '' mitmTrustBundlePaths @ '']'')
     | Some path \<Rightarrow>
         io_try (ctx (''read host trust bundle '' @ go_quote path)) (os_ReadFile h path) (\<lambda>content.
           if content = [] then io_err (''host trust bundle '' @ go_quote path @ '' is empty'')
           else io_ok content))"

definition AppendTrustBundlePEM :: "string \<Rightarrow> string \<Rightarrow> string" where
  "AppendTrustBundlePEM base extra =
     (if base \<noteq> [] \<and> last base \<noteq> CHR 0x0A then base @ [CHR 0x0A] else base) @ extra"

definition TransparentResolvConfContent :: "host \<Rightarrow> string result io" where
  "TransparentResolvConfContent h =
     io_try (ctx ''read host resolv.conf'') (os_ReadFile h ''/etc/resolv.conf'') (\<lambda>content.
       let nameservers = filter (\<lambda>l. has_prefix l ''nameserver '') (map trim_space (split_on (CHR 0x0A) content)) in
       if nameservers = [] then io_err ''host resolv.conf does not contain nameserver entries''
       else io_ok (join [CHR 0x0A] nameservers @ [CHR 0x0A]))"

definition WriteDockerBuildShim :: "host \<Rightarrow> string \<Rightarrow> unit result io" where
  "WriteDockerBuildShim h root =
     (case SandboxPathInRoot root (DefaultSandboxBinDir @ ''/docker'') of
        Inl e \<Rightarrow> io_err e
      | Inr path \<Rightarrow>
          io_try (ctx ''create docker shim dir'') (os_MkdirAll h (filepath_Dir path) 493) (\<lambda>_.
          io_try (ctx ''write docker shim'')
            (os_WriteFile h path (''#!/bin/sh'' @ [CHR 0x0A] @ ''exec /app/bbox internal-docker-build '' @
               [CHR 0x22] @ ''$@'' @ [CHR 0x22, CHR 0x0A]) 493) io_ok))"

definition writeConfigFile :: "host \<Rightarrow> string \<Rightarrow> string \<times> string \<Rightarrow> unit result io" where
  "writeConfigFile h root = (\<lambda>(path, content).
     case SandboxPathInRoot root path of
       Inl e \<Rightarrow> io_err e
     | Inr dest \<Rightarrow>
         io_try (ctx (''mkdir '' @ dest)) (os_MkdirAll h (filepath_Dir dest) 493) (\<lambda>_.
         io_try (ctx (''write '' @ dest)) (os_WriteFile h dest content 420) io_ok))"

text \<open>The files are written in the order of the list, one iteration order of the Go map.\<close>

definition WriteSandboxConfig :: "host \<Rightarrow> string \<Rightarrow> string \<Rightarrow> unit result io" where
  "WriteSandboxConfig h root mitmCAPEM =
     io_must (TransparentResolvConfContent h) (\<lambda>resolv.
     io_must (HostTrustBundleContent h) (\<lambda>trust.
       let bundle = (if mitmCAPEM \<noteq> [] then AppendTrustBundlePEM trust mitmCAPEM else trust);
           nl = [CHR 0x0A] in
       io_must (io_each (writeConfigFile h root)
         ([(''/etc/hosts'', ''127.0.0.1 localhost'' @ nl @ ''::1 localhost'' @ nl),
           (''/etc/nsswitch.conf'', ''hosts: files dns'' @ nl),
           (''/etc/resolv.conf'', resolv)] @ map (\<lambda>path. (path, bundle)) mitmTrustBundlePaths)) (\<lambda>_. io_ok ())))"

definition requestedFiles :: "host \<Rightarrow> nat \<Rightarrow> string \<Rightarrow> string list result io" where
  "requestedFiles h fuel requested =
     io_must (ResolveBinary h requested) (\<lambda>binaryPath. FilesForCommand h fuel binaryPath)"

definition builderFiles :: "host \<Rightarrow> nat \<Rightarrow> BuilderTooling option \<Rightarrow> string list list result io" where
  "builderFiles h fuel builder =
     (case builder of
        None \<Rightarrow> io_ok []
      | Some b \<Rightarrow>
          io_each (FilesForCommand h fuel)
            [bt_BuildkitdPath b, bt_BuildctlPath b, bt_RuncPath b, ''/bin/sh''])"

text \<open>One NSS module with its libraries: the paths to add to the extras and to the files.\<close>

definition nssFiles :: "host \<Rightarrow> string \<Rightarrow> (string list \<times> string list) result io" where
  "nssFiles h module =
     io_bind (NSSModuleCandidatePaths h module) (\<lambda>candidates.
     io_bind (FirstExistingPath h candidates) (\<lambda>r. case r of
       None \<Rightarrow> io_ok ([], [])
     | Some path \<Rightarrow> io_must (RuntimeFilesForBinary h path) (\<lambda>deps. io_ok ([path], deps))))"

fun existingExtras :: "host \<Rightarrow> string list \<Rightarrow> string list io" where
  "existingExtras h [] = io_return []"
| "existingExtras h (extra # extras) =
     io_bind (os_Stat h extra) (\<lambda>r.
     io_bind (existingExtras h extras) (\<lambda>rest. io_return (if is_ok r then extra # rest else rest)))"

definition installBuilder :: "host \<Rightarrow> string \<Rightarrow> BuilderTooling option \<Rightarrow> unit result io" where
  "installBuilder h root builder =
     (case builder of
        None \<Rightarrow> io_ok ()
      | Some b \<Rightarrow>
          io_must (io_each (\<lambda>(sandboxPath, hostPath). CopyFileToPath h root hostPath sandboxPath)
            [(DefaultSandboxBinDir @ ''/buildkitd'', bt_BuildkitdPath b),
             (DefaultSandboxBinDir @ ''/buildctl'', bt_BuildctlPath b),
             (DefaultSandboxBinDir @ ''/runc'', bt_RuncPath b)]) (\<lambda>_.
          WriteDockerBuildShim h root))"

definition stageInto ::
  "host \<Rightarrow> nat \<Rightarrow> string \<Rightarrow> StageOptions \<Rightarrow> string \<Rightarrow> string \<Rightarrow> BuilderTooling option result io" where
  "stageInto h fuel root opts runtimeBinary mitmCAPEM =
     io_must (ResolveBinary h runtimeBinary) (\<lambda>bboxHostPath.
     io_must (ResolveDockerBuildSupport h (so_DockerBuild opts)) (\<lambda>builder.
     io_must (io_each (requestedFiles h fuel) (so_Binaries opts)) (\<lambda>requested.
     io_must (builderFiles h fuel builder) (\<lambda>tools.
     io_must (FilesForCommand h fuel bboxHostPath) (\<lambda>bboxRuntimeFiles.
     io_must (nssFiles h ''libnss_files.so.2'') (\<lambda>(nssf, depsf).
     io_must (nssFiles h ''libnss_dns.so.2'') (\<lambda>(nssd, depsd).
     io_bind (existingExtras h (''/lib64/ld-linux-x86-64.so.2'' # nssf @ nssd)) (\<lambda>extras.
       let files = concat requested @ concat tools @ bboxRuntimeFiles @ depsf @ depsd @ extras in
       io_must (io_each (CopyFileIntoRoot h root) (remdups_adj (sort files))) (\<lambda>_.
       io_must (CopyFileToPath h root bboxHostPath DefaultSandboxBBoxPath) (\<lambda>_.
       io_must (installBuilder h root builder) (\<lambda>_.
       io_must (WriteSandboxConfig h root mitmCAPEM) (\<lambda>_.
       io_ok builder))))))))))))"

definition Stage :: "host \<Rightarrow> nat \<Rightarrow> StageOptions \<Rightarrow> string \<Rightarrow> string \<Rightarrow> StageResult result io" where
  "Stage h fuel opts runtimeBinary mitmCAPEM =
     io_try (ctx ''create sandbox root'') (os_MkdirTemp h ''bwrap-go-root-'') (\<lambda>root.
     io_bind (stageInto h fuel root opts runtimeBinary mitmCAPEM) (\<lambda>r. case r of
       Inl e \<Rightarrow> io_bind (os_RemoveAll h root) (\<lambda>_. io_err e)
     | Inr builder \<Rightarrow> io_ok \<lparr>sr_Root = root, sr_Builder = builder\<rparr>))"

subsection \<open>Paths inside the root\<close>

lemma drop_common_prefix: "fst (drop_common xs ys) = [] \<longleftrightarrow> prefix xs ys"
  by (induction xs ys rule: drop_common.induct) auto

lemma drop_common_set: "set (fst (drop_common xs ys)) \<subseteq> set xs"
  by (induction xs ys rule: drop_common.induct) auto

lemma nonempty_elems_rooted: "is_rooted p \<Longrightarrow> nonempty_elems (path_clean p) = path_elems p"
proof -
  assume "is_rooted p"
  then have c: "path_clean p = CHR ''/'' # join ''/'' (path_elems p)" by (rule path_clean_rooted)
  have "filter (\<lambda>e. e \<noteq> []) (path_elems p) = path_elems p"
    using path_elems_plain[of p] by (auto simp: list_all_iff plain_elem_def intro: filter_True)
  then show ?thesis
    using path_elems_plain[of p]
    by (cases "path_elems p = []") (simp_all add: c nonempty_elems_def split_on_join_plain)
qed

lemma path_clean_is_rooted [simp]: "is_rooted p \<Longrightarrow> is_rooted (path_clean p)"
  by (simp add: path_clean_rooted) (simp add: is_rooted_def)

lemma is_rooted_append [simp]: "is_rooted p \<Longrightarrow> is_rooted (p @ q)"
  by (cases p) (auto simp: is_rooted_def)

lemma path_join_rooted: "is_rooted root \<Longrightarrow> is_rooted (path_join [root, p])"
  by (auto simp: path_join_def Let_def is_rooted_def[of "[]"])

lemma join_dotdot: "bs \<noteq> [] \<Longrightarrow>
  join ''/'' (replicate (length bs) ''..'' @ ts) = ''..'' \<or> has_prefix (join ''/'' (replicate (length bs) ''..'' @ ts)) ''../''"
  by (cases bs; cases "tl bs"; cases ts) (auto simp: has_prefix_def)

lemma Rel_inside:
  assumes "is_rooted root" and "is_rooted dest" and "filepath_Rel root dest = Inr rel"
    and "rel \<noteq> ''..''" and "\<not> has_prefix rel ''../''"
  shows "inside root dest"
proof (cases "path_clean dest = path_clean root")
  case True
  then have "path_elems dest = path_elems root"
    using assms(1,2) nonempty_elems_rooted by metis
  then show ?thesis using assms(2) by (simp add: inside_def)
next
  case False
  have "path_clean root \<noteq> ''.''" using assms(1) by (simp add: path_clean_rooted)
  then have "rel = join ''/'' (replicate (length (fst (drop_common (path_elems root) (path_elems dest)))) ''..'' @
      snd (drop_common (path_elems root) (path_elems dest)))"
    using assms(1-3) False
    by (auto simp: filepath_Rel_def Let_def nonempty_elems_rooted split: prod.splits if_splits)
  then have "fst (drop_common (path_elems root) (path_elems dest)) = []"
    using join_dotdot assms(4,5) by metis
  then show ?thesis using assms(2) by (simp add: inside_def drop_common_prefix)
qed

lemma inside_clean: "is_rooted root \<Longrightarrow> inside (path_clean root) p \<longleftrightarrow> inside root p"
  by (simp add: inside_def path_clean_rooted path_elems_join path_elems_plain)

lemma SandboxPathInRoot_inside:
  assumes "is_rooted root" and "SandboxPathInRoot root p = Inr dest"
  shows "inside root dest"
  using assms Rel_inside[of "path_clean root" dest]
  by (auto simp: SandboxPathInRoot_def Let_def inside_clean path_join_rooted split: sum.splits if_splits)

lemma SandboxPathInRoot_clean: "SandboxPathInRoot root p = Inr dest \<Longrightarrow> is_rooted root \<Longrightarrow> path_clean dest = dest"
  by (auto simp: SandboxPathInRoot_def Let_def path_join_def path_clean_idem_rooted
      split: sum.splits if_splits)

lemma dropWhile_sep: "c \<notin> set l \<Longrightarrow> rev (dropWhile (\<lambda>x. x \<noteq> c) (rev (q @ c # l))) = q @ [c]"
proof -
  assume "c \<notin> set l"
  then have "dropWhile (\<lambda>x. x \<noteq> c) (rev l @ c # rev q) = c # rev q"
    by (subst dropWhile_append2) auto
  then show ?thesis by simp
qed

lemma clean_elems_plain_append:
  "list_all plain_elem es \<Longrightarrow> clean_elems r out (es @ rest) = clean_elems r (rev es @ out) rest"
  by (induction es arbitrary: out) (auto simp: plain_elem_def)

lemma path_elems_Dir: "is_rooted p \<Longrightarrow> path_clean p = p \<Longrightarrow> path_elems (filepath_Dir p) = butlast (path_elems p)"
proof -
  assume "is_rooted p" "path_clean p = p"
  then have p: "p = CHR ''/'' # join ''/'' (path_elems p)" using path_clean_rooted by simp
  show ?thesis
  proof (cases "path_elems p" rule: rev_cases)
    case Nil
    with p have "p = ''/''" by simp
    then show ?thesis by (simp add: Nil) (code_simp)
  next
    case (snoc es e)
    then have pl: "list_all plain_elem es" "CHR ''/'' \<notin> set e"
      using path_elems_plain[of p] by (auto simp: plain_elem_def)
    let ?q = "if es = [] then [] else CHR ''/'' # join ''/'' es"
    have "p = ?q @ CHR ''/'' # e" using p snoc by (auto simp: join_append)
    then have "filepath_Dir p = path_clean (?q @ ''/'')"
      using dropWhile_sep[OF pl(2), of ?q] by (simp add: filepath_Dir_def)
    moreover have "path_elems (?q @ ''/'') = es"
      using pl(1)
      by (auto simp: path_elems_def split_on_append split_on_join_plain clean_elems_plain_append)
    moreover have "is_rooted (?q @ ''/'')" by (simp add: is_rooted_def)
    ultimately show ?thesis
      using snoc by (simp add: path_clean_rooted path_elems_join path_elems_plain pl(1))
  qed
qed

lemma Dir_rooted:
  assumes "is_rooted p"
  shows "is_rooted (filepath_Dir p)"
proof -
  from assms have "CHR ''/'' \<in> set p" by (cases p) (auto simp: is_rooted_def)
  then obtain q l where p: "p = q @ CHR ''/'' # l" "CHR ''/'' \<notin> set l" by (meson split_list_last)
  have "is_rooted (q @ ''/'')" using assms p(1) by (cases q) (auto simp: is_rooted_def)
  then show ?thesis
    using dropWhile_sep[OF p(2), of q] p(1) by (auto simp: filepath_Dir_def)
qed

lemma inside_Dir:
  assumes "is_rooted root" and "inside root dest" and "path_clean dest = dest"
  shows "inside root (filepath_Dir dest) \<or> inside (filepath_Dir dest) root"
proof -
  from assms(2) obtain es where es: "path_elems dest = path_elems root @ es" and r: "is_rooted dest"
    by (auto simp: inside_def prefix_def)
  then show ?thesis
    using assms(1,3) path_elems_Dir[OF r] Dir_rooted[OF r]
    by (cases es rule: rev_cases) (auto simp: inside_def butlast_append prefixeq_butlast)
qed

lemma SandboxPathInRoot_confined:
  assumes "is_rooted root" and "SandboxPathInRoot root p = Inr dest"
  shows "inside root dest" "inside root (filepath_Dir dest) \<or> inside (filepath_Dir dest) root"
  using SandboxPathInRoot_inside[OF assms] inside_Dir[OF assms(1)] SandboxPathInRoot_clean[OF assms(2,1)]
  by simp_all

subsection \<open>Calls of staging\<close>

lemma calls_Abs: "calls reading (filepath_Abs h p)"
  by (auto simp: filepath_Abs_def os_defs intro!: calls_intros)

lemma calls_ResolveBinary: "calls reading (ResolveBinary h p)"
  by (auto simp: ResolveBinary_def os_defs intro!: calls_intros calls_Abs)

lemma calls_RuntimeFiles: "calls reading (RuntimeFilesForBinary h p)"
  by (auto simp: RuntimeFilesForBinary_def intro!: calls_intros split: prod.split option.split)

lemma calls_interpreters: "calls reading (scriptInterpreterChain h p)"
  by (auto simp: scriptInterpreterChain_def os_defs Let_def intro!: calls_intros calls_ResolveBinary)

lemma calls_filesForCommand:
  "calls reading (filesForCommandRecursive h n p seen)"
  "calls reading (interpreterFiles h n is seen)"
  by (induction h n p seen and h n "is" seen rule: filesForCommandRecursive_interpreterFiles.induct)
    (auto simp: Let_def intro!: calls_try calls_RuntimeFiles calls_interpreters)

lemma calls_FirstExisting: "calls reading (FirstExistingPath h ps)"
  by (induction ps) (auto simp: os_defs intro!: calls_intros)

lemma calls_existingExtras: "calls reading (existingExtras h ps)"
  by (induction ps) (auto simp: os_defs intro!: calls_intros)

lemma calls_subordinate: "calls reading (checkSubordinateIDs h u ps)"
  by (induction ps) (auto simp: FileHasSubordinateIDEntry_def os_defs intro!: calls_intros)

lemma calls_builder: "calls reading (ResolveDockerBuildSupport h opts)"
  unfolding ResolveDockerBuildSupport_def resolveTool_def ValidateSubordinateIDMappings_def
    ValidateSubordinateIDMappingsForUser_def os_defs
  by (intro calls_intros calls_return calls_ResolveBinary calls_subordinate) auto

lemma calls_gathering:
  "calls reading (FilesForCommand h fuel p)"
  "calls reading (requestedFiles h fuel p)"
  "calls reading (builderFiles h fuel b)"
  "calls reading (nssFiles h m)"
  by (auto simp: FilesForCommand_def requestedFiles_def builderFiles_def nssFiles_def NSSModuleCandidatePaths_def
      multiarchDirs_def os_defs calls_FirstExisting calls_RuntimeFiles calls_ResolveBinary calls_filesForCommand
      intro!: calls_intros)

lemma calls_contents:
  "calls reading (TransparentResolvConfContent h)"
  "calls reading (HostTrustBundleContent h)"
  by (auto simp: TransparentResolvConfContent_def HostTrustBundleContent_def os_defs calls_FirstExisting
      intro!: calls_intros)

lemmas calls_reading = calls_ResolveBinary calls_builder calls_gathering calls_existingExtras calls_contents

lemma calls_CopyFile: "is_rooted root \<Longrightarrow> calls (confined root) (CopyFileToPath h root src dst)"
  by (auto simp: CopyFileToPath_def os_defs SandboxPathInRoot_confined intro!: calls_intros)

lemma calls_writing:
  assumes "is_rooted root"
  shows "calls (confined root) (WriteDockerBuildShim h root)"
    and "calls (confined root) (writeConfigFile h root pc)"
    and "calls (confined root) (installBuilder h root b)"
  using assms
  by (auto simp: WriteDockerBuildShim_def writeConfigFile_def installBuilder_def os_defs
      SandboxPathInRoot_confined calls_CopyFile intro!: calls_intros)

lemma calls_config: "is_rooted root \<Longrightarrow> calls (confined root) (WriteSandboxConfig h root pem)"
  unfolding WriteSandboxConfig_def
  by (intro calls_intros calls_return calls_writing(2) calls_mono[OF calls_contents(1) reading_confined]
      calls_mono[OF calls_contents(2) reading_confined])

lemma calls_stageInto:
  assumes "is_rooted root"
  shows "calls (confined root) (stageInto h fuel root opts bin pem)"
  unfolding stageInto_def CopyFileIntoRoot_def
  by (intro calls_intros calls_return calls_reading[THEN calls_mono, OF reading_confined]
      calls_CopyFile[OF assms] calls_writing[OF assms] calls_config[OF assms])

lemma Stage_calls:
  assumes "\<forall>t p root. h_MkdirTemp h t p = Inr root \<longrightarrow> is_rooted root"
  shows "case Stage h fuel opts bin pem t of
    (Inl e, t') \<Rightarrow> t' = t @ [MkdirTemp ''bwrap-go-root-'' None] \<or>
      (\<exists>root cs. t' = t @ MkdirTemp ''bwrap-go-root-'' (Some root) # cs @ [RemoveAll root] \<and> list_all (confined root) cs)
  | (Inr result, t') \<Rightarrow>
      (\<exists>cs. t' = t @ MkdirTemp ''bwrap-go-root-'' (Some (sr_Root result)) # cs \<and> list_all (confined (sr_Root result)) cs)"
proof (cases "h_MkdirTemp h t ''bwrap-go-root-''")
  case (Inl e)
  then show ?thesis
    by (simp add: Stage_def io_try_def io_bind_def os_MkdirTemp_def io_return_def)
next
  case (Inr root)
  let ?t = "t @ [MkdirTemp ''bwrap-go-root-'' (Some root)]"
  obtain r t' where run: "stageInto h fuel root opts bin pem ?t = (r, t')" by fastforce
  have "calls (confined root) (stageInto h fuel root opts bin pem)"
    using assms Inr by (blast intro: calls_stageInto)
  then obtain cs where "t' = ?t @ cs" "list_all (confined root) cs"
    unfolding calls_def using run by (metis snd_conv)
  then show ?thesis
    using Inr run
    by (cases r) (auto simp: Stage_def io_try_def io_bind_def os_MkdirTemp_def os_RemoveAll_def io_call_def io_return_def)
qed

subsection \<open>What staging promises\<close>

text \<open>
  C22. Staging changes files only below the directory it creates, whatever the host answers and
  however it ends: a path that a link, a shebang or \<^verbatim>\<open>ldd\<close> names cannot make it write elsewhere.
  When it fails after the directory is there, its last call removes the directory; when it
  succeeds nothing is removed and the result names that directory.
\<close>

theorem stage_confined:
  assumes "\<forall>t p root. h_MkdirTemp h t p = Inr root \<longrightarrow> is_rooted root"
  shows "case Stage h fuel opts bin pem [] of
    (Inl e, t) \<Rightarrow> t = [MkdirTemp ''bwrap-go-root-'' None] \<or>
      (\<exists>root cs. t = MkdirTemp ''bwrap-go-root-'' (Some root) # cs @ [RemoveAll root] \<and> list_all (confined root) cs)
  | (Inr result, t) \<Rightarrow>
      (\<exists>cs. t = MkdirTemp ''bwrap-go-root-'' (Some (sr_Root result)) # cs \<and> list_all (confined (sr_Root result)) cs)"
  using Stage_calls[OF assms, where t = "[]" and fuel = fuel and opts = opts and bin = bin and pem = pem] by (auto split: prod.splits sum.splits)

subsection \<open>The recursion over interpreters ends\<close>

lemma no_fuel_error:
  "results (\<lambda>r. r \<noteq> Inl out_of_fuel) (RuntimeFilesForBinary h p)"
  "results (\<lambda>r. r \<noteq> Inl out_of_fuel) (scriptInterpreterChain h p)"
  unfolding RuntimeFilesForBinary_def scriptInterpreterChain_def out_of_fuel_def
  by (intro results_bind results_try results_cases; simp split: option.split prod.split)+

definition follows :: "string list \<Rightarrow> ('a \<times> string list) result \<Rightarrow> bool" where
  "follows seen r \<longleftrightarrow> r \<noteq> Inl out_of_fuel \<and> (\<forall>fs seen'. r = Inr (fs, seen') \<longrightarrow> set seen \<subseteq> set seen')"

lemma follows_try:
  assumes "results (\<lambda>r. r \<noteq> Inl out_of_fuel) m" and "\<And>t x t'. m t = (Inr x, t') \<Longrightarrow> results (follows seen) (f x)"
  shows "results (follows seen) (io_must m f)"
  using assms by (intro results_try) (auto simp: results_def follows_def)

lemma follows_fuel: "results (follows seen) m \<Longrightarrow> results (\<lambda>r. r \<noteq> Inl out_of_fuel) m"
  by (auto simp: follows_def elim: results_mono)

lemma follows_seen: "results (follows seen) m \<Longrightarrow> m t = (Inr (fs, seen'), t') \<Longrightarrow> set seen \<subseteq> set seen'"
  unfolding results_def follows_def by (metis fst_conv)

lemma follows_step:
  assumes "\<And>t is t'. scriptInterpreterChain h (path_clean p) t = (Inr is, t') \<Longrightarrow>
    results (follows (path_clean p # seen)) (interpreterFiles h n is (path_clean p # seen))"
  shows "results (follows seen) (filesForCommandRecursive h (Suc n) p seen)"
proof (cases "path_clean p \<in> set seen")
  case False
  have "results (follows seen) (io_must (interpreterFiles h n is (path_clean p # seen)) (\<lambda>(files, seen').
      io_ok (path_clean p # rf @ files, seen')))"
    if "scriptInterpreterChain h (path_clean p) t = (Inr is, t')" for t "is" t' rf
    using follows_seen[OF assms[OF that]]
    by (intro follows_try[OF follows_fuel[OF assms[OF that]]]) (auto simp: follows_def)
  with False show ?thesis
    by (simp add: Let_def) (rule follows_try[OF no_fuel_error(1)], rule follows_try[OF no_fuel_error(2)], assumption)
qed (simp add: follows_def)

lemma fuel_bound:
  assumes "finite F"
    and chain: "\<And>p t is t'. scriptInterpreterChain h p t = (Inr is, t') \<Longrightarrow> path_clean ` set is \<subseteq> F"
  shows "card (F - set seen) < n \<Longrightarrow> path_clean p \<in> F \<Longrightarrow> results (follows seen) (filesForCommandRecursive h n p seen)"
    and "card (F - set seen) < n \<Longrightarrow> path_clean ` set is \<subseteq> F \<Longrightarrow> results (follows seen) (interpreterFiles h n is seen)"
  using chain
proof (induction h n p seen and h n "is" seen rule: filesForCommandRecursive_interpreterFiles.induct)
  case (2 h n p seen)
  show ?case
  proof (cases "path_clean p \<in> set seen")
    case False
    have "F - set (path_clean p # seen) = (F - set seen) - {path_clean p}" by auto
    moreover have "card ((F - set seen) - {path_clean p}) < card (F - set seen)"
      using assms(1) 2(3) False by (intro card_Diff1_less) auto
    ultimately have card: "card (F - set (path_clean p # seen)) < n" using 2(2) by simp
    have "results (follows (path_clean p # seen)) (interpreterFiles h n is (path_clean p # seen))"
      if "scriptInterpreterChain h (path_clean p) t = (Inr is, t')" for t "is" t'
      using 2(1)[OF refl False card 2(4)[OF that]] 2(4) by blast
    then show ?thesis by (rule follows_step)
  qed (simp add: follows_def)
next
  case (4 h n i "is" seen)
  have first: "results (follows seen) (filesForCommandRecursive h n i seen)" using 4 by simp
  have card: "card (F - set seen') < n" if "set seen \<subseteq> set seen'" for seen'
    using that 4(3) card_mono[OF _ Diff_mono[OF order_refl that], of F] assms(1) by simp
  have second: "results (follows seen') (interpreterFiles h n is seen')"
    if "filesForCommandRecursive h n i seen t = (Inr (fs, seen'), t')" for t fs seen' t'
    using 4 card[OF follows_seen[OF first that]] by simp
  have "results (follows seen) (io_must (interpreterFiles h n is seen') (\<lambda>(rest, seen''). io_ok (fs @ rest, seen'')))"
    if run: "filesForCommandRecursive h n i seen t = (Inr (fs, seen'), t')" for t fs seen' t'
    using follows_seen[OF first run] follows_seen[OF second[OF run]]
    by (intro follows_try[OF follows_fuel[OF second[OF run]]]) (auto simp: follows_def, blast)
  then show ?case by (auto intro!: follows_try[OF follows_fuel[OF first]])
qed (auto simp: follows_def)

text \<open>
  C23. The search for a command's files ends: when the interpreters that scripts of the host name
  are finitely many, one call more than their number is enough, also for scripts that name one
  another as interpreters.
\<close>

theorem filesForCommand_terminates:
  assumes "finite F" and "\<And>p t is t'. scriptInterpreterChain h p t = (Inr is, t') \<Longrightarrow> path_clean ` set is \<subseteq> F"
    and "card F + 1 < fuel"
  shows "fst (FilesForCommand h fuel p t) \<noteq> Inl out_of_fuel"
proof -
  obtain n where fuel: "fuel = Suc n" "card F < n" using assms(3) by (cases fuel) auto
  have "card (F - {c}) < n" for c
    using fuel(2) card_mono[of F "F - {c}"] assms(1) by simp
  then have "results (follows [c]) (interpreterFiles h n is [c])"
    if "scriptInterpreterChain h c t = (Inr is, t')" for c t "is" t'
    using fuel_bound(2)[OF assms(1,2), where seen = "[c]"] assms(2)[OF that] by simp
  then have "results (follows []) (filesForCommandRecursive h fuel p [])"
    unfolding fuel(1) by (rule follows_step)
  then have "results (\<lambda>r. r \<noteq> Inl out_of_fuel) (FilesForCommand h fuel p)"
    unfolding FilesForCommand_def
    by (intro results_try) (auto dest!: follows_fuel elim: results_mono)
  then show ?thesis by (simp add: results_def)
qed

subsection \<open>An example host\<close>

text \<open>Two scripts that name each other as interpreter, and the host files that staging reads.\<close>

definition example_host :: host where
  "example_host =
     \<lparr>h_GOOS = ''linux'', h_Stat = \<lambda>t p. Inr \<lparr>fi_IsDir = False, fi_IsRegular = True, fi_Perm = 493\<rparr>,
      h_ReadFile = \<lambda>t p. Inr (if p = ''/bin/a'' then ''#!/bin/b'' else if p = ''/bin/b'' then ''#!/bin/a''
        else if p = ''/etc/resolv.conf'' then ''nameserver 1.1.1.1'' else ''ELF''),
      h_ReadDir = \<lambda>t p. Inr [], h_Getwd = \<lambda>t. Inr ''/work'', h_LookPath = \<lambda>t p. Inr (''/bin/'' @ p),
      h_Ldd = \<lambda>t p. (None, []), h_Geteuid = \<lambda>t. 0, h_CurrentUser = \<lambda>t. Inr ''user'',
      h_MkdirTemp = \<lambda>t p. Inr ''/tmp/r'', h_MkdirAll = \<lambda>t p m. Inr (), h_Chmod = \<lambda>t p m. Inr (),
      h_CreateFile = \<lambda>t p m. Inr (), h_WriteFile = \<lambda>t p c m. Inr (), h_OpenRead = \<lambda>t p. Inr (),
      h_TruncFile = \<lambda>t p m. Inr (), h_CopyData = \<lambda>t p q. Inr (),
      h_RemoveAll = \<lambda>t p. None, h_Remove = \<lambda>t p. None, h_RuntimeBinary = \<lambda>t. Inr ''/bin/bbox'',
      h_Open = \<lambda>t r. Inr (), h_Close = \<lambda>t r. None, h_TempName = \<lambda>t. ''/tmp/log'', h_StartProcess = \<lambda>t. Inr (),
      h_StartClient = \<lambda>t. Inr ''127.0.0.1:31111'', h_CloseClient = \<lambda>t. None, h_CloseServer = \<lambda>t. None,
      h_Wait = \<lambda>t d. SeenGone, h_Signal = \<lambda>t s. None\<rparr>"

definition no_docker_build :: DockerBuildOptions where
  "no_docker_build = \<lparr>db_Enabled = False, db_BuildkitdPath = [], db_BuildctlPath = [], db_RuncPath = [],
     db_PodmanPath = [], db_NewuidmapPath = [], db_NewgidmapPath = []\<rparr>"

lemma example_chain:
  assumes "scriptInterpreterChain example_host p t = (Inr is, t')"
  shows "path_clean ` set is \<subseteq> {''/bin/a'', ''/bin/b''}"
proof -
  have a: "trim_space (hd (split_on (CHR 0x0A) ''#!/bin/a'')) = ''#!/bin/a''" "has_prefix ''#!/bin/a'' ''#!''"
    "str_fields (trim_space (trim_prefix ''#!/bin/a'' ''#!'')) = [''/bin/a'']" "is_rooted ''/bin/a''"
    "filepath_Base ''/bin/a'' = ''a''" "path_clean ''/bin/a'' = ''/bin/a''"
    by code_simp+
  have b: "trim_space (hd (split_on (CHR 0x0A) ''#!/bin/b'')) = ''#!/bin/b''" "has_prefix ''#!/bin/b'' ''#!''"
    "str_fields (trim_space (trim_prefix ''#!/bin/b'' ''#!'')) = [''/bin/b'']" "is_rooted ''/bin/b''"
    "filepath_Base ''/bin/b'' = ''b''" "path_clean ''/bin/b'' = ''/bin/b''"
    by code_simp+
  have e: "\<not> has_prefix (trim_space (hd (split_on (CHR 0x0A) ''ELF''))) ''#!''"
    "\<not> has_prefix (trim_space (hd (split_on (CHR 0x0A) ''nameserver 1.1.1.1''))) ''#!''"
    by code_simp+
  show ?thesis
    using assms
    unfolding scriptInterpreterChain_def os_ReadFile_def io_try_Inr io_call_def example_host_def
    by (auto simp: Let_def io_return_def a b simp del: split_on.simps split: if_splits)
      (use e in \<open>simp_all del: split_on.simps\<close>)
qed

theorem filesForCommand_terminates_witness:
  "fst (FilesForCommand example_host 4 ''/bin/a'' []) \<noteq> Inl out_of_fuel"
  using filesForCommand_terminates[of "{''/bin/a'', ''/bin/b''}" example_host 4] example_chain by simp

theorem stage_confined_witness:
  "\<exists>cs. snd (Stage example_host 4 \<lparr>so_Binaries = [''a''], so_DockerBuild = no_docker_build\<rparr> ''/bin/bbox'' ''CA'' []) =
     MkdirTemp ''bwrap-go-root-'' (Some ''/tmp/r'') # cs \<and> list_all (confined ''/tmp/r'') cs \<and>
     CopyData ''/bin/a'' ''/tmp/r/bin/a'' \<in> set cs"
proof -
  let ?s = "Stage example_host 4 \<lparr>so_Binaries = [''a''], so_DockerBuild = no_docker_build\<rparr> ''/bin/bbox'' ''CA'' []"
  have "case ?s of (Inr r, t) \<Rightarrow> sr_Root r = ''/tmp/r'' \<and> CopyData ''/bin/a'' ''/tmp/r/bin/a'' \<in> set t | _ \<Rightarrow> False"
    by code_simp
  then obtain r t where s: "?s = (Inr r, t)" "sr_Root r = ''/tmp/r''" "CopyData ''/bin/a'' ''/tmp/r/bin/a'' \<in> set t"
    by (auto split: prod.splits sum.splits)
  have "\<forall>t p root. h_MkdirTemp example_host t p = Inr root \<longrightarrow> is_rooted root"
    by (auto simp: example_host_def is_rooted_def)
  from stage_confined[OF this, of 4 "\<lparr>so_Binaries = [''a''], so_DockerBuild = no_docker_build\<rparr>" "''/bin/bbox''" "''CA''"] s
  show ?thesis by auto
qed

end
