(* ===== verification/Docker_Build_Run.thy ===== *)
theory Docker_Build_Run
  imports Docker_Build Sandbox_Root
begin

section \<open>A build: internal/dockerbuild/inputs.go, plan.go, exec.go, shim.go\<close>

text \<open>
  The inputs of a build, staged in a temporary directory when the Dockerfile has to be rewritten, the
  arguments of \<^verbatim>\<open>buildctl\<close>, and the run with its clean-up. Calls of the host are those of \<open>Host_Io\<close>.
\<close>

subsection \<open>Inputs\<close>

record buildInputs =
  bi_ContextDir :: string
  bi_DockerfileDir :: string
  bi_DockerfileName :: string
  bi_ExtraLocals :: "string list"
  bi_FrontendOpts :: "string list"
  bi_CleanupPaths :: "string list"
  bi_TrustBundle :: string
  bi_Truststore :: generatedTruststore
  bi_JavaToolOpts :: "string list"
  bi_MavenSettings :: string

text \<open>Parsers and encoders; \<open>bx_notExist\<close> is \<^verbatim>\<open>os.IsNotExist\<close>.\<close>

record 'cert build_ext =
  bx_notExist :: "error \<Rightarrow> bool"
  bx_dockerfile :: dockerfile_parser
  bx_url :: proxy_url_parser
  bx_certs :: "'cert cert_calls"
  bx_xml :: "maven_proxy list \<Rightarrow> string result"

definition exists_path :: "host \<Rightarrow> string \<Rightarrow> bool io" where
  "exists_path h p = io_bind (os_Stat h p) (\<lambda>r. io_return (is_ok r))"

definition bboxTrustBundleEnvKey :: string where
  "bboxTrustBundleEnvKey = ''BBOX_TRUST_BUNDLE_PATH''"

definition existing :: "host \<Rightarrow> string \<Rightarrow> string option io" where
  "existing h p = io_bind (exists_path h p) (\<lambda>b. io_return (if b then Some p else None))"

definition resolveTrustBundlePath :: "host \<Rightarrow> string list \<Rightarrow> string option io" where
  "resolveTrustBundlePath h env =
     (case lookupEnvValue env bboxTrustBundleEnvKey of
        Some value \<Rightarrow> if trim_space value = [] then io_return None else existing h (trim_space value)
      | None \<Rightarrow> existing h ''/etc/ssl/certs/ca-certificates.crt'')"

definition trustInjectionOptionsFromStagedAssets :: "host \<Rightarrow> buildInputs \<Rightarrow> trustInjectionOptions io" where
  "trustInjectionOptionsFromStagedAssets h inputs =
     (let staged = (\<lambda>wanted path target. if wanted then io_bind (exists_path h path) (\<lambda>b. io_return (if b then target else []))
                                          else io_return []);
          ts = bi_Truststore inputs in
      io_bind (staged (trim_space (bi_TrustBundle inputs) \<noteq> []) (bi_TrustBundle inputs) injectedTrustBundlePrimaryPath) (\<lambda>pem.
      io_bind (staged (trim_space (gt_Path ts) \<noteq> [] \<and> trim_space (gt_Type ts) \<noteq> [] \<and> trim_space (gt_Password ts) \<noteq> [])
                 (gt_Path ts) injectedJavaTruststorePath) (\<lambda>java.
      io_bind (staged (trim_space (bi_MavenSettings inputs) \<noteq> []) (bi_MavenSettings inputs) injectedMavenSettingsPath) (\<lambda>maven.
      io_return \<lparr>ti_pemPath = pem, ti_javaTruststorePath = java, ti_javaToolOptions = bi_JavaToolOpts inputs,
                 ti_mavenSettingsPath = maven\<rparr>))))"

definition stageTrustBundle :: "host \<Rightarrow> 'cert build_ext \<Rightarrow> string \<Rightarrow> string option \<Rightarrow> buildInputs \<Rightarrow> buildInputs result io" where
  "stageTrustBundle h x stageDir trustBundle inputs =
     (case trustBundle of
        None \<Rightarrow> io_ok inputs
      | Some path \<Rightarrow>
          let staged = path_join [stageDir, bboxTrustBundleFileName] in
          io_try (ctx (''read trust bundle '' @ path)) (os_ReadFile h path) (\<lambda>bundle.
          io_try (ctx ''write staged trust bundle'') (os_WriteFile h staged bundle 420) (\<lambda>_.
          if bundle = [] then io_ok (inputs\<lparr>bi_TrustBundle := staged\<rparr>)
          else io_try (ctx ''write staged JVM truststore'') (writePKCS12Truststore h (bx_certs x) stageDir bundle) (\<lambda>ts.
               io_ok (inputs\<lparr>bi_TrustBundle := staged, bi_Truststore := ts\<rparr>)))))"

definition stageMavenSettings :: "host \<Rightarrow> 'cert build_ext \<Rightarrow> string \<Rightarrow> proxyConfig \<Rightarrow> buildInputs \<Rightarrow> buildInputs result io" where
  "stageMavenSettings h x stageDir proxyCfg inputs =
     (if \<not> proxyEnabled proxyCfg then io_ok inputs
      else
        io_try (ctx ''render Maven settings'') (io_return (renderMavenSettings (bx_xml x) proxyCfg)) (\<lambda>xml.
        let settingsPath = path_join [stageDir, bboxMavenSettingsFileName] in
        io_try (ctx ''write staged Maven settings'') (os_WriteFile h settingsPath xml 420) (\<lambda>_.
        io_ok (inputs\<lparr>bi_MavenSettings := settingsPath\<rparr>))))"

definition rewriteError :: "string \<Rightarrow> error \<Rightarrow> error" where
  "rewriteError dockerfileAbs = ctx (''rewrite dockerfile '' @ dockerfileAbs @ '' for trust injection'')"

text \<open>What happens in the staging directory, and its creation; every error removes it.\<close>

definition stageInputs ::
  "host \<Rightarrow> 'cert build_ext \<Rightarrow> string \<Rightarrow> string \<Rightarrow> string option \<Rightarrow> proxyConfig \<Rightarrow> string \<Rightarrow> buildInputs \<Rightarrow> buildInputs result io" where
  "stageInputs h x dockerfileAbs original trustBundle proxyCfg stageDir inputs =
     io_must (stageTrustBundle h x stageDir trustBundle inputs) (\<lambda>inputs.
     io_must (stageMavenSettings h x stageDir proxyCfg inputs) (\<lambda>inputs.
     let inputs = inputs\<lparr>bi_JavaToolOpts := javaTruststoreOptions (bi_Truststore inputs) @ javaProxyOptions proxyCfg\<rparr>;
         rewrittenPath = path_join [stageDir, filepath_Base dockerfileAbs] in
     io_bind (trustInjectionOptionsFromStagedAssets h inputs) (\<lambda>injection.
     io_try (rewriteError dockerfileAbs) (io_return (rewriteDockerfileWithTrustBundle (bx_dockerfile x) original injection)) (\<lambda>rewritten.
     io_try (ctx (''write rewritten dockerfile '' @ rewrittenPath)) (os_WriteFile h rewrittenPath rewritten 420) (\<lambda>_.
     io_ok (inputs\<lparr>bi_DockerfileDir := stageDir, bi_DockerfileName := filepath_Base rewrittenPath,
                   bi_ExtraLocals := [bboxTrustContextName @ ''='' @ stageDir],
                   bi_FrontendOpts := [''context:'' @ bboxTrustContextName @ ''=local:'' @ bboxTrustContextName],
                   bi_CleanupPaths := [stageDir]\<rparr>))))))"

definition inStagingDir :: "host \<Rightarrow> (string \<Rightarrow> buildInputs result io) \<Rightarrow> buildInputs result io" where
  "inStagingDir h stage =
     io_try (ctx ''create build input staging dir'') (os_MkdirTemp h ''bbox-build-inputs-'') (\<lambda>stageDir.
     io_else (stage stageDir) (\<lambda>e. io_bind (os_RemoveAll h stageDir) (\<lambda>_. io_err e)) io_ok)"

definition previewInjection :: "string option \<Rightarrow> proxyConfig \<Rightarrow> trustInjectionOptions" where
  "previewInjection trustBundle proxyCfg =
     \<lparr>ti_pemPath = (if trustBundle \<noteq> None then injectedTrustBundlePrimaryPath else []), ti_javaTruststorePath = [],
      ti_javaToolOptions = javaProxyOptions proxyCfg,
      ti_mavenSettingsPath = (if proxyEnabled proxyCfg then injectedMavenSettingsPath else [])\<rparr>"

definition prepareBuildInputs :: "host \<Rightarrow> 'cert build_ext \<Rightarrow> string \<Rightarrow> string \<Rightarrow> string list \<Rightarrow> buildInputs result io" where
  "prepareBuildInputs h x contextAbs dockerfileAbs env =
     (let inputs = \<lparr>bi_ContextDir = contextAbs, bi_DockerfileDir = filepath_Dir dockerfileAbs,
            bi_DockerfileName = filepath_Base dockerfileAbs, bi_ExtraLocals = [], bi_FrontendOpts = [], bi_CleanupPaths = [],
            bi_TrustBundle = [], bi_Truststore = no_truststore, bi_JavaToolOpts = [], bi_MavenSettings = []\<rparr> in
      io_else (os_Stat h dockerfileAbs)
        (\<lambda>e. if bx_notExist x e then io_ok inputs else io_err (''stat dockerfile '' @ dockerfileAbs @ '': '' @ e)) (\<lambda>_.
      io_try (ctx (''read dockerfile '' @ dockerfileAbs)) (os_ReadFile h dockerfileAbs) (\<lambda>original.
      io_try (ctx ''parse proxy config from env'') (io_return (proxyConfigFromEnv (bx_url x) env)) (\<lambda>proxyCfg.
      io_bind (resolveTrustBundlePath h env) (\<lambda>trustBundle.
      io_try (rewriteError dockerfileAbs)
        (io_return (rewriteDockerfileWithTrustBundle (bx_dockerfile x) original (previewInjection trustBundle proxyCfg))) (\<lambda>preview.
      if preview = original then io_ok inputs
      else inStagingDir h (\<lambda>stageDir. stageInputs h x dockerfileAbs original trustBundle proxyCfg stageDir inputs)))))))"

definition cleanupPaths :: "host \<Rightarrow> string list \<Rightarrow> unit io" where
  "cleanupPaths h paths = foldr (\<lambda>p rest. if trim_space p = [] then rest else io_bind (os_RemoveAll h p) (\<lambda>_. rest)) paths (io_return ())"

subsection \<open>Plan\<close>

record Plan =
  pl_BuildctlArgs :: "string list"
  pl_OutputPath :: string
  pl_CleanupPaths :: "string list"

record build_args =
  ar_context :: string
  ar_dockerfile :: string
  ar_target :: string
  ar_tags :: "string list"
  ar_buildArgs :: "string list"

fun parseBuildArgs :: "build_args \<Rightarrow> string list \<Rightarrow> build_args result" where
  "parseBuildArgs a [] = ok a"
| "parseBuildArgs a (arg # rest) =
     (if arg \<in> {''-f'', ''--file''} then
        (case rest of [] \<Rightarrow> err (arg @ '' requires a value'') | v # rest \<Rightarrow> parseBuildArgs (a\<lparr>ar_dockerfile := v\<rparr>) rest)
      else if arg \<in> {''-t'', ''--tag''} then
        (case rest of [] \<Rightarrow> err (arg @ '' requires a value'') | v # rest \<Rightarrow> parseBuildArgs (a\<lparr>ar_tags := ar_tags a @ [v]\<rparr>) rest)
      else if arg = ''--build-arg'' then
        (case rest of [] \<Rightarrow> err ''--build-arg requires a value''
         | v # rest \<Rightarrow> parseBuildArgs (a\<lparr>ar_buildArgs := ar_buildArgs a @ [v]\<rparr>) rest)
      else if arg = ''--target'' then
        (case rest of [] \<Rightarrow> err ''--target requires a value'' | v # rest \<Rightarrow> parseBuildArgs (a\<lparr>ar_target := v\<rparr>) rest)
      else if has_prefix arg ''--build-arg='' then
        parseBuildArgs (a\<lparr>ar_buildArgs := ar_buildArgs a @ [trim_prefix arg ''--build-arg='']\<rparr>) rest
      else if has_prefix arg ''--target='' then
        (if trim_space (trim_prefix arg ''--target='') = [] then err ''--target requires a value''
         else parseBuildArgs (a\<lparr>ar_target := trim_prefix arg ''--target=''\<rparr>) rest)
      else if has_prefix arg ''-'' then err (''unsupported docker build flag '' @ go_quote arg)
      else parseBuildArgs (a\<lparr>ar_context := arg\<rparr>) rest)"

definition absFromCWD :: "host \<Rightarrow> string \<Rightarrow> string \<Rightarrow> string result io" where
  "absFromCWD h cwd p = (if is_rooted p then io_ok (path_clean p) else filepath_Abs h (path_join [cwd, p]))"

definition DefaultBuildOutputPath :: string where
  "DefaultBuildOutputPath = ''/var/lib/buildkitd-out/bbox-docker-build.oci.tar''"

definition buildctlArgsOf :: "buildInputs \<Rightarrow> string list \<Rightarrow> string \<Rightarrow> string \<Rightarrow> string list" where
  "buildctlArgsOf inputs buildArgs targetStage outputName =
     [''build'', ''--progress=plain'', ''--frontend'', ''dockerfile.v0'', ''--local'', ''context='' @ bi_ContextDir inputs,
      ''--local'', ''dockerfile='' @ bi_DockerfileDir inputs, ''--opt'', ''filename='' @ bi_DockerfileName inputs] @
     concat (map (\<lambda>l. [''--local'', l]) (bi_ExtraLocals inputs)) @
     concat (map (\<lambda>opt. [''--opt'', opt]) (bi_FrontendOpts inputs)) @
     concat (map (\<lambda>b. [''--opt'', ''build-arg:'' @ b]) buildArgs) @
     (if targetStage \<noteq> [] then [''--opt'', ''target='' @ targetStage] else []) @
     [''--output'', ''type=oci,dest='' @ DefaultBuildOutputPath @ '',name='' @ outputName]"

definition PlanForArgs :: "host \<Rightarrow> 'cert build_ext \<Rightarrow> string list \<Rightarrow> string list \<Rightarrow> string \<Rightarrow> Plan result io" where
  "PlanForArgs h x args env cwd =
     (case args of
        [] \<Rightarrow> io_err ''docker subcommand is required''
      | sub # rest \<Rightarrow>
          if sub \<noteq> ''build'' then io_err (''unsupported docker subcommand '' @ go_quote sub)
          else
            io_must (io_return (parseBuildArgs
              \<lparr>ar_context = ''.'', ar_dockerfile = ''Dockerfile'', ar_target = [], ar_tags = [], ar_buildArgs = []\<rparr> rest)) (\<lambda>a.
            io_try (ctx ''resolve build context'') (absFromCWD h cwd (ar_context a)) (\<lambda>contextAbs.
            let dockerfilePath = (if ar_dockerfile a = ''Dockerfile'' then path_join [contextAbs, ar_dockerfile a] else ar_dockerfile a) in
            io_try (ctx ''resolve dockerfile path'') (absFromCWD h cwd dockerfilePath) (\<lambda>dockerfileAbs.
            io_must (prepareBuildInputs h x contextAbs dockerfileAbs env) (\<lambda>inputs.
            io_ok \<lparr>pl_BuildctlArgs = buildctlArgsOf inputs (ar_buildArgs a @ proxyBuildArgsFromEnv env) (ar_target a)
                     (case ar_tags a of [] \<Rightarrow> ''bbox-build'' | t # _ \<Rightarrow> t),
                   pl_OutputPath = DefaultBuildOutputPath, pl_CleanupPaths = bi_CleanupPaths inputs\<rparr>)))))"

subsection \<open>Run\<close>

text \<open>
  The builder: whether the daemon answers, opening its log, starting it, the answers of the polls until
  the deadline, and running \<^verbatim>\<open>buildctl\<close> with these arguments and this environment.
\<close>

record builder =
  bd_ready :: "history \<Rightarrow> bool"
  bd_openLog :: "history \<Rightarrow> error option"
  bd_start :: "history \<Rightarrow> string list \<Rightarrow> error option"
  bd_polls :: "history \<Rightarrow> bool list"
  bd_buildctl :: "history \<Rightarrow> string list \<Rightarrow> string list \<Rightarrow> error option"

definition io_query :: "(history \<Rightarrow> 'a) \<Rightarrow> 'a io" where
  "io_query f = (\<lambda>t. (f t, t))"

definition buildkitSocketPath :: string where
  "buildkitSocketPath = ''/tmp/bbox-buildkitd.sock''"

fun waitReady :: "bool list \<Rightarrow> error option" where
  "waitReady [] = Some ''buildkitd did not become ready; see /tmp/bbox-buildkitd.log''"
| "waitReady (ready # polls) = (if ready then None else waitReady polls)"

definition ensureBuildkitd :: "host \<Rightarrow> builder \<Rightarrow> string list \<Rightarrow> error option io" where
  "ensureBuildkitd h b env =
     io_bind (io_query (bd_ready b)) (\<lambda>ready.
     if ready then io_return None
     else
       io_bind (os_Remove h buildkitSocketPath) (\<lambda>_.
       io_bind (os_MkdirAll h ''/var/lib/buildkitd'' 493) (\<lambda>r.
       case r of
         Inl e \<Rightarrow> io_return (Some (''create buildkit root: '' @ e))
       | Inr _ \<Rightarrow>
           io_bind (io_query (bd_openLog b)) (\<lambda>opened.
           case opened of
             Some e \<Rightarrow> io_return (Some (''open buildkit log: '' @ e))
           | None \<Rightarrow>
               io_bind (io_call (\<lambda>t. bd_start b t env) StartProcess) (\<lambda>started.
               case started of
                 Some e \<Rightarrow> io_return (Some (''start buildkitd: '' @ e))
               | None \<Rightarrow> io_bind (io_query (bd_polls b)) (\<lambda>polls. io_return (waitReady polls)))))))"

text \<open>The error and what is written to the standard output after a build.\<close>

definition runBuildkit :: "host \<Rightarrow> builder \<Rightarrow> Plan \<Rightarrow> string list \<Rightarrow> (error option \<times> string) io" where
  "runBuildkit h b plan env =
     io_bind (os_Remove h (pl_OutputPath plan)) (\<lambda>_.
     let builderEnv = withBuilderRuntimeEnv env in
     io_bind (ensureBuildkitd h b builderEnv) (\<lambda>e.
     if e \<noteq> None then io_return (e, [])
     else
       io_bind (io_call (\<lambda>t. bd_buildctl b t ([''--addr'', ''unix://'' @ buildkitSocketPath] @ pl_BuildctlArgs plan) builderEnv) StartProcess) (\<lambda>e.
       if e \<noteq> None then io_bind (os_Remove h (pl_OutputPath plan)) (\<lambda>_. io_return (e, []))
       else io_return (None, ''bbox docker build output: '' @ pl_OutputPath plan @ [CHR 0x0A]))))"

definition RunCLI :: "host \<Rightarrow> 'cert build_ext \<Rightarrow> builder \<Rightarrow> string list \<Rightarrow> string list \<Rightarrow> (error option \<times> string) io" where
  "RunCLI h x b args env =
     io_bind (os_Getwd h) (\<lambda>r.
     case r of
       Inl e \<Rightarrow> io_return (Some (''resolve current working directory: '' @ e), [])
     | Inr cwd \<Rightarrow>
         io_bind (PlanForArgs h x args env cwd) (\<lambda>r.
         case r of
           Inl e \<Rightarrow> io_return (Some e, [])
         | Inr plan \<Rightarrow>
             io_bind (runBuildkit h b plan env) (\<lambda>out.
             io_bind (cleanupPaths h (pl_CleanupPaths plan)) (\<lambda>_. io_return out))))"

subsection \<open>Staged directories are removed\<close>

text \<open>The temporary directories among what a history holds.\<close>

definition dirs :: "item multiset \<Rightarrow> item multiset" where
  "dirs M = filter_mset (\<lambda>i. \<exists>d. i = Dir d) M"

lemma dirs_simps [simp]:
  "dirs (M + N) = dirs M + dirs N" "dirs (M - N) = dirs M - dirs N" "dirs {#} = {#}" "dirs {#Dir d#} = {#Dir d#}"
  "dirs {#Res r#} = {#}" "dirs {#File p#} = {#}" "dirs (add_mset (Dir d) M) = add_mset (Dir d) (dirs M)"
  "dirs (add_mset (Res r) M) = dirs M" "dirs (add_mset (File p) M) = dirs M"
  by (auto simp: dirs_def filter_diff_mset)

fun keeps_dirs :: "host_call \<Rightarrow> bool" where
  "keeps_dirs (MkdirTemp p (Some d)) \<longleftrightarrow> False"
| "keeps_dirs (RemoveAll d) \<longleftrightarrow> False"
| "keeps_dirs c \<longleftrightarrow> True"

lemma hold_dirs: "keeps_dirs c \<Longrightarrow> dirs (hold M c) = dirs M"
  by (induction M c rule: hold.induct) auto

lemma calls_keep_dirs:
  assumes "calls keeps_dirs m" and "m t = (x, t')"
  shows "dirs (held t') = dirs (held t)"
proof -
  from assms obtain cs where t': "t' = t @ cs" and cs: "list_all keeps_dirs cs" unfolding calls_def by (metis snd_conv)
  have "dirs (foldl hold M cs) = dirs M" for M
    using cs by (induction cs arbitrary: M) (auto simp: hold_dirs)
  with t' show ?thesis by (simp add: held_def)
qed

lemma calls_query [simp]: "calls P (io_query f)"
  by (auto simp: calls_def io_query_def)

lemma runBuildkit_dirs: "calls keeps_dirs (runBuildkit h b plan env)"
  unfolding runBuildkit_def ensureBuildkitd_def os_Remove_def os_MkdirAll_def Let_def
  by (intro calls_intros calls_query calls_bind) (auto split: sum.splits option.splits)

abbreviation quiet :: "host_call \<Rightarrow> bool" where
  "quiet c \<equiv> \<forall>M. hold M c = M"

lemma quiet_stat [simp]: "calls quiet (exists_path h p)" "calls quiet (existing h p)"
  unfolding existing_def exists_path_def os_defs by (intro calls_bind; simp)+

lemma quiet_resolve: "calls quiet (resolveTrustBundlePath h env)"
  unfolding resolveTrustBundlePath_def by (intro calls_option calls_if) simp_all

lemma quiet_assets: "calls quiet (trustInjectionOptionsFromStagedAssets h inputs)"
  unfolding trustInjectionOptionsFromStagedAssets_def Let_def by (intro calls_bind calls_if) simp_all

lemma quiet_staging: "calls quiet (stageInputs h x dockerfileAbs original trustBundle proxyCfg stageDir inputs)"
  unfolding stageInputs_def stageTrustBundle_def stageMavenSettings_def writePKCS12Truststore_def Let_def
  by (intro calls_intros quiet_assets) (simp_all add: os_defs)

lemma staged_cleanup:
  assumes "stageInputs h x dockerfileAbs original trustBundle proxyCfg stageDir inputs t = (Inr i, t')"
  shows "bi_CleanupPaths i = [stageDir]"
  using assms by (auto simp: stageInputs_def io_try_Inr io_bind_eq Let_def)

definition plan_dirs :: "string list \<Rightarrow> item multiset" where
  "plan_dirs paths = mset (map Dir paths)"

lemma triple_MkdirTemp: "triple P (os_MkdirTemp h p) (\<lambda>r. case r of Inl e \<Rightarrow> P | Inr d \<Rightarrow> add_mset (Dir d) P)"
  by (rule tripleI) (auto simp: os_MkdirTemp_def split: sum.splits)

lemma triple_quiet_sum:
  assumes "calls quiet m"
  shows "triple P m (\<lambda>r. case r of Inl e \<Rightarrow> P | Inr y \<Rightarrow> P)"
proof -
  have "(\<lambda>r. case r of Inl e \<Rightarrow> P | Inr y \<Rightarrow> P) = (\<lambda>_. P)" by (auto split: sum.split)
  with triple_quiet[OF assms] show ?thesis by simp
qed

lemma triple_try_quiet:
  assumes "calls quiet m" and "\<And>e. P = R (Inl e)" and "\<And>x. triple P (f x) R"
  shows "triple P (io_try wrap m f) R"
  by (rule triple_try[OF triple_quiet_sum[OF assms(1)] assms(2,3)])

lemma triple_bind_quiet:
  assumes "calls quiet m" and "\<And>x. triple P (f x) R"
  shows "triple P (io_bind m f) R"
  by (rule triple_bind[OF triple_quiet[OF assms(1)]]) (rule assms(2))

lemma triple_prepare:
  "triple {#} (prepareBuildInputs h x contextAbs dockerfileAbs env)
     (\<lambda>r. case r of Inl e \<Rightarrow> {#} | Inr i \<Rightarrow> plan_dirs (bi_CleanupPaths i))" (is "triple _ _ ?R")
proof -
  have stage: "triple {#Dir d#} (io_else (stageInputs h x dockerfileAbs original tb cfg d inputs)
      (\<lambda>e. io_bind (os_RemoveAll h d) (\<lambda>_. io_err e)) io_ok) ?R" for original tb cfg d inputs
  proof (rule triple_else[OF triple_quiet_sum[OF quiet_staging]])
    show "triple {#Dir d#} (io_bind (os_RemoveAll h d) (\<lambda>_. io_err e)) ?R" for e
      unfolding os_RemoveAll_def by (rule triple_bind[OF triple_call[where Q = "{#}"]]) (auto intro: triple_return)
    show "triple {#Dir d#} (io_ok i) ?R"
      if "stageInputs h x dockerfileAbs original tb cfg d inputs t = (Inr i, t')" for t i t'
      using staged_cleanup[OF that] by (intro triple_return) (simp add: plan_dirs_def)
  qed
  have staging: "triple {#} (inStagingDir h (\<lambda>d. stageInputs h x dockerfileAbs original tb cfg d inputs)) ?R" for original tb cfg inputs
    unfolding inStagingDir_def by (rule triple_try[OF triple_MkdirTemp]) (use stage in simp_all)
  have none: "triple {#} (io_ok \<lparr>bi_ContextDir = c, bi_DockerfileDir = d, bi_DockerfileName = n, bi_ExtraLocals = [], bi_FrontendOpts = [],
      bi_CleanupPaths = [], bi_TrustBundle = [], bi_Truststore = ts, bi_JavaToolOpts = [], bi_MavenSettings = []\<rparr>) ?R" for c d n ts
    by (rule triple_return) (simp add: plan_dirs_def)
  have failed: "triple {#} (io_err e) ?R" for e by (rule triple_return) simp
  have stat: "triple {#} (os_Stat h p) (\<lambda>r. case r of Inl e \<Rightarrow> {#} | Inr y \<Rightarrow> {#})" for p
    by (rule triple_quiet_sum) (simp add: os_defs)
  show ?thesis
    unfolding prepareBuildInputs_def Let_def
    by (intro triple_else[OF stat] triple_try_quiet triple_bind_quiet quiet_resolve)
      (use staging none failed in \<open>simp_all add: os_defs\<close>)
qed

lemma prepare_cleanup:
  assumes "prepareBuildInputs h x contextAbs dockerfileAbs env t = (Inr i, t')" and "\<forall>t p d. h_MkdirTemp h t p = Inr d \<longrightarrow> is_rooted d"
  shows "\<forall>d \<in> set (bi_CleanupPaths i). trim_space d \<noteq> []"
proof -
  have temp: "trim_space d \<noteq> []" if "os_MkdirTemp h p t = (Inr d, t')" for p d t t'
  proof -
    from that assms(2) have "is_rooted d" by (auto simp: os_MkdirTemp_def split: sum.splits)
    then obtain r where "d = CHR ''/'' # r" by (cases d) (auto simp: is_rooted_def)
    then show ?thesis by (simp add: trim_space_def trim_left_by_def trim_right_by_Cons is_space_def)
  qed
  have staged: "\<forall>d \<in> set (bi_CleanupPaths i). trim_space d \<noteq> []"
    if "inStagingDir h (\<lambda>d. stageInputs h x dockerfileAbs original tb cfg d inputs) t = (Inr i, t')" for original tb cfg inputs t i t'
    using that by (auto simp: inStagingDir_def io_try_Inr io_bind_eq elim!: io_else_cases dest!: staged_cleanup temp)
  show ?thesis
    using assms(1) unfolding prepareBuildInputs_def Let_def
    by (elim io_else_cases) (auto simp: io_try_Inr io_bind_eq split: if_splits dest!: staged)
qed

lemma cleanup_removes:
  assumes "cleanupPaths h paths t = (u, t')" and "\<forall>d \<in> set paths. trim_space d \<noteq> []"
  shows "dirs (held t') = dirs (held t) - plan_dirs paths"
  using assms
proof (induction paths arbitrary: t)
  case (Cons p paths)
  then have "cleanupPaths h paths (t @ [RemoveAll p]) = (u, t')"
    by (simp add: cleanupPaths_def os_RemoveAll_def io_bind_def io_call_def)
  with Cons have "dirs (held t') = dirs (held (t @ [RemoveAll p])) - plan_dirs paths" by simp
  then show ?case by (simp add: held_def plan_dirs_def)
qed (simp add: cleanupPaths_def plan_dirs_def io_return_def)

lemma triple_plan:
  "triple {#} (PlanForArgs h x args env cwd) (\<lambda>r. case r of Inl e \<Rightarrow> {#} | Inr plan \<Rightarrow> plan_dirs (pl_CleanupPaths plan))"
    (is "triple _ _ ?R")
proof -
  have failed: "triple {#} (io_err e) ?R" for e by (rule triple_return) simp
  have abs: "calls quiet (absFromCWD h cwd p)" for p
    unfolding absFromCWD_def filepath_Abs_def by (intro calls_intros) (simp_all add: os_defs)
  have plan: "triple {#} (io_must (prepareBuildInputs h x c d env) (\<lambda>i. io_ok (plan i))) ?R"
    if "\<And>i. pl_CleanupPaths (plan i) = bi_CleanupPaths i" for c d and plan :: "buildInputs \<Rightarrow> Plan"
    by (rule triple_try[OF triple_prepare]) (use that in \<open>auto intro: triple_return\<close>)
  show ?thesis
  proof (cases args)
    case (Cons sub rest)
    show ?thesis
      unfolding Cons PlanForArgs_def Let_def list.case
      using failed by (cases "sub = ''build''") (auto intro!: triple_try_quiet abs plan)
  qed (use failed in \<open>simp add: PlanForArgs_def\<close>)
qed

lemma plan_cleanup:
  assumes "PlanForArgs h x args env cwd t = (Inr plan, t')" and "\<forall>t p d. h_MkdirTemp h t p = Inr d \<longrightarrow> is_rooted d"
  shows "\<forall>d \<in> set (pl_CleanupPaths plan). trim_space d \<noteq> []"
proof -
  from assms(1) obtain c d i t1 where "prepareBuildInputs h x c d env t1 = (Inr i, t')" "pl_CleanupPaths plan = bi_CleanupPaths i"
    by (cases args; cases "hd args = ''build''") (auto simp: PlanForArgs_def io_try_Inr Let_def)
  with prepare_cleanup[OF _ assms(2)] show ?thesis by metis
qed

text \<open>
  C32. A docker build removes the directory in which it stages the rewritten Dockerfile, the certificates
  and the settings, however it ends: with refused arguments, files that cannot be read or written, a
  builder that does not start, a failed build or success.
\<close>

theorem build_removes_staging:
  assumes "\<forall>t p d. h_MkdirTemp h t p = Inr d \<longrightarrow> is_rooted d" and "RunCLI h x b args env t = (out, t')"
  shows "dirs (held t') = dirs (held t)"
proof (cases "os_Getwd h t")
  case (Pair r t1)
  have wd: "dirs (held t1) = dirs (held t)"
    using Pair by (auto simp: os_Getwd_def io_call_def held_def)
  show ?thesis
  proof (cases r)
    case (Inl e)
    with assms(2) Pair wd show ?thesis by (simp add: RunCLI_def io_bind_eq)
  next
    case (Inr cwd)
    obtain p t2 where plan: "PlanForArgs h x args env cwd t1 = (p, t2)" by fastforce
    note held = triple_held[OF triple_plan plan, of "held t1"]
    show ?thesis
    proof (cases p)
      case (Inl e)
      with assms(2) Pair \<open>r = Inr cwd\<close> plan held wd show ?thesis by (auto simp: RunCLI_def io_bind_eq)
    next
      case (Inr pl)
      with assms(2) Pair \<open>r = Inr cwd\<close> plan obtain t3 u where run: "runBuildkit h b pl env t2 = (out, t3)"
        and clean: "cleanupPaths h (pl_CleanupPaths pl) t3 = (u, t')"
        by (auto simp: RunCLI_def io_bind_eq)
      have "dirs (plan_dirs ps) = plan_dirs ps" for ps by (induction ps) (auto simp: plan_dirs_def)
      then have "dirs (held t3) = dirs (held t1) + plan_dirs (pl_CleanupPaths pl)"
        using calls_keep_dirs[OF runBuildkit_dirs run] held Inr by simp
      with cleanup_removes[OF clean plan_cleanup[OF plan[unfolded Inr] assms(1)]] wd show ?thesis by simp
    qed
  qed
qed

subsection \<open>A concrete build\<close>

definition example_ext :: "string build_ext" where
  "example_ext = \<lparr>bx_notExist = \<lambda>e. False, bx_dockerfile = \<lambda>c. Inr (Some [(''FROM'', 1), (''RUN'', 1)]), bx_url = \<lambda>u. Inl u,
     bx_certs = \<lparr>ct_pem = \<lambda>s. Some ((''CERTIFICATE'', s), length s), ct_x509 = \<lambda>b. Inr b, ct_pkcs12 = \<lambda>cs p. Inr p, ct_password = ''p''\<rparr>,
     bx_xml = \<lambda>ps. Inl ''xml''\<rparr>"

definition example_builder :: builder where
  "example_builder = \<lparr>bd_ready = \<lambda>t. False, bd_openLog = \<lambda>t. None, bd_start = \<lambda>t env. None, bd_polls = \<lambda>t. [False, True],
     bd_buildctl = \<lambda>t args env. Some ''exit status 1''\<rparr>"

text \<open>A build whose inputs are staged and that then fails.\<close>

theorem build_removes_staging_witness:
  "\<exists>out t'. RunCLI example_host example_ext example_builder [''build'', ''-t'', ''i'', ''.''] [] [] = (out, t') \<and>
     MkdirTemp ''bbox-build-inputs-'' (Some ''/tmp/r'') \<in> set t' \<and> fst out \<noteq> None \<and> dirs (held t') = {#}"
proof -
  let ?run = "RunCLI example_host example_ext example_builder [''build'', ''-t'', ''i'', ''.''] [] []"
  obtain out t' where run: "?run = (out, t')" by fastforce
  have "MkdirTemp ''bbox-build-inputs-'' (Some ''/tmp/r'') \<in> set (snd ?run)" "fst (fst ?run) \<noteq> None" by code_simp+
  moreover have "\<forall>t p d. h_MkdirTemp example_host t p = Inr d \<longrightarrow> is_rooted d" by (auto simp: example_host_def is_rooted_def)
  note build_removes_staging[OF this run]
  ultimately show ?thesis using run by (auto simp: held_def)
qed

end
