(* ===== verification/Ingress_Detect.thy ===== *)
theory Ingress_Detect
  imports Manager
begin

section \<open>Transparent connections: ingress/protocol\_detect.go, ingress/transparent\_tcp.go\<close>

text \<open>
  A connection of the sandboxed program that the supervisor redirected is classified by its first
  bytes, announced to the manager and, when the manager agrees, served as HTTP or as intercepted
  TLS. Every other protocol is recorded and refused. The connection is a buffered reader:
  the bytes it has and the reads still to come, each with its bytes, the last followed by the end
  of the connection or the time limit.
\<close>

subsection \<open>Package bufio\<close>

record reader =
  br_buf :: string
  br_reads :: "string list"

text \<open>\<^verbatim>\<open>Peek\<close> reads until enough is buffered, the buffer of 4096 bytes is full or the reads end.\<close>

fun fill_to :: "nat \<Rightarrow> string \<Rightarrow> string list \<Rightarrow> string \<times> string list" where
  "fill_to n buf [] = (buf, [])"
| "fill_to n buf (c # cs) =
     (if n \<le> length buf \<or> 4096 \<le> length buf then (buf, c # cs)
      else if length buf + length c \<le> 4096 then fill_to n (buf @ c) cs
      else (buf @ take (4096 - length buf) c, drop (4096 - length buf) c # cs))"

text \<open>The bytes and whether they are as many as asked for.\<close>

definition Peek :: "nat \<Rightarrow> reader \<Rightarrow> (string \<times> bool) \<times> reader" where
  "Peek n r = (case fill_to n (br_buf r) (br_reads r) of (buf, reads) \<Rightarrow>
     ((take n buf, n \<le> length buf), \<lparr>br_buf = buf, br_reads = reads\<rparr>))"

definition Buffered :: "reader \<Rightarrow> nat" where
  "Buffered r = length (br_buf r)"

subsection \<open>Case of bytes\<close>

text \<open>
  \<^verbatim>\<open>strings.ToUpper\<close> and \<^verbatim>\<open>bytes.ToLower\<close> as far as ASCII letters of the result go: two other letters of
  Unicode have the capitals I and S (dotless i and long s), two have the small letters k and i (the
  Kelvin sign and I with a dot). Other bytes from 128 on never become ASCII.
\<close>

fun upper_text :: "string \<Rightarrow> string" where
  "upper_text (c # d # s) =
     (if ord c = 0xC4 \<and> ord d = 0xB1 then CHR ''I'' # upper_text s
      else if ord c = 0xC5 \<and> ord d = 0xBF then CHR ''S'' # upper_text s
      else upper_char c # upper_text (d # s))"
| "upper_text s = map upper_char s"

fun lower_text :: "string \<Rightarrow> string" where
  "lower_text (c # d # e # s) =
     (if ord c = 0xE2 \<and> ord d = 0x84 \<and> ord e = 0xAA then CHR ''k'' # lower_text s
      else if ord c = 0xC4 \<and> ord d = 0xB0 then CHR ''i'' # lower_text (e # s)
      else lower_char c # lower_text (d # e # s))"
| "lower_text [c, d] = (if ord c = 0xC4 \<and> ord d = 0xB0 then ''i'' else map lower_char [c, d])"
| "lower_text s = map lower_char s"

subsection \<open>Detection of opaque protocols: protocol\_detect.go\<close>

definition little_endian :: "string \<Rightarrow> nat" where
  "little_endian s = foldr (\<lambda>c n. ord c + 256 * n) s 0"

definition big_endian :: "string \<Rightarrow> nat" where
  "big_endian s = foldl (\<lambda>n c. 256 * n + ord c) 0 s"

definition isAMQPProtocolHeader :: "string \<Rightarrow> bool" where
  "isAMQPProtocolHeader p \<longleftrightarrow> 8 \<le> length p \<and> map ord (take 8 p) = [65, 77, 81, 80, 0, 0, 9, 1]"

definition isMongoDBWireMessage :: "string \<Rightarrow> bool" where
  "isMongoDBWireMessage p \<longleftrightarrow>
     16 \<le> length p \<and> 16 \<le> little_endian (take 4 p) \<and> little_endian (take 4 p) \<le> 64 * 2 ^ 20 \<and>
     little_endian (take 4 (drop 12 p)) \<in> {2004, 2010, 2012, 2013}"

definition isMySQLGreeting :: "string \<Rightarrow> bool" where
  "isMySQLGreeting p \<longleftrightarrow>
     5 \<le> length p \<and> 1 \<le> little_endian (take 3 p) \<and> ord (p ! 3) = 0 \<and> ord (p ! 4) = 0x0A"

definition isPostgresSSLRequest :: "string \<Rightarrow> bool" where
  "isPostgresSSLRequest p \<longleftrightarrow>
     8 \<le> length p \<and> big_endian (take 4 p) = 8 \<and> big_endian (take 4 (drop 4 p)) = 80877103"

definition isPostgresStartup :: "string \<Rightarrow> bool" where
  "isPostgresStartup p \<longleftrightarrow>
     8 \<le> length p \<and> 8 \<le> big_endian (take 4 p) \<and> big_endian (take 4 (drop 4 p)) = 196608 \<and>
     CHR 0x00 \<in> set (drop 8 p)"

definition isRedisPrefix :: "string \<Rightarrow> bool" where
  "isRedisPrefix p \<longleftrightarrow> p \<noteq> [] \<and> hd p \<in> set ''*+-:$''"

definition crlf :: string where
  "crlf = [CHR 0x0D, CHR 0x0A]"

definition natsPrefixes :: "string list" where
  "natsPrefixes = [''CONNECT '', ''PUB '', ''HPUB '', ''SUB '', ''UNSUB '', ''PING'' @ crlf, ''PONG'' @ crlf]"

definition isNATSClientPrefix :: "string \<Rightarrow> bool" where
  "isNATSClientPrefix p \<longleftrightarrow> list_ex (has_prefix p) natsPrefixes"

definition memcachedPrefixes :: "string list" where
  "memcachedPrefixes = [''set '', ''add '', ''replace '', ''append '', ''prepend '', ''cas '', ''get '', ''gets '',
     ''delete '', ''incr '', ''decr '', ''touch '', ''stats'', ''version'', ''flush_all'', ''quit'']"

definition isMemcachedPrefix :: "string \<Rightarrow> bool" where
  "isMemcachedPrefix p \<longleftrightarrow>
     p \<noteq> [] \<and> (ord (hd p) = 0x80 \<or> ord (hd p) = 0x81 \<or> list_ex (has_prefix (lower_text p)) memcachedPrefixes)"

definition looksLikeTLSClientHelloBytes :: "string \<Rightarrow> bool" where
  "looksLikeTLSClientHelloBytes p \<longleftrightarrow>
     3 \<le> length p \<and> ord (p ! 0) = 0x16 \<and> ord (p ! 1) = 3 \<and> 1 \<le> ord (p ! 2) \<and> ord (p ! 2) \<le> 4"

definition detected :: "string \<Rightarrow> string \<Rightarrow> string \<Rightarrow> ProtocolMetadata" where
  "detected protocol source confidence = \<lparr>pm_Protocol = protocol, pm_Source = source, pm_Confidence = confidence\<rparr>"

definition detectOpaqueTCPProtocol :: "string \<Rightarrow> ProtocolMetadata" where
  "detectOpaqueTCPProtocol p =
     (if p = [] then detected [] [] []
      else if isAMQPProtocolHeader p then detected ''amqp'' ''first_bytes'' ''definite''
      else if isMongoDBWireMessage p then detected ''mongodb'' ''first_bytes'' ''definite''
      else if isNATSClientPrefix p then detected ''nats'' ''first_bytes'' ''probable''
      else if isMemcachedPrefix p then detected ''memcached'' ''first_bytes'' ''probable''
      else if isMySQLGreeting p then detected ''mysql'' ''first_bytes'' ''definite''
      else if isPostgresSSLRequest p then detected ''postgres'' ''first_bytes'' ''definite''
      else if isPostgresStartup p then detected ''postgres'' ''first_bytes'' ''probable''
      else if isRedisPrefix p then detected ''redis'' ''first_bytes'' ''probable''
      else if has_prefix p ''SSH-'' then detected ''ssh'' ''first_bytes'' ''definite''
      else if looksLikeTLSClientHelloBytes p then detected ''tls_non_http'' ''tls_client_hello'' ''probable''
      else detected ''unknown'' ''first_bytes'' ''unknown'')"

subsection \<open>Classification: transparent\_tcp.go\<close>

datatype transparentTCPProtocol = ProtocolUnknown | ProtocolHTTP | ProtocolTLS

definition http2ClientPreface :: string where
  "http2ClientPreface = ''PRI * HTTP/2.0'' @ crlf @ crlf @ ''SM'' @ crlf @ crlf"

definition httpMethods1 :: "string list" where
  "httpMethods1 = [''GET '', ''HEAD '', ''POST '', ''PUT '', ''PATCH '', ''DELETE '', ''OPTIONS '', ''TRACE '']"

definition looksLikeTLSClientHello :: "reader \<Rightarrow> bool \<times> reader" where
  "looksLikeTLSClientHello r = (case Peek 3 r of ((p, full), r') \<Rightarrow> (full \<and> looksLikeTLSClientHelloBytes p, r'))"

definition looksLikeHTTP2ClientPreface :: "reader \<Rightarrow> bool \<times> reader" where
  "looksLikeHTTP2ClientPreface r =
     (case Peek (length http2ClientPreface) r of ((p, full), r') \<Rightarrow> (full \<and> p = http2ClientPreface, r'))"

definition looksLikeHTTP1Request :: "reader \<Rightarrow> bool \<times> reader" where
  "looksLikeHTTP1Request r =
     (case Peek (max 16 (Buffered r)) r of ((p, full), r') \<Rightarrow>
        (if \<not> full \<and> p = [] then False else list_ex (has_prefix (upper_text p)) httpMethods1, r'))"

definition detectTransparentTCPProtocol :: "reader \<Rightarrow> transparentTCPProtocol \<times> reader" where
  "detectTransparentTCPProtocol r =
     (case Peek 1 r of ((p, full), r) \<Rightarrow>
        if \<not> full then (ProtocolUnknown, r)
        else if p \<noteq> [] \<and> ord (hd p) = 0x16 then
          (case looksLikeTLSClientHello r of (yes, r) \<Rightarrow> (if yes then ProtocolTLS else ProtocolUnknown, r))
        else
          (case looksLikeHTTP2ClientPreface r of (yes2, r) \<Rightarrow>
             if yes2 then (ProtocolHTTP, r)
             else (case looksLikeHTTP1Request r of (yes1, r) \<Rightarrow>
                     (if yes1 then ProtocolHTTP else ProtocolUnknown, r))))"

definition opaqueProtocolMetadata :: "reader \<Rightarrow> ProtocolMetadata" where
  "opaqueProtocolMetadata r = detectOpaqueTCPProtocol (fst (fst (Peek (Buffered r) r)))"

text \<open>
  \<open>authorize\<close> is the bridge's request to the manager, with the state \<open>'s\<close> it changes; its answer may be an
  error or empty.
\<close>

type_synonym 's authorizer = "'s \<Rightarrow> ConnectRequest \<Rightarrow> 's \<times> ConnectResponse option result"

definition authorizeTransparentTCPConn ::
  "'s authorizer \<Rightarrow> 's \<Rightarrow> string \<Rightarrow> int \<Rightarrow> int \<Rightarrow> ProtocolMetadata \<Rightarrow> 's \<times> bool" where
  "authorizeTransparentTCPConn authorize s connectHost connectPort defaultPort metadata =
     (let host = trim_space connectHost in
      if host = [] then (s, False)
      else
        let port = (if connectPort \<le> 0 then defaultPort else connectPort) in
        case authorize s \<lparr>cq_Host = host, cq_Port = port, cq_Transparent = True, cq_ProtocolMetadata = metadata\<rparr> of
          (s', Inl e) \<Rightarrow> (s', False)
        | (s', Inr None) \<Rightarrow> (s', False)
        | (s', Inr (Some response)) \<Rightarrow>
            let status = (if cs_StatusCode response = 0 then 502 else cs_StatusCode response) in
            (s', \<not> (cs_Error response \<noteq> [] \<or> status < 200 \<or> status \<ge> 300)))"

text \<open>What becomes of the connection; the reader that serves it still has every byte.\<close>

datatype tcp_outcome =
    ConnReset
  | ServeHTTPS reader string int
  | ServeHTTP reader string int

definition ServeTransparentTCPConn ::
  "'s authorizer \<Rightarrow> 's \<Rightarrow> reader \<Rightarrow> string \<Rightarrow> int \<Rightarrow> 's \<times> tcp_outcome" where
  "ServeTransparentTCPConn authorize s r connectHost connectPort =
     (case detectTransparentTCPProtocol r of
        (ProtocolTLS, r) \<Rightarrow>
          (case authorizeTransparentTCPConn authorize s connectHost connectPort 443
                  (detected ''https'' ''tls_client_hello'' ''probable'') of
             (s', yes) \<Rightarrow> (s', if yes then ServeHTTPS r connectHost connectPort else ConnReset))
      | (ProtocolHTTP, r) \<Rightarrow>
          (case authorizeTransparentTCPConn authorize s connectHost connectPort 80
                  (detected ''http'' ''first_bytes'' ''probable'') of
             (s', yes) \<Rightarrow> (s', if yes then ServeHTTP r connectHost connectPort else ConnReset))
      | (ProtocolUnknown, r) \<Rightarrow>
          (case authorizeTransparentTCPConn authorize s connectHost connectPort 0 (opaqueProtocolMetadata r) of
             (s', yes) \<Rightarrow> (s', ConnReset)))"

subsection \<open>Peeking loses nothing\<close>

definition stream :: "reader \<Rightarrow> string" where
  "stream r = br_buf r @ concat (br_reads r)"

lemma fill_to_stream:
  assumes "fill_to n buf cs = (b, cs')"
  shows "b @ concat cs' = buf @ concat cs \<and> (n \<le> length b \<or> 4096 \<le> length b \<or> cs' = [])"
  using assms by (induction n buf cs rule: fill_to.induct) (auto split: if_splits)

lemma Peek_stream:
  assumes "n \<le> 4096 \<or> n \<le> length (br_buf r)"
  obtains r' where "Peek n r = ((take n (stream r), n \<le> length (stream r)), r')" "stream r' = stream r"
proof -
  obtain b cs where f: "fill_to n (br_buf r) (br_reads r) = (b, cs)" by fastforce
  from fill_to_stream[OF f] have s: "b @ concat cs = stream r" and full: "n \<le> length b \<or> 4096 \<le> length b \<or> cs = []"
    by (simp_all add: stream_def)
  have "n \<le> length b \<or> cs = []"
  proof (cases "n \<le> 4096")
    case False
    with assms f show ?thesis by (cases "br_reads r") auto
  qed (use full in auto)
  then have "take n b = take n (stream r)" "n \<le> length b \<longleftrightarrow> n \<le> length (stream r)"
    unfolding s[symmetric] by auto
  then show thesis using that[of "\<lparr>br_buf = b, br_reads = cs\<rparr>"] s by (simp add: Peek_def f stream_def)
qed

lemma upper_text_take: "2 * j \<le> k \<Longrightarrow> take j (upper_text (take k s)) = take j (upper_text s)"
proof (induction j arbitrary: k s)
  case (Suc j)
  then have k: "k = Suc (Suc (k - 2))" "2 * j \<le> k - 2" by auto
  show ?case
  proof (cases s rule: upper_text.cases)
    case (1 c d t)
    have "take j (upper_text (d # take (k - 2) t)) = take j (upper_text (d # t))"
      using Suc.IH[of "Suc (k - 2)" "d # t"] k(2) by simp
    moreover have "take k s = c # d # take (k - 2) t" using 1 by (subst k(1)) simp
    ultimately show ?thesis using Suc.IH[OF k(2), of t] 1 by simp
  qed (use k(1) in \<open>auto simp: take_Cons'\<close>)
qed simp

lemma upper_text_prefix:
  assumes "2 * length m \<le> k"
  shows "has_prefix (upper_text (take k s)) m \<longleftrightarrow> has_prefix (upper_text s) m"
proof -
  have "prefix m x \<longleftrightarrow> take (length m) x = m" for x :: string by (metis append_eq_conv_conj prefix_def take_is_prefix)
  then show ?thesis using upper_text_take[OF assms, of s] by (simp add: has_prefix_def)
qed

lemma upper_text_ascii: "list_all (\<lambda>c. ord c < 128) p \<Longrightarrow> upper_text (p @ s) = map upper_char p @ upper_text s"
proof (induction p)
  case (Cons c p)
  then show ?case by (cases "p @ s") auto
qed simp

lemma lower_text_ascii: "list_all (\<lambda>c. ord c < 128) p \<Longrightarrow> lower_text (p @ s) = map lower_char p @ lower_text s"
proof (induction p)
  case (Cons c p)
  then show ?case by (cases "p @ s" rule: remdups_adj.cases) auto
qed simp

subsection \<open>The classification\<close>

text \<open>What the code decides, as a function of the bytes of the connection alone.\<close>

definition classify :: "string \<Rightarrow> transparentTCPProtocol" where
  "classify s =
     (if looksLikeTLSClientHelloBytes s then ProtocolTLS
      else if has_prefix s http2ClientPreface \<or> list_ex (has_prefix (upper_text s)) httpMethods1 then ProtocolHTTP
      else ProtocolUnknown)"

lemma upper_text_hd: "s \<noteq> [] \<Longrightarrow> ord (hd s) < 65 \<Longrightarrow> upper_text s \<noteq> [] \<and> hd (upper_text s) = hd s"
  by (cases s rule: upper_text.cases) (auto simp: upper_char_def is_lower_def)

lemma control_not_http:
  assumes "s \<noteq> []" "ord (hd s) = 0x16"
  shows "\<not> has_prefix s http2ClientPreface \<and> \<not> list_ex (has_prefix (upper_text s)) httpMethods1"
proof -
  have "\<not> has_prefix x (c # p)" if "x \<noteq> []" "hd x = hd s" "ord c \<noteq> 0x16" for x c p
    using that assms(2) by (cases x) (auto simp: has_prefix_def)
  then show ?thesis
    using upper_text_hd[of s] assms by (simp add: http2ClientPreface_def httpMethods1_def)
qed

lemma tls_bytes_take: "looksLikeTLSClientHelloBytes (take 3 s) \<longleftrightarrow> looksLikeTLSClientHelloBytes s"
  by (auto simp: looksLikeTLSClientHelloBytes_def)

lemma detect_classify:
  "fst (detectTransparentTCPProtocol r) = classify (stream r) \<and> stream (snd (detectTransparentTCPProtocol r)) = stream r"
proof -
  let ?s = "stream r"
  obtain r1 where r1: "Peek 1 r = ((take 1 ?s, 1 \<le> length ?s), r1)" "stream r1 = ?s"
    by (rule Peek_stream[of 1 r]) simp
  obtain rt where rt: "Peek 3 r1 = ((take 3 ?s, 3 \<le> length ?s), rt)" "stream rt = ?s"
    using Peek_stream[of 3 r1] r1(2) by auto
  let ?n = "length http2ClientPreface"
  have "?n \<le> 4096" by (simp add: http2ClientPreface_def crlf_def)
  then obtain r2 where r2: "Peek ?n r1 = ((take ?n ?s, ?n \<le> length ?s), r2)" "stream r2 = ?s"
    using Peek_stream[of ?n r1] r1(2) by auto
  let ?k = "max 16 (Buffered r2)"
  have "?k \<le> 4096 \<or> ?k \<le> length (br_buf r2)" by (auto simp: Buffered_def)
  from Peek_stream[OF this] obtain r3 where r3: "Peek ?k r2 = ((take ?k ?s, ?k \<le> length ?s), r3)" "stream r3 = ?s"
    unfolding r2(2) by blast
  have pre: "?n \<le> length ?s \<and> take ?n ?s = http2ClientPreface \<longleftrightarrow> has_prefix ?s http2ClientPreface"
    by (auto simp: has_prefix_def prefix_def) (metis append_take_drop_id)
  have met: "list_ex (has_prefix (upper_text (take ?k ?s))) httpMethods1 \<longleftrightarrow> list_ex (has_prefix (upper_text ?s)) httpMethods1"
    by (simp add: httpMethods1_def upper_text_prefix)
  show ?thesis
  proof (cases "?s \<noteq> [] \<and> ord (hd ?s) = 0x16")
    case True
    then show ?thesis
      using r1 rt control_not_http[of ?s]
      by (auto simp: detectTransparentTCPProtocol_def looksLikeTLSClientHello_def classify_def tls_bytes_take Suc_le_eq take_Suc)
        (auto simp: looksLikeTLSClientHelloBytes_def)
  next
    case False
    then have "\<not> looksLikeTLSClientHelloBytes ?s" by (cases ?s) (auto simp: looksLikeTLSClientHelloBytes_def)
    moreover have "\<not> has_prefix ?s http2ClientPreface \<and> \<not> list_ex (has_prefix (upper_text ?s)) httpMethods1" if "?s = []"
      using that by (simp add: has_prefix_def http2ClientPreface_def httpMethods1_def)
    ultimately show ?thesis
      using False r1 r2 r3 pre met
      by (auto simp: detectTransparentTCPProtocol_def looksLikeHTTP2ClientPreface_def looksLikeHTTP1Request_def classify_def
          Suc_le_eq take_Suc)
  qed
qed

text \<open>
  C20. How a connection is classified depends only on its bytes, not on how they arrive: TLS when it
  starts with a handshake record of version 3, HTTP when it starts with the preface of HTTP/2 or the
  name of a method. Classification takes nothing away from the connection.
\<close>

theorem detect_by_first_bytes:
  "fst (detectTransparentTCPProtocol r) = classify (stream r) \<and> stream (snd (detectTransparentTCPProtocol r)) = stream r"
  by (rule detect_classify)

text \<open>The protocol that is announced for a connection which is neither HTTP nor TLS is never TLS.\<close>

lemma opaque_never_tls:
  assumes "detectTransparentTCPProtocol r = (ProtocolUnknown, r')"
  shows "pm_Protocol (opaqueProtocolMetadata r') \<noteq> ''tls_non_http''"
proof -
  from detect_classify[of r] assms have "\<not> looksLikeTLSClientHelloBytes (stream r')"
    by (auto simp: classify_def split: if_splits)
  moreover have "looksLikeTLSClientHelloBytes (take n s) \<Longrightarrow> looksLikeTLSClientHelloBytes s" for n s
    by (auto simp: looksLikeTLSClientHelloBytes_def)
  ultimately have "\<not> looksLikeTLSClientHelloBytes (take n (stream r'))" for n by blast
  moreover obtain r'' where "Peek (Buffered r') r' = ((take (Buffered r') (stream r'), Buffered r' \<le> length (stream r')), r'')"
    using Peek_stream[of "Buffered r'" r'] by (auto simp: Buffered_def)
  ultimately show ?thesis by (simp add: opaqueProtocolMetadata_def detectOpaqueTCPProtocol_def detected_def)
qed

text \<open>
  The commands \<^verbatim>\<open>get\<close> and \<^verbatim>\<open>delete\<close> of memcached are served as HTTP requests: method names are compared
  without regard to case, before the detection of other protocols, which knows these commands.
\<close>

theorem memcached_get_served_as_http:
  assumes "stream r = command @ rest" and "command \<in> {''get '', ''delete ''}"
  shows "fst (detectTransparentTCPProtocol r) = ProtocolHTTP \<and>
     pm_Protocol (detectOpaqueTCPProtocol (stream r)) = ''memcached''"
proof
  have upper: "map upper_char ''get '' = ''GET ''" "map upper_char ''delete '' = ''DELETE ''" by code_simp+
  have ascii: "list_all (\<lambda>c. ord c < 128) command" using assms(2) by auto
  have "\<not> looksLikeTLSClientHelloBytes (stream r)"
    using assms by (auto simp: looksLikeTLSClientHelloBytes_def)
  moreover have "list_ex (has_prefix (upper_text (stream r))) httpMethods1"
    using assms(2) unfolding assms(1) upper_text_ascii[OF ascii]
    by (elim insertE emptyE) (simp_all only: upper, simp_all add: httpMethods1_def has_prefix_def)
  ultimately show "fst (detectTransparentTCPProtocol r) = ProtocolHTTP"
    using detect_classify[of r] by (simp add: classify_def)
  have "\<not> isAMQPProtocolHeader (stream r)" "\<not> isMongoDBWireMessage (stream r)" "\<not> isNATSClientPrefix (stream r)"
    using assms(2) unfolding assms(1)
    by (elim insertE emptyE; simp add: isAMQPProtocolHeader_def isMongoDBWireMessage_def little_endian_def
        isNATSClientPrefix_def natsPrefixes_def has_prefix_def)+
  moreover have "list_ex (has_prefix (lower_text (stream r))) memcachedPrefixes"
    using assms(2) unfolding assms(1) lower_text_ascii[OF ascii]
    by (elim insertE emptyE) (simp_all add: memcachedPrefixes_def has_prefix_def lower_char_def is_upper_def)
  ultimately show "pm_Protocol (detectOpaqueTCPProtocol (stream r)) = ''memcached''"
    using assms by (auto simp: detectOpaqueTCPProtocol_def isMemcachedPrefix_def detected_def)
qed

theorem memcached_get_served_as_http_witness:
  "fst (detectTransparentTCPProtocol \<lparr>br_buf = [], br_reads = [''ge'', ''t key'']\<rparr>) = ProtocolHTTP"
  using memcached_get_served_as_http[of "\<lparr>br_buf = [], br_reads = [''ge'', ''t key'']\<rparr>" "''get ''" "''key''"]
  by (simp add: stream_def)

end
