(* ===== verification/Go_Ip_Text.thy ===== *)
theory Go_Ip_Text
  imports Go_Net
begin

section \<open>Package net: the text of an address\<close>

text \<open>
  \<^verbatim>\<open>net.IP.String\<close>: dotted decimal for IPv4 and IPv4-mapped addresses, otherwise the RFC 5952
  form with the first longest run of at least two zero groups written as two colons. The main
  result is that parsing the text of an address gives the address back.
\<close>

fun hex_of :: "nat \<Rightarrow> string" where
  "hex_of n = (if n < 16 then [''0123456789abcdef'' ! n]
               else hex_of (n div 16) @ [''0123456789abcdef'' ! (n mod 16)])"

declare hex_of.simps [simp del]

fun ip_groups :: "byte list \<Rightarrow> nat list" where
  "ip_groups (a # b # r) = (256 * unat a + unat b) # ip_groups r"
| "ip_groups _ = []"

definition zero_run :: "nat list \<Rightarrow> nat" where
  "zero_run gs = length (takeWhile (\<lambda>g. g = 0) gs)"

text \<open>The start and length of the first longest run of two or more zero groups.\<close>

fun best_run :: "nat \<Rightarrow> nat list \<Rightarrow> nat \<times> nat \<Rightarrow> nat \<times> nat" where
  "best_run i [] b = b"
| "best_run i (g # gs) (s, l) =
     (let n = zero_run (g # gs) in
      best_run (Suc i) gs (if 2 \<le> n \<and> l < n then (i, n) else (s, l)))"

definition hex_groups :: "nat list \<Rightarrow> string" where
  "hex_groups gs = join '':'' (map hex_of gs)"

definition ipv6_text :: "nat list \<Rightarrow> string" where
  "ipv6_text gs =
     (case best_run 0 gs (0, 0) of
        (s, l) \<Rightarrow> if l = 0 then hex_groups gs
                  else hex_groups (take s gs) @ ''::'' @ hex_groups (drop (s + l) gs))"

definition dotted :: "byte list \<Rightarrow> string" where
  "dotted v = join ''.'' (map (\<lambda>b. digits_of (unat b)) v)"

definition ip_string :: "ip \<Rightarrow> string" where
  "ip_string a = (case to4 a of Some v \<Rightarrow> dotted v | None \<Rightarrow> ipv6_text (ip_groups a))"

subsection \<open>IPv4\<close>

lemma digits_of_hd: "0 < n \<Longrightarrow> hd (digits_of n) \<noteq> CHR ''0''"
proof (induction n rule: digits_of.induct)
  case (1 n)
  show ?case
  proof (cases "n < 10")
    case True
    have "digit_val (digit_char n) = n"
      using True by (simp add: digit_char_props)
    moreover have "digit_val CHR ''0'' = 0" by (simp add: digit_val_def)
    ultimately show ?thesis
      using True \<open>0 < n\<close> by (subst digits_of.simps) auto
  next
    case False
    have "digits_of (n div 10) \<noteq> []"
      using digits_of_digits[of "n div 10"] by (auto simp: all_digits_def)
    with False 1 show ?thesis by (subst digits_of.simps) simp
  qed
qed

lemma digits_of_0: "digits_of 0 = ''0''"
  by code_simp

lemma unat_byte: "unat (b :: byte) < 256"
  using unsigned_less[of b] by simp

lemma parse_octet_digits [simp]: "parse_octet (digits_of (unat (b :: byte))) = Some b"
proof -
  have "length (digits_of (unat b)) = 1 \<or> hd (digits_of (unat b)) \<noteq> CHR ''0''"
    using digits_of_hd[of "unat b"] digits_of_0 by (cases "unat b = 0") simp_all
  then show ?thesis
    using unat_byte[of b] by (simp add: parse_octet_def digits_of_digits)
qed

lemma dotted_chars: "c \<in> set (dotted v) \<Longrightarrow> is_digit c \<or> c = CHR ''.''"
proof -
  have "c \<in> set (join ''.'' ps) \<Longrightarrow> c = CHR ''.'' \<or> (\<exists>p \<in> set ps. c \<in> set p)" for ps
    by (induction "''.''" ps rule: join.induct) auto
  then show "c \<in> set (dotted v) \<Longrightarrow> is_digit c \<or> c = CHR ''.''"
    using digits_of_digits by (fastforce simp: dotted_def all_digits_def list_all_iff)
qed

lemma parse_ipv4_dotted:
  assumes "length v = 4"
  shows "parse_ipv4 (dotted v) = Some v"
proof -
  have sep: "CHR ''.'' \<notin> set (digits_of (unat b))" for b :: byte
    using digits_of_digits[of "unat b"] by (auto simp: all_digits_def list_all_iff is_digit_def)
  have "split_on CHR ''.'' (dotted v) = map (\<lambda>b. digits_of (unat b)) v"
    unfolding dotted_def using assms sep by (intro split_on_join) auto
  moreover obtain a b c d where "v = [a, b, c, d]"
    using assms by (auto simp: numeral_eq_Suc length_Suc_conv)
  ultimately show ?thesis by (simp add: parse_ipv4_def)
qed

lemma parse_ip_dotted:
  assumes "length v = 4"
  shows "parse_ip (dotted v) = Some (v4_in_v6_prefix @ v)"
proof -
  obtain a b c d where v: "v = [a, b, c, d]"
    using assms by (auto simp: numeral_eq_Suc length_Suc_conv)
  let ?p = "\<lambda>ch. ch \<noteq> CHR ''.'' \<and> ch \<noteq> CHR '':''"
  have "\<forall>ch \<in> set (digits_of (unat a)). ?p ch"
    using digits_of_digits[of "unat a"] by (auto simp: all_digits_def list_all_iff is_digit_def)
  then have "dropWhile ?p (digits_of (unat a) @ CHR ''.'' # r) = CHR ''.'' # r" for r
    by (simp add: dropWhile_append2)
  then have "\<exists>r. dropWhile ?p (dotted v) = CHR ''.'' # r"
    by (simp add: dotted_def v)
  moreover have "CHR ''%'' \<notin> set (dotted v)"
    by (auto simp: is_digit_def dest: dotted_chars)
  ultimately show ?thesis
    by (auto simp: parse_ip_def parse_addr_def parse_ipv4_dotted[OF assms])
qed

subsection \<open>IPv6\<close>

lemma hex_digit: "n < 16 \<Longrightarrow> hex_val (''0123456789abcdef'' ! n) = Some n"
proof -
  have "\<forall>n \<in> set [0..<16]. hex_val (''0123456789abcdef'' ! n) = Some n"
    by code_simp
  then show "n < 16 \<Longrightarrow> hex_val (''0123456789abcdef'' ! n) = Some n" by simp
qed

lemma hex_of_chars: "c \<in> set (hex_of n) \<Longrightarrow> hex_val c \<noteq> None"
proof (induction n rule: hex_of.induct)
  case (1 n)
  show ?case
  proof (cases "n < 16")
    case True
    then show ?thesis using "1.prems" by (subst (asm) hex_of.simps) (simp add: hex_digit)
  next
    case False
    then show ?thesis using 1
      by (subst (asm) (2) hex_of.simps) (auto simp: hex_digit)
  qed
qed

lemma hex_of_nonempty [simp]: "hex_of n \<noteq> []"
  by (subst hex_of.simps) simp

lemma hex_number_of [simp]: "hex_number (hex_of n) = n"
proof (induction n rule: hex_of.induct)
  case (1 n)
  show ?case
  proof (cases "n < 16")
    case True
    then show ?thesis by (subst hex_of.simps) (simp add: hex_digit hex_number_def)
  next
    case False
    then show ?thesis using 1
      by (subst hex_of.simps) (simp add: hex_digit hex_number_def)
  qed
qed

lemma hex_of_length: "0 < k \<Longrightarrow> n < 16 ^ k \<Longrightarrow> length (hex_of n) \<le> k"
proof (induction k arbitrary: n)
  case (Suc k)
  show ?case
  proof (cases "n < 16")
    case True
    then show ?thesis by (subst hex_of.simps) simp
  next
    case False
    then have "0 < k" using Suc.prems by (cases k) auto
    moreover have "n div 16 < 16 ^ k"
      using Suc.prems(2) by (simp add: less_mult_imp_div_less mult.commute)
    ultimately have "length (hex_of (n div 16)) \<le> k" by (rule Suc.IH)
    with False show ?thesis by (subst hex_of.simps) simp
  qed
qed simp

text \<open>A group is read up to the next colon.\<close>

lemma hex_run_group:
  assumes "r = [] \<or> hd r = CHR '':''"
  shows "hex_run (hex_of n @ r) = hex_of n"
proof -
  have "hex_val CHR '':'' = None" by (simp add: hex_val_def is_digit_def)
  then have "takeWhile (\<lambda>c. hex_val c \<noteq> None) r = []"
    using assms by (cases r) auto
  then show ?thesis
    unfolding hex_run_def by (subst takeWhile_append2) (auto dest: hex_of_chars)
qed

lemma hex_of_hd: "hd (hex_of n @ r) \<noteq> CHR '':'' \<and> hd (hex_of n @ r) \<noteq> CHR ''.''"
proof -
  have "hex_val CHR '':'' = None" "hex_val CHR ''.'' = None"
    by (simp_all add: hex_val_def is_digit_def)
  then show ?thesis
    using hex_of_chars[of "hd (hex_of n)" n] by (cases "hex_of n") auto
qed

definition group_bytes :: "nat list \<Rightarrow> byte list" where
  "group_bytes gs = concat (map chunk_bytes gs)"

lemma group_bytes_simps [simp]:
  "group_bytes [] = []" "group_bytes (g # gs) = chunk_bytes g @ group_bytes gs"
  "group_bytes (gs @ hs) = group_bytes gs @ group_bytes hs"
  by (simp_all add: group_bytes_def)

lemma hex_groups_Cons:
  "hex_groups (g # gs) = hex_of g @ (if gs = [] then [] else CHR '':'' # hex_groups gs)"
  by (cases gs) (simp_all add: hex_groups_def)

lemma hex_groups_hd: "gs \<noteq> [] \<Longrightarrow> hd (hex_groups gs) \<noteq> CHR '':'' \<and> hex_groups gs \<noteq> []"
  using hex_of_hd by (cases gs) (auto simp: hex_groups_Cons)

lemma ipv6_groups_read:
  assumes "gs \<noteq> []" and "length gs \<le> n" and "\<forall>g \<in> set gs. g < 16 ^ 4"
  shows "ipv6_groups n bs el (hex_groups gs) = Some (bs @ group_bytes gs, el, [])"
  using assms
proof (induction gs arbitrary: n bs)
  case (Cons g gs)
  then obtain m where n: "n = Suc m" by (cases n) auto
  have len: "length (hex_of g) \<le> 4" using Cons.prems hex_of_length[of 4 g] by simp
  show ?case
  proof (cases "gs = []")
    case True
    then show ?thesis
      using len hex_run_group[of "[]" g] by (simp add: n hex_groups_Cons Let_def)
  next
    case False
    then show ?thesis
      using len hex_run_group[of "CHR '':'' # hex_groups gs" g] hex_groups_hd[of gs] Cons
      by (simp add: n hex_groups_Cons Let_def)
  qed
qed simp

lemma ipv6_groups_ellipsis:
  assumes "gs \<noteq> []" and "length gs \<le> n" and "\<forall>g \<in> set gs. g < 16 ^ 4"
  shows "ipv6_groups n bs None (hex_groups gs @ ''::'' @ r) =
    (let bs' = bs @ group_bytes gs in
     if r = [] then Some (bs', Some (length bs'), [])
     else ipv6_groups (n - length gs) bs' (Some (length bs')) r)"
  using assms
proof (induction gs arbitrary: n bs)
  case (Cons g gs)
  then obtain m where n: "n = Suc m" by (cases n) auto
  have len: "length (hex_of g) \<le> 4" using Cons.prems hex_of_length[of 4 g] by simp
  show ?case
  proof (cases "gs = []")
    case True
    then show ?thesis
      using len hex_run_group[of "''::'' @ r" g] by (simp add: n hex_groups_Cons Let_def)
  next
    case False
    then show ?thesis
      using len hex_run_group[of "CHR '':'' # hex_groups gs @ ''::'' @ r" g] Cons
        hex_groups_hd[of gs]
      by (cases "r = []") (simp_all add: n hex_groups_Cons Let_def)
  qed
qed simp

lemma best_run_zeros:
  assumes "best_run i gs b = (s, l)"
    and "gs = drop i all" and "i \<le> length all"
    and "snd b \<noteq> 0 \<longrightarrow> 2 \<le> snd b \<and> fst b + snd b \<le> length all \<and>
           (\<forall>g \<in> set (take (snd b) (drop (fst b) all)). g = 0)"
  shows "l \<noteq> 0 \<longrightarrow> 2 \<le> l \<and> s + l \<le> length all \<and> (\<forall>g \<in> set (take l (drop s all)). g = 0)"
  using assms
proof (induction i gs b rule: best_run.induct)
  case (2 i g gs s' l')
  let ?n = "zero_run (g # gs)"
  have all: "drop i all = g # gs" using "2.prems"(2) by simp
  then have i: "Suc i \<le> length all" "gs = drop (Suc i) all"
    by (metis Suc_leI drop_all list.distinct(1) not_less, metis drop_Suc list.sel(3) tl_drop)
  have "?n \<le> length (g # gs)"
    using length_takeWhile_le[of "\<lambda>g. g = 0" "g # gs"] by (simp add: zero_run_def)
  then have fits: "i + ?n \<le> length all"
    using arg_cong[OF all, of length] by simp
  have "take ?n (g # gs) = takeWhile (\<lambda>g. g = 0) (g # gs)"
    unfolding zero_run_def by (rule takeWhile_eq_take[symmetric])
  then have zeros: "\<forall>x \<in> set (take ?n (drop i all)). x = 0"
    unfolding all by (auto dest: set_takeWhileD simp del: takeWhile.simps)
  let ?b = "if 2 \<le> ?n \<and> l' < ?n then (i, ?n) else (s', l')"
  have run: "best_run (Suc i) gs ?b = (s, l)"
    using "2.prems"(1) by (simp add: Let_def)
  have "snd ?b \<noteq> 0 \<longrightarrow> 2 \<le> snd ?b \<and> fst ?b + snd ?b \<le> length all \<and>
      (\<forall>g \<in> set (take (snd ?b) (drop (fst ?b) all)). g = 0)"
    using zeros fits "2.prems"(4) by simp
  from "2.IH"[OF refl run i(2,1) this] show ?case .
qed auto

lemma ip_groups_length: "length (ip_groups a) = length a div 2"
  by (induction a rule: ip_groups.induct) auto

lemma ip_groups_bound: "g \<in> set (ip_groups a) \<Longrightarrow> g < 16 ^ 4"
proof (induction a rule: ip_groups.induct)
  case (1 x y r)
  have "256 * unat x + unat y < 65536"
    using unat_byte[of x] unat_byte[of y] by simp
  with 1 show ?case by auto
qed auto

lemma chunk_bytes_unat: "chunk_bytes (256 * unat x + unat y) = [x, y]"
proof -
  have "(256 * unat x + unat y) div 256 = unat x" "(256 * unat x + unat y) mod 256 = unat y"
    using unat_byte[of y] by simp_all
  then show ?thesis by (simp add: chunk_bytes_def)
qed

lemma group_bytes_ip_groups: "even (length a) \<Longrightarrow> group_bytes (ip_groups a) = a"
  by (induction a rule: ip_groups.induct) (auto simp: chunk_bytes_unat)

lemma group_bytes_zeros: "\<forall>g \<in> set gs. g = 0 \<Longrightarrow> group_bytes gs = replicate (2 * length gs) 0"
  by (induction gs) (auto simp: chunk_bytes_def)

lemma group_bytes_length [simp]: "length (group_bytes gs) = 2 * length gs"
  by (induction gs) auto

text \<open>The text of eight groups is read back, whether it has an ellipsis or not.\<close>

lemma parse_ipv6_text:
  assumes "length gs = 8" and "\<forall>g \<in> set gs. g < 16 ^ 4"
  shows "parse_ipv6 (ipv6_text gs) = Some (group_bytes gs)"
proof -
  obtain s l where b: "best_run 0 gs (0, 0) = (s, l)" by fastforce
  note z = best_run_zeros[OF b, of gs, simplified]
  show ?thesis
  proof (cases "l = 0")
    case True
    have gs: "gs \<noteq> []" using assms(1) by auto
    then have "\<not> has_prefix (hex_groups gs) ''::''"
      using hex_groups_hd[OF gs] by (cases "hex_groups gs") (auto simp: has_prefix_def)
    moreover have "ipv6_groups 8 [] None (hex_groups gs) = Some (group_bytes gs, None, [])"
      using ipv6_groups_read[of gs 8 "[]" None] gs assms by simp
    ultimately show ?thesis
      using True assms(1) by (simp add: ipv6_text_def b parse_ipv6_def)
  next
    case False
    let ?pre = "take s gs" and ?post = "drop (s + l) gs"
    have sl: "s + l \<le> 8" "2 \<le> l" using z False assms(1) by auto
    have zeros: "group_bytes (take l (drop s gs)) = replicate (2 * l) 0"
      using z False assms(1) sl group_bytes_zeros[of "take l (drop s gs)"] by (simp add: min_absorb2)
    have "gs = ?pre @ take l (drop s gs) @ ?post"
      by (metis append_take_drop_id drop_drop add.commute)
    then have bytes: "group_bytes gs = group_bytes ?pre @ replicate (2 * l) 0 @ group_bytes ?post"
      using zeros by (metis group_bytes_simps(3))
    have txt6: "ipv6_text gs = hex_groups ?pre @ ''::'' @ hex_groups ?post"
      using False by (simp add: ipv6_text_def b)
    have bnd: "\<forall>g \<in> set ?pre. g < 16 ^ 4" "\<forall>g \<in> set ?post. g < 16 ^ 4"
      using assms(2) by (auto dest: in_set_takeD in_set_dropD)
    have post: "hex_groups ?post = [] \<longleftrightarrow> ?post = []"
      using hex_groups_hd[of ?post] hex_groups_def[of "[]"] by (cases "?post = []") simp_all
    have n: "16 - (2 * length ?pre + 2 * length ?post) = 2 * l" "length ?pre = s"
      "length ?post = 8 - s - l"
      using sl assms(1) by auto
    show ?thesis
    proof (cases "?pre = []")
      case True
      then have s: "s = 0" using assms(1) by auto
      have pre: "hex_groups (take 0 gs) = []" by (simp add: hex_groups_def)
      show ?thesis
      proof (cases "?post = []")
        case True
        then have "l = 8" using n(3) sl s by auto
        then show ?thesis
          using True s pre bytes post by (simp add: parse_ipv6_def txt6 has_prefix_def)
      next
        case False
        with ipv6_groups_read[OF False _ bnd(2), of 8 "[]" "Some 0"] n s pre post sl
        show ?thesis
          by (simp add: parse_ipv6_def txt6 has_prefix_def bytes)
      qed
    next
      case False
      let ?t = "hex_groups ?pre @ ''::'' @ hex_groups ?post"
      have "\<not> has_prefix ?t ''::''"
        using hex_groups_hd[OF False] by (cases "hex_groups ?pre") (auto simp: has_prefix_def)
      moreover have "ipv6_groups 8 [] None ?t =
          Some (group_bytes ?pre @ group_bytes ?post, Some (2 * s), [])"
        using ipv6_groups_ellipsis[OF False _ bnd(1), of 8 "[]" "hex_groups ?post"] n post sl
          ipv6_groups_read[of ?post "8 - s", OF _ _ bnd(2)]
        by (cases "?post = []") (auto simp: Let_def)
      moreover have "2 * length ?pre + 2 * length ?post < 16" using n(1) sl(2) by linarith
      ultimately show ?thesis
        using n by (simp add: parse_ipv6_def txt6 bytes)
    qed
  qed
qed

lemma hex_groups_chars: "c \<in> set (hex_groups gs) \<Longrightarrow> hex_val c \<noteq> None \<or> c = CHR '':''"
  by (induction gs) (auto simp: hex_groups_Cons hex_groups_def[of "[]"] dest: hex_of_chars split: if_splits)

lemma ipv6_text_chars: "c \<in> set (ipv6_text gs) \<Longrightarrow> hex_val c \<noteq> None \<or> c = CHR '':''"
  by (auto simp: ipv6_text_def dest!: hex_groups_chars split: prod.splits if_splits)

lemma hex_groups_colon: "CHR '':'' \<in> set (hex_groups (g # h # gs))"
  by (simp add: hex_groups_Cons)

lemma ipv6_text_colon: "length gs = 8 \<Longrightarrow> CHR '':'' \<in> set (ipv6_text gs)"
proof -
  assume "length gs = 8"
  then obtain g h r where "gs = g # h # r"
    by (auto simp: numeral_eq_Suc length_Suc_conv)
  then have "CHR '':'' \<in> set (hex_groups gs)" by (simp add: hex_groups_colon)
  then show ?thesis
    by (cases "best_run 0 gs (0, 0)") (simp add: ipv6_text_def)
qed

lemma parse_ip_text:
  assumes "length gs = 8" and "\<forall>g \<in> set gs. g < 16 ^ 4"
  shows "parse_ip (ipv6_text gs) = Some (group_bytes gs)"
proof -
  let ?p = "\<lambda>ch. ch \<noteq> CHR ''.'' \<and> ch \<noteq> CHR '':''"
  have vals: "hex_val CHR ''.'' = None" "hex_val CHR ''%'' = None"
    by (simp_all add: hex_val_def is_digit_def)
  then have "CHR ''%'' \<notin> set (ipv6_text gs)"
    using ipv6_text_chars by fastforce
  moreover have "\<exists>r. dropWhile ?p (ipv6_text gs) = CHR '':'' # r"
  proof -
    have ne: "dropWhile ?p (ipv6_text gs) \<noteq> []"
      using ipv6_text_colon[OF assms(1)] by (auto simp: dropWhile_eq_Nil_conv)
    then have "\<not> ?p (hd (dropWhile ?p (ipv6_text gs)))" by (rule hd_dropWhile)
    moreover have "hd (dropWhile ?p (ipv6_text gs)) \<noteq> CHR ''.''"
      using set_dropWhileD[OF hd_in_set[OF ne]] vals(1) ipv6_text_chars by fastforce
    ultimately show ?thesis using ne by (cases "dropWhile ?p (ipv6_text gs)") auto
  qed
  ultimately show ?thesis
    by (auto simp: parse_ip_def parse_addr_def parse_ipv6_text[OF assms])
qed

theorem parse_ip_string:
  assumes "length a = 4 \<or> length a = 16"
  shows "parse_ip (ip_string a) = Some (if length a = 4 then v4_in_v6_prefix @ a else a)"
proof (cases "to4 a")
  case None
  then have "length a = 16" using assms by (auto simp: to4_def)
  then show ?thesis
    using None parse_ip_text[of "ip_groups a"] ip_groups_bound[of _ a]
    by (simp add: ip_string_def ip_groups_length group_bytes_ip_groups)
next
  case (Some v)
  then have "length v = 4" and "length a = 16 \<Longrightarrow> a = v4_in_v6_prefix @ v"
    and "length a = 4 \<Longrightarrow> v = a"
    by (auto simp: to4_def split: if_splits) (metis append_take_drop_id)
  then show ?thesis
    using Some assms by (auto simp: ip_string_def parse_ip_dotted)
qed

end
