(* ===== verification/Ingress_Net.thy ===== *)
theory Ingress_Net
  imports Ingress_Detect Go_Ip_Text
begin

section \<open>Names and origins of transparent connections: dns\_cache.go, transparent\_net.go\<close>

text \<open>
  The helper remembers which name the sandboxed program looked up for an address, and the original
  destination of every connection that the supervisor redirected. A redirected connection is
  then authorised under the name. Times are nanoseconds; the clock's value is an argument.
  \<^verbatim>\<open>dnsmessage.Message.Unpack\<close> is the parameter \<open>unpack\<close>.
\<close>

subsection \<open>The DNS cache\<close>

datatype dns_body = AResource ip | AAAAResource ip | OtherResource

record dns_answer =
  an_Body :: dns_body
  an_TTL :: "32 word"

record dns_packet =
  me_Questions :: "string list"
  me_Answers :: "dns_answer list"

type_synonym dns_unpack = "string \<Rightarrow> dns_packet option"

record dnsResolutionEntry =
  re_host :: string
  re_expires :: int

type_synonym dnsCache = "(string \<times> dnsResolutionEntry) list"

definition normalizeDNSName :: "string \<Rightarrow> string" where
  "normalizeDNSName name = to_lower (trim_space (trim_suffix name ''.''))"

fun collectAnswers :: "dns_answer list \<Rightarrow> string list \<Rightarrow> nat \<Rightarrow> string list \<times> nat" where
  "collectAnswers [] ips ttlSeconds = (ips, ttlSeconds)"
| "collectAnswers (answer # answers) ips ttlSeconds =
     (let ttl = unat (an_TTL answer);
          ttlSeconds' = (if ttl > 0 \<and> (ttlSeconds = 0 \<or> ttl < ttlSeconds) then ttl else ttlSeconds) in
      case an_Body answer of
        AResource a \<Rightarrow> collectAnswers answers (ips @ [ip_string a]) ttlSeconds'
      | AAAAResource a \<Rightarrow> collectAnswers answers (ips @ [ip_string a]) ttlSeconds'
      | OtherResource \<Rightarrow> collectAnswers answers ips ttlSeconds)"

definition parseDNSResolution :: "dns_unpack \<Rightarrow> string \<Rightarrow> string \<Rightarrow> (string \<times> string list \<times> int) option" where
  "parseDNSResolution unpack query response =
     (case unpack query of
        None \<Rightarrow> None
      | Some q \<Rightarrow>
          (case me_Questions q of
             [] \<Rightarrow> None
           | name # _ \<Rightarrow>
               let host = normalizeDNSName name in
               if host = [] then None
               else (case unpack response of
                       None \<Rightarrow> None
                     | Some r \<Rightarrow>
                         (case collectAnswers (me_Answers r) [] 0 of
                            (ips, ttlSeconds) \<Rightarrow>
                              if ips = [] then None else Some (host, ips, int ttlSeconds * 1000000000)))))"

definition effective_ttl :: "int \<Rightarrow> int" where
  "effective_ttl ttl = (if ttl \<le> 0 then 30000000000 else ttl)"

definition remember :: "dns_unpack \<Rightarrow> int \<Rightarrow> dnsCache \<Rightarrow> string \<Rightarrow> string \<Rightarrow> dnsCache" where
  "remember unpack now c query response =
     (case parseDNSResolution unpack query response of
        None \<Rightarrow> c
      | Some (host, ips, ttl) \<Rightarrow>
          foldl (\<lambda>c ip. if ip = [] then c
                        else gm_put ip \<lparr>re_host = host, re_expires = now + effective_ttl ttl\<rparr> c) c ips)"

definition lookupResolvedHost :: "dnsCache \<Rightarrow> string \<Rightarrow> int \<Rightarrow> string option \<times> dnsCache" where
  "lookupResolvedHost c ip now =
     (if ip = [] then (None, c)
      else case map_of c ip of
             None \<Rightarrow> (None, c)
           | Some entry \<Rightarrow>
               if now > re_expires entry then (None, gm_delete ip c)
               else if trim_space (re_host entry) = [] then (None, c)
               else (Some (re_host entry), c))"

subsection \<open>Origins of connections\<close>

record transparentNet =
  tn_rawTCPOrigins :: "(string \<times> (string \<times> int)) list"
  tn_dns :: dnsCache

definition newTransparentNet :: transparentNet where
  "newTransparentNet = \<lparr>tn_rawTCPOrigins = [], tn_dns = []\<rparr>"

definition canonicalTCPOriginKey :: "string \<Rightarrow> string" where
  "canonicalTCPOriginKey addr =
     (case split_host_port addr of
        Inl e \<Rightarrow> addr
      | Inr (host, port) \<Rightarrow>
          let host = (case parse_ip host of None \<Rightarrow> host | Some ip \<Rightarrow> ip_string ip) in
          if atoi port = None then addr else join_host_port host port)"

definition recordRawTCPOrigin :: "int \<Rightarrow> transparentNet \<Rightarrow> string \<Rightarrow> string \<Rightarrow> int \<Rightarrow> transparentNet" where
  "recordRawTCPOrigin now n localAddr host port =
     (if localAddr = [] \<or> host = [] \<or> port < 1 \<or> port > 65535 then n
      else
        let (resolved, dns) = (case parse_ip host of
              None \<Rightarrow> (None, tn_dns n) | Some ip \<Rightarrow> lookupResolvedHost (tn_dns n) (ip_string ip) now);
            host = (case resolved of None \<Rightarrow> host | Some name \<Rightarrow> name) in
        n\<lparr>tn_dns := dns,
          tn_rawTCPOrigins := gm_put (canonicalTCPOriginKey localAddr) (host, port) (tn_rawTCPOrigins n)\<rparr>)"

definition takeRawTCPOrigin :: "transparentNet \<Rightarrow> string \<Rightarrow> (string \<times> int) option \<times> transparentNet" where
  "takeRawTCPOrigin n localAddr =
     (if localAddr = [] then (None, n)
      else
        let key = canonicalTCPOriginKey localAddr in
        case map_of (tn_rawTCPOrigins n) key of
          None \<Rightarrow> (None, n)
        | Some dest \<Rightarrow> (Some dest, n\<lparr>tn_rawTCPOrigins := gm_delete key (tn_rawTCPOrigins n)\<rparr>))"

text \<open>
  Waiting for an origin: the table is asked again and again until the time is over. The list has
  what other goroutines do to the helper's state between two looks.
\<close>

fun waitRawTCPOrigin ::
  "string \<Rightarrow> (transparentNet \<Rightarrow> transparentNet) list \<Rightarrow> transparentNet \<Rightarrow> (string \<times> int) option \<times> transparentNet" where
  "waitRawTCPOrigin localAddr [] n = takeRawTCPOrigin n localAddr"
| "waitRawTCPOrigin localAddr (meanwhile # polls) n =
     (case takeRawTCPOrigin n localAddr of
        (Some dest, n') \<Rightarrow> (Some dest, n')
      | (None, n') \<Rightarrow> waitRawTCPOrigin localAddr polls (meanwhile n'))"

definition handleTransparentTCPConn ::
  "'s authorizer \<Rightarrow> (transparentNet \<Rightarrow> transparentNet) list \<Rightarrow> transparentNet \<Rightarrow> 's \<Rightarrow> reader \<Rightarrow> string \<Rightarrow>
   transparentNet \<times> 's \<times> tcp_outcome" where
  "handleTransparentTCPConn authorize polls n s r remoteAddr =
     (case waitRawTCPOrigin remoteAddr polls n of
        (dest, n') \<Rightarrow>
          (case (case dest of None \<Rightarrow> ([], 0) | Some d \<Rightarrow> d) of
             (host, port) \<Rightarrow> (n', ServeTransparentTCPConn authorize s r host port)))"

text \<open>A DNS round trip of the supervisor: a successful answer is remembered.\<close>

definition dnsRoundTripNet ::
  "dns_unpack \<Rightarrow> (DNSRequest \<Rightarrow> string result) \<Rightarrow> int \<Rightarrow> transparentNet \<Rightarrow> DNSRequest \<Rightarrow> string result \<times> transparentNet" where
  "dnsRoundTripNet unpack roundTrip now n req =
     (case roundTrip req of
        Inl e \<Rightarrow> (Inl e, n)
      | Inr reply \<Rightarrow> (Inr reply, n\<lparr>tn_dns := remember unpack now (tn_dns n) (dq_Payload req) reply\<rparr>))"

subsection \<open>The cache gives the last answer\<close>

datatype cache_event = Remembered int string string | LookedUp int string

fun event_time :: "cache_event \<Rightarrow> int" where
  "event_time (Remembered t q r) = t"
| "event_time (LookedUp t ip) = t"

fun cache_step :: "dns_unpack \<Rightarrow> dnsCache \<Rightarrow> cache_event \<Rightarrow> dnsCache" where
  "cache_step u c (Remembered t q r) = remember u t c q r"
| "cache_step u c (LookedUp t ip) = snd (lookupResolvedHost c ip t)"

text \<open>The abstract cache: the most recent answer that names the address.\<close>

fun known_step :: "dns_unpack \<Rightarrow> (string \<rightharpoonup> string \<times> int) \<Rightarrow> cache_event \<Rightarrow> (string \<rightharpoonup> string \<times> int)" where
  "known_step u k (Remembered t q r) =
     (case parseDNSResolution u q r of
        None \<Rightarrow> k
      | Some (host, ips, ttl) \<Rightarrow> (\<lambda>ip. if ip \<in> set ips then Some (host, t + effective_ttl ttl) else k ip))"
| "known_step u k (LookedUp t ip) = k"

definition known :: "dns_unpack \<Rightarrow> cache_event list \<Rightarrow> (string \<rightharpoonup> string \<times> int)" where
  "known u es = foldl (known_step u) (\<lambda>_. None) es"

lemma parse_host:
  assumes "parseDNSResolution u q r = Some (host, ips, ttl)"
  shows "trim_space host = host \<and> host \<noteq> []"
  using assms
  by (auto simp: parseDNSResolution_def Let_def normalizeDNSName_def trim_space_to_lower split: option.splits list.splits prod.splits if_splits)

lemma foldl_put:
  "map_of (foldl (\<lambda>c ip. if ip = [] then c else gm_put ip v c) c ips) ip =
     (if ip \<noteq> [] \<and> ip \<in> set ips then Some v else map_of c ip)"
  by (induction ips arbitrary: c) auto

lemma map_of_remember:
  "map_of (remember u t c q r) ip =
     (case parseDNSResolution u q r of
        None \<Rightarrow> map_of c ip
      | Some (host, ips, ttl) \<Rightarrow>
          if ip \<noteq> [] \<and> ip \<in> set ips then Some \<lparr>re_host = host, re_expires = t + effective_ttl ttl\<rparr> else map_of c ip)"
  by (simp add: remember_def foldl_put split: option.split prod.split)

text \<open>An entry agrees with the abstract cache, or it expired before \<open>now\<close> and was removed.\<close>

fun entry_agrees :: "int \<Rightarrow> dnsResolutionEntry option \<Rightarrow> (string \<times> int) option \<Rightarrow> bool" where
  "entry_agrees now entry None = (entry = None)"
| "entry_agrees now entry (Some (host, expires)) =
     (trim_space host \<noteq> [] \<and>
      (entry = Some \<lparr>re_host = host, re_expires = expires\<rparr> \<or> entry = None \<and> expires < now))"

definition agrees :: "int \<Rightarrow> dnsCache \<Rightarrow> (string \<rightharpoonup> string \<times> int) \<Rightarrow> bool" where
  "agrees now c k \<longleftrightarrow> (\<forall>ip. ip \<noteq> [] \<longrightarrow> entry_agrees now (map_of c ip) (k ip))"

lemma entry_later: "entry_agrees t entry k \<Longrightarrow> t \<le> t' \<Longrightarrow> entry_agrees t' entry k"
  by (cases "(t, entry, k)" rule: entry_agrees.cases) auto

lemma entry_expired: "entry_agrees t (Some entry) k \<Longrightarrow> re_expires entry < t' \<Longrightarrow> entry_agrees t' None k"
  by (cases "(t, Some entry, k)" rule: entry_agrees.cases) auto

lemma agrees_later: "agrees t c k \<Longrightarrow> t \<le> t' \<Longrightarrow> agrees t' c k"
  unfolding agrees_def using entry_later by blast

lemma agrees_step:
  assumes "agrees t c k" and "t \<le> event_time e"
  shows "agrees (event_time e) (cache_step u c e) (known_step u k e)"
  unfolding agrees_def
proof (intro allI impI)
  fix ip :: string
  assume "ip \<noteq> []"
  with agrees_later[OF assms] have old: "entry_agrees (event_time e) (map_of c ip) (k ip)" by (simp add: agrees_def)
  show "entry_agrees (event_time e) (map_of (cache_step u c e) ip) (known_step u k e ip)"
  proof (cases e)
    case (Remembered t' q r)
    then show ?thesis
      using old parse_host[of u q r] \<open>ip \<noteq> []\<close> by (simp add: map_of_remember split: option.split prod.split)
  next
    case (LookedUp t' ip')
    then show ?thesis
      using old entry_expired by (auto simp: lookupResolvedHost_def split: option.splits)
  qed
qed

lemma agrees_run:
  assumes "agrees t c k" and "sorted (t # map event_time es)" and "\<forall>e \<in> set es. event_time e \<le> now" and "t \<le> now"
  shows "agrees now (foldl (cache_step u) c es) (foldl (known_step u) k es)"
  using assms
proof (induction es arbitrary: t c k)
  case (Cons e es)
  from Cons.prems have "agrees (event_time e) (cache_step u c e) (known_step u k e)" by (intro agrees_step) auto
  from Cons.IH[OF this] Cons.prems show ?case by simp
qed (auto intro: agrees_later)

lemma lookup_agrees:
  assumes "agrees now c k"
  shows "fst (lookupResolvedHost c ip now) =
    (if ip = [] then None else case k ip of None \<Rightarrow> None | Some (host, expires) \<Rightarrow> if now \<le> expires then Some host else None)"
proof (cases "ip = []")
  case False
  with assms have "entry_agrees now (map_of c ip) (k ip)" by (simp add: agrees_def)
  with False show ?thesis
    by (cases "(now, map_of c ip, k ip)" rule: entry_agrees.cases) (auto simp: lookupResolvedHost_def)
qed (simp add: lookupResolvedHost_def)

lemma cache_agrees:
  assumes "sorted (map event_time es)" and "\<forall>e \<in> set es. event_time e \<le> now"
  shows "agrees now (foldl (cache_step u) [] es) (known u es)"
proof (cases es)
  case (Cons e es')
  have "agrees (event_time e) [] (\<lambda>_. None)" by (simp add: agrees_def)
  then show ?thesis unfolding known_def by (rule agrees_run) (use assms Cons in auto)
qed (simp add: agrees_def known_def)


subsection \<open>Origins\<close>

text \<open>An address as the Go library prints it, of a socket's own end or of the peer of an accepted connection.\<close>

definition printed_addr :: "ip \<Rightarrow> int \<Rightarrow> string" where
  "printed_addr a port = join_host_port (ip_string a) (itoa port)"

lemma ip_string_chars: "c \<in> set (ip_string a) \<Longrightarrow> c \<noteq> CHR ''['' \<and> c \<noteq> CHR '']''"
proof -
  have "hex_val CHR ''['' = None" "hex_val CHR '']'' = None" by code_simp+
  then show "c \<in> set (ip_string a) \<Longrightarrow> c \<noteq> CHR ''['' \<and> c \<noteq> CHR '']''"
    using dotted_chars[of c] ipv6_text_chars[of c] by (auto simp: ip_string_def is_digit_def split: option.splits)
qed

lemma ip_string_parse:
  assumes "length a = 4 \<or> length a = 16" and "parse_ip (ip_string a) = Some b"
  shows "ip_string b = ip_string a"
  using assms parse_ip_string[OF assms(1)] by (auto simp: ip_string_def to4_def v4_in_v6_prefix_def split: if_splits)

lemma ip_string_nonempty: "parse_ip s = Some a \<Longrightarrow> ip_string a \<noteq> []"
proof
  assume "parse_ip s = Some a" and "ip_string a = []"
  then have "parse_ip [] \<noteq> None" using parse_ip_string[of a] parse_ip_length by fastforce
  then show False by (simp add: parse_ip_def parse_addr_def)
qed

lemma canonical_printed:
  assumes "length a = 4 \<or> length a = 16" and "0 \<le> port" and "port < 2 ^ 16"
  shows "canonicalTCPOriginKey (printed_addr a port) = printed_addr a port"
proof -
  have "split_host_port (printed_addr a port) = Inr (ip_string a, itoa port)"
    unfolding printed_addr_def
    using ip_string_chars[of _ a] itoa_chars[of "CHR '':''" port] itoa_chars[of "CHR ''[''" port] itoa_chars[of "CHR '']''" port]
    by (intro split_join_host_port) (auto simp: is_digit_def)
  moreover obtain b where "parse_ip (ip_string a) = Some b" using parse_ip_string[OF assms(1)] by simp
  moreover have "atoi (itoa port) = Some port" using assms(2,3) by (intro atoi_itoa) auto
  ultimately show ?thesis
    using ip_string_parse[OF assms(1)] by (simp add: canonicalTCPOriginKey_def printed_addr_def)
qed

text \<open>The name or address under which a destination is authorised.\<close>

definition origin_host :: "int \<Rightarrow> dnsCache \<Rightarrow> string \<Rightarrow> string" where
  "origin_host now c host =
     (case parse_ip host of
        None \<Rightarrow> host
      | Some ip \<Rightarrow> (case fst (lookupResolvedHost c (ip_string ip) now) of None \<Rightarrow> host | Some name \<Rightarrow> name))"

lemma record_take:
  assumes "length a = 4 \<or> length a = 16" "length b = 4 \<or> length b = 16" "ip_string a = ip_string b"
    and "0 \<le> lp" "lp < 2 ^ 16" and "host \<noteq> []" "1 \<le> port" "port \<le> 65535"
  shows "fst (takeRawTCPOrigin (recordRawTCPOrigin now n (printed_addr a lp) host port) (printed_addr b lp)) =
      Some (origin_host now (tn_dns n) host, port)"
    and "fst (takeRawTCPOrigin (snd (takeRawTCPOrigin (recordRawTCPOrigin now n (printed_addr a lp) host port)
      (printed_addr b lp))) (printed_addr b lp)) = None"
proof -
  have same: "printed_addr b lp = printed_addr a lp" and ne: "printed_addr a lp \<noteq> []"
    using assms(3) by (simp_all add: printed_addr_def join_host_port_def)
  note key = canonical_printed[OF assms(1,4,5)]
  show "fst (takeRawTCPOrigin (recordRawTCPOrigin now n (printed_addr a lp) host port) (printed_addr b lp)) =
      Some (origin_host now (tn_dns n) host, port)"
    using assms ne
    by (simp add: same takeRawTCPOrigin_def recordRawTCPOrigin_def key origin_host_def Let_def split: option.split prod.split)
  show "fst (takeRawTCPOrigin (snd (takeRawTCPOrigin (recordRawTCPOrigin now n (printed_addr a lp) host port)
      (printed_addr b lp))) (printed_addr b lp)) = None"
    using assms ne
    by (simp add: same takeRawTCPOrigin_def recordRawTCPOrigin_def key Let_def split: option.split prod.split)
qed

subsection \<open>Connections and the policy\<close>

text \<open>The bridge carries the request to the manager's handler and the answer back.\<close>

definition manager_authorizer :: "int \<Rightarrow> string \<Rightarrow> ProxyManager authorizer" where
  "manager_authorizer now sid m req = (case handleConnectRequest now m sid req of (m', response) \<Rightarrow> (m', Inr (Some response)))"

lemma authorized_allowed:
  assumes "snd (authorizeTransparentTCPConn (manager_authorizer now sid) m host port dflt md)"
    and "policyModeForSandbox m sid = ''enforce''"
  shows "\<exists>policy. policyForSandbox m sid = Some policy \<and>
     Allowed (evaluateConnect policy (trim_space host) (if port \<le> 0 then dflt else port) True)"
  using assms
  by (auto simp: authorizeTransparentTCPConn_def manager_authorizer_def handleConnectRequest_def HandleConnectRequest_def Let_def
      normalizedPolicyModeOrDefault_def normalizePolicyMode_def split: if_splits option.splits prod.splits)

lemma connect_allowed_response:
  "Allowed (evaluateConnect policy (cq_Host req) (cq_Port req) (cq_Transparent req)) \<Longrightarrow>
   sd_response (HandleConnectRequest mode policy sid req) = \<lparr>cs_StatusCode = 200, cs_Message = [], cs_Error = []\<rparr>"
  by (cases "cq_Transparent req") (simp_all add: HandleConnectRequest_def Let_def split: prod.split)

lemma allowed_authorized:
  assumes "trim_space host \<noteq> []" and "policyForSandbox m sid = Some policy"
    and "Allowed (evaluateConnect policy (trim_space host) (if port \<le> 0 then dflt else port) True)"
  shows "snd (authorizeTransparentTCPConn (manager_authorizer now sid) m host port dflt md)"
proof -
  define req where "req = \<lparr>cq_Host = trim_space host, cq_Port = if port \<le> 0 then dflt else port, cq_Transparent = True, cq_ProtocolMetadata = md\<rparr>"
  have "sd_response (HandleConnectRequest mode policy sid req) = \<lparr>cs_StatusCode = 200, cs_Message = [], cs_Error = []\<rparr>" for mode
    by (rule connect_allowed_response) (use assms(3) in \<open>simp add: req_def\<close>)
  then show ?thesis
    using assms(1,2) by (simp add: authorizeTransparentTCPConn_def manager_authorizer_def handleConnectRequest_def Let_def flip: req_def)
qed

lemma served_allowed:
  assumes "ServeTransparentTCPConn (manager_authorizer now sid) m r host port = (m', outcome)" and "outcome \<noteq> ConnReset"
    and "policyModeForSandbox m sid = ''enforce''"
  obtains r' policy dflt where "stream r' = stream r"
    "outcome = ServeHTTPS r' host port \<and> classify (stream r) = ProtocolTLS \<and> dflt = 443 \<or>
     outcome = ServeHTTP r' host port \<and> classify (stream r) = ProtocolHTTP \<and> dflt = 80"
    "policyForSandbox m sid = Some policy"
    "Allowed (evaluateConnect policy (trim_space host) (if port \<le> 0 then dflt else port) True)"
proof -
  obtain p r' where d: "detectTransparentTCPProtocol r = (p, r')" by fastforce
  with detect_classify[of r] have c: "classify (stream r) = p" "stream r' = stream r" by auto
  show thesis
  proof (cases p)
    case ProtocolTLS
    then show ?thesis
      using assms c d authorized_allowed[OF _ assms(3), of now host port 443 "detected ''https'' ''tls_client_hello'' ''probable''"]
      by (auto simp: ServeTransparentTCPConn_def split: prod.splits if_splits intro: that)
  next
    case ProtocolHTTP
    then show ?thesis
      using assms c d authorized_allowed[OF _ assms(3), of now host port 80 "detected ''http'' ''first_bytes'' ''probable''"]
      by (auto simp: ServeTransparentTCPConn_def split: prod.splits if_splits intro: that)
  qed (use assms d in \<open>auto simp: ServeTransparentTCPConn_def split: prod.splits\<close>)
qed

text \<open>
  C16. From the redirected connect to the policy: when the supervisor has recorded where the program
  wanted to connect and the connection arrives at the helper, it is served only if the sandbox's
  policy allows the name that the program last looked up for the address, as long as that answer
  lives, and otherwise the address itself. The served connection starts with the bytes the program sent.
\<close>

theorem transparent_connection_checked:
  assumes "length a = 4 \<or> length a = 16" "length b = 4 \<or> length b = 16" "ip_string a = ip_string b" "0 \<le> lp" "lp < 2 ^ 16"
    and "host \<noteq> []" "1 \<le> port" "port \<le> 65535" "parse_ip host = Some ip"
    and "sorted (map event_time es)" "\<forall>e \<in> set es. event_time e \<le> t" "tn_dns n = foldl (cache_step u) [] es"
    and "n1 = recordRawTCPOrigin t n (printed_addr a lp) host port"
    and "handleTransparentTCPConn (manager_authorizer now sid) polls n1 m r (printed_addr b lp) = (n2, m', outcome)"
    and "outcome \<noteq> ConnReset" "policyModeForSandbox m sid = ''enforce''"
  shows "\<exists>policy name r'. policyForSandbox m sid = Some policy \<and>
     name = (case known u es (ip_string ip) of Some (name, expires) \<Rightarrow> if t \<le> expires then name else host | None \<Rightarrow> host) \<and>
     Allowed (evaluateConnect policy (trim_space name) port True) \<and>
     stream r' = stream r \<and> (outcome = ServeHTTPS r' name port \<or> outcome = ServeHTTP r' name port)"
proof -
  let ?name = "origin_host t (tn_dns n) host"
  from lookup_agrees[OF cache_agrees[OF assms(10,11)], of u "ip_string ip"] have name: "?name =
      (case known u es (ip_string ip) of Some (name, expires) \<Rightarrow> if t \<le> expires then name else host | None \<Rightarrow> host)"
    using assms(9,12) ip_string_nonempty[OF assms(9)] by (simp add: origin_host_def split: option.split prod.split)
  obtain n2' where taken: "takeRawTCPOrigin n1 (printed_addr b lp) = (Some (?name, port), n2')"
    using record_take(1)[OF assms(1-8), of t n] assms(13) by (metis prod.collapse)
  then have "waitRawTCPOrigin (printed_addr b lp) polls n1 = (Some (?name, port), n2')" by (cases polls) simp_all
  with assms(14) have "ServeTransparentTCPConn (manager_authorizer now sid) m r ?name port = (m', outcome)"
    by (simp add: handleTransparentTCPConn_def split: prod.splits)
  from served_allowed[OF this assms(15,16)] obtain r' policy dflt where served: "stream r' = stream r"
    "outcome = ServeHTTPS r' ?name port \<or> outcome = ServeHTTP r' ?name port" "policyForSandbox m sid = Some policy"
    "Allowed (evaluateConnect policy (trim_space ?name) (if port \<le> 0 then dflt else port) True)"
    by blast
  from served(4) assms(7) have "Allowed (evaluateConnect policy (trim_space ?name) port True)" by simp
  with served name show ?thesis by metis
qed

subsection \<open>Examples\<close>

lemma snd_TrueE:
  assumes "snd x"
  obtains m where "x = (m, True)"
  using assms by (cases x) auto

text \<open>A name server that answers every query for the name with one address and a minute to live.\<close>

definition example_unpack :: dns_unpack where
  "example_unpack s = Some (if s = ''q'' then \<lparr>me_Questions = [''Example.com.''], me_Answers = []\<rparr>
     else \<lparr>me_Questions = [], me_Answers = [\<lparr>an_Body = AResource [10, 0, 0, 1], an_TTL = 60\<rparr>]\<rparr>)"

definition example_net :: transparentNet where
  "example_net = newTransparentNet\<lparr>tn_dns := foldl (cache_step example_unpack) [] [Remembered 0 ''q'' ''r'']\<rparr>"


abbreviation example_conn :: "transparentNet \<times> ProxyManager \<times> tcp_outcome" where
  "example_conn \<equiv> handleTransparentTCPConn (manager_authorizer 9 ''s'') []
     (recordRawTCPOrigin 5 example_net (printed_addr [127, 0, 0, 1] 4000) ''10.0.0.1'' 80)
     example_manager \<lparr>br_buf = [], br_reads = [''GET / HTTP/1.1'']\<rparr> (printed_addr [127, 0, 0, 1] 4000)"

theorem transparent_connection_checked_witness:
  "\<exists>n m r' policy. example_conn = (n, m, ServeHTTP r' ''example.com'' 80) \<and>
     policyForSandbox example_manager ''s'' = Some policy \<and> Allowed (evaluateConnect policy ''example.com'' 80 True)"
proof -
  let ?n = "recordRawTCPOrigin 5 example_net (printed_addr [127, 0, 0, 1] 4000) ''10.0.0.1'' 80"
  let ?r = "\<lparr>br_buf = [], br_reads = [''GET / HTTP/1.1'']\<rparr>"
  have "origin_host 5 (tn_dns example_net) ''10.0.0.1'' = ''example.com''" by code_simp
  then have "fst (takeRawTCPOrigin ?n (printed_addr [127, 0, 0, 1] 4000)) = Some (''example.com'', 80)"
    by (subst record_take(1)) simp_all
  then obtain n where taken: "takeRawTCPOrigin ?n (printed_addr [127, 0, 0, 1] 4000) = (Some (''example.com'', 80), n)" by (metis prod.collapse)
  have "fst (detectTransparentTCPProtocol ?r) = ProtocolHTTP" by code_simp
  then obtain r' where http: "detectTransparentTCPProtocol ?r = (ProtocolHTTP, r')" by (metis prod.collapse)
  have allowed: "Allowed (evaluateConnect [example_dns_rule] ''example.com'' 80 True)" by code_simp
  have policy: "policyForSandbox example_manager ''s'' = Some [example_dns_rule]"
    by (simp add: policyForSandbox_def regPolicy_def example_manager_def)
  have trim: "trim_space ''example.com'' = ''example.com''" by code_simp
  have "snd (authorizeTransparentTCPConn (manager_authorizer 9 ''s'') example_manager ''example.com'' 80 80 (detected ''http'' ''first_bytes'' ''probable''))"
    by (rule allowed_authorized[OF _ policy]) (use allowed trim in simp_all)
  then obtain m where "authorizeTransparentTCPConn (manager_authorizer 9 ''s'') example_manager ''example.com'' 80 80
      (detected ''http'' ''first_bytes'' ''probable'') = (m, True)" by (rule snd_TrueE)
  with taken http have run: "example_conn = (n, m, ServeHTTP r' ''example.com'' 80)"
    by (simp add: handleTransparentTCPConn_def ServeTransparentTCPConn_def)
  have ip: "parse_ip ''10.0.0.1'' = Some [0, 0, 0, 0, 0, 0, 0, 0, 0, 0, 255, 255, 10, 0, 0, 1]"
    "ip_string [0, 0, 0, 0, 0, 0, 0, 0, 0, 0, 255, 255, 10, 0, 0, 1] = ''10.0.0.1''"
    "known example_unpack [Remembered 0 ''q'' ''r''] ''10.0.0.1'' = Some (''example.com'', 60000000000)"
    "policyModeForSandbox example_manager ''s'' = ''enforce''"
    by code_simp+
  from transparent_connection_checked[OF _ _ refl _ _ _ _ _ ip(1) _ _ _ refl run, where es = "[Remembered 0 ''q'' ''r'']" and u = example_unpack]
  show ?thesis using ip trim run by (auto simp: example_net_def)
qed

end
