(* ===== verification/Helper_Bridge.thy ===== *)
theory Helper_Bridge
  imports Manager
begin

section \<open>The helper's end of the control channel: bridge/bridge.go\<close>

text \<open>
  The helper sends requests to the host and gives each answer to the caller that waits under the
  request's id; messages of tunnels go to the tunnel's queue. A pending request is a channel of
  capacity one, a tunnel a queue of capacity 32. The log is left out. What is written to the
  channel is kept in order in \<open>rb_sent\<close>; \<open>rb_sendError\<close> is the error that writing gives, if any.
\<close>

definition envelope :: "64 word \<Rightarrow> Envelope" where
  "envelope i = \<lparr>en_ID = i, en_Hello = None, en_Ready = None, en_ProxyRequest = None, en_ProxyResponse = None,
     en_ConnectRequest = None, en_ConnectResponse = None, en_DNSRequest = None, en_DNSResponse = None,
     en_LeafCertRequest = None, en_LeafCertResponse = None, en_MITMRequest = None, en_MITMResponse = None,
     en_TunnelFrame = None, en_TunnelClose = None, en_ExecRequest = None, en_ExecInput = None,
     en_StreamFrame = None, en_ExecResult = None\<rparr>"

record RuntimeBridge =
  rb_proxyAddr :: string
  rb_dnsAddr :: string
  rb_tcpAddr :: string
  rb_nextID :: "64 word"
  rb_pending :: "(64 word \<times> Envelope option) list"
  rb_tunnels :: "(64 word \<times> Envelope list) list"
  rb_sent :: "Envelope list"
  rb_sendError :: "error option"

definition newBridge :: "string \<Rightarrow> RuntimeBridge" where
  "newBridge proxyAddr =
     \<lparr>rb_proxyAddr = proxyAddr, rb_dnsAddr = [], rb_tcpAddr = [], rb_nextID = 0, rb_pending = [], rb_tunnels = [],
      rb_sent = [], rb_sendError = None\<rparr>"

definition SetReadyAddrs :: "RuntimeBridge \<Rightarrow> string \<Rightarrow> string \<Rightarrow> RuntimeBridge" where
  "SetReadyAddrs b dnsAddr tcpAddr = b\<lparr>rb_dnsAddr := dnsAddr, rb_tcpAddr := tcpAddr\<rparr>"

definition Send :: "RuntimeBridge \<Rightarrow> Envelope \<Rightarrow> error option \<times> RuntimeBridge" where
  "Send b env = (case rb_sendError b of
     Some e \<Rightarrow> (Some e, b) | None \<Rightarrow> (None, b\<lparr>rb_sent := rb_sent b @ [env]\<rparr>))"

subsection \<open>Requests\<close>

text \<open>
  The first half of a round trip, up to waiting: a new id, its channel and the request. The second half
  is the answer that arrives or the end of the caller's context.
\<close>

definition beginRequest ::
  "RuntimeBridge \<Rightarrow> (64 word \<Rightarrow> Envelope) \<Rightarrow> (error + 64 word) \<times> RuntimeBridge" where
  "beginRequest b request =
     (let i = rb_nextID b + 1;
          b = b\<lparr>rb_nextID := i, rb_pending := gm_put i None (rb_pending b)\<rparr> in
      case Send b (request i) of
        (Some e, b) \<Rightarrow> (Inl e, b\<lparr>rb_pending := gm_delete i (rb_pending b)\<rparr>)
      | (None, b) \<Rightarrow> (Inr i, b))"

definition endRequest :: "RuntimeBridge \<Rightarrow> 64 word \<Rightarrow> RuntimeBridge" where
  "endRequest b i = b\<lparr>rb_pending := gm_delete i (rb_pending b)\<rparr>"

text \<open>The requests, and what their callers make of an answer.\<close>

definition proxyRequestEnvelope :: "ProxyRequest \<Rightarrow> 64 word \<Rightarrow> Envelope" where
  "proxyRequestEnvelope req i = (envelope i)\<lparr>en_ProxyRequest := Some req\<rparr>"

definition proxyAnswer :: "Envelope \<Rightarrow> ProxyResponse result" where
  "proxyAnswer env = (case en_ProxyResponse env of
     None \<Rightarrow> err (''bridge response '' @ itoa (uint (en_ID env)) @ '' did not contain a proxy response'')
   | Some r \<Rightarrow> if ps_Error r \<noteq> [] then err (ps_Error r) else ok r)"

definition dnsRequestEnvelope :: "DNSRequest \<Rightarrow> 64 word \<Rightarrow> Envelope" where
  "dnsRequestEnvelope req i = (envelope i)\<lparr>en_DNSRequest := Some req\<rparr>"

definition dnsAnswer :: "Envelope \<Rightarrow> string result" where
  "dnsAnswer env = (case en_DNSResponse env of
     None \<Rightarrow> err (''bridge response '' @ itoa (uint (en_ID env)) @ '' did not contain a dns response'')
   | Some r \<Rightarrow> if dn_Error r \<noteq> [] then err (dn_Error r) else ok (dn_Payload r))"

definition no_metadata :: ProtocolMetadata where
  "no_metadata = \<lparr>pm_Protocol = [], pm_Source = [], pm_Confidence = []\<rparr>"

definition connectRequestEnvelope :: "string \<Rightarrow> int \<Rightarrow> bool \<Rightarrow> ProtocolMetadata \<Rightarrow> 64 word \<Rightarrow> Envelope" where
  "connectRequestEnvelope host port transparent metadata i =
     (envelope i)\<lparr>en_ConnectRequest :=
        Some \<lparr>cq_Host = host, cq_Port = port, cq_Transparent = transparent, cq_ProtocolMetadata = metadata\<rparr>\<rparr>"

definition connectAnswer :: "Envelope \<Rightarrow> ConnectResponse result" where
  "connectAnswer env = (case en_ConnectResponse env of
     None \<Rightarrow> err (''bridge response '' @ itoa (uint (en_ID env)) @ '' did not contain a connect response'')
   | Some r \<Rightarrow> ok r)"

definition leafCertRequestEnvelope :: "string \<Rightarrow> 64 word \<Rightarrow> Envelope" where
  "leafCertRequestEnvelope host i = (envelope i)\<lparr>en_LeafCertRequest := Some \<lparr>lq_Host = host\<rparr>\<rparr>"

definition leafCertAnswer :: "Envelope \<Rightarrow> LeafCertResponse result" where
  "leafCertAnswer env = (case en_LeafCertResponse env of
     None \<Rightarrow> err (''bridge response '' @ itoa (uint (en_ID env)) @ '' did not contain a leaf cert response'')
   | Some r \<Rightarrow> if lr_Error r \<noteq> [] then err (lr_Error r) else ok r)"

definition mitmRequestEnvelope :: "MITMRequest \<Rightarrow> 64 word \<Rightarrow> Envelope" where
  "mitmRequestEnvelope req i = (envelope i)\<lparr>en_MITMRequest := Some req\<rparr>"

definition mitmAnswer :: "Envelope \<Rightarrow> MITMResponse result" where
  "mitmAnswer env = (case en_MITMResponse env of
     None \<Rightarrow> err (''bridge response '' @ itoa (uint (en_ID env)) @ '' did not contain a MITM response'')
   | Some r \<Rightarrow> if mr_Error r \<noteq> [] \<and> mr_StatusCode r = 0 then err (mr_Error r) else ok r)"

subsection \<open>Tunnels\<close>

definition RegisterTunnel :: "RuntimeBridge \<Rightarrow> 64 word \<Rightarrow> RuntimeBridge" where
  "RegisterTunnel b i = b\<lparr>rb_tunnels := gm_put i [] (rb_tunnels b)\<rparr>"

definition UnregisterTunnel :: "RuntimeBridge \<Rightarrow> 64 word \<Rightarrow> RuntimeBridge" where
  "UnregisterTunnel b i = b\<lparr>rb_tunnels := gm_delete i (rb_tunnels b)\<rparr>"

definition TunnelCount :: "RuntimeBridge \<Rightarrow> nat" where
  "TunnelCount b = length (rb_tunnels b)"

text \<open>
  A full queue blocks the caller until there is room or the tunnel is gone: \<open>None\<close> is a call that waits.
\<close>

definition DeliverTunnel :: "RuntimeBridge \<Rightarrow> Envelope \<Rightarrow> RuntimeBridge option" where
  "DeliverTunnel b env =
     (case map_of (rb_tunnels b) (en_ID env) of
        None \<Rightarrow> Some b
      | Some q \<Rightarrow>
          if length q < 32 then Some (b\<lparr>rb_tunnels := gm_put (en_ID env) (q @ [env]) (rb_tunnels b)\<rparr>)
          else None)"

text \<open>\<open>closing\<close> is the error's text, empty for an end of file or a closed connection.\<close>

definition SendTunnelClose :: "RuntimeBridge \<Rightarrow> 64 word \<Rightarrow> bool \<Rightarrow> string \<Rightarrow> error option \<times> RuntimeBridge" where
  "SendTunnelClose b i write closing =
     Send b ((envelope i)\<lparr>en_TunnelClose := Some \<lparr>tc_Write = write, tc_Error = closing\<rparr>\<rparr>)"

text \<open>The first half of \<^verbatim>\<open>Connect\<close>: the tunnel is registered before the request is sent.\<close>

definition beginConnect :: "RuntimeBridge \<Rightarrow> string \<Rightarrow> int \<Rightarrow> (error + 64 word) \<times> RuntimeBridge" where
  "beginConnect b host port =
     (let i = rb_nextID b + 1 in
      case beginRequest (RegisterTunnel b i) (connectRequestEnvelope host port False no_metadata) of
        (Inl e, b) \<Rightarrow> (Inl e, UnregisterTunnel b i)
      | (Inr i, b) \<Rightarrow> (Inr i, b))"

text \<open>The second half, with the answer or the error of the caller's context.\<close>

definition endConnect :: "RuntimeBridge \<Rightarrow> 64 word \<Rightarrow> Envelope result \<Rightarrow> ConnectResponse result \<times> RuntimeBridge" where
  "endConnect b i answer =
     (case answer of
        Inl e \<Rightarrow> (Inl e, UnregisterTunnel (endRequest b i) i)
      | Inr env \<Rightarrow>
          (case connectAnswer env of
             Inl e \<Rightarrow> (Inl e, UnregisterTunnel (endRequest b i) i)
           | Inr r \<Rightarrow> (Inr r, endRequest b i)))"

subsection \<open>Reading\<close>

definition deliver :: "RuntimeBridge \<Rightarrow> Envelope \<Rightarrow> RuntimeBridge" where
  "deliver b env =
     (case map_of (rb_pending b) (en_ID env) of
        Some None \<Rightarrow> b\<lparr>rb_pending := gm_put (en_ID env) (Some env) (rb_pending b)\<rparr>
      | _ \<Rightarrow> b)"

definition handleHello :: "RuntimeBridge \<Rightarrow> Envelope \<Rightarrow> Hello \<Rightarrow> error option \<times> RuntimeBridge" where
  "handleHello b env hello =
     (if he_ProtocolVersion hello \<noteq> ProtocolVersion
      then (Some (''unsupported protocol version '' @ itoa (he_ProtocolVersion hello)), b)
      else Send b ((envelope (en_ID env))\<lparr>en_Ready :=
        Some \<lparr>rd_ProtocolVersion = ProtocolVersion, rd_ProxyAddr = rb_proxyAddr b, rd_DNSAddr = rb_dnsAddr b,
              rd_TCPAddr = rb_tcpAddr b\<rparr>\<rparr>))"

text \<open>
  One turn of \<^verbatim>\<open>ReadLoop\<close>. The handler of the programs' input runs in the loop, that of a new program in
  a goroutine of its own; \<open>exec\<close> is what they do to the helper's state, \<open>None\<close> when the input's handler waits.
\<close>

datatype 'a turn = Continue 'a | Stop error 'a | Blocked

record 's exec_handlers =
  eh_request :: "'s \<Rightarrow> 64 word \<Rightarrow> ExecRequest \<Rightarrow> 's"
  eh_input :: "'s \<Rightarrow> 64 word \<Rightarrow> ExecInput \<Rightarrow> 's option"

definition readTurn ::
  "'s exec_handlers \<Rightarrow> RuntimeBridge \<times> 's \<Rightarrow> Envelope \<Rightarrow> (RuntimeBridge \<times> 's) turn" where
  "readTurn ex = (\<lambda>(b, s) env.
     (case en_Hello env of
        Some hello \<Rightarrow> (case handleHello b env hello of (None, b) \<Rightarrow> Continue (b, s) | (Some e, b) \<Rightarrow> Stop e (b, s))
      | None \<Rightarrow>
        if en_ProxyResponse env \<noteq> None \<or> en_MITMResponse env \<noteq> None \<or> en_LeafCertResponse env \<noteq> None \<or>
           en_DNSResponse env \<noteq> None \<or> en_ConnectResponse env \<noteq> None
        then Continue (deliver b env, s)
        else if en_TunnelFrame env \<noteq> None \<or> en_TunnelClose env \<noteq> None
        then (case DeliverTunnel b env of None \<Rightarrow> Blocked | Some b \<Rightarrow> Continue (b, s))
        else (case en_ExecRequest env of
            Some req \<Rightarrow> Continue (b, eh_request ex s (en_ID env) req)
          | None \<Rightarrow>
            (case en_ExecInput env of
               Some input \<Rightarrow> (case eh_input ex s (en_ID env) input of None \<Rightarrow> Blocked | Some s \<Rightarrow> Continue (b, s))
             | None \<Rightarrow> Continue (b, s)))))"

subsection \<open>Relaying\<close>

record TunnelRelayResult =
  rr_SendClose :: bool
  rr_Write :: bool
  rr_Err :: "error option"
  rr_Terminal :: bool

text \<open>How a read of a connection ends.\<close>

datatype read_end = ReadMore | ReadEOF | ReadClosed | ReadFailed error

definition failed_relay :: "error \<Rightarrow> TunnelRelayResult" where
  "failed_relay e = \<lparr>rr_SendClose = True, rr_Write = False, rr_Err = Some e, rr_Terminal = True\<rparr>"

definition quiet_end :: TunnelRelayResult where
  "quiet_end = \<lparr>rr_SendClose = False, rr_Write = False, rr_Err = None, rr_Terminal = False\<rparr>"

definition sendFrame :: "RuntimeBridge \<Rightarrow> 64 word \<Rightarrow> string \<Rightarrow> error option \<times> RuntimeBridge" where
  "sendFrame b i data =
     (if data = [] then (None, b) else Send b ((envelope i)\<lparr>en_TunnelFrame := Some \<lparr>tf_Data = data\<rparr>\<rparr>))"

text \<open>The list has the reads of the connection; when it ends, the relay still waits for the next.\<close>

fun relayReads ::
  "RuntimeBridge \<Rightarrow> 64 word \<Rightarrow> (string \<times> read_end) list \<Rightarrow> TunnelRelayResult option \<times> RuntimeBridge" where
  "relayReads b i [] = (None, b)"
| "relayReads b i ((data, how) # reads) =
     (case sendFrame b i data of
        (Some e, b) \<Rightarrow> (Some (failed_relay e), b)
      | (None, b) \<Rightarrow>
          (case how of
             ReadMore \<Rightarrow> relayReads b i reads
           | ReadEOF \<Rightarrow> (Some \<lparr>rr_SendClose = True, rr_Write = True, rr_Err = None, rr_Terminal = False\<rparr>, b)
           | ReadClosed \<Rightarrow> (Some quiet_end, b)
           | ReadFailed e \<Rightarrow> (Some (failed_relay e), b)))"

definition RelayPayloadToTunnel ::
  "RuntimeBridge \<Rightarrow> 64 word \<Rightarrow> string \<Rightarrow> (string \<times> read_end) list \<Rightarrow> TunnelRelayResult option \<times> RuntimeBridge" where
  "RelayPayloadToTunnel b i buffered reads = relayReads b i ((buffered, ReadMore) # reads)"

text \<open>
  The other direction, over the messages taken from the tunnel's queue: the bytes written to the
  connection and how the relay ends. \<open>write\<close> is the error of writing these bytes, \<open>close_write\<close> that of closing
  the connection for writing.
\<close>

fun RelayTunnelToPayload ::
  "(string \<Rightarrow> error option) \<Rightarrow> error option \<Rightarrow> Envelope list \<Rightarrow> string list \<times> TunnelRelayResult option" where
  "RelayTunnelToPayload write close_write [] = ([], None)"
| "RelayTunnelToPayload write close_write (env # envs) =
     (case en_TunnelFrame env of
        Some frame \<Rightarrow>
          if tf_Data frame = [] then RelayTunnelToPayload write close_write envs
          else (case write (tf_Data frame) of
                  Some e \<Rightarrow> ([], Some (failed_relay e))
                | None \<Rightarrow>
                    (case RelayTunnelToPayload write close_write envs of
                       (out, r) \<Rightarrow> (tf_Data frame # out, r)))
      | None \<Rightarrow>
          (case en_TunnelClose env of
             Some c \<Rightarrow>
               if tc_Write c then
                 (case close_write of Some e \<Rightarrow> ([], Some (failed_relay e)) | None \<Rightarrow> ([], Some quiet_end))
               else ([], Some \<lparr>rr_SendClose = False, rr_Write = False, rr_Err = None, rr_Terminal = True\<rparr>)
           | None \<Rightarrow> RelayTunnelToPayload write close_write envs))"

end
