(* ===== verification/Ingress_Http.thy ===== *)
theory Ingress_Http
  imports Ingress_Net Docker_Proxy Helper_Bridge
begin

section \<open>The helper's HTTP ingress: ingress/connect.go, proxy.go, transparent.go, mitm.go\<close>

text \<open>
  The handlers that turn the HTTP traffic of the program into requests for the host. A handler gives
  the requests it sent to the host and what it passed to the response writer. Parameters: printing of
  URLs, the host's answers (as the bridge gives them), taking over a connection, TLS handshakes. Bodies
  are streams as in \<open>Proxy_Service\<close>: the bytes and the error, if any, after them. The log is left out.
\<close>

subsection \<open>Packages net/url and net/http\<close>

record in_url =
  iu_Scheme :: string
  iu_Opaque :: string
  iu_User :: string
  iu_Host :: string
  iu_Path :: string
  iu_RawPath :: string
  iu_OmitHost :: bool
  iu_ForceQuery :: bool
  iu_RawQuery :: string
  iu_Fragment :: string
  iu_RawFragment :: string

record in_request =
  iq_Method :: string
  iq_URL :: "in_url option"
  iq_RequestURI :: string
  iq_Host :: string
  iq_Header :: http_header
  iq_Body :: body_stream
  iq_Proto :: string

text \<open>What a handler writes; \<^verbatim>\<open>WriteHeader\<close> panics on a status that has not three digits.\<close>

record http_answer =
  ha_Status :: int
  ha_Header :: http_header
  ha_Body :: string

datatype handler_end = Answered http_answer | Panicked

definition answer_with :: "int \<Rightarrow> http_header \<Rightarrow> string \<Rightarrow> handler_end" where
  "answer_with status h body =
     (if status < 100 \<or> status > 999 then Panicked else Answered \<lparr>ha_Status = status, ha_Header = h, ha_Body = body\<rparr>)"

definition http_Error :: "int \<Rightarrow> string \<Rightarrow> handler_end" where
  "http_Error status message =
     answer_with status [(''Content-Type'', [''text/plain; charset=utf-8'']), (''X-Content-Type-Options'', [''nosniff''])]
       (message @ [CHR 0x0A])"

definition header_add :: "string \<Rightarrow> string \<Rightarrow> http_header \<Rightarrow> http_header" where
  "header_add k v h = gm_put (canonical_mime_header_key k) (header_values h k @ [v]) h"

definition copyHeader :: "http_header \<Rightarrow> http_header \<Rightarrow> http_header" where
  "copyHeader dst src = fold (\<lambda>(k, vs). fold (header_add k) vs) src dst"

text \<open>The reason phrases of the error statuses.\<close>

definition StatusText :: "int \<Rightarrow> string" where
  "StatusText code =
     (case map_of [(400, ''Bad Request''), (401, ''Unauthorized''), (402, ''Payment Required''), (403, ''Forbidden''),
        (404, ''Not Found''), (405, ''Method Not Allowed''), (406, ''Not Acceptable''), (407, ''Proxy Authentication Required''),
        (408, ''Request Timeout''), (409, ''Conflict''), (410, ''Gone''), (411, ''Length Required''), (412, ''Precondition Failed''),
        (413, ''Request Entity Too Large''), (414, ''Request URI Too Long''), (415, ''Unsupported Media Type''),
        (416, ''Requested Range Not Satisfiable''), (417, ''Expectation Failed''), (418, ''I'' @ [CHR 0x27] @ ''m a teapot''),
        (421, ''Misdirected Request''), (422, ''Unprocessable Entity''), (423, ''Locked''), (424, ''Failed Dependency''),
        (425, ''Too Early''), (426, ''Upgrade Required''), (428, ''Precondition Required''), (429, ''Too Many Requests''),
        (431, ''Request Header Fields Too Large''), (451, ''Unavailable For Legal Reasons''), (500, ''Internal Server Error''),
        (501, ''Not Implemented''), (502, ''Bad Gateway''), (503, ''Service Unavailable''), (504, ''Gateway Timeout''),
        (505, ''HTTP Version Not Supported''), (506, ''Variant Also Negotiates''), (507, ''Insufficient Storage''),
        (508, ''Loop Detected''), (510, ''Not Extended''), (511, ''Network Authentication Required'')] code of
        Some s \<Rightarrow> s | None \<Rightarrow> [])"

subsection \<open>Bodies: bridge/body.go\<close>

text \<open>\<^verbatim>\<open>io.LimitReader\<close> with the limit of an \<open>int64\<close>: nothing is read when it is not positive.\<close>

definition limited_read :: "string \<times> error option \<Rightarrow> 64 word \<Rightarrow> string \<times> error option" where
  "limited_read = (\<lambda>(data, e) limit.
     (if sint limit \<le> 0 then ([], None)
      else if int (length data) < sint limit then (data, e)
      else (take (nat (sint limit)) data, None)))"

definition ReadBoundedBody :: "body_stream \<Rightarrow> 64 word \<Rightarrow> (string \<times> bool) result" where
  "ReadBoundedBody body maxBytes =
     (case body of
        None \<Rightarrow> ok ([], False)
      | Some (data, e) \<Rightarrow>
          if sint maxBytes \<le> 0 then (case e of None \<Rightarrow> ok (data, False) | Some m \<Rightarrow> err m)
          else
            (case limited_read (data, e) (maxBytes + 1) of
               (limited, Some m) \<Rightarrow> err m
             | (limited, None) \<Rightarrow>
                 if int (length limited) > sint maxBytes then ok (take (nat (sint maxBytes)) limited, True)
                 else ok (limited, False)))"

subsection \<open>Plain requests: proxy.go, transparent.go\<close>

definition RewriteProxyRequest :: "in_request \<Rightarrow> in_request result" where
  "RewriteProxyRequest req =
     (case iq_URL req of
        None \<Rightarrow> err ''proxy request must use an absolute URL''
      | Some u \<Rightarrow>
          if iu_Scheme u = [] \<or> iu_Host u = [] then err ''proxy request must use an absolute URL''
          else ok (req\<lparr>iq_URL := Some u, iq_RequestURI := [], iq_Host := iu_Host u,
                       iq_Header := header_del ''Proxy-Connection'' (iq_Header req)\<rparr>))"

definition transparentAuthority :: "string \<Rightarrow> int \<Rightarrow> string" where
  "transparentAuthority host0 port =
     (let host = trim_space host0 in
      if host = [] then []
      else if port \<le> 0 \<or> port = 80 then host
      else join_host_port host (itoa port))"

definition RewriteTransparentHTTPRequestWithTarget :: "in_request \<Rightarrow> string \<Rightarrow> int \<Rightarrow> in_request result" where
  "RewriteTransparentHTTPRequestWithTarget req connectHost connectPort =
     (case iq_URL req of
        None \<Rightarrow> err ''transparent HTTP request URL is required''
      | Some u \<Rightarrow>
          let host = (if trim_space (iq_Host req) = [] then transparentAuthority connectHost connectPort
                      else trim_space (iq_Host req)) in
          if host = [] then err ''transparent HTTP request host is required''
          else
            let u' = \<lparr>iu_Scheme = ''http'', iu_Opaque = [], iu_User = [], iu_Host = host,
                      iu_Path = (if iu_Path u = [] then ''/'' else iu_Path u), iu_RawPath = iu_RawPath u, iu_OmitHost = False,
                      iu_ForceQuery = False, iu_RawQuery = iu_RawQuery u, iu_Fragment = [], iu_RawFragment = []\<rparr> in
            ok (req\<lparr>iq_URL := Some u', iq_RequestURI := [], iq_Host := host,
                    iq_Header := header_del ''Proxy-Connection'' (iq_Header req)\<rparr>))"

definition RewriteTransparentHTTPRequest :: "in_request \<Rightarrow> in_request result" where
  "RewriteTransparentHTTPRequest req = RewriteTransparentHTTPRequestWithTarget req [] 0"

definition serveHTTPForward ::
  "(in_url \<Rightarrow> string) \<Rightarrow> (ProxyRequest \<Rightarrow> ProxyResponse result) \<Rightarrow> 64 word \<Rightarrow> (in_request \<Rightarrow> in_request result) \<Rightarrow> in_request \<Rightarrow>
   handler_end \<times> ProxyRequest list" where
  "serveHTTPForward url_string round_trip maxBytes rewrite req =
     (case rewrite req of
        Inl e \<Rightarrow> (http_Error 400 e, [])
      | Inr out \<Rightarrow>
          (case ReadBoundedBody (iq_Body out) maxBytes of
             Inl e \<Rightarrow> (http_Error 502 e, [])
           | Inr (body, tooLarge) \<Rightarrow>
               if tooLarge then (http_Error 413 ''request body exceeds inspection limit'', [])
               else
                 (case iq_URL out of
                    None \<Rightarrow> (Panicked, [])
                  | Some u \<Rightarrow>
                      let q = \<lparr>px_Method = iq_Method out, px_URL = url_string u, px_Header = iq_Header out, px_Body = body\<rparr> in
                      (case round_trip q of
                         Inl e \<Rightarrow> (http_Error 502 e, [q])
                       | Inr r \<Rightarrow> (answer_with (ps_StatusCode r) (copyHeader [] (ps_Header r)) (ps_Body r), [q])))))"

definition transparentHTTPHandlerForDestination ::
  "(in_url \<Rightarrow> string) \<Rightarrow> (ProxyRequest \<Rightarrow> ProxyResponse result) \<Rightarrow> 64 word \<Rightarrow> string \<Rightarrow> int \<Rightarrow> in_request \<Rightarrow>
   handler_end \<times> ProxyRequest list" where
  "transparentHTTPHandlerForDestination url_string round_trip maxBytes connectHost connectPort req =
     (if iq_Method req = ''CONNECT'' then (http_Error 405 ''transparent HTTP listener does not accept CONNECT'', [])
      else serveHTTPForward url_string round_trip maxBytes
        (\<lambda>req. RewriteTransparentHTTPRequestWithTarget req connectHost connectPort) req)"

definition TransparentHTTPHandler ::
  "(in_url \<Rightarrow> string) \<Rightarrow> (ProxyRequest \<Rightarrow> ProxyResponse result) \<Rightarrow> 64 word \<Rightarrow> in_request \<Rightarrow> handler_end \<times> ProxyRequest list" where
  "TransparentHTTPHandler url_string round_trip maxBytes =
     transparentHTTPHandlerForDestination url_string round_trip maxBytes [] 0"

subsection \<open>CONNECT: connect.go\<close>

definition parseConnectTarget :: "string \<Rightarrow> (string \<times> int) result" where
  "parseConnectTarget target0 =
     (let target = trim_space target0; malformed = ''malformed CONNECT target '' @ go_quote target in
      if target = [] then err ''malformed CONNECT target: host is required''
      else case split_host_port target of
        Inl e \<Rightarrow> err malformed
      | Inr (host, portText) \<Rightarrow>
          if host = [] then err ''malformed CONNECT target: host is required''
          else case atoi portText of
            None \<Rightarrow> err malformed
          | Some port \<Rightarrow> if port < 1 \<or> port > 65535 then err malformed else ok (host, port))"

text \<open>\<^verbatim>\<open>io.ReadFull\<close> of a buffered reader.\<close>

definition ReadFull :: "nat \<Rightarrow> reader \<Rightarrow> string result" where
  "ReadFull n r = (let data = br_buf r @ concat (br_reads r) in
     if n \<le> length data then ok (take n data) else err (if data = [] then ''EOF'' else ''unexpected EOF''))"

definition drainHijackBufferedBytes :: "reader option \<Rightarrow> string result" where
  "drainHijackBufferedBytes rw =
     (case rw of
        None \<Rightarrow> ok []
      | Some r \<Rightarrow> if Buffered r = 0 then ok [] else ReadFull (Buffered r) r)"

text \<open>The bytes that \<^verbatim>\<open>writeConnectError\<close> writes before it closes the connection.\<close>

definition connectErrorMessage :: "int \<Rightarrow> string \<Rightarrow> string" where
  "connectErrorMessage status message =
     (let m = trim_space (replace_all [CHR 0x0A] '' '' (replace_all [CHR 0x0D] '' '' message)) in
      if m = [] then StatusText status else m)"

definition writeConnectError :: "int \<Rightarrow> string \<Rightarrow> string" where
  "writeConnectError status0 message =
     (let status = (if status0 < 400 \<or> status0 > 599 then 502 else status0);
          statusText = (if StatusText status = [] then ''Error'' else StatusText status);
          body = connectErrorMessage status message @ [CHR 0x0A] in
      ''HTTP/1.1 '' @ itoa status @ '' '' @ statusText @ crlf @ ''Connection: close'' @ crlf @
      ''Content-Type: text/plain; charset=utf-8'' @ crlf @ ''Content-Length: '' @ itoa (int (length body)) @ crlf @ crlf @ body)"

text \<open>The errors of a call that waits: the end of its time, or another one.\<close>

datatype call_error = DeadlineExceeded | CallFailed error

fun call_error_text :: "call_error \<Rightarrow> error" where
  "call_error_text DeadlineExceeded = ''context deadline exceeded''"
| "call_error_text (CallFailed e) = e"

fun connectErrorStatus :: "call_error \<Rightarrow> int" where
  "connectErrorStatus DeadlineExceeded = 504"
| "connectErrorStatus (CallFailed e) = 502"

text \<open>The status and the message of a refusal; \<open>None\<close> when the host allows the connection.\<close>

definition connectRefusal :: "ConnectResponse \<Rightarrow> (int \<times> string) option" where
  "connectRefusal response =
     (let statusCode = (if cs_StatusCode response = 0 then 502 else cs_StatusCode response) in
      if cs_Error response \<noteq> [] \<or> statusCode < 200 \<or> statusCode \<ge> 300
      then Some (statusCode, if cs_Message response = [] then cs_Error response else cs_Message response)
      else None)"

text \<open>
  How a CONNECT goes on: an answer by the response writer, an error written to the connection, which is
  closed, a connection closed without a word, the two relays over a tunnel (with the bytes that were
  already read), or requests served inside TLS.
\<close>

datatype connect_end =
    HttpError int string
  | ConnError string
  | ConnDropped
  | Relaying "64 word" string
  | ServeTLS string int

text \<open>
  The beginning that \<^verbatim>\<open>HandleConnect\<close> and \<^verbatim>\<open>HandleMITMConnect\<close> share. \<open>hijack\<close> is \<open>None\<close> when the connection cannot
  be taken over.
\<close>

definition acceptConnect :: "reader option result option \<Rightarrow> string \<Rightarrow> connect_end + string \<times> int \<times> string" where
  "acceptConnect hijack target =
     (case parseConnectTarget target of
        Inl e \<Rightarrow> Inl (HttpError 400 e)
      | Inr (host, port) \<Rightarrow>
          (case hijack of
             None \<Rightarrow> Inl (HttpError 500 ''proxy does not support connection hijacking'')
           | Some (Inl e) \<Rightarrow> Inl (HttpError 502 (''hijack proxy connection: '' @ e))
           | Some (Inr rw) \<Rightarrow>
               (case drainHijackBufferedBytes rw of
                  Inl e \<Rightarrow> Inl (ConnError (writeConnectError 502 (''read buffered connect payload: '' @ e)))
                | Inr buffered \<Rightarrow> Inr (host, port, buffered))))"

text \<open>
  \<^verbatim>\<open>HandleConnect\<close> up to waiting for the host, from the answer to the relays, and its end. In between other
  goroutines use the bridge.
\<close>

definition startConnect ::
  "reader option result option \<Rightarrow> string \<Rightarrow> RuntimeBridge \<Rightarrow> (connect_end + 64 word \<times> string) \<times> RuntimeBridge" where
  "startConnect hijack target b =
     (case acceptConnect hijack target of
        Inl e \<Rightarrow> (Inl e, b)
      | Inr (host, port, buffered) \<Rightarrow>
          (case beginConnect b host port of
             (Inl e, b') \<Rightarrow>
               (Inl (ConnError (writeConnectError (connectErrorStatus (CallFailed e)) e)), UnregisterTunnel b' (rb_nextID b + 1))
           | (Inr i, b') \<Rightarrow> (Inr (i, buffered), b')))"

definition answerConnect ::
  "call_error + Envelope \<Rightarrow> error option \<Rightarrow> 64 word \<Rightarrow> string \<Rightarrow> RuntimeBridge \<Rightarrow> connect_end \<times> RuntimeBridge" where
  "answerConnect answer writeErr i buffered b =
     (case endConnect b i (case answer of Inl e \<Rightarrow> Inl (call_error_text e) | Inr env \<Rightarrow> Inr env) of
        (Inl e, b) \<Rightarrow>
          (ConnError (writeConnectError (case answer of Inl c \<Rightarrow> connectErrorStatus c | Inr _ \<Rightarrow> 502) e), UnregisterTunnel b i)
      | (Inr response, b) \<Rightarrow>
          (case connectRefusal response of
             Some (status, message) \<Rightarrow> (ConnError (writeConnectError status message), UnregisterTunnel b i)
           | None \<Rightarrow>
               (case writeErr of
                  Some e \<Rightarrow> (ConnDropped, UnregisterTunnel (snd (SendTunnelClose b i False e)) i)
                | None \<Rightarrow> (Relaying i buffered, b))))"

text \<open>The end of one relay: the message for the host, and whether the connection is closed at once.\<close>

definition cleanupRelay :: "64 word \<Rightarrow> TunnelRelayResult \<Rightarrow> RuntimeBridge \<Rightarrow> RuntimeBridge \<times> bool" where
  "cleanupRelay i result b =
     (if rr_SendClose result
      then snd (SendTunnelClose b i (rr_Write result) (case rr_Err result of None \<Rightarrow> [] | Some e \<Rightarrow> e)) else b,
      rr_Terminal result)"

definition endTunnel :: "64 word \<Rightarrow> RuntimeBridge \<Rightarrow> RuntimeBridge" where
  "endTunnel i b = UnregisterTunnel b i"

subsection \<open>Interception: mitm.go\<close>

type_synonym 's connect_authorizer = "'s \<Rightarrow> ConnectRequest \<Rightarrow> 's \<times> (call_error + ConnectResponse option)"

text \<open>
  \<open>leaf\<close> is the host's answer to the request for a certificate, \<open>handshake\<close> whether the handshake succeeds
  with the certificate on a connection that starts with these bytes, \<open>writes\<close> whether the answer to the
  CONNECT can be written.
\<close>

definition HandleMITMConnect ::
  "'s connect_authorizer \<Rightarrow> (string \<Rightarrow> 'cert result) \<Rightarrow> (string \<Rightarrow> 'cert \<Rightarrow> bool) \<Rightarrow> bool \<Rightarrow> reader option result option \<Rightarrow> 's \<Rightarrow> string \<Rightarrow>
   's \<times> connect_end" where
  "HandleMITMConnect authorize leaf handshake writes hijack s target =
     (case acceptConnect hijack target of
        Inl e \<Rightarrow> (s, e)
      | Inr (host, port, buffered) \<Rightarrow>
          (case authorize s \<lparr>cq_Host = host, cq_Port = port, cq_Transparent = False, cq_ProtocolMetadata = no_metadata\<rparr> of
             (s', Inl e) \<Rightarrow> (s', ConnError (writeConnectError (connectErrorStatus e) (call_error_text e)))
           | (s', Inr None) \<Rightarrow> (s', ConnError (writeConnectError 502 ''empty connect response''))
           | (s', Inr (Some response)) \<Rightarrow>
               (s', case connectRefusal response of
                  Some (status, message) \<Rightarrow> ConnError (writeConnectError status message)
                | None \<Rightarrow>
                    if \<not> writes then ConnDropped
                    else (case leaf host of
                      Inl e \<Rightarrow> ConnDropped
                    | Inr cert \<Rightarrow> if handshake buffered cert then ServeTLS host port else ConnDropped))))"

definition mitmAuthorityFor :: "string \<Rightarrow> string \<Rightarrow> int \<Rightarrow> string" where
  "mitmAuthorityFor requestHost0 connectHost0 connectPort =
     (let connectHost = trim_space connectHost0; requestHost = trim_space requestHost0 in
      if connectHost \<noteq> [] then join_host_port connectHost (itoa (if connectPort \<le> 0 then 443 else connectPort))
      else if requestHost \<noteq> [] then
        (case split_host_port requestHost of
           Inr _ \<Rightarrow> requestHost
         | Inl _ \<Rightarrow> if connectPort \<le> 0 then requestHost else join_host_port requestHost (itoa connectPort))
      else [])"

definition mitmHandler ::
  "(MITMRequest \<Rightarrow> MITMResponse result) \<Rightarrow> 64 word \<Rightarrow> string \<Rightarrow> int \<Rightarrow> in_request \<Rightarrow> handler_end \<times> MITMRequest list" where
  "mitmHandler round_trip maxBytes connectHost connectPort req =
     (case ReadBoundedBody (iq_Body req) maxBytes of
        Inl e \<Rightarrow> (http_Error 502 e, [])
      | Inr (body, tooLarge) \<Rightarrow>
          (case iq_URL req of
             None \<Rightarrow> (Panicked, [])
           | Some u \<Rightarrow>
               let host = (if iq_Host req = [] then connectHost else iq_Host req);
                   q = \<lparr>mq_Scheme = ''https'', mq_Authority = mitmAuthorityFor host connectHost connectPort, mq_Host = host,
                        mq_Method = iq_Method req, mq_Path = iu_Path u, mq_RawQuery = iu_RawQuery u, mq_Header = iq_Header req,
                        mq_Body = body, mq_Proto = iq_Proto req, mq_BodyTooLarge = tooLarge\<rparr> in
               (case round_trip q of
                  Inl e \<Rightarrow> (http_Error 502 e, [q])
                | Inr r \<Rightarrow> (answer_with (if mr_StatusCode r = 0 then 502 else mr_StatusCode r) (copyHeader [] (mr_Header r)) (mr_Body r), [q]))))"

text \<open>
  The name under which a transparent TLS connection is served: that of the client's hello, else the
  original destination.
\<close>

definition transparentServerName :: "string \<Rightarrow> string \<Rightarrow> string result" where
  "transparentServerName helloName connectHost =
     (let fromHello = to_lower (trim_space helloName);
          serverName = (if fromHello = [] then to_lower (trim_space connectHost) else fromHello) in
      if serverName = [] then err ''transparent HTTPS requires SNI or original destination'' else ok serverName)"

text \<open>\<open>None\<close> is a connection that is closed; else the name and the port for which its requests are served.\<close>

definition ServeTransparentHTTPSConn ::
  "bool \<Rightarrow> (string \<Rightarrow> 'cert result) \<Rightarrow> ('cert \<Rightarrow> bool) \<Rightarrow> string \<Rightarrow> string \<Rightarrow> int \<Rightarrow> (string \<times> int) option" where
  "ServeTransparentHTTPSConn mitmEnabled leaf handshake helloName connectHost connectPort =
     (if \<not> mitmEnabled then None
      else case res_bind (transparentServerName helloName connectHost) leaf of
        Inl e \<Rightarrow> None
      | Inr cert \<Rightarrow>
          if \<not> handshake cert then None
          else (case transparentServerName helloName connectHost of
            Inl e \<Rightarrow> None
          | Inr serverName \<Rightarrow> Some (serverName, if connectPort = 0 then 443 else connectPort)))"

text \<open>\<^verbatim>\<open>ProxyHandler\<close>: which handler a request gets.\<close>

datatype proxy_route = RouteIntercept | RouteTunnel | RouteForward

definition ProxyHandler :: "bool \<Rightarrow> in_request \<Rightarrow> proxy_route" where
  "ProxyHandler mitmEnabled req =
     (if iq_Method req = ''CONNECT'' then (if mitmEnabled then RouteIntercept else RouteTunnel) else RouteForward)"

subsection \<open>Connections: preloadedConn and singleConnListener\<close>

text \<open>
  A connection is a stream of reads as in \<open>Ingress_Detect\<close>; a read takes at most \<open>n\<close> bytes of the next one.
\<close>

fun conn_read :: "nat \<Rightarrow> string list \<Rightarrow> string \<times> string list" where
  "conn_read n [] = ([], [])"
| "conn_read n (c # cs) = (take n c, if length c \<le> n then cs else drop n c # cs)"

record preloadedConn =
  pc_conn :: "string list"
  pc_reader :: "string option"

definition preloadedRead :: "nat \<Rightarrow> preloadedConn \<Rightarrow> string \<times> preloadedConn" where
  "preloadedRead n c =
     (let direct = (\<lambda>c. case conn_read n (pc_conn c) of (data, rest) \<Rightarrow> (data, c\<lparr>pc_conn := rest\<rparr>)) in
      case pc_reader c of
        None \<Rightarrow> direct c
      | Some [] \<Rightarrow> direct (c\<lparr>pc_reader := None\<rparr>)
      | Some pre \<Rightarrow> if n > 0 then (take n pre, c\<lparr>pc_reader := Some (drop n pre)\<rparr>) else direct c)"

record 'c singleConnListener =
  sl_conn :: "'c option"
  sl_once :: bool

definition Accept :: "'c singleConnListener \<Rightarrow> 'c option \<times> 'c singleConnListener" where
  "Accept l = (if sl_once l then (None, l) else (sl_conn l, l\<lparr>sl_conn := None, sl_once := True\<rparr>))"

text \<open>The connection that closing the listener closes.\<close>

definition closeListener :: "'c singleConnListener \<Rightarrow> 'c option" where
  "closeListener l = sl_conn l"

subsection \<open>Bodies are passed on whole\<close>

lemma succ_limit: "sint mx < 2 ^ 63 - 1 \<Longrightarrow> sint (mx + 1 :: 64 word) = sint mx + 1"
  using sint_greater_eq[of mx] by (simp add: sint_word_ariths signed_take_bit_int_eq_self)

text \<open>
  Below the largest limit a body comes whole and without an error, or cut with the mark that says so, or
  the error of reading it.
\<close>

lemma ReadBoundedBody_spec:
  assumes "sint mx < 2 ^ 63 - 1"
  shows "ReadBoundedBody (Some (data, e)) mx =
     (if sint mx \<le> 0 \<or> int (length data) \<le> sint mx then (case e of None \<Rightarrow> ok (data, False) | Some m \<Rightarrow> err m)
      else ok (take (nat (sint mx)) data, True))"
  using succ_limit[OF assms]
  by (auto simp: ReadBoundedBody_def limited_read_def min_def nat_add_distrib take_Suc split: option.splits)

lemma ReadBoundedBody_whole:
  assumes "ReadBoundedBody body mx = Inr (data, False)" and "sint mx < 2 ^ 63 - 1"
  shows "case body of None \<Rightarrow> data = [] | Some (all, e) \<Rightarrow> e = None \<and> data = all"
  using assms(1) ReadBoundedBody_spec[OF assms(2)]
  by (cases body) (auto simp: ReadBoundedBody_def split: if_splits option.splits)

text \<open>With the largest limit the sum wraps: the body is dropped, without an error.\<close>

theorem largest_limit_drops_body:
  "ReadBoundedBody (Some (data, e)) (2 ^ 63 - 1) = ok ([], False)"
proof -
  have "sint (2 ^ 63 - 1 :: 64 word) = 2 ^ 63 - 1" and "sint (2 ^ 63 - 1 + 1 :: 64 word) \<le> 0" by code_simp+
  then show ?thesis by (simp add: ReadBoundedBody_def limited_read_def)
qed

subsection \<open>CONNECT targets\<close>

lemma parseConnectTarget_sound:
  assumes "parseConnectTarget target = Inr (host, port)"
  shows "host \<noteq> [] \<and> 1 \<le> port \<and> port \<le> 65535 \<and> (\<exists>p. split_host_port (trim_space target) = Inr (host, p) \<and> atoi p = Some port)"
  using assms by (auto simp: parseConnectTarget_def Let_def split: if_splits sum.splits option.splits)

text \<open>A target that is written from a host, also an IPv6 address, and a port is read as these.\<close>

theorem parseConnectTarget_roundtrip:
  assumes "host \<noteq> []" and "CHR ''['' \<notin> set host" and "CHR '']'' \<notin> set host" and "trim_space host = host" and "1 \<le> port" and "port \<le> 65535"
  shows "parseConnectTarget (join_host_port host (itoa port)) = Inr (host, port)"
proof -
  have port: "CHR '':'' \<notin> set (itoa port)" "CHR ''['' \<notin> set (itoa port)" "CHR '']'' \<notin> set (itoa port)"
    using itoa_chars[of "CHR '':''" port] itoa_chars[of "CHR ''[''" port] itoa_chars[of "CHR '']''" port] by (auto simp: is_digit_def)
  have "\<not> is_space (hd host)" using assms(1,4) by (metis hd_dropWhile trim_left_by_def trim_left_right_commute trim_space_def)
  moreover have "itoa port \<noteq> []" using atoi_itoa[of port] assms(5,6) by (auto simp: atoi_def strip_sign_def all_digits_def)
  moreover from this have "\<not> is_space (last (itoa port))" using itoa_chars[of "last (itoa port)" port] by (auto simp: is_digit_def is_space_def)
  ultimately have "trim_space (join_host_port host (itoa port)) = join_host_port host (itoa port)"
    using assms(1) by (intro trim_space_ends) (auto simp: join_host_port_def is_space_def)
  moreover have "join_host_port host (itoa port) \<noteq> []" by (simp add: join_host_port_def)
  ultimately show ?thesis
    using split_join_host_port[OF assms(2,3) port] assms(1,5,6) atoi_itoa[of port] by (simp add: parseConnectTarget_def)
qed

subsection \<open>Tunnels are unregistered\<close>

text \<open>A CONNECT that does not come to relaying leaves no tunnel, and its end removes the tunnel.\<close>

lemma connect_unregisters:
  "fst (answerConnect answer writeErr i buffered b) = Relaying i buffered \<or>
     map_of (rb_tunnels (snd (answerConnect answer writeErr i buffered b))) i = None"
  "map_of (rb_tunnels (endTunnel i b)) i = None"
  by (auto simp: answerConnect_def UnregisterTunnel_def endTunnel_def split: prod.splits sum.splits option.splits)

lemma failed_start_unregisters:
  assumes "startConnect hijack target b = (Inl e, b')" and "j \<noteq> rb_nextID b + 1"
  shows "map_of (rb_tunnels b') j = map_of (rb_tunnels b) j \<and> (map_of (rb_tunnels b) (rb_nextID b + 1) = None \<longrightarrow>
     map_of (rb_tunnels b') (rb_nextID b + 1) = None)"
  using assms
  by (auto simp: startConnect_def beginConnect_def beginRequest_def RegisterTunnel_def UnregisterTunnel_def Send_def Let_def
      split: sum.splits option.splits prod.splits)

subsection \<open>No byte of a taken over connection is lost\<close>

definition preloaded_stream :: "preloadedConn \<Rightarrow> string" where
  "preloaded_stream c = (case pc_reader c of None \<Rightarrow> [] | Some pre \<Rightarrow> pre) @ concat (pc_conn c)"

lemma conn_read_stream: "conn_read n cs = (data, rest) \<Longrightarrow> concat cs = data @ concat rest"
  by (cases cs) (auto split: if_splits)

lemma conn_read_nothing: "conn_read 0 cs = (data, rest) \<Longrightarrow> data = []"
  by (cases cs) auto

text \<open>Reading gives the buffered bytes first and then those of the connection, each once.\<close>

theorem preloadedRead_stream:
  assumes "preloadedRead n c = (data, c')"
  shows "preloaded_stream c = data @ preloaded_stream c'"
  using assms conn_read_stream conn_read_nothing
  by (fastforce simp: preloadedRead_def preloaded_stream_def Let_def split: option.splits list.splits prod.splits if_splits)

lemma drain_all: "drainHijackBufferedBytes (Some r) = Inr (br_buf r)"
  by (simp add: drainHijackBufferedBytes_def ReadFull_def Buffered_def)

text \<open>The listener hands out its connection once and does not close it afterwards.\<close>

lemma single_accept:
  assumes "Accept \<lparr>sl_conn = Some c, sl_once = False\<rparr> = (r, l)"
  shows "r = Some c \<and> Accept l = (None, l) \<and> closeListener l = None"
  using assms by (auto simp: Accept_def closeListener_def)

subsection \<open>Intercepted requests stay with the tunnel's host\<close>

definition manager_connect :: "int \<Rightarrow> string \<Rightarrow> ProxyManager connect_authorizer" where
  "manager_connect now sid m req = (case handleConnectRequest now m sid req of (m', response) \<Rightarrow> (m', Inr (Some response)))"

lemma connect_served_allowed:
  assumes "HandleMITMConnect (manager_connect now sid) leaf handshake writes hijack m target = (m', ServeTLS host port)"
    and "policyModeForSandbox m sid = ''enforce''"
  shows "parseConnectTarget target = Inr (host, port) \<and>
     (\<exists>policy. policyForSandbox m sid = Some policy \<and> Allowed (evaluateConnect policy host port False))"
proof -
  from assms(1) obtain buffered where "acceptConnect hijack target = Inr (host, port, buffered)"
    and allowed: "connectRefusal (snd (handleConnectRequest now m sid
      \<lparr>cq_Host = host, cq_Port = port, cq_Transparent = False, cq_ProtocolMetadata = no_metadata\<rparr>)) = None"
    by (auto simp: HandleMITMConnect_def manager_connect_def acceptConnect_def split: sum.splits option.splits prod.splits if_splits)
  then have "parseConnectTarget target = Inr (host, port)"
    by (auto simp: acceptConnect_def split: sum.splits option.splits)
  with allowed assms(2) show ?thesis
    by (auto simp: handleConnectRequest_def HandleConnectRequest_def connectRefusal_def Let_def normalizedPolicyModeOrDefault_def
        normalizePolicyMode_def split: if_splits option.splits prod.splits)
qed

lemma mitmHandler_request:
  assumes "q \<in> set (snd (mitmHandler rt mx connectHost connectPort req))"
  shows "ReadBoundedBody (iq_Body req) mx = Inr (mq_Body q, mq_BodyTooLarge q) \<and>
     mq_Authority q = mitmAuthorityFor (mq_Host q) connectHost connectPort \<and> (connectHost \<noteq> [] \<longrightarrow> mq_Host q \<noteq> [])"
  using assms by (auto simp: mitmHandler_def Let_def split: sum.splits option.splits prod.splits if_splits)

lemma join_host_port_nonblank: "trim_space (join_host_port host port) \<noteq> []"
proof -
  have "CHR '':'' \<in> set (join_host_port host port)" by (simp add: join_host_port_def)
  moreover have "c \<in> set (trim_space s)" if "c \<in> set s" "\<not> is_space c" for c s
  proof -
    have "c \<in> set (trim_left_by is_space s)"
      using that by (metis trim_left_by_def Un_iff set_append set_takeWhileD takeWhile_dropWhile_id)
    then show ?thesis
      using that(2) unfolding trim_space_def trim_right_by_def
      by (metis Un_iff set_append set_rev set_takeWhileD takeWhile_dropWhile_id)
  qed
  ultimately have "CHR '':'' \<in> set (trim_space (join_host_port host port))" by (simp add: is_space_def)
  then show ?thesis by auto
qed

text \<open>
  What reaches the upstream of a request that the helper decrypted for a named host: always that host,
  whatever the request says, allowed by the policy in force under a name that normalises to it, and with
  the whole body of the request.
\<close>

lemma decrypted_request_bound:
  assumes "q \<in> set (snd (mitmHandler round_trip mx connectHost connectPort req))" and "trim_space connectHost \<noteq> []"
    and "out \<in> set (fst (snd (handleMITMRequest nr rt now m sid q)))" and "policyModeForSandbox m sid = ''enforce''"
    and "sint mx < 2 ^ 63 - 1"
  shows "u_Host (or_URL out) = join_host_port (trim_space connectHost) (itoa (if connectPort \<le> 0 then 443 else connectPort)) \<and>
     (\<exists>policy h. policyForSandbox m sid = Some policy \<and> Allowed (mitm_eval policy q) \<and>
        normalizePolicyHostname (mitmPolicyHost q) = Inr h \<and> normalizePolicyHostname (u_Host (or_URL out)) = Inr h) \<and>
     (case iq_Body req of None \<Rightarrow> or_Body out = [] | Some (data, e) \<Rightarrow> e = None \<and> or_Body out = data)"
proof -
  let ?s = "manager_service m sid"
  from assms(3) obtain policy where policy: "policyForSandbox m sid = Some policy"
    and out: "out \<in> set (sd_upstream (HandleMITMRequest nr rt ?s policy sid q))"
    by (auto simp: handleMITMRequest_def Let_def split: option.splits)
  have mode: "sv_policyMode ?s \<noteq> ''audit''"
    using assms(4) by (simp add: manager_service_def newManagerProxyService_def normalizedPolicyModeOrDefault_def normalizePolicyMode_def Let_def)
  note q = mitmHandler_request[OF assms(1)]
  have "join_host_port host port \<noteq> []" for host port by (simp add: join_host_port_def)
  then have auth: "mitmAuthority q = join_host_port (trim_space connectHost) (itoa (if connectPort \<le> 0 then 443 else connectPort))"
    using q assms(2) by (auto simp: mitmAuthority_def mitmAuthorityFor_def Let_def)
  have sent: "u_Host (or_URL out) = mitmAuthority q" "\<not> mq_BodyTooLarge q" "or_Body out = mq_Body q"
      "validateMITMHostAuthority (mitmPolicyHost q) (mitmAuthority q) = None"
    using HandleMITMRequest_sends[of q ?s nr rt policy sid] out by (auto simp: sends_only_def holds_def)
  have allowed: "Allowed (mitm_eval policy q)"
    by (rule mitm_gate.enforced_upstream[OF mode, of nr rt policy sid q]) (use out in auto)
  then obtain h where h: "normalizePolicyHostname (mitmPolicyHost q) = Inr h"
    by (auto simp: mitm_eval_def evaluateRequest_allowed)
  then have "trim_space (mitmPolicyHost q) \<noteq> []" by (auto simp: normalizePolicyHostname_def)
  then have "normalizePolicyHostname (mitmAuthority q) = Inr h"
    using sent(4) h auth join_host_port_nonblank by (auto simp: validateMITMHostAuthority_def split: sum.splits if_splits)
  moreover have "case iq_Body req of None \<Rightarrow> or_Body out = [] | Some (data, e) \<Rightarrow> e = None \<and> or_Body out = data"
    using ReadBoundedBody_whole[OF _ assms(5)] q sent(2,3) by auto
  ultimately show ?thesis using policy allowed h sent(1) auth by simp
qed

text \<open>
  C15. In enforce mode a CONNECT is intercepted only when the policy allows its target, and a request inside
  the tunnel reaches the upstream only at exactly that host and port, whatever its Host header says, when
  the policy in force allows it under a name that normalises to the same host, and with its whole body.
\<close>

theorem intercepted_requests_bound:
  assumes "HandleMITMConnect (manager_connect now sid) leaf handshake writes hijack m target = (m1, ServeTLS host port)"
    and "policyModeForSandbox m sid = ''enforce''"
    and "q \<in> set (snd (mitmHandler round_trip mx host port req))" and "sint mx < 2 ^ 63 - 1"
    and "out \<in> set (fst (snd (handleMITMRequest nr rt now' m2 sid q)))" and "policyModeForSandbox m2 sid = ''enforce''"
  shows "(\<exists>policy. policyForSandbox m sid = Some policy \<and> parseConnectTarget target = Inr (host, port) \<and>
        Allowed (evaluateConnect policy host port False)) \<and>
     u_Host (or_URL out) = join_host_port (trim_space host) (itoa port) \<and>
     (\<exists>policy h. policyForSandbox m2 sid = Some policy \<and> Allowed (mitm_eval policy q) \<and>
        normalizePolicyHostname (mitmPolicyHost q) = Inr h \<and> normalizePolicyHostname (u_Host (or_URL out)) = Inr h) \<and>
     (case iq_Body req of None \<Rightarrow> or_Body out = [] | Some (data, e) \<Rightarrow> e = None \<and> or_Body out = data)"
proof -
  note connect = connect_served_allowed[OF assms(1,2)]
  then have "trim_space host \<noteq> []" by (auto simp: evaluateConnect_def Let_def deniedEvaluation_def)
  moreover have "port \<ge> 1" using connect parseConnectTarget_sound by blast
  ultimately show ?thesis using connect decrypted_request_bound[OF assms(3) _ assms(5,6,4)] by auto
qed

text \<open>The same for a transparent connection: the host is the name of the client's hello, if it has one.\<close>

theorem transparent_https_bound:
  assumes "ServeTransparentHTTPSConn mitm leaf handshake helloName connectHost connectPort = Some (name, port)"
    and "q \<in> set (snd (mitmHandler round_trip mx name port req))" and "sint mx < 2 ^ 63 - 1" and "0 \<le> connectPort"
    and "out \<in> set (fst (snd (handleMITMRequest nr rt now m sid q)))" and "policyModeForSandbox m sid = ''enforce''"
  shows "u_Host (or_URL out) = join_host_port name (itoa (if connectPort = 0 then 443 else connectPort)) \<and>
     (trim_space helloName \<noteq> [] \<longrightarrow> name = to_lower (trim_space helloName)) \<and>
     (\<exists>policy h. policyForSandbox m sid = Some policy \<and> Allowed (mitm_eval policy q) \<and>
        normalizePolicyHostname (mitmPolicyHost q) = Inr h \<and> normalizePolicyHostname (u_Host (or_URL out)) = Inr h)"
proof -
  from assms(1) have name: "transparentServerName helloName connectHost = Inr name" "port = (if connectPort = 0 then 443 else connectPort)"
    by (auto simp: ServeTransparentHTTPSConn_def split: if_splits sum.splits)
  then have "trim_space name = name \<and> name \<noteq> [] \<and> (trim_space helloName \<noteq> [] \<longrightarrow> name = to_lower (trim_space helloName))"
    by (auto simp: transparentServerName_def Let_def trim_space_to_lower split: if_splits)
  with decrypted_request_bound[OF assms(2) _ assms(5,6,3)] name(2) assms(4) show ?thesis by auto
qed

subsection \<open>Concrete instances\<close>

definition tunnel_manager :: ProxyManager where
  "tunnel_manager = example_manager\<lparr>mg_registry := \<lparr>rg_defaultPolicy = [], rg_sandboxes = [(''s'', None)],
     rg_policies = [(''s'', [example_dns_rule\<lparr>connectPorts := [\<lparr>range_start = 443, range_end = 443\<rparr>]\<rparr>, example_dns_rule])]\<rparr>\<rparr>"

definition tunnel_request :: in_request where
  "tunnel_request = \<lparr>iq_Method = ''GET'', iq_URL = Some \<lparr>iu_Scheme = [], iu_Opaque = [], iu_User = [], iu_Host = [], iu_Path = ''/'',
     iu_RawPath = [], iu_OmitHost = False, iu_ForceQuery = False, iu_RawQuery = [], iu_Fragment = [], iu_RawFragment = []\<rparr>,
     iq_RequestURI = ''/'', iq_Host = ''Example.com'', iq_Header = [], iq_Body = Some (''abc'', None), iq_Proto = ''HTTP/1.1''\<rparr>"

theorem intercepted_requests_bound_witness:
  "\<exists>q out. q \<in> set (snd (mitmHandler (\<lambda>q. Inl ''x'') 1000 ''example.com'' 443 tunnel_request)) \<and>
     out \<in> set (fst (snd (handleMITMRequest (\<lambda>_ _. None) example_transport 9 tunnel_manager ''s'' q))) \<and>
     u_Host (or_URL out) = ''example.com:443'' \<and> or_Body out = ''abc''"
proof -
  let ?mitm = "mitmHandler (\<lambda>q. Inl ''x'') 1000 ''example.com'' 443 tunnel_request"
  let ?connect = "HandleMITMConnect (manager_connect 9 ''s'') (\<lambda>h. Inr h) (\<lambda>b c. True) True (Some (Inr None)) tunnel_manager ''example.com:443''"
  have "snd ?connect = ServeTLS ''example.com'' 443" by code_simp
  then obtain m1 where connect: "?connect = (m1, ServeTLS ''example.com'' 443)" by (metis prod.collapse)
  have "length (snd ?mitm) = 1" by code_simp
  then obtain q where q: "snd ?mitm = [q]" by (auto simp: length_Suc_conv)
  have "length (fst (snd (handleMITMRequest (\<lambda>_ _. None) example_transport 9 tunnel_manager ''s'' (hd (snd ?mitm))))) = 1" by code_simp
  with q obtain out where out: "fst (snd (handleMITMRequest (\<lambda>_ _. None) example_transport 9 tunnel_manager ''s'' q)) = [out]"
    by (auto simp: length_Suc_conv)
  have facts: "policyModeForSandbox tunnel_manager ''s'' = ''enforce''" "sint (1000 :: 64 word) < 2 ^ 63 - 1"
    "join_host_port (trim_space ''example.com'') (itoa 443) = ''example.com:443''" by code_simp+
  from intercepted_requests_bound[OF connect facts(1) _ facts(2) _ facts(1), of q "\<lambda>q. Inl ''x''" tunnel_request out "\<lambda>_ _. None" example_transport 9]
  show ?thesis using q out facts(3) by (auto simp: tunnel_request_def)
qed

theorem parseConnectTarget_roundtrip_witness:
  "parseConnectTarget (join_host_port ''::1'' (itoa 443)) = Inr (''::1'', 443)"
  by (rule parseConnectTarget_roundtrip) code_simp+

end
