(* ===== verification/Sandbox_Mounts.thy ===== *)
theory Sandbox_Mounts
  imports Host_Io
begin

section \<open>Mounts of a sandbox: mounts.go, mounts\_linux.go\<close>

text \<open>
  Validation of the mounts a sandbox asks for, their preparation, and the command line of
  bubblewrap. \<^verbatim>\<open>os.Stat\<close> is a parameter: \<open>stat\<close> gives its error, \<open>is_dir\<close> whether a path is a
  directory.
\<close>

subsection \<open>Validation\<close>

record Mount =
  mt_Type :: string
  mt_Source :: string
  mt_Target :: string
  mt_ReadOnly :: bool
  mt_Mode :: int

definition reservedSandboxTargets :: "string list" where
  "reservedSandboxTargets = [''/app'', ''/usr'', ''/etc'', ''/lib'', ''/lib64'', ''/proc'', ''/dev'', ''/tmp'']"

definition targetsOverlap :: "string \<Rightarrow> string \<Rightarrow> bool" where
  "targetsOverlap a b \<longleftrightarrow>
     (let a = path_clean a; b = path_clean b in
      a = b \<or> a = ''/'' \<or> b = ''/'' \<or> has_prefix a (b @ ''/'') \<or> has_prefix b (a @ ''/''))"

definition isAllowedReservedBindTarget :: "Mount \<Rightarrow> string \<Rightarrow> string \<Rightarrow> bool" where
  "isAllowedReservedBindTarget m cleanTarget reservedTarget \<longleftrightarrow>
     mt_Type m = ''bind'' \<and> mt_ReadOnly m \<and> path_clean (mt_Source m) = cleanTarget \<and>
     (if reservedTarget = ''/usr'' then cleanTarget = ''/usr''
      else if reservedTarget = ''/etc'' then cleanTarget = ''/etc/alternatives''
      else False)"

text \<open>The switch over the mount type.\<close>

definition validateMountType :: "(string \<Rightarrow> string option) \<Rightarrow> Mount \<Rightarrow> string option" where
  "validateMountType stat m =
     (if mt_Type m = [] then Some ''mount type is required''
      else if mt_Type m = ''bind'' then
        (if mt_Source m = [] then Some (''mount source is required for '' @ go_quote (mt_Type m))
         else if \<not> is_rooted (mt_Source m)
         then Some (''mount source '' @ go_quote (mt_Source m) @ '' must be absolute'')
         else case stat (mt_Source m) of
                Some e \<Rightarrow> Some (''mount source '' @ go_quote (mt_Source m) @ '': '' @ e)
              | None \<Rightarrow> if mt_Mode m \<noteq> 0
                        then Some (''mount type '' @ go_quote (mt_Type m) @ '' must not set mode'') else None)
      else if mt_Type m = ''empty_dir'' then
        (if mt_Source m \<noteq> []
         then Some (''mount type '' @ go_quote (mt_Type m) @ '' must not set source'') else None)
      else Some (''unknown mount type '' @ go_quote (mt_Type m)))"

fun reservedConflict :: "Mount \<Rightarrow> string \<Rightarrow> string list \<Rightarrow> string option" where
  "reservedConflict m target [] = None"
| "reservedConflict m target (r # rs) =
     (if isAllowedReservedBindTarget m target r then reservedConflict m target rs
      else if targetsOverlap target r
      then Some (''mount target '' @ go_quote (mt_Target m) @ '' overlaps reserved sandbox path '' @ go_quote r)
      else reservedConflict m target rs)"

fun seenConflict :: "Mount \<Rightarrow> string \<Rightarrow> (string \<times> Mount) list \<Rightarrow> string option" where
  "seenConflict m target [] = None"
| "seenConflict m target ((existing, prev) # seen) =
     (if targetsOverlap existing target
      then Some (''mount target '' @ go_quote (mt_Target m) @ '' overlaps with '' @ go_quote existing @
                 '' from '' @ go_quote (mt_Source prev))
      else seenConflict m target seen)"

fun validateMountsLoop ::
  "(string \<Rightarrow> string option) \<Rightarrow> (string \<times> Mount) list \<Rightarrow> Mount list \<Rightarrow> string option" where
  "validateMountsLoop stat seen [] = None"
| "validateMountsLoop stat seen (m # ms) =
     (case validateMountType stat m of
        Some e \<Rightarrow> Some e
      | None \<Rightarrow>
          if mt_Target m = [] then Some ''mount target is required''
          else if \<not> is_rooted (mt_Target m)
          then Some (''mount target '' @ go_quote (mt_Target m) @ '' must be absolute'')
          else
            let target = path_clean (mt_Target m) in
            case reservedConflict m target reservedSandboxTargets of
              Some e \<Rightarrow> Some e
            | None \<Rightarrow>
                (case map_of seen target of
                   Some prev \<Rightarrow> Some (''mount target '' @ go_quote (mt_Target m) @ '' conflicts with '' @
                                   go_quote (mt_Source prev))
                 | None \<Rightarrow>
                     (case seenConflict m target seen of
                        Some e \<Rightarrow> Some e
                      | None \<Rightarrow> validateMountsLoop stat (gm_put target m seen) ms)))"

definition validateMounts :: "(string \<Rightarrow> string option) \<Rightarrow> Mount list \<Rightarrow> string option" where
  "validateMounts stat mounts = validateMountsLoop stat [] mounts"

subsection \<open>Overlap is comparability of paths\<close>

lemma prefix_join_slash:
  assumes "list_all plain_elem xs" and "list_all plain_elem ys" and "xs \<noteq> []"
  shows "prefix (join ''/'' xs @ ''/'') (join ''/'' ys) \<longleftrightarrow> strict_prefix xs ys"
proof
  assume "prefix (join ''/'' xs @ ''/'') (join ''/'' ys)"
  then obtain t where t: "join ''/'' ys = join ''/'' xs @ CHR ''/'' # t" by (auto simp: prefix_def)
  then have "ys \<noteq> []" by auto
  then have "ys = split_on CHR ''/'' (join ''/'' xs @ CHR ''/'' # t)"
    using split_on_join_plain[OF assms(2)] t by simp
  then have "ys = xs @ split_on CHR ''/'' t"
    using split_on_join_plain[OF assms(1,3)] by (simp add: split_on_append)
  then show "strict_prefix xs ys" by (auto simp: strict_prefix_def)
next
  assume "strict_prefix xs ys"
  then obtain zs where "ys = xs @ zs" "zs \<noteq> []" by (auto simp: strict_prefix_def prefix_def)
  with assms(3) show "prefix (join ''/'' xs @ ''/'') (join ''/'' ys)"
    by (auto simp: join_append prefix_def)
qed

lemma rooted_clean_inj: "is_rooted a \<Longrightarrow> is_rooted b \<Longrightarrow> path_clean a = path_clean b \<longleftrightarrow> path_elems a = path_elems b"
  using path_elems_join[OF path_elems_plain] by (metis path_clean_rooted)

lemma rooted_clean_root: "is_rooted a \<Longrightarrow> path_clean a = ''/'' \<longleftrightarrow> path_elems a = []"
  using rooted_clean_inj[of a "''/''"] path_elems_join[of "[]"] by (auto simp: is_rooted_def path_clean_rooted)

lemma has_prefix_elems:
  assumes "is_rooted a" and "is_rooted b" and "path_elems b \<noteq> []"
  shows "has_prefix (path_clean a) (path_clean b @ ''/'') \<longleftrightarrow> strict_prefix (path_elems b) (path_elems a)"
  using prefix_join_slash[OF path_elems_plain path_elems_plain assms(3), of a] assms(1,2)
  by (simp add: has_prefix_def path_clean_rooted)

lemma overlap_comparable:
  assumes "is_rooted a" and "is_rooted b"
  shows "targetsOverlap a b \<longleftrightarrow> prefix (path_elems a) (path_elems b) \<or> prefix (path_elems b) (path_elems a)"
proof (cases "path_elems a = [] \<or> path_elems b = []")
  case True
  then show ?thesis
    using assms by (auto simp: targetsOverlap_def rooted_clean_root)
next
  case False
  with assms show ?thesis
    by (auto simp: targetsOverlap_def Let_def rooted_clean_root rooted_clean_inj has_prefix_elems strict_prefix_def)
qed

text \<open>
  Two absolute targets overlap, by the comparison of their cleaned texts, exactly when the
  elements of one path are a prefix of the elements of the other: one lies inside the other.
\<close>

theorem targetsOverlap_iff_comparable:
  assumes "is_rooted a" and "is_rooted b"
  shows "targetsOverlap a b \<longleftrightarrow> prefix (path_elems a) (path_elems b) \<or> prefix (path_elems b) (path_elems a)"
  using overlap_comparable[OF assms] .

theorem targetsOverlap_iff_comparable_witness:
  "targetsOverlap ''/usr/./lib'' ''/usr'' \<and> \<not> targetsOverlap ''/usr2'' ''/usr''"
proof -
  have e: "path_elems ''/usr/./lib'' = [''usr'', ''lib'']" "path_elems ''/usr'' = [''usr'']"
    "path_elems ''/usr2'' = [''usr2'']"
    by code_simp+
  show ?thesis
    using targetsOverlap_iff_comparable[of "''/usr/./lib''" "''/usr''"]
      targetsOverlap_iff_comparable[of "''/usr2''" "''/usr''"]
    by (simp add: e is_rooted_def)
qed

subsection \<open>Accepted mounts\<close>

text \<open>What validation promises of one mount.\<close>

definition mount_ok :: "(string \<Rightarrow> string option) \<Rightarrow> Mount \<Rightarrow> bool" where
  "mount_ok stat m \<longleftrightarrow>
     (mt_Type m = ''bind'' \<and> is_rooted (mt_Source m) \<and> stat (mt_Source m) = None \<and> mt_Mode m = 0 \<or>
      mt_Type m = ''empty_dir'' \<and> mt_Source m = []) \<and>
     is_rooted (mt_Target m) \<and>
     (\<forall>r \<in> set reservedSandboxTargets. targetsOverlap (mt_Target m) r \<longrightarrow>
        mt_Type m = ''bind'' \<and> mt_ReadOnly m \<and> path_clean (mt_Source m) = path_clean (mt_Target m) \<and>
        path_clean (mt_Target m) \<in> {''/usr'', ''/etc/alternatives''})"

lemma targetsOverlap_clean [simp]:
  "is_rooted a \<Longrightarrow> targetsOverlap (path_clean a) b = targetsOverlap a b"
  "is_rooted b \<Longrightarrow> targetsOverlap a (path_clean b) = targetsOverlap a b"
  by (simp_all add: targetsOverlap_def path_clean_idem_rooted)

lemma targetsOverlap_sym: "targetsOverlap a b = targetsOverlap b a"
  by (auto simp: targetsOverlap_def Let_def)

lemma validateMountType_None:
  "validateMountType stat m = None \<longleftrightarrow>
     mt_Type m = ''bind'' \<and> is_rooted (mt_Source m) \<and> stat (mt_Source m) = None \<and> mt_Mode m = 0 \<or>
     mt_Type m = ''empty_dir'' \<and> mt_Source m = []"
  by (auto simp: validateMountType_def is_rooted_def split: if_splits option.splits)

lemma isAllowedReservedBindTargetD:
  "isAllowedReservedBindTarget m target r \<Longrightarrow>
     mt_Type m = ''bind'' \<and> mt_ReadOnly m \<and> path_clean (mt_Source m) = target \<and>
     target \<in> {''/usr'', ''/etc/alternatives''}"
  by (auto simp: isAllowedReservedBindTarget_def split: if_splits)

lemma reservedConflict_None:
  "reservedConflict m target rs = None \<longleftrightarrow>
     (\<forall>r \<in> set rs. targetsOverlap target r \<longrightarrow> isAllowedReservedBindTarget m target r)"
  by (induction rs) auto

lemma seenConflict_None:
  "seenConflict m target seen = None \<longleftrightarrow> (\<forall>t \<in> fst ` set seen. \<not> targetsOverlap t target)"
  by (induction m target seen rule: seenConflict.induct) auto

lemma validateMountsLoop_None:
  "validateMountsLoop stat seen ms = None \<Longrightarrow>
     list_all (mount_ok stat) ms \<and>
     (\<forall>t \<in> fst ` set seen. \<forall>m \<in> set ms. \<not> targetsOverlap t (mt_Target m)) \<and>
     sorted_wrt (\<lambda>m m'. \<not> targetsOverlap (mt_Target m) (mt_Target m')) ms"
proof (induction ms arbitrary: seen)
  case (Cons m ms)
  let ?t = "path_clean (mt_Target m)"
  from Cons.prems have ok: "validateMountType stat m = None" "is_rooted (mt_Target m)"
    "reservedConflict m ?t reservedSandboxTargets = None" "seenConflict m ?t seen = None"
    and rest: "validateMountsLoop stat (gm_put ?t m seen) ms = None"
    by (auto simp: Let_def split: option.splits if_splits)
  have "isAllowedReservedBindTarget m ?t r" if "r \<in> set reservedSandboxTargets" "targetsOverlap (mt_Target m) r" for r
    using ok(2,3) that by (simp add: reservedConflict_None)
  then have "mount_ok stat m"
    using ok(1,2) isAllowedReservedBindTargetD unfolding mount_ok_def validateMountType_None by blast
  moreover have "\<forall>t \<in> fst ` set seen. \<not> targetsOverlap t (mt_Target m)"
    using ok(2,4) by (simp add: seenConflict_None)
  moreover note Cons.IH[OF rest]
  ultimately show ?case using ok(2) by auto
qed simp

lemma validateMounts_accepts:
  assumes "validateMounts stat mounts = None"
  shows "list_all (mount_ok stat) mounts"
    and "sorted_wrt (\<lambda>m m'. \<not> targetsOverlap (mt_Target m) (mt_Target m')) mounts"
  using validateMountsLoop_None[OF assms[unfolded validateMounts_def]] by simp_all

text \<open>
  Accepted mounts cannot shadow one another nor the sandbox's own directories: every target is
  absolute, no target lies inside another or contains it, and a target that meets a reserved
  directory is a read-only bind of \<^verbatim>\<open>/usr\<close> or \<^verbatim>\<open>/etc/alternatives\<close> to itself. Binds have an existing
  absolute source, empty directories none.
\<close>

theorem validateMounts_sound:
  assumes "validateMounts stat mounts = None" and "i < length mounts"
  shows "mount_ok stat (mounts ! i) \<and>
    (j < length mounts \<and> j \<noteq> i \<longrightarrow>
       \<not> prefix (path_elems (mt_Target (mounts ! i))) (path_elems (mt_Target (mounts ! j))))"
proof -
  note ok = validateMounts_accepts[OF assms(1)]
  have rooted: "is_rooted (mt_Target (mounts ! m))" if "m < length mounts" for m
    using ok(1) that by (auto simp: list_all_length mount_ok_def)
  have "\<not> targetsOverlap (mt_Target (mounts ! i)) (mt_Target (mounts ! j))" if "j < length mounts" "j \<noteq> i"
    using ok(2) assms(2) that targetsOverlap_sym
    by (cases i j rule: linorder_cases) (auto simp: sorted_wrt_iff_nth_less)
  then show ?thesis
    using overlap_comparable[OF rooted[OF assms(2)] rooted] ok(1) assms(2) by (auto simp: list_all_length)
qed

definition ex_mounts :: "Mount list" where
  "ex_mounts =
     [\<lparr>mt_Type = ''bind'', mt_Source = ''/usr'', mt_Target = ''/usr/'', mt_ReadOnly = True, mt_Mode = 0\<rparr>,
      \<lparr>mt_Type = ''empty_dir'', mt_Source = [], mt_Target = ''/work'', mt_ReadOnly = False, mt_Mode = 448\<rparr>]"

theorem validateMounts_sound_witness:
  "validateMounts (\<lambda>p. None) ex_mounts = None \<and> mount_ok (\<lambda>p. None) (ex_mounts ! 0) \<and>
   \<not> prefix (path_elems (mt_Target (ex_mounts ! 0))) (path_elems (mt_Target (ex_mounts ! 1)))"
proof -
  have v: "validateMounts (\<lambda>p. None) ex_mounts = None" by code_simp
  have "length ex_mounts = 2" by (simp add: ex_mounts_def)
  with validateMounts_sound[OF v, of 0 1] v show ?thesis by simp
qed

end
