(* ===== verification/Bwrap_Command.thy ===== *)
theory Bwrap_Command
  imports Sandbox_Mounts Sandbox_Root Docker_Proxy
begin

section \<open>The bubblewrap command: mounts.go, mounts\_linux.go, rootless\_linux.go\<close>

text \<open>
  From the validated mounts of a sandbox to the command line of bubblewrap: the docker socket
  mount, the directories and files that mounts need below the staged root, the extra mounts of
  the docker build support, and the arguments. The theorems read the arguments back with the
  documented option grammar of bubblewrap.
\<close>

subsection \<open>Options\<close>

record SandboxOptions =
  op_Name :: string
  op_Binaries :: "string list"
  op_Mounts :: "Mount list"
  op_Env :: "string list"
  op_TrafficMode :: TrafficMode
  op_Policy :: NetworkPolicy
  op_PolicyMode :: PolicyMode
  op_WorkDir :: string
  op_Seccomp :: SeccompOptions
  op_DockerSocket :: DockerSocketOptions
  op_DockerBuild :: DockerBuildOptions

definition errUnsupportedPlatformFeature :: "string \<Rightarrow> string \<Rightarrow> error" where
  "errUnsupportedPlatformFeature platform feature = feature @ '' is not supported on '' @ platform"

fun dockerMountConflict :: "string \<Rightarrow> Mount list \<Rightarrow> error option" where
  "dockerMountConflict mountPath [] = None"
| "dockerMountConflict mountPath (m # ms) =
     (if targetsOverlap (path_clean (mt_Target m)) mountPath
      then Some (''docker socket mount path '' @ go_quote mountPath @ '' overlaps with mount target '' @
                 go_quote (mt_Target m))
      else dockerMountConflict mountPath ms)"

definition validateEffectiveDockerSocketOptions ::
  "string \<Rightarrow> DockerSocketOptions \<Rightarrow> Mount list \<Rightarrow> error option" where
  "validateEffectiveDockerSocketOptions sandboxPlatform opts mounts =
     (if \<not> do_Enabled opts then None
      else if sandboxPlatform = ''darwin''
      then Some (errUnsupportedPlatformFeature ''darwin'' ''docker socket mediation'')
      else
        let mountPath = path_clean (trim_space (do_MountPath opts)) in
        if mountPath = [] \<or> \<not> is_rooted mountPath
        then Some (''docker socket mount path '' @ go_quote (do_MountPath opts) @ '' must be absolute'')
        else
          let targetSocketPath = path_clean (trim_space (do_TargetSocketPath opts)) in
          if targetSocketPath = [] \<or> \<not> is_rooted targetSocketPath
          then Some (''docker socket target socket path '' @ go_quote (do_TargetSocketPath opts) @ '' must be absolute'')
          else dockerMountConflict mountPath mounts)"

subsection \<open>Mounts at run time: mounts\_linux.go\<close>

definition overlapsReservedSandboxTarget :: "string \<Rightarrow> bool" where
  "overlapsReservedSandboxTarget target \<longleftrightarrow> list_ex (targetsOverlap target) reservedSandboxTargets"

definition materializeReservedMountTarget :: "host \<Rightarrow> string \<Rightarrow> Mount \<Rightarrow> unit result io" where
  "materializeReservedMountTarget h root m =
     (let target = path_clean (mt_Target m) in
      if \<not> overlapsReservedSandboxTarget target then io_ok ()
      else
        io_try (ctx (''stat runtime mount source '' @ go_quote (mt_Source m))) (os_Stat h (mt_Source m)) (\<lambda>info.
        case SandboxPathInRoot root target of
          Inl e \<Rightarrow> io_err (''prepare runtime mount target '' @ go_quote (mt_Target m) @ '': '' @ e)
        | Inr dest \<Rightarrow>
            if fi_IsDir info then
              io_try (ctx (''create runtime mount target '' @ go_quote (mt_Target m))) (os_MkdirAll h dest 493) io_ok
            else
              io_try (ctx (''create runtime mount target parent '' @ go_quote (mt_Target m)))
                (os_MkdirAll h (filepath_Dir dest) 493) (\<lambda>_.
              io_try (ctx (''create runtime mount target '' @ go_quote (mt_Target m)))
                (os_CreateFile h dest (fi_Perm info)) io_ok)))"

definition runtimeEmptyDirBase :: string where
  "runtimeEmptyDirBase = ''.bbox-empty-dirs''"

definition emptyDirPath :: "string \<Rightarrow> nat \<Rightarrow> string" where
  "emptyDirPath root idx = path_join [root, runtimeEmptyDirBase, itoa (int idx)]"

definition prepareRuntimeMount :: "host \<Rightarrow> string \<Rightarrow> nat \<times> Mount \<Rightarrow> Mount result io" where
  "prepareRuntimeMount h root = (\<lambda>(idx, m).
     if mt_Type m = ''bind'' then
       io_must (materializeReservedMountTarget h root m) (\<lambda>_. io_ok m)
     else if mt_Type m = ''empty_dir'' then
       let mode = (if mt_Mode m = 0 then 493 else mt_Mode m);
           hostDir = emptyDirPath root idx in
       io_try (ctx (''create empty_dir mount '' @ go_quote (mt_Target m))) (os_MkdirAll h hostDir mode) (\<lambda>_.
       io_try (ctx (''chmod empty_dir mount '' @ go_quote (mt_Target m))) (os_Chmod h hostDir mode) (\<lambda>_.
       io_ok \<lparr>mt_Type = ''bind'', mt_Source = hostDir, mt_Target = mt_Target m, mt_ReadOnly = False, mt_Mode = 0\<rparr>))
     else io_err (''unsupported mount type '' @ go_quote (mt_Type m)))"

definition prepareRuntimeMounts :: "host \<Rightarrow> string \<Rightarrow> Mount list \<Rightarrow> Mount list result io" where
  "prepareRuntimeMounts h root mounts = io_each (prepareRuntimeMount h root) (enumerate 0 mounts)"

subsection \<open>Arguments: mounts.go\<close>

record dockerSocketMount =
  dm_HostPath :: string
  dm_SandboxPath :: string

record bwrapArgsConfig =
  ba_root :: string
  ba_helperPath :: string
  ba_proxyListenAddr :: string
  ba_mitmEnabled :: bool
  ba_unshareUser :: bool
  ba_capSysAdmin :: bool
  ba_maxRequestBodyBytes :: int
  ba_mounts :: "Mount list"
  ba_tmpfsTargets :: "string list"
  ba_dockerSocketMount :: "dockerSocketMount option"
  ba_trafficMode :: TrafficMode
  ba_payloadSeccompBPFPath :: string
  ba_bridgeFD :: int
  ba_seccompFD :: int

definition rootDirs :: "string list" where
  "rootDirs = [''app'', ''usr'', ''etc'', ''lib'', ''lib64'', ''bin'', ''sbin'']"

fun stagedDirs :: "host \<Rightarrow> string \<Rightarrow> string list \<Rightarrow> string list io" where
  "stagedDirs h root [] = io_return []"
| "stagedDirs h root (dir # dirs) =
     io_bind (os_Stat h (path_join [root, dir])) (\<lambda>r.
     io_bind (stagedDirs h root dirs) (\<lambda>rest.
     io_return ((case r of Inr info \<Rightarrow> if fi_IsDir info then [dir] else [] | Inl e \<Rightarrow> []) @ rest)))"

definition mountArgs :: "Mount \<Rightarrow> string list" where
  "mountArgs m =
     (if mt_Type m \<noteq> ''bind'' then []
      else [if mt_ReadOnly m then ''--ro-bind'' else ''--bind'', mt_Source m, path_clean (mt_Target m)])"

definition helperArgs :: "bwrapArgsConfig \<Rightarrow> string list" where
  "helperArgs cfg =
     [ba_helperPath cfg, ''internal-helper'', ''--bridge-fd'', itoa (ba_bridgeFD cfg),
      ''--proxy-addr'', ba_proxyListenAddr cfg,
      ''--traffic-mode'', normalizeTrafficMode (ba_trafficMode cfg),
      ''--mitm-enabled='' @ (if ba_mitmEnabled cfg then ''true'' else ''false''),
      ''--max-request-body-bytes'', itoa (ba_maxRequestBodyBytes cfg)] @
     (if ba_payloadSeccompBPFPath cfg \<noteq> [] then [''--payload-seccomp-bpf'', ba_payloadSeccompBPFPath cfg] else []) @
     [''child-proxy'']"

definition buildBwrapArgs :: "host \<Rightarrow> bwrapArgsConfig \<Rightarrow> string list io" where
  "buildBwrapArgs h cfg =
     io_bind (stagedDirs h (ba_root cfg) rootDirs) (\<lambda>dirs. io_return (
       (if ba_unshareUser cfg then [''--unshare-user''] else []) @
       [''--unshare-pid'', ''--unshare-net'', ''--die-with-parent'', ''--new-session'', ''--clearenv'',
        ''--setenv'', ''PATH'', ''/usr/bin''] @
       (if ba_seccompFD cfg \<ge> 0 then [''--seccomp'', itoa (ba_seccompFD cfg)] else []) @
       (if ba_capSysAdmin cfg then [''--cap-add'', ''CAP_SYS_ADMIN''] else []) @
       concat (map (\<lambda>dir. [''--ro-bind'', path_join [ba_root cfg, dir], ''/'' @ dir]) dirs) @
       concat (map mountArgs (ba_mounts cfg)) @
       (case ba_dockerSocketMount cfg of
          None \<Rightarrow> []
        | Some d \<Rightarrow> [''--bind'', dm_HostPath d, path_clean (dm_SandboxPath d)]) @
       concat (map (\<lambda>target. [''--tmpfs'', path_clean target]) (ba_tmpfsTargets cfg)) @
       [''--proc'', ''/proc'', ''--dev'', ''/dev'', ''--tmpfs'', ''/tmp'', ''--chdir'', ''/tmp'', ''--''] @
       helperArgs cfg))"

subsection \<open>The command: rootless\_linux.go\<close>

record bwrapCommandConfig =
  bc_runtimeBinary :: string
  bc_root :: string
  bc_proxyListenAddr :: string
  bc_mitmEnabled :: bool
  bc_opts :: SandboxOptions
  bc_builder :: "BuilderTooling option"
  bc_mode :: TrafficMode
  bc_payloadSeccompPath :: string
  bc_bridgeFD :: int
  bc_seccompFD :: int
  bc_extraFiles :: "resource list"
  bc_dockerSocketMount :: "dockerSocketMount option"
  bc_maxRequestBody :: int

record exec_Cmd =
  cm_Path :: string
  cm_Args :: "string list"
  cm_ExtraFiles :: "resource list"

definition builderTargetMounted :: "Mount list \<Rightarrow> string \<Rightarrow> bool" where
  "builderTargetMounted mounts target \<longleftrightarrow> list_ex (\<lambda>m. targetsOverlap (mt_Target m) target) mounts"

definition defaultBuilderTmpfsTargets :: "Mount list \<Rightarrow> string list" where
  "defaultBuilderTmpfsTargets mounts =
     filter (\<lambda>target. \<not> builderTargetMounted mounts target) [''/var/lib/buildkitd'', ''/var/lib/buildkitd-out'']"

definition appendBuilderMountIfAbsent :: "Mount list \<Rightarrow> Mount \<Rightarrow> Mount list" where
  "appendBuilderMountIfAbsent mounts want =
     (if list_ex (\<lambda>m. targetsOverlap (mt_Target m) (mt_Target want)) mounts then mounts else mounts @ [want])"

definition defaultBuilderCgroupPath :: string where
  "defaultBuilderCgroupPath = ''/sys/fs/cgroup''"

definition appendBuilderMounts :: "host \<Rightarrow> Mount list \<Rightarrow> Mount list io" where
  "appendBuilderMounts h mounts =
     io_bind (os_Stat h defaultBuilderCgroupPath) (\<lambda>r. case r of
       Inl e \<Rightarrow> io_return mounts
     | Inr info \<Rightarrow>
         if \<not> fi_IsDir info then io_return mounts
         else io_return (appendBuilderMountIfAbsent mounts
           \<lparr>mt_Type = ''bind'', mt_Source = defaultBuilderCgroupPath, mt_Target = defaultBuilderCgroupPath,
            mt_ReadOnly = True, mt_Mode = 0\<rparr>))"

definition builderTooling :: "host \<Rightarrow> bwrapCommandConfig \<Rightarrow> BuilderTooling option result io" where
  "builderTooling h cfg =
     (case bc_builder cfg of
        Some b \<Rightarrow> io_ok (Some b)
      | None \<Rightarrow> ResolveDockerBuildSupport h (op_DockerBuild (bc_opts cfg)))"

definition commandMounts :: "host \<Rightarrow> BuilderTooling option \<Rightarrow> Mount list \<Rightarrow> Mount list io" where
  "commandMounts h tooling mounts = (if tooling = None then io_return mounts else appendBuilderMounts h mounts)"

definition commandArgsConfig ::
  "bwrapCommandConfig \<Rightarrow> BuilderTooling option \<Rightarrow> int \<Rightarrow> Mount list \<Rightarrow> string list \<Rightarrow> bwrapArgsConfig" where
  "commandArgsConfig cfg tooling euid runtimeMounts tmpfsTargets =
     \<lparr>ba_root = bc_root cfg, ba_helperPath = DefaultSandboxBBoxPath, ba_proxyListenAddr = bc_proxyListenAddr cfg,
      ba_mitmEnabled = bc_mitmEnabled cfg, ba_unshareUser = (euid \<noteq> 0 \<and> tooling = None),
      ba_capSysAdmin = (tooling \<noteq> None), ba_maxRequestBodyBytes = bc_maxRequestBody cfg,
      ba_mounts = runtimeMounts, ba_tmpfsTargets = tmpfsTargets,
      ba_dockerSocketMount = bc_dockerSocketMount cfg, ba_trafficMode = bc_mode cfg,
      ba_payloadSeccompBPFPath = bc_payloadSeccompPath cfg, ba_bridgeFD = bc_bridgeFD cfg,
      ba_seccompFD = bc_seccompFD cfg\<rparr>"

definition execCommand :: "bwrapCommandConfig \<Rightarrow> BuilderTooling option \<Rightarrow> string list \<Rightarrow> exec_Cmd" where
  "execCommand cfg tooling bwrapArgs =
     (case tooling of
        Some b \<Rightarrow> \<lparr>cm_Path = bt_PodmanPath b,
          cm_Args = [''--cgroup-manager=cgroupfs'', ''unshare'', ''bwrap''] @ bwrapArgs,
          cm_ExtraFiles = bc_extraFiles cfg\<rparr>
      | None \<Rightarrow> \<lparr>cm_Path = ''bwrap'', cm_Args = bwrapArgs, cm_ExtraFiles = bc_extraFiles cfg\<rparr>)"

definition buildLinuxSandboxCommand :: "host \<Rightarrow> bwrapCommandConfig \<Rightarrow> exec_Cmd result io" where
  "buildLinuxSandboxCommand h cfg =
     io_must (builderTooling h cfg) (\<lambda>tooling.
     let tmpfsTargets = (if tooling = None then [] else defaultBuilderTmpfsTargets (op_Mounts (bc_opts cfg))) in
     io_bind (commandMounts h tooling (op_Mounts (bc_opts cfg))) (\<lambda>mounts.
     io_try (ctx ''prepare runtime mounts'') (prepareRuntimeMounts h (bc_root cfg) mounts) (\<lambda>runtimeMounts.
     io_bind (os_Geteuid h) (\<lambda>euid.
     io_bind (buildBwrapArgs h (commandArgsConfig cfg tooling euid runtimeMounts tmpfsTargets)) (\<lambda>bwrapArgs.
     io_ok (execCommand cfg tooling bwrapArgs))))))"

subsection \<open>Reading the arguments\<close>

text \<open>The operations of a bubblewrap command line, by its documented options.\<close>

datatype bwrap_op =
    UnshareUser | UnsharePid | UnshareNet | DieWithParent | NewSession | ClearEnv
  | SetEnv string string
  | Seccomp string
  | CapAdd string
  | RoBind string string
  | Bind string string
  | Tmpfs string
  | Proc string
  | Dev string
  | Chdir string

fun bwrap_flag :: "string \<Rightarrow> bwrap_op option" where
  "bwrap_flag a =
     (if a = ''--unshare-user'' then Some UnshareUser
      else if a = ''--unshare-pid'' then Some UnsharePid
      else if a = ''--unshare-net'' then Some UnshareNet
      else if a = ''--die-with-parent'' then Some DieWithParent
      else if a = ''--new-session'' then Some NewSession
      else if a = ''--clearenv'' then Some ClearEnv
      else None)"

fun bwrap_unary :: "string \<Rightarrow> (string \<Rightarrow> bwrap_op) option" where
  "bwrap_unary a =
     (if a = ''--seccomp'' then Some Seccomp
      else if a = ''--cap-add'' then Some CapAdd
      else if a = ''--tmpfs'' then Some Tmpfs
      else if a = ''--proc'' then Some Proc
      else if a = ''--dev'' then Some Dev
      else if a = ''--chdir'' then Some Chdir
      else None)"

fun bwrap_binary :: "string \<Rightarrow> (string \<Rightarrow> string \<Rightarrow> bwrap_op) option" where
  "bwrap_binary a =
     (if a = ''--setenv'' then Some SetEnv
      else if a = ''--ro-bind'' then Some RoBind
      else if a = ''--bind'' then Some Bind
      else None)"

definition add_ops :: "bwrap_op list \<Rightarrow> (bwrap_op list \<times> string list) option \<Rightarrow> (bwrap_op list \<times> string list) option" where
  "add_ops ops parsed = map_option (\<lambda>p. (ops @ fst p, snd p)) parsed"

fun bwrap_parse :: "string list \<Rightarrow> (bwrap_op list \<times> string list) option" where
  "bwrap_parse [] = None"
| "bwrap_parse (a # args) =
     (if a = ''--'' then Some ([], args)
      else if \<not> has_prefix a ''-'' then Some ([], a # args)
      else
        case bwrap_flag a of
          Some op \<Rightarrow> add_ops [op] (bwrap_parse args)
        | None \<Rightarrow>
            (case (bwrap_unary a, args) of
               (Some op, x # args') \<Rightarrow> add_ops [op x] (bwrap_parse args')
             | _ \<Rightarrow>
                 (case (bwrap_binary a, args) of
                    (Some op, x # y # args') \<Rightarrow> add_ops [op x y] (bwrap_parse args')
                  | _ \<Rightarrow> None)))"

lemma add_ops_simps [simp]: "add_ops [] p = p" "add_ops os (add_ops ps p) = add_ops (os @ ps) p"
  "add_ops os (Some (ps, command)) = Some (os @ ps, command)"
  by (simp_all add: add_ops_def option.map_comp comp_def option.map_ident)

text \<open>\<open>reads args ops\<close>: in front of any other arguments, \<open>args\<close> stand for \<open>ops\<close>.\<close>

definition reads :: "string list \<Rightarrow> bwrap_op list \<Rightarrow> bool" where
  "reads args ops \<longleftrightarrow> (\<forall>rest. bwrap_parse (args @ rest) = add_ops ops (bwrap_parse rest))"

lemma reads_Nil [simp, intro!]: "reads [] []"
  by (simp add: reads_def)

lemma reads_append: "reads a os \<Longrightarrow> reads b ps \<Longrightarrow> reads (a @ b) (os @ ps)"
  by (simp add: reads_def)

lemma reads_concat: "(\<And>x. x \<in> set xs \<Longrightarrow> reads (f x) (g x)) \<Longrightarrow> reads (concat (map f xs)) (concat (map g xs))"
  by (induction xs) (auto intro: reads_append)

lemma option_shapes:
  "bwrap_flag a = Some f \<Longrightarrow> a \<noteq> ''--'' \<and> has_prefix a ''-''"
  "bwrap_unary a = Some g \<Longrightarrow> a \<noteq> ''--'' \<and> has_prefix a ''-'' \<and> bwrap_flag a = None"
  "bwrap_binary a = Some k \<Longrightarrow> a \<noteq> ''--'' \<and> has_prefix a ''-'' \<and> bwrap_flag a = None \<and> bwrap_unary a = None"
proof -
  show "a \<noteq> ''--'' \<and> has_prefix a ''-''" if "bwrap_flag a = Some f"
    using that by (simp add: has_prefix_def split: if_splits)
  show "a \<noteq> ''--'' \<and> has_prefix a ''-'' \<and> bwrap_flag a = None" if "bwrap_unary a = Some g"
    using that by (simp add: has_prefix_def split: if_splits)
  show "a \<noteq> ''--'' \<and> has_prefix a ''-'' \<and> bwrap_flag a = None \<and> bwrap_unary a = None" if "bwrap_binary a = Some k"
    using that by (simp add: has_prefix_def split: if_splits)
qed

lemma reads_flag: "bwrap_flag a = Some op \<Longrightarrow> reads [a] [op]"
  using option_shapes(1)[of a op] by (simp add: reads_def del: bwrap_flag.simps)

lemma reads_unary: "bwrap_unary a = Some op \<Longrightarrow> reads [a, x] [op x]"
  using option_shapes(2)[of a op] by (simp add: reads_def del: bwrap_flag.simps bwrap_unary.simps)

lemma reads_binary: "bwrap_binary a = Some op \<Longrightarrow> reads [a, x, y] [op x y]"
  using option_shapes(3)[of a op]
  by (simp add: reads_def del: bwrap_flag.simps bwrap_unary.simps bwrap_binary.simps)

text \<open>The operations that a configuration stands for, in the order of the command line.\<close>

definition mount_op :: "Mount \<Rightarrow> bwrap_op list" where
  "mount_op m = (if mt_Type m \<noteq> ''bind'' then []
     else [(if mt_ReadOnly m then RoBind else Bind) (mt_Source m) (path_clean (mt_Target m))])"

definition late_ops :: "bwrapArgsConfig \<Rightarrow> bwrap_op list" where
  "late_ops cfg =
     (case ba_dockerSocketMount cfg of
        None \<Rightarrow> [] | Some d \<Rightarrow> [Bind (dm_HostPath d) (path_clean (dm_SandboxPath d))]) @
     map (\<lambda>target. Tmpfs (path_clean target)) (ba_tmpfsTargets cfg) @
     [Proc ''/proc'', Dev ''/dev'', Tmpfs ''/tmp'', Chdir ''/tmp'']"

definition early_ops :: "bwrapArgsConfig \<Rightarrow> string list \<Rightarrow> bwrap_op list" where
  "early_ops cfg dirs =
     (if ba_unshareUser cfg then [UnshareUser] else []) @
     [UnsharePid, UnshareNet, DieWithParent, NewSession, ClearEnv, SetEnv ''PATH'' ''/usr/bin''] @
     (if ba_seccompFD cfg \<ge> 0 then [Seccomp (itoa (ba_seccompFD cfg))] else []) @
     (if ba_capSysAdmin cfg then [CapAdd ''CAP_SYS_ADMIN''] else []) @
     map (\<lambda>dir. RoBind (path_join [ba_root cfg, dir]) (''/'' @ dir)) dirs"

definition command_ops :: "bwrapArgsConfig \<Rightarrow> string list \<Rightarrow> bwrap_op list" where
  "command_ops cfg dirs = early_ops cfg dirs @ concat (map mount_op (ba_mounts cfg)) @ late_ops cfg"

lemma reads_mount: "reads (mountArgs m) (mount_op m)"
  by (auto simp: mountArgs_def mount_op_def intro: reads_binary)

lemma reads_if: "reads a os \<Longrightarrow> reads (if b then a else []) (if b then os else [])"
  by simp

lemma reads_base:
  "reads [''--unshare-pid'', ''--unshare-net'', ''--die-with-parent'', ''--new-session'', ''--clearenv'',
     ''--setenv'', ''PATH'', ''/usr/bin'']
     [UnsharePid, UnshareNet, DieWithParent, NewSession, ClearEnv, SetEnv ''PATH'' ''/usr/bin'']"
  by (simp add: reads_def has_prefix_def)

lemma reads_dirs:
  "reads (concat (map (\<lambda>dir. [''--ro-bind'', path_join [root, dir], ''/'' @ dir]) dirs))
     (map (\<lambda>dir. RoBind (path_join [root, dir]) (''/'' @ dir)) dirs)"
  using reads_concat[of dirs _ "\<lambda>dir. [RoBind (path_join [root, dir]) (''/'' @ dir)]"]
  by (simp add: reads_binary)

lemma reads_tmpfs: "reads (concat (map (\<lambda>d. [''--tmpfs'', path_clean d]) ds)) (map (\<lambda>d. Tmpfs (path_clean d)) ds)"
  using reads_concat[of ds _ "\<lambda>d. [Tmpfs (path_clean d)]"] by (simp add: reads_unary)

lemma reads_docker:
  "reads (case d of None \<Rightarrow> [] | Some d \<Rightarrow> [''--bind'', dm_HostPath d, path_clean (dm_SandboxPath d)])
     (case d of None \<Rightarrow> [] | Some d \<Rightarrow> [Bind (dm_HostPath d) (path_clean (dm_SandboxPath d))])"
  by (simp add: reads_binary split: option.split)

lemma reads_end:
  "bwrap_parse ([''--proc'', ''/proc'', ''--dev'', ''/dev'', ''--tmpfs'', ''/tmp'', ''--chdir'', ''/tmp'', ''--''] @ command) =
     Some ([Proc ''/proc'', Dev ''/dev'', Tmpfs ''/tmp'', Chdir ''/tmp''], command)"
  by (simp add: has_prefix_def)

lemma reads_command: "reads args ops \<Longrightarrow> bwrap_parse rest = Some (os, command) \<Longrightarrow> bwrap_parse (args @ rest) = Some (ops @ os, command)"
  by (simp add: reads_def)

lemma reads_args:
  "bwrap_parse (fst (buildBwrapArgs h cfg t)) =
     Some (command_ops cfg (fst (stagedDirs h (ba_root cfg) rootDirs t)), helperArgs cfg)"
  unfolding buildBwrapArgs_def io_bind_def io_return_def command_ops_def early_ops_def late_ops_def append_assoc
  by (simp only: split_beta fst_conv)
    (intro reads_command reads_if reads_flag reads_base reads_unary reads_dirs reads_concat reads_mount
      reads_docker reads_tmpfs reads_end; simp)

subsection \<open>What the sandbox sees\<close>

text \<open>Operations are carried out in order, so the last one that covers a path decides what is there.\<close>

fun op_target :: "bwrap_op \<Rightarrow> string option" where
  "op_target (RoBind source target) = Some target"
| "op_target (Bind source target) = Some target"
| "op_target (Tmpfs target) = Some target"
| "op_target (Proc target) = Some target"
| "op_target (Dev target) = Some target"
| "op_target _ = None"

definition covers :: "string \<Rightarrow> bwrap_op \<Rightarrow> bool" where
  "covers p op \<longleftrightarrow> (case op_target op of None \<Rightarrow> False | Some t \<Rightarrow> prefix (path_elems t) (path_elems p))"

definition visible :: "bwrap_op list \<Rightarrow> string \<Rightarrow> bwrap_op option" where
  "visible ops p = find (covers p) (rev ops)"

lemma visible_last:
  assumes "covers p op" and "\<And>o'. o' \<in> set later \<Longrightarrow> \<not> covers p o'"
  shows "visible (earlier @ op # later) p = Some op"
proof -
  have "find (covers p) (xs @ op # ys) = Some op" if "\<And>o'. o' \<in> set xs \<Longrightarrow> \<not> covers p o'" for xs ys
    using that assms(1) by (induction xs) auto
  from this[of "rev later" "rev earlier"] assms(2) show ?thesis by (simp add: visible_def)
qed

lemma path_elems_clean [simp]: "is_rooted p \<Longrightarrow> path_elems (path_clean p) = path_elems p"
  by (simp add: path_clean_rooted path_elems_join path_elems_plain)

lemma apart_not_covers:
  "is_rooted a \<Longrightarrow> is_rooted b \<Longrightarrow> \<not> targetsOverlap a b \<Longrightarrow> op_target op = Some b \<Longrightarrow> \<not> covers a op"
  by (simp add: covers_def overlap_comparable)

text \<open>Mounts of which none lies inside another.\<close>

definition apart :: "Mount list \<Rightarrow> bool" where
  "apart ms \<longleftrightarrow> (\<forall>m \<in> set ms. is_rooted (mt_Target m)) \<and>
     sorted_wrt (\<lambda>m m'. \<not> targetsOverlap (mt_Target m) (mt_Target m')) ms"

lemma validated_apart: "validateMounts stat ms = None \<Longrightarrow> apart ms"
  using validateMounts_accepts[of stat ms] by (auto simp: apart_def list_all_iff mount_ok_def)

lemma appendBuilder_apart: "apart ms \<Longrightarrow> is_rooted (mt_Target w) \<Longrightarrow> apart (appendBuilderMountIfAbsent ms w)"
  by (auto simp: apart_def appendBuilderMountIfAbsent_def sorted_wrt_append list_ex_iff)

lemma commandMounts_apart:
  assumes "commandMounts h tooling ms t = (ms', t')" and "apart ms"
  shows "apart ms' \<and> (\<exists>extra. ms' = ms @ extra)"
proof -
  let ?w = "\<lparr>mt_Type = ''bind'', mt_Source = defaultBuilderCgroupPath, mt_Target = defaultBuilderCgroupPath,
    mt_ReadOnly = True, mt_Mode = 0\<rparr>"
  have "ms' = ms \<or> ms' = appendBuilderMountIfAbsent ms ?w"
    using assms(1)
    by (auto simp: commandMounts_def appendBuilderMounts_def io_bind_def io_return_def
        split: prod.splits sum.splits if_splits)
  moreover have "apart (appendBuilderMountIfAbsent ms ?w)"
    by (rule appendBuilder_apart[OF assms(2)]) (simp add: defaultBuilderCgroupPath_def is_rooted_def)
  ultimately show ?thesis using assms(2) by (auto simp: appendBuilderMountIfAbsent_def)
qed

text \<open>A prepared mount is a bind of the same target.\<close>

definition runtime_mount :: "string \<Rightarrow> nat \<Rightarrow> Mount \<Rightarrow> Mount" where
  "runtime_mount root idx m =
     (if mt_Type m = ''bind'' then m
      else \<lparr>mt_Type = ''bind'', mt_Source = emptyDirPath root idx, mt_Target = mt_Target m, mt_ReadOnly = False, mt_Mode = 0\<rparr>)"

lemma prepare_each:
  "io_each (prepareRuntimeMount h root) (enumerate n ms) t = (Inr rms, t') \<Longrightarrow>
     rms = map (\<lambda>(i, m). runtime_mount root i m) (enumerate n ms)"
proof (induction ms arbitrary: n t rms t')
  case (Cons m ms)
  from Cons.prems obtain r t1 rest t2 where
    r: "prepareRuntimeMount h root (n, m) t = (Inr r, t1)" and rest: "rms = r # rest"
    and each: "io_each (prepareRuntimeMount h root) (enumerate (Suc n) ms) t1 = (Inr rest, t2)"
    by (auto simp: io_try_Inr io_return_def)
  have "r = runtime_mount root n m"
    using r by (auto simp: prepareRuntimeMount_def runtime_mount_def Let_def io_try_Inr io_return_def split: if_splits)
  then show ?case using Cons.IH[OF each] rest by simp
qed (simp add: io_return_def)

lemma runtime_mount_simps [simp]:
  "mt_Type (runtime_mount root i m) = ''bind''" "mt_Target (runtime_mount root i m) = mt_Target m"
  by (simp_all add: runtime_mount_def)

lemma mount_ops_runtime:
  "concat (map mount_op (map (\<lambda>(i, m). runtime_mount root i m) xs)) =
     map (\<lambda>(i, m). hd (mount_op (runtime_mount root i m))) xs"
  by (induction xs) (auto simp: mount_op_def)

lemma mount_op_target: "op_target (hd (mount_op (runtime_mount root i m))) = Some (path_clean (mt_Target m))"
  by (simp add: mount_op_def)

text \<open>The operations after the mounts cover no validated target.\<close>

lemma dockerMountConflict_None:
  "dockerMountConflict p ms = None \<longleftrightarrow> (\<forall>m \<in> set ms. \<not> targetsOverlap (path_clean (mt_Target m)) p)"
  by (induction ms) auto

lemma reserved_uncovered:
  assumes "mount_ok stat m" and "r \<in> {''/proc'', ''/dev'', ''/tmp''}"
  shows "\<not> targetsOverlap (mt_Target m) r"
proof
  assume o: "targetsOverlap (mt_Target m) r"
  have reserved: "r \<in> set reservedSandboxTargets" using assms(2) by (auto simp: reservedSandboxTargets_def)
  with assms(1) o have t: "is_rooted (mt_Target m)" "path_clean (mt_Target m) \<in> {''/usr'', ''/etc/alternatives''}"
    by (auto simp: mount_ok_def)
  then have "targetsOverlap (path_clean (mt_Target m)) r" using o by simp
  moreover have "\<not> targetsOverlap ''/usr'' r" "\<not> targetsOverlap ''/etc/alternatives'' r"
    using assms(2) by (auto simp: targetsOverlap_def) (code_simp+)
  ultimately show False using t(2) by auto
qed

lemma is_rooted_clean_iff: "is_rooted (path_clean p) \<longleftrightarrow> is_rooted p"
proof (cases "is_rooted p \<or> p = []")
  case False
  obtain n ps where es: "clean_elems False [] (split_on CHR ''/'' p) = replicate n ''..'' @ ps" "list_all plain_elem ps"
    using clean_elems_relative[of "[]" "[]" 0 "split_on CHR ''/'' p"] split_on_no_sep by auto
  have relative: "\<not> is_rooted (join ''/'' qs)" if "\<forall>e \<in> set qs. e \<noteq> [] \<and> hd e \<noteq> CHR ''/''" for qs
    using that by (cases "(''/'', qs)" rule: join.cases) (auto simp: is_rooted_def)
  have "e \<noteq> [] \<and> hd e \<noteq> CHR ''/''" if "e \<in> set (replicate n ''..'' @ ps)" for e
  proof -
    have "e = ''..'' \<or> plain_elem e" using that es(2) by (auto simp: list_all_iff)
    moreover have "plain_elem e \<Longrightarrow> e \<noteq> [] \<and> hd e \<noteq> CHR ''/''" by (cases e) (auto simp: plain_elem_def)
    ultimately show ?thesis by auto
  qed
  then have "\<not> is_rooted (join ''/'' (replicate n ''..'' @ ps))" using relative by blast
  with False es(1) show ?thesis by (auto simp: path_clean_def Let_def is_rooted_def)
qed (auto simp: path_clean_is_rooted path_clean_def is_rooted_def)

lemma late_uncovered:
  assumes "mount_ok stat m" and "op \<in> set (late_ops cfg)"
    and docker: "\<And>d. ba_dockerSocketMount cfg = Some d \<Longrightarrow>
      is_rooted (dm_SandboxPath d) \<and> \<not> targetsOverlap (mt_Target m) (dm_SandboxPath d)"
    and tmpfs: "\<And>d. d \<in> set (ba_tmpfsTargets cfg) \<Longrightarrow> is_rooted d \<and> \<not> targetsOverlap (mt_Target m) d"
  shows "\<not> covers (mt_Target m) op"
proof -
  have m: "is_rooted (mt_Target m)" using assms(1) by (simp add: mount_ok_def)
  have fixed: "is_rooted r \<and> \<not> targetsOverlap (mt_Target m) r" if "r \<in> {''/proc'', ''/dev'', ''/tmp''}" for r
    using reserved_uncovered[OF assms(1) that] that by (auto simp: is_rooted_def)
  have "op_target op = None \<or> (\<exists>b. op_target op = Some b \<and> is_rooted b \<and> \<not> targetsOverlap (mt_Target m) b)"
    using assms(2) docker tmpfs fixed by (auto simp: late_ops_def split: option.splits)
  then show ?thesis using apart_not_covers[OF m] by (auto simp: covers_def)
qed

lemma builder_tmpfs_apart:
  "d \<in> set (defaultBuilderTmpfsTargets ms) \<Longrightarrow> m \<in> set ms \<Longrightarrow> is_rooted d \<and> \<not> targetsOverlap (mt_Target m) d"
  by (auto simp: defaultBuilderTmpfsTargets_def builderTargetMounted_def list_ex_iff is_rooted_def split: if_splits)

lemma command_parts:
  assumes "buildLinuxSandboxCommand h cfg t = (Inr cmd, t')"
  obtains tooling t1 ms t2 rms t3 acfg t4 where
    "commandMounts h tooling (op_Mounts (bc_opts cfg)) t1 = (ms, t2)"
    "prepareRuntimeMounts h (bc_root cfg) ms t2 = (Inr rms, t3)"
    "ba_mounts acfg = rms" "ba_dockerSocketMount acfg = bc_dockerSocketMount cfg"
    "ba_helperPath acfg = DefaultSandboxBBoxPath"
    "ba_tmpfsTargets acfg = (if tooling = None then [] else defaultBuilderTmpfsTargets (op_Mounts (bc_opts cfg)))"
    "suffix (fst (buildBwrapArgs h acfg t4)) (cm_Args cmd)"
proof -
  from assms obtain tooling t1 ms t2 rms t3 euid t4 args t5 where
    ms: "commandMounts h tooling (op_Mounts (bc_opts cfg)) t1 = (ms, t2)"
    and rms: "prepareRuntimeMounts h (bc_root cfg) ms t2 = (Inr rms, t3)"
    and args: "buildBwrapArgs h (commandArgsConfig cfg tooling euid rms
      (if tooling = None then [] else defaultBuilderTmpfsTargets (op_Mounts (bc_opts cfg)))) t4 = (args, t5)"
    and cmd: "cmd = execCommand cfg tooling args"
    unfolding buildLinuxSandboxCommand_def by (auto simp only: io_try_Inr io_bind_eq io_return_eq Let_def sum.inject)
  have "suffix args (cm_Args cmd)"
    by (simp add: cmd execCommand_def suffix_def split: option.split)
  then have "suffix (fst (buildBwrapArgs h (commandArgsConfig cfg tooling euid rms
      (if tooling = None then [] else defaultBuilderTmpfsTargets (op_Mounts (bc_opts cfg)))) t4)) (cm_Args cmd)"
    by (simp add: args)
  from that[OF ms rms _ _ _ _ this] show ?thesis by (simp add: commandArgsConfig_def)
qed

definition user_op :: "string \<Rightarrow> nat \<times> Mount \<Rightarrow> bwrap_op" where
  "user_op root = (\<lambda>(i, m). hd (mount_op (runtime_mount root i m)))"

text \<open>The operations of the mounts, split at the \<open>i\<close>-th.\<close>

lemma mount_ops_split:
  assumes "prepareRuntimeMounts h root ms t = (Inr rms, t')" and "i < length ms"
  shows "concat (map mount_op rms) = map (user_op root) (take i (enumerate 0 ms)) @ user_op root (i, ms ! i) #
     map (user_op root) (drop (Suc i) (enumerate 0 ms))"
proof -
  have "enumerate 0 ms = take i (enumerate 0 ms) @ (i, ms ! i) # drop (Suc i) (enumerate 0 ms)"
    using id_take_nth_drop[of i "enumerate 0 ms"] assms(2) by (simp add: nth_enumerate_eq)
  then have "map (user_op root) (enumerate 0 ms) =
      map (user_op root) (take i (enumerate 0 ms)) @ user_op root (i, ms ! i) # map (user_op root) (drop (Suc i) (enumerate 0 ms))"
    by (metis list.simps(9) map_append)
  then show ?thesis
    using prepare_each[OF assms(1)[unfolded prepareRuntimeMounts_def]] by (simp only: mount_ops_runtime user_op_def)
qed

lemma later_mounts_uncovered:
  assumes "apart ms" and "i < length ms" and "is_rooted (mt_Target (ms ! i))"
    and "op \<in> set (map (user_op root) (drop (Suc i) (enumerate 0 ms)))"
  shows "\<not> covers (mt_Target (ms ! i)) op"
proof -
  from assms(4) obtain j where j: "Suc i \<le> j" "j < length ms" "op_target op = Some (path_clean (mt_Target (ms ! j)))"
    by (fastforce simp: user_op_def in_set_conv_nth nth_enumerate_eq mount_op_target)
  then show ?thesis
    using assms(1-3) sorted_wrt_nth_less[of _ ms i j]
    by (intro apart_not_covers[of _ "path_clean (mt_Target (ms ! j))"]) (auto simp: apart_def)
qed

text \<open>What the command line adds after the mounts hides none of them, when the docker socket was accepted.\<close>

lemma late_ops_uncovered:
  assumes "validateEffectiveDockerSocketOptions ''linux'' dopts ms = None" "trim_space (do_MountPath dopts) = do_MountPath dopts"
    and "ba_dockerSocketMount acfg = (if do_Enabled dopts then Some \<lparr>dm_HostPath = hostPath, dm_SandboxPath = do_MountPath dopts\<rparr> else None)"
    and "ba_tmpfsTargets acfg = (if tooling = None then [] else defaultBuilderTmpfsTargets ms)"
    and "mount_ok stat m" "m \<in> set ms" and "op \<in> set (late_ops acfg)"
  shows "\<not> covers (mt_Target m) op"
proof (rule late_uncovered[OF assms(5,7)])
  fix d assume "ba_dockerSocketMount acfg = Some d"
  then have d: "do_Enabled dopts" "dm_SandboxPath d = do_MountPath dopts" using assms(3) by (auto split: if_splits)
  with assms(1,2) have "is_rooted (do_MountPath dopts) \<and> dockerMountConflict (path_clean (do_MountPath dopts)) ms = None"
    by (auto simp: validateEffectiveDockerSocketOptions_def Let_def is_rooted_clean_iff split: if_splits)
  moreover have "is_rooted (mt_Target m)" using assms(5) by (simp add: mount_ok_def)
  ultimately show "is_rooted (dm_SandboxPath d) \<and> \<not> targetsOverlap (mt_Target m) (dm_SandboxPath d)"
    using d assms(6) by (auto simp: dockerMountConflict_None)
next
  fix d assume "d \<in> set (ba_tmpfsTargets acfg)"
  then show "is_rooted d \<and> \<not> targetsOverlap (mt_Target m) d"
    using assms(4) builder_tmpfs_apart[OF _ assms(6)] by (auto split: if_splits)
qed


text \<open>
  A docker socket that is to appear below \<^verbatim>\<open>/tmp\<close> passes validation, but the sandbox never sees
  it: the command line mounts the fresh \<^verbatim>\<open>/tmp\<close> after the socket.
\<close>

theorem docker_socket_below_tmp_hidden:
  assumes "buildLinuxSandboxCommand h cfg t = (Inr cmd, t')"
    and "bc_dockerSocketMount cfg = Some \<lparr>dm_HostPath = hostPath, dm_SandboxPath = ''/tmp/docker.sock''\<rparr>"
  shows "validateEffectiveDockerSocketOptions ''linux''
      \<lparr>do_Enabled = True, do_MountPath = ''/tmp/docker.sock'', do_TargetSocketPath = ''/var/run/docker.sock'',
       do_Policy = p\<rparr> [] = None \<and>
    (\<exists>args ops command. suffix args (cm_Args cmd) \<and> bwrap_parse args = Some (ops, command) \<and>
       Bind hostPath ''/tmp/docker.sock'' \<in> set ops \<and> visible ops ''/tmp/docker.sock'' = Some (Tmpfs ''/tmp''))"
proof (rule command_parts[OF assms(1)], intro conjI)
  fix acfg t4
  assume d: "ba_dockerSocketMount acfg = bc_dockerSocketMount cfg"
    and args: "suffix (fst (buildBwrapArgs h acfg t4)) (cm_Args cmd)"
  have "path_elems ''/tmp'' = [''tmp'']" "path_elems ''/tmp/docker.sock'' = [''tmp'', ''docker.sock'']"
    "path_clean ''/tmp/docker.sock'' = ''/tmp/docker.sock''"
    by code_simp+
  note e = this
  have "visible ((early_ops acfg dirs @ concat (map mount_op (ba_mounts acfg)) @ butlast (butlast (late_ops acfg))) @
      Tmpfs ''/tmp'' # [Chdir ''/tmp'']) ''/tmp/docker.sock'' = Some (Tmpfs ''/tmp'')" for dirs
    by (rule visible_last) (auto simp: covers_def e)
  moreover have "late_ops acfg = butlast (butlast (late_ops acfg)) @ [Tmpfs ''/tmp'', Chdir ''/tmp'']"
    by (simp add: late_ops_def butlast_append)
  ultimately have "visible (command_ops acfg dirs) ''/tmp/docker.sock'' = Some (Tmpfs ''/tmp'')" for dirs
    unfolding command_ops_def by (metis append_assoc append_Cons append_Nil)
  moreover have "Bind hostPath ''/tmp/docker.sock'' \<in> set (command_ops acfg dirs)" for dirs
    using d assms(2) e(3) by (simp add: command_ops_def late_ops_def)
  ultimately show "\<exists>args ops command. suffix args (cm_Args cmd) \<and> bwrap_parse args = Some (ops, command) \<and>
       Bind hostPath ''/tmp/docker.sock'' \<in> set ops \<and> visible ops ''/tmp/docker.sock'' = Some (Tmpfs ''/tmp'')"
    using args reads_args[of h acfg t4] by blast
  show "validateEffectiveDockerSocketOptions ''linux''
      \<lparr>do_Enabled = True, do_MountPath = ''/tmp/docker.sock'', do_TargetSocketPath = ''/var/run/docker.sock'',
       do_Policy = p\<rparr> [] = None"
    by (simp add: validateEffectiveDockerSocketOptions_def) code_simp
qed

subsection \<open>An example command\<close>

definition example_options :: SandboxOptions where
  "example_options = \<lparr>op_Name = [], op_Binaries = [''a''],
     op_Mounts = [\<lparr>mt_Type = ''bind'', mt_Source = ''/data'', mt_Target = ''/data'', mt_ReadOnly = True, mt_Mode = 0\<rparr>,
       \<lparr>mt_Type = ''empty_dir'', mt_Source = [], mt_Target = ''/scratch'', mt_ReadOnly = False, mt_Mode = 0\<rparr>],
     op_Env = [], op_TrafficMode = [], op_Policy = [], op_PolicyMode = [], op_WorkDir = [],
     op_Seccomp = \<lparr>so_Disabled = True, so_Profile = [], so_Rules = []\<rparr>,
     op_DockerSocket = zero_docker_options, op_DockerBuild = no_docker_build\<rparr>"

definition example_command :: "dockerSocketMount option \<Rightarrow> bwrapCommandConfig" where
  "example_command docker = \<lparr>bc_runtimeBinary = ''/bin/bbox'', bc_root = ''/tmp/r'', bc_proxyListenAddr = ''127.0.0.1:31111'',
     bc_mitmEnabled = False, bc_opts = example_options, bc_builder = None, bc_mode = ''proxy'',
     bc_payloadSeccompPath = [], bc_bridgeFD = 3, bc_seccompFD = -1, bc_extraFiles = [BridgeChild],
     bc_dockerSocketMount = docker, bc_maxRequestBody = 1\<rparr>"

lemma example_command_built: "is_ok (fst (buildLinuxSandboxCommand example_host (example_command None) []))"
  "is_ok (fst (buildLinuxSandboxCommand example_host (example_command (Some \<lparr>dm_HostPath = ''/s'', dm_SandboxPath = ''/tmp/docker.sock''\<rparr>)) []))"
  by code_simp+


theorem docker_socket_below_tmp_hidden_witness:
  "\<exists>cmd t args ops command.
     buildLinuxSandboxCommand example_host (example_command (Some \<lparr>dm_HostPath = ''/s'', dm_SandboxPath = ''/tmp/docker.sock''\<rparr>)) [] =
       (Inr cmd, t) \<and> suffix args (cm_Args cmd) \<and> bwrap_parse args = Some (ops, command) \<and>
     visible ops ''/tmp/docker.sock'' = Some (Tmpfs ''/tmp'')"
proof -
  let ?cfg = "example_command (Some \<lparr>dm_HostPath = ''/s'', dm_SandboxPath = ''/tmp/docker.sock''\<rparr>)"
  obtain cmd t where run: "buildLinuxSandboxCommand example_host ?cfg [] = (Inr cmd, t)"
    using example_command_built(2) by (cases "buildLinuxSandboxCommand example_host ?cfg []") (auto simp: is_ok_iff)
  have "bc_dockerSocketMount ?cfg = Some \<lparr>dm_HostPath = ''/s'', dm_SandboxPath = ''/tmp/docker.sock''\<rparr>"
    by (simp add: example_command_def)
  from docker_socket_below_tmp_hidden[OF run this] run show ?thesis by blast
qed

end
