(* ===== verification/Cli_Config.thy ===== *)
theory Cli_Config
  imports Bwrap_Command
begin

section \<open>Configuration of the command line: cmd/bbox config\*.go, effective\_config.go, mounts.go\<close>

text \<open>
  The command line merges four layers: built-in defaults, a configuration file, flags with
  defaults of their own, and the remaining options. A layer has a value and a mark for every
  setting. The decoding of YAML and the files of the host are parameters. Slices are lists, so that
  cloning is the identity; a nil map is the empty list.
\<close>

subsection \<open>Layers: config.go\<close>

record cliDockerSocketHTTPConfig =
  ch_Methods :: "string list"
  ch_PathPatterns :: "string list"

record cliDockerSocketBuildConfig =
  cb_Context :: string
  cb_DockerfilePaths :: "string list"

record cliDockerSocketRuleConfig =
  cr_Action :: string
  cr_Operations :: "string list"
  cr_HTTP :: "cliDockerSocketHTTPConfig option"
  cr_Build :: "cliDockerSocketBuildConfig option"

type_synonym cliPolicyRuleConfig = PolicyRule

record cliPolicyConfig =
  cp_Rules :: "cliPolicyRuleConfig list"
  cp_hasRules :: bool

record cliDockerSocketConfig =
  cs_Enabled :: bool
  cs_MountPath :: string
  cs_TargetSocketPath :: string
  cs_DefaultAction :: string
  cs_Rules :: "cliDockerSocketRuleConfig list"
  cs_hasEnabled :: bool
  cs_hasMountPath :: bool
  cs_hasTargetPath :: bool
  cs_hasDefaultAction :: bool
  cs_hasRules :: bool

record cliDockerBuildConfig =
  ci_Enabled :: bool
  ci_BuildkitdPath :: string
  ci_BuildctlPath :: string
  ci_RuncPath :: string
  ci_PodmanPath :: string
  ci_NewuidmapPath :: string
  ci_NewgidmapPath :: string
  ci_hasEnabled :: bool
  ci_hasBuildkitd :: bool
  ci_hasBuildctl :: bool
  ci_hasRunc :: bool
  ci_hasPodman :: bool
  ci_hasNewuidmap :: bool
  ci_hasNewgidmap :: bool

record cliMountConfig =
  cm_Type :: string
  cm_Source :: string
  cm_Target :: string
  cm_ReadOnly :: bool
  cm_Mode :: int

record cliFileConfig =
  cf_Name :: string
  cf_WorkDir :: string
  cf_Bin :: "string list"
  cf_Mounts :: "cliMountConfig list"
  cf_Env :: "string list"
  cf_CopyEnv :: "string list"
  cf_TrafficMode :: string
  cf_PolicyMode :: string
  cf_MaxRequestBodyBytes :: int
  cf_AccessLog :: string
  cf_ReportPolicyViolations :: bool
  cf_ReportAccessSummary :: bool
  cf_ReportRequestSummary :: bool
  cf_Policy :: cliPolicyConfig
  cf_DockerSocket :: cliDockerSocketConfig
  cf_DockerBuild :: cliDockerBuildConfig
  cf_hasName :: bool
  cf_hasWorkDir :: bool
  cf_hasBin :: bool
  cf_hasMounts :: bool
  cf_hasEnv :: bool
  cf_hasCopyEnv :: bool
  cf_hasTrafficMode :: bool
  cf_hasPolicyMode :: bool
  cf_hasMaxRequestBodyBytes :: bool
  cf_hasAccessLog :: bool
  cf_hasReportPolicyViolations :: bool
  cf_hasReportAccessSummary :: bool
  cf_hasReportRequestSummary :: bool

definition zeroPolicyConfig :: cliPolicyConfig where
  "zeroPolicyConfig = \<lparr>cp_Rules = [], cp_hasRules = False\<rparr>"

definition zeroDockerSocketConfig :: cliDockerSocketConfig where
  "zeroDockerSocketConfig = \<lparr>cs_Enabled = False, cs_MountPath = [], cs_TargetSocketPath = [], cs_DefaultAction = [], cs_Rules = [],
     cs_hasEnabled = False, cs_hasMountPath = False, cs_hasTargetPath = False, cs_hasDefaultAction = False, cs_hasRules = False\<rparr>"

definition zeroDockerBuildConfig :: cliDockerBuildConfig where
  "zeroDockerBuildConfig = \<lparr>ci_Enabled = False, ci_BuildkitdPath = [], ci_BuildctlPath = [], ci_RuncPath = [], ci_PodmanPath = [],
     ci_NewuidmapPath = [], ci_NewgidmapPath = [], ci_hasEnabled = False, ci_hasBuildkitd = False, ci_hasBuildctl = False,
     ci_hasRunc = False, ci_hasPodman = False, ci_hasNewuidmap = False, ci_hasNewgidmap = False\<rparr>"

definition zeroFileConfig :: cliFileConfig where
  "zeroFileConfig =
     \<lparr>cf_Name = [], cf_WorkDir = [], cf_Bin = [], cf_Mounts = [], cf_Env = [], cf_CopyEnv = [], cf_TrafficMode = [],
      cf_PolicyMode = [], cf_MaxRequestBodyBytes = 0, cf_AccessLog = [], cf_ReportPolicyViolations = False,
      cf_ReportAccessSummary = False, cf_ReportRequestSummary = False, cf_Policy = zeroPolicyConfig,
      cf_DockerSocket = zeroDockerSocketConfig, cf_DockerBuild = zeroDockerBuildConfig,
      cf_hasName = False, cf_hasWorkDir = False, cf_hasBin = False, cf_hasMounts = False, cf_hasEnv = False,
      cf_hasCopyEnv = False, cf_hasTrafficMode = False, cf_hasPolicyMode = False, cf_hasMaxRequestBodyBytes = False,
      cf_hasAccessLog = False, cf_hasReportPolicyViolations = False, cf_hasReportAccessSummary = False,
      cf_hasReportRequestSummary = False\<rparr>"

subsection \<open>Files as they are decoded\<close>

record rawCLIDockerSocketHTTPConfig =
  rh_Methods :: "string list option"
  rh_PathPatterns :: "string list option"

record rawCLIDockerSocketBuildConfig =
  rb_Context :: "string option"
  rb_DockerfilePaths :: "string list option"

record rawCLIDockerSocketRuleConfig =
  rr_Action :: "string option"
  rr_Operations :: "string list option"
  rr_HTTP :: "rawCLIDockerSocketHTTPConfig option"
  rr_Build :: "rawCLIDockerSocketBuildConfig option"

record rawCLIDockerSocketConfig =
  rs_Enabled :: "bool option"
  rs_MountPath :: "string option"
  rs_TargetSocketPath :: "string option"
  rs_DefaultAction :: "string option"
  rs_Rules :: "rawCLIDockerSocketRuleConfig list option"

record rawCLIDockerBuildConfig =
  ri_Enabled :: "bool option"
  ri_BuildkitdPath :: "string option"
  ri_BuildctlPath :: "string option"
  ri_RuncPath :: "string option"
  ri_PodmanPath :: "string option"
  ri_NewuidmapPath :: "string option"
  ri_NewgidmapPath :: "string option"

record rawCLIFileConfig =
  rf_Name :: "string option"
  rf_WorkDir :: "string option"
  rf_Bin :: "string list option"
  rf_Mounts :: "cliMountConfig list option"
  rf_Env :: "string list option"
  rf_CopyEnv :: "string list option"
  rf_TrafficMode :: "string option"
  rf_PolicyMode :: "string option"
  rf_MaxRequestBodyBytes :: "int option"
  rf_AccessLog :: "string option"
  rf_ReportPolicyViolations :: "bool option"
  rf_ReportAccessSummary :: "bool option"
  rf_ReportRequestSummary :: "bool option"
  rf_Policy :: "cliPolicyRuleConfig list option option"
  rf_DockerSocket :: "rawCLIDockerSocketConfig option"
  rf_DockerBuild :: "rawCLIDockerBuildConfig option"

record cliFlagOverrides =
  fo_TrafficMode :: "string option"
  fo_PolicyMode :: "string option"
  fo_ReportPolicy :: "bool option"
  fo_ReportAccessSummary :: "bool option"
  fo_ReportRequestSummary :: "bool option"
  fo_AccessLog :: "string option"

text \<open>The value of a pointer, or a zero value.\<close>

definition deref :: "'a \<Rightarrow> 'a option \<Rightarrow> 'a" where
  "deref zero p = (case p of None \<Rightarrow> zero | Some x \<Rightarrow> x)"

definition toCLIDockerSocketRule :: "rawCLIDockerSocketRuleConfig \<Rightarrow> cliDockerSocketRuleConfig" where
  "toCLIDockerSocketRule rule =
     \<lparr>cr_Action = deref [] (rr_Action rule), cr_Operations = deref [] (rr_Operations rule),
      cr_HTTP = map_option (\<lambda>http. \<lparr>ch_Methods = deref [] (rh_Methods http), ch_PathPatterns = deref [] (rh_PathPatterns http)\<rparr>)
        (rr_HTTP rule),
      cr_Build = map_option (\<lambda>build. \<lparr>cb_Context = deref [] (rb_Context build), cb_DockerfilePaths = deref [] (rb_DockerfilePaths build)\<rparr>)
        (rr_Build rule)\<rparr>"

definition toCLIDockerSocketRules :: "rawCLIDockerSocketRuleConfig list \<Rightarrow> cliDockerSocketRuleConfig list" where
  "toCLIDockerSocketRules rules = map toCLIDockerSocketRule rules"

definition toDockerSocketConfig :: "rawCLIDockerSocketConfig \<Rightarrow> cliDockerSocketConfig" where
  "toDockerSocketConfig r =
     \<lparr>cs_Enabled = deref False (rs_Enabled r), cs_MountPath = deref [] (rs_MountPath r),
      cs_TargetSocketPath = deref [] (rs_TargetSocketPath r), cs_DefaultAction = deref [] (rs_DefaultAction r),
      cs_Rules = toCLIDockerSocketRules (deref [] (rs_Rules r)),
      cs_hasEnabled = (rs_Enabled r \<noteq> None), cs_hasMountPath = (rs_MountPath r \<noteq> None),
      cs_hasTargetPath = (rs_TargetSocketPath r \<noteq> None), cs_hasDefaultAction = (rs_DefaultAction r \<noteq> None),
      cs_hasRules = (rs_Rules r \<noteq> None)\<rparr>"

definition toDockerBuildConfig :: "rawCLIDockerBuildConfig \<Rightarrow> cliDockerBuildConfig" where
  "toDockerBuildConfig r =
     \<lparr>ci_Enabled = deref False (ri_Enabled r), ci_BuildkitdPath = deref [] (ri_BuildkitdPath r),
      ci_BuildctlPath = deref [] (ri_BuildctlPath r), ci_RuncPath = deref [] (ri_RuncPath r),
      ci_PodmanPath = deref [] (ri_PodmanPath r), ci_NewuidmapPath = deref [] (ri_NewuidmapPath r),
      ci_NewgidmapPath = deref [] (ri_NewgidmapPath r),
      ci_hasEnabled = (ri_Enabled r \<noteq> None), ci_hasBuildkitd = (ri_BuildkitdPath r \<noteq> None),
      ci_hasBuildctl = (ri_BuildctlPath r \<noteq> None), ci_hasRunc = (ri_RuncPath r \<noteq> None),
      ci_hasPodman = (ri_PodmanPath r \<noteq> None), ci_hasNewuidmap = (ri_NewuidmapPath r \<noteq> None),
      ci_hasNewgidmap = (ri_NewgidmapPath r \<noteq> None)\<rparr>"

definition toPolicyConfig :: "cliPolicyRuleConfig list option option \<Rightarrow> cliPolicyConfig" where
  "toPolicyConfig p = (case p of
     Some (Some rules) \<Rightarrow> \<lparr>cp_Rules = rules, cp_hasRules = True\<rparr> | _ \<Rightarrow> zeroPolicyConfig)"

definition toCLIFileConfig :: "rawCLIFileConfig \<Rightarrow> cliFileConfig" where
  "toCLIFileConfig r =
     \<lparr>cf_Name = deref [] (rf_Name r), cf_WorkDir = deref [] (rf_WorkDir r), cf_Bin = deref [] (rf_Bin r),
      cf_Mounts = deref [] (rf_Mounts r), cf_Env = deref [] (rf_Env r), cf_CopyEnv = deref [] (rf_CopyEnv r),
      cf_TrafficMode = deref [] (rf_TrafficMode r), cf_PolicyMode = deref [] (rf_PolicyMode r),
      cf_MaxRequestBodyBytes = deref 0 (rf_MaxRequestBodyBytes r), cf_AccessLog = deref [] (rf_AccessLog r),
      cf_ReportPolicyViolations = deref False (rf_ReportPolicyViolations r),
      cf_ReportAccessSummary = deref False (rf_ReportAccessSummary r),
      cf_ReportRequestSummary = deref False (rf_ReportRequestSummary r),
      cf_Policy = toPolicyConfig (rf_Policy r),
      cf_DockerSocket = (case rf_DockerSocket r of None \<Rightarrow> zeroDockerSocketConfig | Some d \<Rightarrow> toDockerSocketConfig d),
      cf_DockerBuild = (case rf_DockerBuild r of None \<Rightarrow> zeroDockerBuildConfig | Some d \<Rightarrow> toDockerBuildConfig d),
      cf_hasName = (rf_Name r \<noteq> None), cf_hasWorkDir = (rf_WorkDir r \<noteq> None), cf_hasBin = (rf_Bin r \<noteq> None),
      cf_hasMounts = (rf_Mounts r \<noteq> None), cf_hasEnv = (rf_Env r \<noteq> None), cf_hasCopyEnv = (rf_CopyEnv r \<noteq> None),
      cf_hasTrafficMode = (rf_TrafficMode r \<noteq> None), cf_hasPolicyMode = (rf_PolicyMode r \<noteq> None),
      cf_hasMaxRequestBodyBytes = (rf_MaxRequestBodyBytes r \<noteq> None), cf_hasAccessLog = (rf_AccessLog r \<noteq> None),
      cf_hasReportPolicyViolations = (rf_ReportPolicyViolations r \<noteq> None),
      cf_hasReportAccessSummary = (rf_ReportAccessSummary r \<noteq> None),
      cf_hasReportRequestSummary = (rf_ReportRequestSummary r \<noteq> None)\<rparr>"

subsection \<open>Merging: config\_merge.go\<close>

text \<open>One setting of the overlay, if it is marked, else that of the base.\<close>

definition over :: "bool \<Rightarrow> 'a \<Rightarrow> 'a \<Rightarrow> 'a" where
  "over has overlay base = (if has then overlay else base)"

definition mergePolicy :: "cliPolicyConfig \<Rightarrow> cliPolicyConfig \<Rightarrow> cliPolicyConfig" where
  "mergePolicy b v = \<lparr>cp_Rules = over (cp_hasRules v) (cp_Rules v) (cp_Rules b), cp_hasRules = (cp_hasRules b \<or> cp_hasRules v)\<rparr>"

definition mergeDockerSocket :: "cliDockerSocketConfig \<Rightarrow> cliDockerSocketConfig \<Rightarrow> cliDockerSocketConfig" where
  "mergeDockerSocket b v =
     \<lparr>cs_Enabled = over (cs_hasEnabled v) (cs_Enabled v) (cs_Enabled b),
      cs_MountPath = over (cs_hasMountPath v) (cs_MountPath v) (cs_MountPath b),
      cs_TargetSocketPath = over (cs_hasTargetPath v) (cs_TargetSocketPath v) (cs_TargetSocketPath b),
      cs_DefaultAction = over (cs_hasDefaultAction v) (cs_DefaultAction v) (cs_DefaultAction b),
      cs_Rules = over (cs_hasRules v) (cs_Rules v) (cs_Rules b),
      cs_hasEnabled = (cs_hasEnabled b \<or> cs_hasEnabled v), cs_hasMountPath = (cs_hasMountPath b \<or> cs_hasMountPath v),
      cs_hasTargetPath = (cs_hasTargetPath b \<or> cs_hasTargetPath v),
      cs_hasDefaultAction = (cs_hasDefaultAction b \<or> cs_hasDefaultAction v), cs_hasRules = (cs_hasRules b \<or> cs_hasRules v)\<rparr>"

definition mergeDockerBuild :: "cliDockerBuildConfig \<Rightarrow> cliDockerBuildConfig \<Rightarrow> cliDockerBuildConfig" where
  "mergeDockerBuild b v =
     \<lparr>ci_Enabled = over (ci_hasEnabled v) (ci_Enabled v) (ci_Enabled b),
      ci_BuildkitdPath = over (ci_hasBuildkitd v) (ci_BuildkitdPath v) (ci_BuildkitdPath b),
      ci_BuildctlPath = over (ci_hasBuildctl v) (ci_BuildctlPath v) (ci_BuildctlPath b),
      ci_RuncPath = over (ci_hasRunc v) (ci_RuncPath v) (ci_RuncPath b),
      ci_PodmanPath = over (ci_hasPodman v) (ci_PodmanPath v) (ci_PodmanPath b),
      ci_NewuidmapPath = over (ci_hasNewuidmap v) (ci_NewuidmapPath v) (ci_NewuidmapPath b),
      ci_NewgidmapPath = over (ci_hasNewgidmap v) (ci_NewgidmapPath v) (ci_NewgidmapPath b),
      ci_hasEnabled = (ci_hasEnabled b \<or> ci_hasEnabled v), ci_hasBuildkitd = (ci_hasBuildkitd b \<or> ci_hasBuildkitd v),
      ci_hasBuildctl = (ci_hasBuildctl b \<or> ci_hasBuildctl v), ci_hasRunc = (ci_hasRunc b \<or> ci_hasRunc v),
      ci_hasPodman = (ci_hasPodman b \<or> ci_hasPodman v), ci_hasNewuidmap = (ci_hasNewuidmap b \<or> ci_hasNewuidmap v),
      ci_hasNewgidmap = (ci_hasNewgidmap b \<or> ci_hasNewgidmap v)\<rparr>"

definition mergeCLIConfigLayer :: "cliFileConfig \<Rightarrow> cliFileConfig \<Rightarrow> cliFileConfig" where
  "mergeCLIConfigLayer b v =
     \<lparr>cf_Name = over (cf_hasName v) (cf_Name v) (cf_Name b),
      cf_WorkDir = over (cf_hasWorkDir v) (cf_WorkDir v) (cf_WorkDir b),
      cf_Bin = over (cf_hasBin v) (cf_Bin v) (cf_Bin b),
      cf_Mounts = over (cf_hasMounts v) (cf_Mounts v) (cf_Mounts b),
      cf_Env = over (cf_hasEnv v) (cf_Env v) (cf_Env b),
      cf_CopyEnv = over (cf_hasCopyEnv v) (cf_CopyEnv v) (cf_CopyEnv b),
      cf_TrafficMode = over (cf_hasTrafficMode v) (cf_TrafficMode v) (cf_TrafficMode b),
      cf_PolicyMode = over (cf_hasPolicyMode v) (cf_PolicyMode v) (cf_PolicyMode b),
      cf_MaxRequestBodyBytes = over (cf_hasMaxRequestBodyBytes v) (cf_MaxRequestBodyBytes v) (cf_MaxRequestBodyBytes b),
      cf_AccessLog = over (cf_hasAccessLog v) (cf_AccessLog v) (cf_AccessLog b),
      cf_ReportPolicyViolations = over (cf_hasReportPolicyViolations v) (cf_ReportPolicyViolations v) (cf_ReportPolicyViolations b),
      cf_ReportAccessSummary = over (cf_hasReportAccessSummary v) (cf_ReportAccessSummary v) (cf_ReportAccessSummary b),
      cf_ReportRequestSummary = over (cf_hasReportRequestSummary v) (cf_ReportRequestSummary v) (cf_ReportRequestSummary b),
      cf_Policy = mergePolicy (cf_Policy b) (cf_Policy v),
      cf_DockerSocket = mergeDockerSocket (cf_DockerSocket b) (cf_DockerSocket v),
      cf_DockerBuild = mergeDockerBuild (cf_DockerBuild b) (cf_DockerBuild v),
      cf_hasName = (cf_hasName b \<or> cf_hasName v), cf_hasWorkDir = (cf_hasWorkDir b \<or> cf_hasWorkDir v),
      cf_hasBin = (cf_hasBin b \<or> cf_hasBin v), cf_hasMounts = (cf_hasMounts b \<or> cf_hasMounts v),
      cf_hasEnv = (cf_hasEnv b \<or> cf_hasEnv v), cf_hasCopyEnv = (cf_hasCopyEnv b \<or> cf_hasCopyEnv v),
      cf_hasTrafficMode = (cf_hasTrafficMode b \<or> cf_hasTrafficMode v), cf_hasPolicyMode = (cf_hasPolicyMode b \<or> cf_hasPolicyMode v),
      cf_hasMaxRequestBodyBytes = (cf_hasMaxRequestBodyBytes b \<or> cf_hasMaxRequestBodyBytes v),
      cf_hasAccessLog = (cf_hasAccessLog b \<or> cf_hasAccessLog v),
      cf_hasReportPolicyViolations = (cf_hasReportPolicyViolations b \<or> cf_hasReportPolicyViolations v),
      cf_hasReportAccessSummary = (cf_hasReportAccessSummary b \<or> cf_hasReportAccessSummary v),
      cf_hasReportRequestSummary = (cf_hasReportRequestSummary b \<or> cf_hasReportRequestSummary v)\<rparr>"

definition defaultPolicyRule :: PolicyRule where
  "defaultPolicyRule = \<lparr>pr_HostPatterns = [], pr_IPCIDRs = [], pr_HTTPMethods = [], pr_ConnectPorts = [''443''],
     pr_PathPatterns = [], pr_HeaderPatterns = [], pr_BodyPatterns = []\<rparr>"

definition defaultCLIFileConfig :: cliFileConfig where
  "defaultCLIFileConfig = zeroFileConfig\<lparr>
     cf_TrafficMode := ''proxy'', cf_PolicyMode := ''enforce'', cf_AccessLog := ''json'',
     cf_ReportPolicyViolations := True, cf_ReportAccessSummary := True, cf_ReportRequestSummary := True,
     cf_hasTrafficMode := True, cf_hasPolicyMode := True, cf_hasAccessLog := True, cf_hasReportPolicyViolations := True,
     cf_hasReportAccessSummary := True, cf_hasReportRequestSummary := True,
     cf_Policy := \<lparr>cp_Rules = [defaultPolicyRule], cp_hasRules = True\<rparr>\<rparr>"

definition mergeCLIConfig :: "cliFileConfig \<Rightarrow> cliFileConfig \<Rightarrow> cliFlagOverrides \<Rightarrow> cliFileConfig" where
  "mergeCLIConfig defaults fileCfg flags =
     (let m = mergeCLIConfigLayer defaults fileCfg;
          m = (case fo_TrafficMode flags of None \<Rightarrow> m | Some x \<Rightarrow> m\<lparr>cf_TrafficMode := x, cf_hasTrafficMode := True\<rparr>);
          m = (case fo_PolicyMode flags of None \<Rightarrow> m | Some x \<Rightarrow> m\<lparr>cf_PolicyMode := x, cf_hasPolicyMode := True\<rparr>);
          m = (case fo_ReportPolicy flags of None \<Rightarrow> m
               | Some x \<Rightarrow> m\<lparr>cf_ReportPolicyViolations := x, cf_hasReportPolicyViolations := True\<rparr>);
          m = (case fo_ReportAccessSummary flags of None \<Rightarrow> m
               | Some x \<Rightarrow> m\<lparr>cf_ReportAccessSummary := x, cf_hasReportAccessSummary := True\<rparr>);
          m = (case fo_ReportRequestSummary flags of None \<Rightarrow> m
               | Some x \<Rightarrow> m\<lparr>cf_ReportRequestSummary := x, cf_hasReportRequestSummary := True\<rparr>) in
      case fo_AccessLog flags of None \<Rightarrow> m | Some x \<Rightarrow> m\<lparr>cf_AccessLog := x, cf_hasAccessLog := True\<rparr>)"

end
