(* ===== verification/Go_Flag.thy ===== *)
theory Go_Flag
  imports Go_Strings
begin

section \<open>Packages strconv and flag\<close>

text \<open>
  Numbers with a base prefix and boolean words, as \<^verbatim>\<open>strconv\<close> reads them, and the parsing of command
  line flags of the standard library.
\<close>

subsection \<open>Package strconv\<close>

definition parse_bool :: "string \<Rightarrow> bool option" where
  "parse_bool s =
     (if s \<in> {''1'', ''t'', ''T'', ''TRUE'', ''true'', ''True''} then Some True
      else if s \<in> {''0'', ''f'', ''F'', ''FALSE'', ''false'', ''False''} then Some False
      else None)"

definition digit_or_letter :: "char \<Rightarrow> int option" where
  "digit_or_letter c =
     (if is_digit c then Some (int (digit_val c))
      else if is_lower (lower_char c) then Some (int (ord (lower_char c)) - 87)
      else None)"

text \<open>Underscores may only separate digits; the mark is true after a digit or a prefix.\<close>

fun underscores_ok :: "bool \<Rightarrow> bool \<Rightarrow> string \<Rightarrow> bool" where
  "underscores_ok hex after [] = True"
| "underscores_ok hex after (c # s) =
     (if c = CHR ''_'' then after \<and> s \<noteq> [] \<and> (is_digit (hd s) \<or> hex \<and> lower_char (hd s) \<in> set ''abcdef'') \<and> underscores_ok hex False s
      else underscores_ok hex (is_digit c \<or> hex \<and> lower_char c \<in> set ''abcdef'') s)"

fun parse_digits :: "int \<Rightarrow> int \<Rightarrow> string \<Rightarrow> int option" where
  "parse_digits base acc [] = Some acc"
| "parse_digits base acc (c # s) =
     (if c = CHR ''_'' then parse_digits base acc s
      else case digit_or_letter c of
             None \<Rightarrow> None
           | Some d \<Rightarrow> if d \<ge> base then None else parse_digits base (acc * base + d) s)"

text \<open>\<^verbatim>\<open>strconv.ParseUint(s, 0, n)\<close>, below the bound: the prefix tells the base.\<close>

definition parse_uint :: "int \<Rightarrow> string \<Rightarrow> int option" where
  "parse_uint bound s =
     (if s = [] then None
      else
        let two = (length s \<ge> 2 \<and> hd s = CHR ''0'' \<and> lower_char (s ! 1) \<in> set ''box'');
            prefixed = (two \<and> length s \<ge> 3);
            (base, digits) =
              (if hd s \<noteq> CHR ''0'' then (10, s)
               else if prefixed then
                 (if lower_char (s ! 1) = CHR ''b'' then 2 else if lower_char (s ! 1) = CHR ''o'' then 8 else 16, drop 2 s)
               else (8, tl s)) in
        case parse_digits base 0 digits of
          None \<Rightarrow> None
        | Some n \<Rightarrow>
            if n \<ge> bound then None
            else if CHR ''_'' \<in> set digits \<and>
                    \<not> (if two then underscores_ok (lower_char (s ! 1) = CHR ''x'') True (drop 2 s)
                       else underscores_ok False False s)
            then None
            else Some n)"

abbreviation parse_uint32 :: "string \<Rightarrow> int option" where
  "parse_uint32 \<equiv> parse_uint (2 ^ 32)"

text \<open>\<^verbatim>\<open>strconv.ParseInt(s, 0, 64)\<close>.\<close>

definition parse_int64 :: "string \<Rightarrow> int option" where
  "parse_int64 s =
     (case strip_sign s of
        (neg, d) \<Rightarrow>
          (case parse_uint (2 ^ 64) d of
             None \<Rightarrow> None
           | Some n \<Rightarrow> if neg then (if n > 2 ^ 63 then None else Some (- n)) else if n \<ge> 2 ^ 63 then None else Some n))"

lemma parse_digits_of:
  "list_all is_digit s \<Longrightarrow> parse_digits 10 acc s = Some (acc * 10 ^ length s + int (digits_val s))"
proof (induction s arbitrary: acc rule: rev_induct)
  case Nil
  then show ?case by (simp add: digits_val_def)
next
  case (snoc c s)
  have app: "parse_digits 10 acc (s @ [c]) = Option.bind (parse_digits 10 acc s) (\<lambda>a. parse_digits 10 a [c])" for acc
    by (induction s arbitrary: acc) (auto split: option.split)
  from snoc.prems have c: "is_digit c" "list_all is_digit s" by auto
  then have "c \<noteq> CHR ''_''" "digit_val c < 10" by (auto simp: is_digit_def digit_val_def)
  then show ?case
    using c snoc.IH[OF c(2)] by (simp add: app digit_or_letter_def digits_val_snoc)
qed

lemma decimal_digits_hd: "0 < n \<Longrightarrow> hd (digits_of n) \<noteq> CHR ''0'' \<and> digits_of n \<noteq> []"
proof (induction n rule: digits_of.induct)
  case (1 n)
  show ?case
  proof (cases "n < 10")
    case True
    with 1 have "digit_val (digit_char n) \<noteq> digit_val (CHR ''0'')" by (simp add: digit_char_props) (simp add: digit_val_def)
    with True show ?thesis by (subst digits_of.simps, subst (2) digits_of.simps) auto
  next
    case False
    with 1 show ?thesis by (subst digits_of.simps, subst (2) digits_of.simps) auto
  qed
qed

lemma parse_uint_itoa:
  assumes "0 < n" and "n < bound"
  shows "parse_uint bound (itoa n) = Some n"
proof -
  have dec: "itoa n = digits_of (nat n)" using assms(1) by (simp add: itoa_def)
  have "CHR ''_'' \<notin> set (digits_of (nat n))"
    using digits_of_digits[of "nat n"] by (auto simp: all_digits_def list_all_iff is_digit_def)
  then show ?thesis
    using assms decimal_digits_hd[of "nat n"] parse_digits_of[of "digits_of (nat n)" 0] digits_of_digits[of "nat n"]
    by (simp add: parse_uint_def dec Let_def all_digits_def list_all_iff)
qed

lemma parse_int64_itoa:
  assumes "0 \<le> n" and "n < 2 ^ 63"
  shows "parse_int64 (itoa n) = Some n"
proof (cases "n = 0")
  case True
  have "itoa 0 = ''0''" by code_simp
  then show ?thesis using True by (simp add: parse_int64_def strip_sign_def parse_uint_def)
next
  case False
  have "strip_sign (itoa n) = (False, itoa n)"
    using assms(1) by (simp add: itoa_def strip_sign_digits digits_of_digits)
  with parse_uint_itoa[of n "2 ^ 64"] assms False show ?thesis by (simp add: parse_int64_def)
qed

subsection \<open>Package flag\<close>

text \<open>
  A flag set maps a name to its kind: a boolean flag may stand alone, any other takes a value. Setting a
  flag changes the variables \<open>'s\<close> of the program or fails. Parsing stops at the first argument that is
  not a flag or after a double dash.
\<close>

datatype 's flag = BoolFlag "bool \<Rightarrow> 's \<Rightarrow> 's" | ValueFlag "string \<Rightarrow> 's \<Rightarrow> 's option"

definition split_flag :: "string \<Rightarrow> string \<times> string option" where
  "split_flag name = (case name of
     [] \<Rightarrow> ([], None)
   | c # rest \<Rightarrow>
       let pre = takeWhile (\<lambda>x. x \<noteq> CHR ''='') rest; post = dropWhile (\<lambda>x. x \<noteq> CHR ''='') rest in
       if post = [] then (name, None) else (c # pre, Some (tl post)))"

definition invalid_flag :: "string \<Rightarrow> string \<Rightarrow> error" where
  "invalid_flag value name = ''invalid value '' @ go_quote value @ '' for flag -'' @ name"

text \<open>One flag with its value; \<open>rest\<close> are the arguments after it.\<close>

definition set_flag :: "(string \<Rightarrow> 's flag option) \<Rightarrow> string \<Rightarrow> string list \<Rightarrow> 's \<Rightarrow> ('s \<times> string list) result" where
  "set_flag flags name rest s =
     (case split_flag name of
        (n, value) \<Rightarrow>
          (case flags n of
             None \<Rightarrow> err (if n = ''help'' \<or> n = ''h'' then ''flag: help requested'' else ''flag provided but not defined: -'' @ n)
           | Some (BoolFlag f) \<Rightarrow>
               (case value of
                  None \<Rightarrow> ok (f True s, rest)
                | Some v \<Rightarrow> (case parse_bool v of
                     None \<Rightarrow> err (''invalid boolean value '' @ go_quote v @ '' for -'' @ n) | Some b \<Rightarrow> ok (f b s, rest)))
           | Some (ValueFlag f) \<Rightarrow>
               (case (value, rest) of
                  (Some v, _) \<Rightarrow> (case f v s of None \<Rightarrow> err (invalid_flag v n) | Some s \<Rightarrow> ok (s, rest))
                | (None, v # rest) \<Rightarrow> (case f v s of None \<Rightarrow> err (invalid_flag v n) | Some s \<Rightarrow> ok (s, rest))
                | (None, []) \<Rightarrow> err (''flag needs an argument: -'' @ n))))"

lemma set_flag_shorter: "set_flag flags name rest s = Inr (s', rest') \<Longrightarrow> length rest' \<le> length rest"
  by (auto simp: set_flag_def split: prod.splits option.splits flag.splits list.splits if_splits)

function flag_parse :: "(string \<Rightarrow> 's flag option) \<Rightarrow> 's \<Rightarrow> string list \<Rightarrow> ('s \<times> string list) result" where
  "flag_parse flags s [] = ok (s, [])"
| "flag_parse flags s (a # rest) =
     (if length a < 2 \<or> hd a \<noteq> CHR ''-'' then ok (s, a # rest)
      else if a = ''--'' then ok (s, rest)
      else
        let name = (if a ! 1 = CHR ''-'' then drop 2 a else drop 1 a) in
        if name = [] \<or> hd name = CHR ''-'' \<or> hd name = CHR ''='' then err (''bad flag syntax: '' @ a)
        else (case set_flag flags name rest s of
                Inl e \<Rightarrow> err e
              | Inr (s, rest) \<Rightarrow> flag_parse flags s rest))"
  by pat_completeness auto
termination
  by (relation "measure (\<lambda>(_, _, args). length args)") (auto dest: set_flag_shorter)

lemma flag_parse_stop: "flag_parse flags s (''--'' # rest) = Inr (s, rest)"
  by simp

text \<open>A flag with two dashes and its value in the next argument.\<close>

lemma flag_parse_value:
  assumes "flags name = Some (ValueFlag f)" and "f v s = Some s'" and "name \<noteq> []" and "hd name \<noteq> CHR ''-''"
    and "CHR ''='' \<notin> set name"
  shows "flag_parse flags s ((CHR ''-'' # CHR ''-'' # name) # v # rest) = flag_parse flags s' rest"
proof -
  from assms(3,5) have "split_flag name = (name, None)"
    by (cases name) (auto simp: split_flag_def Let_def)
  with assms show ?thesis by (cases name) (auto simp: set_flag_def)
qed

lemma flag_parse_bool:
  assumes "flags name = Some (BoolFlag f)" and "name \<noteq> []" and "hd name \<noteq> CHR ''-''" and "CHR ''='' \<notin> set name"
  shows "flag_parse flags s ((CHR ''-'' # CHR ''-'' # name) # rest) = flag_parse flags (f True s) rest"
proof -
  from assms(2,4) have "split_flag name = (name, None)"
    by (cases name) (auto simp: split_flag_def Let_def)
  with assms show ?thesis by (cases name) (auto simp: set_flag_def)
qed

end
