(* ===== verification/Cli_Load.thy ===== *)
theory Cli_Load
  imports Cli_Config Go_Flag
begin

section \<open>Loading the configuration: config\_file.go, effective\_config.go, mounts.go\<close>

text \<open>
  Mount specifications, the search for the configuration file, and the effective configuration.
  The files of the host do not change meanwhile; they are the parameter \<open>fs\<close>. The error of a failed
  look-up has a mark for a file that does not exist.
\<close>

record cli_files =
  fs_Getwd :: "string result"
  fs_Stat :: "string \<Rightarrow> bool \<times> error + FileInfo"
  fs_Lstat :: "string \<Rightarrow> bool \<times> error + bool"
  fs_Readlink :: "string \<Rightarrow> string result"
  fs_EvalSymlinks :: "string \<Rightarrow> string result"
  fs_ReadDir :: "string \<Rightarrow> (string \<times> bool) list result"
  fs_ReadFile :: "string \<Rightarrow> string result"

subsection \<open>Mounts: mounts.go\<close>

definition toBBoxMount :: "cliMountConfig \<Rightarrow> Mount result" where
  "toBBoxMount m =
     (let mountType = to_lower (trim_space (cm_Type m));
          target = trim_space (cm_Target m);
          source = trim_space (cm_Source m) in
      if mountType = ''bind'' then
        (if target = [] then err ''bind mount target is required''
         else if source = [] then err ''bind mount source is required''
         else if \<not> is_rooted target then err (''bind mount target '' @ go_quote target @ '' must be absolute'')
         else if \<not> is_rooted source then err (''bind mount source '' @ go_quote source @ '' must be absolute'')
         else if cm_Mode m \<noteq> 0 then err ''bind mount mode is not supported''
         else ok \<lparr>mt_Type = ''bind'', mt_Source = path_clean source, mt_Target = path_clean target,
                  mt_ReadOnly = cm_ReadOnly m, mt_Mode = 0\<rparr>)
      else if mountType = ''empty_dir'' then
        (if target = [] then err ''empty_dir mount target is required''
         else if source \<noteq> [] then err ''empty_dir mount must not set source''
         else if \<not> is_rooted target then err (''empty_dir mount target '' @ go_quote target @ '' must be absolute'')
         else ok \<lparr>mt_Type = ''empty_dir'', mt_Source = [], mt_Target = path_clean target, mt_ReadOnly = False,
                  mt_Mode = (if cm_Mode m = 0 then 493 else cm_Mode m)\<rparr>)
      else err (''unknown mount type '' @ go_quote (cm_Type m)))"

definition zeroMountConfig :: cliMountConfig where
  "zeroMountConfig = \<lparr>cm_Type = [], cm_Source = [], cm_Target = [], cm_ReadOnly = False, cm_Mode = 0\<rparr>"

definition parseMountField :: "string \<Rightarrow> cliMountConfig \<Rightarrow> string \<Rightarrow> cliMountConfig result" where
  "parseMountField spec cfg part0 =
     (let part = trim_space part0 in
      if part = [] then ok cfg
      else if part = ''read-only'' then ok (cfg\<lparr>cm_ReadOnly := True\<rparr>)
      else case str_cut CHR ''='' part of
             None \<Rightarrow> err (''invalid mount field '' @ go_quote part @ '' in '' @ go_quote spec @ '', want key=value'')
           | Some (k, v) \<Rightarrow>
               let key = replace_char CHR ''-'' CHR ''_'' (to_lower (trim_space k)); value = trim_space v in
               if key = ''type'' then ok (cfg\<lparr>cm_Type := value\<rparr>)
               else if key = ''source'' then ok (cfg\<lparr>cm_Source := value\<rparr>)
               else if key = ''target'' then ok (cfg\<lparr>cm_Target := value\<rparr>)
               else if key = ''read_only'' then
                 (case parse_bool value of
                    None \<Rightarrow> err (''invalid read_only value '' @ go_quote value @ '' in '' @ go_quote spec)
                  | Some b \<Rightarrow> ok (cfg\<lparr>cm_ReadOnly := b\<rparr>))
               else if key = ''mode'' then
                 (case parse_uint32 value of
                    None \<Rightarrow> err (''invalid mode value '' @ go_quote value @ '' in '' @ go_quote spec)
                  | Some n \<Rightarrow> ok (cfg\<lparr>cm_Mode := n\<rparr>))
               else err (''unknown mount key '' @ go_quote key @ '' in '' @ go_quote spec))"

fun parseMountFields :: "string \<Rightarrow> cliMountConfig \<Rightarrow> string list \<Rightarrow> cliMountConfig result" where
  "parseMountFields spec cfg [] = ok cfg"
| "parseMountFields spec cfg (part # parts) =
     res_bind (parseMountField spec cfg part) (\<lambda>cfg. parseMountFields spec cfg parts)"

definition parseCLIMountSpec :: "string \<Rightarrow> Mount result" where
  "parseCLIMountSpec spec =
     res_bind (parseMountFields spec zeroMountConfig (split_on CHR '','' spec)) toBBoxMount"

definition toCLIMountConfig :: "Mount \<Rightarrow> cliMountConfig" where
  "toCLIMountConfig m = \<lparr>cm_Type = mt_Type m, cm_Source = mt_Source m, cm_Target = mt_Target m,
     cm_ReadOnly = mt_ReadOnly m, cm_Mode = mt_Mode m\<rparr>"

definition resolveConfigPath :: "string \<Rightarrow> string \<Rightarrow> string" where
  "resolveConfigPath value0 baseDir =
     (let value = trim_space value0 in
      if value = [] \<or> is_rooted value then value else path_clean (path_join [baseDir, value]))"

definition resolveConfigMount :: "cliMountConfig \<Rightarrow> string \<Rightarrow> cliMountConfig" where
  "resolveConfigMount m baseDir =
     (let resolved = (if equal_fold (trim_space (cm_Type m)) ''bind''
                      then m\<lparr>cm_Source := resolveConfigPath (cm_Source m) baseDir\<rparr> else m) in
      resolved\<lparr>cm_Target := resolveConfigPath (cm_Target m) baseDir\<rparr>)"

subsection \<open>Configuration files: config\_file.go\<close>

definition resolveDockerBuildPaths :: "cliDockerBuildConfig \<Rightarrow> string \<Rightarrow> cliDockerBuildConfig" where
  "resolveDockerBuildPaths c dir = c\<lparr>
     ci_BuildkitdPath := over (ci_hasBuildkitd c) (resolveConfigPath (ci_BuildkitdPath c) dir) (ci_BuildkitdPath c),
     ci_BuildctlPath := over (ci_hasBuildctl c) (resolveConfigPath (ci_BuildctlPath c) dir) (ci_BuildctlPath c),
     ci_RuncPath := over (ci_hasRunc c) (resolveConfigPath (ci_RuncPath c) dir) (ci_RuncPath c),
     ci_PodmanPath := over (ci_hasPodman c) (resolveConfigPath (ci_PodmanPath c) dir) (ci_PodmanPath c),
     ci_NewuidmapPath := over (ci_hasNewuidmap c) (resolveConfigPath (ci_NewuidmapPath c) dir) (ci_NewuidmapPath c),
     ci_NewgidmapPath := over (ci_hasNewgidmap c) (resolveConfigPath (ci_NewgidmapPath c) dir) (ci_NewgidmapPath c)\<rparr>"

definition resolveCLIFileConfigPaths :: "cliFileConfig \<Rightarrow> string \<Rightarrow> cliFileConfig" where
  "resolveCLIFileConfigPaths c dir = c\<lparr>
     cf_WorkDir := over (cf_hasWorkDir c) (resolveConfigPath (cf_WorkDir c) dir) (cf_WorkDir c),
     cf_Mounts := over (cf_hasMounts c) (map (\<lambda>m. resolveConfigMount m dir) (cf_Mounts c)) (cf_Mounts c),
     cf_DockerBuild := resolveDockerBuildPaths (cf_DockerBuild c) dir\<rparr>"

text \<open>What the YAML decoder makes of a file: nothing, an error, or a document and whether another follows.\<close>

datatype yaml_result = YamlEmpty | YamlError error | YamlDocument rawCLIFileConfig bool

definition loadCLIFileConfig :: "cli_files \<Rightarrow> (string \<Rightarrow> yaml_result) \<Rightarrow> string \<Rightarrow> cliFileConfig result" where
  "loadCLIFileConfig fs yaml path =
     (case fs_ReadFile fs path of
        Inl e \<Rightarrow> err (''read config file '' @ go_quote path @ '': '' @ e)
      | Inr content \<Rightarrow>
          (case yaml content of
             YamlEmpty \<Rightarrow> ok zeroFileConfig
           | YamlError e \<Rightarrow> err (''decode config file '' @ go_quote path @ '': '' @ e)
           | YamlDocument raw another \<Rightarrow>
               if another then err (''decode config file '' @ go_quote path @ '': multiple YAML documents are not supported'')
               else ok (resolveCLIFileConfigPaths (toCLIFileConfig raw) (filepath_Dir path))))"

definition absPath :: "cli_files \<Rightarrow> string \<Rightarrow> string result" where
  "absPath fs p = (if is_rooted p then ok (path_clean p) else res_bind (fs_Getwd fs) (\<lambda>wd. ok (path_join [wd, p])))"

text \<open>
  One directory of the search: the file or an error, or \<open>None\<close> to go on. The search goes up until a
  directory is its own parent; \<open>None\<close> is a search that does not end.
\<close>

definition configAt :: "cli_files \<Rightarrow> string \<Rightarrow> string result option" where
  "configAt fs current =
     (let candidate = path_join [current, ''bbox.yaml''] in
      case fs_Stat fs candidate of
        Inr info \<Rightarrow> if \<not> fi_IsDir info then Some (ok candidate) else None
      | Inl (notExist, e) \<Rightarrow>
          if \<not> notExist then Some (err (''stat config file '' @ go_quote candidate @ '': '' @ e)) else None)"

partial_function (option) findConfigLoop :: "cli_files \<Rightarrow> string \<Rightarrow> string result option" where
  "findConfigLoop fs current =
     (case configAt fs current of
        Some r \<Rightarrow> Some r
      | None \<Rightarrow> if filepath_Dir current = current then Some (ok []) else findConfigLoop fs (filepath_Dir current))"

definition findConfigFile :: "cli_files \<Rightarrow> string \<Rightarrow> string result option" where
  "findConfigFile fs startDir =
     (case absPath fs startDir of
        Inl e \<Rightarrow> Some (err (''resolve config search directory '' @ go_quote startDir @ '': '' @ e))
      | Inr current \<Rightarrow> findConfigLoop fs current)"

subsection \<open>The effective configuration: effective\_config.go\<close>

record cliOptions =
  co_configPath :: string
  co_name :: string
  co_workDir :: string
  co_binaries :: "string list"
  co_mounts :: "string list"
  co_env :: "string list"
  co_copyEnv :: "string list"
  co_copyEnvSet :: bool
  co_maxRequestBodyBytes :: int
  co_maxBodySizeSet :: bool
  co_printPolicy :: bool
  co_flagOverrides :: cliFlagOverrides

record ReportingOptions =
  rp_PolicyViolations :: bool
  rp_AccessSummary :: bool
  rp_RequestSummary :: bool

record effectiveCLIConfig =
  ec_Name :: string
  ec_WorkDir :: string
  ec_Binaries :: "string list"
  ec_Mounts :: "cliMountConfig list"
  ec_Env :: "string list"
  ec_CopyEnv :: "string list"
  ec_TrafficMode :: string
  ec_PolicyMode :: string
  ec_MaxRequestBodyBytes :: int
  ec_Policy :: cliPolicyConfig
  ec_Reporting :: ReportingOptions
  ec_AccessLog :: string
  ec_DockerBuild :: cliDockerBuildConfig
  ec_DockerSocket :: cliDockerSocketConfig

definition absPathFromCWD :: "cli_files \<Rightarrow> string \<Rightarrow> string \<Rightarrow> string result" where
  "absPathFromCWD fs path cwd =
     (if is_rooted path then ok (path_clean path)
      else res_bind (if trim_space cwd = [] then fs_Getwd fs else ok cwd) (\<lambda>base. ok (path_clean (path_join [base, path]))))"

definition loadSelectedCLIFileConfig ::
  "cli_files \<Rightarrow> (string \<Rightarrow> yaml_result) \<Rightarrow> string \<Rightarrow> string \<Rightarrow> cliFileConfig result option" where
  "loadSelectedCLIFileConfig fs yaml configPath0 absCWD =
     (let configPath = trim_space configPath0 in
      if configPath \<noteq> [] then
        Some (res_bind (map_error (\<lambda>e. ''resolve config file '' @ go_quote configPath @ '': '' @ e) (absPathFromCWD fs configPath absCWD))
          (loadCLIFileConfig fs yaml))
      else map_option (\<lambda>found. res_bind found (\<lambda>path. if path = [] then ok zeroFileConfig else loadCLIFileConfig fs yaml path))
             (findConfigFile fs absCWD))"

definition buildRuntimeCLIConfigLayer :: "cliOptions \<Rightarrow> cliFileConfig result" where
  "buildRuntimeCLIConfigLayer opts =
     (let c = zeroFileConfig;
          c = (if trim_space (co_name opts) \<noteq> [] then c\<lparr>cf_Name := co_name opts, cf_hasName := True\<rparr> else c);
          c = (if trim_space (co_workDir opts) \<noteq> [] then c\<lparr>cf_WorkDir := co_workDir opts, cf_hasWorkDir := True\<rparr> else c);
          c = (if co_binaries opts \<noteq> [] then c\<lparr>cf_Bin := co_binaries opts, cf_hasBin := True\<rparr> else c) in
      res_bind (if co_mounts opts \<noteq> []
                then res_bind (map_result parseCLIMountSpec (co_mounts opts)) (\<lambda>mounts.
                       ok (c\<lparr>cf_Mounts := map toCLIMountConfig mounts, cf_hasMounts := True\<rparr>))
                else ok c) (\<lambda>c.
      let c = (if co_env opts \<noteq> [] then c\<lparr>cf_Env := co_env opts, cf_hasEnv := True\<rparr> else c);
          c = (if co_copyEnvSet opts then c\<lparr>cf_CopyEnv := co_copyEnv opts, cf_hasCopyEnv := True\<rparr> else c);
          c = (if co_maxBodySizeSet opts
               then c\<lparr>cf_MaxRequestBodyBytes := co_maxRequestBodyBytes opts, cf_hasMaxRequestBodyBytes := True\<rparr> else c) in
      ok c))"

definition toEffectiveCLIConfig :: "cliFileConfig \<Rightarrow> string \<Rightarrow> effectiveCLIConfig" where
  "toEffectiveCLIConfig c absCWD =
     (let workDir = trim_space (cf_WorkDir c) in
      \<lparr>ec_Name = cf_Name c,
       ec_WorkDir = (if workDir = [] then absCWD else if \<not> is_rooted workDir then path_join [absCWD, workDir] else workDir),
       ec_Binaries = cf_Bin c, ec_Mounts = cf_Mounts c, ec_Env = cf_Env c, ec_CopyEnv = cf_CopyEnv c,
       ec_TrafficMode = cf_TrafficMode c, ec_PolicyMode = cf_PolicyMode c,
       ec_MaxRequestBodyBytes = cf_MaxRequestBodyBytes c, ec_Policy = cf_Policy c,
       ec_Reporting = \<lparr>rp_PolicyViolations = cf_ReportPolicyViolations c, rp_AccessSummary = cf_ReportAccessSummary c,
                       rp_RequestSummary = cf_ReportRequestSummary c\<rparr>,
       ec_AccessLog = cf_AccessLog c, ec_DockerBuild = cf_DockerBuild c, ec_DockerSocket = cf_DockerSocket c\<rparr>)"

definition cliDefaults :: cliFileConfig where
  "cliDefaults = defaultCLIFileConfig\<lparr>cf_MaxRequestBodyBytes := 65536, cf_hasMaxRequestBodyBytes := True\<rparr>"

definition loadEffectiveCLIConfig ::
  "cli_files \<Rightarrow> (string \<Rightarrow> yaml_result) \<Rightarrow> cliOptions \<Rightarrow> string \<Rightarrow> effectiveCLIConfig result option" where
  "loadEffectiveCLIConfig fs yaml opts absCWD =
     map_option (\<lambda>loaded.
       res_bind loaded (\<lambda>fileCfg.
       res_bind (buildRuntimeCLIConfigLayer opts) (\<lambda>runtimeLayer.
       ok (toEffectiveCLIConfig
             (mergeCLIConfigLayer (mergeCLIConfig cliDefaults fileCfg (co_flagOverrides opts)) runtimeLayer) absCWD))))
       (loadSelectedCLIFileConfig fs yaml (co_configPath opts) absCWD)"

end
