(* ===== verification/Cli_Layers.thy ===== *)
theory Cli_Layers
  imports Cli_Load
begin

section \<open>Configuration layers and the search for the file\<close>

text \<open>
  Merging is the override of partial maps from settings to values, so that the effective
  configuration is determined by the last layer that has a setting. The search for the
  configuration file ends and finds the nearest one. Mount specifications can be written and read
  back.
\<close>

subsection \<open>Settings\<close>

datatype setting =
    SName | SWorkDir | SBin | SMounts | SEnv | SCopyEnv | STrafficMode | SPolicyMode | SMaxBody | SAccessLog
  | SReportPolicy | SReportAccess | SReportRequest | SRules
  | SSocketEnabled | SSocketMount | SSocketTarget | SSocketDefault | SSocketRules
  | SBuildEnabled | SBuildkitd | SBuildctl | SRunc | SPodman | SNewuidmap | SNewgidmap

datatype setting_value =
    VText string
  | VTexts "string list"
  | VBool bool
  | VInt int
  | VMounts "cliMountConfig list"
  | VRules "PolicyRule list"
  | VSocketRules "cliDockerSocketRuleConfig list"

fun marked :: "cliFileConfig \<Rightarrow> setting \<Rightarrow> bool" where
  "marked c SName = cf_hasName c"
| "marked c SWorkDir = cf_hasWorkDir c"
| "marked c SBin = cf_hasBin c"
| "marked c SMounts = cf_hasMounts c"
| "marked c SEnv = cf_hasEnv c"
| "marked c SCopyEnv = cf_hasCopyEnv c"
| "marked c STrafficMode = cf_hasTrafficMode c"
| "marked c SPolicyMode = cf_hasPolicyMode c"
| "marked c SMaxBody = cf_hasMaxRequestBodyBytes c"
| "marked c SAccessLog = cf_hasAccessLog c"
| "marked c SReportPolicy = cf_hasReportPolicyViolations c"
| "marked c SReportAccess = cf_hasReportAccessSummary c"
| "marked c SReportRequest = cf_hasReportRequestSummary c"
| "marked c SRules = cp_hasRules (cf_Policy c)"
| "marked c SSocketEnabled = cs_hasEnabled (cf_DockerSocket c)"
| "marked c SSocketMount = cs_hasMountPath (cf_DockerSocket c)"
| "marked c SSocketTarget = cs_hasTargetPath (cf_DockerSocket c)"
| "marked c SSocketDefault = cs_hasDefaultAction (cf_DockerSocket c)"
| "marked c SSocketRules = cs_hasRules (cf_DockerSocket c)"
| "marked c SBuildEnabled = ci_hasEnabled (cf_DockerBuild c)"
| "marked c SBuildkitd = ci_hasBuildkitd (cf_DockerBuild c)"
| "marked c SBuildctl = ci_hasBuildctl (cf_DockerBuild c)"
| "marked c SRunc = ci_hasRunc (cf_DockerBuild c)"
| "marked c SPodman = ci_hasPodman (cf_DockerBuild c)"
| "marked c SNewuidmap = ci_hasNewuidmap (cf_DockerBuild c)"
| "marked c SNewgidmap = ci_hasNewgidmap (cf_DockerBuild c)"

fun value_of :: "cliFileConfig \<Rightarrow> setting \<Rightarrow> setting_value" where
  "value_of c SName = VText (cf_Name c)"
| "value_of c SWorkDir = VText (cf_WorkDir c)"
| "value_of c SBin = VTexts (cf_Bin c)"
| "value_of c SMounts = VMounts (cf_Mounts c)"
| "value_of c SEnv = VTexts (cf_Env c)"
| "value_of c SCopyEnv = VTexts (cf_CopyEnv c)"
| "value_of c STrafficMode = VText (cf_TrafficMode c)"
| "value_of c SPolicyMode = VText (cf_PolicyMode c)"
| "value_of c SMaxBody = VInt (cf_MaxRequestBodyBytes c)"
| "value_of c SAccessLog = VText (cf_AccessLog c)"
| "value_of c SReportPolicy = VBool (cf_ReportPolicyViolations c)"
| "value_of c SReportAccess = VBool (cf_ReportAccessSummary c)"
| "value_of c SReportRequest = VBool (cf_ReportRequestSummary c)"
| "value_of c SRules = VRules (cp_Rules (cf_Policy c))"
| "value_of c SSocketEnabled = VBool (cs_Enabled (cf_DockerSocket c))"
| "value_of c SSocketMount = VText (cs_MountPath (cf_DockerSocket c))"
| "value_of c SSocketTarget = VText (cs_TargetSocketPath (cf_DockerSocket c))"
| "value_of c SSocketDefault = VText (cs_DefaultAction (cf_DockerSocket c))"
| "value_of c SSocketRules = VSocketRules (cs_Rules (cf_DockerSocket c))"
| "value_of c SBuildEnabled = VBool (ci_Enabled (cf_DockerBuild c))"
| "value_of c SBuildkitd = VText (ci_BuildkitdPath (cf_DockerBuild c))"
| "value_of c SBuildctl = VText (ci_BuildctlPath (cf_DockerBuild c))"
| "value_of c SRunc = VText (ci_RuncPath (cf_DockerBuild c))"
| "value_of c SPodman = VText (ci_PodmanPath (cf_DockerBuild c))"
| "value_of c SNewuidmap = VText (ci_NewuidmapPath (cf_DockerBuild c))"
| "value_of c SNewgidmap = VText (ci_NewgidmapPath (cf_DockerBuild c))"

fun effective_value :: "effectiveCLIConfig \<Rightarrow> setting \<Rightarrow> setting_value" where
  "effective_value e SName = VText (ec_Name e)"
| "effective_value e SWorkDir = VText (ec_WorkDir e)"
| "effective_value e SBin = VTexts (ec_Binaries e)"
| "effective_value e SMounts = VMounts (ec_Mounts e)"
| "effective_value e SEnv = VTexts (ec_Env e)"
| "effective_value e SCopyEnv = VTexts (ec_CopyEnv e)"
| "effective_value e STrafficMode = VText (ec_TrafficMode e)"
| "effective_value e SPolicyMode = VText (ec_PolicyMode e)"
| "effective_value e SMaxBody = VInt (ec_MaxRequestBodyBytes e)"
| "effective_value e SAccessLog = VText (ec_AccessLog e)"
| "effective_value e SReportPolicy = VBool (rp_PolicyViolations (ec_Reporting e))"
| "effective_value e SReportAccess = VBool (rp_AccessSummary (ec_Reporting e))"
| "effective_value e SReportRequest = VBool (rp_RequestSummary (ec_Reporting e))"
| "effective_value e SRules = VRules (cp_Rules (ec_Policy e))"
| "effective_value e SSocketEnabled = VBool (cs_Enabled (ec_DockerSocket e))"
| "effective_value e SSocketMount = VText (cs_MountPath (ec_DockerSocket e))"
| "effective_value e SSocketTarget = VText (cs_TargetSocketPath (ec_DockerSocket e))"
| "effective_value e SSocketDefault = VText (cs_DefaultAction (ec_DockerSocket e))"
| "effective_value e SSocketRules = VSocketRules (cs_Rules (ec_DockerSocket e))"
| "effective_value e SBuildEnabled = VBool (ci_Enabled (ec_DockerBuild e))"
| "effective_value e SBuildkitd = VText (ci_BuildkitdPath (ec_DockerBuild e))"
| "effective_value e SBuildctl = VText (ci_BuildctlPath (ec_DockerBuild e))"
| "effective_value e SRunc = VText (ci_RuncPath (ec_DockerBuild e))"
| "effective_value e SPodman = VText (ci_PodmanPath (ec_DockerBuild e))"
| "effective_value e SNewuidmap = VText (ci_NewuidmapPath (ec_DockerBuild e))"
| "effective_value e SNewgidmap = VText (ci_NewgidmapPath (ec_DockerBuild e))"

fun flag_layer :: "cliFlagOverrides \<Rightarrow> setting \<rightharpoonup> setting_value" where
  "flag_layer f STrafficMode = map_option VText (fo_TrafficMode f)"
| "flag_layer f SPolicyMode = map_option VText (fo_PolicyMode f)"
| "flag_layer f SReportPolicy = map_option VBool (fo_ReportPolicy f)"
| "flag_layer f SReportAccess = map_option VBool (fo_ReportAccessSummary f)"
| "flag_layer f SReportRequest = map_option VBool (fo_ReportRequestSummary f)"
| "flag_layer f SAccessLog = map_option VText (fo_AccessLog f)"
| "flag_layer f _ = None"

definition layer :: "cliFileConfig \<Rightarrow> setting \<rightharpoonup> setting_value" where
  "layer c k = (if marked c k then Some (value_of c k) else None)"

text \<open>A layer without stray values: a setting that is not marked is zero.\<close>

definition tidy :: "cliFileConfig \<Rightarrow> bool" where
  "tidy c \<longleftrightarrow> (\<forall>k. \<not> marked c k \<longrightarrow> value_of c k = value_of zeroFileConfig k)"

text \<open>The settings of a file, with paths made relative to the file's directory.\<close>

definition raw_path :: "string \<Rightarrow> string option \<Rightarrow> setting_value option" where
  "raw_path dir p = map_option (\<lambda>s. VText (resolveConfigPath s dir)) p"

fun raw_layer :: "string \<Rightarrow> rawCLIFileConfig \<Rightarrow> setting \<rightharpoonup> setting_value" where
  "raw_layer dir r SName = map_option VText (rf_Name r)"
| "raw_layer dir r SWorkDir = raw_path dir (rf_WorkDir r)"
| "raw_layer dir r SBin = map_option VTexts (rf_Bin r)"
| "raw_layer dir r SMounts = map_option (\<lambda>ms. VMounts (map (\<lambda>m. resolveConfigMount m dir) ms)) (rf_Mounts r)"
| "raw_layer dir r SEnv = map_option VTexts (rf_Env r)"
| "raw_layer dir r SCopyEnv = map_option VTexts (rf_CopyEnv r)"
| "raw_layer dir r STrafficMode = map_option VText (rf_TrafficMode r)"
| "raw_layer dir r SPolicyMode = map_option VText (rf_PolicyMode r)"
| "raw_layer dir r SMaxBody = map_option VInt (rf_MaxRequestBodyBytes r)"
| "raw_layer dir r SAccessLog = map_option VText (rf_AccessLog r)"
| "raw_layer dir r SReportPolicy = map_option VBool (rf_ReportPolicyViolations r)"
| "raw_layer dir r SReportAccess = map_option VBool (rf_ReportAccessSummary r)"
| "raw_layer dir r SReportRequest = map_option VBool (rf_ReportRequestSummary r)"
| "raw_layer dir r SRules = Option.bind (rf_Policy r) (map_option VRules)"
| "raw_layer dir r SSocketEnabled = Option.bind (rf_DockerSocket r) (\<lambda>d. map_option VBool (rs_Enabled d))"
| "raw_layer dir r SSocketMount = Option.bind (rf_DockerSocket r) (\<lambda>d. map_option VText (rs_MountPath d))"
| "raw_layer dir r SSocketTarget = Option.bind (rf_DockerSocket r) (\<lambda>d. map_option VText (rs_TargetSocketPath d))"
| "raw_layer dir r SSocketDefault = Option.bind (rf_DockerSocket r) (\<lambda>d. map_option VText (rs_DefaultAction d))"
| "raw_layer dir r SSocketRules =
     Option.bind (rf_DockerSocket r) (\<lambda>d. map_option (\<lambda>rs. VSocketRules (toCLIDockerSocketRules rs)) (rs_Rules d))"
| "raw_layer dir r SBuildEnabled = Option.bind (rf_DockerBuild r) (\<lambda>d. map_option VBool (ri_Enabled d))"
| "raw_layer dir r SBuildkitd = Option.bind (rf_DockerBuild r) (\<lambda>d. raw_path dir (ri_BuildkitdPath d))"
| "raw_layer dir r SBuildctl = Option.bind (rf_DockerBuild r) (\<lambda>d. raw_path dir (ri_BuildctlPath d))"
| "raw_layer dir r SRunc = Option.bind (rf_DockerBuild r) (\<lambda>d. raw_path dir (ri_RuncPath d))"
| "raw_layer dir r SPodman = Option.bind (rf_DockerBuild r) (\<lambda>d. raw_path dir (ri_PodmanPath d))"
| "raw_layer dir r SNewuidmap = Option.bind (rf_DockerBuild r) (\<lambda>d. raw_path dir (ri_NewuidmapPath d))"
| "raw_layer dir r SNewgidmap = Option.bind (rf_DockerBuild r) (\<lambda>d. raw_path dir (ri_NewgidmapPath d))"

lemmas merge_defs = mergeCLIConfigLayer_def mergePolicy_def mergeDockerSocket_def mergeDockerBuild_def over_def
lemmas zero_defs = zeroFileConfig_def zeroPolicyConfig_def zeroDockerSocketConfig_def zeroDockerBuildConfig_def

lemma marked_merge: "marked (mergeCLIConfigLayer b v) k \<longleftrightarrow> marked b k \<or> marked v k"
  by (cases k) (simp_all add: merge_defs)

lemma value_merge: "value_of (mergeCLIConfigLayer b v) k = (if marked v k then value_of v k else value_of b k)"
  by (cases k) (simp_all add: merge_defs)

lemma layer_merge: "layer (mergeCLIConfigLayer b v) = layer b ++ layer v"
  by (rule ext) (simp add: layer_def marked_merge value_merge map_add_def)

lemma tidy_merge: "tidy b \<Longrightarrow> tidy v \<Longrightarrow> tidy (mergeCLIConfigLayer b v)"
  by (simp add: tidy_def marked_merge value_merge)

lemma tidy_zero: "tidy zeroFileConfig"
  by (simp add: tidy_def)

lemma layer_zero: "layer zeroFileConfig = Map.empty"
proof
  show "layer zeroFileConfig k = None" for k by (cases k) (simp_all add: layer_def zero_defs)
qed

lemma flags_merge:
  "marked (mergeCLIConfig d f fl) k \<longleftrightarrow> marked (mergeCLIConfigLayer d f) k \<or> flag_layer fl k \<noteq> None"
  "value_of (mergeCLIConfig d f fl) k =
     (case flag_layer fl k of Some v \<Rightarrow> v | None \<Rightarrow> value_of (mergeCLIConfigLayer d f) k)"
proof -
  define m where "m = mergeCLIConfigLayer d f"
  show "marked (mergeCLIConfig d f fl) k \<longleftrightarrow> marked m k \<or> flag_layer fl k \<noteq> None"
    unfolding mergeCLIConfig_def m_def[symmetric] by (cases k) (simp_all add: Let_def split: option.split)
  show "value_of (mergeCLIConfig d f fl) k = (case flag_layer fl k of Some v \<Rightarrow> v | None \<Rightarrow> value_of m k)"
    unfolding mergeCLIConfig_def m_def[symmetric] by (cases k) (simp_all add: Let_def split: option.split)
qed

lemma layer_flags: "layer (mergeCLIConfig d f fl) = layer d ++ layer f ++ flag_layer fl"
  by (rule ext) (auto simp: layer_def flags_merge marked_merge value_merge map_add_def split: option.split)

lemma tidy_flags: "tidy d \<Longrightarrow> tidy f \<Longrightarrow> tidy (mergeCLIConfig d f fl)"
  using tidy_merge[of d f] by (auto simp: tidy_def flags_merge split: option.split)

lemma file_marked:
  "marked (resolveCLIFileConfigPaths (toCLIFileConfig r) dir) k \<longleftrightarrow> raw_layer dir r k \<noteq> None"
  by (cases k) (simp_all add: resolveCLIFileConfigPaths_def resolveDockerBuildPaths_def toCLIFileConfig_def toPolicyConfig_def
      toDockerSocketConfig_def toDockerBuildConfig_def raw_path_def zero_defs split: option.split)

lemma file_value:
  "value_of (resolveCLIFileConfigPaths (toCLIFileConfig r) dir) k =
     (case raw_layer dir r k of Some v \<Rightarrow> v | None \<Rightarrow> value_of zeroFileConfig k)"
  by (cases k) (simp_all add: resolveCLIFileConfigPaths_def resolveDockerBuildPaths_def toCLIFileConfig_def toPolicyConfig_def
      toDockerSocketConfig_def toDockerBuildConfig_def toCLIDockerSocketRules_def raw_path_def over_def deref_def zero_defs
      split: option.split)

lemma file_layer:
  "layer (resolveCLIFileConfigPaths (toCLIFileConfig r) dir) = raw_layer dir r"
  "tidy (resolveCLIFileConfigPaths (toCLIFileConfig r) dir)"
  by (auto simp: fun_eq_iff layer_def tidy_def file_marked file_value split: option.split)

lemma tidy_loaded: "loadCLIFileConfig fs yaml path = Inr c \<Longrightarrow> tidy c"
  by (auto simp: loadCLIFileConfig_def tidy_zero file_layer split: sum.splits yaml_result.splits if_splits)

lemma tidy_selected: "loadSelectedCLIFileConfig fs yaml p cwd = Some (Inr c) \<Longrightarrow> tidy c"
  by (auto simp: loadSelectedCLIFileConfig_def Let_def res_bind_Inr tidy_zero split: if_splits dest: tidy_loaded)

text \<open>The runtime layer is built setting by setting.\<close>

lemma tidy_upd:
  assumes "tidy c" and "\<And>k. \<not> marked c' k \<Longrightarrow> \<not> marked c k \<and> value_of c' k = value_of c k"
  shows "tidy c'"
  using assms by (simp add: tidy_def)

lemma tidy_set:
  "tidy c \<Longrightarrow> tidy (c\<lparr>cf_Name := s, cf_hasName := True\<rparr>)"
  "tidy c \<Longrightarrow> tidy (c\<lparr>cf_WorkDir := s, cf_hasWorkDir := True\<rparr>)"
  "tidy c \<Longrightarrow> tidy (c\<lparr>cf_Bin := ss, cf_hasBin := True\<rparr>)"
  "tidy c \<Longrightarrow> tidy (c\<lparr>cf_Mounts := ms, cf_hasMounts := True\<rparr>)"
  "tidy c \<Longrightarrow> tidy (c\<lparr>cf_Env := ss, cf_hasEnv := True\<rparr>)"
  "tidy c \<Longrightarrow> tidy (c\<lparr>cf_CopyEnv := ss, cf_hasCopyEnv := True\<rparr>)"
  "tidy c \<Longrightarrow> tidy (c\<lparr>cf_MaxRequestBodyBytes := n, cf_hasMaxRequestBodyBytes := True\<rparr>)"
  by (rule tidy_upd, assumption, case_tac k, simp_all)+

definition tidy_result :: "cliFileConfig result \<Rightarrow> bool" where
  "tidy_result r \<longleftrightarrow> (\<forall>c. r = Inr c \<longrightarrow> tidy c)"

lemma tidy_result_intros:
  "tidy c \<Longrightarrow> tidy_result (Inr c)"
  "tidy v \<Longrightarrow> (\<And>c. tidy c \<Longrightarrow> tidy_result (f c)) \<Longrightarrow> tidy_result (Let v f)"
  "tidy_result r \<Longrightarrow> (\<And>c. tidy c \<Longrightarrow> tidy_result (f c)) \<Longrightarrow> tidy_result (res_bind r f)"
  "(P \<Longrightarrow> tidy_result r) \<Longrightarrow> (\<not> P \<Longrightarrow> tidy_result r') \<Longrightarrow> tidy_result (if P then r else r')"
  "(P \<Longrightarrow> tidy a) \<Longrightarrow> (\<not> P \<Longrightarrow> tidy b) \<Longrightarrow> tidy (if P then a else b)"
  by (auto simp: tidy_result_def res_bind_Inr)

lemma tidy_mounts: "tidy c \<Longrightarrow> tidy_result (res_bind r (\<lambda>mounts. ok (c\<lparr>cf_Mounts := map toCLIMountConfig mounts, cf_hasMounts := True\<rparr>)))"
  by (auto simp: tidy_result_def res_bind_Inr tidy_set)

lemma runtime_layer_value:
  assumes "buildRuntimeCLIConfigLayer opts = Inr c"
  shows "tidy c"
proof -
  have "tidy_result (buildRuntimeCLIConfigLayer opts)"
    unfolding buildRuntimeCLIConfigLayer_def
    by (intro tidy_mounts tidy_result_intros tidy_set tidy_zero)
  then show ?thesis using assms by (simp add: tidy_result_def)
qed

lemma tidy_defaults: "tidy cliDefaults"
proof -
  have "\<not> marked cliDefaults k \<Longrightarrow> value_of cliDefaults k = value_of zeroFileConfig k" for k
    by (cases k) (simp_all add: cliDefaults_def defaultCLIFileConfig_def)
  then show ?thesis by (simp add: tidy_def)
qed

lemma effective_of: "k \<noteq> SWorkDir \<Longrightarrow> effective_value (toEffectiveCLIConfig c cwd) k = value_of c k"
  by (cases k) (simp_all add: toEffectiveCLIConfig_def Let_def)


subsection \<open>The search for the configuration file\<close>

definition dir_path :: "string list \<Rightarrow> string" where
  "dir_path es = CHR ''/'' # join ''/'' es"

text \<open>A directory and those above it, from the inside out.\<close>

definition ancestors :: "string list \<Rightarrow> string list" where
  "ancestors es = map (\<lambda>n. dir_path (take n es)) (rev [0..<Suc (length es)])"

lemma dir_path_Dir:
  assumes "list_all plain_elem es"
  shows "filepath_Dir (dir_path es) = dir_path (butlast es)"
proof -
  let ?p = "dir_path es" and ?q = "rev (dropWhile (\<lambda>c. c \<noteq> CHR ''/'') (rev (dir_path es)))"
  have elems: "path_elems ?p = es" "is_rooted ?p" using path_elems_join[OF assms] by (simp_all add: dir_path_def is_rooted_def)
  then have "path_clean ?p = ?p" by (simp add: path_clean_rooted) (simp add: dir_path_def)
  from path_elems_Dir[OF elems(2) this] elems(1) have dir: "path_elems (filepath_Dir ?p) = butlast es" by simp
  have "?q \<noteq> []" by (auto simp: dir_path_def dropWhile_eq_Nil_conv)
  moreover have "prefix ?q ?p" unfolding prefix_def by (metis rev_append rev_rev_ident takeWhile_dropWhile_id)
  ultimately have "is_rooted ?q" by (cases ?q) (auto simp: dir_path_def is_rooted_def prefix_def)
  then have "path_clean (filepath_Dir ?p) = filepath_Dir ?p" unfolding filepath_Dir_def by (rule path_clean_idem_rooted)
  with path_clean_rooted[OF Dir_rooted[OF elems(2)]] dir show ?thesis by (simp add: dir_path_def)
qed

lemma dir_path_inj: "length (dir_path (es @ [e])) > length (dir_path es)" if "e \<noteq> []"
  using that by (cases "es = []") (simp_all add: dir_path_def join_append)

lemma ancestors_snoc: "ancestors (es @ [e]) = dir_path (es @ [e]) # ancestors es"
proof -
  have "map (\<lambda>n. dir_path (take n (es @ [e]))) (rev [0..<Suc (length es)]) = ancestors es"
    unfolding ancestors_def by (rule map_cong) auto
  then show ?thesis by (simp add: ancestors_def)
qed

text \<open>The result of the first directory that decides.\<close>

fun first_config :: "cli_files \<Rightarrow> string list \<Rightarrow> string result" where
  "first_config fs [] = ok []"
| "first_config fs (d # ds) = (case configAt fs d of Some r \<Rightarrow> r | None \<Rightarrow> first_config fs ds)"

lemma findConfigLoop_ancestors:
  "list_all plain_elem es \<Longrightarrow> findConfigLoop fs (dir_path es) = Some (first_config fs (ancestors es))"
proof (induction es rule: rev_induct)
  case Nil
  have "filepath_Dir (dir_path []) = dir_path []" using dir_path_Dir[of "[]"] by simp
  moreover have "ancestors [] = [dir_path []]" by (simp add: ancestors_def)
  ultimately show ?case by (subst findConfigLoop.simps) (simp split: option.split)
next
  case (snoc e es)
  from snoc.prems have e: "list_all plain_elem es" "e \<noteq> []" by (simp_all add: plain_elem_def[of e])
  have "filepath_Dir (dir_path (es @ [e])) = dir_path es" using dir_path_Dir[OF snoc.prems] by simp
  moreover have "dir_path es \<noteq> dir_path (es @ [e])" using dir_path_inj[OF e(2), of es] by auto
  ultimately show ?case
    using snoc.IH[OF e(1)] by (subst findConfigLoop.simps) (simp add: ancestors_snoc split: option.split)
qed

text \<open>
  The search for the configuration file always ends, and it is the search of the start directory
  and of every directory above it, from the inside out: the nearest \<^verbatim>\<open>bbox.yaml\<close> is taken.
\<close>

theorem findConfigFile_nearest:
  assumes "is_rooted startDir"
  shows "findConfigFile fs startDir = Some (first_config fs (ancestors (path_elems startDir)))"
  using assms findConfigLoop_ancestors[OF path_elems_plain, of fs startDir]
  by (simp add: findConfigFile_def absPath_def path_clean_rooted dir_path_def)

subsection \<open>Mount specifications\<close>

text \<open>A mount in the notation of the command line.\<close>

definition mountSpec :: "Mount \<Rightarrow> string" where
  "mountSpec m =
     (if mt_Type m = ''bind''
      then join '','' [''type=bind'', ''source='' @ mt_Source m, ''target='' @ mt_Target m,
                       ''read_only='' @ (if mt_ReadOnly m then ''true'' else ''false'')]
      else join '','' [''type=empty_dir'', ''target='' @ mt_Target m, ''mode='' @ itoa (mt_Mode m)])"

definition spec_path :: "string \<Rightarrow> bool" where
  "spec_path p \<longleftrightarrow> is_rooted p \<and> path_clean p = p \<and> trim_space p = p \<and> CHR '','' \<notin> set p"

definition spec_mount :: "Mount \<Rightarrow> bool" where
  "spec_mount m \<longleftrightarrow> spec_path (mt_Target m) \<and>
     (if mt_Type m = ''bind'' then spec_path (mt_Source m) \<and> mt_Mode m = 0
      else mt_Type m = ''empty_dir'' \<and> mt_Source m = [] \<and> \<not> mt_ReadOnly m \<and> 0 < mt_Mode m \<and> mt_Mode m < 2 ^ 32)"

lemma trim_space_key:
  assumes "trim_space v = v" and "v \<noteq> []" and "k \<noteq> []" and "\<not> is_space (hd k)"
  shows "trim_space (k @ v) = k @ v"
proof (rule trim_space_ends)
  have "\<not> is_space (last v)"
    using assms(1,2) trim_right_by_last[of is_space "trim_left_by is_space v"] by (simp add: trim_space_def)
  then show "\<not> is_space (last (k @ v))" using assms(2) by simp
qed (use assms in auto)

lemma parseMountField_key:
  assumes "trim_space v = v" and "v \<noteq> []" and "k \<in> set [''type'', ''source'', ''target'', ''read_only'', ''mode'']"
  shows "parseMountField spec cfg (k @ CHR ''='' # v) =
    (if k = ''type'' then ok (cfg\<lparr>cm_Type := v\<rparr>) else if k = ''source'' then ok (cfg\<lparr>cm_Source := v\<rparr>)
     else if k = ''target'' then ok (cfg\<lparr>cm_Target := v\<rparr>)
     else if k = ''read_only'' then
       (case parse_bool v of None \<Rightarrow> err (''invalid read_only value '' @ go_quote v @ '' in '' @ go_quote spec)
        | Some b \<Rightarrow> ok (cfg\<lparr>cm_ReadOnly := b\<rparr>))
     else (case parse_uint32 v of None \<Rightarrow> err (''invalid mode value '' @ go_quote v @ '' in '' @ go_quote spec)
           | Some n \<Rightarrow> ok (cfg\<lparr>cm_Mode := n\<rparr>)))"
proof -
  have k: "k \<noteq> []" "\<not> is_space (hd k)" "CHR ''='' \<notin> set k" "trim_space k = k"
    "replace_char CHR ''-'' CHR ''_'' (to_lower k) = k"
    using assms(3) by (auto; code_simp)+
  have "trim_space ((k @ ''='') @ v) = (k @ ''='') @ v"
    by (rule trim_space_key) (use assms(1,2) k(1,2) in auto)
  moreover have "k @ CHR ''='' # v \<noteq> ''read-only''"
  proof
    assume "k @ CHR ''='' # v = ''read-only''"
    then have "CHR ''='' \<in> set ''read-only''" by (metis in_set_conv_decomp)
    then show False by simp
  qed
  ultimately show ?thesis
    using k assms(1-2) assms(3) unfolding parseMountField_def Let_def
    by (simp split: option.split) (auto split: option.split)
qed

lemma spec_path_nonempty: "spec_path p \<Longrightarrow> p \<noteq> []"
  by (auto simp: spec_path_def is_rooted_def)

lemma spec_words:
  "x \<in> {''bind'', ''empty_dir'', ''true'', ''false''} \<Longrightarrow> trim_space x = x \<and> CHR '','' \<notin> set x \<and> to_lower x = x"
  by (elim insertE emptyE; hypsubst; code_simp)

lemmas mount_fields = parseMountField_key[of _ "''type''"] parseMountField_key[of _ "''source''"]
  parseMountField_key[of _ "''target''"] parseMountField_key[of _ "''read_only''"] parseMountField_key[of _ "''mode''"]

lemma bind_spec_roundtrip:
  assumes "spec_mount m" and "mt_Type m = ''bind''"
  shows "parseCLIMountSpec (mountSpec m) = Inr m"
proof -
  let ?r = "if mt_ReadOnly m then ''true'' else ''false''"
  let ?parts = "[''type=bind'', ''source='' @ mt_Source m, ''target='' @ mt_Target m, ''read_only='' @ ?r]"
  let ?cfg = "\<lparr>cm_Type = ''bind'', cm_Source = mt_Source m, cm_Target = mt_Target m, cm_ReadOnly = mt_ReadOnly m, cm_Mode = 0\<rparr>"
  have m: "spec_path (mt_Target m)" "spec_path (mt_Source m)" "mt_Mode m = 0" using assms by (auto simp: spec_mount_def)
  note words = spec_words[of ?r] spec_words[of "''bind''"]
  have "split_on CHR '','' (join '','' ?parts) = ?parts"
    by (rule split_on_join) (use m words in \<open>auto simp: spec_path_def\<close>)
  then have parts: "split_on CHR '','' (mountSpec m) = ?parts" unfolding mountSpec_def assms(2) by (simp only: if_True simp_thms)
  have "parse_bool ?r = Some (mt_ReadOnly m)" by (auto simp: parse_bool_def)
  then have "parseMountFields spec zeroMountConfig ?parts = Inr ?cfg" for spec
    using mount_fields(1)[of "''bind''"] mount_fields(2)[of "mt_Source m"] mount_fields(3)[of "mt_Target m"] mount_fields(4)[of ?r]
      m spec_path_nonempty words
    by (simp add: zeroMountConfig_def spec_path_def)
  moreover have "toBBoxMount ?cfg = Inr m"
    using m spec_path_nonempty assms(2) words by (simp add: toBBoxMount_def spec_path_def Let_def)
  ultimately show ?thesis by (simp add: parseCLIMountSpec_def parts)
qed

lemma empty_dir_spec_roundtrip:
  assumes "spec_mount m" and "mt_Type m \<noteq> ''bind''"
  shows "parseCLIMountSpec (mountSpec m) = Inr m"
proof -
  let ?parts = "[''type=empty_dir'', ''target='' @ mt_Target m, ''mode='' @ itoa (mt_Mode m)]"
  let ?cfg = "\<lparr>cm_Type = ''empty_dir'', cm_Source = [], cm_Target = mt_Target m, cm_ReadOnly = False, cm_Mode = mt_Mode m\<rparr>"
  have m: "mt_Type m = ''empty_dir''" "spec_path (mt_Target m)" "mt_Source m = []" "\<not> mt_ReadOnly m" "0 < mt_Mode m" "mt_Mode m < 2 ^ 32"
    using assms by (auto simp: spec_mount_def)
  note words = spec_words[of "''empty_dir''"]
  have "CHR '','' \<notin> set (itoa (mt_Mode m))" using itoa_chars[of "CHR '',''" "mt_Mode m"] by (auto simp: is_digit_def)
  then have "split_on CHR '','' (join '','' ?parts) = ?parts"
    by (intro split_on_join) (use m in \<open>auto simp: spec_path_def\<close>)
  then have parts: "split_on CHR '','' (mountSpec m) = ?parts" unfolding mountSpec_def using assms(2) by (simp only: if_False)
  have "itoa (mt_Mode m) \<noteq> []" using m(5) decimal_digits_hd[of "nat (mt_Mode m)"] by (simp add: itoa_def)
  then have "parseMountFields spec zeroMountConfig ?parts = Inr ?cfg" for spec
    using mount_fields(1)[of "''empty_dir''"] mount_fields(3)[of "mt_Target m"] mount_fields(5)[of "itoa (mt_Mode m)"] m
      spec_path_nonempty parse_uint_itoa[OF m(5,6)] words
    by (simp add: zeroMountConfig_def spec_path_def)
  moreover have "toBBoxMount ?cfg = Inr m"
    using m spec_path_nonempty words by (simp add: toBBoxMount_def spec_path_def Let_def)
  ultimately show ?thesis by (simp add: parseCLIMountSpec_def parts)
qed

text \<open>
  A mount specification reads back as the mount it was written for, of either type.
\<close>

theorem parse_mount_spec_roundtrip:
  assumes "spec_mount m"
  shows "parseCLIMountSpec (mountSpec m) = Inr m"
  using assms bind_spec_roundtrip empty_dir_spec_roundtrip by blast

subsection \<open>Examples\<close>

definition example_raw :: rawCLIFileConfig where
  "example_raw = \<lparr>rf_Name = None, rf_WorkDir = Some ''w'', rf_Bin = None, rf_Mounts = None, rf_Env = Some [''A=1''], rf_CopyEnv = None,
     rf_TrafficMode = None, rf_PolicyMode = Some ''audit'', rf_MaxRequestBodyBytes = None, rf_AccessLog = None,
     rf_ReportPolicyViolations = None, rf_ReportAccessSummary = None, rf_ReportRequestSummary = None, rf_Policy = None,
     rf_DockerSocket = None, rf_DockerBuild = None\<rparr>"

definition example_files :: cli_files where
  "example_files = \<lparr>fs_Getwd = ok ''/w'', fs_Stat = \<lambda>p. if p = ''/w/bbox.yaml'' then Inr \<lparr>fi_IsDir = False, fi_IsRegular = True, fi_Perm = 420\<rparr>
       else Inl (True, ''no such file''),
     fs_Lstat = \<lambda>p. Inl (True, ''no such file''), fs_Readlink = \<lambda>p. err ''no such file'', fs_EvalSymlinks = \<lambda>p. err ''no such file'',
     fs_ReadDir = \<lambda>p. err ''no such file'', fs_ReadFile = \<lambda>p. ok []\<rparr>"

definition example_cli :: cliOptions where
  "example_cli = \<lparr>co_configPath = ''bbox.yaml'', co_name = ''n'', co_workDir = [], co_binaries = [], co_mounts = [], co_env = [],
     co_copyEnv = [], co_copyEnvSet = False, co_maxRequestBodyBytes = 0, co_maxBodySizeSet = False, co_printPolicy = False,
     co_flagOverrides = \<lparr>fo_TrafficMode = Some ''transparent'', fo_PolicyMode = None, fo_ReportPolicy = None,
       fo_ReportAccessSummary = None, fo_ReportRequestSummary = None, fo_AccessLog = None\<rparr>\<rparr>"


theorem findConfigFile_nearest_witness: "findConfigFile example_files ''/w/a'' = Some (ok ''/w/bbox.yaml'')"
proof -
  have "first_config example_files (ancestors (path_elems ''/w/a'')) = ok ''/w/bbox.yaml''" by code_simp
  moreover have "is_rooted ''/w/a''" by code_simp
  ultimately show ?thesis using findConfigFile_nearest by metis
qed

theorem parse_mount_spec_roundtrip_witness:
  "parseCLIMountSpec (mountSpec \<lparr>mt_Type = ''empty_dir'', mt_Source = [], mt_Target = ''/work'', mt_ReadOnly = False, mt_Mode = 448\<rparr>) =
     Inr \<lparr>mt_Type = ''empty_dir'', mt_Source = [], mt_Target = ''/work'', mt_ReadOnly = False, mt_Mode = 448\<rparr>"
  by (rule parse_mount_spec_roundtrip) code_simp

end
