(* ===== verification/Sandbox_Env.thy ===== *)
theory Sandbox_Env
  imports Sandbox_Root
begin

section \<open>Environments of sandboxed programs: sandbox.go\<close>

text \<open>
  The environment of a run is built from lists of \<^verbatim>\<open>KEY=VALUE\<close> entries. \<^verbatim>\<open>mergeEnv\<close> keeps for each
  key the last entry at the place of the first one. It refines an update of maps, and the
  variables that point to the helper's proxy cannot be set from the sandbox options.
\<close>

definition splitEnv :: "string \<Rightarrow> (string \<times> string) option" where
  "splitEnv entry = str_cut CHR ''='' entry"

definition entry_key :: "string \<Rightarrow> string" where
  "entry_key entry = (case str_cut CHR ''='' entry of None \<Rightarrow> entry | Some (key, value) \<Rightarrow> key)"

text \<open>\<^verbatim>\<open>indexByKey\<close> is an association list from keys to places in \<^verbatim>\<open>merged\<close>.\<close>

fun mergeGroup :: "string list \<Rightarrow> (string \<times> nat) list \<Rightarrow> string list \<Rightarrow> string list \<times> (string \<times> nat) list" where
  "mergeGroup merged indexByKey [] = (merged, indexByKey)"
| "mergeGroup merged indexByKey (entry # entries) =
     (if entry = [] then mergeGroup merged indexByKey entries
      else case map_of indexByKey (entry_key entry) of
             Some idx \<Rightarrow> mergeGroup (merged[idx := entry]) indexByKey entries
           | None \<Rightarrow> mergeGroup (merged @ [entry]) (gm_put (entry_key entry) (length merged) indexByKey) entries)"

definition mergeEnv :: "string list list \<Rightarrow> string list" where
  "mergeEnv groups = fst (foldl (\<lambda>(merged, index) entries. mergeGroup merged index entries) ([], []) groups)"

fun lastEnvLoop :: "string \<Rightarrow> string list \<Rightarrow> string option" where
  "lastEnvLoop key [] = None"
| "lastEnvLoop key (entry # rest) =
     (case splitEnv entry of
        None \<Rightarrow> lastEnvLoop key rest
      | Some (entryKey, value) \<Rightarrow> if entryKey = key then Some value else lastEnvLoop key rest)"

definition lastEnvValue :: "string list \<Rightarrow> string \<Rightarrow> string option" where
  "lastEnvValue env key = lastEnvLoop key (rev env)"

definition reservedEnvKeys :: "string list" where
  "reservedEnvKeys = [''PATH'', ''HTTP_PROXY'', ''http_proxy'', ''HTTPS_PROXY'', ''https_proxy'']"

definition filterReservedEnv :: "string list \<Rightarrow> string list" where
  "filterReservedEnv env =
     filter (\<lambda>entry. case splitEnv entry of None \<Rightarrow> False | Some (key, value) \<Rightarrow> key \<notin> set reservedEnvKeys) env"

definition defaultRunEnvPath :: string where
  "defaultRunEnvPath = ''/usr/bin''"

definition proxyURL :: "string \<Rightarrow> string" where
  "proxyURL addr = ''http://'' @ addr"

definition pathValueOf :: "string list \<Rightarrow> string" where
  "pathValueOf env = (case lastEnvValue env ''PATH'' of None \<Rightarrow> defaultRunEnvPath | Some value \<Rightarrow> value)"

definition runEnvForProxyAddr :: "string \<Rightarrow> string list \<Rightarrow> string list" where
  "runEnvForProxyAddr proxyAddr extraEnv =
     mergeEnv [filterReservedEnv extraEnv,
       [''PATH='' @ pathValueOf extraEnv, ''HTTP_PROXY='' @ proxyURL proxyAddr, ''http_proxy='' @ proxyURL proxyAddr,
        ''HTTPS_PROXY='' @ proxyURL proxyAddr, ''https_proxy='' @ proxyURL proxyAddr]]"

text \<open>Another traffic mode panics; that is \<open>None\<close>.\<close>

definition runEnvForTrafficMode :: "TrafficMode \<Rightarrow> string \<Rightarrow> string list \<Rightarrow> string list option" where
  "runEnvForTrafficMode mode proxyAddr extraEnv =
     (let normalized = normalizeTrafficMode mode in
      if normalized = ''transparent''
      then Some (mergeEnv [filterReservedEnv extraEnv, [''PATH='' @ pathValueOf extraEnv]])
      else if normalized = ''proxy'' then Some (runEnvForProxyAddr proxyAddr extraEnv)
      else None)"

definition withDockerBuildPATHEnvEntries :: "string list \<Rightarrow> string list" where
  "withDockerBuildPATHEnvEntries env = env @ [''PATH='' @ PrependPATHDir (pathValueOf env) DefaultSandboxBinDir]"

subsection \<open>Merging is a map update\<close>

text \<open>What an environment means: the entry of a key. Later entries of a list win.\<close>

definition env_map :: "string list \<Rightarrow> string \<rightharpoonup> string" where
  "env_map entries = map_of (rev (map (\<lambda>e. (entry_key e, e)) (filter (\<lambda>e. e \<noteq> []) entries)))"

definition merge_inv :: "string list \<Rightarrow> (string \<times> nat) list \<Rightarrow> bool" where
  "merge_inv merged index \<longleftrightarrow> distinct (map entry_key merged) \<and> [] \<notin> set merged \<and>
     (\<forall>k i. map_of index k = Some i \<longleftrightarrow> i < length merged \<and> entry_key (merged ! i) = k)"

lemma env_map_append: "env_map (xs @ ys) = env_map xs ++ env_map ys"
  by (simp add: env_map_def map_of_append)

lemma env_map_Cons: "env_map (e # es) = env_map [e] ++ env_map es"
  using env_map_append[of "[e]" es] by simp

lemma merge_inv_keys: "merge_inv merged index \<Longrightarrow> map_of index k = None \<longleftrightarrow> k \<notin> entry_key ` set merged"
proof -
  assume "merge_inv merged index"
  then have "map_of index k = Some i \<longleftrightarrow> i < length merged \<and> entry_key (merged ! i) = k" for i
    by (simp add: merge_inv_def)
  then have "(\<exists>i. map_of index k = Some i) \<longleftrightarrow> k \<in> entry_key ` set merged"
    by (auto simp: set_conv_nth)
  then show ?thesis by auto
qed

lemma env_map_iff:
  assumes "distinct (map entry_key merged)" and "[] \<notin> set merged"
  shows "env_map merged k = Some e \<longleftrightarrow> e \<in> set merged \<and> entry_key e = k"
proof -
  let ?al = "rev (map (\<lambda>e. (entry_key e, e)) merged)"
  have "distinct (map fst ?al)" using assms(1) by (simp add: rev_map[symmetric] comp_def)
  moreover have "filter (\<lambda>e. e \<noteq> []) merged = merged" using assms(2) by (intro filter_True) auto
  ultimately show ?thesis by (auto simp: env_map_def)
qed

lemma merge_replace:
  assumes inv: "merge_inv merged index" and i: "map_of index (entry_key entry) = Some i" and "entry \<noteq> []"
  shows "merge_inv (merged[i := entry]) index" and "env_map (merged[i := entry]) = env_map merged ++ env_map [entry]"
proof -
  have i': "i < length merged" "entry_key (merged ! i) = entry_key entry" using inv i by (auto simp: merge_inv_def)
  then have keys: "map entry_key (merged[i := entry]) = map entry_key merged"
    by (simp add: map_update list_update_same_conv)
  moreover have ne: "[] \<notin> set (merged[i := entry])"
    using inv assms(3) set_update_subset_insert[of merged i entry] by (auto simp: merge_inv_def)
  moreover have "entry_key (merged[i := entry] ! j) = entry_key (merged ! j)" if "j < length merged" for j
    using that i' by (cases "j = i") auto
  ultimately show "merge_inv (merged[i := entry]) index" using inv by (auto simp: merge_inv_def)
  have d: "distinct (map entry_key merged)" "[] \<notin> set merged" using inv by (auto simp: merge_inv_def)
  show "env_map (merged[i := entry]) = env_map merged ++ env_map [entry]"
  proof
    fix k
    show "env_map (merged[i := entry]) k = (env_map merged ++ env_map [entry]) k"
    proof (cases "k = entry_key entry")
      case True
      have "env_map (merged[i := entry]) k = Some entry"
        using env_map_iff[of "merged[i := entry]"] keys d(1) ne i'(1) True by (auto intro: set_update_memI)
      then show ?thesis using True assms(3) by (simp add: env_map_def)
    next
      case False
      have "e \<in> set (merged[i := entry]) \<longleftrightarrow> e \<in> set merged" if "entry_key e = k" for e
        using that False i' by (auto simp: in_set_conv_nth nth_list_update split: if_splits)
      then have "env_map (merged[i := entry]) k = Some e \<longleftrightarrow> env_map merged k = Some e" for e
        using env_map_iff[of "merged[i := entry]"] env_map_iff[OF d] keys d(1) ne by auto
      then have "env_map (merged[i := entry]) k = env_map merged k" by (cases "env_map merged k") auto
      then show ?thesis using False assms(3) by (simp add: env_map_def)
    qed
  qed
qed

lemma merge_append:
  assumes inv: "merge_inv merged index" and i: "map_of index (entry_key entry) = None" and "entry \<noteq> []"
  shows "merge_inv (merged @ [entry]) (gm_put (entry_key entry) (length merged) index)"
proof -
  have new: "entry_key entry \<notin> entry_key ` set merged" using i merge_inv_keys[OF inv] by simp
  then have "entry_key (merged ! j) \<noteq> entry_key entry" if "j < length merged" for j
    using that by (metis imageI nth_mem)
  then show ?thesis
    using inv new assms(3) by (auto simp: merge_inv_def nth_append less_Suc_eq split: if_splits)
qed

lemma mergeGroup_spec:
  "merge_inv merged index \<Longrightarrow> mergeGroup merged index entries = (merged', index') \<Longrightarrow>
     merge_inv merged' index' \<and> env_map merged' = env_map merged ++ env_map entries"
proof (induction merged index entries rule: mergeGroup.induct)
  case (1 merged index)
  then show ?case by (simp add: env_map_def)
next
  case (2 merged index entry entries)
  show ?case
  proof (cases "entry = []")
    case True
    then show ?thesis using 2 by (simp add: env_map_def)
  next
    case False
    show ?thesis
    proof (cases "map_of index (entry_key entry)")
      case None
      then show ?thesis
        using 2 False merge_append[OF 2(4) None False] env_map_append[of merged "[entry]"] env_map_Cons[of entry entries] by simp
    next
      case (Some i)
      then show ?thesis
        using 2 False merge_replace[OF 2(4) Some False] env_map_Cons[of entry entries] by simp
    qed
  qed
qed

lemma mergeEnv_spec:
  "distinct (map entry_key (mergeEnv groups)) \<and> [] \<notin> set (mergeEnv groups) \<and> env_map (mergeEnv groups) = env_map (concat groups)"
proof -
  have "merge_inv merged index \<Longrightarrow>
      foldl (\<lambda>(merged, index) g. mergeGroup merged index g) (merged, index) groups = (m', i') \<Longrightarrow>
      merge_inv m' i' \<and> env_map m' = env_map merged ++ env_map (concat groups)" for merged index m' i'
  proof (induction groups arbitrary: merged index)
    case (Cons g groups)
    obtain m1 i1 where m1: "mergeGroup merged index g = (m1, i1)" by fastforce
    have "foldl (\<lambda>(merged, index) g. mergeGroup merged index g) (m1, i1) groups = (m', i')"
      using Cons.prems(2) m1 by simp
    with mergeGroup_spec[OF Cons.prems(1) m1] Cons.IH[of m1 i1] show ?case by (simp add: env_map_append)
  qed (simp add: env_map_def)
  note merged = this
  obtain m i where m: "foldl (\<lambda>(merged, index) g. mergeGroup merged index g) ([], []) groups = (m, i)" by force
  have "merge_inv [] []" by (simp add: merge_inv_def)
  from merged[OF this m] show ?thesis
    by (simp add: mergeEnv_def m merge_inv_def) (simp add: env_map_def)
qed

text \<open>
  Merging environments is an update of maps: every key has one entry, the last one given, and
  nothing else is added. Empty entries are dropped.
\<close>

theorem mergeEnv_refines_update:
  "distinct (map entry_key (mergeEnv groups)) \<and>
   env_map (mergeEnv groups) = foldl (++) Map.empty (map env_map groups)"
proof -
  have "env_map (concat gs) = foldl (++) Map.empty (map env_map gs)" for gs
  proof (induction gs rule: rev_induct)
    case (snoc g gs)
    then show ?case by (simp add: env_map_append)
  qed (simp add: env_map_def)
  then show ?thesis using mergeEnv_spec by simp
qed

subsection \<open>The proxy variables\<close>

lemma entry_key_split: "splitEnv entry = Some (key, value) \<Longrightarrow> entry_key entry = key \<and> entry = key @ CHR ''='' # value"
  by (simp add: splitEnv_def entry_key_def str_cut_Some)

lemma entry_key_set: "CHR ''='' \<notin> set key \<Longrightarrow> entry_key (key @ CHR ''='' # value) = key"
  by (simp add: entry_key_def)

lemma env_map_one: "CHR ''='' \<notin> set key \<Longrightarrow> env_map [key @ CHR ''='' # value] = [key \<mapsto> key @ CHR ''='' # value]"
  by (simp add: env_map_def entry_key_set)

lemma env_map_filtered: "k \<in> set reservedEnvKeys \<Longrightarrow> env_map (filterReservedEnv env) k = None"
proof -
  assume k: "k \<in> set reservedEnvKeys"
  have "entry_key e \<noteq> k" if "e \<in> set (filterReservedEnv env)" for e
    using that k entry_key_split[of e] by (auto simp: filterReservedEnv_def split: option.splits)
  then show ?thesis unfolding env_map_def map_of_eq_None_iff by fastforce
qed

lemma mergeEnv_two: "env_map (mergeEnv [a, b]) = env_map a ++ env_map b"
  using mergeEnv_spec[of "[a, b]"] by (simp add: env_map_append)

text \<open>
  Whatever variables the sandbox options set, the environment of a sandbox in proxy mode sends
  HTTP and HTTPS through the helper's proxy: each of the four proxy variables has exactly one
  entry, the helper's address. In transparent mode none of them is set. \<^verbatim>\<open>PATH\<close> is the last one the
  options give, or the default.
\<close>

theorem base_env_uses_proxy:
  assumes "runEnvForTrafficMode mode proxyAddr extraEnv = Some env"
    and "k \<in> {''HTTP_PROXY'', ''http_proxy'', ''HTTPS_PROXY'', ''https_proxy''}"
  shows "distinct (map entry_key env) \<and>
    env_map env k = (if normalizeTrafficMode mode = ''proxy'' then Some (k @ ''=http://'' @ proxyAddr) else None) \<and>
    env_map env ''PATH'' = Some (''PATH='' @ pathValueOf extraEnv)"
proof -
  have key: "entry_key (''PATH='' @ v) = ''PATH''" "entry_key (''HTTP_PROXY='' @ v) = ''HTTP_PROXY''"
    "entry_key (''http_proxy='' @ v) = ''http_proxy''" "entry_key (''HTTPS_PROXY='' @ v) = ''HTTPS_PROXY''"
    "entry_key (''https_proxy='' @ v) = ''https_proxy''" for v
    using entry_key_set[of "''PATH''" v] entry_key_set[of "''HTTP_PROXY''" v] entry_key_set[of "''http_proxy''" v]
      entry_key_set[of "''HTTPS_PROXY''" v] entry_key_set[of "''https_proxy''" v] by simp_all
  have reserved: "env_map (filterReservedEnv extraEnv) k = None" "env_map (filterReservedEnv extraEnv) ''PATH'' = None"
    using assms(2) by (auto intro!: env_map_filtered simp: reservedEnvKeys_def)
  from assms(1) consider
      "normalizeTrafficMode mode = ''transparent''" "env = mergeEnv [filterReservedEnv extraEnv, [''PATH='' @ pathValueOf extraEnv]]"
    | "normalizeTrafficMode mode = ''proxy''" "env = runEnvForProxyAddr proxyAddr extraEnv"
    by (auto simp: runEnvForTrafficMode_def Let_def split: if_splits)
  then show ?thesis
  proof cases
    case 1
    have "env_map [''PATH='' @ pathValueOf extraEnv] = [''PATH'' \<mapsto> ''PATH='' @ pathValueOf extraEnv]"
      using key(1)[of "pathValueOf extraEnv"] by (simp add: env_map_def)
    moreover have "k \<noteq> ''PATH''" using assms(2) by auto
    ultimately show ?thesis
      using 1 reserved mergeEnv_spec[THEN conjunct1, of "[filterReservedEnv extraEnv, [''PATH='' @ pathValueOf extraEnv]]"]
      by (simp add: mergeEnv_two map_add_def)
  next
    case 2
    let ?vars = "[''PATH='' @ pathValueOf extraEnv, ''HTTP_PROXY='' @ proxyURL proxyAddr, ''http_proxy='' @ proxyURL proxyAddr,
      ''HTTPS_PROXY='' @ proxyURL proxyAddr, ''https_proxy='' @ proxyURL proxyAddr]"
    have "env_map ?vars k = Some (k @ ''=http://'' @ proxyAddr)" "env_map ?vars ''PATH'' = Some (''PATH='' @ pathValueOf extraEnv)"
      using assms(2) key[of "proxyURL proxyAddr"] key(1)[of "pathValueOf extraEnv"] by (auto simp: env_map_def proxyURL_def)
    then show ?thesis
      using 2 mergeEnv_spec[THEN conjunct1, of "[filterReservedEnv extraEnv, ?vars]"]
      by (simp add: runEnvForProxyAddr_def mergeEnv_two map_add_def)
  qed
qed

theorem base_env_uses_proxy_witness:
  "\<exists>env. runEnvForTrafficMode [] ''127.0.0.1:1'' [''http_proxy=http://evil'', ''A=1''] = Some env \<and>
     env_map env ''http_proxy'' = Some ''http_proxy=http://127.0.0.1:1''"
proof -
  have m: "normalizeTrafficMode [] = ''proxy''" by code_simp
  then obtain env where "runEnvForTrafficMode [] ''127.0.0.1:1'' [''http_proxy=http://evil'', ''A=1''] = Some env"
    by (simp add: runEnvForTrafficMode_def Let_def)
  from base_env_uses_proxy[OF this, of "''http_proxy''"] this m show ?thesis by simp
qed

end
