(* ===== verification/Cli_Run.thy ===== *)
theory Cli_Run
  imports Cli_Load Sandbox_Env
begin

section \<open>From the configuration to a run: cmd/bbox run\_config.go\<close>

text \<open>
  The effective configuration becomes the options of the manager and of the sandbox. Besides the
  configured mounts, the working directory and the directories of \<^verbatim>\<open>PATH\<close> are mounted read-only, with
  the directories that their symbolic links lead through.
\<close>

unbundle bit_operations_syntax

subsection \<open>Environment\<close>

definition normalizeCLIPolicyMode :: "string \<Rightarrow> PolicyMode result" where
  "normalizeCLIPolicyMode mode =
     (let m = to_lower (trim_space mode) in
      if m = [] \<or> m = ''enforce'' then ok ''enforce''
      else if m = ''audit'' then ok ''audit''
      else err (''unsupported policy mode '' @ go_quote mode))"

definition normalizeAccessLogMode :: "string \<Rightarrow> string result" where
  "normalizeAccessLogMode mode0 =
     (let m = to_lower (trim_space mode0); mode = (if m = [] then ''json'' else m) in
      if mode = ''json'' \<or> mode = ''off'' then ok mode
      else err (''unsupported access log mode '' @ go_quote mode))"

fun findEntry :: "string \<Rightarrow> string list \<Rightarrow> string option" where
  "findEntry key [] = None"
| "findEntry key (entry # rest) =
     (case str_cut CHR ''='' entry of
        Some (entryKey, _) \<Rightarrow> if entryKey = key then Some entry else findEntry key rest
      | None \<Rightarrow> findEntry key rest)"

definition copyHostEnv :: "string \<Rightarrow> string list \<Rightarrow> string result" where
  "copyHostEnv key0 environ =
     (let key = trim_space key0 in
      if key = [] then err ''copy env key is required''
      else case findEntry key (rev environ) of
             Some entry \<Rightarrow> ok entry
           | None \<Rightarrow> err (''copy env '' @ go_quote key @ '': host environment variable is not set''))"

definition checkEnvEntry :: "string \<Rightarrow> string result" where
  "checkEnvEntry entry =
     (if str_cut CHR ''='' entry = None then err (''invalid env spec '' @ go_quote entry @ '', want KEY=VALUE'') else ok entry)"

definition buildSandboxEnv :: "effectiveCLIConfig \<Rightarrow> string list \<Rightarrow> string list result" where
  "buildSandboxEnv c environ =
     res_bind (map_result (\<lambda>key. copyHostEnv key environ) (ec_CopyEnv c)) (\<lambda>copied.
     res_bind (map_result checkEnvEntry (ec_Env c)) (\<lambda>entries. ok (copied @ entries)))"

definition withDockerBuildPATHEnv :: "string list \<Rightarrow> bool \<Rightarrow> string list" where
  "withDockerBuildPATHEnv env enabled =
     (if \<not> enabled then env
      else env @ [''PATH='' @ PrependPATHDir (case lastEnvValue env ''PATH'' of Some v \<Rightarrow> v | None \<Rightarrow> ''/usr/bin'') DefaultSandboxBinDir])"

subsection \<open>Binaries\<close>

definition is_executable :: "FileInfo \<Rightarrow> bool" where
  "is_executable info \<longleftrightarrow> fi_IsRegular info \<and> fi_Perm info AND 73 \<noteq> 0"

definition normalizePATHDir :: "cli_files \<Rightarrow> string \<Rightarrow> string \<Rightarrow> string result" where
  "normalizePATHDir fs dir0 cwd =
     (let dir = trim_space dir0 in absPathFromCWD fs (if dir = [] then ''.'' else dir) cwd)"

definition splitPATH :: "cli_files \<Rightarrow> string \<Rightarrow> string \<Rightarrow> string list" where
  "splitPATH fs pathValue cwd =
     (if trim_space pathValue = [] then []
      else concat (map (\<lambda>part. case normalizePATHDir fs part cwd of Inl _ \<Rightarrow> [] | Inr dir \<Rightarrow> [dir]) (split_on CHR '':'' pathValue)))"

fun searchPATH :: "cli_files \<Rightarrow> string \<Rightarrow> string list \<Rightarrow> string option" where
  "searchPATH fs name [] = None"
| "searchPATH fs name (dir # dirs) =
     (let candidate = path_join [dir, name] in
      case fs_Stat fs candidate of
        Inl _ \<Rightarrow> searchPATH fs name dirs
      | Inr info \<Rightarrow> if is_executable info then Some candidate else searchPATH fs name dirs)"

definition resolveBinaryForPATH :: "cli_files \<Rightarrow> string \<Rightarrow> string \<Rightarrow> string \<Rightarrow> string result" where
  "resolveBinaryForPATH fs name pathValue cwd =
     (if trim_space name = [] then err ''binary path is required''
      else if contains_char name CHR ''/'' then
        (case absPathFromCWD fs name cwd of
           Inl e \<Rightarrow> err (''resolve absolute binary path '' @ go_quote name @ '': '' @ e)
         | Inr path \<Rightarrow> (case fs_Stat fs path of
                         Inl (_, e) \<Rightarrow> err (''binary '' @ go_quote path @ '': '' @ e) | Inr _ \<Rightarrow> ok path))
      else case searchPATH fs name (splitPATH fs pathValue cwd) of
             Some path \<Rightarrow> ok path
           | None \<Rightarrow> err (''resolve binary '' @ go_quote name @ '' in PATH '' @ go_quote pathValue @ '': executable not found''))"

fun resolveBinaries ::
  "cli_files \<Rightarrow> string option \<Rightarrow> string \<Rightarrow> bool \<Rightarrow> string list \<Rightarrow> string list \<Rightarrow> string list result" where
  "resolveBinaries fs path cwd dockerBuild [] binaries = ok binaries"
| "resolveBinaries fs path cwd dockerBuild (binary # rest) binaries =
     (if dockerBuild \<and> binary = ''docker'' then resolveBinaries fs path cwd dockerBuild rest binaries
      else
        res_bind (if path \<noteq> None \<or> contains_char binary CHR ''/''
                  then resolveBinaryForPATH fs binary (deref [] path) cwd else ok binary) (\<lambda>resolved.
        resolveBinaries fs path cwd dockerBuild rest (if resolved \<in> set binaries then binaries else binaries @ [resolved])))"

definition resolveRequestedBinaries ::
  "cli_files \<Rightarrow> string list \<Rightarrow> string list \<Rightarrow> string \<Rightarrow> DockerBuildOptions \<Rightarrow> string list result" where
  "resolveRequestedBinaries fs requested env cwd dockerBuild =
     resolveBinaries fs (lastEnvValue env ''PATH'') cwd (db_Enabled dockerBuild) requested []"

subsection \<open>Mounts of the search path\<close>

definition mountTargetsOverlap :: "string \<Rightarrow> string \<Rightarrow> bool" where
  "mountTargetsOverlap a b =
     (let a = path_clean a; b = path_clean b in
      a = b \<or> a = ''/'' \<or> b = ''/'' \<or> has_prefix a (b @ ''/'') \<or> has_prefix b (a @ ''/''))"

definition mountOverlapsAny :: "Mount \<Rightarrow> Mount list \<Rightarrow> bool" where
  "mountOverlapsAny want existing = list_ex (\<lambda>m. mountTargetsOverlap (mt_Target m) (mt_Target want)) existing"

definition hasMount :: "string \<Rightarrow> string \<Rightarrow> Mount list \<Rightarrow> bool" where
  "hasMount source target mounts =
     list_ex (\<lambda>m. mt_Type m = ''bind'' \<and> path_clean (trim_space (mt_Source m)) = path_clean source \<and>
       path_clean (trim_space (mt_Target m)) = path_clean target) mounts"

definition pathMountTarget :: "string \<Rightarrow> string \<Rightarrow> string" where
  "pathMountTarget dir resolved =
     (let parent = filepath_Dir resolved in
      if resolved = ''/usr'' \<or> has_prefix resolved ''/usr/'' then ''/usr''
      else if (filepath_Base resolved = ''bin'' \<or> filepath_Base resolved = ''sbin'') \<and> parent \<noteq> ''/'' \<and> parent \<noteq> ''.'' then parent
      else if trim_space resolved \<noteq> [] then resolved
      else dir)"

text \<open>A chain of symbolic links is followed until it ends or comes back; \<open>None\<close> is a chain without end.\<close>

partial_function (option) symlinkChain ::
  "cli_files \<Rightarrow> string \<Rightarrow> string set \<Rightarrow> string list \<Rightarrow> string \<Rightarrow> string list result option" where
  "symlinkChain fs path seen dirs current =
     (if current \<in> seen then Some (err (''resolve symlink chain '' @ go_quote path @ '': cycle detected''))
      else case fs_Lstat fs current of
             Inl (notExist, e) \<Rightarrow>
               if notExist then Some (ok dirs) else Some (err (''lstat PATH entry '' @ go_quote current @ '': '' @ e))
           | Inr symlink \<Rightarrow>
               if \<not> symlink then Some (ok (dirs @ [filepath_Dir current]))
               else (case fs_Readlink fs current of
                       Inl e \<Rightarrow> Some (err (''readlink PATH entry '' @ go_quote current @ '': '' @ e))
                     | Inr target0 \<Rightarrow>
                         let target = (if is_rooted target0 then target0 else path_join [filepath_Dir current, target0]);
                             next = path_clean target in
                         symlinkChain fs path (insert current seen) (dirs @ [filepath_Dir next]) next))"

definition symlinkChainParentDirs :: "cli_files \<Rightarrow> string \<Rightarrow> string list result option" where
  "symlinkChainParentDirs fs path = symlinkChain fs path {} [] (path_clean path)"

definition resolvedDir :: "cli_files \<Rightarrow> string \<Rightarrow> string" where
  "resolvedDir fs dir = (case fs_EvalSymlinks fs dir of
     Inr eval \<Rightarrow> if trim_space eval \<noteq> [] then path_clean eval else dir | Inl _ \<Rightarrow> dir)"

fun linkTargets :: "cli_files \<Rightarrow> string \<Rightarrow> (string \<times> bool) list \<Rightarrow> string list result option" where
  "linkTargets fs dir [] = Some (ok [])"
| "linkTargets fs dir ((name, symlink) # entries) =
     (if \<not> symlink then linkTargets fs dir entries
      else case symlinkChainParentDirs fs (path_join [dir, name]) of
             None \<Rightarrow> None
           | Some (Inl e) \<Rightarrow> Some (err e)
           | Some (Inr chainDirs) \<Rightarrow>
               map_option (\<lambda>r. res_bind r (\<lambda>rest. ok (map (\<lambda>d. pathMountTarget d (resolvedDir fs d)) chainDirs @ rest)))
                 (linkTargets fs dir entries))"

definition readOnlyBind :: "string \<Rightarrow> Mount" where
  "readOnlyBind target = \<lparr>mt_Type = ''bind'', mt_Source = target, mt_Target = target, mt_ReadOnly = True, mt_Mode = 0\<rparr>"

fun directoryMounts :: "cli_files \<Rightarrow> string list \<Rightarrow> Mount list result" where
  "directoryMounts fs [] = ok []"
| "directoryMounts fs (target # targets) =
     (case fs_Stat fs target of
        Inl (notExist, e) \<Rightarrow>
          if notExist then directoryMounts fs targets else err (''stat PATH mount root '' @ go_quote target @ '': '' @ e)
      | Inr info \<Rightarrow>
          if \<not> fi_IsDir info then directoryMounts fs targets
          else res_bind (directoryMounts fs targets) (\<lambda>ms. ok (readOnlyBind target # ms)))"

definition pathMountsForDir :: "cli_files \<Rightarrow> string \<Rightarrow> Mount list result option" where
  "pathMountsForDir fs dir =
     (case fs_Stat fs dir of
        Inl (notExist, e) \<Rightarrow> Some (if notExist then ok [] else err (''stat PATH dir '' @ go_quote dir @ '': '' @ e))
      | Inr info \<Rightarrow>
          if \<not> fi_IsDir info then Some (ok [])
          else (case fs_ReadDir fs dir of
                  Inl e \<Rightarrow> Some (err (''read PATH dir '' @ go_quote dir @ '': '' @ e))
                | Inr entries \<Rightarrow>
                    map_option (\<lambda>r. res_bind r (\<lambda>links.
                      directoryMounts fs (remdups_adj (sort (pathMountTarget dir (resolvedDir fs dir) # links)))))
                      (linkTargets fs dir entries)))"

fun addPathMounts :: "Mount list \<Rightarrow> Mount list \<Rightarrow> Mount list \<Rightarrow> Mount list" where
  "addPathMounts existing mounts [] = mounts"
| "addPathMounts existing mounts (m # ms) =
     (if mountOverlapsAny m (existing @ mounts) then addPathMounts existing mounts ms
      else addPathMounts existing (if m \<in> set mounts then mounts else mounts @ [m]) ms)"

fun mountPathDirs :: "cli_files \<Rightarrow> Mount list \<Rightarrow> Mount list \<Rightarrow> string list \<Rightarrow> Mount list result option" where
  "mountPathDirs fs existing mounts [] = Some (ok mounts)"
| "mountPathDirs fs existing mounts (dir # dirs) =
     (case pathMountsForDir fs dir of
        None \<Rightarrow> None
      | Some (Inl e) \<Rightarrow> Some (err e)
      | Some (Inr dirMounts) \<Rightarrow> mountPathDirs fs existing (addPathMounts existing mounts dirMounts) dirs)"

definition pathAvailabilityMounts :: "cli_files \<Rightarrow> string list \<Rightarrow> string \<Rightarrow> Mount list \<Rightarrow> Mount list result option" where
  "pathAvailabilityMounts fs env cwd existing =
     (case lastEnvValue env ''PATH'' of
        None \<Rightarrow> Some (ok [])
      | Some pathValue \<Rightarrow> mountPathDirs fs existing [] (splitPATH fs pathValue cwd))"

subsection \<open>Policies and options\<close>

definition nonempty_trimmed :: "(string \<Rightarrow> string) \<Rightarrow> string list \<Rightarrow> string list" where
  "nonempty_trimmed f values = filter (\<lambda>v. v \<noteq> []) (map (\<lambda>v. f (trim_space v)) values)"

definition normalizeHTTPMethods :: "string list \<Rightarrow> string list" where
  "normalizeHTTPMethods values = nonempty_trimmed to_upper values"

definition normalizeDockerOperations :: "string list \<Rightarrow> DockerOperation list" where
  "normalizeDockerOperations values = nonempty_trimmed to_lower values"

definition buildNetworkPolicy :: "cliPolicyConfig \<Rightarrow> NetworkPolicy" where
  "buildNetworkPolicy cfg = map (\<lambda>rule. rule\<lparr>pr_HTTPMethods := normalizeHTTPMethods (pr_HTTPMethods rule)\<rparr>) (cp_Rules cfg)"

definition buildDockerSocketRule :: "cliDockerSocketRuleConfig \<Rightarrow> DockerSocketRule" where
  "buildDockerSocketRule rule =
     \<lparr>dr_Action = to_lower (trim_space (cr_Action rule)),
      dr_Operations = normalizeDockerOperations (cr_Operations rule),
      dr_HTTP = map_option (\<lambda>http. \<lparr>hm_Methods = normalizeHTTPMethods (ch_Methods http), hm_PathPatterns = ch_PathPatterns http\<rparr>) (cr_HTTP rule),
      dr_Build = map_option (\<lambda>build. \<lparr>bm_Context = to_lower (trim_space (cb_Context build)), bm_DockerfilePaths = cb_DockerfilePaths build\<rparr>)
        (cr_Build rule)\<rparr>"

definition buildDockerSocketOptions :: "cliDockerSocketConfig \<Rightarrow> DockerSocketOptions" where
  "buildDockerSocketOptions cfg =
     \<lparr>do_Enabled = cs_Enabled cfg, do_MountPath = trim_space (cs_MountPath cfg),
      do_TargetSocketPath = trim_space (cs_TargetSocketPath cfg),
      do_Policy = \<lparr>dp_DefaultAction = to_lower (trim_space (cs_DefaultAction cfg)), dp_Rules = map buildDockerSocketRule (cs_Rules cfg)\<rparr>\<rparr>"

definition buildDockerBuildOptions :: "cliDockerBuildConfig \<Rightarrow> DockerBuildOptions" where
  "buildDockerBuildOptions cfg =
     \<lparr>db_Enabled = ci_Enabled cfg, db_BuildkitdPath = trim_space (ci_BuildkitdPath cfg),
      db_BuildctlPath = trim_space (ci_BuildctlPath cfg), db_RuncPath = trim_space (ci_RuncPath cfg),
      db_PodmanPath = trim_space (ci_PodmanPath cfg), db_NewuidmapPath = trim_space (ci_NewuidmapPath cfg),
      db_NewgidmapPath = trim_space (ci_NewgidmapPath cfg)\<rparr>"

definition defaultCLISeccompOptions :: "bool \<Rightarrow> SeccompOptions" where
  "defaultCLISeccompOptions dockerBuildEnabled =
     (if dockerBuildEnabled then \<lparr>so_Disabled = True, so_Profile = [], so_Rules = []\<rparr>
      else \<lparr>so_Disabled = False, so_Profile = ''restricted'', so_Rules = []\<rparr>)"

record runConfig =
  rc_manager :: ProxyOptions
  rc_sandbox :: SandboxOptions
  rc_argv :: "string list"
  rc_printPolicy :: bool
  rc_reporting :: ReportingOptions
  rc_accessLogMode :: string

definition cliMounts :: "string \<Rightarrow> string \<Rightarrow> Mount list \<Rightarrow> Mount list" where
  "cliMounts platform absCWD explicit =
     (if platform \<noteq> ''darwin'' \<and> \<not> hasMount absCWD absCWD explicit then readOnlyBind absCWD # explicit else explicit)"

definition cliTrafficMode :: "string \<Rightarrow> TrafficMode result" where
  "cliTrafficMode configured =
     (let m = to_lower (trim_space configured); mode = (if m = [] then ''proxy'' else m) in
      if mode \<noteq> ''proxy'' \<and> mode \<noteq> ''transparent'' then err (''unsupported traffic mode '' @ go_quote configured)
      else ok mode)"

text \<open>The options of a run, once the mounts of the search path are known.\<close>

definition assembleRunConfig ::
  "cli_files \<Rightarrow> effectiveCLIConfig \<Rightarrow> string list \<Rightarrow> string \<Rightarrow> TrafficMode \<Rightarrow> PolicyMode \<Rightarrow> string list \<Rightarrow> Mount list \<Rightarrow> runConfig result" where
  "assembleRunConfig fs c payload absCWD trafficMode policyMode env mounts =
     (let dockerBuild = buildDockerBuildOptions (ec_DockerBuild c) in
      res_bind (resolveRequestedBinaries fs (hd payload # ec_Binaries c) env absCWD dockerBuild) (\<lambda>binaries.
      res_bind (normalizeAccessLogMode (ec_AccessLog c)) (\<lambda>accessLogMode.
      ok \<lparr>rc_manager = \<lparr>po_ListenAddr = [], po_MaxRequestBodyBytes = ec_MaxRequestBodyBytes c, po_MaxResponseBodyBytes = 0,
                         po_NetworkPolicy = [], po_PolicyMode = policyMode, po_MITMEnabled = (trafficMode = ''transparent''),
                         po_DockerSocket = buildDockerSocketOptions (ec_DockerSocket c)\<rparr>,
          rc_sandbox = \<lparr>op_Name = trim_space (ec_Name c), op_Binaries = binaries, op_Mounts = mounts, op_Env = env,
                         op_TrafficMode = trafficMode, op_Policy = buildNetworkPolicy (ec_Policy c), op_PolicyMode = [],
                         op_WorkDir = ec_WorkDir c, op_Seccomp = defaultCLISeccompOptions (ci_Enabled (ec_DockerBuild c)),
                         op_DockerSocket = buildDockerSocketOptions (ec_DockerSocket c), op_DockerBuild = dockerBuild\<rparr>,
          rc_argv = payload, rc_printPolicy = False, rc_reporting = ec_Reporting c, rc_accessLogMode = accessLogMode\<rparr>)))"

definition buildRunConfig ::
  "cli_files \<Rightarrow> string \<Rightarrow> effectiveCLIConfig \<Rightarrow> string list \<Rightarrow> string \<Rightarrow> string list \<Rightarrow> runConfig result option" where
  "buildRunConfig fs platform c payload cwd environ =
     (if payload = [] then Some (err ''payload command required after --'')
      else case absPath fs cwd of
             Inl e \<Rightarrow> Some (err (''resolve current working directory: '' @ e))
           | Inr absCWD \<Rightarrow>
               (case res_bind (map_result toBBoxMount (ec_Mounts c)) (\<lambda>explicit.
                     res_bind (cliTrafficMode (ec_TrafficMode c)) (\<lambda>trafficMode.
                     res_bind (normalizeCLIPolicyMode (ec_PolicyMode c)) (\<lambda>policyMode.
                     res_bind (buildSandboxEnv c environ) (\<lambda>env.
                     ok (cliMounts platform absCWD explicit, trafficMode, policyMode,
                         withDockerBuildPATHEnv env (ci_Enabled (ec_DockerBuild c))))))) of
                  Inl e \<Rightarrow> Some (err e)
                | Inr (mounts, trafficMode, policyMode, env) \<Rightarrow>
                    map_option (\<lambda>r. res_bind r (\<lambda>pathMounts.
                      assembleRunConfig fs c payload absCWD trafficMode policyMode env (mounts @ pathMounts)))
                      (if platform \<noteq> ''darwin'' then pathAvailabilityMounts fs env absCWD mounts else Some (ok []))))"

definition buildConfig ::
  "cli_files \<Rightarrow> string \<Rightarrow> (string \<Rightarrow> yaml_result) \<Rightarrow> cliOptions \<Rightarrow> string list \<Rightarrow> string \<Rightarrow> string list \<Rightarrow> runConfig result option" where
  "buildConfig fs platform yaml opts payload cwd environ =
     (if payload = [] then Some (err ''payload command required after --'')
      else case absPath fs cwd of
             Inl e \<Rightarrow> Some (err (''resolve current working directory: '' @ e))
           | Inr absCWD \<Rightarrow>
               (case loadEffectiveCLIConfig fs yaml opts absCWD of
                  None \<Rightarrow> None
                | Some (Inl e) \<Rightarrow> Some (err e)
                | Some (Inr c) \<Rightarrow>
                    map_option (\<lambda>r. res_bind r (\<lambda>cfg. ok (cfg\<lparr>rc_printPolicy := co_printPolicy opts\<rparr>)))
                      (buildRunConfig fs platform c payload absCWD environ)))"

end
