(* ===== verification/Cli_Paths.thy ===== *)
theory Cli_Paths
  imports Cli_Run Cli_Layers
begin

section \<open>Properties of a run's configuration\<close>

text \<open>
  Building the configuration ends, whatever symbolic links the host has; the mounts that make the search
  path available never get in the way of the configured ones.
\<close>

subsection \<open>Termination\<close>

text \<open>A chain visits each link at most once.\<close>

lemma symlinkChain_returns:
  assumes "finite {p. fs_Lstat fs p = Inr True}"
  shows "\<exists>r. symlinkChain fs path seen dirs current = Some r"
proof (induction "card ({p. fs_Lstat fs p = Inr True} - seen)" arbitrary: seen dirs current rule: less_induct)
  case less
  let ?links = "{p. fs_Lstat fs p = Inr True}"
  show ?case
  proof (cases "current \<notin> seen \<and> fs_Lstat fs current = Inr True")
    case True
    then have "card (?links - insert current seen) < card (?links - seen)"
      using assms by (intro psubset_card_mono) auto
    from less[OF this] have onward: "\<exists>r. symlinkChain fs path (insert current seen) d c = Some r" for d c by blast
    show ?thesis
    proof (cases "fs_Readlink fs current")
      case (Inl e)
      with True show ?thesis by (subst symlinkChain.simps) simp
    next
      case (Inr target)
      with True onward show ?thesis by (subst symlinkChain.simps) (simp add: Let_def)
    qed
  next
    case False
    then show ?thesis by (subst symlinkChain.simps) (auto split: sum.split)
  qed
qed

lemma linkTargets_returns:
  assumes "finite {p. fs_Lstat fs p = Inr True}"
  shows "\<exists>r. linkTargets fs dir entries = Some r"
proof (induction entries)
  case (Cons entry entries)
  obtain name symlink where "entry = (name, symlink)" by fastforce
  moreover obtain r where "symlinkChainParentDirs fs (path_join [dir, name]) = Some r"
    using symlinkChain_returns[OF assms] unfolding symlinkChainParentDirs_def by blast
  ultimately show ?case using Cons by (cases r) auto
qed simp

lemma mountPathDirs_returns:
  assumes "finite {p. fs_Lstat fs p = Inr True}"
  shows "\<exists>r. mountPathDirs fs existing mounts ds = Some r"
proof (induction ds arbitrary: mounts)
  case (Cons d ds)
  have "\<exists>r. pathMountsForDir fs d = Some r"
    using linkTargets_returns[OF assms] by (auto simp: pathMountsForDir_def split: sum.splits)
  then obtain r where "pathMountsForDir fs d = Some r" by blast
  then show ?case using Cons by (cases r) auto
qed simp

text \<open>
  Building the configuration of a run always ends with a configuration or an error, provided
  the host has finitely many symbolic links: neither the search for the configuration file nor the links
  of the search path, cycles included, can make it go on for ever.
\<close>

theorem buildConfig_returns:
  assumes "finite {p. fs_Lstat fs p = Inr True}" and "\<forall>wd. fs_Getwd fs = Inr wd \<longrightarrow> is_rooted wd"
  shows "\<exists>r. buildConfig fs platform yaml opts payload cwd environ = Some r"
proof (cases "absPath fs cwd")
  case (Inl e)
  then show ?thesis by (simp add: buildConfig_def)
next
  case (Inr absCWD)
  have join_rooted: "is_rooted (path_join [wd, p])" if "is_rooted wd" for wd p
  proof -
    have "is_rooted (join ''/'' (filter (\<lambda>e. e \<noteq> []) [wd, p]))" using that by (auto simp: is_rooted_def)
    then show ?thesis using that by (auto simp: path_join_def Let_def path_clean_rooted is_rooted_def)
  qed
  have join_clean: "path_clean (path_join [wd, p]) = path_join [wd, p]" if "is_rooted wd" for wd p
  proof -
    have "is_rooted (join ''/'' (filter (\<lambda>e. e \<noteq> []) [wd, p]))" using that by (auto simp: is_rooted_def)
    then show ?thesis using that by (auto simp: path_join_def Let_def path_clean_idem_rooted is_rooted_def)
  qed
  have "is_rooted absCWD"
    using join_rooted Inr assms(2) by (auto simp: absPath_def res_bind_Inr path_clean_rooted is_rooted_def split: if_splits)
  then have "\<exists>r. loadSelectedCLIFileConfig fs yaml p absCWD = Some r" for p
    using findConfigLoop_ancestors[OF path_elems_plain, of fs absCWD]
    by (simp add: loadSelectedCLIFileConfig_def Let_def findConfigFile_def absPath_def path_clean_rooted dir_path_def)
  then obtain r where loaded: "loadEffectiveCLIConfig fs yaml opts absCWD = Some r"
    unfolding loadEffectiveCLIConfig_def by (metis option.simps(9))
  have "\<exists>r. pathAvailabilityMounts fs env absCWD mounts = Some r" for env mounts
    using mountPathDirs_returns[OF assms(1)] by (simp add: pathAvailabilityMounts_def split: option.split)
  moreover have "absPath fs absCWD = Inr absCWD"
    using Inr \<open>is_rooted absCWD\<close> join_clean assms(2) by (auto simp: absPath_def res_bind_Inr path_clean_idem_rooted split: if_splits)
  ultimately have "\<exists>r. buildRunConfig fs platform c payload absCWD environ = Some r" for c
    unfolding buildRunConfig_def by (auto split: sum.split)
  then show ?thesis using Inr loaded by (cases r) (auto simp: buildConfig_def)
qed

subsection \<open>Mounts of the search path\<close>

lemma mountTargetsOverlap_eq: "mountTargetsOverlap a b \<longleftrightarrow> targetsOverlap a b"
  by (simp add: mountTargetsOverlap_def targetsOverlap_def)

lemma mountOverlapsAny_iff: "mountOverlapsAny m ms \<longleftrightarrow> (\<exists>e \<in> set ms. targetsOverlap (mt_Target e) (mt_Target m))"
  by (auto simp: mountOverlapsAny_def mountTargetsOverlap_eq list_ex_iff)

definition path_mount :: "cli_files \<Rightarrow> Mount \<Rightarrow> bool" where
  "path_mount fs m \<longleftrightarrow> m = readOnlyBind (mt_Target m) \<and> (\<exists>info. fs_Stat fs (mt_Target m) = Inr info \<and> fi_IsDir info)"

definition mounts_apart :: "Mount list \<Rightarrow> Mount list \<Rightarrow> bool" where
  "mounts_apart existing ms \<longleftrightarrow> (\<forall>m \<in> set ms. \<forall>e \<in> set existing. \<not> targetsOverlap (mt_Target e) (mt_Target m)) \<and>
     sorted_wrt (\<lambda>a b. \<not> targetsOverlap (mt_Target a) (mt_Target b)) ms"

lemma directoryMounts_path: "directoryMounts fs targets = Inr ms \<Longrightarrow> list_all (path_mount fs) ms"
  by (induction targets arbitrary: ms)
    (auto simp: res_bind_Inr path_mount_def readOnlyBind_def split: sum.splits if_splits)

lemma pathMountsForDir_path: "pathMountsForDir fs dir = Some (Inr ms) \<Longrightarrow> list_all (path_mount fs) ms"
  by (auto simp: pathMountsForDir_def res_bind_Inr split: sum.splits if_splits dest: directoryMounts_path)

lemma addPathMounts_apart:
  "mounts_apart existing mounts \<Longrightarrow> list_all (path_mount fs) mounts \<Longrightarrow> list_all (path_mount fs) ms \<Longrightarrow>
   mounts_apart existing (addPathMounts existing mounts ms) \<and> list_all (path_mount fs) (addPathMounts existing mounts ms)"
proof (induction existing mounts ms rule: addPathMounts.induct)
  case (2 existing mounts m ms)
  show ?case
  proof (cases "mountOverlapsAny m (existing @ mounts)")
    case False
    then have "mounts_apart existing (mounts @ [m])"
      using 2(3) by (auto simp: mounts_apart_def mountOverlapsAny_iff sorted_wrt_append)
    then show ?thesis using 2(2)[OF False] 2(3-5) False by auto
  qed (use 2 in auto)
qed simp

lemma mountPathDirs_apart:
  "mountPathDirs fs existing mounts ds = Some (Inr ms) \<Longrightarrow> mounts_apart existing mounts \<Longrightarrow> list_all (path_mount fs) mounts \<Longrightarrow>
   mounts_apart existing ms \<and> list_all (path_mount fs) ms"
proof (induction fs existing mounts ds rule: mountPathDirs.induct)
  case (2 fs existing mounts dir ds)
  then show ?case
    using addPathMounts_apart[OF 2(3,4) pathMountsForDir_path, of dir] by (auto split: option.splits sum.splits)
qed simp

text \<open>
  C31. The mounts for the search path are read-only binds of existing directories to themselves; none
  lies inside or around a configured mount, the working directory or another of them, so that what the
  configuration mounts is what the program sees.
\<close>

theorem path_mounts_apart:
  assumes "pathAvailabilityMounts fs env cwd existing = Some (Inr ms)" and "i < length ms"
  shows "path_mount fs (ms ! i) \<and> (e \<in> set existing \<longrightarrow> \<not> targetsOverlap (mt_Target e) (mt_Target (ms ! i))) \<and>
     (j < length ms \<and> j \<noteq> i \<longrightarrow> \<not> targetsOverlap (mt_Target (ms ! i)) (mt_Target (ms ! j)))"
proof -
  have "mounts_apart existing []" by (simp add: mounts_apart_def)
  then have ms: "mounts_apart existing ms" "list_all (path_mount fs) ms"
    using assms(1) mountPathDirs_apart[of fs existing "[]" _ ms] by (auto simp: pathAvailabilityMounts_def mounts_apart_def split: option.splits)
  have "\<not> targetsOverlap (mt_Target (ms ! i)) (mt_Target (ms ! j))" if "j < length ms" "j \<noteq> i"
  proof -
    have ordered: "\<not> targetsOverlap (mt_Target (ms ! k)) (mt_Target (ms ! l))" if "k < l" "l < length ms" for k l
      using ms(1) that by (simp add: mounts_apart_def sorted_wrt_iff_nth_less)
    show ?thesis using ordered[of i j] ordered[of j i] that assms(2) targetsOverlap_sym[of "mt_Target (ms ! i)" "mt_Target (ms ! j)"]
      by (cases i j rule: linorder_cases) simp_all
  qed
  then show ?thesis using ms assms(2) by (auto simp: mounts_apart_def list_all_length)
qed

subsection \<open>Concrete instances\<close>

definition opt_files :: cli_files where
  "opt_files = \<lparr>fs_Getwd = ok ''/w'',
     fs_Stat = \<lambda>p. if p \<in> {''/opt'', ''/opt/bin''} then Inr \<lparr>fi_IsDir = True, fi_IsRegular = False, fi_Perm = 493\<rparr>
       else Inl (True, ''no such file''),
     fs_Lstat = \<lambda>p. Inl (True, ''no such file''), fs_Readlink = \<lambda>p. err ''no such file'', fs_EvalSymlinks = \<lambda>p. err ''no such file'',
     fs_ReadDir = \<lambda>p. ok [], fs_ReadFile = \<lambda>p. ok []\<rparr>"

theorem buildConfig_returns_witness:
  "\<exists>r. buildConfig opt_files ''linux'' (\<lambda>_. YamlDocument example_raw False) example_cli [''sh''] ''/w'' [''PATH=/opt/bin''] = Some r"
  by (rule buildConfig_returns) (simp_all add: opt_files_def is_rooted_def)

theorem path_mounts_apart_witness:
  "pathAvailabilityMounts opt_files [''PATH=/opt/bin''] ''/w'' [readOnlyBind ''/w''] = Some (Inr [readOnlyBind ''/opt'']) \<and>
   \<not> targetsOverlap ''/w'' ''/opt''"
proof -
  have p: "pathAvailabilityMounts opt_files [''PATH=/opt/bin''] ''/w'' [readOnlyBind ''/w''] = Some (Inr [readOnlyBind ''/opt''])"
    by code_simp
  from path_mounts_apart[OF this, of 0 "readOnlyBind ''/w''"] p show ?thesis by (simp add: readOnlyBind_def)
qed

subsection \<open>A run below a reserved directory\<close>

text \<open>
  A run that is started below \<^verbatim>\<open>/tmp\<close> or another directory of the sandbox's own never starts: the command
  line mounts the working directory, and the sandbox rejects the mount.
\<close>

theorem cwd_below_reserved_rejected:
  assumes "buildRunConfig fs ''linux'' c payload cwd environ = Some (Inr cfg)" and "is_rooted cwd"
    and "ec_Mounts c = []" and "path_elems cwd = ''tmp'' # rest"
  shows "validateMounts stat (op_Mounts (rc_sandbox cfg)) \<noteq> None"
proof
  assume accepted: "validateMounts stat (op_Mounts (rc_sandbox cfg)) = None"
  let ?m = "readOnlyBind (path_clean cwd)"
  from assms(1-3) have "?m \<in> set (op_Mounts (rc_sandbox cfg))"
    by (auto simp: buildRunConfig_def absPath_def assembleRunConfig_def cliMounts_def hasMount_def res_bind_Inr Let_def
        split: if_splits sum.splits)
  with validateMounts_accepts(1)[OF accepted] have ok: "mount_ok stat ?m" by (auto simp: list_all_iff)
  have rooted: "is_rooted (path_clean cwd)" using assms(2) by (simp add: path_clean_rooted is_rooted_def)
  have elems: "path_elems (path_clean cwd) = ''tmp'' # rest"
    using assms(2,4) path_elems_join[OF path_elems_plain, of cwd] by (simp add: path_clean_rooted)
  have "path_elems ''/tmp'' = [''tmp'']" "is_rooted ''/tmp''" by code_simp+
  then have "targetsOverlap (path_clean cwd) ''/tmp''" using elems overlap_comparable[OF rooted] by simp
  moreover have "''/tmp'' \<in> set reservedSandboxTargets" by code_simp
  ultimately have "path_clean (path_clean cwd) \<in> {''/usr'', ''/etc/alternatives''}"
    using ok by (auto simp: mount_ok_def readOnlyBind_def)
  then have "path_elems (path_clean cwd) \<in> {path_elems ''/usr'', path_elems ''/etc/alternatives''}"
    using path_clean_idem_rooted[OF assms(2)] by auto
  moreover have "path_elems ''/usr'' = [''usr'']" "path_elems ''/etc/alternatives'' = [''etc'', ''alternatives'']" by code_simp+
  ultimately show False using elems by simp
qed

end
