(* ===== verification/Sandbox_Runtime.thy ===== *)
theory Sandbox_Runtime
  imports Bwrap_Command Sandbox_Env Host_Held
begin

section \<open>Life cycle of a sandbox: sandbox.go, sandbox\_linux.go, sandbox\_runtime.go, staging.go\<close>

text \<open>
  Creating a sandbox stages its root, opens the bridge and the log, compiles the seccomp program,
  starts bubblewrap and the helper, and registers the sandbox with the manager. Every failure on
  the way gives back what was taken before. The history of host calls shows what is held.
  The darwin runtime and the reporting options are not modelled.
\<close>

subsection \<open>Errors\<close>

text \<open>\<^verbatim>\<open>errors.Join\<close>.\<close>

fun join_errors :: "error option \<Rightarrow> error option \<Rightarrow> error option" where
  "join_errors None e = e"
| "join_errors e None = e"
| "join_errors (Some a) (Some b) = Some (a @ [CHR 0x0A] @ b)"

subsection \<open>The payload's seccomp program: staging.go\<close>

definition defaultSandboxPayloadSeccompPath :: string where
  "defaultSandboxPayloadSeccompPath = ''/app/bbox-payload-seccomp.bpf''"

text \<open>A temporary file of the program also leaves its name in the file system.\<close>

fun seccomp_calls :: "file_event \<Rightarrow> host_call list" where
  "seccomp_calls (FileOpened (Memfd fd)) = [Open (SeccompFile (Memfd fd))]"
| "seccomp_calls (FileOpened (TempFile p)) = [Open (SeccompFile (TempFile p)), Created p]"
| "seccomp_calls (FileClosed f) = [Close (SeccompFile f)]"
| "seccomp_calls (PathRemoved p) = [Remove p]"

definition compile_io :: "'f libseccomp \<Rightarrow> program_calls \<Rightarrow> SeccompOptions \<Rightarrow> (8 word list) result io" where
  "compile_io lib pc opts =
     (\<lambda>t. case compileSeccompProgram lib pc opts of (r, evs) \<Rightarrow> (r, t @ concat (map seccomp_calls evs)))"

definition stagePayloadSeccompProgram ::
  "host \<Rightarrow> 'f libseccomp \<Rightarrow> program_calls \<Rightarrow> string \<Rightarrow> SeccompOptions \<Rightarrow> string result io" where
  "stagePayloadSeccompProgram h lib pc root opts =
     io_must (compile_io lib pc opts) (\<lambda>program.
       if program = [] then io_ok []
       else case SandboxPathInRoot root defaultSandboxPayloadSeccompPath of
              Inl e \<Rightarrow> io_err e
            | Inr dest \<Rightarrow>
                io_try (ctx (''mkdir '' @ filepath_Dir dest)) (os_MkdirAll h (filepath_Dir dest) 493) (\<lambda>_.
                io_try (ctx (''write '' @ dest))
                  (os_WriteFile h dest (map (\<lambda>b. char_of (unat b)) program) 420) (\<lambda>_.
                io_ok defaultSandboxPayloadSeccompPath)))"

subsection \<open>The helper process: sandbox\_linux.go\<close>

record linuxSandboxRuntime =
  rt_helperLogPath :: string
  rt_proxyAddr :: string

datatype wait_error = ExitError exit_status | WaitTimeout

definition waitWithTimeout :: "host \<Rightarrow> int \<Rightarrow> wait_error option io" where
  "waitWithTimeout h timeout = (\<lambda>t. let outcome = h_Wait h t timeout in
     (case outcome of
        Received ExitOk \<Rightarrow> None | Received s \<Rightarrow> Some (ExitError s) | TimedOut \<Rightarrow> Some WaitTimeout | SeenGone \<Rightarrow> None,
      t @ [Wait timeout outcome]))"

text \<open>\<^verbatim>\<open>SIGTERM\<close> is 15, \<^verbatim>\<open>SIGKILL\<close> 9.\<close>

definition normalizeHelperExit :: "wait_error option \<Rightarrow> wait_error option" where
  "normalizeHelperExit e = (case e of
     Some (ExitError (Signaled s)) \<Rightarrow> if s = 15 \<or> s = 9 then None else e
   | _ \<Rightarrow> e)"

definition helperLogContents :: "host \<Rightarrow> linuxSandboxRuntime \<Rightarrow> string io" where
  "helperLogContents h rt =
     io_bind (os_ReadFile h (rt_helperLogPath rt)) (\<lambda>r. case r of
       Inl e \<Rightarrow> io_return [] | Inr data \<Rightarrow> io_return (trim_space data))"

definition helperErrorSuffix :: "host \<Rightarrow> linuxSandboxRuntime \<Rightarrow> string io" where
  "helperErrorSuffix h rt =
     io_bind (helperLogContents h rt) (\<lambda>stderr.
       io_return (if trim_space stderr = [] then [] else '': '' @ trim_space stderr))"

definition wait_text :: "(int \<Rightarrow> string) \<Rightarrow> wait_error \<Rightarrow> string" where
  "wait_text signal_name e = (case e of
     WaitTimeout \<Rightarrow> ''timeout waiting for sandbox helper exit''
   | ExitError ExitOk \<Rightarrow> ''exit status 0''
   | ExitError (ExitCode n) \<Rightarrow> ''exit status '' @ itoa n
   | ExitError (Signaled s) \<Rightarrow> ''signal: '' @ signal_name s
   | ExitError (WaitFailed m) \<Rightarrow> m)"

definition os_Signal :: "host \<Rightarrow> int \<Rightarrow> error option io" where
  "os_Signal h s = io_call (\<lambda>t. h_Signal h t s) (Signal s)"

text \<open>
  One round of waiting again: when the last wait failed, the process gets a signal and another
  two seconds. An error of a process that has ended already is no error.
\<close>

definition escalate :: "host \<Rightarrow> int \<Rightarrow> string \<Rightarrow> wait_error option \<Rightarrow> (error option \<times> wait_error option) io" where
  "escalate h s what waitErr =
     (if waitErr = None then io_return (None, None)
      else
        io_bind (os_Signal h s) (\<lambda>e.
        io_bind (waitWithTimeout h 2000) (\<lambda>w.
        io_return (map_option (ctx (what @ '' sandbox helper'')) e, w))))"

text \<open>The contents of the log that are kept when its file is removed.\<close>

definition cacheAndRemoveHelperLog :: "host \<Rightarrow> linuxSandboxRuntime \<Rightarrow> string io" where
  "cacheAndRemoveHelperLog h rt =
     io_bind (os_Close h HelperLog) (\<lambda>_.
     io_bind (os_ReadFile h (rt_helperLogPath rt)) (\<lambda>r.
     io_bind (os_Remove h (rt_helperLogPath rt)) (\<lambda>_.
     io_return (case r of Inl e \<Rightarrow> [] | Inr data \<Rightarrow> trim_space data))))"

definition waitError :: "host \<Rightarrow> (int \<Rightarrow> string) \<Rightarrow> linuxSandboxRuntime \<Rightarrow> wait_error option \<Rightarrow> error option io" where
  "waitError h signal_name rt w =
     (case normalizeHelperExit w of
        None \<Rightarrow> io_return None
      | Some e \<Rightarrow> io_bind (helperErrorSuffix h rt) (\<lambda>suffix.
          io_return (Some (''wait for sandbox helper: '' @ wait_text signal_name e @ suffix))))"

definition runtimeClose ::
  "host \<Rightarrow> (int \<Rightarrow> string) \<Rightarrow> linuxSandboxRuntime \<Rightarrow> (error option \<times> string) io" where
  "runtimeClose h signal_name rt =
     io_bind (io_call (h_CloseClient h) CloseClient) (\<lambda>clientErr.
     io_bind (waitWithTimeout h 5000) (\<lambda>w1.
     io_bind (escalate h 15 ''signal'' w1) (\<lambda>(termErr, w2).
     io_bind (escalate h 9 ''kill'' w2) (\<lambda>(killErr, w3).
     io_bind (waitError h signal_name rt w3) (\<lambda>waitErr.
     io_bind (cacheAndRemoveHelperLog h rt) (\<lambda>cached.
     io_return (join_errors (join_errors (join_errors
       (map_option (ctx ''close sandbox bridge'') clientErr) termErr) killErr) waitErr, cached)))))))"

text \<open>The bridge is a pair of sockets: both ends or none.\<close>

definition openBridgePair :: "host \<Rightarrow> unit result io" where
  "openBridgePair h =
     io_bind (os_Open h BridgeParent) (\<lambda>r. case r of
       Inl e \<Rightarrow> io_err (''create sandbox bridge socketpair: '' @ e)
     | Inr _ \<Rightarrow> (\<lambda>t. (Inr (), t @ [Open BridgeChild])))"

definition dropLog :: "host \<Rightarrow> string \<Rightarrow> unit io" where
  "dropLog h path = io_bind (os_Close h HelperLog) (\<lambda>_. io_bind (os_Remove h path) (\<lambda>_. io_return ()))"

definition dropBridges :: "host \<Rightarrow> unit io" where
  "dropBridges h = io_bind (os_Close h BridgeChild) (\<lambda>_. io_bind (os_Close h BridgeParent) (\<lambda>_. io_return ()))"

definition abandon :: "host \<Rightarrow> string \<Rightarrow> unit io \<Rightarrow> error \<Rightarrow> 'a result io" where
  "abandon h root cleanup e = io_bind cleanup (\<lambda>_. io_bind (os_RemoveAll h root) (\<lambda>_. io_err e))"

definition os_CreateTemp :: "host \<Rightarrow> string result io" where
  "os_CreateTemp h = (\<lambda>t. case os_Open h HelperLog t of (Inl e, t') \<Rightarrow> (Inl e, t') | (Inr _, t') \<Rightarrow> (Inr (h_TempName h t), t' @ [Created (h_TempName h t)]))"

definition startHelper ::
  "host \<Rightarrow> (int \<Rightarrow> string) \<Rightarrow> TrafficMode \<Rightarrow> string \<Rightarrow> string \<Rightarrow> (linuxSandboxRuntime \<times> string) result io" where
  "startHelper h signal_name mode root logPath =
     io_else (io_call (h_StartProcess h) StartProcess)
       (\<lambda>e. abandon h root (io_bind (dropLog h logPath) (\<lambda>_. dropBridges h)) (''start bwrap helper: '' @ e)) (\<lambda>_.
     io_bind (os_Close h BridgeChild) (\<lambda>_.
     let rt = \<lparr>rt_helperLogPath = logPath, rt_proxyAddr = []\<rparr> in
     io_else (io_call (h_StartClient h) StartClient)
       (\<lambda>e. io_bind (runtimeClose h signal_name rt) (\<lambda>(_, cached). io_bind (os_RemoveAll h root) (\<lambda>_.
            io_err (''start sandbox helper: '' @ e @ (if trim_space cached = [] then [] else '': '' @ trim_space cached))))) (\<lambda>proxyAddr.
     io_ok (if mode = ''proxy'' then rt\<lparr>rt_proxyAddr := proxyAddr\<rparr> else rt, root))))"

definition newLinuxSandboxRuntime ::
  "host \<Rightarrow> nat \<Rightarrow> 'f libseccomp \<Rightarrow> program_calls \<Rightarrow> (int \<Rightarrow> string) \<Rightarrow> string \<Rightarrow> ProxyManager \<Rightarrow> SandboxOptions \<Rightarrow>
   TrafficMode \<Rightarrow> dockerSocketMount option \<Rightarrow> (linuxSandboxRuntime \<times> string) result io" where
  "newLinuxSandboxRuntime h fuel lib pc signal_name caPEM m opts mode dockerMount =
     io_must (io_call (h_RuntimeBinary h) RuntimeBinary) (\<lambda>runtimeBinary.
     io_must (Stage h fuel \<lparr>so_Binaries = op_Binaries opts, so_DockerBuild = op_DockerBuild opts\<rparr> runtimeBinary caPEM) (\<lambda>staged.
     let root = sr_Root staged in
     io_else (openBridgePair h) (abandon h root (io_return ())) (\<lambda>_.
     io_else (os_CreateTemp h) (\<lambda>e. abandon h root (dropBridges h) (''create helper log file: '' @ e)) (\<lambda>logPath.
     let drop = io_bind (dropLog h logPath) (\<lambda>_. dropBridges h) in
     io_else (stagePayloadSeccompProgram h lib pc root
                (effectiveSeccompOptions (db_Enabled (op_DockerBuild opts)) (op_Seccomp opts)))
       (abandon h root drop) (\<lambda>payloadSeccompBPFPath.
     io_else (buildLinuxSandboxCommand h
         \<lparr>bc_runtimeBinary = runtimeBinary, bc_root = root, bc_proxyListenAddr = mg_listenAddr m,
          bc_mitmEnabled = mg_mitmEnabled m, bc_opts = opts, bc_builder = sr_Builder staged, bc_mode = mode,
          bc_payloadSeccompPath = payloadSeccompBPFPath, bc_bridgeFD = 3, bc_seccompFD = -1,
          bc_extraFiles = [BridgeChild], bc_dockerSocketMount = dockerMount,
          bc_maxRequestBody = mg_requestBodyLimitBytes m\<rparr>)
       (abandon h root drop) (\<lambda>cmd.
     startHelper h signal_name mode root logPath))))))"

subsection \<open>The docker socket proxy of a sandbox: docker\_socket\_proxy.go\<close>

record dockerSocketProxy =
  ps_socketPath :: string
  ps_socketDir :: string

definition startDockerSocketProxy ::
  "host \<Rightarrow> string \<Rightarrow> DockerSocketOptions \<Rightarrow> dockerSocketProxy result io" where
  "startDockerSocketProxy h sandboxID opts =
     (if trim_space sandboxID = [] then io_err ''sandbox ID is required''
      else if \<not> do_Enabled opts then io_err ''docker socket mediation is not enabled''
      else
        io_try (ctx ''create docker proxy temp dir'')
          (os_MkdirTemp h (''bbox-docker-socket-'' @ sanitizeDockerSocketSandboxID sandboxID @ ''-'')) (\<lambda>socketDir.
        io_else (os_Open h DockerListener)
          (\<lambda>e. abandon h socketDir (io_return ()) (''listen docker proxy socket: '' @ e)) (\<lambda>_.
        let socketPath = path_join [socketDir, ''docker.sock''] in
        (\<lambda>t. (Inr \<lparr>ps_socketPath = socketPath, ps_socketDir = socketDir\<rparr>, t @ [Created socketPath])))))"

text \<open>Errors of a listener that is closed and of files that are gone are not reported by the host.\<close>

definition closeDockerSocketProxy :: "host \<Rightarrow> dockerSocketProxy \<Rightarrow> error option io" where
  "closeDockerSocketProxy h p =
     io_bind (io_call (h_CloseServer h) CloseServer) (\<lambda>serverErr.
     io_bind (os_Close h DockerListener) (\<lambda>listenErr.
     io_bind (if ps_socketPath p \<noteq> [] then os_Remove h (ps_socketPath p) else io_return None) (\<lambda>socketErr.
     io_bind (if ps_socketDir p \<noteq> [] then os_RemoveAll h (ps_socketDir p) else io_return None) (\<lambda>dirErr.
     io_return (join_errors (join_errors (join_errors serverErr listenErr)
       (map_option (ctx (''remove docker proxy socket '' @ go_quote (ps_socketPath p))) socketErr))
       (map_option (ctx (''remove docker proxy dir '' @ go_quote (ps_socketDir p))) dirErr))))))"

subsection \<open>Sandboxes: sandbox.go\<close>

record sandbox_handle = Sandbox +
  hd_root :: string
  hd_runtime :: linuxSandboxRuntime
  hd_proxyAddr :: string
  hd_baseEnv :: "string list"
  hd_workDir :: string
  hd_dockerSocketProxy :: "dockerSocketProxy option"
  hd_dockerSocketPath :: string
  hd_dockerSocketMount :: string
  hd_registered :: bool
  hd_closed :: "error option option"

definition stat_error :: "host \<Rightarrow> history \<Rightarrow> string \<Rightarrow> string option" where
  "stat_error h t p = (case h_Stat h t p of Inl e \<Rightarrow> Some e | Inr _ \<Rightarrow> None)"

definition validateSandboxOptions ::
  "string \<Rightarrow> (string \<Rightarrow> string option) \<Rightarrow> SandboxOptions \<Rightarrow> bool \<Rightarrow> error option" where
  "validateSandboxOptions sandboxPlatform stat opts mitmEnabled =
     (let mountPath = trim_space (do_MountPath (op_DockerSocket opts));
          targetSocketPath = trim_space (do_TargetSocketPath (op_DockerSocket opts));
          mode = normalizeTrafficMode (op_TrafficMode opts) in
      if op_WorkDir opts \<noteq> [] \<and> \<not> is_rooted (op_WorkDir opts)
      then Some (''sandbox workdir '' @ go_quote (op_WorkDir opts) @ '' must be absolute'')
      else if mountPath \<noteq> [] \<and> \<not> is_rooted mountPath
      then Some (''docker socket mount path '' @ go_quote (do_MountPath (op_DockerSocket opts)) @ '' must be absolute'')
      else if targetSocketPath \<noteq> [] \<and> \<not> is_rooted targetSocketPath
      then Some (''docker socket target socket path '' @ go_quote (do_TargetSocketPath (op_DockerSocket opts)) @
                 '' must be absolute'')
      else if mode \<noteq> ''proxy'' \<and> mode \<noteq> ''transparent''
      then Some (''sandbox traffic mode '' @ go_quote (op_TrafficMode opts) @ '' is not supported'')
      else case normalizePolicyMode (op_PolicyMode opts) of
        Inl e \<Rightarrow> Some e
      | Inr _ \<Rightarrow>
          if sandboxPlatform = ''darwin'' then
            (if mode = ''transparent'' then Some (errUnsupportedPlatformFeature ''darwin'' ''transparent traffic mode'')
             else if op_Mounts opts \<noteq> [] then Some ''mounts are not supported on darwin''
             else if \<not> isZeroSeccompOptions (op_Seccomp opts)
             then Some (errUnsupportedPlatformFeature ''darwin'' ''seccomp'')
             else None)
          else case validateMounts stat (op_Mounts opts) of
            Some e \<Rightarrow> Some e
          | None \<Rightarrow>
              if mode = ''transparent'' \<and> \<not> mitmEnabled
              then Some ''transparent traffic mode requires MITM to be enabled''
              else validateSeccompOptions (op_Seccomp opts))"

definition removeAllForceWritable :: "host \<Rightarrow> string \<Rightarrow> error option io" where
  "removeAllForceWritable h root = io_bind (io_call (\<lambda>t. ()) (Walk root)) (\<lambda>_. os_RemoveAll h root)"

text \<open>
  \<^verbatim>\<open>Close\<close> does its work once; later calls give the same error. It changes the sandbox and, through
  the registry, the manager.
\<close>

definition closeSandbox ::
  "host \<Rightarrow> (int \<Rightarrow> string) \<Rightarrow> ProxyManager \<Rightarrow> sandbox_handle \<Rightarrow> (error option \<times> sandbox_handle \<times> ProxyManager) io" where
  "closeSandbox h signal_name m s =
     (case hd_closed s of
        Some e \<Rightarrow> io_return (e, s, m)
      | None \<Rightarrow>
          io_bind (runtimeClose h signal_name (hd_runtime s)) (\<lambda>(runtimeErr, _).
          io_bind (case hd_dockerSocketProxy s of
                     None \<Rightarrow> io_return None | Some p \<Rightarrow> closeDockerSocketProxy h p) (\<lambda>proxyErr.
          let m' = (if hd_registered s then unregisterSandbox m (sb_id s) else m) in
          io_bind (if hd_root s \<noteq> [] then removeAllForceWritable h (hd_root s) else io_return None) (\<lambda>rootErr.
          let e = join_errors (join_errors runtimeErr proxyErr)
                (map_option (ctx (''remove staged root '' @ go_quote (hd_root s))) rootErr);
              s' = (if hd_dockerSocketProxy s = None then s
                    else s\<lparr>hd_dockerSocketProxy := None, hd_dockerSocketPath := [], hd_dockerSocketMount := []\<rparr>) in
          io_return (e, s'\<lparr>hd_registered := False, hd_closed := Some e\<rparr>, m')))))"

text \<open>
  Running a program: the options of one run with the sandbox's environment and working directory.
  \<open>client\<close> is the helper client. The standard streams and the terminal are handed on unchanged, in the
  record's extension.
\<close>

record RunOptions =
  ro_Env :: "string list"
  ro_WorkDir :: string
  ro_Interactive :: bool

definition runSandbox ::
  "(string list \<Rightarrow> 'z RunOptions_scheme \<Rightarrow> 'r result) \<Rightarrow> sandbox_handle \<Rightarrow> string list \<Rightarrow> 'z RunOptions_scheme \<Rightarrow> bool \<Rightarrow>
   'r result" where
  "runSandbox client s argv opts interactive =
     (if argv = [] then err ''argv must not be empty''
      else client argv (opts\<lparr>
        ro_Env := mergeEnv [hd_baseEnv s, ro_Env opts],
        ro_WorkDir := (if ro_WorkDir opts = [] then hd_workDir s else ro_WorkDir opts),
        ro_Interactive := ro_Interactive opts \<or> interactive\<rparr>))"

definition ProxyAddr :: "sandbox_handle \<Rightarrow> string" where
  "ProxyAddr s =
     (if normalizeTrafficMode (sb_trafficMode s) \<noteq> ''proxy'' then []
      else if rt_proxyAddr (hd_runtime s) \<noteq> [] then rt_proxyAddr (hd_runtime s)
      else hd_proxyAddr s)"

definition ProxyURL :: "sandbox_handle \<Rightarrow> string" where
  "ProxyURL s = (if ProxyAddr s = [] then [] else proxyURL (ProxyAddr s))"

definition newSandboxRuntime ::
  "host \<Rightarrow> nat \<Rightarrow> 'f libseccomp \<Rightarrow> program_calls \<Rightarrow> (int \<Rightarrow> string) \<Rightarrow> string \<Rightarrow>
   (linuxSandboxRuntime \<times> string) result io \<Rightarrow> ProxyManager \<Rightarrow> SandboxOptions \<Rightarrow>
   TrafficMode \<Rightarrow> dockerSocketMount option \<Rightarrow> (linuxSandboxRuntime \<times> string) result io" where
  "newSandboxRuntime h fuel lib pc signal_name caPEM darwin m opts mode dockerMount =
     (if h_GOOS h = ''linux'' then newLinuxSandboxRuntime h fuel lib pc signal_name caPEM m opts mode dockerMount
      else if h_GOOS h = ''darwin'' then darwin
      else io_err (''bbox sandbox is not supported on '' @ h_GOOS h))"

definition newHandle ::
  "string \<Rightarrow> TrafficMode \<Rightarrow> PolicyMode \<Rightarrow> SandboxOptions \<Rightarrow> linuxSandboxRuntime \<times> string \<Rightarrow>
   DockerSocketOptions \<Rightarrow> dockerSocketProxy option \<Rightarrow> sandbox_handle" where
  "newHandle sandboxID mode policyMode opts setup docker proxy =
     (let proxyAddr = (if mode = ''proxy'' then rt_proxyAddr (fst setup) else []);
          baseEnv = (if db_Enabled (op_DockerBuild opts) then withDockerBuildPATHEnvEntries (op_Env opts) else op_Env opts) in
      \<lparr>sb_id = sandboxID, sb_trafficMode = mode, sb_policyMode = policyMode, hd_root = snd setup, hd_runtime = fst setup,
       hd_proxyAddr = proxyAddr, hd_baseEnv = the (runEnvForTrafficMode mode proxyAddr baseEnv), hd_workDir = op_WorkDir opts,
       hd_dockerSocketProxy = proxy,
       hd_dockerSocketPath = (case proxy of None \<Rightarrow> [] | Some p \<Rightarrow> ps_socketPath p),
       hd_dockerSocketMount = (if proxy = None then [] else do_MountPath docker),
       hd_registered = False, hd_closed = None\<rparr>)"

text \<open>Registration; on failure the new sandbox is closed.\<close>

definition enroll ::
  "host \<Rightarrow> (int \<Rightarrow> string) \<Rightarrow> ProxyManager \<Rightarrow> compiledPolicy \<Rightarrow> sandbox_handle \<Rightarrow> (sandbox_handle result \<times> ProxyManager) io" where
  "enroll h signal_name m policy s =
     (case registerSandbox m (sb_id s) (Some policy) of
        Inl e \<Rightarrow> io_bind (closeSandbox h signal_name m s) (\<lambda>(_, _, m'). io_return (Inl e, m'))
      | Inr m1 \<Rightarrow>
          let s = s\<lparr>hd_registered := True\<rparr> in
          (case attachSandbox m1 (sb_id s) (Sandbox.truncate s) of
             Inl e \<Rightarrow> io_bind (closeSandbox h signal_name m1 s) (\<lambda>(_, _, m'). io_return (Inl e, m'))
           | Inr m2 \<Rightarrow> io_return (Inr s, m2)))"

definition launch ::
  "host \<Rightarrow> nat \<Rightarrow> 'f libseccomp \<Rightarrow> program_calls \<Rightarrow> (int \<Rightarrow> string) \<Rightarrow> string \<Rightarrow>
   (linuxSandboxRuntime \<times> string) result io \<Rightarrow> ProxyManager \<Rightarrow> SandboxOptions \<Rightarrow> string \<Rightarrow> TrafficMode \<Rightarrow> PolicyMode \<Rightarrow>
   DockerSocketOptions \<Rightarrow> sandbox_handle result io" where
  "launch h fuel lib pc signal_name caPEM darwin m opts sandboxID mode policyMode docker =
     io_must (if do_Enabled docker
              then io_must (startDockerSocketProxy h sandboxID docker) (\<lambda>p. io_ok (Some p)) else io_ok None) (\<lambda>proxy.
     io_else (newSandboxRuntime h fuel lib pc signal_name caPEM darwin m opts mode
                (map_option (\<lambda>p. \<lparr>dm_HostPath = ps_socketPath p, dm_SandboxPath = do_MountPath docker\<rparr>) proxy))
       (\<lambda>e. io_bind (case proxy of None \<Rightarrow> io_return None | Some p \<Rightarrow> closeDockerSocketProxy h p) (\<lambda>_. io_err e))
       (\<lambda>setup. io_ok (newHandle sandboxID mode policyMode opts setup docker proxy)))"

definition NewSandbox ::
  "host \<Rightarrow> nat \<Rightarrow> 'f libseccomp \<Rightarrow> program_calls \<Rightarrow> (int \<Rightarrow> string) \<Rightarrow> string \<Rightarrow> regexp_compile \<Rightarrow>
   (linuxSandboxRuntime \<times> string) result io \<Rightarrow> ProxyManager \<Rightarrow> SandboxOptions \<Rightarrow> (sandbox_handle result \<times> ProxyManager) io" where
  "NewSandbox h fuel lib pc signal_name caPEM re darwin m opts = (\<lambda>t.
     case validateSandboxOptions (h_GOOS h) (stat_error h t) opts (mg_mitmEnabled m) of
       Some e \<Rightarrow> ((Inl e, m), t)
     | None \<Rightarrow>
        (let mode = normalizeTrafficMode (op_TrafficMode opts) in
         case normalizePolicyMode (if op_PolicyMode opts \<noteq> [] then op_PolicyMode opts else mg_policyMode m) of
           Inl e \<Rightarrow> ((Inl e, m), t)
         | Inr policyMode \<Rightarrow>
            (case compilePolicy re (op_Policy opts) of
               Inl e \<Rightarrow> ((Inl e, m), t)
             | Inr policy \<Rightarrow>
                (case effectiveDockerSocketConfig re m (op_DockerSocket opts) of
                   Inl e \<Rightarrow> ((Inl e, m), t)
                 | Inr (docker, dockerPolicy) \<Rightarrow>
                    (case validateEffectiveDockerSocketOptions (h_GOOS h) docker (op_Mounts opts) of
                       Some e \<Rightarrow> ((Inl e, m), t)
                     | None \<Rightarrow>
                        (case nextSandboxName m (op_Name opts) of
                           (m1, sandboxID) \<Rightarrow>
                             (case launch h fuel lib pc signal_name caPEM darwin m1 opts sandboxID mode policyMode docker t of
                                (Inl e, t') \<Rightarrow> ((Inl e, m1), t')
                              | (Inr s, t') \<Rightarrow> enroll h signal_name m1 policy s t')))))))"

end
