(* ===== verification/Sandbox_Life.thy ===== *)
theory Sandbox_Life
  imports Sandbox_Runtime
begin

section \<open>A sandbox gives back what it takes\<close>

text \<open>
  The operations of a sandbox's life as triples over the held items, and from them: a failed
  \<^verbatim>\<open>NewSandbox\<close> leaves nothing behind, and \<^verbatim>\<open>Close\<close> gives back everything that a successful one took.
\<close>

abbreviation quiet :: "host_call \<Rightarrow> bool" where
  "quiet c \<equiv> \<forall>M. hold M c = M"

lemma triple_conseq: "triple P m Q \<Longrightarrow> P' = P + F \<Longrightarrow> (\<And>x. Q' x = Q x + F) \<Longrightarrow> triple P' m Q'"
proof -
  assume "triple P m Q" "P' = P + F" and eq: "\<And>x. Q' x = Q x + F"
  moreover have "Q' = (\<lambda>x. Q x + F)" using eq by (rule ext)
  ultimately show ?thesis using triple_frame[of P m Q F] by simp
qed

lemma case_sum_same [simp]: "(case x of Inl e \<Rightarrow> P | Inr y \<Rightarrow> P) = P"
  by (cases x) auto

subsection \<open>Single calls\<close>

lemma triple_open: "triple P (os_Open h r) (\<lambda>x. case x of Inl e \<Rightarrow> P | Inr _ \<Rightarrow> P + {#Res r#})"
  by (rule tripleI) (auto simp: os_Open_def split: sum.splits)

lemma triple_mkdirTemp: "triple P (os_MkdirTemp h p) (\<lambda>x. case x of Inl e \<Rightarrow> P | Inr d \<Rightarrow> P + {#Dir d#})"
  by (rule tripleI) (auto simp: os_MkdirTemp_def split: sum.splits)

lemma triple_close: "triple (P + {#Res r#}) (os_Close h r) (\<lambda>_. P)"
  unfolding os_Close_def by (rule triple_call) (simp add: ac_simps)

lemma triple_remove: "triple (P + {#File p#}) (os_Remove h p) (\<lambda>_. P)"
  unfolding os_Remove_def by (rule triple_call) (simp add: ac_simps)

lemma triple_removeAll: "triple (P + {#Dir d#}) (os_RemoveAll h d) (\<lambda>_. P)"
  unfolding os_RemoveAll_def by (rule triple_call) (simp add: ac_simps)

lemma triple_silent: "quiet c \<Longrightarrow> triple P (io_call a c) (\<lambda>_. P)"
  by (rule triple_call) simp

lemma triple_created: "triple P (\<lambda>t. (x, t @ [Created p])) (\<lambda>_. P + {#File p#})"
  by (rule tripleI) auto

lemmas triple_calls = triple_close triple_remove triple_removeAll

lemma triple_prod: "(\<And>a b. x = (a, b) \<Longrightarrow> triple P (f a b) Q) \<Longrightarrow> triple P (case x of (a, b) \<Rightarrow> f a b) Q"
  by (cases x) auto

lemma triple_let: "(\<And>x. x = v \<Longrightarrow> triple P (f x) Q) \<Longrightarrow> triple P (Let v f) Q"
  by simp

lemma triple_option:
  "(x = None \<Longrightarrow> triple P m Q) \<Longrightarrow> (\<And>y. x = Some y \<Longrightarrow> triple P (f y) Q) \<Longrightarrow>
   triple P (case x of None \<Rightarrow> m | Some y \<Rightarrow> f y) Q"
  by (cases x) auto

lemma triple_if: "(b \<Longrightarrow> triple P m Q) \<Longrightarrow> (\<not> b \<Longrightarrow> triple P m' Q) \<Longrightarrow> triple P (if b then m else m') Q"
  by simp

lemma triple_readFile: "triple P (os_ReadFile h p) (\<lambda>_. P)"
  unfolding os_ReadFile_def by (rule triple_silent) simp

subsection \<open>Pieces\<close>

lemma triple_bridge:
  "triple P (openBridgePair h) (\<lambda>x. case x of Inl e \<Rightarrow> P | Inr _ \<Rightarrow> P + {#Res BridgeParent#} + {#Res BridgeChild#})"
  by (rule tripleI) (auto simp: openBridgePair_def io_bind_def io_return_def os_Open_def split: sum.splits)

lemma triple_createTemp:
  "triple P (os_CreateTemp h) (\<lambda>x. case x of Inl e \<Rightarrow> P | Inr path \<Rightarrow> P + {#File path#} + {#Res HelperLog#})"
  by (rule tripleI) (auto simp: os_CreateTemp_def os_Open_def split: sum.splits)

lemma triple_dropLog: "triple (P + {#File path#} + {#Res HelperLog#}) (dropLog h path) (\<lambda>_. P)"
  unfolding dropLog_def by (intro triple_bind[OF triple_close] triple_bind[OF triple_remove] triple_return refl)

lemma triple_dropBridges: "triple (P + {#Res BridgeParent#} + {#Res BridgeChild#}) (dropBridges h) (\<lambda>_. P)"
  unfolding dropBridges_def by (intro triple_bind[OF triple_close] triple_return refl)

lemma triple_drop:
  "triple (P + {#Res BridgeParent#} + {#Res BridgeChild#} + {#File path#} + {#Res HelperLog#})
     (io_bind (dropLog h path) (\<lambda>_. dropBridges h)) (\<lambda>_. P)"
  by (rule triple_bind[OF triple_dropLog triple_dropBridges])

lemma triple_abandon:
  "triple P cleanup (\<lambda>_. Q + {#Dir root#}) \<Longrightarrow> Q = R (Inl e) \<Longrightarrow> triple P (abandon h root cleanup e) R"
  unfolding abandon_def by (erule triple_bind, rule triple_bind[OF triple_removeAll], rule triple_return, simp)

lemma triple_stage:
  assumes "\<forall>t p root. h_MkdirTemp h t p = Inr root \<longrightarrow> is_rooted root"
  shows "triple P (Stage h fuel opts bin pem) (\<lambda>x. case x of Inl e \<Rightarrow> P | Inr s \<Rightarrow> P + {#Dir (sr_Root s)#})"
proof (rule tripleI)
  fix t x t'
  assume run: "Stage h fuel opts bin pem t = (x, t')"
  have q: "foldl hold M cs = M" if "list_all (confined root) cs" for root cs M
    using that confined_quiet by (intro foldl_quiet) (auto simp: list_all_iff)
  show "\<exists>cs. t' = t @ cs \<and> (\<forall>M. foldl hold (M + P) cs = M + (case x of Inl e \<Rightarrow> P | Inr s \<Rightarrow> P + {#Dir (sr_Root s)#}))"
    using Stage_calls[OF assms, where t = t and fuel = fuel and opts = opts and bin = bin and pem = pem] run
    by (cases x) (auto simp: q)
qed

lemma compile_events: "snd (compileSeccompProgram lib pc opts) = [] \<or> (\<exists>f. snd (compileSeccompProgram lib pc opts) = FileOpened f # closeProgram f)"
  by (auto simp: compileSeccompProgram_def prepareSeccompProgram_def Let_def split: option.splits sum.splits prod.splits if_splits)

lemma triple_compile: "triple P (compile_io lib pc opts) (\<lambda>_. P)"
proof (rule tripleI)
  fix t x t'
  assume "compile_io lib pc opts t = (x, t')"
  then have t': "t' = t @ concat (map seccomp_calls (snd (compileSeccompProgram lib pc opts)))"
    by (auto simp: compile_io_def split: prod.splits)
  have "foldl hold M (concat (map seccomp_calls (FileOpened f # closeProgram f))) = M" for M f
    by (cases f) (auto simp: closeProgram_def)
  with compile_events[of lib pc opts] have "foldl hold M (concat (map seccomp_calls (snd (compileSeccompProgram lib pc opts)))) = M" for M
    by auto
  with t' show "\<exists>cs. t' = t @ cs \<and> (\<forall>M. foldl hold (M + P) cs = M + P)" by blast
qed

lemma triple_payload: "triple P (stagePayloadSeccompProgram h lib pc root opts) (\<lambda>_. P)"
  unfolding stagePayloadSeccompProgram_def
proof (rule triple_try[where Q = "\<lambda>_. P" and E = P])
  show "triple P (compile_io lib pc opts) (\<lambda>r. case r of Inl e \<Rightarrow> P | Inr x \<Rightarrow> P)"
    using triple_compile by simp
qed (auto simp: os_defs intro!: triple_quiet calls_intros)

lemma calls_command: "calls quiet (buildLinuxSandboxCommand h cfg)"
proof -
  have r: "calls quiet (ResolveDockerBuildSupport h opts)" for opts
    by (rule calls_mono[OF calls_builder]) (metis confined_quiet reading_confined)
  have d: "calls quiet (stagedDirs h root dirs)" for root dirs
    by (induction dirs) (auto simp: os_defs intro!: calls_intros)
  show ?thesis
    unfolding buildLinuxSandboxCommand_def builderTooling_def commandMounts_def appendBuilderMounts_def
      prepareRuntimeMounts_def prepareRuntimeMount_def materializeReservedMountTarget_def buildBwrapArgs_def os_defs
    by (intro calls_intros calls_return r d) auto
qed

lemma triple_command: "triple P (buildLinuxSandboxCommand h cfg) (\<lambda>_. P)"
  by (rule triple_quiet[OF calls_command])

subsection \<open>The helper\<close>

lemma triple_runtimeClose:
  "triple (P + {#File (rt_helperLogPath rt)#} + {#Res HelperLog#} + {#Res BridgeParent#}) (runtimeClose h sn rt) (\<lambda>_. P)"
proof -
  let ?P = "P + {#File (rt_helperLogPath rt)#} + {#Res HelperLog#}"
  have client: "triple (?P + {#Res BridgeParent#}) (io_call a CloseClient) (\<lambda>_. ?P)" for a :: "history \<Rightarrow> error option"
    by (rule triple_call) (simp add: ac_simps)
  have wait: "triple Q (waitWithTimeout h d) (\<lambda>_. Q)" for Q d
    by (rule tripleI) (auto simp: waitWithTimeout_def Let_def)
  have esc: "triple Q (escalate h s what w) (\<lambda>_. Q)" for Q s what w
    unfolding escalate_def os_Signal_def
    by (auto intro!: triple_return triple_bind[OF triple_silent] triple_bind[OF wait])
  have waitErr: "triple Q (waitError h sn rt w) (\<lambda>_. Q)" for Q w
    unfolding waitError_def helperErrorSuffix_def helperLogContents_def os_defs
    by (rule triple_quiet) (auto intro!: calls_intros split: option.split)
  have log: "triple ?P (cacheAndRemoveHelperLog h rt) (\<lambda>_. P)"
    unfolding cacheAndRemoveHelperLog_def
    by (rule triple_bind[OF triple_close], rule triple_bind[OF triple_readFile], rule triple_bind[OF triple_remove], rule triple_return, rule refl)
  show ?thesis
    unfolding runtimeClose_def
    by (intro triple_bind[OF client] triple_bind[OF wait] triple_bind[OF esc] triple_prod triple_bind[OF waitErr]
        triple_bind[OF log] triple_return refl)
qed

text \<open>What a running sandbox holds.\<close>

definition runtime_items :: "linuxSandboxRuntime \<times> string \<Rightarrow> item multiset" where
  "runtime_items setup =
     {#Dir (snd setup), Res BridgeParent, Res HelperLog, File (rt_helperLogPath (fst setup))#}"

lemma triple_startHelper:
  "triple (P + {#Dir root#} + {#Res BridgeParent#} + {#Res BridgeChild#} + {#File log#} + {#Res HelperLog#})
     (startHelper h sn mode root log)
     (\<lambda>x. case x of Inl e \<Rightarrow> P | Inr setup \<Rightarrow> P + runtime_items setup)"
proof -
  let ?all = "P + {#Dir root#} + {#Res BridgeParent#} + {#Res BridgeChild#} + {#File log#} + {#Res HelperLog#}"
  let ?run = "P + {#Dir root#} + {#File log#} + {#Res HelperLog#} + {#Res BridgeParent#}"
  have child: "triple ?all (os_Close h BridgeChild) (\<lambda>_. ?run)"
    by (rule triple_conseq[OF triple_close[where P = ?run], where F = "{#}"]) (simp_all add: ac_simps)
  have close: "triple ?run (runtimeClose h sn \<lparr>rt_helperLogPath = log, rt_proxyAddr = a\<rparr>) (\<lambda>_. P + {#Dir root#})" for a
    using triple_runtimeClose[of "P + {#Dir root#}" "\<lparr>rt_helperLogPath = log, rt_proxyAddr = a\<rparr>" h sn] by simp
  have start: "triple Q (io_call a c) (\<lambda>r. case r of Inl e \<Rightarrow> Q | Inr x \<Rightarrow> Q)" if "quiet c" for Q c and a :: "history \<Rightarrow> 'x result"
    using triple_silent[OF that] by simp
  show ?thesis
    unfolding startHelper_def
    apply (rule triple_else[OF start], simp)
     apply (rule triple_abandon[OF triple_drop], simp)
    apply (rule triple_bind[OF child], rule triple_let, rule triple_else[OF start], simp)
     apply (simp only:, rule triple_bind[OF close], rule triple_prod, rule triple_bind[OF triple_removeAll], rule triple_return, simp)
    apply (rule triple_return, simp add: runtime_items_def)
    done
qed

lemma triple_newLinux:
  assumes "\<forall>t p root. h_MkdirTemp h t p = Inr root \<longrightarrow> is_rooted root"
  shows "triple P (newLinuxSandboxRuntime h fuel lib pc sn ca m opts mode docker)
     (\<lambda>x. case x of Inl e \<Rightarrow> P | Inr setup \<Rightarrow> P + runtime_items setup)"
proof -
  have binary: "triple P (io_call a RuntimeBinary) (\<lambda>r. case r of Inl e \<Rightarrow> P | Inr x \<Rightarrow> P)" for a :: "history \<Rightarrow> string result"
    using triple_silent[of RuntimeBinary P a] by simp
  have payload: "triple Q (stagePayloadSeccompProgram h lib pc root o') (\<lambda>r. case r of Inl e \<Rightarrow> Q | Inr x \<Rightarrow> Q)" for Q root o'
    using triple_payload by simp
  have command: "triple Q (buildLinuxSandboxCommand h cfg) (\<lambda>r. case r of Inl e \<Rightarrow> Q | Inr x \<Rightarrow> Q)" for Q cfg
    using triple_command by simp
  show ?thesis
    unfolding newLinuxSandboxRuntime_def
    apply (rule triple_try[OF binary], simp, rule triple_try[OF triple_stage[OF assms]], simp, rule triple_let)
    apply (simp only:, rule triple_else[OF triple_bridge], rule triple_abandon[OF triple_return[OF refl]], simp)
    apply (rule triple_else[OF triple_createTemp], rule triple_abandon[OF triple_dropBridges], simp, rule triple_let, simp only:)
    apply (rule triple_else[OF payload], rule triple_abandon[OF triple_drop], simp)
    apply (rule triple_else[OF command], rule triple_abandon[OF triple_drop], simp)
    apply (rule triple_startHelper)
    done
qed

subsection \<open>The docker socket\<close>

definition proxy_items :: "dockerSocketProxy option \<Rightarrow> item multiset" where
  "proxy_items p = (case p of None \<Rightarrow> {#} | Some p \<Rightarrow> {#Dir (ps_socketDir p), Res DockerListener, File (ps_socketPath p)#})"

lemma path_clean_nonempty: "path_clean p \<noteq> []"
proof -
  have "join ''/'' es \<noteq> []" if "es \<noteq> []" "\<forall>e \<in> set es. e \<noteq> []" for es
    using that by (cases "(''/'', es)" rule: join.cases) auto
  moreover have "\<forall>e \<in> set (clean_elems False [] (split_on CHR ''/'' p)). e \<noteq> []"
    using clean_elems_relative[of "[]" "[]" 0 "split_on CHR ''/'' p"] split_on_no_sep
    by (force simp: list_all_iff plain_elem_def)
  ultimately show ?thesis by (auto simp: path_clean_def Let_def is_rooted_def)
qed

definition proxy_ok :: "dockerSocketProxy \<Rightarrow> bool" where
  "proxy_ok p \<longleftrightarrow> ps_socketPath p \<noteq> [] \<and> ps_socketDir p \<noteq> []"

lemma triple_startProxy:
  "triple P (startDockerSocketProxy h sid o') (\<lambda>x. case x of Inl e \<Rightarrow> P | Inr p \<Rightarrow> P + proxy_items (Some p))"
proof -
  have created: "triple (P + {#Dir d#} + {#Res DockerListener#})
      (\<lambda>t. (Inr \<lparr>ps_socketPath = sp, ps_socketDir = d\<rparr>, t @ [Created sp]))
      (\<lambda>x. case x of Inl e \<Rightarrow> P | Inr p \<Rightarrow> P + proxy_items (Some p))" for d sp
    by (rule tripleI) (auto simp: proxy_items_def)
  show ?thesis
    unfolding startDockerSocketProxy_def
    by (intro triple_if triple_try[OF triple_mkdirTemp] triple_else[OF triple_open] triple_abandon[OF triple_return] triple_let)
      (auto intro: triple_return created[simplified])
qed

lemma abandon_Inl: "abandon h root c e t = (x, t') \<Longrightarrow> x = Inl e"
  by (auto simp: abandon_def io_bind_eq)

lemma startProxy_ok:
  assumes "\<forall>t p root. h_MkdirTemp h t p = Inr root \<longrightarrow> is_rooted root"
    and "startDockerSocketProxy h sid o' t = (Inr p, t')"
  shows "proxy_ok p"
proof -
  let ?listen = "\<lambda>d. io_else (os_Open h DockerListener)
    (\<lambda>e. abandon h d (io_return ()) (''listen docker proxy socket: '' @ e))
    (\<lambda>_. let socketPath = path_join [d, ''docker.sock''] in
      (\<lambda>t. (Inr \<lparr>ps_socketPath = socketPath, ps_socketDir = d\<rparr>, t @ [Created socketPath])))"
  from assms(2) obtain d q t1 where d: "os_MkdirTemp h q t = (Inr d, t1)" and "?listen d t1 = (Inr p, t')"
    by (auto simp: startDockerSocketProxy_def io_try_Inr simp del: append.simps split: if_splits)
  from this(2) have p: "p = \<lparr>ps_socketPath = path_join [d, ''docker.sock''], ps_socketDir = d\<rparr>"
    by (cases rule: io_else_cases) (auto dest: abandon_Inl simp: Let_def)
  have "d \<noteq> []" using d assms(1) by (auto simp: os_MkdirTemp_def is_rooted_def split: sum.splits)
  then show ?thesis using path_clean_nonempty by (simp add: p proxy_ok_def path_join_def Let_def)
qed

lemma triple_closeProxy:
  assumes "proxy_ok p"
  shows "triple (P + proxy_items (Some p)) (closeDockerSocketProxy h p) (\<lambda>_. P)"
proof -
  let ?P = "P + {#Dir (ps_socketDir p)#} + {#File (ps_socketPath p)#}"
  have "triple (?P + {#Res DockerListener#}) (closeDockerSocketProxy h p) (\<lambda>_. P)"
    using assms unfolding closeDockerSocketProxy_def proxy_ok_def
    by (simp only: if_True simp_thms)
      (intro triple_bind[OF triple_silent] triple_bind[OF triple_close] triple_bind[OF triple_remove]
        triple_bind[OF triple_removeAll] triple_return refl; simp)
  then show ?thesis by (simp add: proxy_items_def add_mset_commute)
qed

subsection \<open>Sandboxes\<close>

definition owned_items :: "sandbox_handle \<Rightarrow> item multiset" where
  "owned_items s = runtime_items (hd_runtime s, hd_root s) + proxy_items (hd_dockerSocketProxy s)"

definition handle_ok :: "sandbox_handle \<Rightarrow> bool" where
  "handle_ok s \<longleftrightarrow> hd_root s \<noteq> [] \<and> hd_closed s = None \<and> (\<forall>p. hd_dockerSocketProxy s = Some p \<longrightarrow> proxy_ok p)"

lemma triple_closeSandbox:
  assumes "handle_ok s"
  shows "triple (P + owned_items s) (closeSandbox h sn m s) (\<lambda>_. P)"
proof -
  let ?rt = "{#File (rt_helperLogPath (hd_runtime s))#} + {#Res HelperLog#} + {#Res BridgeParent#}"
  let ?proxy = "proxy_items (hd_dockerSocketProxy s)"
  have items: "P + owned_items s = P + {#Dir (hd_root s)#} + ?proxy + {#File (rt_helperLogPath (hd_runtime s))#} +
      {#Res HelperLog#} + {#Res BridgeParent#}"
    by (simp add: owned_items_def runtime_items_def ac_simps)
  have proxy: "triple (Q + ?proxy) (case hd_dockerSocketProxy s of
      None \<Rightarrow> io_return None | Some p \<Rightarrow> closeDockerSocketProxy h p) (\<lambda>_. Q)" for Q
    using assms triple_closeProxy
    by (auto simp: handle_ok_def proxy_items_def triple_return split: option.split)
  have root: "triple (Q + {#Dir (hd_root s)#}) (if hd_root s \<noteq> [] then removeAllForceWritable h (hd_root s) else io_return None) (\<lambda>_. Q)" for Q
  proof -
    have "triple (Q + {#Dir (hd_root s)#}) (removeAllForceWritable h (hd_root s)) (\<lambda>_. Q)"
      unfolding removeAllForceWritable_def by (rule triple_bind[OF triple_silent], simp, rule triple_removeAll)
    then show ?thesis using assms by (simp add: handle_ok_def)
  qed
  have "hd_closed s = None" using assms by (simp add: handle_ok_def)
  then show ?thesis
    unfolding closeSandbox_def items
    by (simp only: option.case)
      (intro triple_bind[OF triple_runtimeClose] triple_prod triple_bind[OF proxy] triple_let triple_bind[OF root] triple_return refl)
qed

lemma triple_launch:
  assumes "\<forall>t p root. h_MkdirTemp h t p = Inr root \<longrightarrow> is_rooted root" and "h_GOOS h \<noteq> ''darwin''"
  shows "triple P (launch h fuel lib pc sn ca darwin m opts sid mode pm docker)
     (\<lambda>x. case x of Inl e \<Rightarrow> P | Inr s \<Rightarrow> P + owned_items s)"
proof -
  let ?start = "if do_Enabled docker then io_must (startDockerSocketProxy h sid docker) (\<lambda>p. io_ok (Some p)) else io_ok None"
  have start: "triple P ?start (\<lambda>x. case x of Inl e \<Rightarrow> P | Inr p \<Rightarrow> P + proxy_items p)"
    by (intro triple_if triple_try[OF triple_startProxy] triple_return) (simp_all add: proxy_items_def[of None])
  have ok: "proxy_ok p" if "?start t = (Inr (Some p), t')" for t p t'
    using that startProxy_ok[OF assms(1)] by (auto simp: io_try_Inr split: if_splits)
  have runtime: "triple Q (newSandboxRuntime h fuel lib pc sn ca darwin m opts mode dm)
      (\<lambda>x. case x of Inl e \<Rightarrow> Q | Inr setup \<Rightarrow> Q + runtime_items setup)" for Q dm
    using triple_newLinux[OF assms(1)] assms(2) by (auto simp: newSandboxRuntime_def triple_return)
  have cancel: "triple (P + proxy_items proxy) (io_bind (case proxy of None \<Rightarrow> io_return None | Some p \<Rightarrow> closeDockerSocketProxy h p)
      (\<lambda>_. io_err e)) (\<lambda>x. case x of Inl e \<Rightarrow> P | Inr s \<Rightarrow> P + owned_items s)"
    if "\<And>p. proxy = Some p \<Longrightarrow> proxy_ok p" for proxy e
    by (rule triple_bind[where Q = "\<lambda>_. P"])
      (use that triple_closeProxy in \<open>auto simp: proxy_items_def triple_return split: option.split\<close>)
  have items: "P + proxy_items proxy + runtime_items rr =
      P + owned_items (newHandle sid mode pm opts rr docker proxy)" for proxy rr
    by (simp add: owned_items_def newHandle_def Let_def ac_simps)
  show ?thesis
    unfolding launch_def
  proof (rule triple_try[OF start])
    fix t proxy t'
    assume run: "?start t = (Inr proxy, t')"
    show "triple (P + proxy_items proxy) (io_else (newSandboxRuntime h fuel lib pc sn ca darwin m opts mode
          (map_option (\<lambda>p. \<lparr>dm_HostPath = ps_socketPath p, dm_SandboxPath = do_MountPath docker\<rparr>) proxy))
        (\<lambda>e. io_bind (case proxy of None \<Rightarrow> io_return None | Some p \<Rightarrow> closeDockerSocketProxy h p) (\<lambda>_. io_err e))
        (\<lambda>setup. io_ok (newHandle sid mode pm opts setup docker proxy)))
      (\<lambda>x. case x of Inl e \<Rightarrow> P | Inr s \<Rightarrow> P + owned_items s)"
      by (rule triple_else[OF runtime], rule cancel) (use run ok items in \<open>auto intro: triple_return\<close>)
  qed simp
qed

text \<open>A launched sandbox can be closed.\<close>

lemma newLinux_root:
  assumes "\<forall>t p root. h_MkdirTemp h t p = Inr root \<longrightarrow> is_rooted root"
  shows "results (\<lambda>r. \<forall>su. r = Inr su \<longrightarrow> snd su \<noteq> []) (newLinuxSandboxRuntime h fuel lib pc sn ca m opts mode docker)"
proof -
  have abandoned: "results (\<lambda>r. \<forall>su. r = Inr su \<longrightarrow> snd su \<noteq> []) (abandon h root c e)" for root c e
    unfolding abandon_def by (intro results_bind) simp
  have staged: "sr_Root s \<noteq> []" if "Stage h fuel o' bin ca t = (Inr s, t')" for o' bin t s t'
  proof -
    from that obtain root t1 r t2 where root: "os_MkdirTemp h ''bwrap-go-root-'' t = (Inr root, t1)"
      and "(case r of Inl e \<Rightarrow> io_bind (os_RemoveAll h root) (\<lambda>_. io_err e)
        | Inr b \<Rightarrow> io_ok \<lparr>sr_Root = root, sr_Builder = b\<rparr>) t2 = (Inr s, t')"
      unfolding Stage_def io_try_Inr io_bind_eq by blast
    then have "sr_Root s = root" by (cases r) (auto simp: io_bind_eq)
    with root show ?thesis using assms by (auto simp: os_MkdirTemp_def is_rooted_def split: sum.splits)
  qed
  have started: "results (\<lambda>r. \<forall>su. r = Inr su \<longrightarrow> snd su \<noteq> []) (startHelper h sn mode root log)" if "root \<noteq> []" for root log
    unfolding startHelper_def Let_def
    by (intro results_else results_bind results_cases abandoned) (simp_all add: that)
  show ?thesis
    unfolding newLinuxSandboxRuntime_def Let_def
    by (intro results_try results_else abandoned started) (auto dest: staged)
qed

lemma launch_ok:
  assumes "\<forall>t p root. h_MkdirTemp h t p = Inr root \<longrightarrow> is_rooted root" and "h_GOOS h \<noteq> ''darwin''"
    and "launch h fuel lib pc sn ca darwin m opts sid mode pm docker t = (Inr s, t')"
  shows "handle_ok s \<and> sb_id s = sid \<and> \<not> hd_registered s"
proof -
  from assms(3) obtain proxy t1 where proxy:
      "(if do_Enabled docker then io_must (startDockerSocketProxy h sid docker) (\<lambda>p. io_ok (Some p)) else io_ok None) t = (Inr proxy, t1)"
    and rest: "io_else (newSandboxRuntime h fuel lib pc sn ca darwin m opts mode
                (map_option (\<lambda>p. \<lparr>dm_HostPath = ps_socketPath p, dm_SandboxPath = do_MountPath docker\<rparr>) proxy))
       (\<lambda>e. io_bind (case proxy of None \<Rightarrow> io_return None | Some p \<Rightarrow> closeDockerSocketProxy h p) (\<lambda>_. io_err e))
       (\<lambda>su. io_ok (newHandle sid mode pm opts su docker proxy)) t1 = (Inr s, t')"
    unfolding launch_def by (auto simp only: io_try_Inr)
  from proxy have pok: "\<forall>p. proxy = Some p \<longrightarrow> proxy_ok p"
    using startProxy_ok[OF assms(1)] by (auto simp: io_try_Inr split: if_splits)
  from rest obtain su t2 where su: "newSandboxRuntime h fuel lib pc sn ca darwin m opts mode
      (map_option (\<lambda>p. \<lparr>dm_HostPath = ps_socketPath p, dm_SandboxPath = do_MountPath docker\<rparr>) proxy) t1 = (Inr su, t2)"
    and s: "s = newHandle sid mode pm opts su docker proxy"
    by (cases rule: io_else_cases) (auto simp: io_bind_eq)
  have "snd su \<noteq> []"
    using su resultsD[OF newLinux_root[OF assms(1)]] assms(2)
    by (simp add: newSandboxRuntime_def del: split_paired_All split: if_splits) blast
  with pok show ?thesis by (simp add: s newHandle_def Let_def handle_ok_def)
qed

subsection \<open>Registration\<close>

lemma nextSandboxName_keeps:
  "nextSandboxName m n = (m1, sid) \<Longrightarrow> mg_registry m1 = mg_registry m \<and> mg_audit m1 = mg_audit m"
  by (auto simp: nextSandboxName_def Let_def split: if_splits)

lemma closeSandbox_manager:
  assumes "closeSandbox h sn m s t = ((e, s', m'), t')" and "hd_closed s = None"
  shows "m' = (if hd_registered s then unregisterSandbox m (sb_id s) else m) \<and> hd_closed s' = Some e"
  using assms by (auto simp: closeSandbox_def io_bind_eq Let_def split: prod.splits if_splits)

lemma enroll_failed:
  assumes "handle_ok s" and "\<not> hd_registered s" and "enroll h sn m policy s t = ((Inl e, m'), t')"
    and "held t = M + owned_items s"
  shows "held t' = M \<and> m' = m"
proof (cases "registerSandbox m (sb_id s) (Some policy)")
  case (Inl e')
  with assms(3) obtain e'' s' where close: "closeSandbox h sn m s t = ((e'', s', m'), t')"
    by (auto simp: enroll_def io_bind_eq)
  then show ?thesis
    using triple_held[OF triple_closeSandbox[OF assms(1), of "{#}"] close] closeSandbox_manager[OF close] assms(1,2,4)
    by (simp add: handle_ok_def)
next
  case (Inr m1)
  then have "\<exists>m2. attachSandbox m1 (sb_id s) sb = Inr m2" for sb
    by (auto simp: registerSandbox_def attachSandbox_def registry_defs Let_def split: if_splits sum.splits)
  then obtain m2 where "attachSandbox m1 (sb_id s) (Sandbox.truncate (s\<lparr>hd_registered := True\<rparr>)) = Inr m2" by blast
  with Inr assms(3) show ?thesis by (simp add: enroll_def Let_def)
qed

lemma enroll_ok:
  assumes "enroll h sn m policy s t = ((Inr s1, m1), t')"
  shows "s1 = s\<lparr>hd_registered := True\<rparr> \<and> t' = t \<and> \<not> regHas (mg_registry m) (sb_id s) \<and>
     policyForSandbox m1 (sb_id s) = Some policy"
proof (cases "registerSandbox m (sb_id s) (Some policy)")
  case (Inl e)
  with assms show ?thesis by (auto simp: enroll_def io_bind_eq split: prod.splits)
next
  case (Inr m')
  then obtain r where r: "regRegister (mg_registry m) (sb_id s) (Some policy) = Inr r" "mg_registry m' = r"
    by (auto simp: registerSandbox_def split: sum.splits)
  from Inr assms have attach: "attachSandbox m' (sb_id s) (Sandbox.truncate (s\<lparr>hd_registered := True\<rparr>)) = Inr m1"
    and s1: "s1 = s\<lparr>hd_registered := True\<rparr>" "t' = t"
    by (auto simp: enroll_def io_bind_eq Let_def split: sum.splits prod.splits)
  then have "policyForSandbox m1 (sb_id s) = regPolicy r (sb_id s)"
    using r(2) store.attach_keeps by (auto simp: attachSandbox_def policyForSandbox_def split: sum.splits)
  with s1 r store.register_policy[OF r(1)] store.register_iff[of "mg_registry m" "sb_id s" "Some policy"]
  show ?thesis by simp
qed

text \<open>The steps of a \<^verbatim>\<open>NewSandbox\<close> that gets past its checks.\<close>

lemma NewSandbox_cases:
  assumes "NewSandbox h fuel lib pc sn ca re darwin m opts t = ((r, m'), t')"
  obtains (refused) e where "r = Inl e" "m' = m" "t' = t"
    | (failed) e m1 sid mode pm docker where "nextSandboxName m (op_Name opts) = (m1, sid)" "r = Inl e" "m' = m1"
        "launch h fuel lib pc sn ca darwin m1 opts sid mode pm docker t = (Inl e, t')"
    | (launched) m1 sid mode pm docker policy s t1 where "nextSandboxName m (op_Name opts) = (m1, sid)"
        "compilePolicy re (op_Policy opts) = Inr policy"
        "launch h fuel lib pc sn ca darwin m1 opts sid mode pm docker t = (Inr s, t1)"
        "enroll h sn m1 policy s t1 = ((r, m'), t')"
  using assms unfolding NewSandbox_def Let_def
  by (elim refused failed launched | auto split: option.splits sum.splits prod.splits)+

lemma new_sandbox_held:
  assumes "\<forall>t p root. h_MkdirTemp h t p = Inr root \<longrightarrow> is_rooted root" and "h_GOOS h \<noteq> ''darwin''"
    and "NewSandbox h fuel lib pc sn ca re darwin m opts t = ((Inr s, m1), t1)"
  shows "held t1 = held t + owned_items s \<and> handle_ok s \<and> hd_registered s"
  using assms(3)
proof (cases rule: NewSandbox_cases)
  case (launched m0 sid mode pm docker policy s0 t0)
  from launch_ok[OF assms(1,2) launched(3)] have "handle_ok s0" by simp
  moreover from enroll_ok[OF launched(4)] have s: "s = s0\<lparr>hd_registered := True\<rparr>" "t1 = t0" by simp_all
  moreover have "held t0 = held t + owned_items s0"
    using triple_held[OF triple_launch[OF assms(1,2), where P = "{#}"] launched(3)] by simp
  ultimately show ?thesis by (simp add: owned_items_def handle_ok_def)
qed simp_all

lemma new_sandbox_given_back:
  assumes "\<forall>t p root. h_MkdirTemp h t p = Inr root \<longrightarrow> is_rooted root" and "h_GOOS h \<noteq> ''darwin''"
    and "NewSandbox h fuel lib pc sn ca re darwin m opts t = ((Inl e, m'), t')"
  shows "held t' = held t \<and> mg_registry m' = mg_registry m \<and> mg_audit m' = mg_audit m"
  using assms(3)
proof (cases rule: NewSandbox_cases)
  case (failed e m1 sid mode pm docker)
  from triple_held[OF triple_launch[OF assms(1,2), where P = "{#}"] failed(4)]
  show ?thesis using failed nextSandboxName_keeps[OF failed(1)] by simp
next
  case (launched m1 sid mode pm docker policy s t1)
  from launch_ok[OF assms(1,2) launched(3)] have ok: "handle_ok s" "\<not> hd_registered s" by simp_all
  have "held t1 = held t + owned_items s"
    using triple_held[OF triple_launch[OF assms(1,2), where P = "{#}"] launched(3)] by simp
  from enroll_failed[OF ok launched(4) this] show ?thesis using nextSandboxName_keeps[OF launched(1)] by simp
qed simp

subsection \<open>Properties\<close>

text \<open>
  A \<^verbatim>\<open>NewSandbox\<close> that fails, at whatever point, leaves nothing behind: every directory, file, socket
  and listener it took is given back, and no sandbox is registered. The host's temporary
  directories have absolute names.
\<close>

theorem new_sandbox_failure_leaves_nothing:
  assumes "\<forall>t p root. h_MkdirTemp h t p = Inr root \<longrightarrow> is_rooted root" and "h_GOOS h \<noteq> ''darwin''"
    and "NewSandbox h fuel lib pc sn ca re darwin m opts t = ((Inl e, m'), t')"
  shows "held t' = held t \<and> mg_registry m' = mg_registry m \<and> mg_audit m' = mg_audit m"
  by (rule new_sandbox_given_back[OF assms])


text \<open>
  The exit status of the helper never reaches the caller of \<^verbatim>\<open>Close\<close>: a failure status that the first
  wait receives makes the code wait again, the status is delivered only once and the process is gone,
  so the second wait reports success.
\<close>

theorem helper_exit_lost:
  assumes "\<And>t d d' status. Wait d' (Received status) \<in> set t \<Longrightarrow> h_Wait h t d = SeenGone"
    and "\<And>t. h_CloseClient h t = None" and "\<And>t s. h_Signal h t s = None"
    and "h_Wait h (t @ [CloseClient]) 5000 = Received status"
  shows "fst (fst (runtimeClose h sn rt t)) = None"
proof -
  have gone: "h_Wait h (t @ [CloseClient, Wait 5000 (Received status), Signal 15]) 2000 = SeenGone"
    by (rule assms(1)[of 5000 status]) simp
  let ?t = "t @ [CloseClient, Wait 5000 (Received status)]" and ?w = "if status = ExitOk then None else Some (ExitError status)"
  have client: "io_call (h_CloseClient h) CloseClient t = (None, t @ [CloseClient])" by (simp add: io_call_def assms(2))
  have wait: "waitWithTimeout h 5000 (t @ [CloseClient]) = (?w, ?t)"
    by (simp add: waitWithTimeout_def assms(4) split: exit_status.split)
  have "\<exists>t'. escalate h 15 ''signal'' ?w ?t = ((None, None), t')"
    using gone
    by (cases "status = ExitOk")
      (simp_all add: escalate_def os_Signal_def io_bind_def io_call_def waitWithTimeout_def io_return_def assms(3))
  then obtain t' where again: "escalate h 15 ''signal'' ?w ?t = ((None, None), t')" by blast
  obtain cached t'' where log: "cacheAndRemoveHelperLog h rt t' = (cached, t'')" by (metis prod.exhaust)
  have kill: "escalate h 9 ''kill'' None t' = ((None, None), t')" and none: "waitError h sn rt None t' = (None, t')"
    by (simp_all add: escalate_def waitError_def normalizeHelperExit_def)
  show ?thesis
    by (simp only: runtimeClose_def io_bind_def client wait again kill none log io_return_def prod.case fst_conv
        option.map join_errors.simps)
qed

text \<open>
  A sandbox without a policy of its own gets the empty policy, which allows no request, connection
  or name, whatever the network policy of the manager is.
\<close>

theorem manager_policy_not_inherited:
  assumes "NewSandbox h fuel lib pc sn ca re darwin m opts t = ((Inr s, m1), t1)" and "op_Policy opts = []"
  shows "\<exists>p. policyForSandbox m1 (sb_id s) = Some p \<and> (\<forall>req. \<not> Allowed (evaluateRequest p req)) \<and>
     (\<forall>host port transparent. \<not> Allowed (evaluateConnect p host port transparent)) \<and> (\<forall>host. \<not> Allowed (evaluateDNS p host))"
  using assms(1)
proof (cases rule: NewSandbox_cases)
  case (launched m0 sid mode pm docker policy s0 t0)
  from launched(2) assms(2) have "policy = []" by (simp add: compilePolicy_def)
  with enroll_ok[OF launched(4)] show ?thesis
    by (simp add: evaluateRequest_allowed evaluateConnect_allowed evaluateDNS_allowed Let_def)
qed simp_all

subsection \<open>Examples\<close>

definition example_lib :: "unit libseccomp" where
  "example_lib = \<lparr>ls_NewFilter = Inr (), ls_GetSyscallFromName = \<lambda>_. Inr 0, ls_MakeCondition = \<lambda>_ _ _. Inl [],
     ls_AddRule = \<lambda>_ _ _ _. Inr (), ls_ExportBPF = \<lambda>_. Inr [1]\<rparr>"

definition example_setup :: "host \<Rightarrow> (sandbox_handle result \<times> ProxyManager) io" where
  "example_setup h = NewSandbox h 4 example_lib ex_program_calls (\<lambda>_. []) ''CA'' (\<lambda>_. Inl []) (io_err ''darwin'')
     (newProxyManager [example_rule]) Bwrap_Command.example_options"

text \<open>The helper does not answer, and the helper ends with status 1.\<close>

definition failing_host :: host where
  "failing_host = example_host\<lparr>h_StartClient := \<lambda>t. Inl ''no answer''\<rparr>"

definition dying_host :: host where
  "dying_host = example_host\<lparr>h_Wait := \<lambda>t d.
     if \<exists>c \<in> set t. (case c of Wait d' (Received s) \<Rightarrow> True | _ \<Rightarrow> False) then SeenGone else Received (ExitCode 1)\<rparr>"

lemma example_laws:
  "\<forall>t p root. h_MkdirTemp example_host t p = Inr root \<longrightarrow> is_rooted root" "h_GOOS example_host \<noteq> ''darwin''"
  "\<forall>t p root. h_MkdirTemp failing_host t p = Inr root \<longrightarrow> is_rooted root" "h_GOOS failing_host \<noteq> ''darwin''"
  by (auto simp: failing_host_def example_host_def is_rooted_def)

lemma example_runs:
  "case example_setup failing_host [] of ((Inl e, m), t) \<Rightarrow> StartProcess \<in> set t | _ \<Rightarrow> False"
  "case example_setup example_host [] of ((Inr s, m), t) \<Rightarrow> sb_id s = ''sandbox-1'' | _ \<Rightarrow> False"
  by code_simp+

theorem new_sandbox_failure_leaves_nothing_witness:
  "\<exists>e m t. example_setup failing_host [] = ((Inl e, m), t) \<and> StartProcess \<in> set t \<and> held t = {#}"
proof -
  from example_runs(1) obtain e m t where run: "example_setup failing_host [] = ((Inl e, m), t)" "StartProcess \<in> set t"
    by (auto split: prod.splits sum.splits)
  from new_sandbox_failure_leaves_nothing[OF example_laws(3,4) run(1)[unfolded example_setup_def]] run
  show ?thesis by (simp add: held_def)
qed


theorem helper_exit_lost_witness:
  "h_Wait dying_host [CloseClient] 5000 = Received (ExitCode 1) \<and>
   fst (fst (runtimeClose dying_host (\<lambda>_. []) \<lparr>rt_helperLogPath = ''/tmp/log'', rt_proxyAddr = []\<rparr> [])) = None"
proof -
  have wait: "h_Wait dying_host ([] @ [CloseClient]) 5000 = Received (ExitCode 1)" by (simp add: dying_host_def)
  have "h_Wait dying_host t d = SeenGone" if "Wait d' (Received status) \<in> set t" for t d d' status
    using that by (force simp: dying_host_def)
  from helper_exit_lost[OF this _ _ wait] wait show ?thesis by (simp add: dying_host_def example_host_def)
qed

theorem manager_policy_not_inherited_witness:
  "\<exists>s m t p. example_setup example_host [] = ((Inr s, m), t) \<and> policyForSandbox m (sb_id s) = Some p \<and>
     \<not> Allowed (evaluateDNS p ''example.com'')"
proof -
  from example_runs(2) obtain s m1 t1 where run: "example_setup example_host [] = ((Inr s, m1), t1)"
    by (auto split: prod.splits sum.splits)
  from manager_policy_not_inherited[OF run[unfolded example_setup_def]] run show ?thesis
    by (auto simp: Bwrap_Command.example_options_def)
qed

end
