(* ===== verification/Helper_Client.thy ===== *)
theory Helper_Client
  imports Helper_Bridge
begin

section \<open>The host's end of the control channel: internal/helperclient, helper\_client.go\<close>

text \<open>
  The client answers the helper's requests with the manager's handlers, keeps the tunnels of
  CONNECT requests and the run of a program. Goroutines are operations that are called one at a
  time, in any order. A connection is open until the tunnel is shut down.
\<close>

subsection \<open>Data\<close>

record hostTunnel =
  ht_recv :: "Envelope list"
  ht_closed :: bool
  ht_writeCloseSent :: bool
  ht_terminalCloseSent :: bool

definition newHostTunnel :: hostTunnel where
  "newHostTunnel = \<lparr>ht_recv = [], ht_closed = False, ht_writeCloseSent = False, ht_terminalCloseSent = False\<rparr>"

record RunResult =
  ru_ExitCode :: int
  ru_Stdout :: string
  ru_Stderr :: string

record runSession =
  rs_stdout :: string
  rs_stderr :: string
  rs_outcome :: "(RunResult option \<times> error option) option"

definition newRunSession :: runSession where
  "newRunSession = \<lparr>rs_stdout = [], rs_stderr = [], rs_outcome = None\<rparr>"

text \<open>
  Tunnels and sessions are objects: the tables have their numbers, the stores the objects, so that a
  tunnel or session that is no longer in a table still exists. The copies of the output that go to the
  caller's writers are left out.
\<close>

record Client =
  cl_nextID :: "64 word"
  cl_sent :: "Envelope list"
  cl_sendError :: "error option"
  cl_objects :: "hostTunnel list"
  cl_tunnels :: "(64 word \<times> nat) list"
  cl_pendingTunnels :: "(64 word \<times> nat) list"
  cl_sessions :: "runSession list"
  cl_currentRun :: "nat option"
  cl_ready :: "(error + string \<times> string \<times> string) option"
  cl_cancelled :: bool

definition newClient :: Client where
  "newClient = \<lparr>cl_nextID = 0, cl_sent = [], cl_sendError = None, cl_objects = [], cl_tunnels = [],
     cl_pendingTunnels = [], cl_sessions = [], cl_currentRun = None, cl_ready = None, cl_cancelled = False\<rparr>"

definition clientSend :: "Client \<Rightarrow> Envelope \<Rightarrow> error option \<times> Client" where
  "clientSend c env = (case cl_sendError c of
     Some e \<Rightarrow> (Some e, c) | None \<Rightarrow> (None, c\<lparr>cl_sent := cl_sent c @ [env]\<rparr>))"

definition notifyReady :: "Client \<Rightarrow> error + string \<times> string \<times> string \<Rightarrow> Client" where
  "notifyReady c r = (if cl_ready c = None then c\<lparr>cl_ready := Some r\<rparr> else c)"

subsection \<open>Runs: run\_session.go\<close>

definition updateSession :: "nat \<Rightarrow> (runSession \<Rightarrow> runSession) \<Rightarrow> Client \<Rightarrow> Client" where
  "updateSession j f c = c\<lparr>cl_sessions := (cl_sessions c)[j := f (cl_sessions c ! j)]\<rparr>"

definition Finish :: "RunResult option \<Rightarrow> error option \<Rightarrow> runSession \<Rightarrow> runSession" where
  "Finish result e s = (if rs_outcome s \<noteq> None then s else s\<lparr>rs_outcome := Some (result, e)\<rparr>)"

definition installRunSession :: "Client \<Rightarrow> (error + nat) \<times> Client" where
  "installRunSession c =
     (if cl_currentRun c \<noteq> None then (Inl ''another command is already running'', c)
      else let j = length (cl_sessions c) in
           (Inr j, c\<lparr>cl_sessions := cl_sessions c @ [newRunSession], cl_currentRun := Some j\<rparr>))"

definition clearCurrentRun :: "Client \<Rightarrow> nat option \<times> Client" where
  "clearCurrentRun c = (cl_currentRun c, c\<lparr>cl_currentRun := None\<rparr>)"

definition HandleStream :: "StreamFrame \<Rightarrow> runSession \<Rightarrow> runSession" where
  "HandleStream frame s =
     (if sf_Stream frame = ''stdout'' then s\<lparr>rs_stdout := rs_stdout s @ sf_Data frame\<rparr>
      else if sf_Stream frame = ''stderr'' then s\<lparr>rs_stderr := rs_stderr s @ sf_Data frame\<rparr>
      else s)"

definition execResultError :: "ExecResult \<Rightarrow> error option" where
  "execResultError r = (if xr_Error r = [] then None else Some (xr_Error r))"

definition HandleExecResult :: "ExecResult \<Rightarrow> runSession \<Rightarrow> runSession" where
  "HandleExecResult r s =
     Finish (Some \<lparr>ru_ExitCode = xr_ExitCode r, ru_Stdout = rs_stdout s, ru_Stderr = rs_stderr s @ xr_Stderr r\<rparr>)
       (execResultError r) s"

definition handleStream :: "Client \<Rightarrow> StreamFrame \<Rightarrow> Client" where
  "handleStream c frame = (case cl_currentRun c of None \<Rightarrow> c | Some j \<Rightarrow> updateSession j (HandleStream frame) c)"

definition handleExecResult :: "Client \<Rightarrow> ExecResult \<Rightarrow> Client" where
  "handleExecResult c r = (case clearCurrentRun c of
     (None, c) \<Rightarrow> c | (Some j, c) \<Rightarrow> updateSession j (HandleExecResult r) c)"

definition failCurrentRun :: "Client \<Rightarrow> error \<Rightarrow> Client" where
  "failCurrentRun c e = (case clearCurrentRun c of
     (None, c) \<Rightarrow> c | (Some j, c) \<Rightarrow> updateSession j (Finish None (Some e)) c)"

text \<open>
  \<^verbatim>\<open>Run\<close> up to waiting: the session is installed and the request sent. Then the result of the session, the
  end of the read loop or the end of the caller's context is returned.
\<close>

record client_run =
  cr_Argv :: "string list"
  cr_Env :: "string list"
  cr_WorkDir :: string
  cr_Interactive :: bool
  cr_Terminal :: bool
  cr_Rows :: "16 word"
  cr_Cols :: "16 word"
  cr_Resize :: bool

definition execRequestOf :: "client_run \<Rightarrow> ExecRequest" where
  "execRequestOf o' =
     \<lparr>xq_Argv = cr_Argv o', xq_Env = cr_Env o', xq_WorkDir = cr_WorkDir o',
      xq_Interactive = cr_Interactive o' \<or> cr_Terminal o' \<or> cr_Resize o', xq_Terminal = cr_Terminal o',
      xq_InitialSize = (if cr_Rows o' > 0 \<or> cr_Cols o' > 0 then Some \<lparr>ts_Rows = cr_Rows o', ts_Cols = cr_Cols o'\<rparr> else None)\<rparr>"

definition beginRun :: "Client \<Rightarrow> client_run \<Rightarrow> (error + 64 word \<times> nat) \<times> Client" where
  "beginRun c o' =
     (case installRunSession c of
        (Inl e, c) \<Rightarrow> (Inl e, c)
      | (Inr j, c) \<Rightarrow>
          let i = cl_nextID c + 1; c = c\<lparr>cl_nextID := i\<rparr> in
          (case clientSend c ((envelope i)\<lparr>en_ExecRequest := Some (execRequestOf o')\<rparr>) of
             (Some e, c) \<Rightarrow> let e = ''send exec request: '' @ e in (Inl e, failCurrentRun c e)
           | (None, c) \<Rightarrow> (Inr (i, j), c)))"

datatype run_end = RunResulted | RunLoopEnded "error option" | RunCancelled error

definition endRun :: "Client \<Rightarrow> nat \<Rightarrow> run_end \<Rightarrow> (RunResult option \<times> error option) \<times> Client" where
  "endRun c j how =
     (case how of
        RunResulted \<Rightarrow> (case rs_outcome (cl_sessions c ! j) of Some outcome \<Rightarrow> (outcome, c) | None \<Rightarrow> ((None, None), c))
      | RunLoopEnded e \<Rightarrow>
          let e = (case e of None \<Rightarrow> ''helper bridge closed'' | Some e \<Rightarrow> e) in
          ((None, Some e), updateSession j (Finish None (Some e)) c)
      | RunCancelled e \<Rightarrow> ((None, Some e), c))"

text \<open>The input of a run: one read of the standard input.\<close>

definition pumpInput :: "Client \<Rightarrow> 64 word \<Rightarrow> string \<Rightarrow> bool \<Rightarrow> Client" where
  "pumpInput c i data eof =
     (let input = (\<lambda>d e. (envelope i)\<lparr>en_ExecInput := Some \<lparr>xi_Data = d, xi_EOF = e, xi_Resize = None, xi_Cancel = False\<rparr>\<rparr>);
          (e, c) = (if data = [] then (None, c) else clientSend c (input data False)) in
      if e \<noteq> None then c
      else if eof then snd (clientSend c (input [] True)) else c)"

definition pumpResize :: "Client \<Rightarrow> 64 word \<Rightarrow> TerminalSize \<Rightarrow> Client" where
  "pumpResize c i sz =
     (if ts_Rows sz = 0 \<and> ts_Cols sz = 0 then c
      else snd (clientSend c ((envelope i)\<lparr>en_ExecInput :=
        Some \<lparr>xi_Data = [], xi_EOF = False, xi_Resize = Some sz, xi_Cancel = False\<rparr>\<rparr>)))"

subsection \<open>Tunnels: tunnel.go\<close>

definition registerPendingTunnel :: "Client \<Rightarrow> 64 word \<Rightarrow> nat \<Rightarrow> Client" where
  "registerPendingTunnel c i k = c\<lparr>cl_pendingTunnels := gm_put i k (cl_pendingTunnels c)\<rparr>"

definition activateTunnel :: "Client \<Rightarrow> 64 word \<Rightarrow> bool \<times> Client" where
  "activateTunnel c i =
     (case map_of (cl_pendingTunnels c) i of
        None \<Rightarrow> (False, c)
      | Some k \<Rightarrow> (True, c\<lparr>cl_pendingTunnels := gm_delete i (cl_pendingTunnels c), cl_tunnels := gm_put i k (cl_tunnels c)\<rparr>))"

definition unregisterTunnel :: "Client \<Rightarrow> 64 word \<Rightarrow> Client" where
  "unregisterTunnel c i =
     c\<lparr>cl_tunnels := gm_delete i (cl_tunnels c), cl_pendingTunnels := gm_delete i (cl_pendingTunnels c)\<rparr>"

definition tunnel :: "Client \<Rightarrow> 64 word \<Rightarrow> nat option" where
  "tunnel c i = (case map_of (cl_tunnels c) i of Some k \<Rightarrow> Some k | None \<Rightarrow> map_of (cl_pendingTunnels c) i)"

definition updateTunnel :: "nat \<Rightarrow> (hostTunnel \<Rightarrow> hostTunnel) \<Rightarrow> Client \<Rightarrow> Client" where
  "updateTunnel k f c = c\<lparr>cl_objects := (cl_objects c)[k := f (cl_objects c ! k)]\<rparr>"

definition shutdown :: "nat \<Rightarrow> Client \<Rightarrow> Client" where
  "shutdown k = updateTunnel k (\<lambda>t. t\<lparr>ht_closed := True\<rparr>)"

definition closeTerminal :: "Client \<Rightarrow> 64 word \<Rightarrow> nat \<Rightarrow> Client" where
  "closeTerminal c i k = shutdown k (unregisterTunnel c i)"

text \<open>\<open>closing\<close> is the text of the error, empty for an end of file or a closed connection.\<close>

definition SendWriteClose :: "Client \<Rightarrow> 64 word \<Rightarrow> nat \<Rightarrow> string \<Rightarrow> Client" where
  "SendWriteClose c i k closing =
     (if ht_writeCloseSent (cl_objects c ! k) then c
      else snd (clientSend (updateTunnel k (\<lambda>t. t\<lparr>ht_writeCloseSent := True\<rparr>) c)
             ((envelope i)\<lparr>en_TunnelClose := Some \<lparr>tc_Write = True, tc_Error = closing\<rparr>\<rparr>)))"

definition sendTerminalClose :: "Client \<Rightarrow> 64 word \<Rightarrow> nat \<Rightarrow> string \<Rightarrow> Client" where
  "sendTerminalClose c i k closing =
     (if ht_terminalCloseSent (cl_objects c ! k) then c
      else snd (clientSend (updateTunnel k (\<lambda>t. t\<lparr>ht_terminalCloseSent := True\<rparr>) c)
             ((envelope i)\<lparr>en_TunnelClose := Some \<lparr>tc_Write = False, tc_Error = closing\<rparr>\<rparr>)))"

text \<open>A full queue of 64 messages ends the tunnel.\<close>

definition deliverTunnel :: "Client \<Rightarrow> 64 word \<Rightarrow> nat \<Rightarrow> Envelope \<Rightarrow> Client" where
  "deliverTunnel c i k env =
     (let t = cl_objects c ! k in
      if ht_closed t then c
      else if length (ht_recv t) < 64 then updateTunnel k (\<lambda>t. t\<lparr>ht_recv := ht_recv t @ [env]\<rparr>) c
      else closeTerminal (sendTerminalClose c i k ''tunnel receive buffer overflow'') i k)"

definition HandleTunnelFrame :: "Client \<Rightarrow> 64 word \<Rightarrow> TunnelFrame \<Rightarrow> Client" where
  "HandleTunnelFrame c i frame = (case tunnel c i of
     None \<Rightarrow> c | Some k \<Rightarrow> deliverTunnel c i k ((envelope i)\<lparr>en_TunnelFrame := Some frame\<rparr>))"

definition HandleTunnelClose :: "Client \<Rightarrow> 64 word \<Rightarrow> TunnelClose \<Rightarrow> Client" where
  "HandleTunnelClose c i msg = (case tunnel c i of
     None \<Rightarrow> c | Some k \<Rightarrow> deliverTunnel c i k ((envelope i)\<lparr>en_TunnelClose := Some msg\<rparr>))"

definition ShutdownTunnels :: "Client \<Rightarrow> Client" where
  "ShutdownTunnels c =
     foldl (\<lambda>c k. shutdown k c) (c\<lparr>cl_tunnels := [], cl_pendingTunnels := []\<rparr>)
       (map snd (cl_tunnels c) @ map snd (cl_pendingTunnels c))"

text \<open>
  One turn of each relay goroutine of a tunnel. \<open>ReadFailed\<close> is an error other than the time limit, which
  is \<open>ReadMore\<close> without bytes.
\<close>

definition relayOutbound :: "Client \<Rightarrow> 64 word \<Rightarrow> nat \<Rightarrow> string \<Rightarrow> read_end \<Rightarrow> Client" where
  "relayOutbound c i k data how =
     (let (e, c) = (if data = [] then (None, c)
                    else clientSend c ((envelope i)\<lparr>en_TunnelFrame := Some \<lparr>tf_Data = data\<rparr>\<rparr>)) in
      case e of
        Some e \<Rightarrow> closeTerminal (sendTerminalClose c i k e) i k
      | None \<Rightarrow>
          (case how of
             ReadMore \<Rightarrow> c
           | ReadEOF \<Rightarrow> SendWriteClose c i k []
           | ReadClosed \<Rightarrow> c
           | ReadFailed e \<Rightarrow> closeTerminal (sendTerminalClose c i k e) i k))"

definition relayInbound :: "(string \<Rightarrow> error option) \<Rightarrow> error option \<Rightarrow> Client \<Rightarrow> 64 word \<Rightarrow> nat \<Rightarrow> Client" where
  "relayInbound write close_write c i k =
     (case ht_recv (cl_objects c ! k) of
        [] \<Rightarrow> c
      | env # rest \<Rightarrow>
          let c = updateTunnel k (\<lambda>t. t\<lparr>ht_recv := rest\<rparr>) c in
          (case en_TunnelFrame env of
             Some frame \<Rightarrow>
               if tf_Data frame = [] then c
               else (case write (tf_Data frame) of
                       None \<Rightarrow> c
                     | Some e \<Rightarrow> closeTerminal (sendTerminalClose c i k e) i k)
           | None \<Rightarrow>
               (case en_TunnelClose env of
                  Some msg \<Rightarrow>
                    if tc_Write msg then
                      (case close_write of
                         None \<Rightarrow> c | Some e \<Rightarrow> closeTerminal (sendTerminalClose c i k e) i k)
                    else closeTerminal c i k
                | None \<Rightarrow> c)))"

subsection \<open>Requests: client.go\<close>

text \<open>
  The manager's handlers, one function per method of \<^verbatim>\<open>Host\<close>, on the manager's state \<open>'m\<close>. An empty
  response stands for a handler without a manager; \<open>ho_Dial\<close> is the error of connecting.
\<close>

record 'm Host =
  ho_Proxy :: "'m \<Rightarrow> ProxyRequest \<Rightarrow> 'm \<times> ProxyResponse option"
  ho_Connect :: "'m \<Rightarrow> ConnectRequest \<Rightarrow> 'm \<times> ConnectResponse option"
  ho_DNS :: "'m \<Rightarrow> DNSRequest \<Rightarrow> 'm \<times> DNSResponse option"
  ho_LeafCert :: "'m \<Rightarrow> string \<Rightarrow> 'm \<times> LeafCertResponse option"
  ho_MITM :: "'m \<Rightarrow> MITMRequest \<Rightarrow> 'm \<times> MITMResponse option"
  ho_Dial :: "'m \<Rightarrow> string \<Rightarrow> int \<Rightarrow> error option"

definition proxyReply :: "ProxyResponse option \<Rightarrow> ProxyResponse" where
  "proxyReply response =
     (let r = (case response of
                 Some r \<Rightarrow> r
               | None \<Rightarrow> \<lparr>ps_StatusCode = 502, ps_Header = [], ps_Body = [], ps_Error = ''proxy request rejected: empty response''\<rparr>) in
      if ps_StatusCode r = 0 then r\<lparr>ps_StatusCode := 502\<rparr> else r)"

definition connectReply :: "ConnectResponse option \<Rightarrow> ConnectResponse" where
  "connectReply response =
     (let r = (case response of
                 Some r \<Rightarrow> r
               | None \<Rightarrow> \<lparr>cs_StatusCode = 502, cs_Message = [], cs_Error = ''connect request rejected: empty response''\<rparr>) in
      if cs_StatusCode r = 0 then r\<lparr>cs_StatusCode := 502\<rparr> else r)"

definition dnsReply :: "DNSResponse option \<Rightarrow> DNSResponse" where
  "dnsReply response = (case response of
     Some r \<Rightarrow> r | None \<Rightarrow> \<lparr>dn_Payload = [], dn_Error = ''dns request rejected: empty response''\<rparr>)"

definition leafReply :: "LeafCertResponse option \<Rightarrow> LeafCertResponse" where
  "leafReply response = (case response of
     Some r \<Rightarrow> r
   | None \<Rightarrow> \<lparr>lr_CertPEM = [], lr_KeyPEM = [], lr_Error = ''leaf cert request rejected: empty response''\<rparr>)"

definition mitmReply :: "MITMResponse option \<Rightarrow> MITMResponse" where
  "mitmReply response =
     (let r = (case response of
                 Some r \<Rightarrow> r
               | None \<Rightarrow> \<lparr>mr_StatusCode = 502, mr_Header = [], mr_Body = [], mr_Error = ''MITM request rejected: empty response''\<rparr>) in
      if mr_StatusCode r = 0 then r\<lparr>mr_StatusCode := 502\<rparr> else r)"

definition sendReply :: "Client \<Rightarrow> Envelope \<Rightarrow> Client" where
  "sendReply c env = (case clientSend c env of (None, c) \<Rightarrow> c | (Some e, c) \<Rightarrow> failCurrentRun c e)"

definition clientProxyRequest :: "'m Host \<Rightarrow> Client \<times> 'm \<Rightarrow> 64 word \<Rightarrow> ProxyRequest \<Rightarrow> Client \<times> 'm" where
  "clientProxyRequest host = (\<lambda>(c, m) i req. case ho_Proxy host m req of (m, r) \<Rightarrow>
     (sendReply c ((envelope i)\<lparr>en_ProxyResponse := Some (proxyReply r)\<rparr>), m))"

definition clientDNSRequest :: "'m Host \<Rightarrow> Client \<times> 'm \<Rightarrow> 64 word \<Rightarrow> DNSRequest \<Rightarrow> Client \<times> 'm" where
  "clientDNSRequest host = (\<lambda>(c, m) i req. case ho_DNS host m req of (m, r) \<Rightarrow>
     (sendReply c ((envelope i)\<lparr>en_DNSResponse := Some (dnsReply r)\<rparr>), m))"

definition clientLeafCertRequest :: "'m Host \<Rightarrow> Client \<times> 'm \<Rightarrow> 64 word \<Rightarrow> LeafCertRequest \<Rightarrow> Client \<times> 'm" where
  "clientLeafCertRequest host = (\<lambda>(c, m) i req. case ho_LeafCert host m (lq_Host req) of (m, r) \<Rightarrow>
     (sendReply c ((envelope i)\<lparr>en_LeafCertResponse := Some (leafReply r)\<rparr>), m))"

definition clientMITMRequest :: "'m Host \<Rightarrow> Client \<times> 'm \<Rightarrow> 64 word \<Rightarrow> MITMRequest \<Rightarrow> Client \<times> 'm" where
  "clientMITMRequest host = (\<lambda>(c, m) i req. case ho_MITM host m req of (m, r) \<Rightarrow>
     (sendReply c ((envelope i)\<lparr>en_MITMResponse := Some (mitmReply r)\<rparr>), m))"

definition connectEnvelope :: "64 word \<Rightarrow> ConnectResponse \<Rightarrow> Envelope" where
  "connectEnvelope i r = (envelope i)\<lparr>en_ConnectResponse := Some r\<rparr>"

text \<open>\<^verbatim>\<open>HandleConnectRequest\<close> with a host. The activation of a tunnel that is gone by then shuts it down.\<close>

definition clientConnectRequest :: "'m Host \<Rightarrow> Client \<times> 'm \<Rightarrow> 64 word \<Rightarrow> ConnectRequest \<Rightarrow> Client \<times> 'm" where
  "clientConnectRequest host = (\<lambda>(c, m) i req.
     (case ho_Connect host m req of (m, r) \<Rightarrow>
        let response = connectReply r in
        if cs_StatusCode response < 200 \<or> cs_StatusCode response \<ge> 300
        then (snd (clientSend c (connectEnvelope i response)), m)
        else (case ho_Dial host m (cq_Host req) (cq_Port req) of
                Some e \<Rightarrow>
                  (snd (clientSend c (connectEnvelope i \<lparr>cs_StatusCode = 502, cs_Message = [], cs_Error = e\<rparr>)), m)
              | None \<Rightarrow>
                  let k = length (cl_objects c);
                      c = registerPendingTunnel (c\<lparr>cl_objects := cl_objects c @ [newHostTunnel]\<rparr>) i k in
                  (case clientSend c (connectEnvelope i response) of
                     (Some e, c) \<Rightarrow> (shutdown k (unregisterTunnel c i), m)
                   | (None, c) \<Rightarrow>
                       (case activateTunnel c i of
                          (False, c) \<Rightarrow> (shutdown k c, m)
                        | (True, c) \<Rightarrow> (c, m))))))"

text \<open>
  One turn of \<^verbatim>\<open>ReadLoop\<close>, with the request's goroutine run at once; and its end with the error of
  reading.
\<close>

definition clientTurn :: "'m Host \<Rightarrow> Client \<times> 'm \<Rightarrow> Envelope \<Rightarrow> (Client \<times> 'm) turn" where
  "clientTurn host = (\<lambda>(c, m) env.
     (case en_Ready env of
        Some r \<Rightarrow>
          if rd_ProtocolVersion r \<noteq> ProtocolVersion then
            (let e = ''unexpected helper protocol version '' @ itoa (rd_ProtocolVersion r) in
             Stop e (failCurrentRun (notifyReady c (Inl e)) e, m))
          else Continue (notifyReady c (Inr (rd_ProxyAddr r, rd_DNSAddr r, rd_TCPAddr r)), m)
      | None \<Rightarrow> (case en_ProxyRequest env of
        Some req \<Rightarrow> Continue (clientProxyRequest host (c, m) (en_ID env) req)
      | None \<Rightarrow> (case en_ConnectRequest env of
        Some req \<Rightarrow> Continue (clientConnectRequest host (c, m) (en_ID env) req)
      | None \<Rightarrow> (case en_DNSRequest env of
        Some req \<Rightarrow> Continue (clientDNSRequest host (c, m) (en_ID env) req)
      | None \<Rightarrow> (case en_LeafCertRequest env of
        Some req \<Rightarrow> Continue (clientLeafCertRequest host (c, m) (en_ID env) req)
      | None \<Rightarrow> (case en_MITMRequest env of
        Some req \<Rightarrow> Continue (clientMITMRequest host (c, m) (en_ID env) req)
      | None \<Rightarrow> (case en_TunnelFrame env of
        Some frame \<Rightarrow> Continue (HandleTunnelFrame c (en_ID env) frame, m)
      | None \<Rightarrow> (case en_TunnelClose env of
        Some msg \<Rightarrow> Continue (HandleTunnelClose c (en_ID env) msg, m)
      | None \<Rightarrow> (case en_StreamFrame env of
        Some frame \<Rightarrow> Continue (handleStream c frame, m)
      | None \<Rightarrow> (case en_ExecResult env of
        Some r \<Rightarrow> Continue (handleExecResult c r, m)
      | None \<Rightarrow> Continue (c, m))))))))))))"

definition loopEnded :: "Client \<Rightarrow> error \<Rightarrow> Client" where
  "loopEnded c e = (ShutdownTunnels (failCurrentRun (notifyReady c (Inl e)) e))\<lparr>cl_cancelled := True\<rparr>"

text \<open>The helper's start: what \<^verbatim>\<open>Start\<close> makes of the readiness message.\<close>

definition startOutcome :: "error + string \<times> string \<times> string \<Rightarrow> string result" where
  "startOutcome r = (case r of
     Inl e \<Rightarrow> Inl e
   | Inr (proxyAddr, dnsAddr, tcpAddr) \<Rightarrow>
       if proxyAddr \<noteq> [] then ok proxyAddr
       else if tcpAddr \<noteq> [] then ok []
       else err ''helper did not report proxy or transparent listener readiness'')"

definition closeClient :: "Client \<Rightarrow> Client" where
  "closeClient c = ShutdownTunnels (c\<lparr>cl_cancelled := True\<rparr>)"

end
