(* ===== verification/Cli_Main.thy ===== *)
theory Cli_Main
  imports Cli_Run Sandbox_Life Helper_Client
begin

section \<open>The command line: command\_exec.go, summary.go, main.go, Close of manager.go\<close>

text \<open>
  A run of the command line tool: platform check, manager, sandbox, the program, its output and the
  report, and the deferred clean-up. The parsing of flags (cobra), the helper client and the encoding of
  log entries as JSON are parameters. The printing of the policy is left out.
\<close>

subsection \<open>Writers\<close>

text \<open>
  What was written, and the error the next write gives. A nil writer is \<open>None\<close>. A report is a list of
  writes that stops at the first error.
\<close>

record io_writer =
  iw_written :: string
  iw_fails :: "string \<Rightarrow> string \<Rightarrow> error option"

definition write_to :: "io_writer \<Rightarrow> string \<Rightarrow> error option \<times> io_writer" where
  "write_to w s = (case iw_fails w (iw_written w) s of
     Some e \<Rightarrow> (Some e, w) | None \<Rightarrow> (None, w\<lparr>iw_written := iw_written w @ s\<rparr>))"

fun write_all :: "io_writer \<Rightarrow> string list \<Rightarrow> error option \<times> io_writer" where
  "write_all w [] = (None, w)"
| "write_all w (s # ss) = (case write_to w s of (None, w) \<Rightarrow> write_all w ss | (Some e, w) \<Rightarrow> (Some e, w))"

abbreviation fprintln :: "string \<Rightarrow> string" where
  "fprintln s \<equiv> s @ [CHR 0x0A]"

subsection \<open>Reports: summary.go\<close>

record cliAccessLogger =
  lg_entries :: "AccessLogEntry list"
  lg_emitJSON :: bool

definition newCLIAccessLogger :: "bool \<Rightarrow> cliAccessLogger" where
  "newCLIAccessLogger emitJSON = \<lparr>lg_entries = [], lg_emitJSON = emitJSON\<rparr>"

definition LogAccess :: "cliAccessLogger \<Rightarrow> AccessLogEntry \<Rightarrow> cliAccessLogger" where
  "LogAccess l entry = l\<lparr>lg_entries := lg_entries l @ [entry]\<rparr>"

definition emptyValue :: "string \<Rightarrow> string" where
  "emptyValue v = (if v = [] then ''-'' else v)"

definition hostLine :: "AccessedHostSummary \<Rightarrow> string" where
  "hostLine s = ''  '' @ hs_Host s @ '': attempts='' @ itoa (hs_Attempts s) @ '' last_result='' @ emptyValue (hs_LastResult s) @
     '' last_port='' @ itoa (hs_LastPort s) @ '' violations='' @ itoa (hs_PolicyViolations s)"

definition requestLine :: "RequestAggregate \<Rightarrow> string" where
  "requestLine r = ''  '' @ emptyValue (ra_Kind r) @ '' '' @ emptyValue (ra_Method r) @ '' '' @ ra_Host r @ '':'' @ itoa (ra_Port r) @
     '' '' @ emptyValue (ra_Path r) @ '' attempts='' @ itoa (ra_Attempts r) @ '' allowed='' @ itoa (ra_AllowedCount r) @
     '' denied='' @ itoa (ra_DeniedCount r) @ '' policy_allowed='' @ itoa (ra_PolicyAllowedCount r) @
     '' policy_denied='' @ itoa (ra_PolicyDeniedCount r)"

definition violationLine :: "AccessLogEntry \<Rightarrow> string" where
  "violationLine e = ''  '' @ emptyValue (le_Kind e) @ '' '' @ emptyValue (le_Method e) @ '' '' @ le_Host e @ '':'' @ itoa (le_Port e) @
     '' '' @ emptyValue (le_Path e) @ '' violations='' @ join ''; '' (sort (le_PolicyViolations e))"

definition listing :: "string \<Rightarrow> string list \<Rightarrow> string list" where
  "listing title ls = map fprintln (title # (if ls = [] then [''  none''] else ls))"

text \<open>A nil section of the summary is \<open>None\<close>.\<close>

definition renderAccessSummary ::
  "io_writer option \<Rightarrow> AccessedHostSummary list option \<Rightarrow> RequestAggregate list option \<Rightarrow> error option \<times> io_writer option" where
  "renderAccessSummary w hosts requests =
     (case w of
        None \<Rightarrow> (None, None)
      | Some w \<Rightarrow>
          apsnd Some (write_all w
            ((case hosts of None \<Rightarrow> [] | Some hs \<Rightarrow> listing ''Access summary'' (map hostLine hs)) @
             (case requests of None \<Rightarrow> []
              | Some rs \<Rightarrow> (if hosts \<noteq> None then [fprintln []] else []) @ listing ''Request summary'' (map requestLine rs)))))"

definition renderPolicyViolations :: "io_writer option \<Rightarrow> AccessLogEntry list \<Rightarrow> error option \<times> io_writer option" where
  "renderPolicyViolations w entries =
     (case w of
        None \<Rightarrow> (None, None)
      | Some w \<Rightarrow>
          apsnd Some (write_all w (listing ''Policy violations''
            (sort (map violationLine (filter (\<lambda>e. le_PolicyViolations e \<noteq> []) entries))))))"

definition renderRunSummary ::
  "io_writer option \<Rightarrow> AccessSummary \<Rightarrow> AccessLogEntry list \<Rightarrow> ReportingOptions \<Rightarrow> error option \<times> io_writer option" where
  "renderRunSummary w summary entries reporting =
     (case renderAccessSummary w (if rp_AccessSummary reporting then Some (as_Hosts summary) else None)
             (if rp_RequestSummary reporting then Some (as_Requests summary) else None) of
        (Some e, w) \<Rightarrow> (Some e, w)
      | (None, w) \<Rightarrow> if rp_PolicyViolations reporting then renderPolicyViolations w entries else (None, w))"

definition renderAccessLogEntries ::
  "(AccessLogEntry \<Rightarrow> string) \<Rightarrow> io_writer option \<Rightarrow> AccessLogEntry list \<Rightarrow> error option \<times> io_writer option" where
  "renderAccessLogEntries json w entries =
     (case w of None \<Rightarrow> (None, None) | Some w \<Rightarrow> apsnd Some (write_all w (map (\<lambda>e. fprintln (json e)) entries)))"

definition finalizeRunOutput ::
  "(AccessLogEntry \<Rightarrow> string) \<Rightarrow> io_writer option \<Rightarrow> cliAccessLogger \<Rightarrow> AccessSummary \<Rightarrow> ReportingOptions \<Rightarrow>
   error option \<times> io_writer option" where
  "finalizeRunOutput json w logger summary reporting =
     (case (if lg_emitJSON logger then renderAccessLogEntries json w (lg_entries logger) else (None, w)) of
        (Some e, w) \<Rightarrow> (Some e, w)
      | (None, w) \<Rightarrow> renderRunSummary w summary (lg_entries logger) reporting)"

subsection \<open>The terminal\<close>

text \<open>
  The terminal of standard input: whether there is one, the error of making it raw, its size now. The
  state is whether it is raw, and whether the clean-up has been done.
\<close>

record terminal =
  tm_IsTerminal :: bool
  tm_MakeRaw :: "error option"
  tm_GetSize :: "(int \<times> int) option"
  tm_raw :: bool
  tm_cleaned :: bool

record cliRunOptions = RunOptions +
  ro_Stdin :: bool
  ro_Streams :: bool
  ro_Terminal :: bool
  ro_TerminalSize :: TerminalSize

definition usableSize :: "(int \<times> int) option \<Rightarrow> TerminalSize option" where
  "usableSize measured = (case measured of
     None \<Rightarrow> None
   | Some (width, height) \<Rightarrow>
       if width \<le> 0 \<or> height \<le> 0 then None else Some \<lparr>ts_Rows = word_of_int height, ts_Cols = word_of_int width\<rparr>)"

definition buildCLIProcessRunOptions :: "terminal \<Rightarrow> (cliRunOptions \<times> bool) result \<times> terminal" where
  "buildCLIProcessRunOptions tm =
     (if \<not> tm_IsTerminal tm
      then (ok (\<lparr>ro_Env = [], ro_WorkDir = [], ro_Interactive = False, ro_Stdin = True, ro_Streams = False, ro_Terminal = False,
                 ro_TerminalSize = \<lparr>ts_Rows = 0, ts_Cols = 0\<rparr>\<rparr>, False), tm\<lparr>tm_cleaned := False\<rparr>)
      else case tm_MakeRaw tm of
             Some e \<Rightarrow> (err (''configure terminal: '' @ e), tm)
           | None \<Rightarrow>
               (ok (\<lparr>ro_Env = [], ro_WorkDir = [], ro_Interactive = True, ro_Stdin = True, ro_Streams = True, ro_Terminal = True,
                     ro_TerminalSize = (case usableSize (tm_GetSize tm) of
                        None \<Rightarrow> \<lparr>ts_Rows = 24, ts_Cols = 80\<rparr> | Some s \<Rightarrow> s)\<rparr>, True),
                tm\<lparr>tm_raw := True, tm_cleaned := False\<rparr>))"

text \<open>A change of the size, on the channel of capacity one.\<close>

definition onWindowChange :: "(int \<times> int) option \<Rightarrow> TerminalSize list \<Rightarrow> TerminalSize list" where
  "onWindowChange measured resizeCh = (case usableSize measured of
     None \<Rightarrow> resizeCh | Some s \<Rightarrow> if length resizeCh < 1 then resizeCh @ [s] else resizeCh)"

definition cleanupRun :: "terminal \<Rightarrow> terminal" where
  "cleanupRun tm = (if tm_cleaned tm then tm else tm\<lparr>tm_raw := tm_raw tm \<and> \<not> tm_IsTerminal tm, tm_cleaned := True\<rparr>)"

definition writeBufferedRunResult ::
  "io_writer \<Rightarrow> io_writer \<Rightarrow> RunResult option \<Rightarrow> error option \<times> io_writer \<times> io_writer" where
  "writeBufferedRunResult stdout stderr result =
     (case result of
        None \<Rightarrow> (None, stdout, stderr)
      | Some r \<Rightarrow>
          (case (if ru_Stdout r \<noteq> [] then write_to stdout (ru_Stdout r) else (None, stdout)) of
             (Some e, stdout) \<Rightarrow> (Some (''write buffered stdout: '' @ e), stdout, stderr)
           | (None, stdout) \<Rightarrow>
               (case (if ru_Stderr r \<noteq> [] then write_to stderr (ru_Stderr r) else (None, stderr)) of
                  (Some e, stderr) \<Rightarrow> (Some (''write buffered stderr: '' @ e), stdout, stderr)
                | (None, stderr) \<Rightarrow> (None, stdout, stderr))))"

subsection \<open>Closing the manager: manager.go\<close>

text \<open>
  \<^verbatim>\<open>Close\<close> closes every attached sandbox. The sandboxes of the manager are given as their handles; the
  error of cleaning up the resolver is a parameter. A second call does nothing.
\<close>

fun closeAttached ::
  "host \<Rightarrow> (int \<Rightarrow> string) \<Rightarrow> ProxyManager \<Rightarrow> sandbox_handle list \<Rightarrow> error option \<Rightarrow>
   (error option \<times> sandbox_handle list \<times> ProxyManager) io" where
  "closeAttached h signal_name m [] closeErr = io_return (closeErr, [], m)"
| "closeAttached h signal_name m (s # ss) closeErr =
     io_bind (closeSandbox h signal_name m s) (\<lambda>(e, s', m').
     io_bind (closeAttached h signal_name m' ss (join_errors closeErr e)) (\<lambda>(e, ss', m'').
     io_return (e, s' # ss', m'')))"

definition attached :: "ProxyManager \<Rightarrow> sandbox_handle \<Rightarrow> bool" where
  "attached m s \<longleftrightarrow> Sandbox.truncate s \<in> set (regAttachedSandboxes (mg_registry m))"

definition closeManager ::
  "host \<Rightarrow> (int \<Rightarrow> string) \<Rightarrow> error option \<Rightarrow> ProxyManager \<Rightarrow> sandbox_handle list \<Rightarrow> (error option \<times> ProxyManager) io" where
  "closeManager h signal_name resolverCleanup m handles =
     io_bind (closeAttached h signal_name m (filter (attached m) handles) None) (\<lambda>(closeErr, _, m').
     io_return (join_errors closeErr resolverCleanup, m'\<lparr>mg_audit := None\<rparr>))"

subsection \<open>A run: runSandbox\<close>

definition validateRunConfigPlatform :: "string \<Rightarrow> runConfig \<Rightarrow> error option" where
  "validateRunConfigPlatform cliPlatform cfg =
     (if cliPlatform \<noteq> ''darwin'' then None
      else if op_TrafficMode (rc_sandbox cfg) = ''transparent'' then Some ''transparent traffic mode is not supported on darwin''
      else if op_Mounts (rc_sandbox cfg) \<noteq> [] then Some ''mounts are not supported on darwin''
      else None)"

datatype cli_error = ExitCodeError int | Failed error

record console =
  con_stdout :: io_writer
  con_stderr :: io_writer
  con_terminal :: terminal

text \<open>
  What the sandboxed program does: the answer of the helper client and the manager afterwards, whose
  access log is the command line's logger.
\<close>

type_synonym program_run =
  "string list \<Rightarrow> cliRunOptions \<Rightarrow> (RunResult option) result \<times> ProxyManager"

definition reportRun ::
  "(AccessLogEntry \<Rightarrow> string) \<Rightarrow> runConfig \<Rightarrow> console \<Rightarrow> sandbox_handle \<Rightarrow> ProxyManager \<Rightarrow> bool \<Rightarrow>
   RunResult option \<Rightarrow> cli_error option \<times> console" where
  "reportRun json cfg con s m interactive result =
     (case (if interactive then (None, con_stdout con, con_stderr con)
            else writeBufferedRunResult (con_stdout con) (con_stderr con) result) of
        (Some e, out, errs) \<Rightarrow> (Some (Failed e), con\<lparr>con_stdout := out, con_stderr := errs\<rparr>)
      | (None, out, errs) \<Rightarrow>
          let logger = foldl LogAccess (newCLIAccessLogger (rc_accessLogMode cfg = ''json'')) (mg_accessLog m);
              con = con\<lparr>con_stdout := out, con_terminal := cleanupRun (con_terminal con)\<rparr> in
          (case finalizeRunOutput json (Some errs) logger (accessSummarySnapshot (mg_audit m) (sb_id s)) (rc_reporting cfg) of
             (e, errs') \<Rightarrow>
               (case e of Some e \<Rightarrow> Some (Failed e)
                | None \<Rightarrow> (case result of
                             Some r \<Rightarrow> if ru_ExitCode r \<noteq> 0 then Some (ExitCodeError (ru_ExitCode r)) else None
                           | None \<Rightarrow> None),
                con\<lparr>con_stderr := the errs'\<rparr>)))"

definition runProgram ::
  "(AccessLogEntry \<Rightarrow> string) \<Rightarrow> (ProxyManager \<Rightarrow> sandbox_handle \<Rightarrow> program_run) \<Rightarrow> runConfig \<Rightarrow> console \<Rightarrow> ProxyManager \<Rightarrow>
   sandbox_handle \<Rightarrow> cli_error option \<times> console \<times> ProxyManager" where
  "runProgram json client cfg con m s =
     (case buildCLIProcessRunOptions (con_terminal con) of
        (Inl e, tm) \<Rightarrow> (Some (Failed e), con\<lparr>con_terminal := tm\<rparr>, m)
      | (Inr (runOpts, interactive), tm) \<Rightarrow>
          let answer = runSandbox (\<lambda>argv opts. Inr (client m s argv opts)) s (rc_argv cfg) runOpts interactive;
              con = con\<lparr>con_terminal := tm\<rparr> in
          (case answer of
             Inl e \<Rightarrow> (Some (Failed e), con\<lparr>con_terminal := cleanupRun tm\<rparr>, m)
           | Inr (Inl e, m') \<Rightarrow> (Some (Failed e), con\<lparr>con_terminal := cleanupRun tm\<rparr>, m')
           | Inr (Inr result, m') \<Rightarrow>
               (case reportRun json cfg con s m' interactive result of
                  (e, con) \<Rightarrow> (e, con\<lparr>con_terminal := cleanupRun (con_terminal con)\<rparr>, m'))))"

text \<open>The parameters of \<^verbatim>\<open>NewSandbox\<close> and \<^verbatim>\<open>NewProxyManager\<close> that stand for code outside the repository.\<close>

record 'f outside =
  xt_fuel :: nat
  xt_lib :: "'f libseccomp"
  xt_programs :: program_calls
  xt_signal_name :: "int \<Rightarrow> string"
  xt_caPEM :: string
  xt_regexp :: regexp_compile
  xt_darwin :: "(linuxSandboxRuntime \<times> string) result io"
  xt_resolve :: "string \<Rightarrow> error option"
  xt_new_ca :: "error option"
  xt_resolverCleanup :: "error option"

definition runCLI ::
  "host \<Rightarrow> 'f outside \<Rightarrow> (AccessLogEntry \<Rightarrow> string) \<Rightarrow> (ProxyManager \<Rightarrow> sandbox_handle \<Rightarrow> program_run) \<Rightarrow> runConfig \<Rightarrow> console \<Rightarrow>
   (cli_error option \<times> console \<times> ProxyManager option) io" where
  "runCLI h x json client cfg con =
     (case validateRunConfigPlatform (h_GOOS h) cfg of
        Some e \<Rightarrow> io_return (Some (Failed e), con, None)
      | None \<Rightarrow>
          (case NewProxyManager (xt_regexp x) (xt_resolve x) (xt_new_ca x) (rc_manager cfg) of
             Inl e \<Rightarrow> io_return (Some (Failed e), con, None)
           | Inr m \<Rightarrow>
               io_bind (NewSandbox h (xt_fuel x) (xt_lib x) (xt_programs x) (xt_signal_name x) (xt_caPEM x) (xt_regexp x)
                          (xt_darwin x) m (rc_sandbox cfg)) (\<lambda>(r, m1).
               case r of
                 Inl e \<Rightarrow>
                   io_bind (closeManager h (xt_signal_name x) (xt_resolverCleanup x) m1 []) (\<lambda>(_, m').
                   io_return (Some (Failed e), con, Some m'))
               | Inr s \<Rightarrow>
                   (case runProgram json client cfg con m1 s of
                      (outcome, con', m2) \<Rightarrow>
                        io_bind (closeSandbox h (xt_signal_name x) m2 s) (\<lambda>(_, s', m3).
                        io_bind (closeManager h (xt_signal_name x) (xt_resolverCleanup x) m3 [s']) (\<lambda>(_, m4).
                        io_return (outcome, con', Some m4)))))))"

subsection \<open>The root command and the entry points: executeRootCommand, dispatch, main\<close>

text \<open>The flags that were given, and the values of all of them.\<close>

record cliFlags =
  cf_options :: cliOptions
  cf_trafficMode :: string
  cf_policyMode :: string
  cf_reportPolicy :: bool
  cf_reportAccess :: bool
  cf_reportRequests :: bool
  cf_accessLog :: string
  cf_Changed :: "string \<Rightarrow> bool"

definition deriveFlagOverrides :: "cliFlags \<Rightarrow> cliFlagOverrides" where
  "deriveFlagOverrides f =
     (let changed = (\<lambda>name v. if cf_Changed f name then Some v else None);
          switched = (\<lambda>name v. if cf_Changed f name then Some v else None) in
      \<lparr>fo_TrafficMode = changed ''traffic-mode'' (cf_trafficMode f), fo_PolicyMode = changed ''policy-mode'' (cf_policyMode f),
       fo_ReportPolicy = switched ''report-policy-violations'' (cf_reportPolicy f),
       fo_ReportAccessSummary = switched ''report-access-summary'' (cf_reportAccess f),
       fo_ReportRequestSummary = switched ''report-request-summary'' (cf_reportRequests f),
       fo_AccessLog = changed ''access-log'' (cf_accessLog f)\<rparr>)"

definition executeRootCommand ::
  "cli_files \<Rightarrow> string \<Rightarrow> (string \<Rightarrow> yaml_result) \<Rightarrow> string list \<Rightarrow> cliFlags \<Rightarrow> int \<Rightarrow> string list \<Rightarrow>
   runConfig result option" where
  "executeRootCommand fs platform yaml environ flags argsLenAtDash args =
     (if argsLenAtDash < 0 \<or> args = [] then Some (err ''payload command required after --'')
      else case fs_Getwd fs of
             Inl e \<Rightarrow> Some (err (''resolve current working directory: '' @ e))
           | Inr cwd \<Rightarrow>
               let opts = (cf_options flags)\<lparr>co_flagOverrides := deriveFlagOverrides flags,
                     co_maxBodySizeSet := cf_Changed flags ''max-request-body-bytes'' \<or> co_maxBodySizeSet (cf_options flags),
                     co_copyEnvSet := cf_Changed flags ''copy-env'' \<or> co_copyEnvSet (cf_options flags)\<rparr> in
               buildConfig fs platform yaml opts args cwd environ)"

datatype entry_point = InternalHelper "string list" | InternalLauncher "string list" | InternalDockerBuild "string list" | RootCommand "string list"

definition dispatch :: "string list \<Rightarrow> entry_point" where
  "dispatch args =
     (if args \<noteq> [] \<and> hd args = ''internal-helper'' then InternalHelper (tl args)
      else if args \<noteq> [] \<and> hd args = ''internal-launcher'' then InternalLauncher (tl args)
      else if args \<noteq> [] \<and> hd args = ''internal-docker-build'' then InternalDockerBuild (tl args)
      else RootCommand args)"

text \<open>The exit status of the process and what it writes last.\<close>

definition exitStatus :: "cli_error option \<Rightarrow> int \<times> string" where
  "exitStatus e = (case e of
     None \<Rightarrow> (0, []) | Some (ExitCodeError code) \<Rightarrow> (code, []) | Some (Failed e) \<Rightarrow> (1, fprintln e))"

end
