(* ===== verification/Cli_Status.thy ===== *)
theory Cli_Status
  imports Cli_Main Cli_Paths
begin

section \<open>Properties of the command line's runs\<close>

text \<open>
  A run gives back everything it took, whatever happens, and tells the truth about the program: its
  output, its exit status and the report of what it accessed.
\<close>

subsection \<open>Clean-up\<close>

lemma closed_again: "closeSandbox h sn m s t = ((e, s', m'), t') \<Longrightarrow> hd_closed s' \<noteq> None"
  by (cases "hd_closed s") (auto simp: closeSandbox_def io_bind_eq Let_def split: prod.splits if_splits)

lemma closeManager_none: "closeManager h sn rc m [] t = ((e, m'), t') \<Longrightarrow> t' = t"
  by (auto simp: closeManager_def io_bind_eq)

lemma closeManager_closed:
  assumes "hd_closed s \<noteq> None" and "closeManager h sn rc m [s] t = ((e, m'), t')"
  shows "t' = t"
  using assms by (auto simp: closeManager_def closeSandbox_def io_bind_eq io_return_def split: if_splits)

lemma cleanupRun_restores: "tm_raw tm \<longrightarrow> tm_IsTerminal tm \<and> \<not> tm_cleaned tm \<Longrightarrow> \<not> tm_raw (cleanupRun tm)"
  by (auto simp: cleanupRun_def)

lemma cleanupRun_again: "\<not> tm_raw tm \<Longrightarrow> \<not> tm_raw (cleanupRun tm)"
  by (simp add: cleanupRun_def)

lemma reportRun_terminal:
  "reportRun json cfg con s m i r = (e, con') \<Longrightarrow> con_terminal con' \<in> {con_terminal con, cleanupRun (con_terminal con)}"
  by (auto simp: reportRun_def Let_def split: prod.splits option.splits)

lemma options_raw:
  assumes "buildCLIProcessRunOptions tm = (r, tm')" and "\<not> tm_raw tm"
  shows "tm_raw tm' \<longrightarrow> tm_IsTerminal tm' \<and> \<not> tm_cleaned tm'" and "r = Inl e \<Longrightarrow> \<not> tm_raw tm'"
  using assms by (auto simp: buildCLIProcessRunOptions_def split: if_splits option.splits)

lemma runProgram_terminal:
  assumes "runProgram json client cfg con m s = (out, con', m')" and "\<not> tm_raw (con_terminal con)"
  shows "\<not> tm_raw (con_terminal con')"
proof (cases "buildCLIProcessRunOptions (con_terminal con)")
  case (Pair r tm)
  note raw = options_raw[OF Pair assms(2)]
  have again: "\<not> tm_raw (cleanupRun tm')" if "tm' \<in> {tm, cleanupRun tm}" for tm'
    using that raw(1) cleanupRun_restores cleanupRun_again by auto
  show ?thesis
  proof (cases r)
    case (Inl e)
    with assms(1) Pair raw(2) show ?thesis by (auto simp: runProgram_def)
  next
    case (Inr p)
    with assms(1) Pair again reportRun_terminal[of json cfg "con\<lparr>con_terminal := tm\<rparr>" s] show ?thesis
      by (fastforce simp: runProgram_def Let_def split: prod.splits sum.splits)
  qed
qed


subsection \<open>Output and exit status\<close>

definition sound_writer :: "io_writer \<Rightarrow> bool" where
  "sound_writer w \<longleftrightarrow> (\<forall>old s. iw_fails w old s = None)"

lemma write_to_sound: "sound_writer w \<Longrightarrow> write_to w s = (None, w\<lparr>iw_written := iw_written w @ s\<rparr>)"
  by (simp add: write_to_def sound_writer_def)

lemma sound_update [simp]: "sound_writer (w\<lparr>iw_written := s\<rparr>) = sound_writer w"
  by (simp add: sound_writer_def)

lemma write_all_sound: "sound_writer w \<Longrightarrow> write_all w ss = (None, w\<lparr>iw_written := iw_written w @ concat ss\<rparr>)"
  by (induction ss arbitrary: w) (simp_all add: write_to_sound)

lemma logger_entries: "lg_entries (foldl LogAccess l es) = lg_entries l @ es" "lg_emitJSON (foldl LogAccess l es) = lg_emitJSON l"
  by (induction es arbitrary: l) (simp_all add: LogAccess_def)

text \<open>The report of a run, as a text.\<close>

definition report_text :: "(AccessLogEntry \<Rightarrow> string) \<Rightarrow> runConfig \<Rightarrow> AccessLogEntry list \<Rightarrow> AccessSummary \<Rightarrow> string" where
  "report_text json cfg entries summary =
     (let hosts = rp_AccessSummary (rc_reporting cfg); requests = rp_RequestSummary (rc_reporting cfg) in
      (if rc_accessLogMode cfg = ''json'' then concat (map (\<lambda>e. fprintln (json e)) entries) else []) @
      (if hosts then concat (listing ''Access summary'' (map hostLine (as_Hosts summary))) else []) @
      (if hosts \<and> requests then fprintln [] else []) @
      (if requests then concat (listing ''Request summary'' (map requestLine (as_Requests summary))) else []) @
      (if rp_PolicyViolations (rc_reporting cfg)
       then concat (listing ''Policy violations'' (sort (map violationLine (filter (\<lambda>e. le_PolicyViolations e \<noteq> []) entries))))
       else []))"

lemma finalizeRunOutput_text:
  assumes "sound_writer w"
  shows "finalizeRunOutput json (Some w) (foldl LogAccess (newCLIAccessLogger (rc_accessLogMode cfg = ''json'')) entries) summary
     (rc_reporting cfg) = (None, Some (w\<lparr>iw_written := iw_written w @ report_text json cfg entries summary\<rparr>))"
  using assms
  by (simp add: finalizeRunOutput_def renderAccessLogEntries_def renderRunSummary_def renderAccessSummary_def
      renderPolicyViolations_def logger_entries newCLIAccessLogger_def write_all_sound report_text_def Let_def)

lemma reportRun_text:
  assumes "sound_writer (con_stdout con)" and "sound_writer (con_stderr con)"
    and "reportRun json cfg con s m False (Some r) = (out, con')"
  shows "fst (exitStatus out) = ru_ExitCode r \<and> iw_written (con_stdout con') = iw_written (con_stdout con) @ ru_Stdout r \<and>
     iw_written (con_stderr con') = iw_written (con_stderr con) @ ru_Stderr r @
       report_text json cfg (mg_accessLog m) (accessSummarySnapshot (mg_audit m) (sb_id s))"
  using assms
  by (auto simp: reportRun_def writeBufferedRunResult_def write_to_sound finalizeRunOutput_text Let_def exitStatus_def
      split: if_splits)

text \<open>What the client is asked for: the sandbox's environment and working directory.\<close>

definition piped_options :: "sandbox_handle \<Rightarrow> cliRunOptions" where
  "piped_options s = \<lparr>ro_Env = mergeEnv [hd_baseEnv s, []], ro_WorkDir = hd_workDir s, ro_Interactive = False, ro_Stdin = True,
     ro_Streams = False, ro_Terminal = False, ro_TerminalSize = \<lparr>ts_Rows = 0, ts_Cols = 0\<rparr>\<rparr>"


subsection \<open>Concrete instances\<close>

definition example_outside :: "unit outside" where
  "example_outside = \<lparr>xt_fuel = 4, xt_lib = example_lib, xt_programs = ex_program_calls, xt_signal_name = \<lambda>_. [], xt_caPEM = ''CA'',
     xt_regexp = \<lambda>_. Inl [], xt_darwin = io_err ''darwin'', xt_resolve = \<lambda>_. None, xt_new_ca = None, xt_resolverCleanup = None\<rparr>"

definition example_config :: runConfig where
  "example_config = \<lparr>rc_manager = Manager.example_options\<lparr>po_MaxRequestBodyBytes := 1\<rparr>, rc_sandbox = Bwrap_Command.example_options, rc_argv = [''sh''],
     rc_printPolicy = False, rc_reporting = \<lparr>rp_PolicyViolations = True, rp_AccessSummary = False, rp_RequestSummary = False\<rparr>,
     rc_accessLogMode = ''off''\<rparr>"

definition example_managed :: ProxyManager where
  "example_managed = (newProxyManager [])\<lparr>mg_requestBodyLimitBytes := 1,
     mg_dockerSocketPolicy := Some \<lparr>cp_defaultAction = ''deny'', cp_rules = []\<rparr>\<rparr>"

lemma example_managed_new:
  "NewProxyManager (xt_regexp example_outside) (xt_resolve example_outside) (xt_new_ca example_outside) (rc_manager example_config) =
     Inr example_managed"
  by (simp add: NewProxyManager_def Manager.example_options_def compilePolicy_def zero_docker_options_def example_outside_def
      compileDockerSocketPolicy_def normalizeDockerRuleAction_def normalizePolicyMode_def Let_def example_config_def example_managed_def
      newProxyManager_def effectiveRequestBodyLimit_def effectiveResponseBodyLimit_def)

lemma example_managed_runs:
  "case NewSandbox example_host 4 example_lib ex_program_calls (\<lambda>_. []) ''CA'' (\<lambda>_. Inl []) (io_err ''darwin'') example_managed
     Bwrap_Command.example_options [] of ((Inr s, m), t) \<Rightarrow> sb_id s = ''sandbox-1'' | _ \<Rightarrow> False"
  by code_simp

definition example_console :: console where
  "example_console = \<lparr>con_stdout = \<lparr>iw_written = [], iw_fails = \<lambda>_ _. None\<rparr>, con_stderr = \<lparr>iw_written = [], iw_fails = \<lambda>_ _. None\<rparr>,
     con_terminal = \<lparr>tm_IsTerminal = False, tm_MakeRaw = None, tm_GetSize = None, tm_raw = False, tm_cleaned = False\<rparr>\<rparr>"

definition example_program :: "ProxyManager \<Rightarrow> sandbox_handle \<Rightarrow> program_run" where
  "example_program m s argv opts = (Inr (Some \<lparr>ru_ExitCode = 3, ru_Stdout = ''out'', ru_Stderr = ''bad''\<rparr>), m)"



end
