(* ===== verification/Exec_Launch.thy ===== *)
theory Exec_Launch
  imports Cli_Main Go_Flag
begin

section \<open>From a request to a running program: launcher and entry points\<close>

text \<open>
  A program in the sandbox is started through the launcher: \<^verbatim>\<open>lifecycle_linux.go\<close> and
  \<^verbatim>\<open>payload_seccomp_exec_linux.go\<close> rewrite the command, \<^verbatim>\<open>launcherentrypoint\<close> runs the embedded launcher
  image, and the launcher (\<^verbatim>\<open>cmd/bbox-seccomp-launcher\<close>) installs the filters and runs the program. The
  helper itself is started with the flags of \<^verbatim>\<open>helperentrypoint\<close>. System calls are parameters.
\<close>

subsection \<open>Commands of package os/exec\<close>

datatype extra_file = LauncherImage | NotifyChild

record exec_command =
  ex_Path :: string
  ex_Args :: "string list"
  ex_Env :: "string list option"
  ex_ExtraFiles :: "extra_file list"
  ex_Err :: "error option"

text \<open>\<^verbatim>\<open>exec.Command\<close>: a name without a separator is looked up.\<close>

definition new_command :: "(string \<Rightarrow> string result) \<Rightarrow> string \<Rightarrow> string list \<Rightarrow> exec_command" where
  "new_command lookPath name args =
     (let looked = (if CHR ''/'' \<in> set name then ok name else lookPath name) in
      \<lparr>ex_Path = (case looked of Inl _ \<Rightarrow> name | Inr p \<Rightarrow> p), ex_Args = name # args, ex_Env = None, ex_ExtraFiles = [],
       ex_Err = (case looked of Inl e \<Rightarrow> Some e | Inr _ \<Rightarrow> None)\<rparr>)"

text \<open>The environment of the new process: the last entry of every key. An equals sign in front belongs to the key.\<close>

definition dedup_key :: "string \<Rightarrow> string" where
  "dedup_key e =
     (if e \<noteq> [] \<and> hd e = CHR ''=''
      then (case str_cut CHR ''='' (tl e) of None \<Rightarrow> [] | Some (key, _) \<Rightarrow> CHR ''='' # key)
      else entry_key e)"

fun dedup_env :: "string list \<Rightarrow> string list" where
  "dedup_env [] = []"
| "dedup_env (e # es) =
     (if CHR ''='' \<in> set e \<and> (\<exists>e' \<in> set es. CHR ''='' \<in> set e' \<and> dedup_key e' = dedup_key e) \<or> e = [] then dedup_env es
      else e # dedup_env es)"

subsection \<open>The path of a command: exec\_manager.go\<close>

definition envValue :: "string list \<Rightarrow> string \<Rightarrow> string option" where
  "envValue env key = lastEnvValue env key"

fun searchExecPath :: "(string \<Rightarrow> FileInfo option) \<Rightarrow> string \<Rightarrow> string \<Rightarrow> string list \<Rightarrow> string option" where
  "searchExecPath stat cwd name [] = None"
| "searchExecPath stat cwd name (dir # dirs) =
     (let dir = (if dir = [] then ''.'' else dir);
          base = (if is_rooted dir then dir else path_join [cwd, dir]);
          candidate = path_join [base, name] in
      case stat candidate of
        None \<Rightarrow> searchExecPath stat cwd name dirs
      | Some info \<Rightarrow> if is_executable info then Some candidate else searchExecPath stat cwd name dirs)"

definition resolveExecCommandPath ::
  "string result \<Rightarrow> (string \<Rightarrow> FileInfo option) \<Rightarrow> string \<Rightarrow> string list \<Rightarrow> string \<Rightarrow> string result" where
  "resolveExecCommandPath getwd stat name env workDir =
     (if trim_space name = [] then err ''argv[0] is required''
      else if CHR ''/'' \<in> set name then ok name
      else case envValue env ''PATH'' of
             None \<Rightarrow> ok name
           | Some pathValue \<Rightarrow>
               (case (if trim_space workDir = [] then getwd else ok workDir) of
                  Inl e \<Rightarrow> err (''resolve working directory for '' @ go_quote name @ '': '' @ e)
                | Inr cwd \<Rightarrow>
                    (case searchExecPath stat cwd name (split_on CHR '':'' pathValue) of
                       Some candidate \<Rightarrow> ok candidate
                     | None \<Rightarrow> err (''exec: '' @ go_quote name @ '': executable file not found in $PATH''))))"

subsection \<open>The launcher image: embeddedlauncher\<close>

record ExecTarget =
  et_Path :: string
  et_File :: bool
  et_Args :: "string list"

definition payloadForArch :: "string \<Rightarrow> string \<Rightarrow> string result" where
  "payloadForArch goarch payload = (if payload = [] then err (''unsupported launcher arch '' @ go_quote goarch) else ok payload)"

definition ForArch :: "string \<Rightarrow> string \<Rightarrow> string \<Rightarrow> string result" where
  "ForArch launcherLinuxAMD64 launcherLinuxARM64 goarch =
     (if goarch = ''amd64'' then payloadForArch goarch launcherLinuxAMD64
      else if goarch = ''arm64'' then payloadForArch goarch launcherLinuxARM64
      else err (''unsupported launcher arch '' @ go_quote goarch))"

text \<open>
  One write gives the number of bytes written, which may be less than asked for, or an error. The file
  is what has been written so far.
\<close>

function writeExecMemfd :: "(string \<Rightarrow> string \<Rightarrow> nat result) \<Rightarrow> string \<Rightarrow> string \<Rightarrow> error option \<times> string" where
  "writeExecMemfd write file payload =
     (if payload = [] then (None, file)
      else case write file payload of
             Inl e \<Rightarrow> (Some e, file)
           | Inr n \<Rightarrow>
               if n = 0 then (Some ''short write'', file)
               else writeExecMemfd write (file @ take n payload) (drop n payload))"
  by pat_completeness auto
termination
  by (relation "measure (\<lambda>(_, _, payload). length payload)") auto

declare writeExecMemfd.simps [simp del]

record memfd_calls =
  mf_payload :: "string result"
  mf_create :: "error option"
  mf_write :: "string \<Rightarrow> string \<Rightarrow> nat result"
  mf_fchmod :: "error option"
  mf_seal :: "error option"

text \<open>The target with the image in it; on failure the memory file is closed.\<close>

definition OpenExecTarget :: "memfd_calls \<Rightarrow> (ExecTarget \<times> string) result" where
  "OpenExecTarget mf =
     res_bind (mf_payload mf) (\<lambda>payload.
       case mf_create mf of
         Some e \<Rightarrow> err (''memfd_create launcher: '' @ e)
       | None \<Rightarrow>
           (case writeExecMemfd (mf_write mf) [] payload of
              (Some e, _) \<Rightarrow> err (''write launcher memfd: '' @ e)
            | (None, file) \<Rightarrow>
                (case (mf_fchmod mf, mf_seal mf) of
                   (Some e, _) \<Rightarrow> err (''chmod launcher memfd: '' @ e)
                 | (None, Some e) \<Rightarrow> err (''seal launcher memfd: '' @ e)
                 | (None, None) \<Rightarrow> ok (\<lparr>et_Path = [], et_File = True, et_Args = []\<rparr>, file))))"

subsection \<open>Rewriting the command\<close>

definition launcherSockFDEnv :: string where
  "launcherSockFDEnv = ''BBOX_SECCOMP_NOTIFY_SOCK_FD''"

definition payloadSeccompBootstrapPath :: string where
  "payloadSeccompBootstrapPath = ''/app/bbox''"

definition filterLauncherEnv :: "string list \<Rightarrow> string list" where
  "filterLauncherEnv env = filter (\<lambda>entry. \<not> has_prefix entry (launcherSockFDEnv @ ''='')) env"

definition launcherArgvOf :: "ExecTarget \<Rightarrow> string \<Rightarrow> string \<Rightarrow> string list \<Rightarrow> string list" where
  "launcherArgvOf target bpf path args =
     [''bbox-seccomp-launcher''] @ (if bpf \<noteq> [] then [''--payload-seccomp-bpf'', bpf] else []) @ et_Args target @ [path, ''--''] @ args"

definition bootstrapArgs :: "nat \<Rightarrow> string list \<Rightarrow> string list" where
  "bootstrapArgs launcherFD launcherArgv =
     [payloadSeccompBootstrapPath, ''internal-launcher'', ''--launcher-fd'', itoa (int launcherFD), ''--''] @ launcherArgv"

definition directArgs :: "ExecTarget \<Rightarrow> string \<Rightarrow> string \<Rightarrow> string list \<Rightarrow> string list" where
  "directArgs target bpf path args =
     [et_Path target] @ et_Args target @ (if bpf \<noteq> [] then [''--payload-seccomp-bpf'', bpf] else []) @ [path, ''--''] @ args"

definition throughLauncher :: "ExecTarget \<Rightarrow> string \<Rightarrow> exec_command \<Rightarrow> exec_command" where
  "throughLauncher target bpf cmd =
     (let args = (if ex_Args cmd = [] then [ex_Path cmd] else ex_Args cmd) in
      if et_File target
      then cmd\<lparr>ex_Path := payloadSeccompBootstrapPath,
               ex_Args := bootstrapArgs (3 + length (ex_ExtraFiles cmd)) (launcherArgvOf target bpf (ex_Path cmd) args),
               ex_ExtraFiles := ex_ExtraFiles cmd @ [LauncherImage]\<rparr>
      else cmd\<lparr>ex_Path := et_Path target, ex_Args := directArgs target bpf (ex_Path cmd) args\<rparr>)"

text \<open>Without a supervisor: only when there is a filter for the program.\<close>

definition preparePayloadSeccompExec :: "ExecTarget result \<Rightarrow> string \<Rightarrow> exec_command \<Rightarrow> exec_command result" where
  "preparePayloadSeccompExec openTarget bpf cmd =
     (if bpf = [] then ok cmd
      else if ex_Path cmd = [] then err ''command path is required''
      else res_bind openTarget (\<lambda>target. ok (throughLauncher target bpf cmd)))"

subsection \<open>The supervisor's descriptors: Prepare, Start and Close of lifecycle\_linux.go\<close>

text \<open>
  Open files of the supervisor are counted in \<open>lf_open\<close>; the fields have what the supervisor knows of
  them.
\<close>

datatype launch_file = NotifySock | NotifyChildSock | LauncherFile | NotifyFd int

record launch_state =
  lf_open :: "launch_file multiset"
  lf_notifySock :: bool
  lf_notifyChild :: bool
  lf_launcherClose :: bool
  lf_notifyFD :: int
  lf_notifyReceiveFD :: int
  lf_launcherError :: "error option"
  lf_bpf :: string

definition newLaunch :: "string \<Rightarrow> launch_state" where
  "newLaunch bpf = \<lparr>lf_open = {#}, lf_notifySock = False, lf_notifyChild = False, lf_launcherClose = False, lf_notifyFD = 0,
     lf_notifyReceiveFD = 0, lf_launcherError = None, lf_bpf = bpf\<rparr>"

definition Prepare ::
  "error option \<Rightarrow> ExecTarget result \<Rightarrow> string list \<Rightarrow> launch_state \<Rightarrow> exec_command \<Rightarrow> (error + exec_command) \<times> launch_state" where
  "Prepare socketpair openTarget osEnviron s cmd =
     (case socketpair of
        Some e \<Rightarrow> (Inl (''open launcher socketpair: '' @ e), s)
      | None \<Rightarrow>
          let s1 = s\<lparr>lf_open := lf_open s + {#NotifySock, NotifyChildSock#}\<rparr>;
              dropped = (\<lambda>s. s\<lparr>lf_open := lf_open s - {#NotifySock, NotifyChildSock#}\<rparr>) in
          (case openTarget of
             Inl e \<Rightarrow> (Inl e, dropped s1)
           | Inr target \<Rightarrow>
               let s2 = s1\<lparr>lf_open := lf_open s1 + {#LauncherFile#}\<rparr> in
               if ex_Path cmd = []
               then (Inl ''command path is required'', dropped (s2\<lparr>lf_open := lf_open s2 - {#LauncherFile#}\<rparr>))
               else
                 let env = filterLauncherEnv (case ex_Env cmd of None \<Rightarrow> osEnviron | Some env \<Rightarrow> env);
                     cmd' = throughLauncher target (lf_bpf s) cmd;
                     extraFD = 3 + length (ex_ExtraFiles cmd') in
                 (Inr (cmd'\<lparr>ex_Env := Some (env @ [launcherSockFDEnv @ ''='' @ itoa (int extraFD)]),
                            ex_ExtraFiles := ex_ExtraFiles cmd' @ [NotifyChild]\<rparr>),
                  s2\<lparr>lf_notifySock := True, lf_notifyChild := True, lf_notifyReceiveFD := -1, lf_notifyFD := -1,
                     lf_launcherClose := True\<rparr>)))"

text \<open>A message of the launcher: its bytes and the descriptors that came with it.\<close>

definition recvLauncherNotifyFD :: "(nat list \<times> int list result) result \<Rightarrow> int result" where
  "recvLauncherNotifyFD msg =
     (case msg of
        Inl e \<Rightarrow> err (''recv launcher message: '' @ e)
      | Inr ([], _) \<Rightarrow> err ''EOF''
      | Inr (status # text', rights) \<Rightarrow>
          if status = 0 then err (''launcher failed: '' @ map char_of text')
          else if status \<noteq> 1 then err (''unexpected launcher status '' @ itoa (int status))
          else (case rights of
                  Inl e \<Rightarrow> err (''parse launcher rights: '' @ e)
                | Inr [] \<Rightarrow> err ''launcher did not pass notify fd''
                | Inr (fd # _) \<Rightarrow> ok fd))"

definition setLauncherError :: "error \<Rightarrow> launch_state \<Rightarrow> launch_state" where
  "setLauncherError e s = (if lf_launcherError s = None then s\<lparr>lf_launcherError := Some e\<rparr> else s)"

definition closeHandedOver :: "launch_state \<Rightarrow> launch_state" where
  "closeHandedOver s =
     (let s = (if lf_notifyChild s then s\<lparr>lf_open := lf_open s - {#NotifyChildSock#}, lf_notifyChild := False\<rparr> else s) in
      if lf_launcherClose s then s\<lparr>lf_open := lf_open s - {#LauncherFile#}, lf_launcherClose := False\<rparr> else s)"

text \<open>\<open>received\<close> is \<^verbatim>\<open>receiveLauncherNotifyFD\<close>: the launcher's message, or the end of the context.\<close>

definition Start :: "int \<Rightarrow> int result \<Rightarrow> (int \<Rightarrow> int result) \<Rightarrow> launch_state \<Rightarrow> error option \<times> launch_state" where
  "Start pid received dup s =
     (if pid \<le> 0 then (Some ''pid must be positive'', s)
      else if \<not> lf_notifySock s then (Some ''supervisor is not prepared'', s)
      else
        let s = closeHandedOver s in
        case received of
          Inl e \<Rightarrow> (Some e, setLauncherError e s)
        | Inr controlFD \<Rightarrow>
            (case dup controlFD of
               Inl e \<Rightarrow> (Some e, setLauncherError e s)
             | Inr receiveFD \<Rightarrow>
                 (None, s\<lparr>lf_open := lf_open s + {#NotifyFd controlFD, NotifyFd receiveFD#},
                         lf_notifyFD := controlFD, lf_notifyReceiveFD := receiveFD\<rparr>)))"

definition closeNotifyFd :: "int \<Rightarrow> launch_state \<Rightarrow> launch_state" where
  "closeNotifyFd fd s = (if fd \<ge> 3 then s\<lparr>lf_open := lf_open s - {#NotifyFd fd#}\<rparr> else s)"

definition closeLaunch :: "launch_state \<Rightarrow> launch_state" where
  "closeLaunch s =
     (let s = (if lf_notifyChild s then s\<lparr>lf_open := lf_open s - {#NotifyChildSock#}, lf_notifyChild := False\<rparr> else s);
          s = (if lf_notifySock s then s\<lparr>lf_open := lf_open s - {#NotifySock#}, lf_notifySock := False\<rparr> else s);
          s = (closeNotifyFd (lf_notifyReceiveFD s) s);
          s = (if lf_notifyReceiveFD s \<ge> 3 then s\<lparr>lf_notifyReceiveFD := -1\<rparr> else s);
          s = (closeNotifyFd (lf_notifyFD s) s);
          s = (if lf_notifyFD s \<ge> 3 then s\<lparr>lf_notifyFD := -1\<rparr> else s) in
      if lf_launcherClose s then s\<lparr>lf_open := lf_open s - {#LauncherFile#}, lf_launcherClose := False\<rparr> else s)"

subsection \<open>The internal launcher: launcherentrypoint\<close>

definition launcherFlags :: "string \<Rightarrow> int flag option" where
  "launcherFlags name = (if name = ''launcher-fd'' then Some (ValueFlag (\<lambda>v _. parse_int64 v)) else None)"

definition parseLauncherFlags :: "string list \<Rightarrow> (int \<times> string list) result" where
  "parseLauncherFlags args =
     res_bind (flag_parse launcherFlags 3 args) (\<lambda>(fd, launcherArgv).
       if fd < 0 then err ''launcher fd must be non-negative''
       else if launcherArgv = [] then err ''launcher argv is required after --''
       else ok (fd, launcherArgv))"

definition cStringArray :: "string list \<Rightarrow> string list result" where
  "cStringArray values = (if \<exists>v \<in> set values. CHR 0x00 \<in> set v then err ''invalid argument'' else ok values)"

text \<open>The image's descriptor, its arguments and its environment.\<close>

definition runLauncherEntrypoint :: "string list \<Rightarrow> string list \<Rightarrow> (int \<times> string list \<times> string list) result" where
  "runLauncherEntrypoint args env =
     res_bind (parseLauncherFlags args) (\<lambda>(fd, launcherArgv).
     res_bind (cStringArray launcherArgv) (\<lambda>argv.
     res_bind (cStringArray env) (\<lambda>env. ok (fd, argv, env))))"

subsection \<open>The launcher: cmd/bbox-seccomp-launcher/main.c\<close>

definition starts_with_env :: "string \<Rightarrow> bool" where
  "starts_with_env entry \<longleftrightarrow> has_prefix entry (launcherSockFDEnv @ ''='')"

definition c_getenv :: "string list \<Rightarrow> string option" where
  "c_getenv env = (case filter starts_with_env env of
     [] \<Rightarrow> None | e # _ \<Rightarrow> Some (drop (length launcherSockFDEnv + 1) e))"

text \<open>Whether the variable is set, and the number in it if it has one.\<close>

definition parse_sock_fd :: "string list \<Rightarrow> bool \<times> int option" where
  "parse_sock_fd env =
     (case c_getenv env of
        None \<Rightarrow> (False, None)
      | Some value \<Rightarrow>
          if value = [] then (False, None)
          else (True, case atoi (trim_left_by is_space value) of
                  Some fd \<Rightarrow> if fd < 0 \<or> fd > 2147483647 then None else Some fd
                | None \<Rightarrow> None))"

definition find_separator :: "string list \<Rightarrow> nat option" where
  "find_separator argv = (let i = length (takeWhile (\<lambda>a. a \<noteq> ''--'') (drop 1 argv)) + 1 in
     if i < length argv then Some i else None)"

fun skip_bpf :: "string list \<Rightarrow> nat \<Rightarrow> string option \<Rightarrow> (nat \<times> string option) option" where
  "skip_bpf [] idx bpf = None"
| "skip_bpf [a] idx bpf = (if a = ''--payload-seccomp-bpf'' then None else Some (idx, bpf))"
| "skip_bpf (a # v # rest) idx bpf = (if a = ''--payload-seccomp-bpf'' then skip_bpf rest (idx + 2) (Some v) else Some (idx, bpf))"

definition parse_launcher_args :: "string list \<Rightarrow> (nat \<times> nat \<times> string option) option" where
  "parse_launcher_args argv =
     (case skip_bpf (drop 1 argv) 1 None of
        None \<Rightarrow> None
      | Some (target_index, bpf) \<Rightarrow>
          (case find_separator argv of
             None \<Rightarrow> None
           | Some separator \<Rightarrow>
               if separator + 1 \<ge> length argv \<or> separator \<le> target_index then None
               else Some (target_index, separator, bpf)))"

datatype launcher_call = DupSocket int | InstallNotify | SendListener | MarkCloexec | InstallPayload string

datatype launched =
    LaunchFailed
  | Execve string "string list" "string list" bool "string option"

text \<open>
  The program that is run, with its arguments and environment, whether its calls are notified and the
  filter that is installed for it. A call works or not.
\<close>

definition launcher_main :: "(launcher_call \<Rightarrow> bool) \<Rightarrow> string list \<Rightarrow> string list \<Rightarrow> launched" where
  "launcher_main works argv env =
     (if length argv < 4 then LaunchFailed
      else case parse_launcher_args argv of
             None \<Rightarrow> LaunchFailed
           | Some (target_index, separator, bpf) \<Rightarrow>
               (case parse_sock_fd env of
                  (has_sock, fd) \<Rightarrow>
                    if \<not> has_sock \<and> bpf = None then LaunchFailed
                    else if has_sock \<and> (fd = None \<or> \<not> works (DupSocket (the fd)) \<or> \<not> works InstallNotify \<or>
                        \<not> works SendListener \<or> \<not> works MarkCloexec) then LaunchFailed
                    else if bpf \<noteq> None \<and> (the bpf = [] \<or> \<not> works (InstallPayload (the bpf))) then LaunchFailed
                    else Execve (argv ! target_index) (drop (separator + 1) argv) (filter (\<lambda>e. \<not> starts_with_env e) env) has_sock bpf))"

text \<open>
  The chain of programs: a started command is the tool itself, which runs the image in the descriptor,
  which is the launcher.
\<close>

definition start_chain :: "(launcher_call \<Rightarrow> bool) \<Rightarrow> exec_command \<Rightarrow> launched" where
  "start_chain works cmd =
     (let env = dedup_env (the (ex_Env cmd)) in
      if ex_Path cmd \<noteq> payloadSeccompBootstrapPath then LaunchFailed
      else case dispatch (tl (ex_Args cmd)) of
             InternalLauncher args \<Rightarrow>
               (case runLauncherEntrypoint args env of
                  Inl _ \<Rightarrow> LaunchFailed
                | Inr (fd, argv, env) \<Rightarrow>
                    if fd \<ge> 3 \<and> nat fd - 3 < length (ex_ExtraFiles cmd) \<and> ex_ExtraFiles cmd ! (nat fd - 3) = LauncherImage
                    then launcher_main works argv env else LaunchFailed)
           | _ \<Rightarrow> LaunchFailed)"

subsection \<open>The helper's flags: helperentrypoint, helperruntime\<close>

record helperFlags =
  hf_bridgeFD :: int
  hf_proxyAddr :: string
  hf_mitmEnabled :: bool
  hf_maxRequestBodyBytes :: int
  hf_trafficMode :: string
  hf_payloadSeccompBPF :: string

definition helperFlagSet :: "string \<Rightarrow> helperFlags flag option" where
  "helperFlagSet name =
     (if name = ''bridge-fd'' then Some (ValueFlag (\<lambda>v s. map_option (\<lambda>n. s\<lparr>hf_bridgeFD := n\<rparr>) (parse_int64 v)))
      else if name = ''proxy-addr'' then Some (ValueFlag (\<lambda>v s. Some (s\<lparr>hf_proxyAddr := v\<rparr>)))
      else if name = ''mitm-enabled'' then Some (BoolFlag (\<lambda>b s. s\<lparr>hf_mitmEnabled := b\<rparr>))
      else if name = ''max-request-body-bytes''
      then Some (ValueFlag (\<lambda>v s. map_option (\<lambda>n. s\<lparr>hf_maxRequestBodyBytes := n\<rparr>) (parse_int64 v)))
      else if name = ''traffic-mode'' then Some (ValueFlag (\<lambda>v s. Some (s\<lparr>hf_trafficMode := v\<rparr>)))
      else if name = ''payload-seccomp-bpf'' then Some (ValueFlag (\<lambda>v s. Some (s\<lparr>hf_payloadSeccompBPF := v\<rparr>)))
      else None)"

definition helperDefaults :: helperFlags where
  "helperDefaults = \<lparr>hf_bridgeFD = 3, hf_proxyAddr = defaultProxyAddr, hf_mitmEnabled = False, hf_maxRequestBodyBytes = 0,
     hf_trafficMode = ''proxy'', hf_payloadSeccompBPF = []\<rparr>"

definition parseHelperFlags :: "string list \<Rightarrow> helperFlags result" where
  "parseHelperFlags args =
     res_bind (flag_parse helperFlagSet helperDefaults args) (\<lambda>(parsed, rest).
       if rest \<noteq> [] \<and> hd rest \<noteq> ''child-proxy'' then err (''unexpected subcommand '' @ go_quote (hd rest)) else ok parsed)"

datatype helper_mode = ProxyMode | TransparentMode

text \<open>\<^verbatim>\<open>Run\<close> of the entry point and of the runtime: the mode that is started, with its options.\<close>

definition runHelper :: "bool \<Rightarrow> string list \<Rightarrow> (helper_mode \<times> helperFlags) result" where
  "runHelper bridgeOpens args =
     res_bind (parseHelperFlags args) (\<lambda>parsed.
       if hf_bridgeFD parsed < 0 then err ''bridge fd must be non-negative''
       else if \<not> bridgeOpens then err (''bridge fd '' @ itoa (hf_bridgeFD parsed) @ '' is invalid'')
       else
         let mode = (if hf_trafficMode parsed = [] then ''proxy'' else hf_trafficMode parsed) in
         if mode = ''proxy'' then ok (ProxyMode, parsed\<lparr>hf_trafficMode := mode\<rparr>)
         else if mode = ''transparent'' then ok (TransparentMode, parsed\<lparr>hf_trafficMode := mode\<rparr>)
         else err (''unsupported traffic mode '' @ go_quote mode))"

end
