(* ===== verification/Exec_Manager.thy ===== *)
theory Exec_Manager
  imports Exec_Launch
begin

section \<open>Running programs in the sandbox: exec\_manager.go, exec/session.go\<close>

text \<open>
  The helper runs one program at a time. A request waits for the lock, starts its program and stays until
  the program has ended and its output is read; one goroutine per output stream sends what it reads. The
  goroutines interleave, so the manager is a step relation: what the program, the kernel and the client do
  are steps of their own. The log is left out.
\<close>

subsection \<open>Sessions: exec/session.go\<close>

record Session =
  se_stdin :: bool
  se_ptyFile :: bool
  se_terminal :: bool
  se_open :: bool
  se_written :: string
  se_size :: "TerminalSize option"

definition initialSize :: "TerminalSize option \<Rightarrow> TerminalSize" where
  "initialSize sz = (case sz of
     None \<Rightarrow> \<lparr>ts_Rows = 24, ts_Cols = 80\<rparr>
   | Some s \<Rightarrow> \<lparr>ts_Rows = (if ts_Rows s > 0 then ts_Rows s else 24), ts_Cols = (if ts_Cols s > 0 then ts_Cols s else 80)\<rparr>)"

record start_calls =
  sc_pty :: "error option"
  sc_StdoutPipe :: "error option"
  sc_StderrPipe :: "error option"
  sc_StdinPipe :: "error option"
  sc_Start :: "error option"

definition first_error :: "error option list \<Rightarrow> error option" where
  "first_error es = (case filter (\<lambda>e. e \<noteq> None) es of [] \<Rightarrow> None | e # _ \<Rightarrow> e)"

text \<open>A session, none when the program gets no input, and the names of the output streams.\<close>

definition StartSession :: "start_calls \<Rightarrow> exec_command \<Rightarrow> ExecRequest \<Rightarrow> (Session option \<times> string list) result" where
  "StartSession sc cmd req =
     (if xq_Interactive req \<and> xq_Terminal req
      then (case first_error [ex_Err cmd, sc_pty sc] of
              Some e \<Rightarrow> err e
            | None \<Rightarrow> ok (Some \<lparr>se_stdin = True, se_ptyFile = True, se_terminal = True, se_open = True, se_written = [],
                               se_size = Some (initialSize (xq_InitialSize req))\<rparr>, [''stdout'']))
      else (case first_error [sc_StdoutPipe sc, sc_StderrPipe sc, if xq_Interactive req then sc_StdinPipe sc else None,
                              ex_Err cmd, sc_Start sc] of
              Some e \<Rightarrow> err e
            | None \<Rightarrow> ok (if xq_Interactive req
                          then Some \<lparr>se_stdin = True, se_ptyFile = False, se_terminal = False, se_open = True, se_written = [], se_size = None\<rparr>
                          else None, [''stdout'', ''stderr''])))"

definition maxUint16 :: "16 word \<Rightarrow> 16 word \<Rightarrow> 16 word" where
  "maxUint16 value fallback = (if value = 0 then fallback else value)"

text \<open>\<open>accepts\<close>: the program's side takes the data.\<close>

definition HandleInput :: "bool \<Rightarrow> ExecInput \<Rightarrow> Session \<Rightarrow> Session" where
  "HandleInput accepts input s =
     (let s = (case xi_Resize input of
          Some sz \<Rightarrow>
            if se_terminal s \<and> se_ptyFile s \<and> (ts_Rows sz > 0 \<or> ts_Cols sz > 0)
            then s\<lparr>se_size := Some \<lparr>ts_Rows = maxUint16 (ts_Rows sz) 24, ts_Cols = maxUint16 (ts_Cols sz) 80\<rparr>\<rparr> else s
        | None \<Rightarrow> s) in
      if xi_Data input \<noteq> [] \<and> se_stdin s \<and> \<not> (se_open s \<and> accepts) then s
      else
        let s = (if xi_Data input \<noteq> [] \<and> se_stdin s then s\<lparr>se_written := se_written s @ xi_Data input\<rparr> else s) in
        if xi_EOF input \<and> se_stdin s \<and> \<not> se_terminal s then s\<lparr>se_open := False\<rparr> else s)"

definition closeSession :: "Session \<Rightarrow> Session" where
  "closeSession s = s\<lparr>se_open := False\<rparr>"

subsection \<open>The manager's state\<close>

datatype wait_end = WaitOk | WaitExit int | WaitError error

text \<open>
  An output stream: what the program wrote and nobody has read, whether its goroutine still reads, and
  whether \<^verbatim>\<open>Wait\<close> has closed the reading end.
\<close>

record out_stream =
  os_name :: string
  os_pipe :: string
  os_reading :: bool
  os_closed :: bool

record execState =
  es_id :: "64 word"
  es_session :: "Session option"
  es_cancelled :: bool

record exec_run =
  er_id :: "64 word"
  er_streams :: "out_stream list"
  er_terminal :: bool
  er_exited :: "wait_end option"
  er_waited :: bool

text \<open>
  \<open>xm_seen\<close> and \<open>xm_output\<close> only record: the ids of all requests and everything that programs wrote.
\<close>

record execManager =
  xm_trafficMode :: TrafficMode
  xm_payloadSeccomp :: string
  xm_waiting :: "(64 word \<times> ExecRequest) list"
  xm_running :: "exec_run option"
  xm_currentExec :: "execState option"
  xm_sent :: "Envelope list"
  xm_sendError :: "error option"
  xm_seen :: "64 word list"
  xm_output :: "(64 word \<times> string \<times> string) list"

definition newExecManager :: "TrafficMode \<Rightarrow> string \<Rightarrow> execManager" where
  "newExecManager mode bpf = \<lparr>xm_trafficMode = mode, xm_payloadSeccomp = bpf, xm_waiting = [], xm_running = None, xm_currentExec = None,
     xm_sent = [], xm_sendError = None, xm_seen = [], xm_output = []\<rparr>"

definition sendExec :: "Envelope \<Rightarrow> execManager \<Rightarrow> execManager" where
  "sendExec env m = (if xm_sendError m = None then m\<lparr>xm_sent := xm_sent m @ [env]\<rparr> else m)"

definition resultEnvelope :: "64 word \<Rightarrow> ExecResult \<Rightarrow> Envelope" where
  "resultEnvelope i r = (envelope i)\<lparr>en_ExecResult := Some r\<rparr>"

definition frameEnvelope :: "64 word \<Rightarrow> StreamFrame \<Rightarrow> Envelope" where
  "frameEnvelope i f = (envelope i)\<lparr>en_StreamFrame := Some f\<rparr>"

definition sendExecError :: "64 word \<Rightarrow> error \<Rightarrow> execManager \<Rightarrow> execManager" where
  "sendExecError i e m = sendExec (resultEnvelope i \<lparr>xr_ExitCode = -1, xr_Stderr = e, xr_Error = e\<rparr>) m"

subsection \<open>Starting a program\<close>

record exec_answers =
  xa_getwd :: "string result"
  xa_stat :: "string \<Rightarrow> FileInfo option"
  xa_lookPath :: "string \<Rightarrow> string result"
  xa_openTarget :: "ExecTarget result"
  xa_start :: start_calls
  xa_supervisor :: "error option"
  xa_socketpair :: "error option"
  xa_environ :: "string list"
  xa_pid :: int
  xa_received :: "int result"
  xa_dup :: "int \<Rightarrow> int result"

text \<open>With the supervisor; every failure after \<^verbatim>\<open>Prepare\<close> closes it.\<close>

definition runSupervisedExec ::
  "exec_answers \<Rightarrow> string \<Rightarrow> exec_command \<Rightarrow> ExecRequest \<Rightarrow> (Session option \<times> string list) result \<times> launch_state" where
  "runSupervisedExec a bpf cmd req =
     (case xa_supervisor a of
        Some e \<Rightarrow> (err e, newLaunch bpf)
      | None \<Rightarrow>
          (case Prepare (xa_socketpair a) (xa_openTarget a) (xa_environ a) (newLaunch bpf) cmd of
             (Inl e, s) \<Rightarrow> (err e, closeLaunch s)
           | (Inr cmd, s) \<Rightarrow>
               (case StartSession (xa_start a) cmd req of
                  Inl e \<Rightarrow> (err e, closeLaunch s)
                | Inr started \<Rightarrow>
                    (case Start (xa_pid a) (xa_received a) (xa_dup a) s of
                       (Some e, s) \<Rightarrow> (err e, closeLaunch s)
                     | (None, s) \<Rightarrow> (ok started, s)))))"

definition startExec :: "exec_answers \<Rightarrow> execManager \<Rightarrow> ExecRequest \<Rightarrow> (Session option \<times> string list) result" where
  "startExec a m req =
     res_bind (resolveExecCommandPath (xa_getwd a) (xa_stat a) (hd (xq_Argv req)) (xq_Env req) (xq_WorkDir req)) (\<lambda>path.
       let cmd = (new_command (xa_lookPath a) path (tl (xq_Argv req)))\<lparr>ex_Env := Some (xq_Env req)\<rparr> in
       if xm_trafficMode m = ''transparent'' then fst (runSupervisedExec a (xm_payloadSeccomp m) cmd req)
       else res_bind (preparePayloadSeccompExec (xa_openTarget a) (xm_payloadSeccomp m) cmd) (\<lambda>cmd. StartSession (xa_start a) cmd req))"

definition setCurrentExec :: "execState \<Rightarrow> execManager \<Rightarrow> execManager" where
  "setCurrentExec s m = m\<lparr>xm_currentExec := Some s\<rparr>"

definition clearCurrentExec :: "64 word \<Rightarrow> execManager \<Rightarrow> execManager" where
  "clearCurrentExec i m = (case xm_currentExec m of
     None \<Rightarrow> m | Some s \<Rightarrow> if es_id s \<noteq> i then m else m\<lparr>xm_currentExec := None\<rparr>)"

text \<open>\<^verbatim>\<open>handleExec\<close> with the lock, up to waiting for the program.\<close>

definition handleExec :: "exec_answers \<Rightarrow> 64 word \<Rightarrow> ExecRequest \<Rightarrow> execManager \<Rightarrow> execManager" where
  "handleExec a i req m =
     (if xq_Argv req = [] then sendExecError i ''argv is required'' m
      else case startExec a m req of
             Inl e \<Rightarrow> sendExecError i e m
           | Inr (session, names) \<Rightarrow>
               (setCurrentExec \<lparr>es_id = i, es_session = session, es_cancelled = False\<rparr> m)\<lparr>xm_running := Some
                 \<lparr>er_id = i, er_streams = map (\<lambda>n. \<lparr>os_name = n, os_pipe = [], os_reading = True, os_closed = False\<rparr>) names,
                  er_terminal = (xq_Interactive req \<and> xq_Terminal req), er_exited = None, er_waited = False\<rparr>\<rparr>)"

definition execResultOf :: "wait_end \<Rightarrow> ExecResult" where
  "execResultOf w = (case w of
     WaitOk \<Rightarrow> \<lparr>xr_ExitCode = 0, xr_Stderr = [], xr_Error = []\<rparr>
   | WaitExit code \<Rightarrow> \<lparr>xr_ExitCode = code, xr_Stderr = [], xr_Error = []\<rparr>
   | WaitError e \<Rightarrow> \<lparr>xr_ExitCode = -1, xr_Stderr = e, xr_Error = e\<rparr>)"

text \<open>The rest of \<^verbatim>\<open>handleExec\<close>, once the program has ended and every stream has been read.\<close>

definition finishExec :: "exec_run \<Rightarrow> wait_end \<Rightarrow> execManager \<Rightarrow> execManager" where
  "finishExec r w m = clearCurrentExec (er_id r) ((sendExec (resultEnvelope (er_id r) (execResultOf w)) m)\<lparr>xm_running := None\<rparr>)"

subsection \<open>Streams and input\<close>

definition updateStream :: "nat \<Rightarrow> (out_stream \<Rightarrow> out_stream) \<Rightarrow> exec_run \<Rightarrow> exec_run" where
  "updateStream k f r = r\<lparr>er_streams := (er_streams r)[k := f (er_streams r ! k)]\<rparr>"

text \<open>One read of \<^verbatim>\<open>StreamOutput\<close> that gives data; a frame that cannot be sent ends the goroutine.\<close>

definition StreamOutput :: "exec_run \<Rightarrow> nat \<Rightarrow> nat \<Rightarrow> execManager \<Rightarrow> execManager" where
  "StreamOutput r k n m =
     (let s = er_streams r ! k; data = take n (os_pipe s) in
      (sendExec (frameEnvelope (er_id r) \<lparr>sf_Stream = os_name s, sf_Data = data\<rparr>) m)
        \<lparr>xm_running := Some (updateStream k (\<lambda>s. s\<lparr>os_pipe := drop n (os_pipe s), os_reading := xm_sendError m = None\<rparr>) r)\<rparr>)"

definition handleExecInput :: "bool \<Rightarrow> 64 word \<Rightarrow> ExecInput \<Rightarrow> execManager \<Rightarrow> execManager" where
  "handleExecInput accepts i input m =
     (case xm_currentExec m of
        None \<Rightarrow> m
      | Some st \<Rightarrow>
          if es_id st \<noteq> i then m
          else if xi_Cancel input
          then m\<lparr>xm_currentExec := Some (st\<lparr>es_cancelled := True, es_session := map_option closeSession (es_session st)\<rparr>)\<rparr>
          else m\<lparr>xm_currentExec := Some (st\<lparr>es_session := map_option (HandleInput accepts input) (es_session st)\<rparr>)\<rparr>)"

subsection \<open>Steps\<close>

text \<open>
  Request ids are the client's counter, so a new request has a new id. A program writes only while it
  runs. A stream ends when the program is gone and everything is read, or when \<^verbatim>\<open>Wait\<close> has closed it; on a
  terminal \<^verbatim>\<open>Wait\<close> closes nothing.
\<close>

inductive exec_step :: "execManager \<Rightarrow> execManager \<Rightarrow> bool" where
  arrive: "i \<notin> set (xm_seen m) \<Longrightarrow> exec_step m (m\<lparr>xm_waiting := xm_waiting m @ [(i, req)], xm_seen := xm_seen m @ [i]\<rparr>)"
| begin_exec: "xm_running m = None \<Longrightarrow> xm_waiting m = ws @ (i, req) # ws' \<Longrightarrow>
    exec_step m (handleExec a i req (m\<lparr>xm_waiting := ws @ ws'\<rparr>))"
| program_writes: "xm_running m = Some r \<Longrightarrow> k < length (er_streams r) \<Longrightarrow> er_exited r = None \<Longrightarrow>
    exec_step m (m\<lparr>xm_running := Some (updateStream k (\<lambda>s. s\<lparr>os_pipe := os_pipe s @ data\<rparr>) r),
      xm_output := xm_output m @ [(er_id r, os_name (er_streams r ! k), data)]\<rparr>)"
| stream_read: "xm_running m = Some r \<Longrightarrow> k < length (er_streams r) \<Longrightarrow> os_reading (er_streams r ! k) \<Longrightarrow>
    \<not> os_closed (er_streams r ! k) \<Longrightarrow> 0 < n \<Longrightarrow> n \<le> 32768 \<Longrightarrow> n \<le> length (os_pipe (er_streams r ! k)) \<Longrightarrow>
    exec_step m (StreamOutput r k n m)"
| stream_end: "xm_running m = Some r \<Longrightarrow> k < length (er_streams r) \<Longrightarrow> os_reading (er_streams r ! k) \<Longrightarrow>
    os_pipe (er_streams r ! k) = [] \<and> er_exited r \<noteq> None \<or> os_closed (er_streams r ! k) \<Longrightarrow>
    exec_step m (m\<lparr>xm_running := Some (updateStream k (\<lambda>s. s\<lparr>os_reading := False\<rparr>) r)\<rparr>)"
| program_ends: "xm_running m = Some r \<Longrightarrow> er_exited r = None \<Longrightarrow> exec_step m (m\<lparr>xm_running := Some (r\<lparr>er_exited := Some w\<rparr>)\<rparr>)"
| wait_returns: "xm_running m = Some r \<Longrightarrow> er_exited r \<noteq> None \<Longrightarrow> \<not> er_waited r \<Longrightarrow>
    exec_step m (m\<lparr>xm_running := Some (r\<lparr>er_waited := True, er_streams :=
      (if er_terminal r then er_streams r else map (\<lambda>s. s\<lparr>os_closed := True\<rparr>) (er_streams r))\<rparr>)\<rparr>)"
| finish: "xm_running m = Some r \<Longrightarrow> er_waited r \<Longrightarrow> er_exited r = Some w \<Longrightarrow> list_all (\<lambda>s. \<not> os_reading s) (er_streams r) \<Longrightarrow>
    exec_step m (finishExec r w m)"
| input: "exec_step m (handleExecInput accepts i inp m)"
| channel_breaks: "exec_step m (m\<lparr>xm_sendError := Some e\<rparr>)"

inductive_cases exec_stepE: "exec_step m m'"

definition exec_reachable :: "TrafficMode \<Rightarrow> string \<Rightarrow> execManager \<Rightarrow> bool" where
  "exec_reachable mode bpf m \<longleftrightarrow> exec_step\<^sup>*\<^sup>* (newExecManager mode bpf) m"

end
