(* ===== verification/Exec_Chain.thy ===== *)
theory Exec_Chain
  imports Exec_Launch
begin

section \<open>Properties of the launch\<close>

text \<open>
  The chain of programs runs what was asked for; the helper understands the flags it is started with;
  the launcher's image is complete; the supervisor closes what it opened.
\<close>

subsection \<open>Environment of the launcher\<close>

lemma sock_entry: "starts_with_env e \<longleftrightarrow> CHR ''='' \<in> set e \<and> dedup_key e = launcherSockFDEnv"
proof
  assume "starts_with_env e"
  then obtain v where "e = launcherSockFDEnv @ CHR ''='' # v"
    by (auto simp: starts_with_env_def has_prefix_def prefix_def)
  moreover have "CHR ''='' \<notin> set launcherSockFDEnv" by code_simp
  moreover have "hd launcherSockFDEnv \<noteq> CHR ''=''" "launcherSockFDEnv \<noteq> []" by code_simp+
  ultimately show "CHR ''='' \<in> set e \<and> dedup_key e = launcherSockFDEnv" by (auto simp: entry_key_set dedup_key_def)
next
  assume "CHR ''='' \<in> set e \<and> dedup_key e = launcherSockFDEnv"
  moreover from this have "\<not> (e \<noteq> [] \<and> hd e = CHR ''='')"
    by (auto simp: dedup_key_def launcherSockFDEnv_def split: option.splits if_splits)
  ultimately show "starts_with_env e"
    by (auto simp: starts_with_env_def has_prefix_def dedup_key_def entry_key_def prefix_def dest!: split_list_first)
qed

lemma dedup_subset: "set (dedup_env es) \<subseteq> set es"
  by (induction es) auto

lemma dedup_filter: "filter (\<lambda>e. \<not> starts_with_env e) (dedup_env es) = dedup_env (filter (\<lambda>e. \<not> starts_with_env e) es)"
proof (induction es)
  case (Cons e es)
  have "(\<exists>e' \<in> set es. CHR ''='' \<in> set e' \<and> dedup_key e' = dedup_key e) \<longleftrightarrow>
      (\<exists>e' \<in> set (filter (\<lambda>e. \<not> starts_with_env e) es). CHR ''='' \<in> set e' \<and> dedup_key e' = dedup_key e)"
    if "\<not> starts_with_env e" "CHR ''='' \<in> set e"
    using that by (auto simp: sock_entry)
  then show ?case using Cons by (cases "starts_with_env e") auto
qed simp

lemma dedup_snoc_sock:
  assumes "\<forall>e \<in> set es. \<not> starts_with_env e" and "starts_with_env x"
  shows "dedup_env (es @ [x]) = dedup_env es @ [x]"
  using assms by (induction es) (auto simp: sock_entry)

lemma filterLauncherEnv_eq: "filterLauncherEnv env = filter (\<lambda>e. \<not> starts_with_env e) env"
  by (simp add: filterLauncherEnv_def starts_with_env_def)

subsection \<open>The program that runs\<close>

lemma launcher_arguments:
  assumes "path \<noteq> ''--''" and "path \<noteq> ''--payload-seccomp-bpf''" and "bpf \<noteq> ''--''" and "args \<noteq> []" and "et_Args target = []"
  shows "\<exists>t sep. parse_launcher_args (launcherArgvOf target bpf path args) = Some (t, sep, if bpf = [] then None else Some bpf) \<and>
     launcherArgvOf target bpf path args ! t = path \<and> drop (sep + 1) (launcherArgvOf target bpf path args) = args"
  using assms by (cases args) (auto simp: parse_launcher_args_def launcherArgvOf_def find_separator_def Let_def)

lemma launcher_runs:
  assumes "path \<noteq> ''--''" and "path \<noteq> ''--payload-seccomp-bpf''" and "bpf \<noteq> ''--''" and "args \<noteq> []" and "et_Args target = []"
    and "\<And>c. works c" and "parse_sock_fd env = (sock, fd)" and "sock \<longrightarrow> fd \<noteq> None" and "sock \<or> bpf \<noteq> []"
  shows "launcher_main works (launcherArgvOf target bpf path args) env =
     Execve path args (filter (\<lambda>e. \<not> starts_with_env e) env) sock (if bpf = [] then None else Some bpf)"
proof -
  from launcher_arguments[OF assms(1-5)] obtain t sep where
    p: "parse_launcher_args (launcherArgvOf target bpf path args) = Some (t, sep, if bpf = [] then None else Some bpf)"
      "launcherArgvOf target bpf path args ! t = path" "drop (sep + 1) (launcherArgvOf target bpf path args) = args" by blast
  have "\<not> length (launcherArgvOf target bpf path args) < 4" using assms(4) by (cases args) (auto simp: launcherArgvOf_def)
  with p assms(6-9) show ?thesis by (auto simp: launcher_main_def)
qed

lemma launcher_flags: "argv \<noteq> [] \<Longrightarrow> parseLauncherFlags (''--launcher-fd'' # ''3'' # ''--'' # argv) = Inr (3, argv)"
proof -
  assume "argv \<noteq> []"
  have "launcherFlags ''launcher-fd'' = Some (ValueFlag (\<lambda>v _. parse_int64 v))" "parse_int64 ''3'' = Some 3" by (simp add: launcherFlags_def) code_simp
  from flag_parse_value[of launcherFlags, OF this] flag_parse_stop \<open>argv \<noteq> []\<close> show ?thesis
    by (simp add: parseLauncherFlags_def)
qed

definition no_nul :: "string list \<Rightarrow> bool" where
  "no_nul ss \<longleftrightarrow> (\<forall>s \<in> set ss. CHR 0x00 \<notin> set s)"

lemma chain_runs:
  assumes "ex_Path cmd = payloadSeccompBootstrapPath" and "ex_Args cmd = bootstrapArgs 3 argv" and "ex_ExtraFiles cmd = LauncherImage # files"
    and "ex_Env cmd = Some env" and "argv \<noteq> []" and "no_nul argv" and "no_nul env"
  shows "start_chain works cmd = launcher_main works argv (dedup_env env)"
proof -
  have three: "itoa 3 = ''3''" by code_simp
  have "\<forall>s \<in> set (dedup_env env). CHR 0x00 \<notin> set s" using assms(7) dedup_subset[of env] by (auto simp: no_nul_def)
  then have "runLauncherEntrypoint (''--launcher-fd'' # ''3'' # ''--'' # argv) (dedup_env env) = Inr (3, argv, dedup_env env)"
    using assms(5,6) by (simp add: runLauncherEntrypoint_def launcher_flags cStringArray_def no_nul_def)
  moreover have "dispatch (tl (ex_Args cmd)) = InternalLauncher (''--launcher-fd'' # ''3'' # ''--'' # argv)"
    by (simp add: assms(2) bootstrapArgs_def dispatch_def three)
  ultimately show ?thesis by (simp add: start_chain_def assms Let_def)
qed

lemma sock_variable:
  assumes "\<forall>e \<in> set env. \<not> starts_with_env e"
  shows "parse_sock_fd (env @ [launcherSockFDEnv @ ''=4'']) = (True, Some 4)" and "parse_sock_fd env = (False, None)"
proof -
  have none: "filter starts_with_env env = []" using assms by simp
  have one: "starts_with_env (launcherSockFDEnv @ ''=4'')" "atoi (trim_left_by is_space ''4'') = Some 4" by code_simp+
  show "parse_sock_fd (env @ [launcherSockFDEnv @ ''=4'']) = (True, Some 4)"
    using one by (simp add: parse_sock_fd_def c_getenv_def none)
  show "parse_sock_fd env = (False, None)" by (simp add: parse_sock_fd_def c_getenv_def none)
qed

lemma argv_plain:
  assumes "et_Args target = []" and "no_nul (path # bpf # args @ env)"
  shows "launcherArgvOf target bpf path args \<noteq> []" and "no_nul (launcherArgvOf target bpf path args)"
  using assms by (auto simp: launcherArgvOf_def no_nul_def)

lemma supervised_launch:
  assumes "et_File target" and "et_Args target = []" and "ex_Path cmd \<notin> {[], ''--'', ''--payload-seccomp-bpf''}" and "bpf \<noteq> ''--''"
    and "ex_Args cmd \<noteq> []" and "ex_Env cmd = Some env" and "ex_ExtraFiles cmd = []" and "\<And>c. works c"
    and "no_nul (ex_Path cmd # bpf # ex_Args cmd @ env)"
  shows "\<exists>cmd' s'. Prepare None (Inr target) osEnviron (newLaunch bpf) cmd = (Inr cmd', s') \<and>
      start_chain works cmd' = Execve (ex_Path cmd) (ex_Args cmd) (dedup_env (filterLauncherEnv env)) True (if bpf = [] then None else Some bpf)"
proof -
  let ?argv = "launcherArgvOf target bpf (ex_Path cmd) (ex_Args cmd)" and ?sock = "launcherSockFDEnv @ ''=4''"
  let ?env = "filterLauncherEnv env"
  have four: "itoa 4 = ''4''" by code_simp
  have clean: "\<forall>e \<in> set ?env. \<not> starts_with_env e" by (simp add: filterLauncherEnv_eq)
  have sock: "starts_with_env ?sock" "no_nul [?sock]" by (simp add: starts_with_env_def has_prefix_def) (simp add: no_nul_def launcherSockFDEnv_def)
  have dclean: "\<forall>e \<in> set (dedup_env ?env). \<not> starts_with_env e" using clean dedup_subset[of ?env] by blast
  obtain cmd' s' where p: "Prepare None (Inr target) osEnviron (newLaunch bpf) cmd = (Inr cmd', s')"
    "ex_Path cmd' = payloadSeccompBootstrapPath" "ex_Args cmd' = bootstrapArgs 3 ?argv" "ex_ExtraFiles cmd' = [LauncherImage, NotifyChild]"
    "ex_Env cmd' = Some (?env @ [?sock])"
    using assms(1,3,5-7) by (simp add: Prepare_def throughLauncher_def newLaunch_def Let_def four)
  have "no_nul (?env @ [?sock])" using assms(9) sock(2) by (auto simp: no_nul_def filterLauncherEnv_def)
  from chain_runs[OF p(2-4) p(5) argv_plain[OF assms(2,9)] this, of works]
  have "start_chain works cmd' = launcher_main works ?argv (dedup_env ?env @ [?sock])" by (simp add: dedup_snoc_sock[OF clean sock(1)])
  with launcher_runs[OF _ _ assms(4,5,2,8) sock_variable(1)[OF dclean], where path = "ex_Path cmd"] assms(3) dclean sock(1) p(1)
  show ?thesis by simp
qed

lemma plain_launch:
  assumes "et_File target" and "et_Args target = []" and "ex_Path cmd \<notin> {[], ''--'', ''--payload-seccomp-bpf''}" and "bpf \<noteq> ''--''"
    and "ex_Args cmd \<noteq> []" and "ex_Env cmd = Some env" and "ex_ExtraFiles cmd = []" and "\<And>c. works c"
    and "no_nul (ex_Path cmd # bpf # ex_Args cmd @ env)"
    and "bpf \<noteq> []" and "filterLauncherEnv env = env"
  shows "\<exists>cmd'. preparePayloadSeccompExec (Inr target) bpf cmd = Inr cmd' \<and>
      start_chain works cmd' = Execve (ex_Path cmd) (ex_Args cmd) (dedup_env env) False (Some bpf)"
proof -
  let ?argv = "launcherArgvOf target bpf (ex_Path cmd) (ex_Args cmd)"
  have "no_nul env" using assms(9) by (auto simp: no_nul_def)
  have "\<forall>e \<in> set env. \<not> starts_with_env e" using assms(11) by (simp add: filterLauncherEnv_eq filter_id_conv)
  then have dclean: "\<forall>e \<in> set (dedup_env env). \<not> starts_with_env e" using dedup_subset[of env] by blast
  obtain cmd' where q: "preparePayloadSeccompExec (Inr target) bpf cmd = Inr cmd'" "ex_Path cmd' = payloadSeccompBootstrapPath"
    "ex_Args cmd' = bootstrapArgs 3 ?argv" "ex_ExtraFiles cmd' = [LauncherImage]" "ex_Env cmd' = Some env"
    using assms(1,3,5-7,10) by (simp add: preparePayloadSeccompExec_def throughLauncher_def Let_def)
  from chain_runs[OF q(2-5) argv_plain[OF assms(2,9)] \<open>no_nul env\<close>, of works]
    launcher_runs[OF _ _ assms(4,5,2,8) sock_variable(2)[OF dclean], where path = "ex_Path cmd"] assms(3,10) dclean q(1)
  show ?thesis by (auto simp: filter_id_conv)
qed

text \<open>
  C27. A command that goes through the launcher ends in running exactly the requested program with its
  arguments and its environment (without the launcher's own variable), with the filter for the program
  installed and, under the supervisor, with its calls notified: the rewriting of the command, the tool's
  entry point and the launcher's parser agree.
\<close>

theorem launcher_runs_program:
  assumes "et_File target" and "et_Args target = []" and "ex_Path cmd \<notin> {[], ''--'', ''--payload-seccomp-bpf''}" and "bpf \<noteq> ''--''"
    and "ex_Args cmd \<noteq> []" and "ex_Env cmd = Some env" and "ex_ExtraFiles cmd = []" and "\<And>c. works c"
    and "no_nul (ex_Path cmd # bpf # ex_Args cmd @ env)"
  shows "(\<exists>cmd' s'. Prepare None (Inr target) osEnviron (newLaunch bpf) cmd = (Inr cmd', s') \<and>
      start_chain works cmd' = Execve (ex_Path cmd) (ex_Args cmd) (dedup_env (filterLauncherEnv env)) True (if bpf = [] then None else Some bpf)) \<and>
    (bpf \<noteq> [] \<and> filterLauncherEnv env = env \<longrightarrow> (\<exists>cmd'. preparePayloadSeccompExec (Inr target) bpf cmd = Inr cmd' \<and>
      start_chain works cmd' = Execve (ex_Path cmd) (ex_Args cmd) (dedup_env env) False (Some bpf)))"
  using supervised_launch[of target cmd bpf env works] plain_launch[of target cmd bpf env works] assms by blast

subsection \<open>The launcher's image\<close>

lemma writeExecMemfd_complete:
  "writeExecMemfd wr old payload = (None, done') \<Longrightarrow> done' = old @ payload"
proof (induction wr old payload rule: writeExecMemfd.induct)
  case (1 wr old payload)
  from 1(2) show ?case
    using 1(1) by (subst (asm) writeExecMemfd.simps) (auto split: if_splits sum.splits)
qed

text \<open>An opened launcher is the whole image of the architecture, however the writes are split.\<close>

theorem launcher_image_complete:
  "OpenExecTarget mf = Inr (target, file) \<Longrightarrow> mf_payload mf = Inr file \<and> et_File target \<and> et_Args target = []"
  using writeExecMemfd_complete[of "mf_write mf" "[]"]
  by (auto simp: OpenExecTarget_def res_bind_Inr split: option.splits prod.splits)

subsection \<open>The supervisor's descriptors\<close>

definition launch_wf :: "launch_state \<Rightarrow> bool" where
  "launch_wf s \<longleftrightarrow> lf_open s =
     (if lf_notifySock s then {#NotifySock#} else {#}) + (if lf_notifyChild s then {#NotifyChildSock#} else {#}) +
     (if lf_launcherClose s then {#LauncherFile#} else {#}) +
     (if lf_notifyFD s \<ge> 3 then {#NotifyFd (lf_notifyFD s)#} else {#}) +
     (if lf_notifyReceiveFD s \<ge> 3 then {#NotifyFd (lf_notifyReceiveFD s)#} else {#})"

lemma Prepare_wf:
  assumes "Prepare sp t os (newLaunch bpf) cmd = (r, s)"
  shows "launch_wf s" and "r = Inl e \<Longrightarrow> lf_open s = {#}"
  using assms by (auto simp: Prepare_def newLaunch_def launch_wf_def Let_def split: option.splits sum.splits if_splits)

lemma closeHandedOver_wf:
  assumes "launch_wf s"
  shows "launch_wf (closeHandedOver s)" and "lf_notifyFD (closeHandedOver s) = lf_notifyFD s"
    and "lf_notifyReceiveFD (closeHandedOver s) = lf_notifyReceiveFD s"
  using assms by (cases "lf_notifyChild s"; cases "lf_launcherClose s"; simp add: closeHandedOver_def launch_wf_def Let_def)+

lemma setLauncherError_wf: "launch_wf s \<Longrightarrow> launch_wf (setLauncherError e s)"
  by (simp add: setLauncherError_def launch_wf_def)

lemma Start_wf:
  assumes "launch_wf s" and "lf_notifyFD s < 3" and "lf_notifyReceiveFD s < 3"
    and "\<And>fd. received = Inr fd \<Longrightarrow> fd \<ge> 3" and "\<And>fd fd'. dup fd = Inr fd' \<Longrightarrow> fd' \<ge> 3"
  shows "launch_wf (snd (Start pid received dup s))"
proof -
  note s = closeHandedOver_wf[OF assms(1)]
  have opened: "launch_wf ((closeHandedOver s)\<lparr>lf_open := lf_open (closeHandedOver s) + {#NotifyFd c, NotifyFd r#},
      lf_notifyFD := c, lf_notifyReceiveFD := r\<rparr>)" if "c \<ge> 3" "r \<ge> 3" for c r
    using s assms(2,3) that by (simp add: launch_wf_def)
  show ?thesis
  proof (cases received)
    case (Inr c)
    then show ?thesis
      using opened[OF assms(4)[OF Inr]] assms(1,5) setLauncherError_wf[OF s(1)] by (cases "dup c") (auto simp: Start_def Let_def)
  qed (use assms(1) setLauncherError_wf[OF s(1)] in \<open>auto simp: Start_def Let_def\<close>)
qed

lemma closeLaunch_all: "launch_wf s \<Longrightarrow> lf_open (closeLaunch s) = {#}"
  by (auto simp: launch_wf_def closeLaunch_def closeNotifyFd_def Let_def)

text \<open>
  The supervisor leaves no descriptor open: a \<^verbatim>\<open>Prepare\<close> that fails has closed what it opened, and after
  \<^verbatim>\<open>Prepare\<close>, with or without \<^verbatim>\<open>Start\<close> and whether that succeeds or not, \<^verbatim>\<open>Close\<close> closes the socket pair, the
  launcher's image and the notification descriptors. The kernel hands out numbers above the standard
  streams.
\<close>

theorem supervisor_closes_descriptors:
  assumes "Prepare socketpair openTarget osEnviron (newLaunch bpf) cmd = (r, s)"
    and "\<forall>fd. received = Inr fd \<longrightarrow> fd \<ge> 3" and "\<forall>fd fd'. dup fd = Inr fd' \<longrightarrow> fd' \<ge> 3"
  shows "(\<forall>e. r = Inl e \<longrightarrow> lf_open s = {#}) \<and> lf_open (closeLaunch s) = {#} \<and>
     lf_open (closeLaunch (snd (Start pid received dup s))) = {#}"
proof -
  note wf = Prepare_wf[OF assms(1)]
  have "lf_notifyFD s < 3 \<and> lf_notifyReceiveFD s < 3"
    using assms(1) by (auto simp: Prepare_def newLaunch_def Let_def split: option.splits sum.splits if_splits)
  then have "launch_wf (snd (Start pid received dup s))" using Start_wf[OF wf(1)] assms(2,3) by blast
  with wf show ?thesis by (auto simp: closeLaunch_all)
qed

subsection \<open>The helper's flags\<close>

text \<open>
  The helper reads from its command line exactly the options the sandbox was started with: the flags
  that \<^verbatim>\<open>buildBwrapArgs\<close> writes and those that the helper's entry point parses agree.
\<close>

theorem helper_flags_roundtrip:
  assumes "0 \<le> ba_bridgeFD cfg" and "ba_bridgeFD cfg < 2 ^ 63" and "0 \<le> ba_maxRequestBodyBytes cfg" and "ba_maxRequestBodyBytes cfg < 2 ^ 63"
    and "ba_trafficMode cfg \<in> {[], ''proxy'', ''transparent''}"
  shows "\<exists>args. dispatch (tl (helperArgs cfg)) = InternalHelper args \<and>
     runHelper True args = Inr (if ba_trafficMode cfg = ''transparent'' then TransparentMode else ProxyMode,
       \<lparr>hf_bridgeFD = ba_bridgeFD cfg, hf_proxyAddr = ba_proxyListenAddr cfg, hf_mitmEnabled = ba_mitmEnabled cfg,
        hf_maxRequestBodyBytes = ba_maxRequestBodyBytes cfg, hf_trafficMode = normalizeTrafficMode (ba_trafficMode cfg),
        hf_payloadSeccompBPF = ba_payloadSeccompBPFPath cfg\<rparr>)"
proof -
  let ?mode = "normalizeTrafficMode (ba_trafficMode cfg)" and ?bpf = "ba_payloadSeccompBPFPath cfg"
  let ?rest = "(if ?bpf \<noteq> [] then [''--payload-seccomp-bpf'', ?bpf] else []) @ [''child-proxy'']"
  let ?args = "''--bridge-fd'' # itoa (ba_bridgeFD cfg) # ''--proxy-addr'' # ba_proxyListenAddr cfg # ''--traffic-mode'' # ?mode #
     (''--mitm-enabled='' @ (if ba_mitmEnabled cfg then ''true'' else ''false'')) # ''--max-request-body-bytes'' #
     itoa (ba_maxRequestBodyBytes cfg) # ?rest"
  let ?flags = "\<lparr>hf_bridgeFD = ba_bridgeFD cfg, hf_proxyAddr = ba_proxyListenAddr cfg, hf_mitmEnabled = ba_mitmEnabled cfg,
        hf_maxRequestBodyBytes = ba_maxRequestBodyBytes cfg, hf_trafficMode = ?mode, hf_payloadSeccompBPF = ?bpf\<rparr>"
  have words: "normalizeTrafficMode [] = ''proxy''" "normalizeTrafficMode ''proxy'' = ''proxy''"
    "normalizeTrafficMode ''transparent'' = ''transparent''" by code_simp+
  then have mode: "?mode = (if ba_trafficMode cfg = ''transparent'' then ''transparent'' else ''proxy'')" using assms(5) by auto
  have parsed: "flag_parse helperFlagSet helperDefaults ?args = Inr (?flags, [''child-proxy''])"
    using parse_int64_itoa[OF assms(1,2)] parse_int64_itoa[OF assms(3,4)]
    by (simp add: set_flag_def split_flag_def helperFlagSet_def helperDefaults_def parse_bool_def)
  have "parseHelperFlags ?args = Inr ?flags" unfolding parseHelperFlags_def parsed by simp
  then have "runHelper True ?args = Inr (if ba_trafficMode cfg = ''transparent'' then TransparentMode else ProxyMode, ?flags)"
    using assms(1) by (simp only: runHelper_def) (simp add: mode)
  moreover have "dispatch (tl (helperArgs cfg)) = InternalHelper ?args" by (simp add: helperArgs_def dispatch_def)
  ultimately show ?thesis by blast
qed

subsection \<open>Concrete instances\<close>

definition example_command :: exec_command where
  "example_command = \<lparr>ex_Path = ''/bin/sh'', ex_Args = [''sh'', ''-c''], ex_Env = Some [''A=1''], ex_ExtraFiles = [], ex_Err = None\<rparr>"

definition example_target :: ExecTarget where
  "example_target = \<lparr>et_Path = [], et_File = True, et_Args = []\<rparr>"

theorem launcher_runs_program_witness:
  "\<exists>cmd'. preparePayloadSeccompExec (Inr example_target) ''/f.bpf'' example_command = Inr cmd' \<and>
     start_chain (\<lambda>_. True) cmd' = Execve ''/bin/sh'' [''sh'', ''-c''] [''A=1''] False (Some ''/f.bpf'')"
proof -
  have env: "ex_Env example_command = Some [''A=1'']" by (simp add: example_command_def)
  have "filterLauncherEnv [''A=1''] = [''A=1'']" "dedup_env [''A=1''] = [''A=1'']" by code_simp+
  moreover have "no_nul (ex_Path example_command # ''/f.bpf'' # ex_Args example_command @ [''A=1''])"
    by (simp add: no_nul_def example_command_def)
  ultimately show ?thesis
    using launcher_runs_program[of example_target example_command "''/f.bpf''" "[''A=1'']" "\<lambda>_. True" "[]"] env
    by (auto simp: example_target_def example_command_def)
qed

theorem supervisor_closes_descriptors_witness:
  "\<exists>cmd' s. Prepare None (Inr example_target) [] (newLaunch []) example_command = (Inr cmd', s) \<and>
     lf_open (closeLaunch (snd (Start 7 (Inr 5) (\<lambda>_. Inr 6) s))) = {#}"
proof -
  obtain cmd' s where p: "Prepare None (Inr example_target) [] (newLaunch []) example_command = (Inr cmd', s)"
    by (simp add: Prepare_def example_command_def Let_def)
  from supervisor_closes_descriptors[OF p, of "Inr 5" "\<lambda>_. Inr 6" 7] p show ?thesis by auto
qed

definition example_helper :: bwrapArgsConfig where
  "example_helper = \<lparr>ba_root = ''/r'', ba_helperPath = ''/app/bbox'', ba_proxyListenAddr = ''127.0.0.1:1'', ba_mitmEnabled = True,
     ba_unshareUser = True, ba_capSysAdmin = False, ba_maxRequestBodyBytes = 7, ba_mounts = [], ba_tmpfsTargets = [],
     ba_dockerSocketMount = None, ba_trafficMode = ''transparent'', ba_payloadSeccompBPFPath = [], ba_bridgeFD = 3, ba_seccompFD = -1\<rparr>"

theorem helper_flags_roundtrip_witness:
  "\<exists>args flags. dispatch (tl (helperArgs example_helper)) = InternalHelper args \<and> runHelper True args = Inr (TransparentMode, flags) \<and>
     hf_mitmEnabled flags \<and> hf_maxRequestBodyBytes flags = 7"
  using helper_flags_roundtrip[of example_helper] by (auto simp: example_helper_def)

end
