(* ===== verification/Exec_Output.thy ===== *)
theory Exec_Output
  imports Exec_Manager Exec_Chain
begin

section \<open>What the client learns of a program\<close>

text \<open>
  Every request is answered once, after all of its output, and the output is what the program wrote, as
  far as it was read.
\<close>

subsection \<open>Messages of one request\<close>

definition of_id :: "64 word \<Rightarrow> Envelope list \<Rightarrow> Envelope list" where
  "of_id i es = filter (\<lambda>e. en_ID e = i) es"

definition frame_data :: "string \<Rightarrow> Envelope \<Rightarrow> string" where
  "frame_data name e = (case en_StreamFrame e of None \<Rightarrow> [] | Some f \<Rightarrow> if sf_Stream f = name then sf_Data f else [])"

definition frames :: "64 word \<Rightarrow> string \<Rightarrow> Envelope list \<Rightarrow> string" where
  "frames i name es = concat (map (frame_data name) (of_id i es))"

definition output_of :: "64 word \<Rightarrow> string \<Rightarrow> (64 word \<times> string \<times> string) list \<Rightarrow> string" where
  "output_of i name log = concat (map (\<lambda>(_, _, d). d) (filter (\<lambda>(j, n, _). j = i \<and> n = name) log))"

lemma envelope_fields [simp]:
  "en_ID (resultEnvelope i r) = i" "en_StreamFrame (resultEnvelope i r) = None" "en_ExecResult (resultEnvelope i r) = Some r"
  "en_ID (frameEnvelope i f) = i" "en_StreamFrame (frameEnvelope i f) = Some f" "en_ExecResult (frameEnvelope i f) = None"
  by (simp_all add: resultEnvelope_def frameEnvelope_def envelope_def)

lemma of_id_append [simp]: "of_id i (es @ [e]) = of_id i es @ (if en_ID e = i then [e] else [])"
  by (simp add: of_id_def)

lemma frames_append [simp]: "frames i name (es @ [e]) = frames i name es @ (if en_ID e = i then frame_data name e else [])"
  by (simp add: frames_def)

lemma output_append [simp]:
  "output_of i name (log @ [(j, n, d)]) = output_of i name log @ (if j = i \<and> n = name then d else [])"
  by (simp add: output_of_def)

subsection \<open>The invariant\<close>

definition only_frames :: "64 word \<Rightarrow> Envelope list \<Rightarrow> bool" where
  "only_frames i es \<longleftrightarrow> (\<forall>e \<in> set es. \<exists>f. e = frameEnvelope i f)"

definition stream_ok :: "execManager \<Rightarrow> 64 word \<Rightarrow> out_stream \<Rightarrow> bool" where
  "stream_ok m i s \<longleftrightarrow>
     (if os_reading s \<or> xm_sendError m = None then output_of i (os_name s) (xm_output m) = frames i (os_name s) (xm_sent m) @ os_pipe s
      else prefix (frames i (os_name s) (xm_sent m)) (output_of i (os_name s) (xm_output m)))"

definition waiting_ids :: "execManager \<Rightarrow> 64 word set" where
  "waiting_ids m = fst ` set (xm_waiting m)"

definition run_ok :: "execManager \<Rightarrow> exec_run \<Rightarrow> bool" where
  "run_ok m r \<longleftrightarrow> er_id r \<in> set (xm_seen m) \<and> er_id r \<notin> waiting_ids m \<and> only_frames (er_id r) (of_id (er_id r) (xm_sent m)) \<and>
     distinct (map os_name (er_streams r)) \<and> list_all (stream_ok m (er_id r)) (er_streams r) \<and>
     (\<forall>name. name \<notin> os_name ` set (er_streams r) \<longrightarrow>
        frames (er_id r) name (xm_sent m) = [] \<and> output_of (er_id r) name (xm_output m) = [])"

text \<open>A request is answered when its result is the last of its messages, or when the channel is broken.\<close>

definition closed_by :: "64 word \<Rightarrow> error option \<Rightarrow> Envelope list \<Rightarrow> bool" where
  "closed_by i e es \<longleftrightarrow> only_frames i es \<and> e \<noteq> None \<or> (\<exists>fs r. es = fs @ [resultEnvelope i r] \<and> only_frames i fs)"

definition answered :: "execManager \<Rightarrow> 64 word \<Rightarrow> bool" where
  "answered m i \<longleftrightarrow> closed_by i (xm_sendError m) (of_id i (xm_sent m)) \<and>
     (\<forall>name. prefix (frames i name (xm_sent m)) (output_of i name (xm_output m)))"

definition untouched :: "execManager \<Rightarrow> 64 word \<Rightarrow> bool" where
  "untouched m i \<longleftrightarrow> of_id i (xm_sent m) = [] \<and> (\<forall>name. output_of i name (xm_output m) = [])"

definition running_ids :: "execManager \<Rightarrow> 64 word set" where
  "running_ids m = (case xm_running m of None \<Rightarrow> {} | Some r \<Rightarrow> {er_id r})"

definition exec_inv :: "execManager \<Rightarrow> bool" where
  "exec_inv m \<longleftrightarrow> distinct (map fst (xm_waiting m)) \<and> waiting_ids m \<subseteq> set (xm_seen m) \<and>
     (\<forall>i. i \<notin> set (xm_seen m) \<or> i \<in> waiting_ids m \<longrightarrow> untouched m i) \<and>
     (\<forall>r. xm_running m = Some r \<longrightarrow> run_ok m r) \<and>
     (\<forall>i \<in> set (xm_seen m) - waiting_ids m - running_ids m. answered m i)"

lemma exec_invI:
  assumes "distinct (map fst (xm_waiting m))" and "waiting_ids m \<subseteq> set (xm_seen m)"
    and "\<And>i. i \<notin> set (xm_seen m) \<Longrightarrow> untouched m i" and "\<And>i. i \<in> waiting_ids m \<Longrightarrow> untouched m i"
    and "\<And>r. xm_running m = Some r \<Longrightarrow> run_ok m r"
    and "\<And>i. i \<in> set (xm_seen m) \<Longrightarrow> i \<notin> waiting_ids m \<Longrightarrow> i \<notin> running_ids m \<Longrightarrow> answered m i"
  shows "exec_inv m"
  using assms unfolding exec_inv_def by blast

lemma exec_invD:
  assumes "exec_inv m"
  shows "distinct (map fst (xm_waiting m))" and "waiting_ids m \<subseteq> set (xm_seen m)"
    and "i \<notin> set (xm_seen m) \<Longrightarrow> untouched m i" and "i \<in> waiting_ids m \<Longrightarrow> untouched m i"
    and "xm_running m = Some r \<Longrightarrow> run_ok m r"
    and "i \<in> set (xm_seen m) \<Longrightarrow> i \<notin> waiting_ids m \<Longrightarrow> i \<notin> running_ids m \<Longrightarrow> answered m i"
  using assms unfolding exec_inv_def by blast+

lemma untouched_frames: "untouched m i \<Longrightarrow> frames i name (xm_sent m) = []"
  by (simp add: untouched_def frames_def)

text \<open>What a step changes for one request only depends on the messages and output of that request.\<close>

lemma sendExec_other:
  "en_ID e \<noteq> i \<Longrightarrow> of_id i (xm_sent (sendExec e m)) = of_id i (xm_sent m)"
  "en_ID e \<noteq> i \<Longrightarrow> frames i name (xm_sent (sendExec e m)) = frames i name (xm_sent m)"
  by (simp_all add: sendExec_def)

lemma sendExec_fields [simp]:
  "xm_output (sendExec e m) = xm_output m" "xm_waiting (sendExec e m) = xm_waiting m" "xm_seen (sendExec e m) = xm_seen m"
  "xm_sendError (sendExec e m) = xm_sendError m" "xm_running (sendExec e m) = xm_running m"
  "xm_trafficMode (sendExec e m) = xm_trafficMode m"
  by (simp_all add: sendExec_def)

lemma same_request:
  assumes "of_id i (xm_sent m') = of_id i (xm_sent m)" and "\<And>name. output_of i name (xm_output m') = output_of i name (xm_output m)"
    and "xm_sendError m' = xm_sendError m \<or> xm_sendError m' \<noteq> None"
  shows "untouched m i \<Longrightarrow> untouched m' i" and "answered m i \<Longrightarrow> answered m' i"
proof -
  have "frames i name (xm_sent m') = frames i name (xm_sent m)" for name using assms(1) by (simp add: frames_def)
  moreover have "closed_by i (xm_sendError m) es \<Longrightarrow> closed_by i (xm_sendError m') es" for es using assms(3) by (auto simp: closed_by_def)
  ultimately show "untouched m i \<Longrightarrow> untouched m' i" and "answered m i \<Longrightarrow> answered m' i"
    using assms(1,2) by (simp_all add: untouched_def answered_def)
qed

lemma answer_now:
  assumes "only_frames i (of_id i (xm_sent m))" and "\<And>name. prefix (frames i name (xm_sent m)) (output_of i name (xm_output m))"
    and "xm_sent m' = xm_sent (sendExec (resultEnvelope i r) m)" and "xm_output m' = xm_output m" and "xm_sendError m' = xm_sendError m"
  shows "answered m' i"
proof (cases "xm_sendError m")
  case None
  then have "of_id i (xm_sent m') = of_id i (xm_sent m) @ [resultEnvelope i r]"
    "\<And>name. frames i name (xm_sent m') = frames i name (xm_sent m)"
    using assms(3) by (simp_all add: sendExec_def frame_data_def)
  with assms(1,2,4) show ?thesis by (auto simp: answered_def closed_by_def)
next
  case (Some e)
  with assms show ?thesis by (simp add: answered_def closed_by_def sendExec_def)
qed

subsection \<open>Steps keep it\<close>

lemma run_prefix:
  assumes "run_ok m r"
  shows "prefix (frames (er_id r) name (xm_sent m)) (output_of (er_id r) name (xm_output m))"
proof (cases "name \<in> os_name ` set (er_streams r)")
  case True
  then obtain s where "s \<in> set (er_streams r)" "name = os_name s" by blast
  with assms have "stream_ok m (er_id r) s" by (auto simp: run_ok_def list_all_iff)
  then show ?thesis using \<open>name = os_name s\<close> by (auto simp: stream_ok_def split: if_splits)
next
  case False
  with assms show ?thesis by (auto simp: run_ok_def)
qed

lemma waiting_split:
  assumes "exec_inv m" and "xm_waiting m = ws @ (i, req) # ws'"
  shows "i \<notin> fst ` set (ws @ ws')" and "i \<in> set (xm_seen m)" and "untouched m i" and "waiting_ids m = insert i (fst ` set (ws @ ws'))"
    and "distinct (map fst (ws @ ws'))"
proof -
  show w: "waiting_ids m = insert i (fst ` set (ws @ ws'))" by (auto simp: waiting_ids_def assms(2))
  show "i \<notin> fst ` set (ws @ ws')" "distinct (map fst (ws @ ws'))" using exec_invD(1)[OF assms(1)] by (auto simp: assms(2))
  show "i \<in> set (xm_seen m)" using exec_invD(2)[OF assms(1)] w by blast
  show "untouched m i" using exec_invD(4)[OF assms(1)] w by blast
qed

lemma inv_arrive:
  assumes "exec_inv m" and "i \<notin> set (xm_seen m)"
  shows "exec_inv (m\<lparr>xm_waiting := xm_waiting m @ [(i, req)], xm_seen := xm_seen m @ [i]\<rparr>)" (is "exec_inv ?m")
proof -
  have same: "untouched ?m j = untouched m j" "answered ?m j = answered m j" for j
    by (simp_all add: untouched_def answered_def)
  have ids: "waiting_ids ?m = insert i (waiting_ids m)" "running_ids ?m = running_ids m" "set (xm_seen ?m) = insert i (set (xm_seen m))"
    by (auto simp: waiting_ids_def running_ids_def)
  note inv = exec_invD[OF assms(1)]
  show ?thesis
  proof (rule exec_invI, unfold same ids)
    show "distinct (map fst (xm_waiting ?m))" using inv(1,2) assms(2) by (auto simp: waiting_ids_def)
    fix r assume "xm_running ?m = Some r"
    then have "run_ok m r" using inv(5) by simp
    moreover from this have "er_id r \<noteq> i" using assms(2) by (auto simp: run_ok_def)
    ultimately show "run_ok ?m r" by (simp add: run_ok_def stream_ok_def list_all_iff ids(1))
  qed (use inv assms(2) in auto)
qed

lemma inv_refuse:
  assumes "exec_inv m" and "xm_running m = None" and "xm_waiting m = ws @ (i, req) # ws'"
  shows "exec_inv (sendExecError i e (m\<lparr>xm_waiting := ws @ ws'\<rparr>))" (is "exec_inv ?m")
proof -
  note w = waiting_split[OF assms(1,3)] and inv = exec_invD[OF assms(1)]
  have other: "untouched m j \<Longrightarrow> untouched ?m j" "answered m j \<Longrightarrow> answered ?m j" if "j \<noteq> i" for j
    using that same_request[of j ?m m] sendExec_other(1)[of _ j] by (simp_all add: sendExecError_def)
  have now: "answered ?m i"
    using w(3) by (intro answer_now[where m = "m\<lparr>xm_waiting := ws @ ws'\<rparr>"])
      (auto simp: sendExecError_def untouched_def only_frames_def frames_def)
  have ids: "waiting_ids ?m = fst ` set (ws @ ws')" "running_ids ?m = {}" "xm_seen ?m = xm_seen m" "xm_running ?m = None"
    "xm_waiting ?m = ws @ ws'" using assms(2) by (simp_all add: waiting_ids_def running_ids_def sendExecError_def)
  show ?thesis
  proof (rule exec_invI, unfold ids)
    fix j assume j: "j \<in> set (xm_seen m)" "j \<notin> fst ` set (ws @ ws')"
    show "answered ?m j"
    proof (cases "j = i")
      case False
      then show ?thesis using inv(6)[OF j(1)] other(2)[OF False] j(2) w(4) assms(2) by (simp add: running_ids_def)
    qed (use now in simp)
  next
    fix j assume "j \<notin> set (xm_seen m)"
    then show "untouched ?m j" using inv(3) other(1)[of j] w(2) by metis
  next
    fix j assume "j \<in> fst ` set (ws @ ws')"
    then show "untouched ?m j" using inv(4)[of j] other(1)[of j] w(1,4) by (metis insertCI)
  qed (use w inv(2) in auto)
qed

lemma inv_started:
  assumes "exec_inv m" and "xm_running m = None" and "xm_waiting m = ws @ (i, req) # ws'" and "distinct names"
    and "m' = m\<lparr>xm_waiting := ws @ ws', xm_currentExec := c, xm_running := Some
      \<lparr>er_id = i, er_streams = map (\<lambda>n. \<lparr>os_name = n, os_pipe = [], os_reading = True, os_closed = False\<rparr>) names,
       er_terminal = t, er_exited = None, er_waited = False\<rparr>\<rparr>"
  shows "exec_inv m'"
proof -
  note w = waiting_split[OF assms(1,3)] and inv = exec_invD[OF assms(1)]
  have same: "untouched m' j = untouched m j" "answered m' j = answered m j" for j
    by (simp_all add: untouched_def answered_def assms(5))
  have ids: "waiting_ids m' = fst ` set (ws @ ws')" "running_ids m' = {i}" "xm_seen m' = xm_seen m" "xm_waiting m' = ws @ ws'"
    by (simp_all add: waiting_ids_def running_ids_def assms(5))
  have run: "run_ok m' r" if "xm_running m' = Some r" for r
  proof -
    have r: "er_id r = i" "er_streams r = map (\<lambda>n. \<lparr>os_name = n, os_pipe = [], os_reading = True, os_closed = False\<rparr>) names"
      using that by (auto simp: assms(5))
    have m': "xm_sent m' = xm_sent m" "xm_output m' = xm_output m" by (simp_all add: assms(5))
    show ?thesis
      using w(1-3) assms(4) untouched_frames[OF w(3)]
      by (simp add: run_ok_def ids r m' untouched_def only_frames_def list_all_iff stream_ok_def comp_def)
  qed
  show ?thesis
  proof (rule exec_invI, unfold ids same)
    fix j assume "j \<in> set (xm_seen m)" "j \<notin> fst ` set (ws @ ws')" "j \<notin> {i}"
    then show "answered m j" using inv(6)[of j] w(4) assms(2) by (simp add: running_ids_def)
  qed (use w inv(2-4) run in auto)
qed

lemma startExec_names: "startExec a m req = Inr (session, names) \<Longrightarrow> distinct names"
  by (auto simp: startExec_def res_bind_Inr runSupervisedExec_def StartSession_def Let_def
      split: if_splits option.splits sum.splits prod.splits)

lemma inv_begin:
  assumes "exec_inv m" and "xm_running m = None" and "xm_waiting m = ws @ (i, req) # ws'"
  shows "exec_inv (handleExec a i req (m\<lparr>xm_waiting := ws @ ws'\<rparr>))"
proof (cases "xq_Argv req = []")
  case True
  then show ?thesis using inv_refuse[OF assms] by (simp add: handleExec_def)
next
  case False
  show ?thesis
  proof (cases "startExec a (m\<lparr>xm_waiting := ws @ ws'\<rparr>) req")
    case (Inl e)
    with False show ?thesis using inv_refuse[OF assms] by (simp add: handleExec_def)
  next
    case (Inr p)
    obtain session names where p: "p = (session, names)" by (cases p) auto
    show ?thesis
      by (rule inv_started[OF assms startExec_names, where names = names])
        (use False Inr p in \<open>auto simp: handleExec_def setCurrentExec_def\<close>)
  qed
qed

text \<open>A step of the running program's streams: only its own messages and output change.\<close>

lemma inv_run:
  assumes "exec_inv m" and "xm_running m = Some r" and "run_ok m' r'" and "xm_running m' = Some r'" and "er_id r' = er_id r"
    and "xm_waiting m' = xm_waiting m" and "xm_seen m' = xm_seen m" and "xm_sendError m' = xm_sendError m"
    and "\<And>j. j \<noteq> er_id r \<Longrightarrow> of_id j (xm_sent m') = of_id j (xm_sent m)"
    and "\<And>j name. j \<noteq> er_id r \<Longrightarrow> output_of j name (xm_output m') = output_of j name (xm_output m)"
  shows "exec_inv m'"
proof -
  note inv = exec_invD[OF assms(1)]
  have other: "untouched m j \<Longrightarrow> untouched m' j" "answered m j \<Longrightarrow> answered m' j" if "j \<noteq> er_id r" for j
    using same_request[of j m' m] that assms(8-10) by auto
  have r: "er_id r \<in> set (xm_seen m)" "er_id r \<notin> waiting_ids m" using inv(5)[OF assms(2)] by (auto simp: run_ok_def)
  have ids: "waiting_ids m' = waiting_ids m" "running_ids m' = {er_id r}" "running_ids m = {er_id r}"
    using assms(2,4-6) by (simp_all add: waiting_ids_def running_ids_def)
  show ?thesis
  proof (rule exec_invI, unfold ids assms(6,7))
    fix j assume "j \<notin> set (xm_seen m)" then show "untouched m' j" using other(1)[of j] inv(3) r(1) by metis
  next
    fix j assume "j \<in> waiting_ids m" then show "untouched m' j" using other(1)[of j] inv(4) r(2) by metis
  next
    fix j assume "j \<in> set (xm_seen m)" "j \<notin> waiting_ids m" "j \<notin> {er_id r}"
    then show "answered m' j" using other(2)[of j] inv(6)[of j] ids(3) by simp
  qed (use inv(1,2) assms(3,4) in auto)
qed

lemma stream_update:
  assumes "run_ok m r" and "k < length (er_streams r)" and "os_name (f (er_streams r ! k)) = os_name (er_streams r ! k)"
    and "xm_waiting m' = xm_waiting m" and "xm_seen m' = xm_seen m" and "xm_sendError m' = xm_sendError m"
    and "only_frames (er_id r) (of_id (er_id r) (xm_sent m'))"
    and "stream_ok m' (er_id r) (f (er_streams r ! k))"
    and "\<And>name. name \<noteq> os_name (er_streams r ! k) \<Longrightarrow> frames (er_id r) name (xm_sent m') = frames (er_id r) name (xm_sent m)"
    and "\<And>name. name \<noteq> os_name (er_streams r ! k) \<Longrightarrow> output_of (er_id r) name (xm_output m') = output_of (er_id r) name (xm_output m)"
  shows "run_ok m' (updateStream k f r)"
proof -
  let ?ss = "er_streams r"
  from assms(1) have d: "distinct (map os_name ?ss)" by (simp add: run_ok_def)
  have names: "map os_name (?ss[k := f (?ss ! k)]) = map os_name ?ss"
    using assms(2,3) by (metis list_update_id map_update nth_map length_map)
  have "stream_ok m' (er_id r) (?ss[k := f (?ss ! k)] ! l)" if "l < length ?ss" for l
  proof (cases "l = k")
    case False
    then have "os_name (?ss ! l) \<noteq> os_name (?ss ! k)" using d that assms(2) by (simp add: distinct_conv_nth)
    moreover from assms(1) that have "stream_ok m (er_id r) (?ss ! l)" by (simp add: run_ok_def list_all_length)
    ultimately show ?thesis using False assms(6,9,10) by (simp add: stream_ok_def)
  qed (use assms(2,8) in simp)
  moreover have "os_name ` set (?ss[k := f (?ss ! k)]) = os_name ` set ?ss" using names by (metis set_map)
  moreover have "frames (er_id r) name (xm_sent m') = [] \<and> output_of (er_id r) name (xm_output m') = []"
    if "name \<notin> os_name ` set ?ss" for name
  proof -
    have "name \<noteq> os_name (?ss ! k)" using that assms(2) by auto
    then show ?thesis using that assms(1,9,10) by (simp add: run_ok_def)
  qed
  ultimately show ?thesis
    using assms(1,4,5,7) names unfolding run_ok_def updateStream_def by (simp add: list_all_length waiting_ids_def)
qed

lemma inv_writes:
  assumes "exec_inv m" and "xm_running m = Some r" and "k < length (er_streams r)"
  shows "exec_inv (m\<lparr>xm_running := Some (updateStream k (\<lambda>s. s\<lparr>os_pipe := os_pipe s @ data\<rparr>) r),
      xm_output := xm_output m @ [(er_id r, os_name (er_streams r ! k), data)]\<rparr>)" (is "exec_inv ?m")
proof -
  note ok = exec_invD(5)[OF assms(1,2)]
  have sk: "stream_ok m (er_id r) (er_streams r ! k)" using ok assms(3) by (simp add: run_ok_def list_all_length)
  have "run_ok ?m (updateStream k (\<lambda>s. s\<lparr>os_pipe := os_pipe s @ data\<rparr>) r)"
    by (rule stream_update[OF ok assms(3)])
      (use ok sk in \<open>simp_all add: run_ok_def stream_ok_def prefix_prefix split: if_splits\<close>)
  then show ?thesis by (rule inv_run[OF assms(1,2)]) (simp_all add: updateStream_def)
qed

lemma inv_read:
  assumes "exec_inv m" and "xm_running m = Some r" and "k < length (er_streams r)" and "os_reading (er_streams r ! k)"
  shows "exec_inv (StreamOutput r k n m)" (is "exec_inv ?m")
proof -
  let ?s = "er_streams r ! k" and ?f = "\<lambda>s. s\<lparr>os_pipe := drop n (os_pipe s), os_reading := xm_sendError m = None\<rparr>"
  let ?e = "frameEnvelope (er_id r) \<lparr>sf_Stream = os_name ?s, sf_Data = take n (os_pipe ?s)\<rparr>"
  note ok = exec_invD(5)[OF assms(1,2)]
  have out: "output_of (er_id r) (os_name ?s) (xm_output m) = frames (er_id r) (os_name ?s) (xm_sent m) @ os_pipe ?s"
    using ok assms(3,4) by (auto simp: run_ok_def list_all_length stream_ok_def)
  have m: "xm_sent ?m = (if xm_sendError m = None then xm_sent m @ [?e] else xm_sent m)" "xm_output ?m = xm_output m"
    "xm_waiting ?m = xm_waiting m" "xm_seen ?m = xm_seen m" "xm_sendError ?m = xm_sendError m" "xm_running ?m = Some (updateStream k ?f r)"
    by (simp_all add: StreamOutput_def sendExec_def Let_def)
  have "run_ok ?m (updateStream k ?f r)"
    by (rule stream_update[OF ok assms(3)])
      (use ok out in \<open>auto simp: m run_ok_def only_frames_def stream_ok_def frame_data_def prefix_def\<close>)
  then show ?thesis
    by (rule inv_run[OF assms(1,2) _ m(6) _ m(3,4,5)]) (simp_all add: m updateStream_def)
qed

lemma inv_stream_end:
  assumes "exec_inv m" and "xm_running m = Some r" and "k < length (er_streams r)"
  shows "exec_inv (m\<lparr>xm_running := Some (updateStream k (\<lambda>s. s\<lparr>os_reading := False\<rparr>) r)\<rparr>)" (is "exec_inv ?m")
proof -
  note ok = exec_invD(5)[OF assms(1,2)]
  have sk: "stream_ok m (er_id r) (er_streams r ! k)" using ok assms(3) by (simp add: run_ok_def list_all_length)
  have "run_ok ?m (updateStream k (\<lambda>s. s\<lparr>os_reading := False\<rparr>) r)"
    by (rule stream_update[OF ok assms(3)]) (use ok sk in \<open>simp_all add: run_ok_def stream_ok_def split: if_splits\<close>)
  then show ?thesis by (rule inv_run[OF assms(1,2)]) (simp_all add: updateStream_def)
qed

lemma inv_quiet:
  assumes "exec_inv m" and "xm_running m = Some r" and "er_id r' = er_id r" and "map os_name (er_streams r') = map os_name (er_streams r)"
    and "\<And>k. k < length (er_streams r) \<Longrightarrow> stream_ok m (er_id r) (er_streams r ! k) \<Longrightarrow> stream_ok m (er_id r) (er_streams r' ! k)"
  shows "exec_inv (m\<lparr>xm_running := Some r'\<rparr>)"
proof (rule inv_run[OF assms(1,2)])
  have "length (er_streams r') = length (er_streams r)" using assms(4) by (metis length_map)
  moreover have "os_name ` set (er_streams r') = os_name ` set (er_streams r)" using assms(4) by (metis set_map)
  moreover have "stream_ok (m\<lparr>xm_running := Some r'\<rparr>) i s = stream_ok m i s" for i s by (simp add: stream_ok_def)
  ultimately show "run_ok (m\<lparr>xm_running := Some r'\<rparr>) r'"
    using exec_invD(5)[OF assms(1,2)] assms(3-5) by (simp add: run_ok_def list_all_length waiting_ids_def)
qed (use assms(3) in simp_all)

lemma inv_finish:
  assumes "exec_inv m" and "xm_running m = Some r"
  shows "exec_inv (finishExec r w m)" (is "exec_inv ?m")
proof -
  note inv = exec_invD[OF assms(1)] and ok = exec_invD(5)[OF assms(1,2)]
  have m: "xm_sent ?m = xm_sent (sendExec (resultEnvelope (er_id r) (execResultOf w)) m)" "xm_output ?m = xm_output m"
    "xm_waiting ?m = xm_waiting m" "xm_seen ?m = xm_seen m" "xm_sendError ?m = xm_sendError m" "xm_running ?m = None"
    by (simp_all add: finishExec_def clearCurrentExec_def split: option.split)
  have now: "answered ?m (er_id r)"
    by (rule answer_now[where m = m, OF _ run_prefix[OF ok] m(1,2,5)]) (use ok in \<open>simp add: run_ok_def\<close>)
  have other: "untouched m j \<Longrightarrow> untouched ?m j" "answered m j \<Longrightarrow> answered ?m j" if "j \<noteq> er_id r" for j
    using same_request[of j ?m m] that by (auto simp: m sendExec_other)
  have r: "er_id r \<in> set (xm_seen m)" "er_id r \<notin> waiting_ids m" using ok by (auto simp: run_ok_def)
  have ids: "waiting_ids ?m = waiting_ids m" "running_ids ?m = {}" "running_ids m = {er_id r}"
    using assms(2) by (simp_all add: waiting_ids_def running_ids_def m)
  show ?thesis
  proof (rule exec_invI, unfold ids m(3,4,6))
    fix j assume "j \<notin> set (xm_seen m)" then show "untouched ?m j" using other(1)[of j] inv(3) r(1) by metis
  next
    fix j assume "j \<in> waiting_ids m" then show "untouched ?m j" using other(1)[of j] inv(4) r(2) by metis
  next
    fix j assume "j \<in> set (xm_seen m)" "j \<notin> waiting_ids m"
    then show "answered ?m j" using now other(2)[of j] inv(6)[of j] ids(3) by (cases "j = er_id r") auto
  qed (use inv(1,2) in auto)
qed

lemma inv_plain:
  assumes "exec_inv m" and "xm_sent m' = xm_sent m" and "xm_output m' = xm_output m" and "xm_waiting m' = xm_waiting m"
    and "xm_seen m' = xm_seen m" and "xm_running m' = xm_running m" and "xm_sendError m' = xm_sendError m \<or> xm_sendError m' \<noteq> None"
  shows "exec_inv m'"
proof -
  note inv = exec_invD[OF assms(1)]
  have same: "untouched m j \<Longrightarrow> untouched m' j" "answered m j \<Longrightarrow> answered m' j" "run_ok m r \<Longrightarrow> run_ok m' r" for j r
  proof -
    have "stream_ok m i s \<Longrightarrow> stream_ok m' i s" for i s using assms(2,3,7) by (auto simp: stream_ok_def split: if_splits)
    then show "run_ok m r \<Longrightarrow> run_ok m' r" using assms(2-5) by (simp add: run_ok_def list_all_iff waiting_ids_def)
  qed (use same_request[of j m' m] assms in auto)
  have ids: "waiting_ids m' = waiting_ids m" "running_ids m' = running_ids m" by (simp_all add: waiting_ids_def running_ids_def assms)
  show ?thesis by (rule exec_invI, unfold ids assms(4-6)) (use inv same in auto)
qed

lemma inv_step: "exec_step m m' \<Longrightarrow> exec_inv m \<Longrightarrow> exec_inv m'"
proof (induction rule: exec_step.induct)
  case (arrive i m req)
  then show ?case by (simp add: inv_arrive)
next
  case (begin_exec m ws i req ws' a)
  then show ?case by (simp add: inv_begin)
next
  case (program_writes m r k data)
  then show ?case by (simp add: inv_writes)
next
  case (stream_read m r k n)
  then show ?case by (simp add: inv_read)
next
  case (stream_end m r k)
  then show ?case by (simp add: inv_stream_end)
next
  case (program_ends m r w)
  then show ?case by (intro inv_quiet[of m r]) simp_all
next
  case (wait_returns m r)
  then show ?case by (intro inv_quiet[of m r]) (simp_all add: comp_def stream_ok_def split: if_splits)
next
  case (finish m r w)
  then show ?case by (simp add: inv_finish)
next
  case (input m accepts i inp)
  then show ?case by (rule inv_plain) (simp_all add: handleExecInput_def split: option.split)
next
  case (channel_breaks m e)
  then show ?case by (rule inv_plain) simp_all
qed

lemma reachable_inv: "exec_reachable mode bpf m \<Longrightarrow> exec_inv m"
  unfolding exec_reachable_def
proof (induction rule: rtranclp_induct)
  case base
  show ?case by (rule exec_invI) (simp_all add: newExecManager_def waiting_ids_def untouched_def of_id_def output_of_def)
next
  case (step m m')
  then show ?case by (simp add: inv_step)
qed

subsection \<open>Terminals\<close>

text \<open>On a terminal \<^verbatim>\<open>Wait\<close> closes nothing, so that a stream ends only when all of it is read.\<close>

definition terminal_ok :: "execManager \<Rightarrow> bool" where
  "terminal_ok m \<longleftrightarrow> (\<forall>r. xm_running m = Some r \<and> er_terminal r \<and> xm_sendError m = None \<longrightarrow>
     (\<forall>s \<in> set (er_streams r). \<not> os_closed s \<and> (os_reading s \<or> os_pipe s = [] \<and> er_exited r \<noteq> None)))"

lemma terminal_update:
  assumes "terminal_ok m" and "xm_running m = Some r" and "k < length (er_streams r)" and "xm_running m' = Some (updateStream k f r)"
    and "xm_sendError m' = xm_sendError m"
    and "xm_sendError m = None \<Longrightarrow> \<not> os_closed (er_streams r ! k) \<Longrightarrow>
      os_reading (er_streams r ! k) \<or> os_pipe (er_streams r ! k) = [] \<and> er_exited r \<noteq> None \<Longrightarrow>
      \<not> os_closed (f (er_streams r ! k)) \<and>
      (os_reading (f (er_streams r ! k)) \<or> os_pipe (f (er_streams r ! k)) = [] \<and> er_exited r \<noteq> None)"
  shows "terminal_ok m'"
proof -
  let ?P = "\<lambda>s. \<not> os_closed s \<and> (os_reading s \<or> os_pipe s = [] \<and> er_exited r \<noteq> None)"
  have "?P s" if s: "s \<in> set ((er_streams r)[k := f (er_streams r ! k)])" and t: "er_terminal r" "xm_sendError m = None" for s
  proof -
    have old: "?P s" if "s \<in> set (er_streams r)" for s using assms(1,2) t that by (auto simp: terminal_ok_def)
    have "er_streams r ! k \<in> set (er_streams r)" using assms(3) by simp
    then have "?P (f (er_streams r ! k))" using assms(6) old t by blast
    moreover from s have "s = f (er_streams r ! k) \<or> s \<in> set (er_streams r)"
      using set_update_subset_insert[of "er_streams r" k "f (er_streams r ! k)"] by blast
    ultimately show ?thesis using old by blast
  qed
  then show ?thesis by (simp add: terminal_ok_def assms(4,5) updateStream_def)
qed

lemma handleExec_streams:
  assumes "xm_running (handleExec a i req m) = Some r" and "xm_running m = None" and "s \<in> set (er_streams r)"
  shows "os_reading s \<and> \<not> os_closed s"
  using assms by (auto simp: handleExec_def sendExecError_def setCurrentExec_def split: if_splits sum.splits prod.splits)

lemma terminal_step: "exec_step m m' \<Longrightarrow> terminal_ok m \<Longrightarrow> terminal_ok m'"
proof (induction rule: exec_step.induct)
  case (arrive i m req)
  then show ?case by (auto simp: terminal_ok_def)
next
  case (begin_exec m ws i req ws' a)
  then show ?case using handleExec_streams[of a i req "m\<lparr>xm_waiting := ws @ ws'\<rparr>"] by (simp add: terminal_ok_def)
next
  case (program_writes m r k data)
  then show ?case by (intro terminal_update[OF program_writes(4,1,2), where f = "\<lambda>s. s\<lparr>os_pipe := os_pipe s @ data\<rparr>"]) auto
next
  case (stream_read m r k n)
  then show ?case by (intro terminal_update[OF stream_read(8,1,2)]) (auto simp: StreamOutput_def Let_def)
next
  case (stream_end m r k)
  then show ?case by (intro terminal_update[OF stream_end(5,1,2)]) auto
next
  case (program_ends m r w)
  then show ?case by (auto simp: terminal_ok_def)
next
  case (wait_returns m r)
  then show ?case by (auto simp: terminal_ok_def)
next
  case (finish m r w)
  show ?case by (simp add: terminal_ok_def finishExec_def clearCurrentExec_def split: option.split)
next
  case (input m accepts i inp)
  have "xm_running (handleExecInput accepts i inp m) = xm_running m" "xm_sendError (handleExecInput accepts i inp m) = xm_sendError m"
    by (simp_all add: handleExecInput_def split: option.split)
  with input show ?case unfolding terminal_ok_def by auto
next
  case (channel_breaks m e)
  show ?case by (simp add: terminal_ok_def)
qed

lemma reachable_terminal: "exec_reachable mode bpf m \<Longrightarrow> terminal_ok m"
  unfolding exec_reachable_def
proof (induction rule: rtranclp_induct)
  case base
  show ?case by (simp add: terminal_ok_def newExecManager_def)
next
  case (step m m')
  then show ?case by (simp add: terminal_step)
qed

subsection \<open>The client's session\<close>

text \<open>What the client makes of the messages of a run.\<close>

definition client_message :: "runSession \<Rightarrow> Envelope \<Rightarrow> runSession" where
  "client_message s e = (case en_StreamFrame e of
     Some f \<Rightarrow> HandleStream f s | None \<Rightarrow> (case en_ExecResult e of Some r \<Rightarrow> HandleExecResult r s | None \<Rightarrow> s))"

lemma session_frames:
  assumes "only_frames i es"
  shows "foldl client_message s es = s\<lparr>rs_stdout := rs_stdout s @ concat (map (frame_data ''stdout'') es),
     rs_stderr := rs_stderr s @ concat (map (frame_data ''stderr'') es)\<rparr>"
  using assms
proof (induction es arbitrary: s)
  case (Cons e es)
  then obtain f where "e = frameEnvelope i f" by (auto simp: only_frames_def)
  moreover have "only_frames i es" using Cons(2) by (simp add: only_frames_def)
  ultimately show ?case using Cons(1) by (simp add: client_message_def HandleStream_def frame_data_def)
qed simp

lemma session_result:
  assumes "of_id i es = fs @ [resultEnvelope i r]" and "only_frames i fs"
  shows "rs_outcome (foldl client_message newRunSession (of_id i es)) =
     Some (Some \<lparr>ru_ExitCode = xr_ExitCode r, ru_Stdout = frames i ''stdout'' es, ru_Stderr = frames i ''stderr'' es @ xr_Stderr r\<rparr>,
       execResultError r)"
  by (simp add: assms(1) session_frames[OF assms(2)] client_message_def HandleExecResult_def Finish_def newRunSession_def
      frames_def frame_data_def)

subsection \<open>Properties\<close>



text \<open>
  \<^verbatim>\<open>handleExec\<close> calls \<^verbatim>\<open>Wait\<close> before the readers are done, and \<^verbatim>\<open>Wait\<close> closes the pipes: a program that writes and
  exits may end with its output lost and a good exit code.
\<close>

definition lossy_answers :: exec_answers where
  "lossy_answers = \<lparr>xa_getwd = ok ''/'', xa_stat = \<lambda>_. None, xa_lookPath = \<lambda>p. ok p, xa_openTarget = err [],
     xa_start = \<lparr>sc_pty = None, sc_StdoutPipe = None, sc_StderrPipe = None, sc_StdinPipe = None, sc_Start = None\<rparr>,
     xa_supervisor = None, xa_socketpair = None, xa_environ = [], xa_pid = 1, xa_received = err [], xa_dup = \<lambda>_. err []\<rparr>"

definition lossy_request :: ExecRequest where
  "lossy_request = \<lparr>xq_Argv = [''/bin/echo''], xq_Env = [], xq_WorkDir = [], xq_Interactive = False, xq_Terminal = False, xq_InitialSize = None\<rparr>"

definition lossy_run :: "string \<Rightarrow> bool \<Rightarrow> bool \<Rightarrow> bool \<Rightarrow> wait_end option \<Rightarrow> bool \<Rightarrow> exec_run" where
  "lossy_run unread r1 r2 cl exited waited = \<lparr>er_id = 1, er_streams =
     [\<lparr>os_name = ''stdout'', os_pipe = unread, os_reading = r1, os_closed = cl\<rparr>,
      \<lparr>os_name = ''stderr'', os_pipe = [], os_reading = r2, os_closed = cl\<rparr>],
     er_terminal = False, er_exited = exited, er_waited = waited\<rparr>"

definition lossy_state :: "exec_run option \<Rightarrow> Envelope list \<Rightarrow> string list \<Rightarrow> execManager" where
  "lossy_state run sent out = (newExecManager ''proxy'' [])\<lparr>xm_seen := [1], xm_running := run, xm_sent := sent,
     xm_currentExec := map_option (\<lambda>_. \<lparr>es_id = 1, es_session = None, es_cancelled = False\<rparr>) run,
     xm_output := map (\<lambda>d. (1, ''stdout'', d)) out\<rparr>"

lemma lossy_begun: "exec_reachable ''proxy'' [] (lossy_state (Some (lossy_run [] True True False None False)) [] [])"
proof -
  let ?m1 = "(newExecManager ''proxy'' [])\<lparr>xm_waiting := [(1, lossy_request)], xm_seen := [1]\<rparr>"
  have "exec_step (newExecManager ''proxy'' []) ?m1"
    using exec_step.arrive[of 1 "newExecManager ''proxy'' []" lossy_request] by (simp add: newExecManager_def)
  moreover have "exec_step ?m1 (handleExec lossy_answers 1 lossy_request (?m1\<lparr>xm_waiting := [] @ []\<rparr>))"
    by (rule exec_step.begin_exec) (simp_all add: newExecManager_def)
  moreover have "handleExec lossy_answers 1 lossy_request (?m1\<lparr>xm_waiting := [] @ []\<rparr>) =
      lossy_state (Some (lossy_run [] True True False None False)) [] []"
    by (simp add: handleExec_def lossy_request_def startExec_def resolveExecCommandPath_def trim_space_def trim_left_by_def is_space_def
        trim_right_by_def preparePayloadSeccompExec_def StartSession_def first_error_def lossy_answers_def newExecManager_def
        new_command_def setCurrentExec_def lossy_state_def lossy_run_def)
  ultimately show ?thesis by (auto simp: exec_reachable_def intro: rtranclp.rtrancl_into_rtrancl)
qed

lemma lossy_next: "exec_reachable mode bpf m \<Longrightarrow> exec_step m m' \<Longrightarrow> m' = m'' \<Longrightarrow> exec_reachable mode bpf m''"
  by (auto simp: exec_reachable_def intro: rtranclp.rtrancl_into_rtrancl)

lemmas lossy_defs = lossy_state_def lossy_run_def updateStream_def newExecManager_def

lemma lossy_wrote: "exec_reachable ''proxy'' [] (lossy_state (Some (lossy_run ''x'' True True False None False)) [] [''x''])"
  by (rule lossy_next[OF lossy_begun exec_step.program_writes[where r = "lossy_run [] True True False None False" and k = 0 and data = "''x''"]])
    (simp_all add: lossy_defs)

lemma lossy_waited: "exec_reachable ''proxy'' [] (lossy_state (Some (lossy_run ''x'' True True True (Some WaitOk) True)) [] [''x''])"
proof -
  have "exec_reachable ''proxy'' [] (lossy_state (Some (lossy_run ''x'' True True False (Some WaitOk) False)) [] [''x''])"
    by (rule lossy_next[OF lossy_wrote exec_step.program_ends[where r = "lossy_run ''x'' True True False None False" and w = WaitOk]]) (simp_all add: lossy_defs)
  then show ?thesis
    by (rule lossy_next[OF _ exec_step.wait_returns[where r = "lossy_run ''x'' True True False (Some WaitOk) False"]])
      (simp_all add: lossy_defs)
qed

lemma lossy_done:
  "exec_reachable ''proxy'' [] (lossy_state None [resultEnvelope 1 (execResultOf WaitOk)] [''x''])"
proof -
  have "exec_reachable ''proxy'' [] (lossy_state (Some (lossy_run ''x'' False True True (Some WaitOk) True)) [] [''x''])"
    by (rule lossy_next[OF lossy_waited exec_step.stream_end[where r = "lossy_run ''x'' True True True (Some WaitOk) True" and k = 0]]) (simp_all add: lossy_defs)
  then have "exec_reachable ''proxy'' [] (lossy_state (Some (lossy_run ''x'' False False True (Some WaitOk) True)) [] [''x''])"
    by (rule lossy_next[OF _ exec_step.stream_end[where r = "lossy_run ''x'' False True True (Some WaitOk) True" and k = 1]]) (simp_all add: lossy_defs)
  then show ?thesis
    by (rule lossy_next[OF _ exec_step.finish[where r = "lossy_run ''x'' False False True (Some WaitOk) True" and w = WaitOk]])
      (simp_all add: lossy_defs finishExec_def sendExec_def clearCurrentExec_def)
qed

text \<open>
  The output of a program can be lost: there is a run in which the program writes to its standard
  output and exits with success, no message is lost on the channel, and the client's run ends with exit
  code 0 and no output, because \<^verbatim>\<open>Wait\<close> closed the pipe before it was read.
\<close>

theorem exec_output_lost:
  "\<exists>m. exec_reachable ''proxy'' [] m \<and> xm_sendError m = None \<and> output_of 1 ''stdout'' (xm_output m) = ''x'' \<and>
     rs_outcome (foldl client_message newRunSession (of_id 1 (xm_sent m))) =
       Some (Some \<lparr>ru_ExitCode = 0, ru_Stdout = [], ru_Stderr = []\<rparr>, None)"
proof (intro exI conjI)
  let ?m = "lossy_state None [resultEnvelope 1 (execResultOf WaitOk)] [''x'']"
  show "exec_reachable ''proxy'' [] ?m" by (rule lossy_done)
  show "xm_sendError ?m = None" by (simp add: lossy_state_def newExecManager_def)
  show "output_of 1 ''stdout'' (xm_output ?m) = ''x''" by (simp add: lossy_state_def output_of_def)
  show "rs_outcome (foldl client_message newRunSession (of_id 1 (xm_sent ?m))) =
      Some (Some \<lparr>ru_ExitCode = 0, ru_Stdout = [], ru_Stderr = []\<rparr>, None)"
    by (simp add: lossy_state_def of_id_def client_message_def HandleExecResult_def Finish_def newRunSession_def execResultOf_def
        execResultError_def)
qed

subsection \<open>Concrete instances\<close>


definition read_frame :: Envelope where
  "read_frame = frameEnvelope 1 \<lparr>sf_Stream = ''stdout'', sf_Data = ''x''\<rparr>"

lemma read_done: "exec_reachable ''proxy'' [] (lossy_state (Some (lossy_run [] False False False (Some (WaitExit 3)) False)) [read_frame] [''x''])"
proof -
  have "exec_reachable ''proxy'' [] (lossy_state (Some (lossy_run [] True True False None False)) [read_frame] [''x''])"
    by (rule lossy_next[OF lossy_wrote exec_step.stream_read[where r = "lossy_run ''x'' True True False None False" and k = 0 and n = 1]])
      (simp_all add: lossy_defs StreamOutput_def sendExec_def newExecManager_def read_frame_def)
  then have "exec_reachable ''proxy'' [] (lossy_state (Some (lossy_run [] True True False (Some (WaitExit 3)) False)) [read_frame] [''x''])"
    by (rule lossy_next[OF _ exec_step.program_ends[where r = "lossy_run [] True True False None False" and w = "WaitExit 3"]]) (simp_all add: lossy_defs)
  then have "exec_reachable ''proxy'' [] (lossy_state (Some (lossy_run [] False True False (Some (WaitExit 3)) False)) [read_frame] [''x''])"
    by (rule lossy_next[OF _ exec_step.stream_end[where r = "lossy_run [] True True False (Some (WaitExit 3)) False" and k = 0]]) (simp_all add: lossy_defs)
  then show ?thesis
    by (rule lossy_next[OF _ exec_step.stream_end[where r = "lossy_run [] False True False (Some (WaitExit 3)) False" and k = 1]]) (simp_all add: lossy_defs)
qed


end
