(* ===== verification/Seccomp_Types.thy ===== *)
theory Seccomp_Types
  imports Go_Net
begin

section \<open>Supervisor state and system calls: seccompnotify/types.go\<close>

text \<open>
  The data of the seccomp supervisor and the system calls it makes. The kernel is not part of
  the program: it is the parameter \<open>'w unix_calls\<close>, one field per call of package \<^verbatim>\<open>unix\<close>, over
  a world \<open>'w\<close> that every call may change. Laws of the kernel that a theorem needs are its
  hypotheses. An error is an errno, another Go error with its text, a run-time panic, which ends
  the helper process, or \<open>Out_Of_Fuel\<close>, which stands for a retry loop that has not returned
  within the given number of rounds and which no statement of the code produces.
\<close>

subsection \<open>Errors\<close>

datatype goerr = Errno int | GoErr string | Panic string | Out_Of_Fuel

type_synonym 'a syscall_result = "int + 'a"

abbreviation (input) EPERM :: int where "EPERM \<equiv> 1"
abbreviation (input) EINTR :: int where "EINTR \<equiv> 4"
abbreviation (input) EIO :: int where "EIO \<equiv> 5"
abbreviation (input) EBADF :: int where "EBADF \<equiv> 9"
abbreviation (input) EAGAIN :: int where "EAGAIN \<equiv> 11"
abbreviation (input) EACCES :: int where "EACCES \<equiv> 13"
abbreviation (input) EFAULT :: int where "EFAULT \<equiv> 14"
abbreviation (input) EBUSY :: int where "EBUSY \<equiv> 16"
abbreviation (input) EEXIST :: int where "EEXIST \<equiv> 17"
abbreviation (input) EINVAL :: int where "EINVAL \<equiv> 22"
abbreviation (input) EMFILE :: int where "EMFILE \<equiv> 24"
abbreviation (input) EDESTADDRREQ :: int where "EDESTADDRREQ \<equiv> 89"
abbreviation (input) EMSGSIZE :: int where "EMSGSIZE \<equiv> 90"
abbreviation (input) EOPNOTSUPP :: int where "EOPNOTSUPP \<equiv> 95"
abbreviation (input) EAFNOSUPPORT :: int where "EAFNOSUPPORT \<equiv> 97"
abbreviation (input) ENOTCONN :: int where "ENOTCONN \<equiv> 107"
abbreviation (input) ETIMEDOUT :: int where "ETIMEDOUT \<equiv> 110"
abbreviation (input) EHOSTUNREACH :: int where "EHOSTUNREACH \<equiv> 113"
abbreviation (input) EALREADY :: int where "EALREADY \<equiv> 114"
abbreviation (input) EINPROGRESS :: int where "EINPROGRESS \<equiv> 115"

abbreviation (input) AF_UNSPEC :: int where "AF_UNSPEC \<equiv> 0"
abbreviation (input) AF_INET :: int where "AF_INET \<equiv> 2"
abbreviation (input) AF_INET6 :: int where "AF_INET6 \<equiv> 10"
abbreviation (input) SOCK_STREAM :: int where "SOCK_STREAM \<equiv> 1"
abbreviation (input) SOCK_DGRAM :: int where "SOCK_DGRAM \<equiv> 2"
abbreviation (input) SOCK_NONBLOCK :: int where "SOCK_NONBLOCK \<equiv> 0x800"
abbreviation (input) SOCK_CLOEXEC :: int where "SOCK_CLOEXEC \<equiv> 0x80000"
abbreviation (input) O_CLOEXEC :: int where "O_CLOEXEC \<equiv> 0x80000"
abbreviation (input) IPPROTO_UDP :: int where "IPPROTO_UDP \<equiv> 17"
abbreviation (input) MSG_PEEK :: int where "MSG_PEEK \<equiv> 2"
abbreviation (input) MSG_TRUNC :: int where "MSG_TRUNC \<equiv> 0x20"
abbreviation (input) POLLIN :: int where "POLLIN \<equiv> 1"
abbreviation (input) POLLOUT :: int where "POLLOUT \<equiv> 4"

subsection \<open>Data\<close>

datatype SocketKind = KindUnknown | KindTCP | KindUDP

record DecodedSockaddr =
  sa_Family :: int
  sa_Host :: string
  sa_Port :: int

record dnsPacketResponse =
  pr_Payload :: "byte list"
  pr_Source :: DecodedSockaddr

record SocketState =
  st_Kind :: SocketKind
  st_ChildPID :: int
  st_ChildFD :: int
  st_HelperFD :: int
  st_Family :: int
  st_SocketType :: int
  st_Protocol :: int
  st_Blocking :: bool
  st_DNSManaged :: bool
  st_ConnectedHost :: string
  st_ConnectedPort :: int
  st_PendingDNSResponses :: "dnsPacketResponse list"
  st_OriginalHost :: string
  st_OriginalPort :: int
  st_RedirectAddr :: string

definition zero_state :: SocketState where
  "zero_state =
     \<lparr>st_Kind = KindUnknown, st_ChildPID = 0, st_ChildFD = 0, st_HelperFD = 0, st_Family = 0,
      st_SocketType = 0, st_Protocol = 0, st_Blocking = False, st_DNSManaged = False,
      st_ConnectedHost = [], st_ConnectedPort = 0, st_PendingDNSResponses = [],
      st_OriginalHost = [], st_OriginalPort = 0, st_RedirectAddr = []\<rparr>"

text \<open>\<^verbatim>\<open>unix.Sockaddr\<close> with the two implementations the supervisor uses.\<close>

datatype Sockaddr = SockaddrInet4 int "byte list" | SockaddrInet6 int "byte list" | SockaddrOther

subsection \<open>The kernel\<close>

text \<open>
  \<open>u_soerror\<close> is \<^verbatim>\<open>GetsockoptInt(fd, SOL_SOCKET, SO_ERROR)\<close>, \<open>u_now\<close> the clock in nanoseconds,
  \<open>u_addfd\<close> the \<^verbatim>\<open>SECCOMP_IOCTL_NOTIF_ADDFD\<close> ioctl on a notification descriptor (request id,
  source, target, flags and descriptor flags), \<open>u_readv\<close> and \<open>u_writev\<close> the process memory calls
  with the data that was transferred and the number of bytes written.
\<close>

record 'w unix_calls =
  u_socket :: "int \<Rightarrow> int \<Rightarrow> int \<Rightarrow> 'w \<Rightarrow> int syscall_result \<times> 'w"
  u_close :: "int \<Rightarrow> 'w \<Rightarrow> 'w"
  u_dup :: "int \<Rightarrow> 'w \<Rightarrow> int syscall_result \<times> 'w"
  u_connect :: "int \<Rightarrow> Sockaddr \<Rightarrow> 'w \<Rightarrow> int option \<times> 'w"
  u_soerror :: "int \<Rightarrow> 'w \<Rightarrow> int syscall_result \<times> 'w"
  u_poll :: "int \<Rightarrow> int \<Rightarrow> 'w \<Rightarrow> int syscall_result \<times> 'w"
  u_now :: "'w \<Rightarrow> int \<times> 'w"
  u_sleep :: "int \<Rightarrow> 'w \<Rightarrow> 'w"
  u_getsockname :: "int \<Rightarrow> 'w \<Rightarrow> Sockaddr syscall_result \<times> 'w"
  u_addfd :: "int \<Rightarrow> 64 word \<Rightarrow> 32 word \<Rightarrow> 32 word \<Rightarrow> int \<Rightarrow> int \<Rightarrow> 'w \<Rightarrow> int syscall_result \<times> 'w"
  u_readv :: "int \<Rightarrow> 64 word \<Rightarrow> int \<Rightarrow> 'w \<Rightarrow> byte list syscall_result \<times> 'w"
  u_writev :: "int \<Rightarrow> 64 word \<Rightarrow> byte list \<Rightarrow> 'w \<Rightarrow> int syscall_result \<times> 'w"

subsection \<open>Runtime targets and requests\<close>

text \<open>
  The callbacks of the helper: \<^verbatim>\<open>nil\<close> is \<open>None\<close>. The DNS round trip takes network, host, port
  and payload; the recorder of redirected connections takes the local address and the original
  destination.
\<close>

record 'w RuntimeTargets =
  rt_DNSRoundTrip ::
    "(string \<Rightarrow> string \<Rightarrow> int \<Rightarrow> byte list \<Rightarrow> 'w \<Rightarrow> (goerr + byte list) \<times> 'w) option"
  rt_RawTCPAddr :: string
  rt_RawTCPAddrV6 :: string
  rt_RecordRawTCPOrigin :: "(string \<Rightarrow> string \<Rightarrow> int \<Rightarrow> 'w \<Rightarrow> 'w) option"

record socketRequest =
  sq_ChildFD :: int
  sq_Family :: int
  sq_SocketType :: int
  sq_Protocol :: int

record connectRequest =
  cq_ChildFD :: int
  cq_Destination :: DecodedSockaddr

record dupRequest =
  dq_FD :: int
  dq_OldFD :: int
  dq_NewFD :: int
  dq_Cmd :: int
  dq_Arg :: int

text \<open>
  A notification: its id, the process, the system call number and its six arguments. Go converts
  an argument to \<^verbatim>\<open>int\<close> by reading it as a signed number.
\<close>

record ScmpNotifReq =
  nq_ID :: "64 word"
  nq_Pid :: int
  nq_Syscall :: int
  nq_Arg0 :: "64 word"
  nq_Arg1 :: "64 word"
  nq_Arg2 :: "64 word"
  nq_Arg3 :: "64 word"
  nq_Arg4 :: "64 word"
  nq_Arg5 :: "64 word"

abbreviation go_int :: "64 word \<Rightarrow> int" where
  "go_int \<equiv> sint"

record ScmpNotifResp =
  np_ID :: "64 word"
  np_Error :: int
  np_Val :: "64 word"
  np_Continue :: bool

end
