(* ===== verification/Sockaddr.thy ===== *)
theory Sockaddr
  imports Seccomp_Types Go_Ip_Text
begin

section \<open>Socket addresses: seccompnotify/sockaddr\_linux.go\<close>

text \<open>
  Decoding of the addresses that the sandboxed process passes to system calls and encoding of
  the addresses the supervisor writes back (\<^verbatim>\<open>encodeRawSockaddr\<close> of \<^verbatim>\<open>dns_runtime_linux.go\<close>).
  \<open>little\<close> says whether the machine is little endian (\<^verbatim>\<open>isLittleEndian\<close>). A go_slice out of range
  does not occur: every access is behind a length check.
\<close>

definition le_uint16 :: "byte list \<Rightarrow> int" where
  "le_uint16 b = uint (b ! 0) + 256 * uint (b ! 1)"

definition be_uint16 :: "byte list \<Rightarrow> int" where
  "be_uint16 b = 256 * uint (b ! 0) + uint (b ! 1)"

definition go_slice :: "nat \<Rightarrow> nat \<Rightarrow> 'a list \<Rightarrow> 'a list" where
  "go_slice a b xs = take (b - a) (drop a xs)"

definition decodeFamily :: "byte list \<Rightarrow> goerr + int" where
  "decodeFamily raw =
     (if length raw < 2
      then Inl (GoErr (''sockaddr buffer too short: '' @ itoa (int (length raw))))
      else
        let familyLE = le_uint16 (go_slice 0 2 raw) in
        if familyLE = AF_UNSPEC \<or> familyLE = AF_INET \<or> familyLE = AF_INET6 then Inr familyLE
        else
          let familyBE = be_uint16 (go_slice 0 2 raw) in
          if familyBE = AF_UNSPEC \<or> familyBE = AF_INET \<or> familyBE = AF_INET6 then Inr familyBE
          else Inl (GoErr (''unsupported sockaddr family encoding '' @ itoa familyLE @ ''/'' @
                           itoa familyBE)))"

definition DecodeSockaddr :: "byte list \<Rightarrow> goerr + DecodedSockaddr" where
  "DecodeSockaddr raw =
     (if length raw < 2
      then Inl (GoErr (''sockaddr buffer too short: '' @ itoa (int (length raw))))
      else case decodeFamily raw of
        Inl e \<Rightarrow> Inl e
      | Inr family \<Rightarrow>
          if family = AF_UNSPEC then Inr \<lparr>sa_Family = AF_UNSPEC, sa_Host = [], sa_Port = 0\<rparr>
          else if family = AF_INET then
            (if length raw < 16
             then Inl (GoErr (''sockaddr_in buffer too short: '' @ itoa (int (length raw))))
             else Inr \<lparr>sa_Family = AF_INET, sa_Host = ip_string (go_slice 4 8 raw),
                       sa_Port = be_uint16 (go_slice 2 4 raw)\<rparr>)
          else if family = AF_INET6 then
            (if length raw < 28
             then Inl (GoErr (''sockaddr_in6 buffer too short: '' @ itoa (int (length raw))))
             else Inr \<lparr>sa_Family = AF_INET6, sa_Host = ip_string (go_slice 8 24 raw),
                       sa_Port = be_uint16 (go_slice 2 4 raw)\<rparr>)
          else Inl (GoErr (''unsupported sockaddr family '' @ itoa family)))"

definition putBigEndianUint16 :: "16 word \<Rightarrow> byte list" where
  "putBigEndianUint16 v = [ucast (drop_bit 8 v), ucast v]"

definition putNativeUint16 :: "bool \<Rightarrow> 16 word \<Rightarrow> byte list" where
  "putNativeUint16 little v =
     (if little then [ucast v, ucast (drop_bit 8 v)] else [ucast (drop_bit 8 v), ucast v])"

text \<open>The two layouts: \<^verbatim>\<open>sockaddr_in\<close> has 16 bytes, \<^verbatim>\<open>sockaddr_in6\<close> 28.\<close>

definition rawInet4 :: "bool \<Rightarrow> int \<Rightarrow> ip \<Rightarrow> byte list" where
  "rawInet4 little port ip4 =
     putNativeUint16 little 2 @ putBigEndianUint16 (of_int port) @ ip4 @ replicate 8 0"

definition rawInet6 :: "bool \<Rightarrow> int \<Rightarrow> ip \<Rightarrow> byte list" where
  "rawInet6 little port ip6 =
     putNativeUint16 little 10 @ putBigEndianUint16 (of_int port) @ replicate 4 0 @ ip6 @
     replicate 4 0"

definition encodeRawSockaddr :: "bool \<Rightarrow> DecodedSockaddr \<Rightarrow> goerr + byte list \<times> int" where
  "encodeRawSockaddr little source =
     (case parse_ip (sa_Host source) of
        None \<Rightarrow> Inl (Errno EINVAL)
      | Some ip \<Rightarrow>
          if sa_Family source = AF_INET then
            (case to4 ip of
               None \<Rightarrow> Inl (Errno EAFNOSUPPORT)
             | Some ip4 \<Rightarrow> Inr (rawInet4 little (sa_Port source) ip4, 16))
          else if sa_Family source = AF_INET6 then Inr (rawInet6 little (sa_Port source) ip, 28)
          else case to4 ip of
                 Some ip4 \<Rightarrow> Inr (rawInet4 little (sa_Port source) ip4, 16)
               | None \<Rightarrow> Inr (rawInet6 little (sa_Port source) ip, 28))"

subsection \<open>Round trip\<close>

lemma put_be_uint16: "be_uint16 (putBigEndianUint16 v) = uint v"
proof -
  have "uint v div 256 < 256" "0 \<le> uint v div 256"
    using uint_lt2p[of v] by (simp_all add: pos_imp_zdiv_nonneg_iff)
  then have "uint v div 256 mod 256 = uint v div 256"
    by (rule mod_pos_pos_trivial[rotated])
  then have "uint (ucast (drop_bit 8 v) :: byte) = uint v div 256"
    by (simp add: unsigned_ucast_eq unsigned_drop_bit_eq drop_bit_eq_div
        take_bit_eq_mod uint_div_distrib)
  moreover have "uint (ucast v :: byte) = uint v mod 256"
    by (simp add: unsigned_ucast_eq take_bit_eq_mod)
  ultimately show ?thesis by (simp add: be_uint16_def putBigEndianUint16_def)
qed

lemma put_be_of_bytes:
  assumes "length b = 2"
  shows "putBigEndianUint16 (of_int (be_uint16 b)) = b"
proof -
  obtain x y where b: "b = [x, y]"
    using assms by (auto simp: numeral_eq_Suc length_Suc_conv)
  have bnd: "uint x < 256" "uint y < 256" "0 \<le> uint x" "0 \<le> uint y"
    using uint_lt2p[of x] uint_lt2p[of y] by auto
  define v where "v = (word_of_int (256 * uint x + uint y) :: 16 word)"
  have "256 * uint x + uint y < 2 ^ 16" "0 \<le> 256 * uint x + uint y"
    using bnd by simp_all
  then have v: "uint v = 256 * uint x + uint y"
    unfolding v_def by (subst uint_word_of_int) simp
  have "uint (ucast (drop_bit 8 v) :: byte) = uint x"
    using bnd by (simp add: unsigned_ucast_eq drop_bit_eq_div take_bit_eq_mod uint_div_distrib v)
  moreover have "uint (ucast v :: byte) = uint y"
    using bnd by (simp add: unsigned_ucast_eq take_bit_eq_mod v)
  ultimately have "[ucast (drop_bit 8 v), ucast v] = [x, y]"
    by (simp add: word_uint_eq_iff)
  then show ?thesis by (simp add: b be_uint16_def putBigEndianUint16_def v_def)
qed

lemma be_uint16_bounds:
  assumes "length b = 2"
  shows "0 \<le> be_uint16 b" and "be_uint16 b < 65536"
proof -
  have "uint (b ! 0) < 256" "uint (b ! 1) < 256"
    using uint_lt2p[of "b ! 0"] uint_lt2p[of "b ! 1"] by auto
  then show "0 \<le> be_uint16 b" and "be_uint16 b < 65536"
    by (auto simp: be_uint16_def)
qed

lemma decodeFamily_native:
  "decodeFamily (putNativeUint16 little 2 @ r) = Inr AF_INET"
  "decodeFamily (putNativeUint16 little 10 @ r) = Inr AF_INET6"
  by (cases little; simp add: decodeFamily_def putNativeUint16_def go_slice_def le_uint16_def
      be_uint16_def drop_bit_eq_div)+

lemma put_lengths [simp]:
  "length (putBigEndianUint16 v) = 2" "length (putNativeUint16 little v) = 2"
  by (simp_all add: putBigEndianUint16_def putNativeUint16_def)

lemma decode_rawInet4:
  assumes "length ip4 = 4"
  shows "DecodeSockaddr (rawInet4 little port ip4) =
    Inr \<lparr>sa_Family = AF_INET, sa_Host = ip_string ip4, sa_Port = port mod 65536\<rparr>"
proof -
  have "go_slice 4 8 (rawInet4 little port ip4) = ip4"
    "go_slice 2 4 (rawInet4 little port ip4) = putBigEndianUint16 (of_int port)"
    using assms by (simp_all add: go_slice_def rawInet4_def)
  then show ?thesis
    using assms decodeFamily_native(1)[of little]
    by (simp add: DecodeSockaddr_def put_be_uint16 uint_word_of_int rawInet4_def)
qed

lemma decode_rawInet6:
  assumes "length ip6 = 16"
  shows "DecodeSockaddr (rawInet6 little port ip6) =
    Inr \<lparr>sa_Family = AF_INET6, sa_Host = ip_string ip6, sa_Port = port mod 65536\<rparr>"
proof -
  have "go_slice 8 24 (rawInet6 little port ip6) = ip6"
    "go_slice 2 4 (rawInet6 little port ip6) = putBigEndianUint16 (of_int port)"
    using assms by (simp_all add: go_slice_def rawInet6_def)
  then show ?thesis
    using assms decodeFamily_native(2)[of little]
    by (simp add: DecodeSockaddr_def put_be_uint16 uint_word_of_int rawInet6_def)
qed

lemma to4_ip_string:
  "length a = 4 \<Longrightarrow> parse_ip (ip_string a) = Some (v4_in_v6_prefix @ a) \<and>
   to4 (v4_in_v6_prefix @ a) = Some a"
  by (simp add: parse_ip_string to4_def)

lemma DecodeSockaddr_cases:
  assumes "DecodeSockaddr raw = Inr d"
  shows "d = \<lparr>sa_Family = AF_UNSPEC, sa_Host = [], sa_Port = 0\<rparr> \<or>
    length (go_slice 2 4 raw) = 2 \<and> sa_Port d = be_uint16 (go_slice 2 4 raw) \<and>
    (sa_Family d = AF_INET \<and> length (go_slice 4 8 raw) = 4 \<and> sa_Host d = ip_string (go_slice 4 8 raw) \<or>
     sa_Family d = AF_INET6 \<and> length (go_slice 8 24 raw) = 16 \<and>
     sa_Host d = ip_string (go_slice 8 24 raw))"
  using assms
  by (auto simp: DecodeSockaddr_def go_slice_def split: if_splits sum.splits)

text \<open>
  An internet address that the supervisor decoded is encoded to an address of the same
  family with the same port and address bytes, and decoding that gives the decoded address
  back, on machines of both byte orders: what a process connected to is what it reads back as
  its peer.
\<close>

theorem sockaddr_roundtrip:
  assumes "DecodeSockaddr raw = Inr d" and "sa_Family d \<noteq> AF_UNSPEC"
  shows "\<exists>raw' n. encodeRawSockaddr little d = Inr (raw', n) \<and> n = int (length raw') \<and>
    DecodeSockaddr raw' = Inr d \<and> go_slice 2 4 raw' = go_slice 2 4 raw \<and>
    (if sa_Family d = AF_INET then go_slice 4 8 raw' = go_slice 4 8 raw
     else go_slice 8 24 raw' = go_slice 8 24 raw)"
proof -
  let ?port = "be_uint16 (go_slice 2 4 raw)"
  from DecodeSockaddr_cases[OF assms(1)] assms(2)
  have port: "length (go_slice 2 4 raw) = 2" "sa_Port d = ?port"
    and fam: "sa_Family d = AF_INET \<and> length (go_slice 4 8 raw) = 4 \<and> sa_Host d = ip_string (go_slice 4 8 raw) \<or>
      sa_Family d = AF_INET6 \<and> length (go_slice 8 24 raw) = 16 \<and> sa_Host d = ip_string (go_slice 8 24 raw)"
    by auto
  note put = put_be_of_bytes[OF port(1)]
  have mod: "?port mod 65536 = ?port"
    using be_uint16_bounds[OF port(1)] by simp
  from fam show ?thesis
  proof
    assume a: "sa_Family d = AF_INET \<and> length (go_slice 4 8 raw) = 4 \<and> sa_Host d = ip_string (go_slice 4 8 raw)"
    let ?r = "rawInet4 little ?port (go_slice 4 8 raw)"
    have "encodeRawSockaddr little d = Inr (?r, 16)"
      using a port(2) to4_ip_string[of "go_slice 4 8 raw"] by (simp add: encodeRawSockaddr_def)
    moreover have "DecodeSockaddr ?r = Inr d"
      using a port(2) decode_rawInet4[of "go_slice 4 8 raw" little ?port] by (simp add: mod)
    moreover have "go_slice 2 4 ?r = go_slice 2 4 raw" "go_slice 4 8 ?r = go_slice 4 8 raw" "length ?r = 16"
      using a port(1) by (simp_all add: go_slice_def[of 2 4 ?r] go_slice_def[of 4 8 ?r]) (simp_all add: rawInet4_def put port(1))
    ultimately show ?thesis using a by (intro exI[of _ ?r] exI[of _ 16]) simp
  next
    assume a: "sa_Family d = AF_INET6 \<and> length (go_slice 8 24 raw) = 16 \<and> sa_Host d = ip_string (go_slice 8 24 raw)"
    let ?r = "rawInet6 little ?port (go_slice 8 24 raw)"
    have "encodeRawSockaddr little d = Inr (?r, 28)"
      using a port(2) parse_ip_string[of "go_slice 8 24 raw"] by (simp add: encodeRawSockaddr_def)
    moreover have "DecodeSockaddr ?r = Inr d"
      using a port(2) decode_rawInet6[of "go_slice 8 24 raw" little ?port] by (simp add: mod)
    moreover have "go_slice 2 4 ?r = go_slice 2 4 raw" "go_slice 8 24 ?r = go_slice 8 24 raw" "length ?r = 28"
      using a port(1) by (simp_all add: go_slice_def[of 2 4 ?r] go_slice_def[of 8 24 ?r]) (simp_all add: rawInet6_def put port(1))
    ultimately show ?thesis using a by (intro exI[of _ ?r] exI[of _ 28]) simp
  qed
qed

definition example_sockaddr :: "byte list" where
  "example_sockaddr = [2, 0, 0, 80, 10, 0, 0, 7, 0, 0, 0, 0, 0, 0, 0, 0]"

theorem sockaddr_roundtrip_witness:
  "\<exists>raw' n. encodeRawSockaddr True \<lparr>sa_Family = 2, sa_Host = ''10.0.0.7'', sa_Port = 80\<rparr> = Inr (raw', n) \<and>
     n = int (length raw') \<and> go_slice 4 8 raw' = [10, 0, 0, 7]"
proof -
  have "DecodeSockaddr example_sockaddr =
      Inr \<lparr>sa_Family = 2, sa_Host = ''10.0.0.7'', sa_Port = 80\<rparr>"
    by code_simp
  from sockaddr_roundtrip[OF this, of True] show ?thesis
    by (auto simp: go_slice_def example_sockaddr_def)
qed

end
