(* ===== verification/Fd_Registry.thy ===== *)
theory Fd_Registry
  imports Seccomp_Types Go_Prelude
begin

section \<open>The descriptor registry: seccompnotify/fd\_registry.go\<close>

text \<open>
  The registry maps a process and a descriptor of it to the state of the managed socket. A
  lookup that finds no entry for the process falls back to the only entry of the descriptor in
  any process, which serves descriptors a child inherits. Operations that close or duplicate
  helper descriptors take the kernel and its world. The locale \<open>descriptor_table\<close> is what the
  supervisor relies on; it is interpreted on the registry.
\<close>

type_synonym fdRegistryKey = "int \<times> int"
type_synonym FDRegistry = "(fdRegistryKey \<times> SocketState) list"

abbreviation (input) minManagedHelperFD :: int where "minManagedHelperFD \<equiv> 3"
abbreviation (input) minManagedTCPChildFD :: int where "minManagedTCPChildFD \<equiv> 256"
abbreviation (input) minManagedUDPChildFD :: int where "minManagedUDPChildFD \<equiv> 512"

definition NewFDRegistry :: FDRegistry where
  "NewFDRegistry = []"

definition normalizeRegistryPID :: "int \<Rightarrow> int" where
  "normalizeRegistryPID pid = (if pid < 0 then 0 else pid)"

definition InsertForPID :: "FDRegistry \<Rightarrow> int \<Rightarrow> SocketState \<Rightarrow> FDRegistry" where
  "InsertForPID r pid state =
     (if st_ChildFD state < 0 then r
      else let state = state\<lparr>st_ChildPID := normalizeRegistryPID pid\<rparr> in
           gm_put (st_ChildPID state, st_ChildFD state) state r)"

definition Insert :: "FDRegistry \<Rightarrow> SocketState \<Rightarrow> FDRegistry" where
  "Insert r state = InsertForPID r (st_ChildPID state) state"

text \<open>The loop over the keys: the only key with the descriptor, or none.\<close>

fun fallbackKey :: "int \<Rightarrow> fdRegistryKey option \<Rightarrow> FDRegistry \<Rightarrow> fdRegistryKey option" where
  "fallbackKey fd found [] = found"
| "fallbackKey fd found ((key, st) # r) =
     (if snd key \<noteq> fd then fallbackKey fd found r
      else if found \<noteq> None then None
      else fallbackKey fd (Some key) r)"

definition lookupKeyLocked :: "FDRegistry \<Rightarrow> int \<Rightarrow> int \<Rightarrow> fdRegistryKey option" where
  "lookupKeyLocked r pid childFD =
     (if map_of r (pid, childFD) \<noteq> None then Some (pid, childFD)
      else fallbackKey childFD None r)"

definition LookupForPID :: "FDRegistry \<Rightarrow> int \<Rightarrow> int \<Rightarrow> SocketState option" where
  "LookupForPID r pid childFD =
     (if childFD < 0 then None
      else case lookupKeyLocked r (normalizeRegistryPID pid) childFD of
             None \<Rightarrow> None
           | Some key \<Rightarrow> map_of r key)"

definition Lookup :: "FDRegistry \<Rightarrow> int \<Rightarrow> SocketState option" where
  "Lookup r childFD = LookupForPID r 0 childFD"

definition closeManagedHelperFD :: "'w unix_calls \<Rightarrow> int \<Rightarrow> 'w \<Rightarrow> 'w" where
  "closeManagedHelperFD k helperFD w =
     (if helperFD \<ge> minManagedHelperFD then u_close k helperFD w else w)"

definition removeForPID :: "FDRegistry \<Rightarrow> int \<Rightarrow> int \<Rightarrow> FDRegistry" where
  "removeForPID r pid childFD =
     (if childFD < 0 then r
      else case lookupKeyLocked r (normalizeRegistryPID pid) childFD of
             None \<Rightarrow> r | Some key \<Rightarrow> gm_delete key r)"

definition CloseForPID ::
  "'w unix_calls \<Rightarrow> FDRegistry \<Rightarrow> int \<Rightarrow> int \<Rightarrow> 'w \<Rightarrow> FDRegistry \<times> 'w" where
  "CloseForPID k r pid childFD w =
     (removeForPID r pid childFD,
      if childFD < 0 then w
      else case lookupKeyLocked r (normalizeRegistryPID pid) childFD of
             None \<Rightarrow> w
           | Some key \<Rightarrow>
               (case map_of r key of
                  None \<Rightarrow> w
                | Some state \<Rightarrow> closeManagedHelperFD k (st_HelperFD state) w))"

definition Close :: "'w unix_calls \<Rightarrow> FDRegistry \<Rightarrow> int \<Rightarrow> 'w \<Rightarrow> FDRegistry \<times> 'w" where
  "Close k r childFD w = CloseForPID k r 0 childFD w"

text \<open>Duplicating keeps everything but the key and the helper descriptor, which is its own.\<close>

definition storeDuplicate ::
  "'w unix_calls \<Rightarrow> FDRegistry \<Rightarrow> int \<Rightarrow> int \<Rightarrow> SocketState \<Rightarrow> int \<Rightarrow> 'w \<Rightarrow> FDRegistry \<times> 'w" where
  "storeDuplicate k r pid targetFD state helperFD w =
     (gm_put (pid, targetFD)
        (state\<lparr>st_ChildPID := pid, st_ChildFD := targetFD, st_HelperFD := helperFD\<rparr>) r,
      case map_of r (pid, targetFD) of
        None \<Rightarrow> w
      | Some existing \<Rightarrow>
          if st_HelperFD existing \<noteq> st_HelperFD state
          then closeManagedHelperFD k (st_HelperFD existing) w else w)"

definition DupForPID ::
  "'w unix_calls \<Rightarrow> FDRegistry \<Rightarrow> int \<Rightarrow> int \<Rightarrow> int \<Rightarrow> 'w \<Rightarrow> goerr option \<times> FDRegistry \<times> 'w" where
  "DupForPID k r pid sourceFD targetFD w =
     (if sourceFD < 0 \<or> targetFD < 0 then (Some (Errno EBADF), r, w)
      else if sourceFD = targetFD then (None, r, w)
      else
        let normalizedPID = normalizeRegistryPID pid in
        case lookupKeyLocked r normalizedPID sourceFD of
          None \<Rightarrow> (Some (Errno EBADF), r, w)
        | Some sourceKey \<Rightarrow>
            let state = (case map_of r sourceKey of None \<Rightarrow> zero_state | Some st \<Rightarrow> st) in
            if st_HelperFD state \<ge> minManagedHelperFD
            then (case u_dup k (st_HelperFD state) w of
                    (Inl e, w) \<Rightarrow> (Some (Errno e), r, w)
                  | (Inr helperFD, w) \<Rightarrow>
                      (None, storeDuplicate k r normalizedPID targetFD state helperFD w))
            else (None, storeDuplicate k r normalizedPID targetFD state (st_HelperFD state) w))"

definition Dup ::
  "'w unix_calls \<Rightarrow> FDRegistry \<Rightarrow> int \<Rightarrow> int \<Rightarrow> 'w \<Rightarrow> goerr option \<times> FDRegistry \<times> 'w" where
  "Dup k r sourceFD targetFD w = DupForPID k r 0 sourceFD targetFD w"

subsection \<open>Lookups\<close>

definition registry_wf :: "FDRegistry \<Rightarrow> bool" where
  "registry_wf r \<longleftrightarrow> distinct (map fst r) \<and>
     list_all (\<lambda>(key, st). key = (st_ChildPID st, st_ChildFD st) \<and> 0 \<le> fst key \<and> 0 \<le> snd key) r"

lemma normalizeRegistryPID_id [simp]: "0 \<le> pid \<Longrightarrow> normalizeRegistryPID pid = pid"
  by (simp add: normalizeRegistryPID_def)

lemma normalizeRegistryPID_nonneg [simp]: "0 \<le> normalizeRegistryPID pid"
  by (simp add: normalizeRegistryPID_def)

lemma registry_wf_entry:
  assumes "registry_wf r" and "map_of r key = Some st"
  shows "key = (st_ChildPID st, st_ChildFD st)" and "0 \<le> fst key" and "0 \<le> snd key"
  using assms map_of_SomeD[OF assms(2)] by (auto simp: registry_wf_def list_all_iff)

lemma registry_wf_put:
  assumes "registry_wf r" and "0 \<le> st_ChildPID st" and "0 \<le> st_ChildFD st"
  shows "registry_wf (gm_put (st_ChildPID st, st_ChildFD st) st r)"
proof -
  have "set (gm_put key v m) \<subseteq> insert (key, v) (set m)" for key :: fdRegistryKey and v m
    by (induction key v m rule: gm_put.induct) auto
  from this[of "(st_ChildPID st, st_ChildFD st)" st r] show ?thesis
    using assms by (fastforce simp: registry_wf_def list_all_iff distinct_gm_put)
qed

lemma registry_wf_delete: "registry_wf r \<Longrightarrow> registry_wf (gm_delete key r)"
  using distinct_gm_delete[of r key] by (auto simp: registry_wf_def list_all_iff gm_delete_def)

lemma fallbackKey_found:
  "fallbackKey fd (Some key) r = (if fd \<in> snd ` fst ` set r then None else Some key)"
  by (induction fd "Some key" r rule: fallbackKey.induct) auto

lemma fallbackKey_Some:
  "distinct (map fst r) \<Longrightarrow> fallbackKey fd None r = Some key \<longleftrightarrow>
   key \<in> fst ` set r \<and> snd key = fd \<and> (\<forall>key' \<in> fst ` set r. snd key' = fd \<longrightarrow> key' = key)"
proof (induction fd "None :: fdRegistryKey option" r rule: fallbackKey.induct)
  case (2 fd key' st r)
  show ?case
  proof (cases "snd key' = fd")
    case True
    have "(\<forall>k' \<in> fst ` set r. snd k' = fd \<longrightarrow> k' = key') \<longleftrightarrow> fd \<notin> snd ` fst ` set r"
      using "2.prems" True by (auto simp: image_iff)
    with True "2.prems" show ?thesis by (auto simp: fallbackKey_found)
  next
    case False
    with 2 show ?thesis by auto
  qed
qed auto

lemma lookupKeyLocked_Some:
  assumes "registry_wf r"
  shows "lookupKeyLocked r pid fd = Some key \<longleftrightarrow>
    (if map_of r (pid, fd) \<noteq> None then key = (pid, fd)
     else map_of r key \<noteq> None \<and> snd key = fd \<and>
          (\<forall>p. map_of r (p, fd) \<noteq> None \<longrightarrow> p = fst key))"
proof -
  have "key' \<in> fst ` set r \<longleftrightarrow> map_of r key' \<noteq> None" for key'
    by (simp add: map_of_eq_None_iff)
  then have "fallbackKey fd None r = Some key \<longleftrightarrow>
      map_of r key \<noteq> None \<and> snd key = fd \<and> (\<forall>key'. map_of r key' \<noteq> None \<longrightarrow> snd key' = fd \<longrightarrow> key' = key)"
    using assms by (simp add: registry_wf_def fallbackKey_Some Ball_def)
  then show ?thesis
    by (cases key) (auto simp: lookupKeyLocked_def)
qed

lemma lookupKeyLocked_entry:
  "registry_wf r \<Longrightarrow> lookupKeyLocked r pid fd = Some key \<Longrightarrow> \<exists>st. map_of r key = Some st \<and> snd key = fd"
  by (auto simp: lookupKeyLocked_Some split: if_splits)

subsection \<open>The contract\<close>

locale descriptor_table =
  fixes states :: "'r \<Rightarrow> int \<times> int \<Rightarrow> SocketState option"
    and wf :: "'r \<Rightarrow> bool"
    and lookup :: "'r \<Rightarrow> int \<Rightarrow> int \<Rightarrow> SocketState option"
    and store :: "'r \<Rightarrow> int \<Rightarrow> SocketState \<Rightarrow> 'r"
    and discard :: "'r \<Rightarrow> int \<Rightarrow> int \<Rightarrow> 'r"
  assumes wf_states: "wf r \<Longrightarrow> states r (p, fd) = Some st \<Longrightarrow>
      st_ChildPID st = p \<and> st_ChildFD st = fd \<and> 0 \<le> p \<and> 0 \<le> fd"
    and lookup_iff: "wf r \<Longrightarrow> 0 \<le> pid \<Longrightarrow> lookup r pid fd = Some st \<longleftrightarrow>
      states r (pid, fd) = Some st \<or>
      states r (pid, fd) = None \<and>
        (\<exists>p. states r (p, fd) = Some st \<and> (\<forall>p'. states r (p', fd) \<noteq> None \<longrightarrow> p' = p))"
    and store_states: "0 \<le> pid \<Longrightarrow> 0 \<le> st_ChildFD st \<Longrightarrow>
      states (store r pid st) = (states r)((pid, st_ChildFD st) \<mapsto> st\<lparr>st_ChildPID := pid\<rparr>)"
    and discard_states: "wf r \<Longrightarrow> 0 \<le> pid \<Longrightarrow>
      states (discard r pid fd) =
        (case lookup r pid fd of None \<Rightarrow> states r
         | Some st \<Rightarrow> (states r)((st_ChildPID st, fd) := None))"
    and wf_store: "wf r \<Longrightarrow> wf (store r pid st)"
    and wf_discard: "wf r \<Longrightarrow> wf (discard r pid fd)"
begin

lemma lookup_entry:
  assumes "wf r" and "0 \<le> pid" and "lookup r pid fd = Some st"
  shows "states r (st_ChildPID st, fd) = Some st" and "st_ChildFD st = fd"
    and "0 \<le> st_ChildPID st" and "0 \<le> fd"
  using assms wf_states by (auto simp: lookup_iff)

lemma lookup_own:
  "wf r \<Longrightarrow> 0 \<le> pid \<Longrightarrow> states r (pid, fd) = Some st \<Longrightarrow> lookup r pid fd = Some st"
  by (simp add: lookup_iff)

lemma lookup_store:
  assumes "wf r" and "0 \<le> pid" and "0 \<le> st_ChildFD st"
  shows "lookup (store r pid st) pid (st_ChildFD st) = Some (st\<lparr>st_ChildPID := pid\<rparr>)"
  using assms by (simp add: lookup_own wf_store store_states)

text \<open>A state that was looked up is updated in place, also when the lookup fell back.\<close>

lemma update_states:
  assumes "wf r" and "0 \<le> pid" and "lookup r pid fd = Some st"
    and "st_ChildPID st' = st_ChildPID st" and "st_ChildFD st' = fd"
  shows "states (store r (st_ChildPID st') st') = (states r)((st_ChildPID st, fd) \<mapsto> st')"
proof -
  have "0 \<le> st_ChildPID st'" "0 \<le> st_ChildFD st'"
    using lookup_entry[OF assms(1-3)] assms(4,5) by simp_all
  from store_states[OF this, of r] show ?thesis
    by (simp add: assms(4,5) flip: assms(4))
qed

lemma update_lookup:
  assumes "wf r" and "0 \<le> pid" and "lookup r pid fd = Some st"
    and "st_ChildPID st' = st_ChildPID st" and "st_ChildFD st' = fd"
  shows "lookup (store r (st_ChildPID st') st') pid fd = Some st'"
proof -
  note s = update_states[OF assms]
  from assms(1-3) have "pid = st_ChildPID st \<or> states r (pid, fd) = None \<and>
      (\<forall>p'. states r (p', fd) \<noteq> None \<longrightarrow> p' = st_ChildPID st)"
    using wf_states by (auto simp: lookup_iff)
  with assms(1,2) s show ?thesis
    by (auto simp: lookup_iff wf_store intro!: exI[of _ "st_ChildPID st"])
qed

lemma discard_own_keeps_others:
  assumes "wf r" and "0 \<le> pid" and "states r (pid, fd) \<noteq> None"
    and "states r (p, fd') = Some st" and "(p, fd') \<noteq> (pid, fd)"
  shows "lookup (discard r pid fd) p fd' = Some st"
proof -
  from assms(3) obtain own where own: "states r (pid, fd) = Some own" by auto
  with assms(1,2) have "states (discard r pid fd) (p, fd') = Some st"
    using assms(4,5) wf_states[OF assms(1) own] by (simp add: discard_states lookup_own)
  then show ?thesis
    using assms(1) wf_states[OF assms(1) assms(4)] by (simp add: lookup_own wf_discard)
qed

lemma discard_inherited:
  assumes "wf r" and "0 \<le> pid" and "states r (p, fd) = Some st" and "p \<noteq> pid"
    and "\<And>p'. states r (p', fd) \<noteq> None \<Longrightarrow> p' = p"
  shows "states (discard r pid fd) (p, fd) = None"
proof -
  from assms(4,5) have "states r (pid, fd) = None" by blast
  then have "lookup r pid fd = Some st"
    using assms(1-3,5) by (auto simp: lookup_iff)
  then show ?thesis
    using assms(1,2) wf_states[OF assms(1,3)] by (simp add: discard_states)
qed

end

lemma LookupForPID_iff:
  assumes "registry_wf r" and "0 \<le> pid"
  shows "LookupForPID r pid fd = Some st \<longleftrightarrow>
      map_of r (pid, fd) = Some st \<or>
      map_of r (pid, fd) = None \<and>
        (\<exists>p. map_of r (p, fd) = Some st \<and> (\<forall>p'. map_of r (p', fd) \<noteq> None \<longrightarrow> p' = p))"
proof (cases "fd < 0")
  case True
  then have "map_of r (p, fd) = None" for p
    using registry_wf_entry(3)[OF assms(1), of "(p, fd)"] by (cases "map_of r (p, fd)") auto
  with True show ?thesis by (simp add: LookupForPID_def)
next
  case False
  show ?thesis
  proof (cases "lookupKeyLocked r pid fd")
    case None
    have own: "map_of r (pid, fd) = None"
      using None by (auto simp: lookupKeyLocked_def split: if_splits)
    moreover have "\<exists>p'. map_of r (p', fd) \<noteq> None \<and> p' \<noteq> p" if "map_of r (p, fd) = Some st" for p
      using None own that lookupKeyLocked_Some[OF assms(1), of pid fd "(p, fd)"] by auto
    moreover have "LookupForPID r pid fd = None"
      using None assms(2) by (simp add: LookupForPID_def)
    ultimately show ?thesis by auto
  next
    case (Some key)
    then show ?thesis
      using False assms lookupKeyLocked_Some[OF assms(1), of pid fd key]
      by (cases key) (auto simp: LookupForPID_def split: if_splits)
  qed
qed

lemma LookupForPID_key:
  assumes "registry_wf r" and "0 \<le> pid" and "LookupForPID r pid fd = Some st"
  shows "lookupKeyLocked r pid fd = Some (st_ChildPID st, fd)" and "\<not> fd < 0"
  using assms registry_wf_entry(1)[OF assms(1)] lookupKeyLocked_entry[OF assms(1)]
  by (auto simp: LookupForPID_def split: if_splits option.splits)

interpretation fds: descriptor_table map_of registry_wf LookupForPID InsertForPID removeForPID
proof (unfold_locales, goal_cases)
  case (1 r p fd st)
  then show ?case using registry_wf_entry[OF 1] by simp
next
  case (2 r pid fd st)
  then show ?case by (rule LookupForPID_iff)
next
  case (3 pid st r)
  then show ?case by (simp add: InsertForPID_def Let_def)
next
  case (4 r pid fd)
  show ?case
  proof (cases "LookupForPID r pid fd")
    case None
    with 4 show ?thesis
      using lookupKeyLocked_entry[OF 4(1)]
      by (force simp: removeForPID_def LookupForPID_def split: option.splits if_splits)
  next
    case (Some s)
    with LookupForPID_key[OF 4 Some] 4 show ?thesis
      by (simp add: removeForPID_def)
  qed
next
  case (5 r pid st)
  then show ?case
    using registry_wf_put[of r "st\<lparr>st_ChildPID := normalizeRegistryPID pid\<rparr>"]
    by (simp add: InsertForPID_def Let_def)
next
  case (6 r pid fd)
  then show ?case
    by (simp add: removeForPID_def registry_wf_delete split: option.splits)
qed

subsection \<open>Ownership of helper descriptors\<close>

text \<open>
  Laws of the kernel's descriptor table: \<open>opened w\<close> is the set of descriptors the helper has
  open. New descriptors are fresh, closing removes one, and the other calls keep the table.
\<close>

definition fd_laws :: "'w unix_calls \<Rightarrow> ('w \<Rightarrow> int set) \<Rightarrow> bool" where
  "fd_laws k opened \<longleftrightarrow>
     (\<forall>f t p w. case u_socket k f t p w of
        (Inl e, w') \<Rightarrow> opened w' = opened w
      | (Inr fd, w') \<Rightarrow> 0 \<le> fd \<and> fd \<notin> opened w \<and> opened w' = insert fd (opened w)) \<and>
     (\<forall>old w. case u_dup k old w of
        (Inl e, w') \<Rightarrow> opened w' = opened w
      | (Inr fd, w') \<Rightarrow> 0 \<le> fd \<and> fd \<notin> opened w \<and> opened w' = insert fd (opened w)) \<and>
     (\<forall>fd w. opened (u_close k fd w) = opened w - {fd}) \<and>
     (\<forall>fd sa w. opened (snd (u_connect k fd sa w)) = opened w) \<and>
     (\<forall>fd w. opened (snd (u_soerror k fd w)) = opened w) \<and>
     (\<forall>fd t w. opened (snd (u_poll k fd t w)) = opened w) \<and>
     (\<forall>w. opened (snd (u_now k w)) = opened w) \<and>
     (\<forall>t w. opened (u_sleep k t w) = opened w) \<and>
     (\<forall>fd w. opened (snd (u_getsockname k fd w)) = opened w) \<and>
     (\<forall>n rid src new fl nfl w. opened (snd (u_addfd k n rid src new fl nfl w)) = opened w) \<and>
     (\<forall>pid a n w. opened (snd (u_readv k pid a n w)) = opened w) \<and>
     (\<forall>pid a d w. opened (snd (u_writev k pid a d w)) = opened w)"

text \<open>Maps whose values have distinct images under \<open>f\<close>.\<close>

definition distinct_images :: "('v \<Rightarrow> 'b) \<Rightarrow> ('k \<Rightarrow> 'v option) \<Rightarrow> bool" where
  "distinct_images f m \<longleftrightarrow>
     (\<forall>k1 k2 v1 v2. m k1 = Some v1 \<longrightarrow> m k2 = Some v2 \<longrightarrow> f v1 = f v2 \<longrightarrow> k1 = k2)"

lemma image_ran_put: "f ` ran (m(key \<mapsto> v)) = insert (f v) (f ` ran (m(key := None)))"
  by (auto simp: ran_def image_iff)

lemma image_ran_member: "m key = Some v \<Longrightarrow> f v \<in> f ` ran m"
  by (auto simp: ran_def)

lemma image_ran_delete:
  assumes "distinct_images f m" and "m key = Some v"
  shows "f ` ran (m(key := None)) = f ` ran m - {f v}"
proof (intro set_eqI iffI)
  fix y
  assume "y \<in> f ` ran (m(key := None))"
  then obtain k' v' where "m k' = Some v'" "k' \<noteq> key" "y = f v'"
    by (auto simp: ran_def split: if_splits)
  with assms show "y \<in> f ` ran m - {f v}" by (auto simp: ran_def distinct_images_def)
next
  fix y
  assume "y \<in> f ` ran m - {f v}"
  then obtain k' v' where "m k' = Some v'" "y = f v'" "y \<noteq> f v"
    by (auto simp: ran_def)
  moreover from this assms(2) have "k' \<noteq> key" by auto
  ultimately show "y \<in> f ` ran (m(key := None))" by (auto simp: ran_def)
qed

lemma distinct_images_delete: "distinct_images f m \<Longrightarrow> distinct_images f (m(key := None))"
  by (auto simp: distinct_images_def)

lemma distinct_images_put:
  assumes "distinct_images f m" and "f v \<notin> f ` ran (m(key := None))"
  shows "distinct_images f (m(key \<mapsto> v))"
proof -
  have "f v \<noteq> f v'" if "m k' = Some v'" "k' \<noteq> key" for k' v'
    using assms(2) that image_ran_member[of "m(key := None)" k' v' f] by auto
  then show ?thesis
    using assms(1) unfolding distinct_images_def by (metis fun_upd_apply option.inject)
qed

lemma distinct_images_replace:
  assumes "distinct_images f m" and "m key = Some v" and "f v' = f v"
  shows "distinct_images f (m(key \<mapsto> v'))" and "f ` ran (m(key \<mapsto> v')) = f ` ran m"
proof -
  note del = image_ran_delete[OF assms(1,2)]
  show "distinct_images f (m(key \<mapsto> v'))"
    using assms(1) by (rule distinct_images_put) (simp add: del assms(3))
  show "f ` ran (m(key \<mapsto> v')) = f ` ran m"
    unfolding image_ran_put del assms(3) using image_ran_member[of m key v f] assms(2) by auto
qed

text \<open>
  Every managed socket owns one helper descriptor, no two share one, and besides those the
  helper has exactly its \<open>base\<close> descriptors open, among them the standard streams.
\<close>

definition helper_fds :: "FDRegistry \<Rightarrow> int set" where
  "helper_fds r = st_HelperFD ` ran (map_of r)"

definition helper_inv :: "int set \<Rightarrow> FDRegistry \<Rightarrow> int set \<Rightarrow> bool" where
  "helper_inv base r fds \<longleftrightarrow>
     registry_wf r \<and> {0, 1, 2} \<subseteq> base \<and> base \<inter> helper_fds r = {} \<and>
     (\<forall>h \<in> helper_fds r. 3 \<le> h) \<and> fds = base \<union> helper_fds r \<and>
     distinct_images st_HelperFD (map_of r)"

lemma helper_inv_wf: "helper_inv base r fds \<Longrightarrow> registry_wf r"
  by (simp add: helper_inv_def)

lemma helper_inv_entry:
  assumes "helper_inv base r fds" and "map_of r key = Some st"
  shows "3 \<le> st_HelperFD st" and "st_HelperFD st \<in> fds"
proof -
  have "st_HelperFD st \<in> helper_fds r"
    unfolding helper_fds_def using assms(2) by (rule image_ran_member)
  then show "3 \<le> st_HelperFD st" and "st_HelperFD st \<in> fds"
    using assms(1) by (auto simp: helper_inv_def)
qed

lemma helper_inv_distinct: "helper_inv base r fds \<Longrightarrow> distinct_images st_HelperFD (map_of r)"
  by (simp add: helper_inv_def)

lemma helper_inv_transfer:
  assumes "helper_inv base r fds" and "registry_wf r'"
    and "helper_fds r' = fds' - base" and "base \<subseteq> fds'" and "\<forall>h \<in> fds' - base. 3 \<le> h"
    and "distinct_images st_HelperFD (map_of r')"
  shows "helper_inv base r' fds'"
  using assms unfolding helper_inv_def by (intro conjI) (simp_all, blast+)

lemma helper_inv_update:
  assumes "helper_inv base r fds" and "0 \<le> pid" and "LookupForPID r pid fd = Some st"
    and "st_ChildPID st' = st_ChildPID st" and "st_ChildFD st' = fd"
    and "st_HelperFD st' = st_HelperFD st"
  shows "helper_inv base (Insert r st') fds"
proof (rule helper_inv_transfer[OF assms(1)])
  note wf = helper_inv_wf[OF assms(1)]
  have upd: "map_of (Insert r st') = (map_of r)((st_ChildPID st, fd) \<mapsto> st')"
    unfolding Insert_def by (rule fds.update_states[OF wf assms(2-5)])
  note own = fds.lookup_entry(1)[OF wf assms(2,3)]
  note rep = distinct_images_replace[OF helper_inv_distinct[OF assms(1)] own assms(6)]
  show "registry_wf (Insert r st')"
    unfolding Insert_def using wf by (rule fds.wf_store)
  have "helper_fds (Insert r st') = helper_fds r"
    unfolding helper_fds_def upd by (rule rep(2))
  then show "helper_fds (Insert r st') = fds - base"
    using assms(1) by (auto simp: helper_inv_def)
  show "base \<subseteq> fds" and "\<forall>h \<in> fds - base. 3 \<le> h"
    using assms(1) by (auto simp: helper_inv_def)
  show "distinct_images st_HelperFD (map_of (Insert r st'))"
    unfolding upd by (rule rep(1))
qed

lemma helper_inv_fresh:
  assumes "helper_inv base r fds" and "h \<notin> fds" and "0 \<le> h"
  shows "3 \<le> h" and "h \<notin> helper_fds r" and "h \<notin> base"
proof -
  have "h \<noteq> 0" "h \<noteq> 1" "h \<noteq> 2"
    using assms(1,2) by (auto simp: helper_inv_def)
  then show "3 \<le> h" using assms(3) by linarith
  show "h \<notin> helper_fds r" and "h \<notin> base"
    using assms(1,2) by (auto simp: helper_inv_def)
qed

text \<open>A socket with a new helper descriptor is stored under a free key.\<close>

lemma helper_inv_new:
  assumes "helper_inv base r fds" and "map_of r (st_ChildPID st, st_ChildFD st) = None"
    and "0 \<le> st_ChildPID st" and "0 \<le> st_ChildFD st"
    and "st_HelperFD st \<notin> fds" and "0 \<le> st_HelperFD st"
  shows "helper_inv base (gm_put (st_ChildPID st, st_ChildFD st) st r) (insert (st_HelperFD st) fds)"
    (is "helper_inv base ?r _")
proof (rule helper_inv_transfer[OF assms(1)])
  note fresh = helper_inv_fresh[OF assms(1,5,6)]
  show "registry_wf ?r"
    using helper_inv_wf[OF assms(1)] assms(3,4) by (rule registry_wf_put)
  have "helper_fds ?r = insert (st_HelperFD st) (helper_fds r)"
    using assms(2) by (simp add: helper_fds_def)
  then show "helper_fds ?r = insert (st_HelperFD st) fds - base"
    using assms(1) fresh by (auto simp: helper_inv_def)
  show "base \<subseteq> insert (st_HelperFD st) fds" "\<forall>h \<in> insert (st_HelperFD st) fds - base. 3 \<le> h"
    using assms(1) fresh by (auto simp: helper_inv_def)
  have "(map_of r)((st_ChildPID st, st_ChildFD st) := None) = map_of r"
    using assms(2) by (rule fun_upd_idem)
  then show "distinct_images st_HelperFD (map_of ?r)"
    using distinct_images_put[OF helper_inv_distinct[OF assms(1)], of st] fresh(2)
    by (simp add: helper_fds_def del: fun_upd_apply)
qed

lemma helper_inv_remove:
  assumes "helper_inv base r fds" and "map_of r key = Some st"
  shows "helper_inv base (gm_delete key r) (fds - {st_HelperFD st})"
proof (rule helper_inv_transfer[OF assms(1)])
  note inj = helper_inv_distinct[OF assms(1)]
  show "registry_wf (gm_delete key r)"
    using assms(1) by (simp add: helper_inv_def registry_wf_delete)
  have "helper_fds (gm_delete key r) = helper_fds r - {st_HelperFD st}"
    unfolding helper_fds_def map_of_gm_delete using inj assms(2) by (rule image_ran_delete)
  moreover have own: "st_HelperFD st \<notin> base"
    using assms image_ran_member[of "map_of r" key st st_HelperFD]
    by (auto simp: helper_inv_def helper_fds_def)
  ultimately show "helper_fds (gm_delete key r) = fds - {st_HelperFD st} - base"
    using assms(1) by (auto simp: helper_inv_def)
  show "base \<subseteq> fds - {st_HelperFD st}" and "\<forall>h \<in> fds - {st_HelperFD st} - base. 3 \<le> h"
    using assms(1) own by (auto simp: helper_inv_def)
  show "distinct_images st_HelperFD (map_of (gm_delete key r))"
    using inj by (simp add: distinct_images_delete)
qed

text \<open>Closing and duplicating keep the ownership.\<close>

lemma fd_laws_close: "fd_laws k opened \<Longrightarrow> opened (u_close k fd w) = opened w - {fd}"
  by (simp add: fd_laws_def)

lemma fd_laws_dup:
  assumes "fd_laws k opened"
  shows "u_dup k old w = (Inr fd, w') \<Longrightarrow> 0 \<le> fd \<and> fd \<notin> opened w \<and> opened w' = insert fd (opened w)"
    and "u_dup k old w = (Inl e, w') \<Longrightarrow> opened w' = opened w"
proof -
  have "case u_dup k old w of (Inl e, w') \<Rightarrow> opened w' = opened w
      | (Inr fd, w') \<Rightarrow> 0 \<le> fd \<and> fd \<notin> opened w \<and> opened w' = insert fd (opened w)"
    using assms by (simp add: fd_laws_def)
  then show "u_dup k old w = (Inr fd, w') \<Longrightarrow> 0 \<le> fd \<and> fd \<notin> opened w \<and> opened w' = insert fd (opened w)"
    and "u_dup k old w = (Inl e, w') \<Longrightarrow> opened w' = opened w"
    by simp_all
qed

lemma CloseForPID_inv:
  assumes "fd_laws k opened" and "helper_inv base r (opened w)"
    and "CloseForPID k r pid fd w = (r', w')"
  shows "helper_inv base r' (opened w')"
proof (cases "fd < 0 \<or> lookupKeyLocked r (normalizeRegistryPID pid) fd = None")
  case True
  with assms show ?thesis by (auto simp: CloseForPID_def removeForPID_def)
next
  case False
  then obtain key where key: "lookupKeyLocked r (normalizeRegistryPID pid) fd = Some key" by auto
  from lookupKeyLocked_entry[OF helper_inv_wf[OF assms(2)] key]
  obtain st where st: "map_of r key = Some st" by auto
  with key False assms(3) helper_inv_entry(1)[OF assms(2) st]
  have "r' = gm_delete key r" "w' = u_close k (st_HelperFD st) w"
    by (auto simp: CloseForPID_def removeForPID_def closeManagedHelperFD_def)
  with helper_inv_remove[OF assms(2) st] show ?thesis
    by (simp add: fd_laws_close[OF assms(1)])
qed

lemma storeDuplicate_inv:
  assumes "fd_laws k opened" and "helper_inv base r fds" and "opened w = insert h fds"
    and "map_of r sourceKey = Some state" and "h \<notin> fds" and "0 \<le> h"
    and "0 \<le> pid" and "0 \<le> targetFD" and "sourceKey \<noteq> (pid, targetFD)"
    and "storeDuplicate k r pid targetFD state h w = (r', w')"
  shows "helper_inv base r' (opened w')"
proof -
  let ?d = "state\<lparr>st_ChildPID := pid, st_ChildFD := targetFD, st_HelperFD := h\<rparr>"
  have r': "r' = gm_put (pid, targetFD) ?d r"
    using assms(10) by (simp add: storeDuplicate_def)
  show ?thesis
  proof (cases "map_of r (pid, targetFD)")
    case None
    then have "opened w' = insert h fds"
      using assms(3,10) by (simp add: storeDuplicate_def)
    with helper_inv_new[OF assms(2), of ?d] None assms(5-8) r' show ?thesis by simp
  next
    case (Some existing)
    note inj = helper_inv_distinct[OF assms(2)]
    have other: "st_HelperFD existing \<noteq> st_HelperFD state"
      using inj Some assms(4,9) unfolding distinct_images_def by metis
    note e = helper_inv_entry[OF assms(2) Some]
    have w': "opened w' = insert h (fds - {st_HelperFD existing})"
      using assms(3,5,10) other e Some fd_laws_close[OF assms(1)]
      by (auto simp: storeDuplicate_def closeManagedHelperFD_def)
    have put: "map_of (gm_put (pid, targetFD) v (gm_delete (pid, targetFD) r)) =
        map_of (gm_put (pid, targetFD) v r)" for v
      by simp
    have del: "helper_inv base (gm_delete (pid, targetFD) r) (fds - {st_HelperFD existing})"
      using assms(2) Some by (rule helper_inv_remove)
    from helper_inv_new[OF del, of ?d] assms(5-8)
    have new: "helper_inv base (gm_put (pid, targetFD) ?d (gm_delete (pid, targetFD) r)) (opened w')"
      by (simp add: w')
    have "registry_wf r'"
      using registry_wf_put[of r ?d] helper_inv_wf[OF assms(2)] assms(7,8) by (simp add: r')
    with new put[of ?d] show ?thesis
      by (simp add: helper_inv_def helper_fds_def r' del: map_of_gm_put)
  qed
qed

lemma DupForPID_inv:
  assumes laws: "fd_laws k opened" and inv: "helper_inv base r (opened w)"
    and dup: "DupForPID k r pid sourceFD targetFD w = (e, r', w')"
  shows "helper_inv base r' (opened w')"
proof (cases "sourceFD < 0 \<or> targetFD < 0 \<or> sourceFD = targetFD \<or>
    lookupKeyLocked r (normalizeRegistryPID pid) sourceFD = None")
  case True
  with dup inv show ?thesis by (auto simp: DupForPID_def Let_def split: if_splits)
next
  case False
  then obtain key where key: "lookupKeyLocked r (normalizeRegistryPID pid) sourceFD = Some key"
    by auto
  from lookupKeyLocked_entry[OF helper_inv_wf[OF inv] key]
  obtain st where st: "map_of r key = Some st" "snd key = sourceFD" by auto
  note h = helper_inv_entry(1)[OF inv st(1)]
  show ?thesis
  proof (cases "u_dup k (st_HelperFD st) w")
    case (Pair res w1)
    show ?thesis
    proof (cases res)
      case (Inl errno)
      with Pair False key st h dup fd_laws_dup(2)[OF laws] inv show ?thesis
        by (auto simp: DupForPID_def Let_def)
    next
      case (Inr fd)
      with Pair False key st h dup
      have "storeDuplicate k r (normalizeRegistryPID pid) targetFD st fd w1 = (r', w')"
        by (auto simp: DupForPID_def Let_def)
      moreover have "key \<noteq> (normalizeRegistryPID pid, targetFD)"
        using False st(2) by auto
      moreover note fd_laws_dup(1)[OF laws Pair[unfolded Inr]]
      ultimately show ?thesis
        using storeDuplicate_inv[OF laws inv _ st(1), of w1 fd "normalizeRegistryPID pid" targetFD]
          False by simp
    qed
  qed
qed

end
