(* ===== verification/Process_Memory.thy ===== *)
theory Process_Memory
  imports Sockaddr Fd_Registry
begin

section \<open>Memory of the sandboxed process\<close>

text \<open>
  Reading and writing the memory of the process that made a system call (\<^verbatim>\<open>readProcessMemory\<close>
  of \<^verbatim>\<open>syscall_dispatch_linux.go\<close> and the helpers at the end of \<^verbatim>\<open>dns_runtime_linux.go\<close>), with the
  kernel structures in the layout of 64-bit Linux. Allocating a slice of more bytes than the
  address space of the Go runtime is a panic. Products of an element size and a count taken from
  a system call argument wrap around like Go's \<^verbatim>\<open>int\<close>.
\<close>

definition wrap_int :: "int \<Rightarrow> int" where
  "wrap_int i = sint (word_of_int i :: 64 word)"

definition maxAlloc :: int where
  "maxAlloc = 2 ^ 48"

definition readProcessMemory ::
  "'w unix_calls \<Rightarrow> int \<Rightarrow> 64 word \<Rightarrow> int \<Rightarrow> 'w \<Rightarrow> (goerr + byte list) \<times> 'w" where
  "readProcessMemory k pid addr sz w =
     (if pid \<le> 0 \<or> addr = 0 \<or> sz < 0 then (Inl (Errno EINVAL), w)
      else if sz = 0 then (Inr [], w)
      else if sz > maxAlloc then (Inl (Panic ''makeslice: len out of range''), w)
      else case u_readv k pid addr sz w of
             (Inl e, w) \<Rightarrow> (Inl (Errno e), w)
           | (Inr data, w) \<Rightarrow> (Inr data, w))"

definition readProcessMemoryExact ::
  "'w unix_calls \<Rightarrow> int \<Rightarrow> 64 word \<Rightarrow> int \<Rightarrow> 'w \<Rightarrow> (goerr + byte list) \<times> 'w" where
  "readProcessMemoryExact k pid addr sz w =
     (if sz < 0 then (Inl (Errno EINVAL), w)
      else if sz = 0 then (Inr [], w)
      else if addr = 0 then (Inl (Errno EFAULT), w)
      else case readProcessMemory k pid addr sz w of
             (Inl e, w) \<Rightarrow> (Inl e, w)
           | (Inr data, w) \<Rightarrow>
               if int (length data) \<noteq> sz then (Inl (Errno EFAULT), w) else (Inr data, w))"

definition writeProcessMemoryExact ::
  "'w unix_calls \<Rightarrow> int \<Rightarrow> 64 word \<Rightarrow> byte list \<Rightarrow> 'w \<Rightarrow> goerr option \<times> 'w" where
  "writeProcessMemoryExact k pid addr data w =
     (if data = [] then (None, w)
      else if pid \<le> 0 then (Some (Errno EINVAL), w)
      else if addr = 0 then (Some (Errno EFAULT), w)
      else case u_writev k pid addr data w of
             (Inl e, w) \<Rightarrow> (Some (Errno e), w)
           | (Inr n, w) \<Rightarrow> (if n \<noteq> int (length data) then Some (Errno EFAULT) else None, w))"

subsection \<open>Kernel structures\<close>

text \<open>
  Numbers in memory have the byte order of the machine: \<open>native\<close> reads and writes least
  significant byte first on a little endian machine.
\<close>

definition bytes_val :: "byte list \<Rightarrow> int" where
  "bytes_val bs = foldr (\<lambda>b n. uint b + 256 * n) bs 0"

fun val_bytes :: "nat \<Rightarrow> int \<Rightarrow> byte list" where
  "val_bytes 0 v = []"
| "val_bytes (Suc n) v = word_of_int v # val_bytes n (v div 256)"

definition native :: "bool \<Rightarrow> byte list \<Rightarrow> byte list" where
  "native little bs = (if little then bs else rev bs)"

definition get_uint :: "bool \<Rightarrow> nat \<Rightarrow> nat \<Rightarrow> byte list \<Rightarrow> int" where
  "get_uint little off n data = bytes_val (native little (go_slice off (off + n) data))"

definition put_uint :: "bool \<Rightarrow> nat \<Rightarrow> int \<Rightarrow> byte list" where
  "put_uint little n v = native little (val_bytes n v)"

definition signed :: "nat \<Rightarrow> int \<Rightarrow> int" where
  "signed n v = (if v < 2 ^ (8 * n - 1) then v else v - 2 ^ (8 * n))"

record Iovec =
  iov_Base :: "64 word"
  iov_Len :: int

record Msghdr =
  mh_Name :: "64 word"
  mh_Namelen :: int
  mh_Pad0 :: "byte list"
  mh_Iov :: "64 word"
  mh_Iovlen :: int
  mh_Control :: "64 word"
  mh_Controllen :: int
  mh_Flags :: int
  mh_Pad1 :: "byte list"

record rawMmsghdr =
  mm_Hdr :: Msghdr
  mm_Len :: int
  mm_Pad :: "byte list"

record PollFd =
  pf_Fd :: int
  pf_Events :: int
  pf_Revents :: int

definition decodeIovec :: "bool \<Rightarrow> byte list \<Rightarrow> Iovec" where
  "decodeIovec little d =
     \<lparr>iov_Base = word_of_int (get_uint little 0 8 d), iov_Len = get_uint little 8 8 d\<rparr>"

definition decodeMsghdr :: "bool \<Rightarrow> byte list \<Rightarrow> Msghdr" where
  "decodeMsghdr little d =
     \<lparr>mh_Name = word_of_int (get_uint little 0 8 d), mh_Namelen = get_uint little 8 4 d,
      mh_Pad0 = go_slice 12 16 d, mh_Iov = word_of_int (get_uint little 16 8 d),
      mh_Iovlen = get_uint little 24 8 d, mh_Control = word_of_int (get_uint little 32 8 d),
      mh_Controllen = get_uint little 40 8 d, mh_Flags = signed 4 (get_uint little 48 4 d),
      mh_Pad1 = go_slice 52 56 d\<rparr>"

definition encodeMsghdr :: "bool \<Rightarrow> Msghdr \<Rightarrow> byte list" where
  "encodeMsghdr little m =
     put_uint little 8 (uint (mh_Name m)) @ put_uint little 4 (mh_Namelen m) @ mh_Pad0 m @
     put_uint little 8 (uint (mh_Iov m)) @ put_uint little 8 (mh_Iovlen m) @
     put_uint little 8 (uint (mh_Control m)) @ put_uint little 8 (mh_Controllen m) @
     put_uint little 4 (mh_Flags m) @ mh_Pad1 m"

definition decodeMmsghdr :: "bool \<Rightarrow> byte list \<Rightarrow> rawMmsghdr" where
  "decodeMmsghdr little d =
     \<lparr>mm_Hdr = decodeMsghdr little (go_slice 0 56 d), mm_Len = get_uint little 56 4 d,
      mm_Pad = go_slice 60 64 d\<rparr>"

definition encodeMmsghdr :: "bool \<Rightarrow> rawMmsghdr \<Rightarrow> byte list" where
  "encodeMmsghdr little m = encodeMsghdr little (mm_Hdr m) @ put_uint little 4 (mm_Len m) @ mm_Pad m"

definition decodePollFd :: "bool \<Rightarrow> byte list \<Rightarrow> PollFd" where
  "decodePollFd little d =
     \<lparr>pf_Fd = signed 4 (get_uint little 0 4 d), pf_Events = signed 2 (get_uint little 4 2 d),
      pf_Revents = signed 2 (get_uint little 6 2 d)\<rparr>"

definition encodePollFd :: "bool \<Rightarrow> PollFd \<Rightarrow> byte list" where
  "encodePollFd little p =
     put_uint little 4 (pf_Fd p) @ put_uint little 2 (pf_Events p) @ put_uint little 2 (pf_Revents p)"

text \<open>
  The generic readers take the size of the type and its decoder; a value is written as its
  encoding with \<open>writeProcessMemoryExact\<close>.
\<close>

definition readProcessValue ::
  "'w unix_calls \<Rightarrow> nat \<Rightarrow> (byte list \<Rightarrow> 'a) \<Rightarrow> int \<Rightarrow> 64 word \<Rightarrow> 'w \<Rightarrow> (goerr + 'a) \<times> 'w" where
  "readProcessValue k sz dec pid addr w =
     (case readProcessMemoryExact k pid addr (int sz) w of
        (Inl e, w) \<Rightarrow> (Inl e, w) | (Inr data, w) \<Rightarrow> (Inr (dec data), w))"

definition readProcessValues ::
  "'w unix_calls \<Rightarrow> nat \<Rightarrow> (byte list \<Rightarrow> 'a) \<Rightarrow> int \<Rightarrow> 64 word \<Rightarrow> int \<Rightarrow> 'w \<Rightarrow>
   (goerr + 'a list) \<times> 'w" where
  "readProcessValues k sz dec pid addr count w =
     (if count < 0 then (Inl (Errno EINVAL), w)
      else if count = 0 then (Inr [], w)
      else case readProcessMemoryExact k pid addr (wrap_int (int sz * count)) w of
             (Inl e, w) \<Rightarrow> (Inl e, w)
           | (Inr data, w) \<Rightarrow>
               if int sz * count > maxAlloc
               then (Inl (Panic ''makeslice: len out of range''), w)
               else (Inr (map (\<lambda>i. dec (go_slice (i * sz) ((i + 1) * sz) data)) [0..<nat count]), w))"

abbreviation writeProcessValue ::
  "'w unix_calls \<Rightarrow> int \<Rightarrow> 64 word \<Rightarrow> byte list \<Rightarrow> 'w \<Rightarrow> goerr option \<times> 'w" where
  "writeProcessValue \<equiv> writeProcessMemoryExact"

definition readProcessPayload ::
  "'w unix_calls \<Rightarrow> int \<Rightarrow> 64 word \<Rightarrow> int \<Rightarrow> 'w \<Rightarrow> (goerr + byte list) \<times> 'w" where
  "readProcessPayload k pid addr len w =
     (if len < 0 \<or> len > 65536 then (Inl (Errno EMSGSIZE), w)
      else if len = 0 then (Inr [], w)
      else readProcessMemoryExact k pid addr len w)"

definition writeProcessPayload ::
  "'w unix_calls \<Rightarrow> int \<Rightarrow> 64 word \<Rightarrow> int \<Rightarrow> byte list \<Rightarrow> 'w \<Rightarrow> (goerr + int) \<times> 'w" where
  "writeProcessPayload k pid addr len payload w =
     (if len < 0 then (Inl (Errno EINVAL), w)
      else if payload = [] \<or> len = 0 then (Inr 0, w)
      else if addr = 0 then (Inl (Errno EFAULT), w)
      else
        let n = min len (int (length payload)) in
        case writeProcessMemoryExact k pid addr (take (nat n) payload) w of
          (Some e, w) \<Rightarrow> (Inl e, w) | (None, w) \<Rightarrow> (Inr n, w))"

subsection \<open>Gathering and scattering\<close>

text \<open>The length check over the vectors: the total so far, or none when it is exceeded.\<close>

fun iovecsTotal :: "int \<Rightarrow> Iovec list \<Rightarrow> int option" where
  "iovecsTotal tot [] = Some tot"
| "iovecsTotal tot (iov # iovs) =
     (if iov_Len iov > 65536 \<or> tot + iov_Len iov > 65536 then None
      else iovecsTotal (tot + iov_Len iov) iovs)"

fun readIovecs ::
  "'w unix_calls \<Rightarrow> int \<Rightarrow> Iovec list \<Rightarrow> byte list \<Rightarrow> 'w \<Rightarrow> (goerr + byte list) \<times> 'w" where
  "readIovecs k pid [] payload w = (Inr payload, w)"
| "readIovecs k pid (iov # iovs) payload w =
     (if iov_Len iov = 0 then readIovecs k pid iovs payload w
      else case readProcessMemoryExact k pid (iov_Base iov) (iov_Len iov) w of
             (Inl e, w) \<Rightarrow> (Inl e, w)
           | (Inr chunk, w) \<Rightarrow> readIovecs k pid iovs (payload @ chunk) w)"

definition readPayloadFromIovecs ::
  "'w unix_calls \<Rightarrow> bool \<Rightarrow> int \<Rightarrow> 64 word \<Rightarrow> int \<Rightarrow> 'w \<Rightarrow> (goerr + byte list) \<times> 'w" where
  "readPayloadFromIovecs k little pid iovPtr iovLen w =
     (if iovLen < 0 then (Inl (Errno EINVAL), w)
      else if iovLen = 0 then (Inr [], w)
      else if iovPtr = 0 then (Inl (Errno EFAULT), w)
      else case readProcessValues k 16 (decodeIovec little) pid iovPtr iovLen w of
             (Inl e, w) \<Rightarrow> (Inl e, w)
           | (Inr iovecs, w) \<Rightarrow>
               (case iovecsTotal 0 iovecs of
                  None \<Rightarrow> (Inl (Errno EMSGSIZE), w)
                | Some _ \<Rightarrow> readIovecs k pid iovecs [] w))"

text \<open>\<^verbatim>\<open>int(iov.Len)\<close> reads the 64-bit length as a signed number.\<close>

fun writeIovecs ::
  "'w unix_calls \<Rightarrow> int \<Rightarrow> Iovec list \<Rightarrow> int \<Rightarrow> byte list \<Rightarrow> 'w \<Rightarrow> (goerr + int) \<times> 'w" where
  "writeIovecs k pid [] written payload w = (Inr written, w)"
| "writeIovecs k pid (iov # iovs) written payload w =
     (if written \<ge> int (length payload) then (Inr written, w)
      else if iov_Len iov = 0 then writeIovecs k pid iovs written payload w
      else
        let toWrite = min (wrap_int (iov_Len iov)) (int (length payload) - written) in
        if toWrite = 0 then writeIovecs k pid iovs written payload w
        else if toWrite < 0 then (Inl (Panic ''slice bounds out of range''), w)
        else case writeProcessMemoryExact k pid (iov_Base iov)
                    (take (nat toWrite) (drop (nat written) payload)) w of
               (Some e, w) \<Rightarrow> (Inl e, w)
             | (None, w) \<Rightarrow> writeIovecs k pid iovs (written + toWrite) payload w)"

definition writePayloadToIovecs ::
  "'w unix_calls \<Rightarrow> bool \<Rightarrow> int \<Rightarrow> 64 word \<Rightarrow> int \<Rightarrow> byte list \<Rightarrow> 'w \<Rightarrow>
   (goerr + int \<times> bool) \<times> 'w" where
  "writePayloadToIovecs k little pid iovPtr iovLen payload w =
     (if iovLen < 0 then (Inl (Errno EINVAL), w)
      else if iovLen = 0 then (Inr (0, payload \<noteq> []), w)
      else if iovPtr = 0 then (Inl (Errno EFAULT), w)
      else case readProcessValues k 16 (decodeIovec little) pid iovPtr iovLen w of
             (Inl e, w) \<Rightarrow> (Inl e, w)
           | (Inr iovecs, w) \<Rightarrow>
               (case writeIovecs k pid iovecs 0 payload w of
                  (Inl e, w) \<Rightarrow> (Inl e, w)
                | (Inr written, w) \<Rightarrow> (Inr (written, written < int (length payload)), w)))"

subsection \<open>Writing addresses\<close>

definition writeSockaddr ::
  "'w unix_calls \<Rightarrow> bool \<Rightarrow> int \<Rightarrow> 64 word \<Rightarrow> 64 word \<Rightarrow> DecodedSockaddr \<Rightarrow> 'w \<Rightarrow>
   goerr option \<times> 'w" where
  "writeSockaddr k little pid addrPtr addrLenPtr source w =
     (case encodeRawSockaddr little source of
        Inl e \<Rightarrow> (Some e, w)
      | Inr (raw, actualLen) \<Rightarrow>
          (case readProcessValue k 4 (get_uint little 0 4) pid addrLenPtr w of
             (Inl e, w) \<Rightarrow> (Some e, w)
           | (Inr suppliedLen, w) \<Rightarrow>
               let copyLen = min suppliedLen (int (length raw)) in
               case (if copyLen > 0
                     then writeProcessMemoryExact k pid addrPtr (take (nat copyLen) raw) w
                     else (None, w)) of
                 (Some e, w) \<Rightarrow> (Some e, w)
               | (None, w) \<Rightarrow> writeProcessValue k pid addrLenPtr (put_uint little 4 actualLen) w))"

definition writeRecvfromSockaddr ::
  "'w unix_calls \<Rightarrow> bool \<Rightarrow> int \<Rightarrow> 64 word \<Rightarrow> 64 word \<Rightarrow> DecodedSockaddr \<Rightarrow> 'w \<Rightarrow>
   goerr option \<times> 'w" where
  "writeRecvfromSockaddr k little pid addrPtr addrLenPtr source w =
     (if addrPtr = 0 \<and> addrLenPtr = 0 then (None, w)
      else if addrPtr = 0 \<or> addrLenPtr = 0 then (Some (Errno EFAULT), w)
      else writeSockaddr k little pid addrPtr addrLenPtr source w)"

text \<open>The address goes where the header points; the header returned has the actual length.\<close>

definition writeMsghdrSockaddr ::
  "'w unix_calls \<Rightarrow> bool \<Rightarrow> int \<Rightarrow> Msghdr \<Rightarrow> DecodedSockaddr \<Rightarrow> 'w \<Rightarrow> (goerr + Msghdr) \<times> 'w" where
  "writeMsghdrSockaddr k little pid msg source w =
     (if mh_Name msg = 0 \<or> mh_Namelen msg = 0 then (Inr msg, w)
      else case encodeRawSockaddr little source of
             Inl e \<Rightarrow> (Inl e, w)
           | Inr (raw, actualLen) \<Rightarrow>
               let copyLen = min (mh_Namelen msg) (int (length raw)) in
               (case (if copyLen > 0
                      then writeProcessMemoryExact k pid (mh_Name msg) (take (nat copyLen) raw) w
                      else (None, w)) of
                  (Some e, w) \<Rightarrow> (Inl e, w)
                | (None, w) \<Rightarrow> (Inr (msg\<lparr>mh_Namelen := actualLen\<rparr>), w)))"

subsection \<open>Frame\<close>

text \<open>
  What the memory calls of the kernel keep, everything in this theory keeps. The lemmas have the
  form in which the path conditions of the handlers present the calls.
\<close>

definition mem_frame :: "'w unix_calls \<Rightarrow> ('w \<Rightarrow> 'o) \<Rightarrow> bool" where
  "mem_frame k obs \<longleftrightarrow>
     (\<forall>pid a n w. obs (snd (u_readv k pid a n w)) = obs w) \<and>
     (\<forall>pid a d w. obs (snd (u_writev k pid a d w)) = obs w)"

lemma mem_frame_calls:
  assumes "mem_frame k obs"
  shows "u_readv k pid a n w = (r, w') \<Longrightarrow> obs w' = obs w"
    and "u_writev k pid a d w = (r', w') \<Longrightarrow> obs w' = obs w"
proof -
  have "obs (snd (u_readv k pid a n w)) = obs w" "obs (snd (u_writev k pid a d w)) = obs w"
    using assms by (simp_all add: mem_frame_def)
  then show "u_readv k pid a n w = (r, w') \<Longrightarrow> obs w' = obs w"
    and "u_writev k pid a d w = (r', w') \<Longrightarrow> obs w' = obs w" by simp_all
qed

lemma readProcessMemory_keeps:
  "mem_frame k obs \<Longrightarrow> readProcessMemory k pid a n w = (r, w') \<Longrightarrow> obs w' = obs w"
  by (auto simp: readProcessMemory_def split: if_splits prod.splits sum.splits
      dest: mem_frame_calls(1))

lemma readProcessMemoryExact_keeps:
  "mem_frame k obs \<Longrightarrow> readProcessMemoryExact k pid a n w = (r, w') \<Longrightarrow> obs w' = obs w"
  by (auto simp: readProcessMemoryExact_def split: if_splits prod.splits sum.splits
      dest: readProcessMemory_keeps)

lemma writeProcessMemoryExact_keeps:
  "mem_frame k obs \<Longrightarrow> writeProcessMemoryExact k pid a d w = (r, w') \<Longrightarrow> obs w' = obs w"
  by (auto simp: writeProcessMemoryExact_def split: if_splits prod.splits sum.splits
      dest: mem_frame_calls(2))

lemma readProcessValue_keeps:
  "mem_frame k obs \<Longrightarrow> readProcessValue k n dec pid a w = (r, w') \<Longrightarrow> obs w' = obs w"
  by (auto simp: readProcessValue_def split: prod.splits sum.splits
      dest: readProcessMemoryExact_keeps)

lemma readProcessValues_keeps:
  "mem_frame k obs \<Longrightarrow> readProcessValues k n dec pid a c w = (r, w') \<Longrightarrow> obs w' = obs w"
  by (auto simp: readProcessValues_def split: if_splits prod.splits sum.splits
      dest: readProcessMemoryExact_keeps)

lemma readProcessPayload_keeps:
  "mem_frame k obs \<Longrightarrow> readProcessPayload k pid a n w = (r, w') \<Longrightarrow> obs w' = obs w"
  by (auto simp: readProcessPayload_def split: if_splits dest: readProcessMemoryExact_keeps)

lemma writeProcessPayload_keeps:
  "mem_frame k obs \<Longrightarrow> writeProcessPayload k pid a n d w = (r, w') \<Longrightarrow> obs w' = obs w"
  by (auto simp: writeProcessPayload_def Let_def split: if_splits prod.splits option.splits
      dest: writeProcessMemoryExact_keeps)

lemma readIovecs_keeps:
  "mem_frame k obs \<Longrightarrow> readIovecs k pid iovs p w = (r, w') \<Longrightarrow> obs w' = obs w"
proof (induction k pid iovs p w rule: readIovecs.induct)
  case (2 k pid iov iovs payload w)
  then show ?case
    by (auto split: if_splits prod.splits sum.splits dest: readProcessMemoryExact_keeps)
qed simp

lemma writeIovecs_keeps:
  "mem_frame k obs \<Longrightarrow> writeIovecs k pid iovs n p w = (r, w') \<Longrightarrow> obs w' = obs w"
proof (induction k pid iovs n p w rule: writeIovecs.induct)
  case (2 k pid iov iovs written payload w)
  then show ?case
    by (auto simp: Let_def split: if_splits prod.splits option.splits
        dest: writeProcessMemoryExact_keeps)
qed simp

lemma readPayloadFromIovecs_keeps:
  assumes "mem_frame k obs"
  shows "readPayloadFromIovecs k little pid a n w = (r, w') \<Longrightarrow> obs w' = obs w"
  by (auto simp: readPayloadFromIovecs_def split: if_splits prod.splits sum.splits option.splits
      dest!: readProcessValues_keeps[OF assms] readIovecs_keeps[OF assms])

lemma writePayloadToIovecs_keeps:
  assumes "mem_frame k obs"
  shows "writePayloadToIovecs k little pid a n p w = (r, w') \<Longrightarrow> obs w' = obs w"
  by (auto simp: writePayloadToIovecs_def split: if_splits prod.splits sum.splits
      dest!: readProcessValues_keeps[OF assms] writeIovecs_keeps[OF assms])

lemma writeSockaddr_keeps:
  assumes "mem_frame k obs"
  shows "writeSockaddr k little pid a al src w = (r, w') \<Longrightarrow> obs w' = obs w"
  by (auto simp: writeSockaddr_def Let_def split: if_splits prod.splits sum.splits option.splits
      dest!: readProcessValue_keeps[OF assms] writeProcessMemoryExact_keeps[OF assms])

lemma writeRecvfromSockaddr_keeps:
  assumes "mem_frame k obs"
  shows "writeRecvfromSockaddr k little pid a al src w = (r, w') \<Longrightarrow> obs w' = obs w"
  by (auto simp: writeRecvfromSockaddr_def split: if_splits dest!: writeSockaddr_keeps[OF assms])

lemma writeMsghdrSockaddr_keeps:
  assumes "mem_frame k obs"
  shows "writeMsghdrSockaddr k little pid m src w = (r, w') \<Longrightarrow> obs w' = obs w"
  by (auto simp: writeMsghdrSockaddr_def Let_def split: if_splits prod.splits sum.splits option.splits
      dest!: writeProcessMemoryExact_keeps[OF assms])

lemmas mem_keeps =
  readProcessMemory_keeps readProcessMemoryExact_keeps writeProcessMemoryExact_keeps
  readProcessValue_keeps readProcessValues_keeps readProcessPayload_keeps
  writeProcessPayload_keeps readPayloadFromIovecs_keeps writePayloadToIovecs_keeps
  writeSockaddr_keeps writeRecvfromSockaddr_keeps writeMsghdrSockaddr_keeps

end
