(* ===== verification/Supervisor.thy ===== *)
theory Supervisor
  imports Process_Memory
begin

section \<open>The seccomp supervisor: seccompnotify/supervisor\_linux.go\<close>

text \<open>
  The supervisor's state and its operations on sockets: reservation of descriptors in the
  sandboxed process (\<^verbatim>\<open>socket_state_linux.go\<close>), installation of descriptors (\<^verbatim>\<open>addfd_linux.go\<close>),
  classification and creation of managed sockets, redirection of connections to the helper's
  ingress, duplication and peer names (\<^verbatim>\<open>supervisor_linux.go\<close>, \<^verbatim>\<open>syscall_dispatch_linux.go\<close>).
  Operations return their result, the new supervisor and the new world. Loops that the kernel
  can prolong take fuel.
\<close>

subsection \<open>State\<close>

record 'w Supervisor =
  su_targets :: "'w RuntimeTargets"
  su_registry :: FDRegistry
  su_notifyFD :: int
  su_reservedChildFDs :: "int set"
  su_nextTCPChildFD :: int
  su_nextUDPChildFD :: int

definition NewSupervisor :: "'w RuntimeTargets \<Rightarrow> 'w Supervisor" where
  "NewSupervisor targets =
     \<lparr>su_targets = targets, su_registry = NewFDRegistry, su_notifyFD = 0, su_reservedChildFDs = {},
      su_nextTCPChildFD = minManagedTCPChildFD, su_nextUDPChildFD = minManagedUDPChildFD\<rparr>"

subsection \<open>Descriptor numbers\<close>

definition minChildFDForSocketKind :: "SocketKind \<Rightarrow> int" where
  "minChildFDForSocketKind kind =
     (if kind = KindUDP then minManagedUDPChildFD else minManagedTCPChildFD)"

definition minDupFDForState :: "SocketState \<Rightarrow> int \<Rightarrow> int" where
  "minDupFDForState state requestedMin =
     (case st_Kind state of
        KindUDP \<Rightarrow> if requestedMin < minManagedUDPChildFD then minManagedUDPChildFD else requestedMin
      | KindTCP \<Rightarrow> if requestedMin < minManagedTCPChildFD then minManagedTCPChildFD else requestedMin
      | KindUnknown \<Rightarrow> requestedMin)"

text \<open>The scan over at most 4096 numbers for one that is not reserved.\<close>

fun freeChildFD :: "int set \<Rightarrow> nat \<Rightarrow> int \<Rightarrow> int option" where
  "freeChildFD reserved 0 fd = None"
| "freeChildFD reserved (Suc n) fd =
     (if fd \<in> reserved then freeChildFD reserved n (fd + 1) else Some fd)"

definition reserveChildFD :: "'w Supervisor \<Rightarrow> SocketKind \<Rightarrow> int \<Rightarrow> int \<times> 'w Supervisor" where
  "reserveChildFD s kind requestedMin =
     (let minFD = minChildFDForSocketKind kind;
          minFD = (if requestedMin > minFD then requestedMin else minFD);
          next = (if kind = KindUDP then su_nextUDPChildFD s else su_nextTCPChildFD s);
          next = (if next < minFD then minFD else next) in
      case freeChildFD (su_reservedChildFDs s) 4096 next of
        None \<Rightarrow> (- 1, s)
      | Some fd \<Rightarrow>
          let s = s\<lparr>su_reservedChildFDs := insert fd (su_reservedChildFDs s)\<rparr> in
          (fd, if kind = KindUDP then s\<lparr>su_nextUDPChildFD := fd + 1\<rparr>
               else s\<lparr>su_nextTCPChildFD := fd + 1\<rparr>))"

definition releaseChildFD :: "'w Supervisor \<Rightarrow> int \<Rightarrow> 'w Supervisor" where
  "releaseChildFD s fd =
     (if fd < 0 then s else s\<lparr>su_reservedChildFDs := su_reservedChildFDs s - {fd}\<rparr>)"

subsection \<open>Installing descriptors\<close>

text \<open>
  \<^verbatim>\<open>SECCOMP_ADDFD_FLAG_SETFD\<close> is flag 1. The request the ioctl reads keeps the target number, so
  a nonzero target is the result; for target 0 it is what the ioctl returned.
\<close>

definition addFDWithResult ::
  "'w unix_calls \<Rightarrow> 'w Supervisor \<Rightarrow> 64 word \<Rightarrow> int \<Rightarrow> 32 word \<Rightarrow> int \<Rightarrow> int \<Rightarrow> 'w \<Rightarrow>
   (goerr + int) \<times> 'w" where
  "addFDWithResult k s reqID srcFD newFD flags newFDFlags w =
     (if su_notifyFD s < 0 then (Inl (GoErr ''notify fd must be non-negative''), w)
      else if srcFD < 0 then (Inl (GoErr ''source fd must be non-negative''), w)
      else case u_addfd k (su_notifyFD s) reqID (word_of_int srcFD) newFD flags newFDFlags w of
             (Inl e, w) \<Rightarrow> (Inl (Errno e), w)
           | (Inr r1, w) \<Rightarrow> (Inr (if newFD \<noteq> 0 then uint newFD else r1), w))"

abbreviation (input) SECCOMP_ADDFD_FLAG_SETFD :: int where "SECCOMP_ADDFD_FLAG_SETFD \<equiv> 1"

fun addFDScan ::
  "'w unix_calls \<Rightarrow> 'w Supervisor \<Rightarrow> 64 word \<Rightarrow> int \<Rightarrow> int \<Rightarrow> nat \<Rightarrow> int \<Rightarrow> 'w \<Rightarrow> (goerr + int) \<times> 'w" where
  "addFDScan k s reqID srcFD newFDFlags 0 fd w = (Inl (Errno EMFILE), w)"
| "addFDScan k s reqID srcFD newFDFlags (Suc n) fd w =
     (case addFDWithResult k s reqID srcFD (word_of_int fd) SECCOMP_ADDFD_FLAG_SETFD newFDFlags w of
        (Inr childFD, w) \<Rightarrow> (Inr childFD, w)
      | (Inl e, w) \<Rightarrow>
          if e = Errno EBUSY \<or> e = Errno EEXIST
          then addFDScan k s reqID srcFD newFDFlags n (fd + 1) w else (Inl e, w))"

definition addFDAtOrAbove ::
  "'w unix_calls \<Rightarrow> 'w Supervisor \<Rightarrow> 64 word \<Rightarrow> int \<Rightarrow> int \<Rightarrow> int \<Rightarrow> 'w \<Rightarrow> (goerr + int) \<times> 'w" where
  "addFDAtOrAbove k s reqID srcFD minFD newFDFlags w =
     (let minFD = (if minFD < 0 then 0 else minFD) in
      addFDScan k s reqID srcFD newFDFlags (nat (wrap_int (minFD + 4096) - minFD)) minFD w)"

subsection \<open>Classification and routing\<close>

definition isManagedSocketFamily :: "int \<Rightarrow> bool" where
  "isManagedSocketFamily family \<longleftrightarrow> family = AF_INET \<or> family = AF_INET6"

definition baseSocketType :: "int \<Rightarrow> int" where
  "baseSocketType socketType = socketType AND 0xf"

definition targetsSupportFamilyIngress :: "'w RuntimeTargets \<Rightarrow> int \<Rightarrow> bool" where
  "targetsSupportFamilyIngress targets family \<longleftrightarrow>
     (if family = AF_INET then rt_RawTCPAddr targets \<noteq> []
      else if family = AF_INET6 then rt_RawTCPAddrV6 targets \<noteq> [] else False)"

definition classifyManagedSocket ::
  "'w RuntimeTargets \<Rightarrow> int \<Rightarrow> int \<Rightarrow> int \<Rightarrow> goerr + SocketKind option" where
  "classifyManagedSocket targets family socketType protocol =
     (if \<not> isManagedSocketFamily family then Inr None
      else if baseSocketType socketType = SOCK_STREAM then
        (if \<not> targetsSupportFamilyIngress targets family then Inr None else Inr (Some KindTCP))
      else if baseSocketType socketType = SOCK_DGRAM then
        (if protocol \<noteq> 0 \<and> protocol \<noteq> IPPROTO_UDP then Inr None
         else if rt_DNSRoundTrip targets = None then Inl (Errno EHOSTUNREACH)
         else Inr (Some KindUDP))
      else Inr None)"

definition selectIngressAddrForFamily :: "int \<Rightarrow> string \<Rightarrow> string \<Rightarrow> string" where
  "selectIngressAddrForFamily family addr4 addr6 = (if family = AF_INET6 then addr6 else addr4)"

definition parseTCPAddr :: "string \<Rightarrow> goerr + Sockaddr" where
  "parseTCPAddr addr =
     (case split_host_port addr of
        Inl e \<Rightarrow> Inl (GoErr (''split ingress address '' @ go_quote addr @ '': '' @ e))
      | Inr (host, portText) \<Rightarrow>
          (case atoi portText of
             None \<Rightarrow> Inl (GoErr (''invalid ingress port '' @ go_quote portText))
           | Some port \<Rightarrow>
               if port < 1 \<or> port > 65535
               then Inl (GoErr (''invalid ingress port '' @ go_quote portText))
               else case parse_ip host of
                 None \<Rightarrow> Inl (GoErr (''ingress host '' @ go_quote host @ '' is not an IP address''))
               | Some ip \<Rightarrow> (case to4 ip of
                               Some ip4 \<Rightarrow> Inr (SockaddrInet4 port ip4)
                             | None \<Rightarrow> Inr (SockaddrInet6 port ip))))"

fun sockaddrMatchesFamily :: "Sockaddr \<Rightarrow> int \<Rightarrow> bool" where
  "sockaddrMatchesFamily (SockaddrInet4 _ _) family \<longleftrightarrow> family = AF_INET"
| "sockaddrMatchesFamily (SockaddrInet6 _ _) family \<longleftrightarrow> family = AF_INET6"
| "sockaddrMatchesFamily SockaddrOther family \<longleftrightarrow> False"

record tcpRoute =
  ro_Kind :: string
  ro_Addr :: string
  ro_Sockaddr :: Sockaddr

definition routeTCPDestination ::
  "'w RuntimeTargets \<Rightarrow> int \<Rightarrow> string \<Rightarrow> int \<Rightarrow> goerr + tcpRoute" where
  "routeTCPDestination targets family host port =
     (if port = 53 then Inl (Errno EPERM)
      else
        let addr = selectIngressAddrForFamily family (rt_RawTCPAddr targets) (rt_RawTCPAddrV6 targets) in
        if addr = [] then Inl (GoErr (''missing ingress address for route '' @ go_quote ''raw_tcp''))
        else case parseTCPAddr addr of
               Inl e \<Rightarrow> Inl e
             | Inr sockaddr \<Rightarrow>
                 if \<not> sockaddrMatchesFamily sockaddr family then Inl (Errno EAFNOSUPPORT)
                 else Inr \<lparr>ro_Kind = ''raw_tcp'', ro_Addr = addr, ro_Sockaddr = sockaddr\<rparr>)"

definition peernameFamily :: "string \<Rightarrow> int \<Rightarrow> int" where
  "peernameFamily host fallbackFamily =
     (if fallbackFamily = AF_INET \<or> fallbackFamily = AF_INET6 then fallbackFamily
      else case parse_ip host of
             None \<Rightarrow> fallbackFamily
           | Some ip \<Rightarrow> if to4 ip \<noteq> None then AF_INET else AF_INET6)"

subsection \<open>Waiting for a connection\<close>

text \<open>
  Each round reads the socket error, then the clock, then polls. The timeout of 2 s is
  2000000000 ns; a poll gets whole milliseconds, at least one.
\<close>

fun connectWaitLoop ::
  "'w unix_calls \<Rightarrow> nat \<Rightarrow> int \<Rightarrow> int \<Rightarrow> 'w \<Rightarrow> goerr option \<times> 'w" where
  "connectWaitLoop k 0 fd deadline w = (Some Out_Of_Fuel, w)"
| "connectWaitLoop k (Suc n) fd deadline w =
     (let again = (\<lambda>w.
        case u_now k w of (now, w) \<Rightarrow>
          let remaining = deadline - now in
          if remaining \<le> 0 then (Some (Errno ETIMEDOUT), w)
          else
            let ms = remaining div 1000000; timeoutMs = (if ms < 1 then 1 else ms) in
            case u_poll k fd timeoutMs w of
              (Inl e, w) \<Rightarrow> if e = EINTR then connectWaitLoop k n fd deadline w
                           else (Some (Errno e), w)
            | (Inr c, w) \<Rightarrow> if c = 0 then (Some (Errno ETIMEDOUT), w)
                           else connectWaitLoop k n fd deadline w) in
      case u_soerror k fd w of
        (Inr e, w) \<Rightarrow>
          if e = 0 then (None, w)
          else if e = EINPROGRESS \<or> e = EALREADY \<or> e = EAGAIN then again w
          else (Some (Errno e), w)
      | (Inl e, w) \<Rightarrow> if e \<noteq> EINTR then (Some (Errno e), w) else again w)"

definition waitForConnectComplete ::
  "'w unix_calls \<Rightarrow> nat \<Rightarrow> int \<Rightarrow> int \<Rightarrow> 'w \<Rightarrow> goerr option \<times> 'w" where
  "waitForConnectComplete k n fd timeout w =
     (if fd < 0 then (Some (Errno EBADF), w)
      else
        let timeout = (if timeout \<le> 0 then 2000000000 else timeout) in
        case u_now k w of (now, w) \<Rightarrow> connectWaitLoop k n fd (now + timeout) w)"

definition getsocknameString :: "'w unix_calls \<Rightarrow> int \<Rightarrow> 'w \<Rightarrow> (goerr + string) \<times> 'w" where
  "getsocknameString k fd w =
     (case u_getsockname k fd w of
        (Inl e, w) \<Rightarrow> (Inl (Errno e), w)
      | (Inr (SockaddrInet4 port a), w) \<Rightarrow> (Inr (join_host_port (ip_string a) (itoa port)), w)
      | (Inr (SockaddrInet6 port a), w) \<Rightarrow> (Inr (join_host_port (ip_string a) (itoa port)), w)
      | (Inr SockaddrOther, w) \<Rightarrow> (Inl (GoErr ''unsupported getsockname sockaddr''), w))"

fun getsocknameRetry ::
  "'w unix_calls \<Rightarrow> nat \<Rightarrow> int \<Rightarrow> int \<Rightarrow> 'w \<Rightarrow> (goerr + string) \<times> 'w" where
  "getsocknameRetry k 0 fd deadline w = (Inl Out_Of_Fuel, w)"
| "getsocknameRetry k (Suc n) fd deadline w =
     (case getsocknameString k fd w of
        (r, w) \<Rightarrow>
          if (case r of Inr addr \<Rightarrow> addr \<noteq> [] | Inl e \<Rightarrow> False) then (r, w)
          else case u_now k w of
                 (now, w) \<Rightarrow>
                   if now > deadline then (r, w)
                   else getsocknameRetry k n fd deadline (u_sleep k 1000000 w))"

definition getsocknameStringWithRetry ::
  "'w unix_calls \<Rightarrow> nat \<Rightarrow> int \<Rightarrow> int \<Rightarrow> 'w \<Rightarrow> (goerr + string) \<times> 'w" where
  "getsocknameStringWithRetry k n fd timeout w =
     (if timeout \<le> 0 then getsocknameString k fd w
      else case u_now k w of (now, w) \<Rightarrow> getsocknameRetry k n fd (now + timeout) w)"

subsection \<open>Socket operations\<close>

definition new_state :: "SocketKind \<Rightarrow> int \<Rightarrow> int \<Rightarrow> int \<Rightarrow> int \<Rightarrow> int \<Rightarrow> SocketState" where
  "new_state kind childFD helperFD family socketType protocol =
     zero_state\<lparr>st_Kind := kind, st_ChildFD := childFD, st_HelperFD := helperFD, st_Family := family,
       st_SocketType := socketType, st_Protocol := protocol,
       st_Blocking := (socketType AND SOCK_NONBLOCK = 0)\<rparr>"

definition handleSocket ::
  "'w unix_calls \<Rightarrow> 'w Supervisor \<Rightarrow> socketRequest \<Rightarrow> 'w \<Rightarrow> goerr option \<times> 'w Supervisor \<times> 'w" where
  "handleSocket k s req w =
     (if sq_ChildFD req < 0 then (Some (GoErr ''child fd must be non-negative''), s, w)
      else
        case Close k (su_registry s) (sq_ChildFD req) w of
          (reg, w) \<Rightarrow>
            let s = s\<lparr>su_registry := reg\<rparr> in
            if \<not> isManagedSocketFamily (sq_Family req) then (None, s, w)
            else if \<not> targetsSupportFamilyIngress (su_targets s) (sq_Family req) then (None, s, w)
            else if baseSocketType (sq_SocketType req) \<noteq> SOCK_STREAM then (None, s, w)
            else case u_socket k (sq_Family req) (sq_SocketType req) (sq_Protocol req) w of
                   (Inl e, w) \<Rightarrow> (Some (Errno e), s, w)
                 | (Inr helperFD, w) \<Rightarrow>
                     (None,
                      s\<lparr>su_registry := Insert (su_registry s)
                          (new_state KindTCP (sq_ChildFD req) helperFD (sq_Family req)
                             (sq_SocketType req) (sq_Protocol req))\<rparr>, w))"

definition recordOrigin ::
  "'w unix_calls \<Rightarrow> nat \<Rightarrow> 'w Supervisor \<Rightarrow> int \<Rightarrow> DecodedSockaddr \<Rightarrow> 'w \<Rightarrow> 'w" where
  "recordOrigin k n s helperFD dest w =
     (case rt_RecordRawTCPOrigin (su_targets s) of
        None \<Rightarrow> w
      | Some record_origin \<Rightarrow>
          (case getsocknameStringWithRetry k n helperFD 50000000 w of
             (Inl e, w) \<Rightarrow> w
           | (Inr localAddr, w) \<Rightarrow>
               if localAddr \<noteq> [] then record_origin localAddr (sa_Host dest) (sa_Port dest) w else w))"

definition handleConnect ::
  "'w unix_calls \<Rightarrow> nat \<Rightarrow> 'w Supervisor \<Rightarrow> connectRequest \<Rightarrow> 'w \<Rightarrow>
   goerr option \<times> 'w Supervisor \<times> 'w" where
  "handleConnect k n s req w =
     (if cq_ChildFD req < 0 then (Some (Errno EBADF), s, w)
      else case Lookup (su_registry s) (cq_ChildFD req) of
        None \<Rightarrow> (None, s, w)
      | Some state \<Rightarrow>
          if st_HelperFD state < 0 then (None, s, w)
          else if st_Kind state \<noteq> KindTCP then (None, s, w)
          else case routeTCPDestination (su_targets s) (st_Family state)
                      (sa_Host (cq_Destination req)) (sa_Port (cq_Destination req)) of
            Inl e \<Rightarrow> (Some e, s, w)
          | Inr route \<Rightarrow>
              let state = state\<lparr>st_OriginalHost := sa_Host (cq_Destination req),
                                st_OriginalPort := sa_Port (cq_Destination req),
                                st_RedirectAddr := ro_Addr route\<rparr> in
              case u_connect k (st_HelperFD state) (ro_Sockaddr route) w of
                (connectErr, w) \<Rightarrow>
                  if connectErr \<notin> {None, Some EINPROGRESS, Some EALREADY}
                  then (map_option Errno connectErr, s, w)
                  else case (if connectErr = None then (None, w)
                             else waitForConnectComplete k n (st_HelperFD state) 2000000000 w) of
                    (Some e, w) \<Rightarrow> (Some e, s, w)
                  | (None, w) \<Rightarrow>
                      let s = s\<lparr>su_registry := Insert (su_registry s) state\<rparr> in
                      (None, s, recordOrigin k n s (st_HelperFD state) (cq_Destination req) w))"

definition handleClose ::
  "'w unix_calls \<Rightarrow> 'w Supervisor \<Rightarrow> int \<Rightarrow> 'w \<Rightarrow> goerr option \<times> 'w Supervisor \<times> 'w" where
  "handleClose k s childFD w =
     (if childFD < 0 then (Some (Errno EBADF), s, w)
      else case Close k (su_registry s) childFD w of
             (reg, w) \<Rightarrow> (None, s\<lparr>su_registry := reg\<rparr>, w))"

text \<open>\<open>write_peername\<close> is the callback of the request, \<^verbatim>\<open>nil\<close> is \<open>None\<close>.\<close>

definition writeOriginalPeername ::
  "(DecodedSockaddr \<Rightarrow> 'w \<Rightarrow> goerr option \<times> 'w) option \<Rightarrow> string \<Rightarrow> int \<Rightarrow> int \<Rightarrow> 'w \<Rightarrow>
   goerr option \<times> 'w" where
  "writeOriginalPeername write_peername host port fallbackFamily w =
     (case write_peername of
        None \<Rightarrow> (None, w)
      | Some write \<Rightarrow>
          if host = [] \<or> port \<le> 0 then (None, w)
          else write \<lparr>sa_Family = peernameFamily host fallbackFamily, sa_Host = host, sa_Port = port\<rparr> w)"

definition handleGetpeername ::
  "'w Supervisor \<Rightarrow> int \<Rightarrow> (DecodedSockaddr \<Rightarrow> 'w \<Rightarrow> goerr option \<times> 'w) option \<Rightarrow> 'w \<Rightarrow>
   goerr option \<times> 'w" where
  "handleGetpeername s childFD write_peername w =
     (if childFD < 0 then (Some (Errno EBADF), w)
      else case Lookup (su_registry s) childFD of
             None \<Rightarrow> (None, w)
           | Some state \<Rightarrow>
               if st_RedirectAddr state = [] then (None, w)
               else writeOriginalPeername write_peername (st_OriginalHost state)
                      (st_OriginalPort state) (st_Family state) w)"

subsection \<open>System call numbers\<close>

text \<open>
  The numbers of \<^verbatim>\<open>unix.SYS_*\<close> on the two supported machines. \<^verbatim>\<open>dup2\<close> and \<^verbatim>\<open>poll\<close> exist only on
  amd64; elsewhere they are \<^verbatim>\<open>unsupportedSyscall\<close>, which is -1.
\<close>

datatype arch = Amd64 | Arm64

definition SYS_READ :: "arch \<Rightarrow> int" where "SYS_READ a = (case a of Amd64 \<Rightarrow> 0 | Arm64 \<Rightarrow> 63)"
definition SYS_WRITE :: "arch \<Rightarrow> int" where "SYS_WRITE a = (case a of Amd64 \<Rightarrow> 1 | Arm64 \<Rightarrow> 64)"
definition SYS_CLOSE :: "arch \<Rightarrow> int" where "SYS_CLOSE a = (case a of Amd64 \<Rightarrow> 3 | Arm64 \<Rightarrow> 57)"
definition SYS_IOCTL :: "arch \<Rightarrow> int" where "SYS_IOCTL a = (case a of Amd64 \<Rightarrow> 16 | Arm64 \<Rightarrow> 29)"
definition SYS_DUP :: "arch \<Rightarrow> int" where "SYS_DUP a = (case a of Amd64 \<Rightarrow> 32 | Arm64 \<Rightarrow> 23)"
definition SYS_SOCKET :: "arch \<Rightarrow> int" where "SYS_SOCKET a = (case a of Amd64 \<Rightarrow> 41 | Arm64 \<Rightarrow> 198)"
definition SYS_CONNECT :: "arch \<Rightarrow> int" where "SYS_CONNECT a = (case a of Amd64 \<Rightarrow> 42 | Arm64 \<Rightarrow> 203)"
definition SYS_SENDTO :: "arch \<Rightarrow> int" where "SYS_SENDTO a = (case a of Amd64 \<Rightarrow> 44 | Arm64 \<Rightarrow> 206)"
definition SYS_RECVFROM :: "arch \<Rightarrow> int" where
  "SYS_RECVFROM a = (case a of Amd64 \<Rightarrow> 45 | Arm64 \<Rightarrow> 207)"
definition SYS_SENDMSG :: "arch \<Rightarrow> int" where "SYS_SENDMSG a = (case a of Amd64 \<Rightarrow> 46 | Arm64 \<Rightarrow> 211)"
definition SYS_RECVMSG :: "arch \<Rightarrow> int" where "SYS_RECVMSG a = (case a of Amd64 \<Rightarrow> 47 | Arm64 \<Rightarrow> 212)"
definition SYS_GETPEERNAME :: "arch \<Rightarrow> int" where
  "SYS_GETPEERNAME a = (case a of Amd64 \<Rightarrow> 52 | Arm64 \<Rightarrow> 205)"
definition SYS_FCNTL :: "arch \<Rightarrow> int" where "SYS_FCNTL a = (case a of Amd64 \<Rightarrow> 72 | Arm64 \<Rightarrow> 25)"
definition SYS_PPOLL :: "arch \<Rightarrow> int" where "SYS_PPOLL a = (case a of Amd64 \<Rightarrow> 271 | Arm64 \<Rightarrow> 73)"
definition SYS_DUP3 :: "arch \<Rightarrow> int" where "SYS_DUP3 a = (case a of Amd64 \<Rightarrow> 292 | Arm64 \<Rightarrow> 24)"
definition SYS_RECVMMSG :: "arch \<Rightarrow> int" where
  "SYS_RECVMMSG a = (case a of Amd64 \<Rightarrow> 299 | Arm64 \<Rightarrow> 243)"
definition SYS_SENDMMSG :: "arch \<Rightarrow> int" where
  "SYS_SENDMMSG a = (case a of Amd64 \<Rightarrow> 307 | Arm64 \<Rightarrow> 269)"

definition optionalDup2Syscall :: "arch \<Rightarrow> int" where
  "optionalDup2Syscall a = (case a of Amd64 \<Rightarrow> 33 | Arm64 \<Rightarrow> - 1)"

definition optionalPollSyscall :: "arch \<Rightarrow> int" where
  "optionalPollSyscall a = (case a of Amd64 \<Rightarrow> 7 | Arm64 \<Rightarrow> - 1)"

definition isDupLikeSyscall :: "arch \<Rightarrow> int \<Rightarrow> bool" where
  "isDupLikeSyscall a nr \<longleftrightarrow>
     nr = SYS_DUP a \<or> nr = SYS_DUP3 a \<or> nr = SYS_FCNTL a \<or>
     optionalDup2Syscall a \<ge> 0 \<and> nr = optionalDup2Syscall a"

definition isPollSyscall :: "arch \<Rightarrow> int \<Rightarrow> bool" where
  "isPollSyscall a nr \<longleftrightarrow> optionalPollSyscall a \<ge> 0 \<and> nr = optionalPollSyscall a"

definition managedNotifySyscallNames :: "arch \<Rightarrow> string list" where
  "managedNotifySyscallNames a =
     (let names = [''socket'', ''connect'', ''getpeername'', ''read'', ''sendto'', ''write'',
                   ''recvfrom'', ''sendmsg'', ''recvmsg'', ''sendmmsg'', ''recvmmsg'', ''ppoll'',
                   ''ioctl'', ''close'', ''dup'', ''dup3'', ''fcntl''];
          names = (if optionalPollSyscall a \<ge> 0 then take 8 names @ [''poll''] @ drop 8 names else names)
      in if optionalDup2Syscall a \<ge> 0 then take 12 names @ [''dup2''] @ drop 12 names else names)"

abbreviation (input) F_DUPFD :: int where "F_DUPFD \<equiv> 0"
abbreviation (input) F_DUPFD_CLOEXEC :: int where "F_DUPFD_CLOEXEC \<equiv> 1030"

definition handleDupLike ::
  "'w unix_calls \<Rightarrow> arch \<Rightarrow> 'w Supervisor \<Rightarrow> int \<Rightarrow> dupRequest \<Rightarrow> 'w \<Rightarrow>
   goerr option \<times> 'w Supervisor \<times> 'w" where
  "handleDupLike k a s nr req w =
     (let old = (if dq_OldFD req < 0 then dq_FD req else dq_OldFD req);
          fds = (if nr = SYS_DUP a \<or> nr = SYS_DUP3 a then Some (old, dq_NewFD req)
                 else if nr = SYS_FCNTL a then
                   (if dq_Cmd req = F_DUPFD \<or> dq_Cmd req = F_DUPFD_CLOEXEC
                    then Some (dq_FD req, dq_NewFD req) else None)
                 else if optionalDup2Syscall a \<ge> 0 \<and> nr = optionalDup2Syscall a
                 then Some (old, dq_NewFD req) else None) in
      case fds of
        None \<Rightarrow> (None, s, w)
      | Some (oldFD, newFD) \<Rightarrow>
          if oldFD < 0 \<or> newFD < 0 then (Some (Errno EBADF), s, w)
          else if oldFD = newFD then (None, s, w)
          else case Dup k (su_registry s) oldFD newFD w of
                 (e, reg, w) \<Rightarrow> (e, s\<lparr>su_registry := reg\<rparr>, w))"

record 'w syscallRequest =
  rq_Syscall :: int
  rq_Socket :: socketRequest
  rq_Connect :: connectRequest
  rq_CloseFD :: int
  rq_Dup :: dupRequest
  rq_PeernameFD :: int
  rq_WritePeername :: "(DecodedSockaddr \<Rightarrow> 'w \<Rightarrow> goerr option \<times> 'w) option"

definition handleSyscall ::
  "'w unix_calls \<Rightarrow> arch \<Rightarrow> nat \<Rightarrow> 'w Supervisor \<Rightarrow> 'w syscallRequest \<Rightarrow> 'w \<Rightarrow>
   goerr option \<times> 'w Supervisor \<times> 'w" where
  "handleSyscall k a n s req w =
     (let nr = rq_Syscall req in
      if nr = SYS_SOCKET a then handleSocket k s (rq_Socket req) w
      else if nr = SYS_CONNECT a then handleConnect k n s (rq_Connect req) w
      else if nr = SYS_CLOSE a then handleClose k s (rq_CloseFD req) w
      else if nr = SYS_DUP a \<or> nr = SYS_DUP3 a \<or> nr = SYS_FCNTL a
      then handleDupLike k a s nr (rq_Dup req) w
      else if nr = SYS_GETPEERNAME a
      then (case handleGetpeername s (rq_PeernameFD req) (rq_WritePeername req) w of
              (e, w) \<Rightarrow> (e, s, w))
      else if isDupLikeSyscall a nr then handleDupLike k a s nr (rq_Dup req) w
      else (None, s, w))"

subsection \<open>Notified calls on sockets\<close>

text \<open>
  The handlers of notifications return an error, or \<open>None\<close> when the kernel shall continue the call,
  or the value the call returns. \<^verbatim>\<open>notificationPID\<close> prefers the process of the notification.
\<close>

definition notificationPID :: "int \<Rightarrow> ScmpNotifReq \<Rightarrow> int" where
  "notificationPID fallback req = (if nq_Pid req > 0 then nq_Pid req else fallback)"

text \<open>The loop that installs a helper socket under a reserved number.\<close>

fun injectLoop ::
  "'w unix_calls \<Rightarrow> nat \<Rightarrow> 'w Supervisor \<Rightarrow> 64 word \<Rightarrow> SocketKind \<Rightarrow> int \<Rightarrow> 'w \<Rightarrow>
   (goerr + int) \<times> 'w Supervisor \<times> 'w" where
  "injectLoop k 0 s reqID kind helperFD w = (Inl Out_Of_Fuel, s, w)"
| "injectLoop k (Suc n) s reqID kind helperFD w =
     (case reserveChildFD s kind (minChildFDForSocketKind kind) of
        (childFD, s) \<Rightarrow>
          if childFD < 0 then (Inl (Errno EMFILE), s, u_close k helperFD w)
          else case addFDWithResult k s reqID helperFD (word_of_int childFD)
                      SECCOMP_ADDFD_FLAG_SETFD 0 w of
            (Inr _, w) \<Rightarrow> (Inr childFD, s, w)
          | (Inl e, w) \<Rightarrow>
              let s = releaseChildFD s childFD in
              if e \<noteq> Errno EBUSY \<and> e \<noteq> Errno EEXIST then (Inl e, s, u_close k helperFD w)
              else injectLoop k n s reqID kind helperFD w)"

definition injectSocket ::
  "'w unix_calls \<Rightarrow> nat \<Rightarrow> 'w Supervisor \<Rightarrow> ScmpNotifReq \<Rightarrow> 'w \<Rightarrow>
   (goerr + int option) \<times> 'w Supervisor \<times> 'w" where
  "injectSocket k n s req w =
     (let family = go_int (nq_Arg0 req); socketType = go_int (nq_Arg1 req);
          protocol = go_int (nq_Arg2 req) in
      case classifyManagedSocket (su_targets s) family socketType protocol of
        Inl e \<Rightarrow> (Inl e, s, w)
      | Inr None \<Rightarrow> (Inr None, s, w)
      | Inr (Some kind) \<Rightarrow>
          (case u_socket k family socketType protocol w of
             (Inl e, w) \<Rightarrow> (Inl (Errno e), s, w)
           | (Inr helperFD, w) \<Rightarrow>
               (case injectLoop k n s (nq_ID req) kind helperFD w of
                  (Inl e, s, w) \<Rightarrow> (Inl e, s, w)
                | (Inr childFD, s, w) \<Rightarrow>
                    let pid = notificationPID 0 req in
                    (case CloseForPID k (su_registry s) pid childFD w of
                       (reg, w) \<Rightarrow>
                         (Inr (Some childFD),
                          s\<lparr>su_registry := InsertForPID reg pid
                              ((new_state kind childFD helperFD family socketType protocol)
                                 \<lparr>st_ChildPID := pid\<rparr>)\<rparr>, w)))))"

definition reinstallConnectedSocket ::
  "'w unix_calls \<Rightarrow> 'w Supervisor \<Rightarrow> 64 word \<Rightarrow> SocketState \<Rightarrow> 'w \<Rightarrow> goerr option \<times> 'w" where
  "reinstallConnectedSocket k s notifID state w =
     (if st_ChildFD state < 0 \<or> st_HelperFD state < 0 then (Some (Errno EBADF), w)
      else
        let newFDFlags = (if st_SocketType state AND SOCK_CLOEXEC \<noteq> 0 then O_CLOEXEC else 0) in
        case addFDWithResult k s notifID (st_HelperFD state) (word_of_int (st_ChildFD state))
               SECCOMP_ADDFD_FLAG_SETFD newFDFlags w of
          (Inl e, w) \<Rightarrow> (Some e, w) | (Inr _, w) \<Rightarrow> (None, w))"

definition handleDNSConnect ::
  "'w Supervisor \<Rightarrow> int \<Rightarrow> SocketState \<Rightarrow> DecodedSockaddr \<Rightarrow> goerr option \<times> 'w Supervisor" where
  "handleDNSConnect s childFD state destination =
     (if rt_DNSRoundTrip (su_targets s) = None then (Some (Errno EHOSTUNREACH), s)
      else (None,
        s\<lparr>su_registry := Insert (su_registry s)
            (state\<lparr>st_ChildFD := childFD, st_DNSManaged := True,
                   st_ConnectedHost := sa_Host destination, st_ConnectedPort := sa_Port destination,
                   st_OriginalHost := sa_Host destination, st_OriginalPort := sa_Port destination,
                   st_RedirectAddr := []\<rparr>)\<rparr>))"

definition handleDNSDisconnect :: "'w Supervisor \<Rightarrow> int \<Rightarrow> SocketState \<Rightarrow> 'w Supervisor" where
  "handleDNSDisconnect s childFD state =
     s\<lparr>su_registry := Insert (su_registry s)
         (state\<lparr>st_ChildFD := childFD, st_DNSManaged := False, st_ConnectedHost := [],
                st_ConnectedPort := 0, st_OriginalHost := [], st_OriginalPort := 0,
                st_RedirectAddr := []\<rparr>)\<rparr>"

text \<open>The TCP case: connect the helper's socket, then install it again in the process.\<close>

definition redirectTCP ::
  "'w unix_calls \<Rightarrow> nat \<Rightarrow> 'w Supervisor \<Rightarrow> int \<Rightarrow> 64 word \<Rightarrow> connectRequest \<Rightarrow> 'w \<Rightarrow>
   (goerr + int option) \<times> 'w Supervisor \<times> 'w" where
  "redirectTCP k n s pid reqID creq w =
     (case handleConnect k n s creq w of
        (Some e, s, w) \<Rightarrow> (Inl e, s, w)
      | (None, s, w) \<Rightarrow>
          (case LookupForPID (su_registry s) pid (cq_ChildFD creq) of
             None \<Rightarrow> (Inl (Errno EBADF), s, w)
           | Some updated \<Rightarrow>
               (case reinstallConnectedSocket k s reqID updated w of
                  (Some e, w) \<Rightarrow> (Inl e, s, w)
                | (None, w) \<Rightarrow> (Inr (Some 0), s, w))))"

definition redirectConnect ::
  "'w unix_calls \<Rightarrow> nat \<Rightarrow> 'w Supervisor \<Rightarrow> int \<Rightarrow> ScmpNotifReq \<Rightarrow> 'w \<Rightarrow>
   (goerr + int option) \<times> 'w Supervisor \<times> 'w" where
  "redirectConnect k n s pid req w =
     (let childFD = go_int (nq_Arg0 req) in
      case LookupForPID (su_registry s) pid childFD of
        None \<Rightarrow> (Inr None, s, w)
      | Some state \<Rightarrow>
          let addrPtr = nq_Arg1 req; addrLen = go_int (nq_Arg2 req) in
          if addrPtr = 0 \<or> addrLen \<le> 0 \<or> addrLen > 128 then (Inl (Errno EINVAL), s, w)
          else case readProcessMemory k pid addrPtr addrLen w of
            (Inl e, w) \<Rightarrow> (Inl e, s, w)
          | (Inr rawAddr, w) \<Rightarrow>
              (case DecodeSockaddr rawAddr of
                 Inl e \<Rightarrow> (Inl e, s, w)
               | Inr decoded \<Rightarrow>
                   if sa_Family decoded = AF_UNSPEC then
                     (if st_Kind state = KindUDP
                      then (Inr None, handleDNSDisconnect s childFD state, w)
                      else (Inr None, s, w))
                   else case st_Kind state of
                     KindTCP \<Rightarrow>
                       redirectTCP k n s pid (nq_ID req)
                         \<lparr>cq_ChildFD = childFD, cq_Destination = decoded\<rparr> w
                   | KindUDP \<Rightarrow>
                       if sa_Port decoded \<noteq> 53
                       then (case CloseForPID k (su_registry s) pid childFD w of
                               (reg, w) \<Rightarrow>
                                 (Inr None, releaseChildFD (s\<lparr>su_registry := reg\<rparr>) childFD, w))
                       else (case handleDNSConnect s childFD state decoded of
                               (Some e, s) \<Rightarrow> (Inl e, s, w) | (None, s) \<Rightarrow> (Inr (Some 0), s, w))
                   | KindUnknown \<Rightarrow> (Inr None, s, w)))"

definition emulateGetpeername ::
  "'w unix_calls \<Rightarrow> bool \<Rightarrow> 'w Supervisor \<Rightarrow> int \<Rightarrow> ScmpNotifReq \<Rightarrow> 'w \<Rightarrow>
   (goerr + int option) \<times> 'w" where
  "emulateGetpeername k little s pid req w =
     (let childFD = go_int (nq_Arg0 req) in
      if childFD < 0 then (Inl (Errno EBADF), w)
      else case LookupForPID (su_registry s) pid childFD of
             None \<Rightarrow> (Inr None, w)
           | Some state \<Rightarrow>
               if st_OriginalHost state = [] \<or> st_OriginalPort state \<le> 0
               then (Inl (Errno ENOTCONN), w)
               else case writeSockaddr k little pid (nq_Arg1 req) (nq_Arg2 req)
                      \<lparr>sa_Family = peernameFamily (st_OriginalHost state) (st_Family state),
                       sa_Host = st_OriginalHost state, sa_Port = st_OriginalPort state\<rparr> w of
                 (Some e, w) \<Rightarrow> (Inl e, w) | (None, w) \<Rightarrow> (Inr (Some 0), w))"

text \<open>Installing a duplicate in the process and recording it.\<close>

definition recordDuplicate ::
  "'w unix_calls \<Rightarrow> 'w Supervisor \<Rightarrow> int \<Rightarrow> int \<Rightarrow> (goerr + int) \<times> 'w \<Rightarrow>
   (goerr + int option) \<times> 'w Supervisor \<times> 'w" where
  "recordDuplicate k s pid oldFD added =
     (case added of
        (Inl e, w) \<Rightarrow> (Inl e, s, w)
      | (Inr childFD, w) \<Rightarrow>
          (case DupForPID k (su_registry s) pid oldFD childFD w of
             (Some e, reg, w) \<Rightarrow> (Inl e, s\<lparr>su_registry := reg\<rparr>, w)
           | (None, reg, w) \<Rightarrow> (Inr (Some childFD), s\<lparr>su_registry := reg\<rparr>, w)))"

definition dupToTarget ::
  "'w unix_calls \<Rightarrow> 'w Supervisor \<Rightarrow> int \<Rightarrow> 64 word \<Rightarrow> SocketState \<Rightarrow> int \<Rightarrow> int \<Rightarrow> int \<Rightarrow> 'w \<Rightarrow>
   (goerr + int option) \<times> 'w Supervisor \<times> 'w" where
  "dupToTarget k s pid reqID state oldFD newFD newFDFlags w =
     (if newFD < 0 then (Inl (Errno EBADF), s, w)
      else if oldFD = newFD then (Inr (Some oldFD), s, w)
      else recordDuplicate k s pid oldFD
             (addFDWithResult k s reqID (st_HelperFD state) (word_of_int newFD)
                SECCOMP_ADDFD_FLAG_SETFD newFDFlags w))"

definition dupAbove ::
  "'w unix_calls \<Rightarrow> 'w Supervisor \<Rightarrow> int \<Rightarrow> 64 word \<Rightarrow> SocketState \<Rightarrow> int \<Rightarrow> int \<Rightarrow> int \<Rightarrow> 'w \<Rightarrow>
   (goerr + int option) \<times> 'w Supervisor \<times> 'w" where
  "dupAbove k s pid reqID state oldFD minFD newFDFlags w =
     (let minFD = minDupFDForState state minFD;
          minFD = (if minFD \<le> oldFD then oldFD + 1 else minFD) in
      recordDuplicate k s pid oldFD
        (addFDAtOrAbove k s reqID (st_HelperFD state) minFD newFDFlags w))"

definition duplicateSocket ::
  "'w unix_calls \<Rightarrow> arch \<Rightarrow> 'w Supervisor \<Rightarrow> int \<Rightarrow> ScmpNotifReq \<Rightarrow> 'w \<Rightarrow>
   (goerr + int option) \<times> 'w Supervisor \<times> 'w" where
  "duplicateSocket k a s pid req w =
     (let oldFD = go_int (nq_Arg0 req); nr = nq_Syscall req in
      if oldFD < 0 then (Inl (Errno EBADF), s, w)
      else case LookupForPID (su_registry s) pid oldFD of
        None \<Rightarrow> (Inr None, s, w)
      | Some state \<Rightarrow>
          if nr = SYS_DUP a then dupAbove k s pid (nq_ID req) state oldFD 0 0 w
          else if nr = SYS_DUP3 a then
            dupToTarget k s pid (nq_ID req) state oldFD (go_int (nq_Arg1 req))
              (if go_int (nq_Arg2 req) AND O_CLOEXEC \<noteq> 0 then O_CLOEXEC else 0) w
          else if nr = SYS_FCNTL a then
            (if go_int (nq_Arg1 req) = F_DUPFD
             then dupAbove k s pid (nq_ID req) state oldFD (go_int (nq_Arg2 req)) 0 w
             else if go_int (nq_Arg1 req) = F_DUPFD_CLOEXEC
             then dupAbove k s pid (nq_ID req) state oldFD (go_int (nq_Arg2 req)) O_CLOEXEC w
             else (Inr None, s, w))
          else if optionalDup2Syscall a \<ge> 0 \<and> nr = optionalDup2Syscall a
          then dupToTarget k s pid (nq_ID req) state oldFD (go_int (nq_Arg1 req)) 0 w
          else (Inr None, s, w))"

end
