(* ===== verification/Supervisor_Inv.thy ===== *)
theory Supervisor_Inv
  imports Supervisor
begin

section \<open>Ownership of helper descriptors by the supervisor\<close>

text \<open>
  Frame lemmas for the supervisor's operations and the invariant that every operation keeps:
  each managed socket owns exactly one open descriptor of the helper, and no descriptor leaks on
  any path, also not when the kernel refuses a call halfway.
\<close>

subsection \<open>Frame\<close>

definition call_frame :: "'w unix_calls \<Rightarrow> ('w \<Rightarrow> 'o) \<Rightarrow> bool" where
  "call_frame k obs \<longleftrightarrow> mem_frame k obs \<and>
     (\<forall>fd w. obs (snd (u_soerror k fd w)) = obs w) \<and>
     (\<forall>fd t w. obs (snd (u_poll k fd t w)) = obs w) \<and>
     (\<forall>w. obs (snd (u_now k w)) = obs w) \<and>
     (\<forall>t w. obs (u_sleep k t w) = obs w) \<and>
     (\<forall>fd w. obs (snd (u_getsockname k fd w)) = obs w) \<and>
     (\<forall>n rid src new fl nfl w. obs (snd (u_addfd k n rid src new fl nfl w)) = obs w)"

definition target_frame :: "'w RuntimeTargets \<Rightarrow> ('w \<Rightarrow> 'o) \<Rightarrow> bool" where
  "target_frame t obs \<longleftrightarrow>
     (\<forall>f. rt_RecordRawTCPOrigin t = Some f \<longrightarrow> (\<forall>a h p w. obs (f a h p w) = obs w)) \<and>
     (\<forall>f. rt_DNSRoundTrip t = Some f \<longrightarrow> (\<forall>n h p d w. obs (snd (f n h p d w)) = obs w))"

lemma fd_laws_frame: "fd_laws k opened \<Longrightarrow> call_frame k opened"
  by (simp add: fd_laws_def call_frame_def mem_frame_def)

lemma fd_laws_connect:
  assumes "fd_laws k opened" and "u_connect k fd sa w = (r, w')"
  shows "opened w' = opened w"
proof -
  have "opened (snd (u_connect k fd sa w)) = opened w"
    using assms(1) by (simp add: fd_laws_def)
  then show ?thesis using assms(2) by simp
qed

lemma call_frame_mem: "call_frame k obs \<Longrightarrow> mem_frame k obs"
  by (simp add: call_frame_def)

lemma call_frame_dests:
  assumes "call_frame k obs"
  shows "u_soerror k fd w = (r, w') \<Longrightarrow> obs w' = obs w"
    and "u_poll k fd t w = (r, w') \<Longrightarrow> obs w' = obs w"
    and "u_now k w = (i, w') \<Longrightarrow> obs w' = obs w"
    and "u_getsockname k fd w = (sa, w') \<Longrightarrow> obs w' = obs w"
    and "u_addfd k n rid src new fl nfl w = (r, w') \<Longrightarrow> obs w' = obs w"
proof -
  have eqs: "obs (snd (u_soerror k fd w)) = obs w" "obs (snd (u_poll k fd t w)) = obs w"
    "obs (snd (u_now k w)) = obs w" "obs (snd (u_getsockname k fd w)) = obs w"
    "obs (snd (u_addfd k n rid src new fl nfl w)) = obs w"
    using assms by (simp_all add: call_frame_def)
  show "u_soerror k fd w = (r, w') \<Longrightarrow> obs w' = obs w" using eqs(1) by simp
  show "u_poll k fd t w = (r, w') \<Longrightarrow> obs w' = obs w" using eqs(2) by simp
  show "u_now k w = (i, w') \<Longrightarrow> obs w' = obs w" using eqs(3) by simp
  show "u_getsockname k fd w = (sa, w') \<Longrightarrow> obs w' = obs w" using eqs(4) by simp
  show "u_addfd k n rid src new fl nfl w = (r, w') \<Longrightarrow> obs w' = obs w" using eqs(5) by simp
qed

lemma call_frame_sleep: "call_frame k obs \<Longrightarrow> obs (u_sleep k t w) = obs w"
  by (simp add: call_frame_def)

lemma connectWaitLoop_keeps:
  assumes "call_frame k obs"
  shows "connectWaitLoop k n fd deadline w = (r, w') \<Longrightarrow> obs w' = obs w"
proof (induction n arbitrary: w)
  case (Suc n)
  then show ?case
    by (auto simp: Let_def split: prod.splits sum.splits if_splits
        dest!: call_frame_dests[OF assms] Suc.IH)
qed simp

lemma waitForConnectComplete_keeps:
  assumes "call_frame k obs"
  shows "waitForConnectComplete k n fd timeout w = (r, w') \<Longrightarrow> obs w' = obs w"
  by (auto simp: waitForConnectComplete_def Let_def split: prod.splits if_splits
      dest!: call_frame_dests[OF assms] connectWaitLoop_keeps[OF assms])

lemma getsocknameString_keeps:
  assumes "call_frame k obs"
  shows "getsocknameString k fd w = (r, w') \<Longrightarrow> obs w' = obs w"
  by (auto simp: getsocknameString_def split: prod.splits sum.splits Sockaddr.splits
      dest!: call_frame_dests[OF assms])

lemma getsocknameRetry_keeps:
  assumes "call_frame k obs"
  shows "getsocknameRetry k n fd deadline w = (r, w') \<Longrightarrow> obs w' = obs w"
proof (induction n arbitrary: w)
  case (Suc n)
  then show ?case
    by (auto split: prod.splits if_splits
        dest!: getsocknameString_keeps[OF assms] call_frame_dests[OF assms] Suc.IH
        simp: call_frame_sleep[OF assms])
qed simp

lemma recordOrigin_keeps:
  assumes "call_frame k obs" and "target_frame (su_targets s) obs"
  shows "obs (recordOrigin k n s fd dest w) = obs w"
proof -
  have "getsocknameStringWithRetry k n fd t w = (r, w') \<Longrightarrow> obs w' = obs w" for t r w'
    by (auto simp: getsocknameStringWithRetry_def split: prod.splits if_splits
        dest!: getsocknameString_keeps[OF assms(1)] call_frame_dests[OF assms(1)]
          getsocknameRetry_keeps[OF assms(1)])
  then show ?thesis
    using assms(2)
    by (auto simp: recordOrigin_def target_frame_def split: option.splits prod.splits sum.splits)
qed

lemma addFDWithResult_keeps:
  assumes "call_frame k obs"
  shows "addFDWithResult k s rid src new fl nfl w = (r, w') \<Longrightarrow> obs w' = obs w"
  by (auto simp: addFDWithResult_def split: if_splits prod.splits sum.splits
      dest!: call_frame_dests[OF assms])

lemma addFDScan_keeps:
  assumes "call_frame k obs"
  shows "addFDScan k s rid src nfl n fd w = (r, w') \<Longrightarrow> obs w' = obs w"
proof (induction n arbitrary: fd w)
  case (Suc n)
  then show ?case
    by (auto split: prod.splits sum.splits if_splits
        dest!: addFDWithResult_keeps[OF assms] Suc.IH)
qed simp

lemma addFDAtOrAbove_keeps:
  assumes "call_frame k obs"
  shows "addFDAtOrAbove k s rid src m nfl w = (r, w') \<Longrightarrow> obs w' = obs w"
  by (auto simp: addFDAtOrAbove_def Let_def dest: addFDScan_keeps[OF assms])

lemma reinstallConnectedSocket_keeps:
  assumes "call_frame k obs"
  shows "reinstallConnectedSocket k s rid st w = (r, w') \<Longrightarrow> obs w' = obs w"
  by (auto simp: reinstallConnectedSocket_def Let_def split: if_splits prod.splits sum.splits
      dest!: addFDWithResult_keeps[OF assms])

lemma emulateGetpeername_keeps:
  assumes "call_frame k obs"
  shows "emulateGetpeername k little s pid req w = (r, w') \<Longrightarrow> obs w' = obs w"
  by (auto simp: emulateGetpeername_def Let_def split: if_splits prod.splits option.splits
      dest!: mem_keeps[OF call_frame_mem[OF assms]])

subsection \<open>Ownership\<close>

definition owned :: "int set \<Rightarrow> ('w \<Rightarrow> int set) \<Rightarrow> 'w Supervisor \<Rightarrow> 'w \<Rightarrow> bool" where
  "owned base opened s w \<longleftrightarrow>
     helper_inv base (su_registry s) (opened w) \<and> target_frame (su_targets s) opened"

lemma owned_world: "owned base opened s w \<Longrightarrow> opened w' = opened w \<Longrightarrow> owned base opened s w'"
  by (simp add: owned_def)

lemma owned_fields [simp]:
  "owned base opened (s\<lparr>su_reservedChildFDs := x\<rparr>) w = owned base opened s w"
  "owned base opened (s\<lparr>su_nextTCPChildFD := y\<rparr>) w = owned base opened s w"
  "owned base opened (s\<lparr>su_nextUDPChildFD := y\<rparr>) w = owned base opened s w"
  by (simp_all add: owned_def)

lemma owned_release [simp]: "owned base opened (releaseChildFD s fd) w = owned base opened s w"
  by (simp add: releaseChildFD_def)

lemma LookupForPID_norm: "LookupForPID r (normalizeRegistryPID pid) fd = LookupForPID r pid fd"
  by (simp add: LookupForPID_def)

lemma owned_update:
  assumes "owned base opened s w" and "LookupForPID (su_registry s) pid fd = Some st"
    and "st_ChildPID st' = st_ChildPID st" and "st_ChildFD st' = fd"
    and "st_HelperFD st' = st_HelperFD st"
  shows "owned base opened (s\<lparr>su_registry := Insert (su_registry s) st'\<rparr>) w"
  using assms helper_inv_update[of base "su_registry s" "opened w" "normalizeRegistryPID pid" fd st st']
  by (simp add: owned_def LookupForPID_norm)

lemma owned_lookup:
  assumes "owned base opened s w" and "LookupForPID (su_registry s) pid fd = Some st"
  shows "st_ChildFD st = fd" and "0 \<le> st_ChildPID st" and "3 \<le> st_HelperFD st"
proof -
  have inv: "helper_inv base (su_registry s) (opened w)"
    using assms(1) by (simp add: owned_def)
  note e = fds.lookup_entry[OF helper_inv_wf[OF inv], of "normalizeRegistryPID pid" fd st]
  show "st_ChildFD st = fd" and "0 \<le> st_ChildPID st"
    using e assms(2) by (simp_all add: LookupForPID_norm)
  show "3 \<le> st_HelperFD st"
    using helper_inv_entry(1)[OF inv] e(1) assms(2) by (simp add: LookupForPID_norm)
qed

lemma owned_close:
  assumes "fd_laws k opened" and "owned base opened s w"
    and "CloseForPID k (su_registry s) pid fd w = (reg, w')"
  shows "owned base opened (s\<lparr>su_registry := reg\<rparr>) w'"
  using CloseForPID_inv[OF assms(1) _ assms(3)] assms(2) by (simp add: owned_def)

lemma owned_dup:
  assumes "fd_laws k opened" and "owned base opened s w"
    and "DupForPID k (su_registry s) pid old new w = (e, reg, w')"
  shows "owned base opened (s\<lparr>su_registry := reg\<rparr>) w'"
  using DupForPID_inv[OF assms(1) _ assms(3)] assms(2) by (simp add: owned_def)

text \<open>
  A descriptor the helper just opened counts as its own until it is stored: it joins the base.
\<close>

lemma helper_inv_reserve:
  "helper_inv base r fds \<Longrightarrow> h \<notin> fds \<Longrightarrow> helper_inv (insert h base) r (insert h fds)"
  by (auto simp: helper_inv_def)

lemma helper_inv_unreserve:
  "helper_inv (insert h base) r fds \<Longrightarrow> h \<notin> base \<Longrightarrow> {0, 1, 2} \<subseteq> base \<Longrightarrow>
   helper_inv base r (fds - {h}) \<and> h \<in> fds"
  by (auto simp: helper_inv_def)

lemma removeForPID_free:
  assumes "registry_wf r" and "0 \<le> pid"
  shows "map_of (removeForPID r pid fd) (pid, fd) = None"
proof (cases "map_of r (pid, fd)")
  case None
  then show ?thesis
    using assms by (simp add: fds.discard_states split: option.split)
next
  case (Some st)
  then have "LookupForPID r pid fd = Some st" "st_ChildPID st = pid"
    using assms fds.lookup_own registry_wf_entry(1)[OF assms(1) Some] by auto
  then show ?thesis using assms by (simp add: fds.discard_states)
qed

lemma owned_socket:
  assumes laws: "fd_laws k opened" and own: "owned base opened s w"
    and sock: "u_socket k f t p w = (r, w')"
  shows "case r of Inl e \<Rightarrow> owned base opened s w'
    | Inr h \<Rightarrow> h \<notin> base \<and> 0 \<le> h \<and> owned (insert h base) opened s w' \<and> owned base opened s (u_close k h w')"
proof -
  have "case u_socket k f t p w of (Inl e, w') \<Rightarrow> opened w' = opened w
      | (Inr fd, w') \<Rightarrow> 0 \<le> fd \<and> fd \<notin> opened w \<and> opened w' = insert fd (opened w)"
    using laws by (simp add: fd_laws_def)
  with sock own show ?thesis
    using helper_inv_reserve[of base "su_registry s" "opened w"]
    by (auto simp: owned_def fd_laws_close[OF laws] helper_inv_def split: sum.splits)
qed

text \<open>Storing a socket with the reserved descriptor under the key that was just cleared.\<close>

lemma owned_store:
  assumes laws: "fd_laws k opened" and own: "owned (insert h base) opened s w"
    and h: "h \<notin> base" "{0, 1, 2} \<subseteq> base" "0 \<le> h"
    and close: "CloseForPID k (su_registry s) pid fd w = (reg, w')"
    and st: "st_HelperFD st = h" "st_ChildFD st = fd" "0 \<le> fd" "0 \<le> pid"
  shows "owned base opened (s\<lparr>su_registry := InsertForPID reg pid st\<rparr>) w'"
proof -
  have inv: "helper_inv (insert h base) reg (opened w')" and tf: "target_frame (su_targets s) opened"
    using owned_close[OF laws own close] by (simp_all add: owned_def)
  from helper_inv_unreserve[OF inv h(1,2)]
  have inv': "helper_inv base reg (opened w' - {h})" and ins: "insert h (opened w') = opened w'"
    by auto
  have wf: "registry_wf (su_registry s)"
    using own by (simp add: owned_def helper_inv_def)
  have "reg = removeForPID (su_registry s) pid fd"
    using close by (simp add: CloseForPID_def)
  then have "map_of reg (pid, fd) = None"
    using removeForPID_free[OF wf st(4)] by simp
  with helper_inv_new[OF inv', of "st\<lparr>st_ChildPID := pid\<rparr>"] st h(3)
  have "helper_inv base (InsertForPID reg pid st) (opened w')"
    by (simp add: InsertForPID_def Let_def ins)
  with tf show ?thesis by (simp add: owned_def)
qed

subsection \<open>Every operation keeps the ownership\<close>

lemma owned_base: "owned base opened s w \<Longrightarrow> {0, 1, 2} \<subseteq> base"
  by (simp add: owned_def helper_inv_def)

text \<open>
  \<open>owns\<close> is the invariant as a postcondition; a call that has not returned yet, because a loop
  ran out of fuel, promises nothing.
\<close>

definition owns ::
  "int set \<Rightarrow> ('w \<Rightarrow> int set) \<Rightarrow> (goerr + 'a) \<times> 'w Supervisor \<times> 'w \<Rightarrow> bool" where
  "owns base opened res \<longleftrightarrow>
     (case res of (r, s, w) \<Rightarrow> r \<noteq> Inl Out_Of_Fuel \<longrightarrow> owned base opened s w)"

lemma owns_simps [simp]:
  "owns base opened (r, s, w) \<longleftrightarrow> (r \<noteq> Inl Out_Of_Fuel \<longrightarrow> owned base opened s w)"
  by (simp add: owns_def)

lemma handleSocket_owned:
  assumes laws: "fd_laws k opened" and own: "owned base opened s w"
    and run: "handleSocket k s req w = (e, s', w')"
  shows "owned base opened s' w'"
proof (cases "sq_ChildFD req < 0")
  case True
  with run own show ?thesis by (simp add: handleSocket_def)
next
  case False
  obtain reg w1 where close: "CloseForPID k (su_registry s) 0 (sq_ChildFD req) w = (reg, w1)"
    by fastforce
  note c = owned_close[OF laws own close]
  obtain r w2 where sock: "u_socket k (sq_Family req) (sq_SocketType req) (sq_Protocol req) w1 = (r, w2)"
    by fastforce
  note o2 = owned_socket[OF laws c sock]
  show ?thesis
  proof (cases r)
    case (Inl errno)
    with run False close sock o2 c show ?thesis
      by (auto simp: handleSocket_def Close_def Let_def split: if_splits)
  next
    case (Inr h)
    have reg: "CloseForPID k reg 0 (sq_ChildFD req) w2 = (removeForPID reg 0 (sq_ChildFD req), w3)"
      if "w3 = snd (CloseForPID k reg 0 (sq_ChildFD req) w2)" for w3
      by (simp add: that CloseForPID_def)
    from Inr o2 have h: "h \<notin> base" "0 \<le> h" "owned (insert h base) opened (s\<lparr>su_registry := reg\<rparr>) w2"
      by auto
    have wf: "registry_wf (su_registry s)" using own by (simp add: owned_def helper_inv_def)
    have r: "reg = removeForPID (su_registry s) 0 (sq_ChildFD req)"
      using close by (simp add: CloseForPID_def)
    let ?st = "new_state KindTCP (sq_ChildFD req) h (sq_Family req) (sq_SocketType req) (sq_Protocol req)"
    have inv: "helper_inv base reg (opened w2 - {h}) \<and> h \<in> opened w2"
      using helper_inv_unreserve[of h base reg "opened w2"] h owned_base[OF own] by (simp add: owned_def)
    then have "helper_inv base (gm_put (0, sq_ChildFD req) ?st reg) (opened w2)"
      using helper_inv_new[of base reg "opened w2 - {h}" ?st] h False
        removeForPID_free[OF wf, of 0 "sq_ChildFD req"] r
      by (simp add: new_state_def zero_state_def insert_absorb)
    moreover have "Insert reg ?st = gm_put (0, sq_ChildFD req) ?st reg"
      using False by (simp add: Insert_def InsertForPID_def new_state_def zero_state_def Let_def)
    ultimately have "owned base opened (s\<lparr>su_registry := Insert reg ?st\<rparr>) w2"
      using own by (simp add: owned_def)
    with run False close sock Inr c show ?thesis
      by (auto simp: handleSocket_def Close_def Let_def split: if_splits)
  qed
qed

lemma handleConnect_owned:
  assumes laws: "fd_laws k opened" and own: "owned base opened s w"
    and run: "handleConnect k n s req w = (e, s', w')"
  shows "owned base opened s' w'"
proof -
  note fr = fd_laws_frame[OF laws]
  have tf: "target_frame (su_targets s) opened" using own by (simp add: owned_def)
  have keep: "owned base opened s v" if "opened v = opened w" for v
    using own that by (rule owned_world)
  show ?thesis
  proof (cases "Lookup (su_registry s) (cq_ChildFD req)")
    case None
    with run own show ?thesis by (auto simp: handleConnect_def split: if_splits)
  next
    case (Some st)
    have upd: "owned base opened (s\<lparr>su_registry := Insert (su_registry s)
        (st\<lparr>st_OriginalHost := h, st_OriginalPort := p, st_RedirectAddr := a\<rparr>)\<rparr>) v"
      if "opened v = opened w" for h p a v
      using owned_update[OF keep[OF that], of 0 "cq_ChildFD req" st] Some
        owned_lookup(1)[OF own, of 0 "cq_ChildFD req" st]
      by (simp add: Lookup_def)
    have rec: "opened (recordOrigin k n (s\<lparr>su_registry := reg\<rparr>) fd d v) = opened v" for reg fd d v
      by (rule recordOrigin_keeps[OF fr]) (simp add: tf)
    from run Some keep upd rec show ?thesis
      by (auto simp: handleConnect_def Let_def
          split: if_splits sum.splits prod.splits option.splits
          dest!: fd_laws_connect[OF laws] waitForConnectComplete_keeps[OF fr])
  qed
qed

lemma handleClose_owned:
  assumes "fd_laws k opened" and "owned base opened s w"
    and "handleClose k s fd w = (e, s', w')"
  shows "owned base opened s' w'"
  using assms(3) assms(2) owned_close[OF assms(1,2)]
  by (auto simp: handleClose_def Close_def split: if_splits prod.splits)

lemma handleDupLike_owned:
  assumes "fd_laws k opened" and "owned base opened s w"
    and "handleDupLike k a s nr req w = (e, s', w')"
  shows "owned base opened s' w'"
  using assms(3) assms(2) owned_dup[OF assms(1,2)]
  by (auto simp: handleDupLike_def Dup_def Let_def split: if_splits prod.splits option.splits)

lemma reserveChildFD_keeps:
  assumes "reserveChildFD s kind m = (fd, s')"
  shows "su_registry s' = su_registry s" and "su_targets s' = su_targets s"
    and "su_notifyFD s' = su_notifyFD s"
  using assms by (auto simp: reserveChildFD_def Let_def split: option.splits if_splits)

lemma owned_reserve: "reserveChildFD s kind m = (fd, s') \<Longrightarrow> owned base opened s' w = owned base opened s w"
  by (simp add: owned_def reserveChildFD_keeps)

lemma injectLoop_owned:
  assumes laws: "fd_laws k opened"
  shows "injectLoop k n s rid kind h w = (r, s', w') \<Longrightarrow>
    owned (insert h base) opened s w \<Longrightarrow> h \<notin> base \<Longrightarrow> {0, 1, 2} \<subseteq> base \<Longrightarrow>
    (case r of Inr fd \<Rightarrow> owned (insert h base) opened s' w' \<and> 0 \<le> fd
     | Inl e \<Rightarrow> e \<noteq> Out_Of_Fuel \<longrightarrow> owned base opened s' w')"
proof (induction n arbitrary: s w)
  case (Suc n)
  note add = addFDWithResult_keeps[OF fd_laws_frame[OF laws]]
  obtain fd s1 where res: "reserveChildFD s kind (minChildFDForSocketKind kind) = (fd, s1)" by fastforce
  obtain a w1 where addr: "addFDWithResult k s1 rid h (word_of_int fd) 1 0 w = (a, w1)" by fastforce
  have o1: "owned (insert h base) opened s1 w" using Suc.prems(2) owned_reserve[OF res] by simp
  then have o2: "owned (insert h base) opened s1 w1"
    using add[OF addr] by (auto intro: owned_world)
  have closed: "owned base opened s2 (u_close k h v)"
    if "owned (insert h base) opened s2 v" for s2 v
    using that helper_inv_unreserve[of h base "su_registry s2" "opened v"] Suc.prems(3,4)
    by (simp add: owned_def fd_laws_close[OF laws])
  show ?case
  proof (cases "fd < 0")
    case True
    with Suc.prems(1) res closed[OF o1] show ?thesis by auto
  next
    case False
    show ?thesis
    proof (cases a)
      case (Inr c)
      with Suc.prems(1) res addr False o2 show ?thesis by auto
    next
      case (Inl e)
      have o3: "owned (insert h base) opened (releaseChildFD s1 fd) w1" using o2 by simp
      show ?thesis
      proof (cases "e \<noteq> Errno EBUSY \<and> e \<noteq> Errno EEXIST")
        case True
        with Suc.prems(1) res addr False Inl closed[OF o3] show ?thesis
          by (auto simp: Let_def)
      next
        case again: False
        with Suc.prems(1) res addr False Inl
        have "injectLoop k n (releaseChildFD s1 fd) rid kind h w1 = (r, s', w')"
          by (auto simp: Let_def)
        from Suc.IH[OF this o3 Suc.prems(3,4)] show ?thesis .
      qed
    qed
  qed
qed auto

lemma injectSocket_owns:
  assumes laws: "fd_laws k opened" and own: "owned base opened s w"
  shows "owns base opened (injectSocket k n s req w)"
proof -
  let ?f = "go_int (nq_Arg0 req)" and ?t = "go_int (nq_Arg1 req)" and ?p = "go_int (nq_Arg2 req)"
  obtain r w1 where sock: "u_socket k ?f ?t ?p w = (r, w1)" by fastforce
  note o1 = owned_socket[OF laws own sock]
  show ?thesis
  proof (cases "classifyManagedSocket (su_targets s) ?f ?t ?p")
    case (Inl e)
    with own show ?thesis by (simp add: injectSocket_def)
  next
    case (Inr c)
    show ?thesis
    proof (cases c)
      case None
      with Inr own show ?thesis by (simp add: injectSocket_def)
    next
      case (Some kind)
      show ?thesis
      proof (cases r)
        case (Inl e)
        with Inr Some sock o1 show ?thesis by (simp add: injectSocket_def)
      next
        case h: (Inr h)
        obtain l s2 w2 where loop: "injectLoop k n s (nq_ID req) kind h w1 = (l, s2, w2)"
          by (metis prod_cases3)
        from h o1 have hb: "h \<notin> base" "0 \<le> h" "owned (insert h base) opened s w1" by auto
        note l = injectLoop_owned[OF laws loop hb(3,1) owned_base[OF own]]
        show ?thesis
        proof (cases l)
          case (Inl e)
          with Inr Some sock h loop l show ?thesis by (simp add: injectSocket_def)
        next
          case fd: (Inr fd)
          let ?pid = "notificationPID 0 req"
          have "0 \<le> ?pid" by (simp add: notificationPID_def)
          with l fd hb owned_base[OF own]
          have "owned base opened (s2\<lparr>su_registry := InsertForPID reg ?pid
              ((new_state kind fd h ?f ?t ?p)\<lparr>st_ChildPID := ?pid\<rparr>)\<rparr>) w3"
            if "CloseForPID k (su_registry s2) ?pid fd w2 = (reg, w3)" for reg w3
            using owned_store[OF laws _ _ _ _ that, of h base] by (simp add: new_state_def)
          with Inr Some sock h loop fd show ?thesis
            by (simp add: injectSocket_def Let_def split: prod.split)
        qed
      qed
    qed
  qed
qed

lemma recordDuplicate_owns:
  assumes "fd_laws k opened" and "owned base opened s w" and "opened w1 = opened w"
  shows "owns base opened (recordDuplicate k s pid old (added, w1))"
  using owned_dup[OF assms(1) owned_world[OF assms(2,3)]] owned_world[OF assms(2,3)]
  by (simp add: recordDuplicate_def split: sum.split prod.split option.split)

lemma duplicateSocket_owns:
  assumes laws: "fd_laws k opened" and own: "owned base opened s w"
  shows "owns base opened (duplicateSocket k a s pid req w)"
proof -
  note fr = fd_laws_frame[OF laws]
  note rec = recordDuplicate_owns[OF laws own]
  have target: "owns base opened (dupToTarget k s pid rid st old new fl w)" for rid st old new fl
    using own rec addFDWithResult_keeps[OF fr]
    by (cases "addFDWithResult k s rid (st_HelperFD st) (word_of_int new) 1 fl w")
      (simp add: dupToTarget_def)
  have above: "owns base opened (dupAbove k s pid rid st old m fl w)" for rid st old m fl
    unfolding dupAbove_def Let_def
    using rec addFDAtOrAbove_keeps[OF fr] by (metis surj_pair)
  show ?thesis
    using own target above by (simp add: duplicateSocket_def Let_def split: option.split)
qed

lemma redirectTCP_owns:
  assumes laws: "fd_laws k opened" and own: "owned base opened s w"
  shows "owns base opened (redirectTCP k n s pid rid creq w)"
  using handleConnect_owned[OF assms, of n creq]
  by (auto simp: redirectTCP_def split: prod.splits option.splits
      dest!: reinstallConnectedSocket_keeps[OF fd_laws_frame[OF laws]] intro: owned_world)

lemma redirectConnect_owns:
  assumes laws: "fd_laws k opened" and own: "owned base opened s w"
  shows "owns base opened (redirectConnect k n s pid req w)"
proof -
  note fr = fd_laws_frame[OF laws]
  let ?fd = "go_int (nq_Arg0 req)"
  show ?thesis
  proof (cases "LookupForPID (su_registry s) pid ?fd")
    case None
    with own show ?thesis by (simp add: redirectConnect_def)
  next
    case (Some st)
    obtain r w1 where rd: "readProcessMemory k pid (nq_Arg1 req) (go_int (nq_Arg2 req)) w = (r, w1)"
      by fastforce
    have o1: "owned base opened s w1"
      using own mem_keeps(1)[OF call_frame_mem[OF fr] rd] by (rule owned_world)
    note st = owned_lookup[OF o1 Some]
    have disc: "owned base opened (handleDNSDisconnect s ?fd st) w1"
      unfolding handleDNSDisconnect_def using Some o1 st(1) by (intro owned_update) auto
    have conn: "owned base opened s2 w1" if "handleDNSConnect s ?fd st d = (e, s2)" for d e s2
      using that o1 owned_update[OF o1 Some] st(1)
      by (auto simp: handleDNSConnect_def split: if_splits)
    have close: "owned base opened (s\<lparr>su_registry := reg\<rparr>) w2"
      if "CloseForPID k (su_registry s) pid ?fd w1 = (reg, w2)" for reg w2
      using owned_close[OF laws o1 that] .
    show ?thesis
      using Some rd own o1 disc redirectTCP_owns[OF laws o1] conn close
      by (simp add: redirectConnect_def Let_def
          split: sum.split SocketKind.split prod.split option.split)
  qed
qed

end
