(* ===== verification/Dns_Emulation.thy ===== *)
theory Dns_Emulation
  imports Supervisor_Inv
begin

section \<open>DNS emulation: seccompnotify/dns\_runtime\_linux.go\<close>

text \<open>
  Sends on managed UDP sockets to port 53 become round trips through the helper; the replies wait
  in the socket's state until the process receives, reads or polls them. Each emulated call
  returns an error, \<open>None\<close> when the kernel shall continue the call, or its result.
\<close>

subsection \<open>Round trips\<close>

definition lookupManagedUDPSocket :: "'w Supervisor \<Rightarrow> int \<Rightarrow> ScmpNotifReq \<Rightarrow> SocketState option" where
  "lookupManagedUDPSocket s pid req =
     (let childFD = go_int (nq_Arg0 req) in
      if childFD < 0 then None
      else case LookupForPID (su_registry s) pid childFD of
             None \<Rightarrow> None
           | Some state \<Rightarrow> if st_Kind state \<noteq> KindUDP then None else Some state)"

text \<open>
  A Go error is an errno or has no errno in its chain; the only errno whose text contains
  \<^verbatim>\<open>denied\<close> is \<^verbatim>\<open>EACCES\<close>, and none contains \<^verbatim>\<open>not registered\<close>.
\<close>

fun dnsErrno :: "goerr \<Rightarrow> int option" where
  "dnsErrno (Errno e) = (if e \<noteq> 0 then Some e else None)"
| "dnsErrno (GoErr t) =
     (if contains_str (to_lower t) ''denied'' then Some EACCES
      else if contains_str (to_lower t) ''not registered'' then Some EHOSTUNREACH
      else None)"
| "dnsErrno _ = None"

definition dnsRoundTrip ::
  "'w Supervisor \<Rightarrow> DecodedSockaddr \<Rightarrow> byte list \<Rightarrow> 'w \<Rightarrow> (goerr + byte list) \<times> 'w" where
  "dnsRoundTrip s destination payload w =
     (case rt_DNSRoundTrip (su_targets s) of
        None \<Rightarrow> (Inl (Errno EHOSTUNREACH), w)
      | Some round_trip \<Rightarrow>
          if sa_Port destination \<noteq> 53 then (Inl (Errno EPERM), w)
          else case round_trip ''udp'' (sa_Host destination) (sa_Port destination) payload w of
                 (Inl e, w) \<Rightarrow>
                   (case dnsErrno e of Some errno \<Rightarrow> (Inl (Errno errno), w) | None \<Rightarrow> (Inl e, w))
               | (Inr reply, w) \<Rightarrow>
                   if length reply > 65536 then (Inl (Errno EMSGSIZE), w) else (Inr reply, w))"

definition resolveDNSDestination ::
  "'w unix_calls \<Rightarrow> int \<Rightarrow> SocketState \<Rightarrow> 64 word \<Rightarrow> int \<Rightarrow> 'w \<Rightarrow>
   (goerr + DecodedSockaddr \<times> bool) \<times> 'w" where
  "resolveDNSDestination k pid state addrPtr addrLen w =
     (if addrPtr \<noteq> 0 then
        (if addrLen \<le> 0 \<or> addrLen > 128 then (Inl (Errno EINVAL), w)
         else case readProcessMemoryExact k pid addrPtr addrLen w of
                (Inl e, w) \<Rightarrow> (Inl e, w)
              | (Inr rawAddr, w) \<Rightarrow>
                  (case DecodeSockaddr rawAddr of
                     Inl e \<Rightarrow> (Inl e, w)
                   | Inr decoded \<Rightarrow> (Inr (decoded, sa_Port decoded = 53), w)))
      else if trim_space (st_ConnectedHost state) = [] \<or> st_ConnectedPort state \<le> 0
      then (Inl (Errno EDESTADDRREQ), w)
      else
        let dest = \<lparr>sa_Family = peernameFamily (st_ConnectedHost state) (st_Family state),
                    sa_Host = st_ConnectedHost state, sa_Port = st_ConnectedPort state\<rparr> in
        (Inr (dest, st_ConnectedPort state = 53), w))"

definition takePendingDNSResponse :: "SocketState \<Rightarrow> goerr + dnsPacketResponse" where
  "takePendingDNSResponse state =
     (case st_PendingDNSResponses state of [] \<Rightarrow> Inl (Errno EAGAIN) | r # _ \<Rightarrow> Inr r)"

text \<open>The reply joins the end of the queue.\<close>

definition enqueueReply :: "SocketState \<Rightarrow> byte list \<Rightarrow> DecodedSockaddr \<Rightarrow> SocketState" where
  "enqueueReply state reply dest =
     state\<lparr>st_DNSManaged := True,
       st_PendingDNSResponses :=
         st_PendingDNSResponses state @ [\<lparr>pr_Payload = reply, pr_Source = dest\<rparr>]\<rparr>"

definition dropReplies :: "nat \<Rightarrow> SocketState \<Rightarrow> SocketState" where
  "dropReplies n state =
     state\<lparr>st_PendingDNSResponses := drop n (st_PendingDNSResponses state)\<rparr>"

definition storeState :: "'w Supervisor \<Rightarrow> SocketState \<Rightarrow> 'w Supervisor" where
  "storeState s state = s\<lparr>su_registry := Insert (su_registry s) state\<rparr>"

type_synonym 'w emulated = "(goerr + int option) \<times> 'w Supervisor \<times> 'w"

subsection \<open>Sending\<close>

text \<open>The common tail of the sending calls, from the payload on.\<close>

definition sendDNS ::
  "'w unix_calls \<Rightarrow> 'w Supervisor \<Rightarrow> int \<Rightarrow> SocketState \<Rightarrow> byte list \<Rightarrow> 64 word \<Rightarrow> int \<Rightarrow> 'w \<Rightarrow> 'w emulated" where
  "sendDNS k s pid state payload addrPtr addrLen w =
     (case resolveDNSDestination k pid state addrPtr addrLen w of
        (Inl e, w) \<Rightarrow> (Inl e, s, w)
      | (Inr (destination, isDNS), w) \<Rightarrow>
          if \<not> isDNS then (Inr None, s, w)
          else case dnsRoundTrip s destination payload w of
                 (Inl e, w) \<Rightarrow> (Inl e, s, w)
               | (Inr reply, w) \<Rightarrow>
                   (Inr (Some (int (length payload))),
                    storeState s (enqueueReply state reply destination), w))"

definition emulateDNSSendTo ::
  "'w unix_calls \<Rightarrow> 'w Supervisor \<Rightarrow> int \<Rightarrow> ScmpNotifReq \<Rightarrow> 'w \<Rightarrow> 'w emulated" where
  "emulateDNSSendTo k s pid req w =
     (case lookupManagedUDPSocket s pid req of
        None \<Rightarrow> (Inr None, s, w)
      | Some state \<Rightarrow>
          (case readProcessPayload k pid (nq_Arg1 req) (go_int (nq_Arg2 req)) w of
             (Inl e, w) \<Rightarrow> (Inl e, s, w)
           | (Inr payload, w) \<Rightarrow>
               sendDNS k s pid state payload (nq_Arg4 req) (go_int (nq_Arg5 req)) w))"

definition emulateDNSWrite ::
  "'w unix_calls \<Rightarrow> 'w Supervisor \<Rightarrow> int \<Rightarrow> ScmpNotifReq \<Rightarrow> 'w \<Rightarrow> 'w emulated" where
  "emulateDNSWrite k s pid req w =
     (case lookupManagedUDPSocket s pid req of
        None \<Rightarrow> (Inr None, s, w)
      | Some state \<Rightarrow>
          (case readProcessPayload k pid (nq_Arg1 req) (go_int (nq_Arg2 req)) w of
             (Inl e, w) \<Rightarrow> (Inl e, s, w)
           | (Inr payload, w) \<Rightarrow> sendDNS k s pid state payload 0 0 w))"

definition emulateDNSSendMsg ::
  "'w unix_calls \<Rightarrow> bool \<Rightarrow> 'w Supervisor \<Rightarrow> int \<Rightarrow> ScmpNotifReq \<Rightarrow> 'w \<Rightarrow> 'w emulated" where
  "emulateDNSSendMsg k little s pid req w =
     (case lookupManagedUDPSocket s pid req of
        None \<Rightarrow> (Inr None, s, w)
      | Some state \<Rightarrow>
          (case readProcessValue k 56 (decodeMsghdr little) pid (nq_Arg1 req) w of
             (Inl e, w) \<Rightarrow> (Inl e, s, w)
           | (Inr msg, w) \<Rightarrow>
               if mh_Control msg \<noteq> 0 \<and> mh_Controllen msg > 0 then (Inl (Errno EOPNOTSUPP), s, w)
               else case readPayloadFromIovecs k little pid (mh_Iov msg) (wrap_int (mh_Iovlen msg)) w of
                      (Inl e, w) \<Rightarrow> (Inl e, s, w)
                    | (Inr payload, w) \<Rightarrow>
                        sendDNS k s pid state payload (mh_Name msg) (mh_Namelen msg) w))"

text \<open>
  The loop of \<^verbatim>\<open>sendmmsg\<close>: the result, and the state to store when the loop ran to its end. After
  the first message a failure returns the number of messages sent so far.
\<close>

fun isPanic :: "goerr + 'a \<Rightarrow> bool" where
  "isPanic (Inl (Panic p)) = True"
| "isPanic _ = False"

definition sendMMsgStop :: "int \<Rightarrow> goerr + int option \<Rightarrow> goerr + int option" where
  "sendMMsgStop sent r = (if sent > 0 \<and> \<not> isPanic r then Inr (Some sent) else r)"

fun sendMMsgLoop ::
  "'w unix_calls \<Rightarrow> bool \<Rightarrow> 'w Supervisor \<Rightarrow> int \<Rightarrow> 64 word \<Rightarrow> int \<Rightarrow> SocketState \<Rightarrow> rawMmsghdr list \<Rightarrow> 'w \<Rightarrow>
   (goerr + int option) \<times> SocketState option \<times> 'w" where
  "sendMMsgLoop k little s pid vec sent state [] w = (Inr (Some sent), Some state, w)"
| "sendMMsgLoop k little s pid vec sent state (msg # msgs) w =
     (if mh_Control (mm_Hdr msg) \<noteq> 0 \<and> mh_Controllen (mm_Hdr msg) > 0
      then (sendMMsgStop sent (Inl (Errno EOPNOTSUPP)), None, w)
      else case readPayloadFromIovecs k little pid (mh_Iov (mm_Hdr msg))
                  (wrap_int (mh_Iovlen (mm_Hdr msg))) w of
        (Inl e, w) \<Rightarrow> (sendMMsgStop sent (Inl e), None, w)
      | (Inr payload, w) \<Rightarrow>
          (case resolveDNSDestination k pid state (mh_Name (mm_Hdr msg)) (mh_Namelen (mm_Hdr msg)) w of
             (Inl e, w) \<Rightarrow> (sendMMsgStop sent (Inl e), None, w)
           | (Inr (destination, isDNS), w) \<Rightarrow>
               if \<not> isDNS then (sendMMsgStop sent (Inr None), None, w)
               else case dnsRoundTrip s destination payload w of
                 (Inl e, w) \<Rightarrow> (sendMMsgStop sent (Inl e), None, w)
               | (Inr reply, w) \<Rightarrow>
                   let state = enqueueReply state reply destination;
                       msg = msg\<lparr>mm_Len := int (length payload)\<rparr> in
                   (case writeProcessValue k pid (vec + word_of_int (sent * 64))
                           (encodeMmsghdr little msg) w of
                      (Some e, w) \<Rightarrow> (sendMMsgStop sent (Inl e), None, w)
                    | (None, w) \<Rightarrow> sendMMsgLoop k little s pid vec (sent + 1) state msgs w)))"

definition emulateDNSSendMMsg ::
  "'w unix_calls \<Rightarrow> bool \<Rightarrow> 'w Supervisor \<Rightarrow> int \<Rightarrow> ScmpNotifReq \<Rightarrow> 'w \<Rightarrow> 'w emulated" where
  "emulateDNSSendMMsg k little s pid req w =
     (case lookupManagedUDPSocket s pid req of
        None \<Rightarrow> (Inr None, s, w)
      | Some state \<Rightarrow>
          let msgCount = go_int (nq_Arg2 req) in
          if msgCount < 0 then (Inl (Errno EINVAL), s, w)
          else case readProcessValues k 64 (decodeMmsghdr little) pid (nq_Arg1 req) msgCount w of
                 (Inl e, w) \<Rightarrow> (Inl e, s, w)
               | (Inr msgs, w) \<Rightarrow>
                   (case sendMMsgLoop k little s pid (nq_Arg1 req) 0 state msgs w of
                      (r, None, w) \<Rightarrow> (r, s, w)
                    | (r, Some state, w) \<Rightarrow> (r, storeState s state, w)))"

subsection \<open>Receiving\<close>

definition emulateDNSRead ::
  "'w unix_calls \<Rightarrow> 'w Supervisor \<Rightarrow> int \<Rightarrow> ScmpNotifReq \<Rightarrow> 'w \<Rightarrow> 'w emulated" where
  "emulateDNSRead k s pid req w =
     (case lookupManagedUDPSocket s pid req of
        None \<Rightarrow> (Inr None, s, w)
      | Some state \<Rightarrow>
          (case takePendingDNSResponse state of
             Inl e \<Rightarrow> (Inl e, s, w)
           | Inr resp \<Rightarrow>
               (case writeProcessPayload k pid (nq_Arg1 req) (go_int (nq_Arg2 req)) (pr_Payload resp) w of
                  (Inl e, w) \<Rightarrow> (Inl e, s, w)
                | (Inr n, w) \<Rightarrow> (Inr (Some n), storeState s (dropReplies 1 state), w))))"

definition keepIfPeek :: "'w Supervisor \<Rightarrow> SocketState \<Rightarrow> int \<Rightarrow> nat \<Rightarrow> 'w Supervisor" where
  "keepIfPeek s state flags n =
     (if flags AND MSG_PEEK = 0 then storeState s (dropReplies n state) else s)"

definition emulateDNSRecvFrom ::
  "'w unix_calls \<Rightarrow> bool \<Rightarrow> 'w Supervisor \<Rightarrow> int \<Rightarrow> ScmpNotifReq \<Rightarrow> 'w \<Rightarrow> 'w emulated" where
  "emulateDNSRecvFrom k little s pid req w =
     (case lookupManagedUDPSocket s pid req of
        None \<Rightarrow> (Inr None, s, w)
      | Some state \<Rightarrow>
          let flags = go_int (nq_Arg3 req) in
          (case takePendingDNSResponse state of
             Inl e \<Rightarrow> (Inl e, s, w)
           | Inr resp \<Rightarrow>
               (case writeProcessPayload k pid (nq_Arg1 req) (go_int (nq_Arg2 req)) (pr_Payload resp) w of
                  (Inl e, w) \<Rightarrow> (Inl e, s, w)
                | (Inr n, w) \<Rightarrow>
                    (case writeRecvfromSockaddr k little pid (nq_Arg4 req) (nq_Arg5 req) (pr_Source resp) w of
                       (Some e, w) \<Rightarrow> (Inl e, s, w)
                     | (None, w) \<Rightarrow> (Inr (Some n), keepIfPeek s state flags 1, w)))))"

definition finishMsghdr :: "Msghdr \<Rightarrow> bool \<Rightarrow> Msghdr" where
  "finishMsghdr msg truncated =
     msg\<lparr>mh_Controllen := 0, mh_Flags := (if truncated then MSG_TRUNC else 0)\<rparr>"

definition emulateDNSRecvMsg ::
  "'w unix_calls \<Rightarrow> bool \<Rightarrow> 'w Supervisor \<Rightarrow> int \<Rightarrow> ScmpNotifReq \<Rightarrow> 'w \<Rightarrow> 'w emulated" where
  "emulateDNSRecvMsg k little s pid req w =
     (case lookupManagedUDPSocket s pid req of
        None \<Rightarrow> (Inr None, s, w)
      | Some state \<Rightarrow>
          let msgAddr = nq_Arg1 req; flags = go_int (nq_Arg2 req) in
          (case readProcessValue k 56 (decodeMsghdr little) pid msgAddr w of
             (Inl e, w) \<Rightarrow> (Inl e, s, w)
           | (Inr msg, w) \<Rightarrow>
               (case takePendingDNSResponse state of
                  Inl e \<Rightarrow> (Inl e, s, w)
                | Inr resp \<Rightarrow>
                    (case writePayloadToIovecs k little pid (mh_Iov msg) (wrap_int (mh_Iovlen msg))
                            (pr_Payload resp) w of
                       (Inl e, w) \<Rightarrow> (Inl e, s, w)
                     | (Inr (n, truncated), w) \<Rightarrow>
                         (case writeMsghdrSockaddr k little pid msg (pr_Source resp) w of
                            (Inl e, w) \<Rightarrow> (Inl e, s, w)
                          | (Inr msg, w) \<Rightarrow>
                              (case writeProcessValue k pid msgAddr
                                      (encodeMsghdr little (finishMsghdr msg truncated)) w of
                                 (Some e, w) \<Rightarrow> (Inl e, s, w)
                               | (None, w) \<Rightarrow> (Inr (Some n), keepIfPeek s state flags 1, w)))))))"

text \<open>
  The loop of \<^verbatim>\<open>recvmmsg\<close> pairs message headers with waiting replies; it stops at the first failure,
  which is the error of the call when nothing was received.
\<close>

fun recvMMsgLoop ::
  "'w unix_calls \<Rightarrow> bool \<Rightarrow> int \<Rightarrow> 64 word \<Rightarrow> int \<Rightarrow> (rawMmsghdr \<times> dnsPacketResponse) list \<Rightarrow> 'w \<Rightarrow>
   (goerr + int) \<times> 'w" where
  "recvMMsgLoop k little pid vec received [] w = (Inr received, w)"
| "recvMMsgLoop k little pid vec received ((msg, resp) # rest) w =
     (let stop = (\<lambda>e. if received > 0 \<and> \<not> isPanic (Inl e :: goerr + int) then Inr received else Inl e) in
      case writePayloadToIovecs k little pid (mh_Iov (mm_Hdr msg)) (wrap_int (mh_Iovlen (mm_Hdr msg)))
             (pr_Payload resp) w of
        (Inl e, w) \<Rightarrow> (stop e, w)
      | (Inr (n, truncated), w) \<Rightarrow>
          (case writeMsghdrSockaddr k little pid (mm_Hdr msg) (pr_Source resp) w of
             (Inl e, w) \<Rightarrow> (stop e, w)
           | (Inr hdr, w) \<Rightarrow>
               (case writeProcessValue k pid (vec + word_of_int (received * 64))
                       (encodeMmsghdr little
                          (msg\<lparr>mm_Hdr := finishMsghdr hdr truncated, mm_Len := n\<rparr>)) w of
                  (Some e, w) \<Rightarrow> (stop e, w)
                | (None, w) \<Rightarrow> recvMMsgLoop k little pid vec (received + 1) rest w)))"

definition emulateDNSRecvMMsg ::
  "'w unix_calls \<Rightarrow> bool \<Rightarrow> 'w Supervisor \<Rightarrow> int \<Rightarrow> ScmpNotifReq \<Rightarrow> 'w \<Rightarrow> 'w emulated" where
  "emulateDNSRecvMMsg k little s pid req w =
     (case lookupManagedUDPSocket s pid req of
        None \<Rightarrow> (Inr None, s, w)
      | Some state \<Rightarrow>
          let msgCount = go_int (nq_Arg2 req); flags = go_int (nq_Arg3 req) in
          if msgCount < 0 then (Inl (Errno EINVAL), s, w)
          else case readProcessValues k 64 (decodeMmsghdr little) pid (nq_Arg1 req) msgCount w of
                 (Inl e, w) \<Rightarrow> (Inl e, s, w)
               | (Inr msgs, w) \<Rightarrow>
                   if st_PendingDNSResponses state = [] then (Inl (Errno EAGAIN), s, w)
                   else case recvMMsgLoop k little pid (nq_Arg1 req) 0
                               (zip msgs (st_PendingDNSResponses state)) w of
                          (Inl e, w) \<Rightarrow> (Inl e, s, w)
                        | (Inr received, w) \<Rightarrow>
                            if received = 0 then (Inl (Errno EAGAIN), s, w)
                            else (Inr (Some received), keepIfPeek s state flags (nat received), w))"

subsection \<open>Polling\<close>

definition pollReady :: "'w Supervisor \<Rightarrow> int \<Rightarrow> PollFd \<Rightarrow> bool" where
  "pollReady s pid p \<longleftrightarrow>
     pf_Fd p \<ge> 0 \<and>
     (case LookupForPID (su_registry s) pid (pf_Fd p) of
        None \<Rightarrow> False
      | Some state \<Rightarrow> st_Kind state = KindUDP \<and> st_PendingDNSResponses state \<noteq> [])"

definition pollRevents :: "'w Supervisor \<Rightarrow> int \<Rightarrow> PollFd \<Rightarrow> PollFd" where
  "pollRevents s pid p =
     p\<lparr>pf_Revents :=
         (if pollReady s pid p
          then (pf_Events p AND POLLIN) OR (pf_Events p AND POLLOUT) else 0)\<rparr>"

fun writePollFds ::
  "'w unix_calls \<Rightarrow> bool \<Rightarrow> int \<Rightarrow> 64 word \<Rightarrow> PollFd list \<Rightarrow> 'w \<Rightarrow> goerr option \<times> 'w" where
  "writePollFds k little pid ptr [] w = (None, w)"
| "writePollFds k little pid ptr (p # ps) w =
     (case writeProcessValue k pid ptr (encodePollFd little p) w of
        (Some e, w) \<Rightarrow> (Some e, w) | (None, w) \<Rightarrow> writePollFds k little pid (ptr + 8) ps w)"

definition emulateDNSPollFDs ::
  "'w unix_calls \<Rightarrow> bool \<Rightarrow> 'w Supervisor \<Rightarrow> int \<Rightarrow> 64 word \<Rightarrow> int \<Rightarrow> 'w \<Rightarrow> (goerr + int option) \<times> 'w" where
  "emulateDNSPollFDs k little s pid fdsPtr fdCount w =
     (if fdCount < 0 then (Inl (Errno EINVAL), w)
      else if fdCount = 0 then (Inr None, w)
      else case readProcessValues k 8 (decodePollFd little) pid fdsPtr fdCount w of
             (Inl e, w) \<Rightarrow> (Inl e, w)
           | (Inr pollFDs, w) \<Rightarrow>
               let updated = map (pollRevents s pid) pollFDs in
               if \<not> list_ex (pollReady s pid) pollFDs then (Inr None, w)
               else case writePollFds k little pid fdsPtr updated w of
                      (Some e, w) \<Rightarrow> (Inl e, w)
                    | (None, w) \<Rightarrow>
                        (Inr (Some (int (length (filter (\<lambda>p. pf_Revents p \<noteq> 0) updated)))), w))"

definition emulateDNSPoll ::
  "'w unix_calls \<Rightarrow> bool \<Rightarrow> 'w Supervisor \<Rightarrow> int \<Rightarrow> ScmpNotifReq \<Rightarrow> 'w \<Rightarrow> (goerr + int option) \<times> 'w" where
  "emulateDNSPoll k little s pid req w =
     emulateDNSPollFDs k little s pid (nq_Arg0 req) (go_int (nq_Arg1 req)) w"

definition emulateDNSPPoll ::
  "'w unix_calls \<Rightarrow> bool \<Rightarrow> 'w Supervisor \<Rightarrow> int \<Rightarrow> ScmpNotifReq \<Rightarrow> 'w \<Rightarrow> (goerr + int option) \<times> 'w" where
  "emulateDNSPPoll k little s pid req w =
     emulateDNSPollFDs k little s pid (nq_Arg0 req) (go_int (nq_Arg1 req)) w"

definition emulateDNSIoctl ::
  "'w unix_calls \<Rightarrow> bool \<Rightarrow> 'w Supervisor \<Rightarrow> int \<Rightarrow> ScmpNotifReq \<Rightarrow> 'w \<Rightarrow> (goerr + int option) \<times> 'w" where
  "emulateDNSIoctl k little s pid req w =
     (case lookupManagedUDPSocket s pid req of
        None \<Rightarrow> (Inr None, w)
      | Some state \<Rightarrow>
          if nq_Arg1 req \<noteq> 0x541B then (Inr None, w)
          else if nq_Arg2 req = 0 then (Inl (Errno EFAULT), w)
          else
            let pendingBytes = (case st_PendingDNSResponses state of
                                  [] \<Rightarrow> 0 | r # _ \<Rightarrow> int (length (pr_Payload r))) in
            (case writeProcessValue k pid (nq_Arg2 req) (put_uint little 4 pendingBytes) w of
               (Some e, w) \<Rightarrow> (Inl e, w) | (None, w) \<Rightarrow> (Inr (Some 0), w)))"

subsection \<open>Dispatch\<close>

definition successResp :: "64 word \<Rightarrow> int \<Rightarrow> ScmpNotifResp" where
  "successResp rid v = \<lparr>np_ID = rid, np_Error = 0, np_Val = word_of_int v, np_Continue = False\<rparr>"

definition continueResp :: "64 word \<Rightarrow> ScmpNotifResp" where
  "continueResp rid = \<lparr>np_ID = rid, np_Error = 0, np_Val = 0, np_Continue = True\<rparr>"

definition errorResp :: "64 word \<Rightarrow> int \<Rightarrow> ScmpNotifResp" where
  "errorResp rid errno = \<lparr>np_ID = rid, np_Error = errno, np_Val = - 1, np_Continue = False\<rparr>"

fun errnoFromError :: "goerr \<Rightarrow> int" where
  "errnoFromError (Errno e) = (if e \<noteq> 0 then e else EIO)"
| "errnoFromError _ = EIO"

text \<open>
  No response is sent when the helper panics or the call has not returned.
\<close>

fun respond :: "64 word \<Rightarrow> goerr + int option \<Rightarrow> ScmpNotifResp option" where
  "respond rid (Inl (Panic p)) = None"
| "respond rid (Inl Out_Of_Fuel) = None"
| "respond rid (Inl e) = Some (errorResp rid (errnoFromError e))"
| "respond rid (Inr None) = Some (continueResp rid)"
| "respond rid (Inr (Some v)) = Some (successResp rid v)"

text \<open>One clause per system call; calls that keep the supervisor are paired with it.\<close>

definition emulate ::
  "'w unix_calls \<Rightarrow> arch \<Rightarrow> bool \<Rightarrow> nat \<Rightarrow> 'w Supervisor \<Rightarrow> int \<Rightarrow> ScmpNotifReq \<Rightarrow> 'w \<Rightarrow> 'w emulated" where
  "emulate k a little n s pid req w =
     (let nr = nq_Syscall req;
          same = (\<lambda>(r, w). (r, s, w)) in
      if nr = SYS_SOCKET a then injectSocket k n s req w
      else if nr = SYS_CONNECT a then redirectConnect k n s pid req w
      else if nr = SYS_GETPEERNAME a then same (emulateGetpeername k little s pid req w)
      else if nr = SYS_READ a then emulateDNSRead k s pid req w
      else if nr = SYS_SENDTO a then emulateDNSSendTo k s pid req w
      else if nr = SYS_WRITE a then emulateDNSWrite k s pid req w
      else if nr = SYS_RECVFROM a then emulateDNSRecvFrom k little s pid req w
      else if nr = SYS_SENDMSG a then emulateDNSSendMsg k little s pid req w
      else if nr = SYS_RECVMSG a then emulateDNSRecvMsg k little s pid req w
      else if nr = SYS_SENDMMSG a then emulateDNSSendMMsg k little s pid req w
      else if nr = SYS_RECVMMSG a then emulateDNSRecvMMsg k little s pid req w
      else if nr = SYS_PPOLL a then same (emulateDNSPPoll k little s pid req w)
      else if nr = SYS_IOCTL a then same (emulateDNSIoctl k little s pid req w)
      else if nr = SYS_CLOSE a then
        (let fd = go_int (nq_Arg0 req) in
         if fd \<ge> 0
         then (case CloseForPID k (su_registry s) pid fd w of
                 (reg, w) \<Rightarrow> (Inr None, releaseChildFD (s\<lparr>su_registry := reg\<rparr>) fd, w))
         else (Inr None, s, w))
      else if nr = SYS_DUP a \<or> nr = SYS_DUP3 a \<or> nr = SYS_FCNTL a
      then duplicateSocket k a s pid req w
      else if isPollSyscall a nr then same (emulateDNSPoll k little s pid req w)
      else if isDupLikeSyscall a nr then duplicateSocket k a s pid req w
      else (Inr None, s, w))"

definition processNotification ::
  "'w unix_calls \<Rightarrow> arch \<Rightarrow> bool \<Rightarrow> nat \<Rightarrow> 'w Supervisor \<Rightarrow> int \<Rightarrow> ScmpNotifReq \<Rightarrow> 'w \<Rightarrow>
   ScmpNotifResp option \<times> 'w Supervisor \<times> 'w" where
  "processNotification k a little n s pid req w =
     (case emulate k a little n s (notificationPID pid req) req w of
        (r, s, w) \<Rightarrow> (respond (nq_ID req) r, s, w))"

end
