(* ===== verification/Supervisor_Answers.thy ===== *)
theory Supervisor_Answers
  imports Dns_Emulation_Inv
begin

section \<open>Every notification is answered\<close>

text \<open>
  The loops of the supervisor end: waiting for a connection and for a local address ends because
  the clock advances to the deadline, installing a socket ends because the kernel does not answer
  busy for large descriptor numbers. So with enough fuel a notification is answered, unless the
  helper panics.
\<close>

subsection \<open>The clock\<close>

text \<open>Reading the clock takes time, and no call turns it back.\<close>

definition clock_laws :: "'w unix_calls \<Rightarrow> ('w \<Rightarrow> int) \<Rightarrow> bool" where
  "clock_laws k clock \<longleftrightarrow>
     (\<forall>w. fst (u_now k w) = clock w \<and> clock w < clock (snd (u_now k w))) \<and>
     (\<forall>fd w. clock w \<le> clock (snd (u_soerror k fd w))) \<and>
     (\<forall>fd t w. clock w \<le> clock (snd (u_poll k fd t w))) \<and>
     (\<forall>fd w. clock w \<le> clock (snd (u_getsockname k fd w))) \<and>
     (\<forall>t w. clock w \<le> clock (u_sleep k t w))"

lemma clock_laws_dests:
  assumes "clock_laws k clock"
  shows "u_now k w = (now, w') \<Longrightarrow> now = clock w \<and> clock w < clock w'"
    and "u_soerror k fd w = (r, w') \<Longrightarrow> clock w \<le> clock w'"
    and "u_poll k fd t w = (r, w') \<Longrightarrow> clock w \<le> clock w'"
    and "u_getsockname k fd w = (sa, w') \<Longrightarrow> clock w \<le> clock w'"
proof -
  have eqs: "fst (u_now k w) = clock w \<and> clock w < clock (snd (u_now k w))"
    "clock w \<le> clock (snd (u_soerror k fd w))" "clock w \<le> clock (snd (u_poll k fd t w))"
    "clock w \<le> clock (snd (u_getsockname k fd w))"
    using assms by (simp_all add: clock_laws_def)
  show "u_now k w = (now, w') \<Longrightarrow> now = clock w \<and> clock w < clock w'" using eqs(1) by simp
  show "u_soerror k fd w = (r, w') \<Longrightarrow> clock w \<le> clock w'" using eqs(2) by simp
  show "u_poll k fd t w = (r, w') \<Longrightarrow> clock w \<le> clock w'" using eqs(3) by simp
  show "u_getsockname k fd w = (sa, w') \<Longrightarrow> clock w \<le> clock w'" using eqs(4) by simp
qed

lemma connectWaitLoop_returns:
  assumes laws: "clock_laws k clock"
  shows "deadline - clock w < int n \<Longrightarrow> 0 < n \<Longrightarrow>
    fst (connectWaitLoop k n fd deadline w) \<noteq> Some Out_Of_Fuel"
proof (induction n arbitrary: w)
  case (Suc n)
  have again: "fst (case u_now k v of (now, v) \<Rightarrow>
          let remaining = deadline - now in
          if remaining \<le> 0 then (Some (Errno ETIMEDOUT), v)
          else
            let ms = remaining div 1000000; timeoutMs = (if ms < 1 then 1 else ms) in
            case u_poll k fd timeoutMs v of
              (Inl e, v) \<Rightarrow> if e = EINTR then connectWaitLoop k n fd deadline v
                           else (Some (Errno e), v)
            | (Inr c, v) \<Rightarrow> if c = 0 then (Some (Errno ETIMEDOUT), v)
                           else connectWaitLoop k n fd deadline v) \<noteq> Some Out_Of_Fuel"
    if v: "clock w \<le> clock v" for v
  proof -
    obtain now v1 where now: "u_now k v = (now, v1)" by fastforce
    note c = clock_laws_dests(1)[OF laws now]
    have next_ok: "fst (connectWaitLoop k n fd deadline v2) \<noteq> Some Out_Of_Fuel"
      if "clock v1 \<le> clock v2" "\<not> deadline - now \<le> 0" for v2
      using that c v Suc.prems by (intro Suc.IH) auto
    show ?thesis
      using now next_ok clock_laws_dests(3)[OF laws]
      by (auto simp: Let_def split: prod.splits sum.splits)
  qed
  obtain r w1 where so: "u_soerror k fd w = (r, w1)" by fastforce
  with again[OF clock_laws_dests(2)[OF laws so]] show ?case
    by (auto simp: Let_def split: sum.splits)
qed simp

lemma waitForConnectComplete_returns:
  assumes "clock_laws k clock" and "2000000000 < n"
  shows "fst (waitForConnectComplete k n fd 2000000000 w) \<noteq> Some Out_Of_Fuel"
proof -
  obtain now w1 where now: "u_now k w = (now, w1)" by fastforce
  have "now + 2000000000 - clock w1 < int n"
    using clock_laws_dests(1)[OF assms(1) now] assms(2) by linarith
  then have "fst (connectWaitLoop k n fd (now + 2000000000) w1) \<noteq> Some Out_Of_Fuel"
    using connectWaitLoop_returns[OF assms(1)] assms(2) by simp
  then show ?thesis by (simp add: waitForConnectComplete_def now)
qed

lemma routeTCPDestination_fuel: "routeTCPDestination t f h p \<noteq> Inl Out_Of_Fuel"
  by (auto simp: routeTCPDestination_def parseTCPAddr_def Let_def split: sum.split option.split)

lemma handleConnect_returns:
  assumes "clock_laws k clock" and "2000000000 < n"
  shows "fst (handleConnect k n s req w) \<noteq> Some Out_Of_Fuel"
proof -
  have wait: "waitForConnectComplete k n fd 2000000000 v = (Some e, v') \<Longrightarrow> e \<noteq> Out_Of_Fuel" for fd v e v'
    using waitForConnectComplete_returns[OF assms, of fd v] by auto
  show ?thesis
    by (auto simp: handleConnect_def Let_def routeTCPDestination_fuel
        split: option.splits sum.splits prod.splits if_splits dest!: wait)
qed

subsection \<open>Descriptor numbers\<close>

text \<open>
  The kernel has a limit from which on it never answers that a target descriptor is busy or
  exists; it answers with another error or installs the descriptor.
\<close>

definition addfd_limit :: "'w unix_calls \<Rightarrow> int \<Rightarrow> bool" where
  "addfd_limit k limit \<longleftrightarrow> limit < 2 ^ 31 \<and>
     (\<forall>n rid src new fl nfl w. limit \<le> uint new \<longrightarrow>
        fst (u_addfd k n rid src new fl nfl w) \<notin> {Inl EBUSY, Inl EEXIST})"

lemma freeChildFD_Some:
  "freeChildFD reserved n fd = Some fd' \<Longrightarrow> fd \<le> fd' \<and> fd' < fd + int n \<and> fd' \<notin> reserved"
  by (induction reserved n fd rule: freeChildFD.induct) (auto split: if_splits)

lemma freeChildFD_None:
  "freeChildFD reserved n fd = None \<Longrightarrow> {fd..<fd + int n} \<subseteq> reserved"
proof (induction reserved n fd rule: freeChildFD.induct)
  case (2 reserved n fd)
  then have "fd \<in> reserved" "{fd + 1..<fd + 1 + int n} \<subseteq> reserved"
    by (auto split: if_splits)
  moreover have "{fd..<fd + int (Suc n)} = insert fd {fd + 1..<fd + 1 + int n}" by auto
  ultimately show ?case by simp
qed simp

definition next_fd :: "'w Supervisor \<Rightarrow> SocketKind \<Rightarrow> int" where
  "next_fd s kind = (if kind = KindUDP then su_nextUDPChildFD s else su_nextTCPChildFD s)"

lemma reserveChildFD_spec:
  assumes "reserveChildFD s kind m = (fd, s')" and "0 \<le> fd"
  shows "fd \<notin> su_reservedChildFDs s" and "su_reservedChildFDs s' = insert fd (su_reservedChildFDs s)"
    and "max m (minChildFDForSocketKind kind) \<le> fd" and "next_fd s kind \<le> fd"
    and "next_fd s' kind = fd + 1" and "fd < max (next_fd s kind) (max m (minChildFDForSocketKind kind)) + 4096"
proof -
  let ?start = "max (next_fd s kind) (max m (minChildFDForSocketKind kind))"
  have start: "(if a < (if b < m then m else b) then (if b < m then m else b) else a) =
      max a (max m b)" for a b :: int
    by simp
  have free: "freeChildFD (su_reservedChildFDs s) 4096 ?start = Some fd"
    and s': "s' = (let s = s\<lparr>su_reservedChildFDs := insert fd (su_reservedChildFDs s)\<rparr> in
               if kind = KindUDP then s\<lparr>su_nextUDPChildFD := fd + 1\<rparr> else s\<lparr>su_nextTCPChildFD := fd + 1\<rparr>)"
    using assms unfolding reserveChildFD_def next_fd_def Let_def start
    by (auto split: option.splits)
  from freeChildFD_Some[OF free] s'
  show "fd \<notin> su_reservedChildFDs s" and "su_reservedChildFDs s' = insert fd (su_reservedChildFDs s)"
    and "max m (minChildFDForSocketKind kind) \<le> fd" and "next_fd s kind \<le> fd"
    and "next_fd s' kind = fd + 1" and "fd < ?start + 4096"
    by (auto simp: next_fd_def Let_def)
qed

lemma releaseChildFD_next [simp]: "next_fd (releaseChildFD s fd) kind = next_fd s kind"
  by (simp add: next_fd_def releaseChildFD_def)

lemma addFD_busy:
  assumes "addfd_limit k limit" and "0 \<le> fd" and "fd < 2 ^ 32"
    and "addFDWithResult k s rid h (word_of_int fd) fl nfl w = (Inl e, w')"
    and "e = Errno EBUSY \<or> e = Errno EEXIST"
  shows "fd < limit"
proof (rule ccontr)
  assume "\<not> fd < limit"
  moreover have "uint (word_of_int fd :: 32 word) = fd"
    using assms(2,3) by (simp add: uint_word_of_int)
  ultimately have "fst (u_addfd k (su_notifyFD s) rid (word_of_int h) (word_of_int fd) fl nfl w)
      \<notin> {Inl EBUSY, Inl EEXIST}"
    using assms(1) unfolding addfd_limit_def by (metis not_less)
  with assms(4,5) show False
    by (auto simp: addFDWithResult_def split: if_splits prod.splits sum.splits)
qed

lemma injectLoop_returns:
  assumes limit: "addfd_limit k limit"
  shows "limit - next_fd s kind < int n \<Longrightarrow> 0 < n \<Longrightarrow> next_fd s kind \<le> 2 ^ 31 \<Longrightarrow>
    fst (injectLoop k n s rid kind h w) \<noteq> Inl Out_Of_Fuel"
proof (induction n arbitrary: s w)
  case (Suc n)
  obtain fd s1 where res: "reserveChildFD s kind (minChildFDForSocketKind kind) = (fd, s1)" by fastforce
  obtain a w1 where add: "addFDWithResult k s1 rid h (word_of_int fd) 1 0 w = (a, w1)" by fastforce
  show ?case
  proof (cases "\<not> fd < 0 \<and> (a = Inl (Errno EBUSY) \<or> a = Inl (Errno EEXIST))")
    case True
    then obtain e where e: "a = Inl e" "e = Errno EBUSY \<or> e = Errno EEXIST" by auto
    note r = reserveChildFD_spec[OF res]
    have "fd < 2 ^ 32"
      using r(6) Suc.prems(3) True by (auto simp: minChildFDForSocketKind_def split: if_splits)
    then have "fd < limit"
      using addFD_busy[OF limit _ _ add[unfolded e(1)] e(2)] True by simp
    moreover have "limit < 2 ^ 31" using limit by (simp add: addfd_limit_def)
    ultimately have "fst (injectLoop k n (releaseChildFD s1 fd) rid kind h w1) \<noteq> Inl Out_Of_Fuel"
      using r(4,5) True Suc.prems(1) by (intro Suc.IH) auto
    with res add e True show ?thesis by (auto simp: Let_def)
  next
    case False
    have "a \<noteq> Inl Out_Of_Fuel"
      using add by (auto simp: addFDWithResult_def split: if_splits prod.splits sum.splits)
    with False res add show ?thesis
      by (auto simp: Let_def split: sum.splits)
  qed
qed simp

text \<open>
  The fuel that is enough: more rounds than nanoseconds in two seconds and than descriptor
  numbers below \<open>2 ^ 31\<close>.
\<close>

lemma injectSocket_returns:
  assumes "addfd_limit k limit" and "2 ^ 31 < n"
    and "0 \<le> next_fd s KindTCP" "0 \<le> next_fd s KindUDP"
    and "next_fd s KindTCP \<le> 2 ^ 31" "next_fd s KindUDP \<le> 2 ^ 31"
  shows "fst (injectSocket k n s req w) \<noteq> Inl Out_Of_Fuel"
proof -
  have limit: "limit < 2 ^ 31" using assms(1) by (simp add: addfd_limit_def)
  have kinds: "next_fd s kind = next_fd s KindTCP \<or> next_fd s kind = next_fd s KindUDP" for kind
    by (simp add: next_fd_def)
  have "limit - next_fd s kind < int n" "next_fd s kind \<le> 2 ^ 31" "0 < n" for kind
    using limit assms(2-6) kinds[of kind] by auto
  then have loop: "injectLoop k n s rid kind h v = (Inl e, s', v') \<Longrightarrow> e \<noteq> Out_Of_Fuel" for rid kind h v e s' v'
    using injectLoop_returns[OF assms(1), of s kind n rid h v] by auto
  have "classifyManagedSocket t f ty pr \<noteq> Inl Out_Of_Fuel" for t :: "'a RuntimeTargets" and f ty pr
    by (simp add: classifyManagedSocket_def)
  then show ?thesis
    by (auto simp: injectSocket_def Let_def split: sum.splits option.splits prod.splits dest: loop)
qed

subsection \<open>Calls without loops\<close>

text \<open>The memory functions and the emulated calls produce no \<open>Out_Of_Fuel\<close> of their own.\<close>

lemma readProcessMemoryExact_fuel: "readProcessMemoryExact k pid a n w \<noteq> (Inl Out_Of_Fuel, w')"
  by (auto simp: readProcessMemoryExact_def readProcessMemory_def
      split: if_splits prod.splits sum.splits)

lemma readProcessMemory_fuel: "readProcessMemory k pid a n w \<noteq> (Inl Out_Of_Fuel, w')"
  by (auto simp: readProcessMemory_def split: if_splits prod.splits sum.splits)

lemma writeProcessMemoryExact_fuel: "writeProcessMemoryExact k pid a d w \<noteq> (Some Out_Of_Fuel, w')"
  by (auto simp: writeProcessMemoryExact_def split: if_splits prod.splits sum.splits)

lemma readProcessValue_fuel: "readProcessValue k n dec pid a w \<noteq> (Inl Out_Of_Fuel, w')"
  by (auto simp: readProcessValue_def readProcessMemoryExact_fuel split: prod.splits sum.splits)

lemma readProcessValues_fuel: "readProcessValues k n dec pid a c w \<noteq> (Inl Out_Of_Fuel, w')"
  by (auto simp: readProcessValues_def readProcessMemoryExact_fuel
      split: if_splits prod.splits sum.splits)

lemma readIovecs_fuel: "readIovecs k pid iovs p w \<noteq> (Inl Out_Of_Fuel, w')"
  by (induction k pid iovs p w rule: readIovecs.induct)
    (auto simp: readProcessMemoryExact_fuel split: prod.splits sum.splits)

lemma writeIovecs_fuel: "writeIovecs k pid iovs n p w \<noteq> (Inl Out_Of_Fuel, w')"
proof (induction k pid iovs n p w rule: writeIovecs.induct)
  case (2 k pid iov iovs written payload w)
  then show ?case
    by (auto simp: writeProcessMemoryExact_fuel Let_def split: prod.splits option.splits)
qed simp

lemma encodeRawSockaddr_fuel: "encodeRawSockaddr little d \<noteq> Inl Out_Of_Fuel"
  by (auto simp: encodeRawSockaddr_def split: option.splits if_splits)

lemma DecodeSockaddr_fuel: "DecodeSockaddr raw \<noteq> Inl Out_Of_Fuel"
  by (auto simp: DecodeSockaddr_def decodeFamily_def Let_def split: sum.splits if_splits)

lemmas leaf_fuel =
  readProcessMemory_fuel readProcessMemoryExact_fuel writeProcessMemoryExact_fuel readProcessValue_fuel
  readProcessValues_fuel readIovecs_fuel writeIovecs_fuel encodeRawSockaddr_fuel DecodeSockaddr_fuel

lemma payload_fuel:
  "readProcessPayload k pid a n w \<noteq> (Inl Out_Of_Fuel, w')"
  "writeProcessPayload k pid a n d w \<noteq> (Inl Out_Of_Fuel, w')"
  "readPayloadFromIovecs k little pid a n w \<noteq> (Inl Out_Of_Fuel, w')"
  "writePayloadToIovecs k little pid a n d w \<noteq> (Inl Out_Of_Fuel, w')"
  by (auto simp: readProcessPayload_def writeProcessPayload_def readPayloadFromIovecs_def
      writePayloadToIovecs_def Let_def leaf_fuel
      split: if_splits prod.splits sum.splits option.splits)

lemma sockaddr_fuel:
  "writeSockaddr k little pid a al src w \<noteq> (Some Out_Of_Fuel, w')"
  "writeRecvfromSockaddr k little pid a al src w \<noteq> (Some Out_Of_Fuel, w')"
  "writeMsghdrSockaddr k little pid m src w \<noteq> (Inl Out_Of_Fuel, w')"
  "resolveDNSDestination k pid st a n w \<noteq> (Inl Out_Of_Fuel, w')"
  by (auto simp: writeRecvfromSockaddr_def writeSockaddr_def writeMsghdrSockaddr_def
      resolveDNSDestination_def Let_def leaf_fuel
      split: if_splits prod.splits sum.splits option.splits)

text \<open>The DNS callback returns with an error or a reply.\<close>

definition round_trip_returns :: "'w RuntimeTargets \<Rightarrow> bool" where
  "round_trip_returns t \<longleftrightarrow>
     (\<forall>f. rt_DNSRoundTrip t = Some f \<longrightarrow> (\<forall>n h p d w. fst (f n h p d w) \<noteq> Inl Out_Of_Fuel))"

lemma dnsRoundTrip_fuel:
  assumes "round_trip_returns (su_targets s)"
  shows "dnsRoundTrip s d p w \<noteq> (Inl Out_Of_Fuel, w')"
proof -
  have "f n h q x v \<noteq> (Inl Out_Of_Fuel, v')" if "rt_DNSRoundTrip (su_targets s) = Some f" for f n h q x v v'
    using assms that unfolding round_trip_returns_def by (metis fst_conv)
  then show ?thesis
    by (auto simp: dnsRoundTrip_def split: option.splits if_splits prod.splits sum.splits)
qed

lemma sendMMsgLoop_fuel:
  assumes "round_trip_returns (su_targets s)"
  shows "sendMMsgLoop k little s pid vec sent st msgs w \<noteq> (Inl Out_Of_Fuel, st', w')"
proof (induction msgs arbitrary: sent st w)
  case (Cons m msgs)
  then show ?case
    by (auto simp: Let_def sendMMsgStop_def payload_fuel sockaddr_fuel leaf_fuel dnsRoundTrip_fuel[OF assms]
        split: prod.splits sum.splits option.splits if_splits)
qed simp

lemma recvMMsgLoop_fuel: "recvMMsgLoop k little pid vec n ps w \<noteq> (Inl Out_Of_Fuel, w')"
proof (induction ps arbitrary: n w)
  case (Cons p ps)
  then show ?case
    by (cases p) (auto simp: Let_def payload_fuel sockaddr_fuel leaf_fuel
        split: prod.splits sum.splits option.splits if_splits)
qed simp

lemma writePollFds_fuel: "writePollFds k little pid a ps w \<noteq> (Some Out_Of_Fuel, w')"
  by (induction ps arbitrary: a w) (auto simp: leaf_fuel split: prod.splits option.splits)

lemma emulated_calls_fuel:
  assumes "round_trip_returns (su_targets s)"
  shows "fst (emulateDNSSendTo k s pid req w) \<noteq> Inl Out_Of_Fuel"
    and "fst (emulateDNSWrite k s pid req w) \<noteq> Inl Out_Of_Fuel"
    and "fst (emulateDNSSendMsg k little s pid req w) \<noteq> Inl Out_Of_Fuel"
    and "fst (emulateDNSSendMMsg k little s pid req w) \<noteq> Inl Out_Of_Fuel"
    and "fst (emulateDNSRead k s pid req w) \<noteq> Inl Out_Of_Fuel"
    and "fst (emulateDNSRecvFrom k little s pid req w) \<noteq> Inl Out_Of_Fuel"
    and "fst (emulateDNSRecvMsg k little s pid req w) \<noteq> Inl Out_Of_Fuel"
    and "fst (emulateDNSRecvMMsg k little s pid req w) \<noteq> Inl Out_Of_Fuel"
proof -
  note fuel = payload_fuel sockaddr_fuel leaf_fuel dnsRoundTrip_fuel[OF assms]
    sendMMsgLoop_fuel[OF assms] recvMMsgLoop_fuel takePendingDNSResponse_def
  have send: "fst (sendDNS k s pid st p a n v) \<noteq> Inl Out_Of_Fuel" for st p a n v
    by (auto simp: sendDNS_def fuel split: prod.split sum.split)
  show "fst (emulateDNSSendTo k s pid req w) \<noteq> Inl Out_Of_Fuel"
    by (auto simp: emulateDNSSendTo_def fuel send split: prod.split sum.split option.split)
  show "fst (emulateDNSWrite k s pid req w) \<noteq> Inl Out_Of_Fuel"
    by (auto simp: emulateDNSWrite_def fuel send split: prod.split sum.split option.split)
  show "fst (emulateDNSSendMsg k little s pid req w) \<noteq> Inl Out_Of_Fuel"
    by (auto simp: emulateDNSSendMsg_def fuel send split: prod.split sum.split option.split)
  show "fst (emulateDNSSendMMsg k little s pid req w) \<noteq> Inl Out_Of_Fuel"
    by (auto simp: emulateDNSSendMMsg_def Let_def fuel split: prod.split sum.split option.split)
  show "fst (emulateDNSRead k s pid req w) \<noteq> Inl Out_Of_Fuel"
    by (auto simp: emulateDNSRead_def fuel split: prod.split sum.split option.split list.split)
  show "fst (emulateDNSRecvFrom k little s pid req w) \<noteq> Inl Out_Of_Fuel"
    by (auto simp: emulateDNSRecvFrom_def Let_def fuel split: prod.split sum.split option.split list.split)
  show "fst (emulateDNSRecvMsg k little s pid req w) \<noteq> Inl Out_Of_Fuel"
    by (auto simp: emulateDNSRecvMsg_def Let_def fuel split: prod.split sum.split option.split list.split)
  show "fst (emulateDNSRecvMMsg k little s pid req w) \<noteq> Inl Out_Of_Fuel"
    by (auto simp: emulateDNSRecvMMsg_def Let_def fuel split: prod.split sum.split option.split)
qed

lemma poll_calls_fuel:
  "fst (emulateDNSPoll k little s pid req w) \<noteq> Inl Out_Of_Fuel"
  "fst (emulateDNSPPoll k little s pid req w) \<noteq> Inl Out_Of_Fuel"
  "fst (emulateDNSIoctl k little s pid req w) \<noteq> Inl Out_Of_Fuel"
  "fst (emulateGetpeername k little s pid req w) \<noteq> Inl Out_Of_Fuel"
proof -
  have "fst (emulateDNSPollFDs k little s pid a n w) \<noteq> Inl Out_Of_Fuel" for a n
    by (auto simp: emulateDNSPollFDs_def Let_def leaf_fuel writePollFds_fuel
        split: prod.split sum.split option.split)
  then show "fst (emulateDNSPoll k little s pid req w) \<noteq> Inl Out_Of_Fuel"
    "fst (emulateDNSPPoll k little s pid req w) \<noteq> Inl Out_Of_Fuel"
    by (simp_all add: emulateDNSPoll_def emulateDNSPPoll_def)
  show "fst (emulateDNSIoctl k little s pid req w) \<noteq> Inl Out_Of_Fuel"
    by (auto simp: emulateDNSIoctl_def Let_def leaf_fuel split: prod.split option.split)
  show "fst (emulateGetpeername k little s pid req w) \<noteq> Inl Out_Of_Fuel"
    by (auto simp: emulateGetpeername_def Let_def sockaddr_fuel split: prod.split option.split)
qed

lemma addFDWithResult_fuel: "addFDWithResult k s rid src new fl nfl w \<noteq> (Inl Out_Of_Fuel, w')"
  by (auto simp: addFDWithResult_def split: if_splits prod.splits sum.splits)

lemma addFDScan_fuel: "addFDScan k s rid src nfl n fd w \<noteq> (Inl Out_Of_Fuel, w')"
  by (induction n arbitrary: fd w)
    (auto simp: addFDWithResult_fuel split: prod.splits sum.splits if_splits)

lemma DupForPID_fuel: "DupForPID k r pid old new w \<noteq> (Some Out_Of_Fuel, r', w')"
  by (auto simp: DupForPID_def Let_def split: if_splits option.splits prod.splits sum.splits)

lemma duplicateSocket_fuel: "fst (duplicateSocket k a s pid req w) \<noteq> Inl Out_Of_Fuel"
proof -
  have rec: "fst (recordDuplicate k s pid old added) \<noteq> Inl Out_Of_Fuel"
    if "fst added \<noteq> Inl Out_Of_Fuel" for old added
    using that by (auto simp: recordDuplicate_def DupForPID_fuel
        split: prod.split sum.split option.split)
  have "fst (dupToTarget k s pid rid st old new fl w) \<noteq> Inl Out_Of_Fuel" for rid st old new fl
  proof -
    have "fst (addFDWithResult k s rid (st_HelperFD st) (word_of_int new) 1 fl w) \<noteq> Inl Out_Of_Fuel"
      by (metis addFDWithResult_fuel prod.collapse)
    then show ?thesis by (simp add: dupToTarget_def rec)
  qed
  moreover have "fst (dupAbove k s pid rid st old m fl w) \<noteq> Inl Out_Of_Fuel" for rid st old m fl
    unfolding dupAbove_def Let_def addFDAtOrAbove_def
    by (rule rec) (metis addFDScan_fuel prod.collapse)
  ultimately show ?thesis
    by (simp add: duplicateSocket_def Let_def split: option.split)
qed

subsection \<open>The answer\<close>

lemma redirectConnect_returns:
  assumes "clock_laws k clock" and "2000000000 < n"
  shows "fst (redirectConnect k n s pid req w) \<noteq> Inl Out_Of_Fuel"
proof -
  have conn: "handleConnect k n s q v \<noteq> (Some Out_Of_Fuel, s', v')" for q v s' v'
    using handleConnect_returns[OF assms, of s q v] by auto
  have inst: "reinstallConnectedSocket k s' rid st v \<noteq> (Some Out_Of_Fuel, v')" for s' :: "'a Supervisor" and rid st v v'
    by (auto simp: reinstallConnectedSocket_def Let_def addFDWithResult_fuel
        split: if_splits prod.splits sum.splits)
  have "fst (redirectTCP k n s pid rid q v) \<noteq> Inl Out_Of_Fuel" for rid q v
    by (auto simp: redirectTCP_def conn inst split: prod.split option.split)
  moreover have "handleDNSConnect s fd st d \<noteq> (Some Out_Of_Fuel, s')" for fd st d s'
    by (simp add: handleDNSConnect_def)
  ultimately show ?thesis
    by (auto simp: redirectConnect_def Let_def leaf_fuel
        split: option.split prod.split sum.split SocketKind.split)
qed

definition enough_fuel :: "nat \<Rightarrow> bool" where
  "enough_fuel n \<longleftrightarrow> 2 ^ 31 < n"

definition fd_counters_ok :: "'w Supervisor \<Rightarrow> bool" where
  "fd_counters_ok s \<longleftrightarrow>
     0 \<le> su_nextTCPChildFD s \<and> su_nextTCPChildFD s \<le> 2 ^ 31 \<and>
     0 \<le> su_nextUDPChildFD s \<and> su_nextUDPChildFD s \<le> 2 ^ 31"

lemma emulate_returns:
  assumes "clock_laws k clock" and "addfd_limit k limit" and "round_trip_returns (su_targets s)"
    and "fd_counters_ok s" and "enough_fuel n"
  shows "fst (emulate k a little n s pid req w) \<noteq> Inl Out_Of_Fuel"
proof -
  have n: "2000000000 < n" "2 ^ 31 < n" using assms(5) by (simp_all add: enough_fuel_def)
  have inj: "fst (injectSocket k n s req w) \<noteq> Inl Out_Of_Fuel"
    by (rule injectSocket_returns[OF assms(2) n(2)])
      (use assms(4) in \<open>simp_all add: fd_counters_ok_def next_fd_def\<close>)
  have same: "fst (case f of (r, w') \<Rightarrow> (r, s, w')) = fst f" for f :: "(goerr + int option) \<times> 'a"
    by (cases f) simp
  have close: "fst (case CloseForPID k (su_registry s) pid fd w of
      (reg, w) \<Rightarrow> (Inr None, releaseChildFD (s\<lparr>su_registry := reg\<rparr>) fd, w)) \<noteq> Inl Out_Of_Fuel" for fd
    by (simp split: prod.split)
  show ?thesis
    unfolding emulate_def Let_def
    by (simp add: inj redirectConnect_returns[OF assms(1) n(1)] same close poll_calls_fuel
        emulated_calls_fuel[OF assms(3)] duplicateSocket_fuel)
qed

lemma respond_Some:
  "r \<noteq> Inl Out_Of_Fuel \<Longrightarrow> \<not> isPanic r \<Longrightarrow>
   \<exists>resp. respond rid r = Some resp \<and> np_ID resp = rid \<and>
     (np_Error resp = 0 \<longleftrightarrow> (\<exists>v. r = Inr v)) \<and> (np_Continue resp \<longleftrightarrow> r = Inr None)"
proof (cases r)
  case (Inl e)
  assume "r \<noteq> Inl Out_Of_Fuel" "\<not> isPanic r"
  with Inl show ?thesis by (cases e) (auto simp: errorResp_def)
next
  case (Inr v)
  then show ?thesis by (cases v) (auto simp: continueResp_def successResp_def)
qed


end
