(* ===== verification/Supervisor_Props.thy ===== *)
theory Supervisor_Props
  imports Supervisor_Answers
begin

section \<open>What the supervisor guarantees to the sandbox\<close>

text \<open>
  Where connections of the sandbox go, what its DNS sockets receive, which peer a redirected
  socket names, and the cases in which the supervisor does not keep its promises.
\<close>

subsection \<open>Connections\<close>

text \<open>
  \<open>connects w\<close> lists the connect calls of the helper so far; only \<open>u_connect\<close> extends it.
\<close>

definition connect_laws :: "'w unix_calls \<Rightarrow> ('w \<Rightarrow> (int \<times> Sockaddr) list) \<Rightarrow> bool" where
  "connect_laws k connects \<longleftrightarrow> call_frame k connects \<and>
     (\<forall>fd sa w. connects (snd (u_connect k fd sa w)) = connects w @ [(fd, sa)]) \<and>
     (\<forall>f t p w. connects (snd (u_socket k f t p w)) = connects w) \<and>
     (\<forall>fd w. connects (snd (u_dup k fd w)) = connects w) \<and>
     (\<forall>fd w. connects (u_close k fd w) = connects w)"

lemma connect_laws_dests:
  assumes "connect_laws k obs"
  shows "u_connect k fd sa w = (c, w') \<Longrightarrow> obs w' = obs w @ [(fd, sa)]"
    and "u_socket k f t p w = (r, w') \<Longrightarrow> obs w' = obs w"
    and "u_dup k fd w = (r, w') \<Longrightarrow> obs w' = obs w"
    and "obs (u_close k fd w) = obs w"
proof -
  have eqs: "obs (snd (u_connect k fd sa w)) = obs w @ [(fd, sa)]"
    "obs (snd (u_socket k f t p w)) = obs w" "obs (snd (u_dup k fd w)) = obs w"
    using assms by (simp_all add: connect_laws_def)
  show "u_connect k fd sa w = (c, w') \<Longrightarrow> obs w' = obs w @ [(fd, sa)]" using eqs(1) by simp
  show "u_socket k f t p w = (r, w') \<Longrightarrow> obs w' = obs w" using eqs(2) by simp
  show "u_dup k fd w = (r, w') \<Longrightarrow> obs w' = obs w" using eqs(3) by simp
  show "obs (u_close k fd w) = obs w" using assms by (simp add: connect_laws_def)
qed

lemma connect_laws_frame: "connect_laws k obs \<Longrightarrow> call_frame k obs"
  by (simp add: connect_laws_def)

lemma closeManagedHelperFD_connects:
  "connect_laws k obs \<Longrightarrow> obs (closeManagedHelperFD k h w) = obs w"
  by (simp add: closeManagedHelperFD_def connect_laws_dests(4))

lemma CloseForPID_connects:
  assumes "connect_laws k obs"
  shows "CloseForPID k r pid fd w = (r', w') \<Longrightarrow> obs w' = obs w"
  by (auto simp: CloseForPID_def closeManagedHelperFD_connects[OF assms] split: if_splits option.splits)

lemma DupForPID_connects:
  assumes "connect_laws k obs"
  shows "DupForPID k r pid old new w = (e, r', w') \<Longrightarrow> obs w' = obs w"
  by (auto simp: DupForPID_def storeDuplicate_def Let_def closeManagedHelperFD_connects[OF assms]
      split: if_splits option.splits prod.splits sum.splits dest!: connect_laws_dests(3)[OF assms])

lemma injectLoop_connects:
  assumes "connect_laws k obs"
  shows "injectLoop k n s rid kind h w = (r, s', w') \<Longrightarrow> obs w' = obs w"
proof (induction n arbitrary: s w)
  case (Suc n)
  then show ?case
    by (auto simp: Let_def connect_laws_dests(4)[OF assms]
        split: prod.splits if_splits sum.splits
        dest!: addFDWithResult_keeps[OF connect_laws_frame[OF assms]] Suc.IH)
qed simp

lemma injectSocket_connects:
  assumes "connect_laws k obs"
  shows "injectSocket k n s req w = (r, s', w') \<Longrightarrow> obs w' = obs w"
  by (auto simp: injectSocket_def Let_def split: sum.splits option.splits prod.splits
      dest!: connect_laws_dests(2)[OF assms] injectLoop_connects[OF assms] CloseForPID_connects[OF assms])

lemma recordDuplicate_connects:
  assumes "connect_laws k obs"
  shows "recordDuplicate k s pid old (added, w) = (r, s', w') \<Longrightarrow> obs w' = obs w"
  by (auto simp: recordDuplicate_def split: sum.splits prod.splits option.splits
      dest!: DupForPID_connects[OF assms])

lemma duplicateSocket_connects:
  assumes laws: "connect_laws k obs"
  shows "duplicateSocket k a s pid req w = (r, s', w') \<Longrightarrow> obs w' = obs w"
proof -
  note fr = connect_laws_frame[OF laws]
  have rec: "recordDuplicate k s pid old f = (r, s', w') \<Longrightarrow> obs w' = obs (snd f)" for old f r s' w'
    using recordDuplicate_connects[OF laws, of s pid old "fst f" "snd f"] by simp
  have to: "dupToTarget k s pid rid st old new fl w = (r, s', w') \<Longrightarrow> obs w' = obs w"
    for rid st old new fl r s' w'
    using addFDWithResult_keeps[OF fr, of s rid "st_HelperFD st" "word_of_int new" 1 fl w]
    by (cases "addFDWithResult k s rid (st_HelperFD st) (word_of_int new) 1 fl w")
      (auto simp: dupToTarget_def split: if_splits dest!: rec)
  have above: "dupAbove k s pid rid st old m fl w = (r, s', w') \<Longrightarrow> obs w' = obs w"
    for rid st old m fl r s' w'
    unfolding dupAbove_def Let_def by (drule rec) (metis addFDAtOrAbove_keeps[OF fr] prod.collapse)
  show "duplicateSocket k a s pid req w = (r, s', w') \<Longrightarrow> obs w' = obs w"
    by (auto simp: duplicateSocket_def Let_def split: if_splits option.splits dest!: to above)
qed

text \<open>The one connect call of the supervisor.\<close>

lemma handleConnect_connects:
  assumes laws: "connect_laws k obs" and tf: "target_frame (su_targets s) obs"
    and run: "handleConnect k n s req w = (e, s', w')"
  shows "obs w' = obs w \<or>
    (\<exists>st route. Lookup (su_registry s) (cq_ChildFD req) = Some st \<and> st_Kind st = KindTCP \<and>
       routeTCPDestination (su_targets s) (st_Family st) (sa_Host (cq_Destination req))
         (sa_Port (cq_Destination req)) = Inr route \<and>
       obs w' = obs w @ [(st_HelperFD st, ro_Sockaddr route)])"
proof -
  note fr = connect_laws_frame[OF laws]
  have rec: "obs (recordOrigin k n (s\<lparr>su_registry := reg\<rparr>) fd d v) = obs v" for reg fd d v
    by (rule recordOrigin_keeps[OF fr]) (simp add: tf)
  show ?thesis
  proof (cases "Lookup (su_registry s) (cq_ChildFD req)")
    case None
    with run show ?thesis by (auto simp: handleConnect_def split: if_splits)
  next
    case (Some st)
    let ?rt = "routeTCPDestination (su_targets s) (st_Family st) (sa_Host (cq_Destination req))
      (sa_Port (cq_Destination req))"
    show ?thesis
    proof (cases ?rt)
      case (Inl err)
      with run Some show ?thesis by (auto simp: handleConnect_def split: if_splits)
    next
      case (Inr route)
      obtain c w1 where conn: "u_connect k (st_HelperFD st) (ro_Sockaddr route) w = (c, w1)" by fastforce
      have w1: "obs w1 = obs w @ [(st_HelperFD st, ro_Sockaddr route)]"
        using connect_laws_dests(1)[OF laws conn] .
      obtain e2 w2 where wait: "waitForConnectComplete k n (st_HelperFD st) 2000000000 w1 = (e2, w2)"
        by fastforce
      note w2 = waitForConnectComplete_keeps[OF fr wait]
      from run Some Inr conn wait w1 w2 rec show ?thesis
        by (auto simp: handleConnect_def Let_def split: if_splits option.splits)
    qed
  qed
qed

lemma routeTCPDestination_Inr:
  assumes "routeTCPDestination t family host port = Inr route"
  shows "port \<noteq> 53" and "ro_Addr route \<noteq> []"
    and "ro_Addr route = (if family = AF_INET6 then rt_RawTCPAddrV6 t else rt_RawTCPAddr t)"
    and "parseTCPAddr (ro_Addr route) = Inr (ro_Sockaddr route)"
    and "sockaddrMatchesFamily (ro_Sockaddr route) family"
  using assms
  by (auto simp: routeTCPDestination_def selectIngressAddrForFamily_def Let_def
      split: if_splits sum.splits)

text \<open>
  \<open>ingress_call s req w w' obs\<close>: the step from \<open>w\<close> to \<open>w'\<close> made no connect call, or one from
  the helper descriptor of a managed TCP socket to the ingress address of its family.
\<close>

definition ingress_call ::
  "'w Supervisor \<Rightarrow> ('w \<Rightarrow> (int \<times> Sockaddr) list) \<Rightarrow> 'w \<Rightarrow> 'w \<Rightarrow> bool" where
  "ingress_call s obs w w' \<longleftrightarrow> obs w' = obs w \<or>
     (\<exists>pid fd st sa addr. LookupForPID (su_registry s) pid fd = Some st \<and> st_Kind st = KindTCP \<and>
        addr = (if st_Family st = AF_INET6 then rt_RawTCPAddrV6 (su_targets s)
                else rt_RawTCPAddr (su_targets s)) \<and>
        parseTCPAddr addr = Inr sa \<and> sockaddrMatchesFamily sa (st_Family st) \<and>
        obs w' = obs w @ [(st_HelperFD st, sa)])"

lemma ingress_call_keeps: "obs w' = obs w \<Longrightarrow> ingress_call s obs w w'"
  by (simp add: ingress_call_def)

lemma ingress_call_after:
  "ingress_call s obs w1 w2 \<Longrightarrow> obs w1 = obs w \<Longrightarrow> ingress_call s obs w w2"
  by (simp add: ingress_call_def)

lemma ingress_call_before:
  "ingress_call s obs w w2 \<Longrightarrow> obs w3 = obs w2 \<Longrightarrow> ingress_call s obs w w3"
  by (simp add: ingress_call_def)

lemma handleConnect_ingress:
  assumes "connect_laws k obs" and "target_frame (su_targets s) obs"
    and "handleConnect k n s req w = (e, s', w')"
  shows "ingress_call s obs w w'"
  using handleConnect_connects[OF assms] routeTCPDestination_Inr
  unfolding ingress_call_def Lookup_def by metis

lemma redirectConnect_ingress:
  assumes laws: "connect_laws k obs" and tf: "target_frame (su_targets s) obs"
    and run: "redirectConnect k n s pid req w = (r, s', w')"
  shows "ingress_call s obs w w'"
proof -
  note fr = connect_laws_frame[OF laws]
  let ?fd = "go_int (nq_Arg0 req)"
  have tcp: "ingress_call s obs v w'" if "redirectTCP k n s pid rid q v = (r, s', w')" for rid q v
    using that
    by (auto simp: redirectTCP_def split: prod.splits option.splits
        dest!: reinstallConnectedSocket_keeps[OF fr] handleConnect_ingress[OF laws tf]
        intro: ingress_call_before)
  obtain m w1 where rd: "readProcessMemory k pid (nq_Arg1 req) (go_int (nq_Arg2 req)) w = (m, w1)"
    by fastforce
  have w1: "obs w1 = obs w" using mem_keeps(1)[OF call_frame_mem[OF fr] rd] .
  have "obs w' = obs w1 \<or> (\<exists>rid q. redirectTCP k n s pid rid q w1 = (r, s', w')) \<or> obs w' = obs w"
    using run rd
    by (auto simp: redirectConnect_def Let_def
        split: option.splits if_splits sum.splits SocketKind.splits prod.splits
        dest!: CloseForPID_connects[OF laws])
  then show ?thesis
    using w1 tcp by (metis ingress_call_after ingress_call_keeps)
qed

lemma emulated_socket_calls_keep:
  assumes mem: "mem_frame k obs" and tf: "target_frame (su_targets s) obs"
  shows "emulateDNSSendTo k s pid req w = (r, s', w') \<Longrightarrow> obs w' = obs w"
    and "emulateDNSWrite k s pid req w = (r, s', w') \<Longrightarrow> obs w' = obs w"
    and "emulateDNSSendMsg k little s pid req w = (r, s', w') \<Longrightarrow> obs w' = obs w"
    and "emulateDNSSendMMsg k little s pid req w = (r, s', w') \<Longrightarrow> obs w' = obs w"
    and "emulateDNSRead k s pid req w = (r, s', w') \<Longrightarrow> obs w' = obs w"
    and "emulateDNSRecvFrom k little s pid req w = (r, s', w') \<Longrightarrow> obs w' = obs w"
    and "emulateDNSRecvMsg k little s pid req w = (r, s', w') \<Longrightarrow> obs w' = obs w"
    and "emulateDNSRecvMMsg k little s pid req w = (r, s', w') \<Longrightarrow> obs w' = obs w"
proof -
  have keep: "f = (r, s', w') \<Longrightarrow> obs w' = obs w"
    if "f = (Inr None, s, w) \<or> (\<exists>st. one_socket obs s st w f)" for f
    using that by (auto simp: one_socket_def)
  note managed = emulated_sends_one_socket[OF mem tf] emulated_receives_one_socket[OF mem]
  note either = unmanaged_simps managed
  show "emulateDNSSendTo k s pid req w = (r, s', w') \<Longrightarrow> obs w' = obs w"
    and "emulateDNSWrite k s pid req w = (r, s', w') \<Longrightarrow> obs w' = obs w"
    and "emulateDNSSendMsg k little s pid req w = (r, s', w') \<Longrightarrow> obs w' = obs w"
    and "emulateDNSSendMMsg k little s pid req w = (r, s', w') \<Longrightarrow> obs w' = obs w"
    and "emulateDNSRead k s pid req w = (r, s', w') \<Longrightarrow> obs w' = obs w"
    and "emulateDNSRecvFrom k little s pid req w = (r, s', w') \<Longrightarrow> obs w' = obs w"
    and "emulateDNSRecvMsg k little s pid req w = (r, s', w') \<Longrightarrow> obs w' = obs w"
    and "emulateDNSRecvMMsg k little s pid req w = (r, s', w') \<Longrightarrow> obs w' = obs w"
    by (erule keep[rotated], cases "lookupManagedUDPSocket s pid req", blast intro: either,
        blast intro: either)+
qed

lemma emulate_ingress:
  assumes laws: "connect_laws k obs" and tf: "target_frame (su_targets s) obs"
    and run: "emulate k a little n s pid req w = (r, s', w')"
  shows "ingress_call s obs w w'"
proof (cases "nq_Syscall req = SYS_SOCKET a \<or> nq_Syscall req \<noteq> SYS_CONNECT a")
  case False
  with run redirectConnect_ingress[OF laws tf] show ?thesis
    by (auto simp: emulate_def Let_def)
next
  case True
  note fr = connect_laws_frame[OF laws]
  note mem = call_frame_mem[OF fr]
  note calls = emulated_socket_calls_keep[OF mem tf]
  from True run have "obs w' = obs w"
    by (auto simp: emulate_def Let_def emulateDNSPoll_def emulateDNSPPoll_def
        split: if_splits prod.splits
        dest: injectSocket_connects[OF laws] duplicateSocket_connects[OF laws] calls
          CloseForPID_connects[OF laws] emulateGetpeername_keeps[OF fr]
          emulateDNSPollFDs_keeps[OF mem] emulateDNSIoctl_keeps[OF mem])
  then show ?thesis by (rule ingress_call_keeps)
qed

text \<open>
  C7. Handling a notification makes at most one connect call, and only from the helper
  descriptor of a managed TCP socket to the helper's own ingress address for the family of that
  socket: whatever address the sandboxed process asks for, the supervisor connects it nowhere
  else.
\<close>

theorem connects_only_to_ingress:
  assumes "connect_laws k connects" and "target_frame (su_targets s) connects"
    and "processNotification k a little n s pid req w = (resp, s', w')"
  shows "connects w' = connects w \<or>
    (\<exists>p fd st sa. LookupForPID (su_registry s) p fd = Some st \<and> st_Kind st = KindTCP \<and>
       parseTCPAddr (if st_Family st = AF_INET6 then rt_RawTCPAddrV6 (su_targets s)
                     else rt_RawTCPAddr (su_targets s)) = Inr sa \<and>
       sockaddrMatchesFamily sa (st_Family st) \<and>
       connects w' = connects w @ [(st_HelperFD st, sa)])"
proof -
  obtain r where "emulate k a little n s (notificationPID pid req) req w = (r, s', w')"
    using assms(3) by (auto simp: processNotification_def split: prod.splits)
  from emulate_ingress[OF assms(1,2) this] show ?thesis
    unfolding ingress_call_def by blast
qed

end
