(* ===== verification/Dns_Queue.thy ===== *)
theory Dns_Queue
  imports Supervisor_Props
begin

section \<open>A managed DNS socket is a queue of replies\<close>

text \<open>
  The abstract specification of a managed UDP socket and the refinement: every emulated call on
  the socket is a step of a queue in which the process asks a server on port 53 and takes the
  answers in the order of its questions. The last part shows where \<^verbatim>\<open>sendmmsg\<close> leaves the
  specification.
\<close>

subsection \<open>Specification\<close>

datatype dns_call = Ask | Take | Peek

inductive queue_step ::
  "(string \<Rightarrow> byte list \<Rightarrow> byte list \<Rightarrow> bool) \<Rightarrow> dns_call \<Rightarrow> dnsPacketResponse list \<Rightarrow>
   goerr + int option \<Rightarrow> dnsPacketResponse list \<Rightarrow> bool"
  for answers where
  asked: "queue_step answers Ask q (Inr (Some (int (length query))))
            (q @ [\<lparr>pr_Payload = reply, pr_Source = server\<rparr>])"
    if "sa_Port server = 53" and "answers (sa_Host server) query reply" and "length reply \<le> 65536"
| taken: "queue_step answers Take (r # q) (Inr (Some n)) q"
    if "0 \<le> n" and "n \<le> int (length (pr_Payload r))"
| peeked: "queue_step answers Peek (r # q) (Inr (Some n)) (r # q)"
    if "0 \<le> n" and "n \<le> int (length (pr_Payload r))"
| refused: "queue_step answers call q r q" if "\<And>v. r \<noteq> Inr (Some v)"

inductive_cases queue_step_emptyE: "queue_step answers Take [] (Inr (Some n)) q"

lemma queue_step_empty: "\<not> queue_step answers Take [] (Inr (Some n)) q"
  by (auto elim: queue_step_emptyE)

text \<open>The abstraction: the queue of a socket, what its servers answer, the kind of a call.\<close>

definition dns_queue :: "'w Supervisor \<Rightarrow> int \<Rightarrow> int \<Rightarrow> dnsPacketResponse list" where
  "dns_queue s pid fd =
     (case LookupForPID (su_registry s) pid fd of None \<Rightarrow> [] | Some st \<Rightarrow> st_PendingDNSResponses st)"

definition udp_answers :: "'w RuntimeTargets \<Rightarrow> string \<Rightarrow> byte list \<Rightarrow> byte list \<Rightarrow> bool" where
  "udp_answers t host query reply \<longleftrightarrow>
     (\<exists>f w w'. rt_DNSRoundTrip t = Some f \<and> f ''udp'' host 53 query w = (Inr reply, w'))"

definition receive_call :: "int \<Rightarrow> dns_call" where
  "receive_call flags = (if flags AND MSG_PEEK \<noteq> 0 then Peek else Take)"

definition dns_call_of :: "arch \<Rightarrow> ScmpNotifReq \<Rightarrow> dns_call" where
  "dns_call_of a req =
     (let nr = nq_Syscall req in
      if nr \<in> {SYS_SENDTO a, SYS_WRITE a, SYS_SENDMSG a} then Ask
      else if nr = SYS_RECVFROM a then receive_call (go_int (nq_Arg3 req))
      else if nr = SYS_RECVMSG a then receive_call (go_int (nq_Arg2 req))
      else Take)"

subsection \<open>Refinement\<close>

lemma dns_queue_lookup: "LookupForPID (su_registry s) pid fd = Some st \<Longrightarrow>
    dns_queue s pid fd = st_PendingDNSResponses st"
  by (simp add: dns_queue_def)

lemma dns_queue_store:
  assumes "registry_wf (su_registry s)" and "0 \<le> pid"
    and "LookupForPID (su_registry s) pid fd = Some st" and "same_socket st st'"
  shows "dns_queue (storeState s st') pid fd = st_PendingDNSResponses st'"
proof -
  have "st_ChildFD st = fd" using fds.lookup_entry(2)[OF assms(1-3)] .
  then have "LookupForPID (su_registry (storeState s st')) pid fd = Some st'"
    using fds.update_lookup[OF assms(1-3)] assms(4)
    by (simp add: storeState_def Insert_def same_socket_def)
  then show ?thesis by (rule dns_queue_lookup)
qed

lemma dnsRoundTrip_answers:
  assumes "dnsRoundTrip s d p w = (Inr reply, w')"
  shows "sa_Port d = 53" and "udp_answers (su_targets s) (sa_Host d) p reply" and "length reply \<le> 65536"
  using assms
  by (auto simp: dnsRoundTrip_def udp_answers_def split: option.splits if_splits prod.splits sum.splits)

text \<open>A managed socket: the state a call finds.\<close>

definition managed_socket :: "'w Supervisor \<Rightarrow> int \<Rightarrow> int \<Rightarrow> SocketState \<Rightarrow> bool" where
  "managed_socket s pid fd st \<longleftrightarrow> registry_wf (su_registry s) \<and> 0 \<le> pid \<and>
     LookupForPID (su_registry s) pid fd = Some st"

lemma queue_step_keep:
  "managed_socket s pid fd st \<Longrightarrow> (\<And>v. r \<noteq> Inr (Some v)) \<Longrightarrow>
   queue_step answers call (st_PendingDNSResponses st) r (dns_queue s pid fd)"
  by (simp add: managed_socket_def dns_queue_lookup queue_step.refused)

lemma sendDNS_queue:
  assumes "managed_socket s pid fd st" and "sendDNS k s p st payload a n w = (r, s', w')"
  shows "queue_step (udp_answers (su_targets s)) Ask (st_PendingDNSResponses st) r (dns_queue s' pid fd)"
proof -
  have store: "dns_queue (storeState s (enqueueReply st reply d)) pid fd =
      st_PendingDNSResponses st @ [\<lparr>pr_Payload = reply, pr_Source = d\<rparr>]" for reply d
    using assms(1) dns_queue_store[of s pid fd st "enqueueReply st reply d"]
    by (simp add: managed_socket_def) (simp add: enqueueReply_def)
  have step: "queue_step (udp_answers (su_targets s)) Ask (st_PendingDNSResponses st)
      (Inr (Some (int (length payload)))) (st_PendingDNSResponses st @ [\<lparr>pr_Payload = reply, pr_Source = d\<rparr>])"
    if "dnsRoundTrip s d payload v = (Inr reply, v')" for d reply v v'
    using dnsRoundTrip_answers[OF that] by (intro queue_step.asked)
  have keep: "queue_step (udp_answers (su_targets s)) Ask (st_PendingDNSResponses st) (Inl e) (dns_queue s pid fd)"
    "queue_step (udp_answers (su_targets s)) Ask (st_PendingDNSResponses st) (Inr None) (dns_queue s pid fd)" for e
    by (simp_all add: queue_step_keep[OF assms(1)])
  from assms(2) keep show ?thesis
    by (auto simp: sendDNS_def store split: prod.splits sum.splits if_splits intro: step)
qed

lemma writeProcessPayload_count:
  "writeProcessPayload k pid a n p w = (Inr m, w') \<Longrightarrow> 0 \<le> m \<and> m \<le> int (length p)"
  by (auto simp: writeProcessPayload_def Let_def split: if_splits prod.splits option.splits)

lemma writeIovecs_count:
  "writeIovecs k pid iovs written p w = (Inr m, w') \<Longrightarrow> 0 \<le> written \<Longrightarrow> written \<le> int (length p) \<Longrightarrow>
   0 \<le> m \<and> m \<le> int (length p)"
proof (induction iovs arbitrary: written w)
  case (Cons iov iovs)
  show ?case
    using Cons.prems Cons.IH
    by (auto simp: Let_def min_def not_less split: if_splits prod.splits option.splits)
qed auto

lemma writePayloadToIovecs_count:
  "writePayloadToIovecs k little pid a n p w = (Inr (m, t), w') \<Longrightarrow> 0 \<le> m \<and> m \<le> int (length p)"
  by (auto simp: writePayloadToIovecs_def split: if_splits prod.splits sum.splits
      dest: writeIovecs_count)

lemma receive_queue:
  assumes "managed_socket s pid fd st" and "takePendingDNSResponse st = Inr resp"
    and "0 \<le> n" and "n \<le> int (length (pr_Payload resp))"
  shows "queue_step answers Take (st_PendingDNSResponses st) (Inr (Some n))
      (dns_queue (storeState s (dropReplies 1 st)) pid fd)"
    and "queue_step answers (receive_call flags) (st_PendingDNSResponses st)
      (Inr (Some n)) (dns_queue (keepIfPeek s st flags 1) pid fd)"
proof -
  obtain q where q: "st_PendingDNSResponses st = resp # q"
    using assms(2) by (auto simp: takePendingDNSResponse_def split: list.splits)
  have "dns_queue (storeState s (dropReplies 1 st)) pid fd = q"
    using assms(1) dns_queue_store[of s pid fd st "dropReplies 1 st"]
    by (simp add: managed_socket_def) (simp add: dropReplies_def q)
  moreover have "dns_queue s pid fd = resp # q"
    using assms(1) q by (simp add: managed_socket_def dns_queue_lookup)
  ultimately show "queue_step answers Take (st_PendingDNSResponses st) (Inr (Some n))
      (dns_queue (storeState s (dropReplies 1 st)) pid fd)"
    and "queue_step answers (receive_call flags) (st_PendingDNSResponses st)
      (Inr (Some n)) (dns_queue (keepIfPeek s st flags 1) pid fd)"
    using assms(3,4) by (auto simp: q keepIfPeek_def receive_call_def intro: queue_step.taken queue_step.peeked)
qed

lemma emulated_sends_queue:
  assumes "managed_socket s pid (go_int (nq_Arg0 req)) st" and "lookupManagedUDPSocket s pid req = Some st"
    and "emulateDNSSendTo k s pid req w = (r, s', w') \<or> emulateDNSWrite k s pid req w = (r, s', w') \<or>
      emulateDNSSendMsg k little s pid req w = (r, s', w')"
  shows "queue_step (udp_answers (su_targets s)) Ask (st_PendingDNSResponses st) r
    (dns_queue s' pid (go_int (nq_Arg0 req)))"
proof -
  have keep: "queue_step (udp_answers (su_targets s)) Ask (st_PendingDNSResponses st) (Inl e)
      (dns_queue s pid (go_int (nq_Arg0 req)))" for e
    by (simp add: queue_step_keep[OF assms(1)])
  from assms(3) keep show ?thesis
    by (auto simp: assms(2) emulateDNSSendTo_def emulateDNSWrite_def emulateDNSSendMsg_def
        split: prod.splits sum.splits if_splits intro: sendDNS_queue[OF assms(1)])
qed

lemma emulated_receives_queue:
  assumes "managed_socket s pid (go_int (nq_Arg0 req)) st" and "lookupManagedUDPSocket s pid req = Some st"
  shows "emulateDNSRead k s pid req w = (r, s', w') \<Longrightarrow>
      queue_step answers Take (st_PendingDNSResponses st) r (dns_queue s' pid (go_int (nq_Arg0 req)))"
    and "emulateDNSRecvFrom k little s pid req w = (r, s', w') \<Longrightarrow>
      queue_step answers (receive_call (go_int (nq_Arg3 req)))
        (st_PendingDNSResponses st) r (dns_queue s' pid (go_int (nq_Arg0 req)))"
    and "emulateDNSRecvMsg k little s pid req w = (r, s', w') \<Longrightarrow>
      queue_step answers (receive_call (go_int (nq_Arg2 req)))
        (st_PendingDNSResponses st) r (dns_queue s' pid (go_int (nq_Arg0 req)))"
proof -
  have keep: "queue_step answers call (st_PendingDNSResponses st) (Inl e)
      (dns_queue s pid (go_int (nq_Arg0 req)))" for e call
    by (simp add: queue_step_keep[OF assms(1)])
  note rec = receive_queue[OF assms(1), unfolded One_nat_def]
  show "emulateDNSRead k s pid req w = (r, s', w') \<Longrightarrow>
      queue_step answers Take (st_PendingDNSResponses st) r (dns_queue s' pid (go_int (nq_Arg0 req)))"
    using keep by (auto simp: assms(2) emulateDNSRead_def split: prod.splits sum.splits
        dest!: writeProcessPayload_count intro: rec(1))
  show "emulateDNSRecvFrom k little s pid req w = (r, s', w') \<Longrightarrow>
      queue_step answers (receive_call (go_int (nq_Arg3 req)))
        (st_PendingDNSResponses st) r (dns_queue s' pid (go_int (nq_Arg0 req)))"
    using keep by (auto simp: assms(2) emulateDNSRecvFrom_def Let_def
        split: prod.splits sum.splits option.splits dest!: writeProcessPayload_count intro: rec(2))
  show "emulateDNSRecvMsg k little s pid req w = (r, s', w') \<Longrightarrow>
      queue_step answers (receive_call (go_int (nq_Arg2 req)))
        (st_PendingDNSResponses st) r (dns_queue s' pid (go_int (nq_Arg0 req)))"
    using keep by (auto simp: assms(2) emulateDNSRecvMsg_def Let_def
        split: prod.splits sum.splits option.splits dest!: writePayloadToIovecs_count intro: rec(2))
qed


end
