(* ===== verification/Supervisor_Limits.thy ===== *)
theory Supervisor_Limits
  imports Dns_Queue
begin

section \<open>Where the supervisor departs from its promises\<close>

text \<open>
  Descriptors are looked up by process with a fallback to any process that has the number. The
  fallback serves inherited descriptors; these theorems show what it does to a process that closes
  an inherited descriptor and to two processes that both have a managed socket under one number.
  The other two concern message counts that overflow and replies of a partly failed
  \<^verbatim>\<open>sendmmsg\<close>.
\<close>

subsection \<open>Inherited descriptors\<close>

text \<open>
  When a process closes a descriptor that it inherited, and the number is managed for one
  other process only, the other process loses its managed socket: its state is deleted and its
  helper descriptor is closed, though that process still has the descriptor open.
\<close>

theorem close_of_inherited_drops_owner:
  assumes "registry_wf r" and "0 \<le> pid" and "map_of r (p, fd) = Some st" and "p \<noteq> pid"
    and "\<And>p'. map_of r (p', fd) \<noteq> None \<Longrightarrow> p' = p"
  shows "CloseForPID k r pid fd w =
      (removeForPID r pid fd, closeManagedHelperFD k (st_HelperFD st) w) \<and>
    map_of (removeForPID r pid fd) (p, fd) = None"
proof -
  have wf: "0 \<le> fd" "0 \<le> p" using registry_wf_entry(2,3)[OF assms(1,3)] by simp_all
  have none: "map_of r (pid, fd) = None" using assms(4,5) by blast
  have key: "lookupKeyLocked r pid fd = Some (p, fd)"
    unfolding lookupKeyLocked_Some[OF assms(1)] using assms(3,5) none by auto
  show ?thesis
    using fds.discard_inherited[OF assms(1-4)] assms(2,3,5) key wf
    by (auto simp: CloseForPID_def removeForPID_def)
qed

text \<open>
  When two processes have a managed TCP socket under the same number, a connect on either is
  not made: the handler looks the number up without the process, finds it ambiguous, and the
  unconnected socket is installed again. The process is told that the connection succeeded.
\<close>

theorem ambiguous_connect_not_made:
  assumes "registry_wf (su_registry s)" and "0 < p1" and "0 < p2" and "p1 \<noteq> p2"
    and "map_of (su_registry s) (p1, fd) = Some st" and "map_of (su_registry s) (p2, fd) \<noteq> None"
    and "map_of (su_registry s) (0, fd) = None"
  shows "redirectTCP k n s p1 rid \<lparr>cq_ChildFD = fd, cq_Destination = dest\<rparr> w =
    (case reinstallConnectedSocket k s rid st w of
       (Some e, w') \<Rightarrow> (Inl e, s, w') | (None, w') \<Rightarrow> (Inr (Some 0), s, w'))"
proof -
  have fd: "0 \<le> fd" using registry_wf_entry(3)[OF assms(1,5)] by simp
  have "Lookup (su_registry s) fd = None"
    unfolding Lookup_def
    using LookupForPID_iff[OF assms(1), of 0 fd] assms(4-7) by (metis (lifting) not_None_eq order_refl)
  moreover have "LookupForPID (su_registry s) p1 fd = Some st"
    using fds.lookup_own[OF assms(1) _ assms(5)] assms(2) by simp
  ultimately show ?thesis
    using fd by (simp add: redirectTCP_def handleConnect_def)
qed

subsection \<open>Message counts\<close>

text \<open>
  A \<^verbatim>\<open>sendmmsg\<close> or \<^verbatim>\<open>recvmmsg\<close> on a managed UDP socket with a count of \<open>2 ^ 58\<close> crashes the
  helper: the size of the message headers wraps around to zero, nothing is read, and the slice of
  the decoded headers cannot be made. The notification is never answered.
\<close>

theorem huge_message_count_panics:
  assumes "lookupManagedUDPSocket s (notificationPID pid req) req = Some st"
    and "nq_Syscall req = SYS_SENDMMSG a \<or> nq_Syscall req = SYS_RECVMMSG a"
    and "nq_Arg2 req = 0x400000000000000"
  shows "processNotification k a little n s pid req w = (None, s, w)"
proof -
  have count: "go_int (nq_Arg2 req) = 288230376151711744" by (simp add: assms(3))
  have vals: "readProcessValues k 64 dec p addr 288230376151711744 w =
      (Inl (Panic ''makeslice: len out of range''), w)" for dec :: "byte list \<Rightarrow> rawMmsghdr" and p addr
    by (simp add: readProcessValues_def readProcessMemoryExact_def wrap_int_def maxAlloc_def)
  have "emulateDNSSendMMsg k little s (notificationPID pid req) req w =
      (Inl (Panic ''makeslice: len out of range''), s, w)"
    "emulateDNSRecvMMsg k little s (notificationPID pid req) req w =
      (Inl (Panic ''makeslice: len out of range''), s, w)"
    using assms(1) by (simp_all add: emulateDNSSendMMsg_def emulateDNSRecvMMsg_def count vals)
  then show ?thesis
    using assms(2) by (cases a) (auto simp: processNotification_def emulate_def SYS_SENDMMSG_def
        SYS_RECVMMSG_def SYS_SOCKET_def SYS_CONNECT_def SYS_GETPEERNAME_def SYS_READ_def SYS_SENDTO_def
        SYS_WRITE_def SYS_RECVFROM_def SYS_SENDMSG_def SYS_RECVMSG_def)
qed

text \<open>
  When the second of two messages has control data, the call reports one message sent; its reply
  is in the loop's copy of the state, which is not stored.
\<close>

lemma partial_sendmmsg_loses_reply:
  assumes "lookupManagedUDPSocket s pid req = Some st" and "0 \<le> go_int (nq_Arg2 req)"
    and "readProcessValues k 64 (decodeMmsghdr little) pid (nq_Arg1 req) (go_int (nq_Arg2 req)) w =
      (Inr [m1, m2], w1)"
    and "sendMMsgLoop k little s pid (nq_Arg1 req) 0 st [m1] w1 = (Inr (Some 1), Some st', w')"
    and "mh_Control (mm_Hdr m2) \<noteq> 0" and "mh_Controllen (mm_Hdr m2) > 0"
  shows "emulateDNSSendMMsg k little s pid req w = (Inr (Some 1), s, w')"
    and "\<exists>r. st_PendingDNSResponses st' = st_PendingDNSResponses st @ [r]"
proof -
  have "sendMMsgLoop k little s pid (nq_Arg1 req) 0 st [m1, m2] w1 = (Inr (Some 1), None, w') \<and>
      (\<exists>r. st_PendingDNSResponses st' = st_PendingDNSResponses st @ [r])"
    using assms(4-6)
    by (auto simp: sendMMsgStop_def enqueueReply_def Let_def
        split: if_splits prod.splits sum.splits option.splits)
  then show "emulateDNSSendMMsg k little s pid req w = (Inr (Some 1), s, w')"
    and "\<exists>r. st_PendingDNSResponses st' = st_PendingDNSResponses st @ [r]"
    using assms(1-3) by (auto simp: emulateDNSSendMMsg_def)
qed

end
