(* ===== verification/Supervisor_Examples.thy ===== *)
theory Supervisor_Examples
  imports Supervisor_Limits
begin

section \<open>A kernel for the supervisor\<close>

text \<open>
  A small kernel that satisfies the laws the properties of the supervisor assume: a table of open
  descriptors, the connect calls made, a clock, and the memory of one process. The instances of
  the properties below run the supervisor on it.
\<close>

record ex_world =
  ex_fds :: "int list"
  ex_connects :: "(int \<times> Sockaddr) list"
  ex_clock :: int

definition ex_world0 :: ex_world where
  "ex_world0 = \<lparr>ex_fds = [0, 1, 2], ex_connects = [], ex_clock = 0\<rparr>"

definition ex_fresh :: "ex_world \<Rightarrow> int" where
  "ex_fresh w = foldr max (ex_fds w) 2 + 1"

definition ex_open :: "ex_world \<Rightarrow> int syscall_result \<times> ex_world" where
  "ex_open w = (Inr (ex_fresh w), w\<lparr>ex_fds := ex_fresh w # ex_fds w\<rparr>)"

text \<open>The address 93.184.216.34, port 443, wherever the process points.\<close>

definition ex_memory :: "byte list" where
  "ex_memory = [2, 0, 1, 187, 93, 184, 216, 34, 0, 0, 0, 0, 0, 0, 0, 0]"

definition example_kernel :: "ex_world unix_calls" where
  "example_kernel =
     \<lparr>u_socket = (\<lambda>f t p. ex_open),
      u_close = (\<lambda>fd w. w\<lparr>ex_fds := removeAll fd (ex_fds w)\<rparr>),
      u_dup = (\<lambda>fd. ex_open),
      u_connect = (\<lambda>fd sa w. (None, w\<lparr>ex_connects := ex_connects w @ [(fd, sa)]\<rparr>)),
      u_soerror = (\<lambda>fd w. (Inr 0, w)),
      u_poll = (\<lambda>fd t w. (Inr 1, w)),
      u_now = (\<lambda>w. (ex_clock w, w\<lparr>ex_clock := ex_clock w + 1\<rparr>)),
      u_sleep = (\<lambda>t w. w),
      u_getsockname = (\<lambda>fd w. (Inr (SockaddrInet4 99 [127, 0, 0, 1]), w)),
      u_addfd = (\<lambda>nfd rid src new fl nfl w. (Inr (uint new), w)),
      u_readv = (\<lambda>pid a n w. (Inr (take (nat n) ex_memory), w)),
      u_writev = (\<lambda>pid a d w. (Inr (int (length d)), w))\<rparr>"

definition ex_targets :: "ex_world RuntimeTargets" where
  "ex_targets =
     \<lparr>rt_DNSRoundTrip = Some (\<lambda>n h p d w. (Inr d, w)), rt_RawTCPAddr = ''127.0.0.1:8443'',
      rt_RawTCPAddrV6 = [], rt_RecordRawTCPOrigin = Some (\<lambda>a h p w. w)\<rparr>"

lemma ex_fresh_new: "ex_fresh w \<notin> set (ex_fds w)" "3 \<le> ex_fresh w"
proof -
  have "x \<le> foldr max xs (2::int)" if "x \<in> set xs" for x xs
    using that by (induction xs) auto
  then show "ex_fresh w \<notin> set (ex_fds w)" by (force simp: ex_fresh_def)
  have "2 \<le> foldr max xs (2::int)" for xs by (induction xs) auto
  then show "3 \<le> ex_fresh w" using add_mono[of 2 _ 1 1] by (simp add: ex_fresh_def)
qed

lemma example_kernel_fd_laws: "fd_laws example_kernel (\<lambda>w. set (ex_fds w))"
  using ex_fresh_new order_trans[OF _ ex_fresh_new(2), of 0]
  by (simp add: fd_laws_def example_kernel_def ex_open_def set_removeAll)

lemma example_kernel_connect_laws: "connect_laws example_kernel ex_connects"
  by (simp add: connect_laws_def call_frame_def mem_frame_def example_kernel_def ex_open_def)

lemma example_kernel_clock_laws: "clock_laws example_kernel ex_clock"
  by (simp add: clock_laws_def example_kernel_def)

lemma example_kernel_addfd_limit: "addfd_limit example_kernel 0"
  by (simp add: addfd_limit_def example_kernel_def)

lemma ex_targets_frame:
  "target_frame ex_targets (\<lambda>w. set (ex_fds w))" "target_frame ex_targets ex_connects"
  "round_trip_returns ex_targets"
  by (simp_all add: target_frame_def round_trip_returns_def ex_targets_def)

subsection \<open>A socket and its connection\<close>

definition ex_socket_call :: ScmpNotifReq where
  "ex_socket_call =
     \<lparr>nq_ID = 1, nq_Pid = 7, nq_Syscall = 41, nq_Arg0 = 2, nq_Arg1 = 1, nq_Arg2 = 0,
      nq_Arg3 = 0, nq_Arg4 = 0, nq_Arg5 = 0\<rparr>"

definition ex_connect_call :: ScmpNotifReq where
  "ex_connect_call =
     \<lparr>nq_ID = 2, nq_Pid = 7, nq_Syscall = 42, nq_Arg0 = 256, nq_Arg1 = 4096, nq_Arg2 = 16,
      nq_Arg3 = 0, nq_Arg4 = 0, nq_Arg5 = 0\<rparr>"

abbreviation ex_run where
  "ex_run s req w \<equiv> processNotification example_kernel Amd64 True 10 s 7 req w"

definition ex_state1 :: "ex_world Supervisor" where
  "ex_state1 = fst (snd (ex_run (NewSupervisor ex_targets) ex_socket_call ex_world0))"

definition ex_world1 :: ex_world where
  "ex_world1 = snd (snd (ex_run (NewSupervisor ex_targets) ex_socket_call ex_world0))"

lemma ex_state1_values:
  "map (\<lambda>(key, st). st_HelperFD st) (su_registry ex_state1) = [3]" "ex_fds ex_world1 = [3, 0, 1, 2]"
  "fst (ex_run (NewSupervisor ex_targets) ex_socket_call ex_world0) = Some (successResp 1 256)"
  by code_simp+

lemma ex_state1_run:
  "ex_run (NewSupervisor ex_targets) ex_socket_call ex_world0 =
     (Some (successResp 1 256), ex_state1, ex_world1)"
  by (simp add: prod_eq_iff ex_state1_values(3)) (simp add: ex_state1_def ex_world1_def)

lemma ex_state1_reached:
  "supervisor_run example_kernel (\<lambda>w. set (ex_fds w)) Amd64 True 10 7 (NewSupervisor ex_targets)
     ex_world0 ex_state1 ex_world1"
  by (rule supervisor_run.notification[OF supervisor_run.start ex_state1_run])

lemma injectLoop_targets:
  "injectLoop k n s rid kind h w = (r, s', w') \<Longrightarrow> su_targets s' = su_targets s"
proof (induction n arbitrary: s w)
  case (Suc n)
  then show ?case
    by (auto simp: Let_def releaseChildFD_def reserveChildFD_keeps
        split: prod.splits if_splits sum.splits dest!: Suc.IH)
qed simp

lemma injectSocket_targets:
  "injectSocket k n s req w = (r, s', w') \<Longrightarrow> su_targets s' = su_targets s"
  by (auto simp: injectSocket_def Let_def split: sum.splits option.splits prod.splits
      dest!: injectLoop_targets)

lemma ex_state1_targets: "su_targets ex_state1 = ex_targets"
proof -
  have "emulate example_kernel Amd64 True 10 (NewSupervisor ex_targets) (notificationPID 7 ex_socket_call)
      ex_socket_call ex_world0 = injectSocket example_kernel 10 (NewSupervisor ex_targets) ex_socket_call ex_world0"
    by (simp add: emulate_def ex_socket_call_def SYS_SOCKET_def)
  with ex_state1_run injectSocket_targets show ?thesis
    by (fastforce simp: processNotification_def NewSupervisor_def split: prod.splits)
qed


theorem connects_only_to_ingress_witness:
  "ex_connects (snd (snd (ex_run ex_state1 ex_connect_call ex_world1))) =
     [(3, SockaddrInet4 8443 [127, 0, 0, 1])] \<and>
   (\<exists>p fd st. LookupForPID (su_registry ex_state1) p fd = Some st \<and> st_HelperFD st = 3 \<and>
      parseTCPAddr ''127.0.0.1:8443'' = Inr (SockaddrInet4 8443 [127, 0, 0, 1]))"
proof -
  let ?r = "ex_run ex_state1 ex_connect_call ex_world1"
  have eq: "?r = (fst ?r, fst (snd ?r), snd (snd ?r))" by simp
  have cs: "ex_connects (snd (snd ?r)) = [(3, SockaddrInet4 8443 [127, 0, 0, 1])]"
    "ex_connects ex_world1 = []" "parseTCPAddr ''127.0.0.1:8443'' = Inr (SockaddrInet4 8443 [127, 0, 0, 1])"
    by code_simp+
  have tf: "target_frame (su_targets ex_state1) ex_connects"
    by (simp add: ex_state1_targets ex_targets_frame)
  from connects_only_to_ingress[OF example_kernel_connect_laws tf eq] cs
  show ?thesis by auto
qed

definition ex_close_call :: ScmpNotifReq where
  "ex_close_call =
     \<lparr>nq_ID = 3, nq_Pid = 7, nq_Syscall = 3, nq_Arg0 = 256, nq_Arg1 = 0, nq_Arg2 = 0,
      nq_Arg3 = 0, nq_Arg4 = 0, nq_Arg5 = 0\<rparr>"

lemma ex_close_call_id: "nq_ID ex_close_call = 3"
  by (simp add: ex_close_call_def)


subsection \<open>A DNS socket\<close>

text \<open>A UDP socket of process 7 under number 512 that is connected to the server 9.9.9.9.\<close>

definition ex_udp :: "int \<Rightarrow> SocketState" where
  "ex_udp pid = (new_state KindUDP 512 5 2 2 0)
     \<lparr>st_ChildPID := pid, st_DNSManaged := True, st_ConnectedHost := ''9.9.9.9'', st_ConnectedPort := 53\<rparr>"

definition ex_dns :: "ex_world Supervisor" where
  "ex_dns = (NewSupervisor ex_targets)\<lparr>su_registry := [((7, 512), ex_udp 7)]\<rparr>"

definition ex_write_call :: ScmpNotifReq where
  "ex_write_call =
     \<lparr>nq_ID = 4, nq_Pid = 7, nq_Syscall = 1, nq_Arg0 = 512, nq_Arg1 = 4096, nq_Arg2 = 4,
      nq_Arg3 = 0, nq_Arg4 = 0, nq_Arg5 = 0\<rparr>"

lemma ex_dns_managed:
  "registry_wf (su_registry ex_dns)" "lookupManagedUDPSocket ex_dns 7 ex_write_call = Some (ex_udp 7)"
proof -
  show "registry_wf (su_registry ex_dns)"
    by (simp add: registry_wf_def ex_dns_def ex_udp_def new_state_def)
  show "lookupManagedUDPSocket ex_dns 7 ex_write_call = Some (ex_udp 7)"
    by (simp add: lookupManagedUDPSocket_def ex_write_call_def ex_dns_def LookupForPID_def
        lookupKeyLocked_def) (simp add: ex_udp_def new_state_def)
qed

lemma ex_write_result:
  "emulate example_kernel Amd64 True 0 ex_dns 7 ex_write_call ex_world0 =
     (Inr (Some 4), storeState ex_dns (enqueueReply (ex_udp 7) [2, 0, 1, 187]
        \<lparr>sa_Family = 2, sa_Host = ''9.9.9.9'', sa_Port = 53\<rparr>), ex_world0)"
proof -
  have payload: "readProcessPayload example_kernel 7 4096 4 ex_world0 = (Inr [2, 0, 1, 187], ex_world0)"
    by (simp add: readProcessPayload_def readProcessMemoryExact_def readProcessMemory_def maxAlloc_def
        example_kernel_def ex_memory_def)
  have "trim_space ''9.9.9.9'' \<noteq> []" by code_simp
  then have dest: "resolveDNSDestination example_kernel 7 (ex_udp 7) 0 0 w =
      (Inr (\<lparr>sa_Family = 2, sa_Host = ''9.9.9.9'', sa_Port = 53\<rparr>, True), w)" for w
    by (simp add: resolveDNSDestination_def ex_udp_def new_state_def peernameFamily_def)
  have "emulateDNSWrite example_kernel ex_dns 7 ex_write_call ex_world0 =
     (Inr (Some 4), storeState ex_dns (enqueueReply (ex_udp 7) [2, 0, 1, 187]
        \<lparr>sa_Family = 2, sa_Host = ''9.9.9.9'', sa_Port = 53\<rparr>), ex_world0)"
    by (simp add: emulateDNSWrite_def ex_dns_managed(2)) (simp add: ex_write_call_def payload sendDNS_def
        dest dnsRoundTrip_def ex_dns_def NewSupervisor_def ex_targets_def)
  then show ?thesis
    by (simp add: emulate_def ex_write_call_def SYS_SOCKET_def SYS_CONNECT_def SYS_GETPEERNAME_def
        SYS_READ_def SYS_SENDTO_def SYS_WRITE_def)
qed


definition ex_sendmmsg_call :: ScmpNotifReq where
  "ex_sendmmsg_call = ex_write_call\<lparr>nq_Syscall := 307, nq_Arg2 := 0x400000000000000\<rparr>"

theorem huge_message_count_panics_witness:
  "processNotification example_kernel Amd64 True 0 ex_dns 7 ex_sendmmsg_call ex_world0 =
     (None, ex_dns, ex_world0)"
proof -
  have "lookupManagedUDPSocket ex_dns (notificationPID 7 ex_sendmmsg_call) ex_sendmmsg_call = Some (ex_udp 7)"
    using ex_dns_managed(2)
    by (simp add: lookupManagedUDPSocket_def ex_sendmmsg_call_def notificationPID_def ex_write_call_def)
  then show ?thesis
    by (rule huge_message_count_panics) (simp_all add: ex_sendmmsg_call_def SYS_SENDMMSG_def)
qed

theorem close_of_inherited_drops_owner_witness:
  "CloseForPID example_kernel (su_registry ex_dns) 8 512 (ex_world0\<lparr>ex_fds := [5, 0, 1, 2]\<rparr>) =
     ([], ex_world0)"
proof -
  have p: "map_of (su_registry ex_dns) (7, 512) = Some (ex_udp 7)"
    "\<And>p'. map_of (su_registry ex_dns) (p', 512) \<noteq> None \<Longrightarrow> p' = 7"
    by (auto simp: ex_dns_def split: if_splits)
  have "removeForPID (su_registry ex_dns) 8 512 = []"
    "closeManagedHelperFD example_kernel (st_HelperFD (ex_udp 7)) (ex_world0\<lparr>ex_fds := [5, 0, 1, 2]\<rparr>) = ex_world0"
    by code_simp+
  with close_of_inherited_drops_owner[OF ex_dns_managed(1) _ p(1) _ p(2), of 8 example_kernel
      "ex_world0\<lparr>ex_fds := [5, 0, 1, 2]\<rparr>"]
  show ?thesis by simp
qed

definition ex_tcp :: "int \<Rightarrow> int \<Rightarrow> SocketState" where
  "ex_tcp pid helperFD = (new_state KindTCP 300 helperFD 2 1 0)\<lparr>st_ChildPID := pid\<rparr>"

definition ex_shared :: "ex_world Supervisor" where
  "ex_shared = (NewSupervisor ex_targets)
     \<lparr>su_registry := [((7, 300), ex_tcp 7 5), ((8, 300), ex_tcp 8 6)]\<rparr>"

theorem ambiguous_connect_not_made_witness:
  "redirectTCP example_kernel 0 ex_shared 7 1
     \<lparr>cq_ChildFD = 300, cq_Destination = \<lparr>sa_Family = 2, sa_Host = ''93.184.216.34'', sa_Port = 443\<rparr>\<rparr>
     ex_world0 = (Inr (Some 0), ex_shared, ex_world0)"
proof -
  have wf: "registry_wf (su_registry ex_shared)"
    by (simp add: registry_wf_def ex_shared_def ex_tcp_def new_state_def)
  have ps: "map_of (su_registry ex_shared) (7, 300) = Some (ex_tcp 7 5)"
    "map_of (su_registry ex_shared) (8, 300) \<noteq> None" "map_of (su_registry ex_shared) (0, 300) = None"
    by (simp_all add: ex_shared_def)
  have "reinstallConnectedSocket example_kernel ex_shared 1 (ex_tcp 7 5) ex_world0 = (None, ex_world0)"
    by (simp add: reinstallConnectedSocket_def addFDWithResult_def ex_tcp_def new_state_def
        ex_shared_def NewSupervisor_def example_kernel_def)
  with ambiguous_connect_not_made[OF wf _ _ _ ps] show ?thesis by simp
qed

end
