(* ===== verification/Notify_Queue.thy ===== *)
theory Notify_Queue
  imports Dns_Emulation "HOL-Library.Sublist"
begin

section \<open>Turns of notifications: seccompnotify/lifecycle\_linux.go\<close>

text \<open>
  Every notification is handled by its own goroutine. Those of one process take turns: each waits
  for the channel of its predecessor and closes its own when it is done. The steps of the
  goroutines interleave freely; a step is what the code does between two synchronisations.
\<close>

subsection \<open>The queue\<close>

text \<open>Channels are numbered in the order they are made; a flag tells whether one is closed.\<close>

record notify_queue =
  tq_Tails :: "(fdRegistryKey \<times> nat) list"
  tq_Refs :: "(fdRegistryKey \<times> int) list"
  tq_Chans :: "bool list"

definition refs_of :: "notify_queue \<Rightarrow> fdRegistryKey \<Rightarrow> int" where
  "refs_of q key = (case map_of (tq_Refs q) key of None \<Rightarrow> 0 | Some n \<Rightarrow> n)"

definition notificationOpKey :: "int \<Rightarrow> ScmpNotifReq \<Rightarrow> fdRegistryKey" where
  "notificationOpKey pid req = (normalizeRegistryPID (notificationPID pid req), - 1)"

definition enqueueNotificationTurn ::
  "notify_queue \<Rightarrow> int \<Rightarrow> ScmpNotifReq \<Rightarrow> nat option \<times> nat \<times> notify_queue" where
  "enqueueNotificationTurn q pid req =
     (let key = notificationOpKey pid req;
          waitForTurn = map_of (tq_Tails q) key;
          doneCh = length (tq_Chans q) in
      (waitForTurn, doneCh,
       \<lparr>tq_Tails = gm_put key doneCh (tq_Tails q),
        tq_Refs = gm_put key (refs_of q key + 1) (tq_Refs q),
        tq_Chans = tq_Chans q @ [False]\<rparr>))"

definition closeTurn :: "nat \<Rightarrow> notify_queue \<Rightarrow> notify_queue" where
  "closeTurn doneCh q = q\<lparr>tq_Chans := (tq_Chans q)[doneCh := True]\<rparr>"

definition releaseTurn :: "fdRegistryKey \<Rightarrow> nat \<Rightarrow> notify_queue \<Rightarrow> notify_queue" where
  "releaseTurn key doneCh q =
     (let n = refs_of q key - 1 in
      if n = 0 then
        q\<lparr>tq_Refs := gm_delete key (tq_Refs q),
          tq_Tails := (if map_of (tq_Tails q) key = Some doneCh
                       then gm_delete key (tq_Tails q) else tq_Tails q)\<rparr>
      else q\<lparr>tq_Refs := gm_put key n (tq_Refs q)\<rparr>)"

subsection \<open>Goroutines\<close>

text \<open>
  A goroutine waits for its turn, handles its notification, closes its channel and gives its
  reference back. \<open>sg_Log\<close> records the order in which notifications were handled.
\<close>

datatype turn_phase = T_Waiting | T_Running | T_Handled | T_Closed | T_Released

record turn =
  tn_Req :: ScmpNotifReq
  tn_Key :: fdRegistryKey
  tn_Wait :: "nat option"
  tn_Phase :: turn_phase

record serving =
  sg_Queue :: notify_queue
  sg_Turns :: "turn list"
  sg_Log :: "nat list"

definition serving_start :: serving where
  "serving_start = \<lparr>sg_Queue = \<lparr>tq_Tails = [], tq_Refs = [], tq_Chans = []\<rparr>, sg_Turns = [], sg_Log = []\<rparr>"

datatype serve_label = Receive ScmpNotifReq | Begin nat | Handle nat | CloseDone nat | Release nat

definition set_phase :: "nat \<Rightarrow> turn_phase \<Rightarrow> serving \<Rightarrow> serving" where
  "set_phase i p sg = sg\<lparr>sg_Turns := (sg_Turns sg)[i := (sg_Turns sg ! i)\<lparr>tn_Phase := p\<rparr>]\<rparr>"

definition in_phase :: "serving \<Rightarrow> nat \<Rightarrow> turn_phase \<Rightarrow> bool" where
  "in_phase sg i p \<longleftrightarrow> i < length (sg_Turns sg) \<and> tn_Phase (sg_Turns sg ! i) = p"

definition may_begin :: "serving \<Rightarrow> nat \<Rightarrow> bool" where
  "may_begin sg i \<longleftrightarrow>
     (case tn_Wait (sg_Turns sg ! i) of None \<Rightarrow> True | Some ch \<Rightarrow> tq_Chans (sg_Queue sg) ! ch)"

fun serve :: "int \<Rightarrow> serve_label \<Rightarrow> serving \<Rightarrow> serving option" where
  "serve pid (Receive req) sg =
     (case enqueueNotificationTurn (sg_Queue sg) pid req of
        (wait, doneCh, q) \<Rightarrow>
          Some (sg\<lparr>sg_Queue := q,
            sg_Turns := sg_Turns sg @
              [\<lparr>tn_Req = req, tn_Key = notificationOpKey pid req, tn_Wait = wait, tn_Phase = T_Waiting\<rparr>]\<rparr>))"
| "serve pid (Begin i) sg =
     (if in_phase sg i T_Waiting \<and> may_begin sg i then Some (set_phase i T_Running sg) else None)"
| "serve pid (Handle i) sg =
     (if in_phase sg i T_Running then Some ((set_phase i T_Handled sg)\<lparr>sg_Log := sg_Log sg @ [i]\<rparr>) else None)"
| "serve pid (CloseDone i) sg =
     (if in_phase sg i T_Handled
      then Some ((set_phase i T_Closed sg)\<lparr>sg_Queue := closeTurn i (sg_Queue sg)\<rparr>) else None)"
| "serve pid (Release i) sg =
     (if in_phase sg i T_Closed
      then Some ((set_phase i T_Released sg)
                   \<lparr>sg_Queue := releaseTurn (tn_Key (sg_Turns sg ! i)) i (sg_Queue sg)\<rparr>) else None)"

fun serve_all :: "int \<Rightarrow> serve_label list \<Rightarrow> serving \<Rightarrow> serving option" where
  "serve_all pid [] sg = Some sg"
| "serve_all pid (l # ls) sg = (case serve pid l sg of None \<Rightarrow> None | Some sg' \<Rightarrow> serve_all pid ls sg')"

inductive serving_reachable :: "int \<Rightarrow> serving \<Rightarrow> bool" for pid where
  start: "serving_reachable pid serving_start"
| step: "serving_reachable pid sg'" if "serving_reachable pid sg" and "serve pid l sg = Some sg'"

fun_cases serve_SomeE: "serve pid l sg = Some sg'"

lemma serve_all_reachable:
  "serving_reachable pid sg \<Longrightarrow> serve_all pid ls sg = Some sg' \<Longrightarrow> serving_reachable pid sg'"
  by (induction ls arbitrary: sg) (auto split: option.splits intro: serving_reachable.step)

subsection \<open>Invariant\<close>

definition done_turn :: "turn \<Rightarrow> bool" where
  "done_turn t \<longleftrightarrow> tn_Phase t = T_Closed \<or> tn_Phase t = T_Released"

definition live_turns :: "turn list \<Rightarrow> fdRegistryKey \<Rightarrow> nat" where
  "live_turns ts key = (\<Sum>t\<leftarrow>ts. if tn_Key t = key \<and> tn_Phase t \<noteq> T_Released then 1 else 0)"

text \<open>The last turn of a key among the first \<open>n\<close>, or all of them released.\<close>

definition tail_ok :: "turn list \<Rightarrow> fdRegistryKey \<Rightarrow> nat \<Rightarrow> nat option \<Rightarrow> bool" where
  "tail_ok ts key n tail \<longleftrightarrow>
     (case tail of
        None \<Rightarrow> \<forall>j < n. tn_Key (ts ! j) = key \<longrightarrow> tn_Phase (ts ! j) = T_Released
      | Some j \<Rightarrow> j < n \<and> tn_Key (ts ! j) = key \<and> (\<forall>m. j < m \<and> m < n \<longrightarrow> tn_Key (ts ! m) \<noteq> key))"

definition turns_inv :: "serving \<Rightarrow> bool" where
  "turns_inv sg \<longleftrightarrow> (let ts = sg_Turns sg; q = sg_Queue sg in
     tq_Chans q = map done_turn ts \<and>
     (\<forall>i < length ts. tail_ok ts (tn_Key (ts ! i)) i (tn_Wait (ts ! i))) \<and>
     (\<forall>i < length ts. tn_Phase (ts ! i) \<noteq> T_Waiting \<longrightarrow>
        (\<forall>j. tn_Wait (ts ! i) = Some j \<longrightarrow> done_turn (ts ! j))) \<and>
     (\<forall>key. tail_ok ts key (length ts) (map_of (tq_Tails q) key)) \<and>
     (\<forall>key. refs_of q key = int (live_turns ts key)))"

lemma live_turns_update:
  assumes "i < length ts" and "tn_Key t = tn_Key (ts ! i)"
  shows "live_turns (ts[i := t]) key =
    live_turns ts key + (if tn_Key t = key \<and> tn_Phase t \<noteq> T_Released then 1 else 0) -
      (if tn_Key t = key \<and> tn_Phase (ts ! i) \<noteq> T_Released then 1 else 0)"
  using assms by (simp add: live_turns_def map_update sum_list_update)

lemma live_turns_0:
  "live_turns ts key = 0 \<longleftrightarrow> (\<forall>j < length ts. tn_Key (ts ! j) = key \<longrightarrow> tn_Phase (ts ! j) = T_Released)"
proof -
  have "live_turns ts key = 0 \<longleftrightarrow> (\<forall>t \<in> set ts. tn_Key t = key \<longrightarrow> tn_Phase t = T_Released)"
    unfolding live_turns_def by (induction ts) auto
  then show ?thesis by (simp add: all_set_conv_all_nth)
qed

text \<open>Changing the phase of one turn keeps the tails when a released turn stays released.\<close>

abbreviation with_phase :: "turn list \<Rightarrow> nat \<Rightarrow> turn_phase \<Rightarrow> turn list" where
  "with_phase ts i p \<equiv> ts[i := (ts ! i)\<lparr>tn_Phase := p\<rparr>]"

lemma with_phase_nth [simp]:
  assumes "i < length ts"
  shows "tn_Key (with_phase ts i p ! j) = tn_Key (ts ! j)"
    and "tn_Wait (with_phase ts i p ! j) = tn_Wait (ts ! j)"
    and "tn_Phase (with_phase ts i p ! j) = (if i = j then p else tn_Phase (ts ! j))"
  using assms by (simp_all add: nth_list_update)

lemma tail_ok_phase:
  assumes "tail_ok ts key n tail" and "tn_Phase (ts ! i) \<noteq> T_Released" and "i < length ts"
  shows "tail_ok (with_phase ts i p) key n tail"
  using assms by (cases tail) (auto simp: tail_ok_def)

lemma tail_ok_append: "tail_ok ts key n tail \<Longrightarrow> n \<le> length ts \<Longrightarrow> tail_ok (ts @ ys) key n tail"
  by (cases tail) (auto simp: tail_ok_def nth_append)

lemma done_turn_phase:
  "i < length ts \<Longrightarrow> done_turn (with_phase ts i p ! j) =
     (if i = j then p = T_Closed \<or> p = T_Released else done_turn (ts ! j))"
  by (simp add: done_turn_def)

lemma turns_invD:
  assumes "turns_inv sg"
  shows "tq_Chans (sg_Queue sg) = map done_turn (sg_Turns sg)"
    and "i < length (sg_Turns sg) \<Longrightarrow> tail_ok (sg_Turns sg) (tn_Key (sg_Turns sg ! i)) i (tn_Wait (sg_Turns sg ! i))"
    and "i < length (sg_Turns sg) \<Longrightarrow> tn_Phase (sg_Turns sg ! i) \<noteq> T_Waiting \<Longrightarrow>
      tn_Wait (sg_Turns sg ! i) = Some j \<Longrightarrow> done_turn (sg_Turns sg ! j)"
    and "tail_ok (sg_Turns sg) key (length (sg_Turns sg)) (map_of (tq_Tails (sg_Queue sg)) key)"
    and "refs_of (sg_Queue sg) key = int (live_turns (sg_Turns sg) key)"
  using assms unfolding turns_inv_def Let_def by blast+

lemma turns_inv_start: "turns_inv serving_start"
  by (simp add: turns_inv_def serving_start_def tail_ok_def refs_of_def live_turns_def)

lemma live_turns_append: "live_turns (ts @ [t]) key =
    live_turns ts key + (if tn_Key t = key \<and> tn_Phase t \<noteq> T_Released then 1 else 0)"
  by (simp add: live_turns_def)

lemma turns_inv_receive:
  assumes "turns_inv sg" and "serve pid (Receive req) sg = Some sg'"
  shows "turns_inv sg'"
proof -
  let ?ts = "sg_Turns sg" and ?q = "sg_Queue sg" and ?key = "notificationOpKey pid req"
  let ?t = "\<lparr>tn_Req = req, tn_Key = ?key, tn_Wait = map_of (tq_Tails ?q) ?key, tn_Phase = T_Waiting\<rparr>"
  note inv = turns_invD[OF assms(1)]
  have sg': "sg_Turns sg' = ?ts @ [?t]" "tq_Chans (sg_Queue sg') = tq_Chans ?q @ [False]"
    "tq_Tails (sg_Queue sg') = gm_put ?key (length ?ts) (tq_Tails ?q)"
    "tq_Refs (sg_Queue sg') = gm_put ?key (refs_of ?q ?key + 1) (tq_Refs ?q)"
    using assms(2) inv(1) by (auto simp: enqueueNotificationTurn_def Let_def)
  have wait: "tail_ok (?ts @ [?t]) (tn_Key ((?ts @ [?t]) ! i)) i (tn_Wait ((?ts @ [?t]) ! i))"
    if "i < Suc (length ?ts)" for i
    using that inv(2)[of i] inv(4)[of ?key] by (cases "i = length ?ts") (auto simp: nth_append intro: tail_ok_append)
  have begun: "done_turn ((?ts @ [?t]) ! j)"
    if "i < Suc (length ?ts)" "tn_Phase ((?ts @ [?t]) ! i) \<noteq> T_Waiting"
      "tn_Wait ((?ts @ [?t]) ! i) = Some j" for i j
    using that inv(2)[of i] inv(3)[of i j] by (cases "i = length ?ts") (auto simp: nth_append tail_ok_def)
  have tails: "tail_ok (?ts @ [?t]) key (Suc (length ?ts)) (map_of (tq_Tails (sg_Queue sg')) key)" for key
    using inv(4)[of key]
    by (cases "map_of (tq_Tails ?q) key") (auto simp: sg' tail_ok_def nth_append less_Suc_eq)
  have refs: "refs_of (sg_Queue sg') key = int (live_turns (?ts @ [?t]) key)" for key
    using inv(5) by (simp add: refs_of_def sg' live_turns_append)
  have chans: "tq_Chans (sg_Queue sg') = map done_turn (?ts @ [?t])"
    by (simp add: sg' inv(1) done_turn_def)
  show ?thesis
    unfolding turns_inv_def Let_def sg'(1) using wait begun tails refs chans by auto
qed

lemma turns_inv_phase:
  assumes "turns_inv sg" and "i < length (sg_Turns sg)"
    and "tn_Phase (sg_Turns sg ! i) \<noteq> T_Released" and "p \<noteq> T_Waiting"
    and "\<And>j. tn_Wait (sg_Turns sg ! i) = Some j \<Longrightarrow> done_turn (sg_Turns sg ! j)"
    and "done_turn (sg_Turns sg ! i) \<Longrightarrow> p = T_Closed \<or> p = T_Released"
    and "sg_Turns sg' = with_phase (sg_Turns sg) i p"
    and "tq_Chans (sg_Queue sg') = map done_turn (sg_Turns sg')"
    and "\<And>key. tail_ok (sg_Turns sg') key (length (sg_Turns sg)) (map_of (tq_Tails (sg_Queue sg')) key)"
    and "\<And>key. refs_of (sg_Queue sg') key = int (live_turns (sg_Turns sg') key)"
  shows "turns_inv sg'"
proof -
  let ?ts = "sg_Turns sg"
  note inv = turns_invD[OF assms(1)]
  have done_mono: "done_turn (?ts ! j) \<Longrightarrow> done_turn (with_phase ?ts i p ! j)" for j
    using assms(6) by (auto simp: done_turn_phase[OF assms(2)])
  have waits: "tail_ok (with_phase ?ts i p) (tn_Key (?ts ! m)) m (tn_Wait (?ts ! m))" if "m < length ?ts" for m
    using tail_ok_phase[OF inv(2)[OF that] assms(3,2)] .
  have begun: "done_turn (with_phase ?ts i p ! j)"
    if "m < length ?ts" "(if i = m then p else tn_Phase (?ts ! m)) \<noteq> T_Waiting" "tn_Wait (?ts ! m) = Some j" for m j
    using that assms(5) inv(3)[of m j] by (intro done_mono) (auto split: if_splits)
  show ?thesis
    unfolding turns_inv_def Let_def using assms(2,8-10) waits begun by (simp add: assms(7))
qed

lemma done_flags:
  assumes "i < length ts"
  shows "map done_turn (with_phase ts i p) = (map done_turn ts)[i := (p = T_Closed \<or> p = T_Released)]"
    and "(p = T_Closed \<or> p = T_Released) = done_turn (ts ! i) \<Longrightarrow>
      map done_turn (with_phase ts i p) = map done_turn ts"
proof -
  show flags: "map done_turn (with_phase ts i p) = (map done_turn ts)[i := (p = T_Closed \<or> p = T_Released)]"
    by (simp add: map_update done_turn_def)
  show "map done_turn (with_phase ts i p) = map done_turn ts"
    if "(p = T_Closed \<or> p = T_Released) = done_turn (ts ! i)"
    unfolding flags that using assms by (simp add: list_update_same_conv)
qed

text \<open>Steps that keep tails and references.\<close>

lemma turns_inv_quiet:
  assumes "turns_inv sg" and "in_phase sg i p0" and "p0 \<noteq> T_Released" and "p \<noteq> T_Waiting" and "p \<noteq> T_Released"
    and "\<And>j. tn_Wait (sg_Turns sg ! i) = Some j \<Longrightarrow> done_turn (sg_Turns sg ! j)"
    and "p0 = T_Closed \<Longrightarrow> p = T_Closed"
    and "sg_Turns sg' = with_phase (sg_Turns sg) i p"
    and "tq_Chans (sg_Queue sg') = map done_turn (sg_Turns sg')"
    and "tq_Tails (sg_Queue sg') = tq_Tails (sg_Queue sg)" and "tq_Refs (sg_Queue sg') = tq_Refs (sg_Queue sg)"
  shows "turns_inv sg'"
proof (rule turns_inv_phase[OF assms(1) _ _ assms(4,6) _ assms(8,9)])
  note inv = turns_invD[OF assms(1)]
  show i: "i < length (sg_Turns sg)" and p0: "tn_Phase (sg_Turns sg ! i) \<noteq> T_Released"
    using assms(2,3) by (simp_all add: in_phase_def)
  show "tail_ok (sg_Turns sg') key (length (sg_Turns sg)) (map_of (tq_Tails (sg_Queue sg')) key)" for key
    unfolding assms(8,10) by (rule tail_ok_phase[OF inv(4) p0 i])
  show "refs_of (sg_Queue sg') key = int (live_turns (sg_Turns sg') key)" for key
    using inv(5)[of key] p0 assms(5) by (simp add: assms(8,11) live_turns_update[OF i] refs_of_def)
qed (use assms(2,3,7) in \<open>auto simp: in_phase_def done_turn_def\<close>)

lemma turns_inv_release:
  assumes "turns_inv sg" and "in_phase sg i T_Closed"
    and "sg' = (set_phase i T_Released sg)\<lparr>sg_Queue := releaseTurn (tn_Key (sg_Turns sg ! i)) i (sg_Queue sg)\<rparr>"
  shows "turns_inv sg'"
proof -
  let ?ts = "sg_Turns sg" and ?ts' = "with_phase (sg_Turns sg) i T_Released" and ?key = "tn_Key (sg_Turns sg ! i)"
  note inv = turns_invD[OF assms(1)]
  have i: "i < length ?ts" "tn_Phase (?ts ! i) = T_Closed" using assms(2) by (simp_all add: in_phase_def)
  have live: "int (live_turns ?ts' key) = int (live_turns ?ts key) - (if key = ?key then 1 else 0)" for key
  proof -
    have "live_turns ?ts ?key \<noteq> 0" using i live_turns_0[of ?ts ?key] by auto
    then show ?thesis using i by (auto simp: live_turns_update)
  qed
  have ts': "sg_Turns sg' = ?ts'" and q': "sg_Queue sg' = releaseTurn ?key i (sg_Queue sg)"
    by (simp_all add: assms(3) set_phase_def)
  have chans: "tq_Chans (sg_Queue sg') = map done_turn (sg_Turns sg')"
    using i by (simp add: ts' q' done_flags(2) done_turn_def releaseTurn_def Let_def inv(1))
  have refs: "refs_of (sg_Queue sg') key = int (live_turns (sg_Turns sg') key)" for key
    unfolding ts' live q' using inv(5)[of key] inv(5)[of ?key]
    by (auto simp: releaseTurn_def Let_def refs_of_def)
  have tails: "tail_ok (sg_Turns sg') key (length ?ts) (map_of (tq_Tails (sg_Queue sg')) key)" for key
  proof -
    have keep: "tail_ok ?ts' key (length ?ts) (map_of (tq_Tails (sg_Queue sg)) key)"
      using tail_ok_phase[OF inv(4)] i by simp
    have none: "tail_ok ?ts' ?key (length ?ts) None" if "refs_of (sg_Queue sg) ?key - 1 = 0"
    proof -
      have "live_turns ?ts' ?key = 0" using that live[of ?key] inv(5)[of ?key] by simp
      then show ?thesis unfolding live_turns_0 tail_ok_def by simp
    qed
    show ?thesis
      unfolding ts' q' using keep none by (auto simp: releaseTurn_def Let_def)
  qed
  show ?thesis
    by (rule turns_inv_phase[OF assms(1) i(1) _ _ _ _ ts' chans tails refs])
      (use i inv(3)[of i] in \<open>auto\<close>)
qed

lemma turns_inv_step:
  assumes "turns_inv sg" and "serve pid l sg = Some sg'"
  shows "turns_inv sg'"
proof (cases l)
  case (Receive req)
  with assms show ?thesis using turns_inv_receive by simp
next
  case (Begin i)
  note inv = turns_invD[OF assms(1)]
  from assms(2) Begin have g: "in_phase sg i T_Waiting" "may_begin sg i" "sg' = set_phase i T_Running sg"
    by (auto split: if_splits)
  have "done_turn (sg_Turns sg ! j)" if "tn_Wait (sg_Turns sg ! i) = Some j" for j
    using g(1,2) that inv(1) inv(2)[of i] by (simp add: may_begin_def in_phase_def tail_ok_def)
  with g inv(1) show ?thesis
    by (intro turns_inv_quiet[OF assms(1) g(1), of T_Running])
      (auto simp: set_phase_def in_phase_def done_flags(2) done_turn_def)
next
  case (Handle i)
  note inv = turns_invD[OF assms(1)]
  from assms(2) Handle have g: "in_phase sg i T_Running"
    "sg' = (set_phase i T_Handled sg)\<lparr>sg_Log := sg_Log sg @ [i]\<rparr>"
    by (auto split: if_splits)
  with inv(1) inv(3)[of i] show ?thesis
    by (intro turns_inv_quiet[OF assms(1) g(1), of T_Handled])
      (auto simp: set_phase_def in_phase_def done_flags(2) done_turn_def)
next
  case (CloseDone i)
  note inv = turns_invD[OF assms(1)]
  from assms(2) CloseDone have g: "in_phase sg i T_Handled"
    "sg' = (set_phase i T_Closed sg)\<lparr>sg_Queue := closeTurn i (sg_Queue sg)\<rparr>"
    by (auto split: if_splits)
  with inv(1) inv(3)[of i] show ?thesis
    by (intro turns_inv_quiet[OF assms(1) g(1), of T_Closed])
      (auto simp: set_phase_def in_phase_def done_flags(1) closeTurn_def)
next
  case (Release i)
  with assms show ?thesis using turns_inv_release[OF assms(1), of i sg'] by (auto split: if_splits)
qed

lemma turns_inv_reachable: "serving_reachable pid sg \<Longrightarrow> turns_inv sg"
  by (induction rule: serving_reachable.induct) (auto intro: turns_inv_start turns_inv_step)

subsection \<open>Order\<close>

text \<open>A turn that has begun finds all earlier turns of its process done.\<close>

lemma earlier_done:
  assumes "turns_inv sg" and "i < length (sg_Turns sg)" and "tn_Phase (sg_Turns sg ! i) \<noteq> T_Waiting"
    and "j < i" and "tn_Key (sg_Turns sg ! j) = tn_Key (sg_Turns sg ! i)"
  shows "done_turn (sg_Turns sg ! j)"
  using assms(2-5)
proof (induction i rule: less_induct)
  case (less i)
  note inv = turns_invD[OF assms(1)]
  show ?case
  proof (cases "tn_Wait (sg_Turns sg ! i)")
    case None
    with inv(2)[OF less.prems(1)] less.prems show ?thesis by (simp add: tail_ok_def done_turn_def)
  next
    case (Some m)
    with inv(2)[OF less.prems(1)] have m: "m < i" "tn_Key (sg_Turns sg ! m) = tn_Key (sg_Turns sg ! i)"
      "\<And>x. m < x \<Longrightarrow> x < i \<Longrightarrow> tn_Key (sg_Turns sg ! x) \<noteq> tn_Key (sg_Turns sg ! i)"
      by (auto simp: tail_ok_def)
    have dm: "done_turn (sg_Turns sg ! m)" using inv(3)[OF less.prems(1,2) Some] .
    consider "j = m" | "j < m" using m(3)[of j] less.prems(3,4) by linarith
    then show ?thesis
    proof cases
      case 2
      have "tn_Phase (sg_Turns sg ! m) \<noteq> T_Waiting" using dm by (auto simp: done_turn_def)
      with less.IH[OF m(1) _ _ 2] m less.prems show ?thesis by simp
    qed (simp add: dm)
  qed
qed

definition handled_turn :: "turn \<Rightarrow> bool" where
  "handled_turn t \<longleftrightarrow> tn_Phase t = T_Handled \<or> done_turn t"

definition log_inv :: "serving \<Rightarrow> bool" where
  "log_inv sg \<longleftrightarrow> (\<forall>key. filter (\<lambda>i. tn_Key (sg_Turns sg ! i) = key) (sg_Log sg) =
     filter (\<lambda>i. tn_Key (sg_Turns sg ! i) = key \<and> handled_turn (sg_Turns sg ! i)) [0..<length (sg_Turns sg)]) \<and>
   (\<forall>i \<in> set (sg_Log sg). i < length (sg_Turns sg))"

lemma filter_insert_last:
  assumes "i < n" and "\<And>j. j < n \<Longrightarrow> P j \<Longrightarrow> j < i"
  shows "filter (\<lambda>j. P j \<or> j = i) [0..<n] = filter P [0..<n] @ [i]"
proof -
  have split: "[0..<n] = [0..<i] @ [i] @ [Suc i..<n]"
    using assms(1) upt_add_eq_append[of 0 i "n - i"] upt_conv_Cons[of i n] by simp
  have "\<not> P i" using assms by blast
  moreover have "filter (\<lambda>j. P j \<or> j = i) [Suc i..<n] = []" "filter P [Suc i..<n] = []"
    using assms(2) by (force simp: filter_empty_conv)+
  moreover have "filter (\<lambda>j. P j \<or> j = i) [0..<i] = filter P [0..<i]" by (rule filter_cong) auto
  ultimately show ?thesis unfolding split by simp
qed

lemma log_inv_phase:
  assumes "log_inv sg" and "i < length (sg_Turns sg)"
    and "handled_turn ((sg_Turns sg ! i)\<lparr>tn_Phase := p\<rparr>) = handled_turn (sg_Turns sg ! i)"
    and "sg_Turns sg' = with_phase (sg_Turns sg) i p" and "sg_Log sg' = sg_Log sg"
  shows "log_inv sg'"
proof -
  have "handled_turn (with_phase (sg_Turns sg) i p ! j) = handled_turn (sg_Turns sg ! j)" for j
    using assms(2,3) by (auto simp: nth_list_update)
  then show ?thesis using assms(1,2) by (simp add: log_inv_def assms(4,5))
qed

lemma log_inv_receive:
  assumes "log_inv sg" and "serve pid (Receive req) sg = Some sg'"
  shows "log_inv sg'"
proof -
  obtain t where sg': "sg_Turns sg' = sg_Turns sg @ [t]" "sg_Log sg' = sg_Log sg" "\<not> handled_turn t"
    using assms(2) by (auto simp: enqueueNotificationTurn_def Let_def handled_turn_def done_turn_def)
  let ?ts = "sg_Turns sg"
  have old: "filter (\<lambda>i. P ((?ts @ [t]) ! i)) xs = filter (\<lambda>i. P (?ts ! i)) xs"
    if "\<forall>i \<in> set xs. i < length ?ts" for P xs
    using that by (intro filter_cong) (auto simp: nth_append)
  have "filter (\<lambda>i. tn_Key ((?ts @ [t]) ! i) = key) (sg_Log sg) =
      filter (\<lambda>i. tn_Key ((?ts @ [t]) ! i) = key \<and> handled_turn ((?ts @ [t]) ! i)) [0..<length ?ts]" for key
    using assms(1) old[of "sg_Log sg" "\<lambda>t. tn_Key t = key"]
      old[of "[0..<length ?ts]" "\<lambda>t. tn_Key t = key \<and> handled_turn t"]
    by (simp add: log_inv_def del: split_paired_All)
  then show ?thesis using assms(1) sg'(3) by (auto simp: log_inv_def sg')
qed

lemma log_inv_handle:
  assumes "turns_inv sg" and "log_inv sg" and "serve pid (Handle i) sg = Some sg'"
  shows "log_inv sg'"
proof -
  let ?ts = "sg_Turns sg" and ?key = "tn_Key (sg_Turns sg ! i)"
  from assms(3) have i: "i < length ?ts" "tn_Phase (?ts ! i) = T_Running"
    and sg': "sg_Turns sg' = with_phase ?ts i T_Handled" "sg_Log sg' = sg_Log sg @ [i]"
    by (auto simp: in_phase_def set_phase_def split: if_splits)
  have handled: "handled_turn (with_phase ?ts i T_Handled ! j) \<longleftrightarrow> handled_turn (?ts ! j) \<or> j = i" for j
    using i by (auto simp: handled_turn_def done_turn_def)
  have earlier: "j < i" if "j < length ?ts" "tn_Key (?ts ! j) = ?key" "handled_turn (?ts ! j)" for j
  proof (rule ccontr)
    assume "\<not> j < i"
    moreover have "j \<noteq> i" using that(3) i(2) by (auto simp: handled_turn_def done_turn_def)
    ultimately have "done_turn (?ts ! i)"
      using earlier_done[OF assms(1) that(1), of i] that by (auto simp: handled_turn_def done_turn_def)
    then show False using i(2) by (simp add: done_turn_def)
  qed
  have "filter (\<lambda>j. tn_Key (?ts ! j) = ?key \<and> (handled_turn (?ts ! j) \<or> j = i)) [0..<length ?ts] =
      filter (\<lambda>j. tn_Key (?ts ! j) = ?key \<and> handled_turn (?ts ! j)) [0..<length ?ts] @ [i]"
  proof -
    have "(\<lambda>j. tn_Key (?ts ! j) = ?key \<and> (handled_turn (?ts ! j) \<or> j = i)) =
        (\<lambda>j. tn_Key (?ts ! j) = ?key \<and> handled_turn (?ts ! j) \<or> j = i)" by auto
    then show ?thesis
      using filter_insert_last[of i "length ?ts" "\<lambda>j. tn_Key (?ts ! j) = ?key \<and> handled_turn (?ts ! j)"]
        i(1) earlier by simp
  qed
  moreover have "filter (\<lambda>j. tn_Key (?ts ! j) = key \<and> (handled_turn (?ts ! j) \<or> j = i)) [0..<length ?ts] =
      filter (\<lambda>j. tn_Key (?ts ! j) = key \<and> handled_turn (?ts ! j)) [0..<length ?ts]" if "key \<noteq> ?key" for key
    using that by (intro filter_cong) auto
  ultimately show ?thesis
    using assms(2) i by (auto simp: log_inv_def sg' handled)
qed

lemma log_inv_step:
  assumes "turns_inv sg" and "log_inv sg" and "serve pid l sg = Some sg'"
  shows "log_inv sg'"
  using assms log_inv_receive[OF assms(2)] log_inv_handle[OF assms(1,2)]
  by (cases l) (auto simp: in_phase_def set_phase_def handled_turn_def done_turn_def split: if_splits
      intro: log_inv_phase[OF assms(2)])

lemma log_inv_reachable: "serving_reachable pid sg \<Longrightarrow> log_inv sg"
proof (induction rule: serving_reachable.induct)
  case (step sg l sg')
  then show ?case using log_inv_step turns_inv_reachable by blast
qed (simp add: log_inv_def serving_start_def)

lemma prefix_filter_downward:
  assumes "\<And>i j. i < n \<Longrightarrow> j < i \<Longrightarrow> P i \<Longrightarrow> P j \<Longrightarrow> Q i \<Longrightarrow> Q j"
  shows "prefix (filter (\<lambda>i. P i \<and> Q i) [0..<n]) (filter P [0..<n])"
  using assms
proof (induction n)
  case (Suc n)
  show ?case
  proof (cases "P n \<and> Q n")
    case True
    then have "filter (\<lambda>i. P i \<and> Q i) [0..<n] = filter P [0..<n]"
      using Suc.prems[of n] by (intro filter_cong) auto
    with True show ?thesis by simp
  next
    case False
    have "prefix (filter (\<lambda>i. P i \<and> Q i) [0..<n]) (filter P [0..<n])"
      by (rule Suc.IH) (meson Suc.prems less_SucI)
    with False show ?thesis by (auto intro: prefix_order.trans)
  qed
qed simp

lemma handled_downward:
  assumes "turns_inv sg" and "i < length (sg_Turns sg)" and "j < i"
    and "tn_Key (sg_Turns sg ! j) = tn_Key (sg_Turns sg ! i)" and "handled_turn (sg_Turns sg ! i)"
  shows "handled_turn (sg_Turns sg ! j)"
  using earlier_done[OF assms(1,2) _ assms(3,4)] assms(5) by (auto simp: handled_turn_def done_turn_def)

text \<open>
  C13. However the goroutines are scheduled, the notifications of one process are handled in the
  order in which they were received, none is skipped, and never are two of them handled at the
  same time.
\<close>

theorem notifications_in_order:
  assumes "serving_reachable pid sg"
  shows "prefix (filter (\<lambda>i. tn_Key (sg_Turns sg ! i) = key) (sg_Log sg))
      (filter (\<lambda>i. tn_Key (sg_Turns sg ! i) = key) [0..<length (sg_Turns sg)]) \<and>
    (in_phase sg i T_Running \<and> in_phase sg j T_Running \<and>
       tn_Key (sg_Turns sg ! i) = tn_Key (sg_Turns sg ! j) \<longrightarrow> i = j)"
proof
  note inv = turns_inv_reachable[OF assms]
  have "filter (\<lambda>i. tn_Key (sg_Turns sg ! i) = key) (sg_Log sg) =
      filter (\<lambda>i. tn_Key (sg_Turns sg ! i) = key \<and> handled_turn (sg_Turns sg ! i)) [0..<length (sg_Turns sg)]"
    using log_inv_reachable[OF assms] by (simp add: log_inv_def del: split_paired_All)
  then show "prefix (filter (\<lambda>i. tn_Key (sg_Turns sg ! i) = key) (sg_Log sg))
      (filter (\<lambda>i. tn_Key (sg_Turns sg ! i) = key) [0..<length (sg_Turns sg)])"
    using handled_downward[OF inv] prefix_filter_downward[of "length (sg_Turns sg)"
        "\<lambda>i. tn_Key (sg_Turns sg ! i) = key" "\<lambda>i. handled_turn (sg_Turns sg ! i)"] by auto
  show "in_phase sg i T_Running \<and> in_phase sg j T_Running \<and>
      tn_Key (sg_Turns sg ! i) = tn_Key (sg_Turns sg ! j) \<longrightarrow> i = j"
    using earlier_done[OF inv, of i j] earlier_done[OF inv, of j i]
    by (cases i j rule: linorder_cases) (auto simp: in_phase_def done_turn_def)
qed

subsection \<open>Progress\<close>

fun phase_rank :: "turn_phase \<Rightarrow> nat" where
  "phase_rank T_Waiting = 4" | "phase_rank T_Running = 3" | "phase_rank T_Handled = 2"
| "phase_rank T_Closed = 1" | "phase_rank T_Released = 0"

definition remaining_work :: "serving \<Rightarrow> nat" where
  "remaining_work sg = (\<Sum>t\<leftarrow>sg_Turns sg. phase_rank (tn_Phase t))"

fun is_receive :: "serve_label \<Rightarrow> bool" where
  "is_receive (Receive req) = True" | "is_receive _ = False"

lemma remaining_work_phase:
  assumes "i < length (sg_Turns sg)" and "sg_Turns sg' = with_phase (sg_Turns sg) i p"
    and "phase_rank p < phase_rank (tn_Phase (sg_Turns sg ! i))"
  shows "remaining_work sg' < remaining_work sg"
proof -
  have "phase_rank (tn_Phase (sg_Turns sg ! i)) \<le> remaining_work sg"
    unfolding remaining_work_def using assms(1) by (intro member_le_sum_list) auto
  then show ?thesis
    using assms unfolding remaining_work_def by (simp add: map_update sum_list_update)
qed

lemma serve_decreases:
  "serve pid l sg = Some sg' \<Longrightarrow> \<not> is_receive l \<Longrightarrow> remaining_work sg' < remaining_work sg"
  by (cases l) (auto simp: in_phase_def set_phase_def split: if_splits
      intro!: remaining_work_phase[of _ sg])

lemma undone_turn_steps:
  assumes "turns_inv sg" and "i < length (sg_Turns sg)" and "\<not> done_turn (sg_Turns sg ! i)"
    and "\<And>j. j < i \<Longrightarrow> done_turn (sg_Turns sg ! j)"
  shows "\<exists>l sg'. serve pid l sg = Some sg' \<and> \<not> is_receive l"
proof -
  note inv = turns_invD[OF assms(1)]
  have "may_begin sg i"
    using inv(1) inv(2)[OF assms(2)] assms(2,4) by (auto simp: may_begin_def tail_ok_def split: option.splits)
  then have "serve pid (Begin i) sg \<noteq> None \<or> serve pid (Handle i) sg \<noteq> None \<or> serve pid (CloseDone i) sg \<noteq> None"
    using assms(2,3) by (cases "tn_Phase (sg_Turns sg ! i)") (auto simp: in_phase_def done_turn_def)
  then show ?thesis using is_receive.simps by fast
qed

lemma serving_can_step:
  assumes "turns_inv sg" and "i < length (sg_Turns sg)" and "tn_Phase (sg_Turns sg ! i) \<noteq> T_Released"
  shows "\<exists>l sg'. serve pid l sg = Some sg' \<and> \<not> is_receive l"
proof (cases "\<exists>j < length (sg_Turns sg). \<not> done_turn (sg_Turns sg ! j)")
  case True
  then obtain j where j: "j < length (sg_Turns sg)" "\<not> done_turn (sg_Turns sg ! j)"
    "\<And>m. m < j \<Longrightarrow> m < length (sg_Turns sg) \<longrightarrow> done_turn (sg_Turns sg ! m)"
    using exists_least_iff[of "\<lambda>j. j < length (sg_Turns sg) \<and> \<not> done_turn (sg_Turns sg ! j)"] by auto
  then show ?thesis using undone_turn_steps[OF assms(1) j(1,2)] by auto
next
  case False
  with assms(2,3) have "tn_Phase (sg_Turns sg ! i) = T_Closed" by (auto simp: done_turn_def)
  with assms(2) have "serve pid (Release i) sg \<noteq> None" by (simp add: in_phase_def)
  then show ?thesis using is_receive.simps by fast
qed


subsection \<open>A tail that stays\<close>

definition ex_notification :: ScmpNotifReq where
  "ex_notification =
     \<lparr>nq_ID = 1, nq_Pid = 7, nq_Syscall = 0, nq_Arg0 = 0, nq_Arg1 = 0, nq_Arg2 = 0, nq_Arg3 = 0,
      nq_Arg4 = 0, nq_Arg5 = 0\<rparr>"

text \<open>Two notifications of one process; the second gives its reference back before the first.\<close>

definition ex_schedule :: "serve_label list" where
  "ex_schedule =
     [Receive ex_notification, Receive ex_notification, Begin 0, Handle 0, CloseDone 0, Begin 1, Handle 1,
      CloseDone 1, Release 1, Release 0]"

definition ex_served :: serving where
  "ex_served = the (serve_all 7 ex_schedule serving_start)"

lemma ex_served_run:
  "sg_Log ex_served = [0, 1]"
  "map tn_Phase (sg_Turns ex_served) = [T_Released, T_Released]"
  "tq_Tails (sg_Queue ex_served) = [((7, - 1), 1)]" "tq_Refs (sg_Queue ex_served) = []"
  "map tn_Key (sg_Turns ex_served) = [(7, - 1), (7, - 1)]"
  by code_simp+

lemma ex_served_reachable: "serving_reachable 7 ex_served"
proof -
  have "map_option sg_Log (serve_all 7 ex_schedule serving_start) = Some [0, 1]" by code_simp
  then have "serve_all 7 ex_schedule serving_start = Some ex_served"
    by (auto simp: ex_served_def)
  then show ?thesis by (rule serve_all_reachable[OF serving_reachable.start])
qed

text \<open>
  The map of queue tails is not always emptied: a schedule of two notifications leaves the
  tail of their process behind after both goroutines have finished.
\<close>

theorem queue_tail_left_behind:
  "\<exists>sg. serving_reachable 7 sg \<and> map tn_Phase (sg_Turns sg) = [T_Released, T_Released] \<and>
     tq_Refs (sg_Queue sg) = [] \<and> tq_Tails (sg_Queue sg) = [((7, - 1), 1)]"
  by (rule exI[of _ ex_served]) (simp add: ex_served_reachable ex_served_run)

theorem notifications_in_order_witness:
  "serving_reachable 7 ex_served \<and> prefix (sg_Log ex_served) [0, 1]"
proof -
  have len: "length (sg_Turns ex_served) = 2" and keys: "tn_Key (sg_Turns ex_served ! 0) = (7, - 1)"
    "tn_Key (sg_Turns ex_served ! 1) = (7, - 1)"
    using ex_served_run(5) by (auto simp: map_eq_Cons_conv)
  have "filter (\<lambda>i. tn_Key (sg_Turns ex_served ! i) = (7, - 1)) [0..<2] = [0, 1]"
    "filter (\<lambda>i. tn_Key (sg_Turns ex_served ! i) = (7, - 1)) [0, 1] = [0, 1]"
    using keys by (simp_all add: numeral_2_eq_2)
  with notifications_in_order[OF ex_served_reachable, of "(7, - 1)"] ex_served_reachable
  show ?thesis by (simp add: len ex_served_run(1))
qed

definition ex_received :: serving where
  "ex_received = the (serve 7 (Receive ex_notification) serving_start)"


end
