(* ===== verification/Notify_Filter.thy ===== *)
theory Notify_Filter
  imports Seccomp_Profile Dns_Emulation
begin

section \<open>The notification filter: seccompnotify/filter\_linux.go\<close>

text \<open>
  The filter that sends the managed system calls to the supervisor, and its agreement with the
  supervisor's dispatch.
\<close>

record 'f FilterArtifacts =
  fa_Filter :: 'f
  fa_ManagedSyscalls :: "(string \<times> int) list"

text \<open>The loop over the names; a failure releases the filter.\<close>

fun addManaged ::
  "'f libseccomp \<Rightarrow> string list \<Rightarrow> 'f FilterArtifacts \<Rightarrow> ('f FilterArtifacts) result" where
  "addManaged lib [] artifacts = Inr artifacts"
| "addManaged lib (name # names) artifacts =
     (case ls_GetSyscallFromName lib name of
        Inl e \<Rightarrow> Inl (''resolve syscall '' @ go_quote name @ '': '' @ e)
      | Inr nr \<Rightarrow>
          (case ls_AddRule lib (fa_Filter artifacts) nr ActNotify [] of
             Inl e \<Rightarrow> Inl (''add seccomp notify rule for '' @ go_quote name @ '': '' @ e)
           | Inr f \<Rightarrow>
               addManaged lib names
                 \<lparr>fa_Filter = f, fa_ManagedSyscalls = gm_put name nr (fa_ManagedSyscalls artifacts)\<rparr>))"

definition BuildFilter :: "'f libseccomp \<Rightarrow> arch \<Rightarrow> ('f FilterArtifacts) result" where
  "BuildFilter lib a =
     (case ls_NewFilter lib of
        Inl e \<Rightarrow> Inl (''create seccomp notify filter: '' @ e)
      | Inr f \<Rightarrow> addManaged lib (managedNotifySyscallNames a) \<lparr>fa_Filter = f, fa_ManagedSyscalls = []\<rparr>)"

text \<open>The numbers of the managed calls.\<close>

definition managed_number :: "arch \<Rightarrow> string \<Rightarrow> int option" where
  "managed_number a = map_of
     [(''socket'', SYS_SOCKET a), (''connect'', SYS_CONNECT a), (''getpeername'', SYS_GETPEERNAME a),
      (''read'', SYS_READ a), (''sendto'', SYS_SENDTO a), (''write'', SYS_WRITE a),
      (''recvfrom'', SYS_RECVFROM a), (''sendmsg'', SYS_SENDMSG a), (''recvmsg'', SYS_RECVMSG a),
      (''sendmmsg'', SYS_SENDMMSG a), (''recvmmsg'', SYS_RECVMMSG a), (''ppoll'', SYS_PPOLL a),
      (''ioctl'', SYS_IOCTL a), (''close'', SYS_CLOSE a), (''dup'', SYS_DUP a), (''dup3'', SYS_DUP3 a),
      (''fcntl'', SYS_FCNTL a), (''poll'', optionalPollSyscall a), (''dup2'', optionalDup2Syscall a)]"

lemma addManaged_rules:
  assumes laws: "seccomp_laws lib rules decide"
  shows "addManaged lib names artifacts = Inr artifacts' \<Longrightarrow>
    (\<forall>name \<in> set names. is_ok (ls_GetSyscallFromName lib name)) \<and>
    set (rules (fa_Filter artifacts')) = set (rules (fa_Filter artifacts)) \<union>
      {(nr, ActNotify, []) | nr name. name \<in> set names \<and> ls_GetSyscallFromName lib name = Inr nr}"
proof (induction names arbitrary: artifacts)
  case (Cons name names)
  from Cons.prems obtain nr f where nr: "ls_GetSyscallFromName lib name = Inr nr"
    and f: "ls_AddRule lib (fa_Filter artifacts) nr ActNotify [] = Inr f"
    and rest: "addManaged lib names
      \<lparr>fa_Filter = f, fa_ManagedSyscalls = gm_put name nr (fa_ManagedSyscalls artifacts)\<rparr> = Inr artifacts'"
    by (auto split: sum.splits)
  from Cons.IH[OF rest] nr seccomp_lawsD(2)[OF laws f] show ?case by auto
qed simp

lemma managed_names_numbers:
  "(\<exists>name \<in> set (managedNotifySyscallNames a). managed_number a name = Some nr) \<longleftrightarrow>
   nr \<in> {SYS_SOCKET a, SYS_CONNECT a, SYS_GETPEERNAME a, SYS_READ a, SYS_SENDTO a, SYS_WRITE a, SYS_RECVFROM a,
     SYS_SENDMSG a, SYS_RECVMSG a, SYS_SENDMMSG a, SYS_RECVMMSG a, SYS_PPOLL a, SYS_IOCTL a, SYS_CLOSE a, SYS_DUP a,
     SYS_DUP3 a, SYS_FCNTL a} \<or> isPollSyscall a nr \<or> isDupLikeSyscall a nr"
  by (cases a) (auto simp: managedNotifySyscallNames_def managed_number_def isPollSyscall_def isDupLikeSyscall_def
      optionalPollSyscall_def optionalDup2Syscall_def)


subsection \<open>A library instance\<close>

definition ex_notify_rules :: "scmp_rule list" where
  "ex_notify_rules =
     map (\<lambda>name. (the (managed_number Amd64 name), ActNotify, [])) (managedNotifySyscallNames Amd64)"

definition ex_notify_lib :: "scmp_rule list libseccomp" where
  "ex_notify_lib =
     \<lparr>ls_NewFilter = Inr [],
      ls_GetSyscallFromName =
        (\<lambda>name. case managed_number Amd64 name of None \<Rightarrow> Inl ''unknown'' | Some nr \<Rightarrow> Inr nr),
      ls_MakeCondition = ex_condition,
      ls_AddRule = (\<lambda>f call action conds. Inr (f @ [(call, action, conds)])),
      ls_ExportBPF = (\<lambda>f. if f = ex_notify_rules then Inr [2] else Inl ''no memory'')\<rparr>"

definition ex_notify_decide :: "8 word list \<Rightarrow> int \<Rightarrow> (nat \<Rightarrow> 64 word) \<Rightarrow> ScmpAction" where
  "ex_notify_decide program nr args =
     (if \<exists>r \<in> set ex_notify_rules. scmp_matches r nr args then ActNotify else ActAllow)"

lemma ex_notify_laws: "seccomp_laws ex_notify_lib (\<lambda>f. f) ex_notify_decide"
proof -
  have "fst (snd r) = ActNotify" if "r \<in> set ex_notify_rules" for r
    using that by (auto simp: ex_notify_rules_def)
  then show ?thesis
    by (auto simp: seccomp_laws_def ex_notify_lib_def ex_condition_def ex_notify_decide_def split: if_splits)
qed

lemma addManaged_ok:
  "(\<And>name. name \<in> set names \<Longrightarrow> managed_number Amd64 name \<noteq> None) \<Longrightarrow>
   \<exists>m. addManaged ex_notify_lib names artifacts = Inr \<lparr>fa_Filter = fa_Filter artifacts @
     map (\<lambda>name. (the (managed_number Amd64 name), ActNotify, [])) names, fa_ManagedSyscalls = m\<rparr>"
proof (induction names arbitrary: artifacts)
  case Nil
  show ?case by (rule exI[of _ "fa_ManagedSyscalls artifacts"]) simp
next
  case (Cons name names)
  from Cons.prems[of name] obtain nr where nr: "managed_number Amd64 name = Some nr" by auto
  let ?next = "\<lparr>fa_Filter = fa_Filter artifacts @ [(nr, ActNotify, [])],
    fa_ManagedSyscalls = gm_put name nr (fa_ManagedSyscalls artifacts)\<rparr> :: scmp_rule list FilterArtifacts"
  have "addManaged ex_notify_lib (name # names) artifacts = addManaged ex_notify_lib names ?next"
    using nr by (simp add: ex_notify_lib_def)
  with Cons.IH[of ?next] Cons.prems nr show ?case by simp
qed


end
