(* ===== verification/Helper_Tunnels.thy ===== *)
theory Helper_Tunnels
  imports Helper_Client
begin

section \<open>Runs and tunnels of the client\<close>

text \<open>
  The client's own guarantees: open connections are always registered, so that closing the client
  closes them all, whatever happened before; and what a cancelled run leaves behind.
\<close>

subsection \<open>Open connections are registered\<close>

text \<open>What the goroutines of a client do. The id of a new connection is not in use.\<close>

inductive client_step :: "'m Host \<Rightarrow> Client \<times> 'm \<Rightarrow> Client \<times> 'm \<Rightarrow> bool" for host where
  cs_connect: "tunnel c i = None \<Longrightarrow> client_step host (c, m) (clientConnectRequest host (c, m) i req)"
| cs_proxy: "client_step host (c, m) (clientProxyRequest host (c, m) i preq)"
| cs_dns: "client_step host (c, m) (clientDNSRequest host (c, m) i dreq)"
| cs_leaf: "client_step host (c, m) (clientLeafCertRequest host (c, m) i lreq)"
| cs_mitm: "client_step host (c, m) (clientMITMRequest host (c, m) i mreq)"
| cs_frame: "client_step host (c, m) (HandleTunnelFrame c i frame, m)"
| cs_close: "client_step host (c, m) (HandleTunnelClose c i msg, m)"
| cs_outbound: "tunnel c i = Some k \<Longrightarrow> client_step host (c, m) (relayOutbound c i k data how, m)"
| cs_inbound: "tunnel c i = Some k \<Longrightarrow> client_step host (c, m) (relayInbound w cw c i k, m)"
| cs_stream: "client_step host (c, m) (handleStream c sf, m)"
| cs_result: "client_step host (c, m) (handleExecResult c r, m)"
| cs_run: "client_step host (c, m) (snd (beginRun c o'), m)"
| cs_send_fails: "client_step host (c, m) (c\<lparr>cl_sendError := Some e\<rparr>, m)"

definition registered :: "Client \<Rightarrow> nat set" where
  "registered c = ran (map_of (cl_tunnels c)) \<union> ran (map_of (cl_pendingTunnels c))"

definition open_tunnels :: "Client \<Rightarrow> nat set" where
  "open_tunnels c = {k. k < length (cl_objects c) \<and> \<not> ht_closed (cl_objects c ! k)}"

text \<open>Between two operations no tunnel is pending, and two ids never share a tunnel.\<close>

definition client_inv :: "Client \<Rightarrow> bool" where
  "client_inv c \<longleftrightarrow>
     cl_pendingTunnels c = [] \<and> open_tunnels c \<subseteq> registered c \<and> registered c \<subseteq> {..<length (cl_objects c)} \<and>
     inj_on (map_of (cl_tunnels c)) (dom (map_of (cl_tunnels c)))"

text \<open>Operations that change tunnels only within their bodies.\<close>

definition same_tunnels :: "Client \<Rightarrow> Client \<Rightarrow> bool" where
  "same_tunnels c c' \<longleftrightarrow>
     cl_tunnels c' = cl_tunnels c \<and> cl_pendingTunnels c' = cl_pendingTunnels c \<and>
     length (cl_objects c') = length (cl_objects c) \<and> map ht_closed (cl_objects c') = map ht_closed (cl_objects c)"

lemma same_refl [simp]: "same_tunnels c c"
  by (simp add: same_tunnels_def)

lemma same_trans: "same_tunnels a b \<Longrightarrow> same_tunnels b c \<Longrightarrow> same_tunnels a c"
  by (simp add: same_tunnels_def)

lemma same_send [simp]: "same_tunnels c (snd (clientSend c env))"
  by (simp add: clientSend_def same_tunnels_def split: option.split)

lemma same_fail [simp]: "same_tunnels c (failCurrentRun c e)"
  by (simp add: failCurrentRun_def clearCurrentRun_def updateSession_def same_tunnels_def split: option.split)

lemma same_reply [simp]: "same_tunnels c (sendReply c env)"
  by (auto simp: sendReply_def clientSend_def same_tunnels_def failCurrentRun_def clearCurrentRun_def updateSession_def split: option.split)

lemma same_update: "(\<And>t. ht_closed (f t) = ht_closed t) \<Longrightarrow> same_tunnels c (updateTunnel k f c)"
  by (cases "k < length (cl_objects c)") (auto simp: same_tunnels_def updateTunnel_def map_update list_update_same_conv list_update_beyond not_less)

lemma same_terminal [simp]: "same_tunnels c (sendTerminalClose c i k e)" "same_tunnels c (SendWriteClose c i k e)"
  by (auto simp: sendTerminalClose_def SendWriteClose_def intro: same_trans[OF same_update same_send])

lemma client_inv_same: "client_inv c \<Longrightarrow> same_tunnels c c' \<Longrightarrow> client_inv c'"
proof -
  assume inv: "client_inv c" and same: "same_tunnels c c'"
  have "ht_closed (cl_objects c' ! k) = ht_closed (cl_objects c ! k)" if "k < length (cl_objects c)" for k
    using same that by (metis same_tunnels_def nth_map)
  then show ?thesis using inv same
    by (auto simp: client_inv_def same_tunnels_def open_tunnels_def registered_def)
qed

lemma tunnel_same: "same_tunnels c c' \<Longrightarrow> tunnel c' i = tunnel c i"
  by (auto simp: same_tunnels_def tunnel_def split: option.split)

lemma map_of_delete_ran:
  assumes "inj_on (map_of m) (dom (map_of m))" and "map_of m i = Some k"
  shows "ran (map_of (gm_delete i m)) = ran (map_of m) - {k}"
proof -
  have "map_of (gm_delete i m) = (map_of m)(i := None)" by (rule ext) simp
  then show ?thesis using assms by (force simp: ran_def inj_on_def dom_def)
qed

lemma client_inv_terminal:
  assumes "client_inv c" and "tunnel c i = Some k"
  shows "client_inv (closeTerminal c i k)"
proof -
  have inj: "inj_on (map_of (cl_tunnels c)) (dom (map_of (cl_tunnels c)))" and i: "map_of (cl_tunnels c) i = Some k"
    and pend: "cl_pendingTunnels c = []"
    using assms by (auto simp: client_inv_def tunnel_def split: option.splits)
  have k: "k < length (cl_objects c)" using assms(1) i by (auto simp: client_inv_def registered_def ran_def)
  have open': "open_tunnels (closeTerminal c i k) = open_tunnels c - {k}"
    using k by (auto simp: open_tunnels_def closeTerminal_def shutdown_def updateTunnel_def unregisterTunnel_def nth_list_update split: if_splits)
  have "registered (closeTerminal c i k) = registered c - {k}"
    using map_of_delete_ran[OF inj i] pend
    by (simp add: registered_def closeTerminal_def shutdown_def updateTunnel_def unregisterTunnel_def gm_delete_def)
  moreover have "inj_on (map_of (gm_delete i (cl_tunnels c))) (dom (map_of (gm_delete i (cl_tunnels c))))"
    using inj by (auto simp: inj_on_def dom_def split: if_splits)
  ultimately show ?thesis using assms(1) open' pend
    by (auto simp: client_inv_def closeTerminal_def shutdown_def updateTunnel_def unregisterTunnel_def gm_delete_def)
qed

lemma client_inv_close_after:
  assumes "client_inv c" and "tunnel c i = Some k" and "same_tunnels c c'"
  shows "client_inv (closeTerminal c' i k)"
  using client_inv_terminal[OF client_inv_same[OF assms(1,3)]] tunnel_same[OF assms(3), of i] assms(2) by simp

lemma client_inv_deliver:
  assumes "client_inv c" and "tunnel c i = Some k"
  shows "client_inv (deliverTunnel c i k env)"
  using assms client_inv_same[OF assms(1) same_update] client_inv_close_after[OF assms same_terminal(1)]
  by (auto simp: deliverTunnel_def Let_def)

lemma client_inv_added:
  assumes "client_inv c" and "tunnel c i = None"
    and "cl_pendingTunnels c' = []" "cl_objects c' = cl_objects c @ [t]"
    and "map_of (cl_tunnels c') = (map_of (cl_tunnels c))(i \<mapsto> length (cl_objects c)) \<or>
      map_of (cl_tunnels c') = map_of (cl_tunnels c) \<and> ht_closed t"
  shows "client_inv c'"
proof -
  let ?k = "length (cl_objects c)" and ?m = "map_of (cl_tunnels c)"
  have old: "?m i = None" "inj_on ?m (dom ?m)" "ran ?m \<subseteq> {..<?k}" "open_tunnels c \<subseteq> ran ?m"
    using assms(1,2) by (auto simp: client_inv_def tunnel_def registered_def split: option.splits)
  have new: "open_tunnels c' \<subseteq> open_tunnels c \<union> (if ht_closed t then {} else {?k})"
    by (auto simp: open_tunnels_def assms(4) nth_append less_Suc_eq)
  from assms(5) show ?thesis
  proof
    assume m: "map_of (cl_tunnels c') = ?m(i \<mapsto> ?k)"
    have "registered c' = insert ?k (ran ?m)" using old(1) by (simp add: registered_def assms(3) m)
    moreover have "inj_on (?m(i \<mapsto> ?k)) (dom (?m(i \<mapsto> ?k)))"
      using old(2,3) by (fastforce simp: inj_on_def dom_def ran_def)
    ultimately show ?thesis using old new by (auto simp: client_inv_def assms(3,4) m split: if_splits)
  next
    assume "map_of (cl_tunnels c') = ?m \<and> ht_closed t"
    then show ?thesis using old new by (auto simp: client_inv_def assms(3,4) registered_def)
  qed
qed

lemma client_inv_connect:
  assumes "client_inv c" and "tunnel c i = None"
  shows "client_inv (fst (clientConnectRequest host (c, m) i req))"
proof -
  have pend: "cl_pendingTunnels c = []" and fresh: "map_of (cl_tunnels c) i = None"
    using assms by (auto simp: client_inv_def tunnel_def split: option.splits)
  then have same: "map_of (gm_delete i (cl_tunnels c)) = map_of (cl_tunnels c)" by (auto simp: fun_eq_iff)
  have sent: "client_inv (snd (clientSend c env))" for env by (rule client_inv_same[OF assms(1) same_send])
  show ?thesis
    using pend fresh same sent
    by (auto simp: clientConnectRequest_def Let_def registerPendingTunnel_def activateTunnel_def unregisterTunnel_def shutdown_def
        updateTunnel_def clientSend_def gm_delete_def[of i "[(i, _)]"] gm_delete_def[of i "[]"]
        split: prod.splits option.splits intro!: client_inv_added[OF assms])
qed

lemma client_inv_relay:
  assumes "client_inv c" and "tunnel c i = Some k" and "same_tunnels c c1"
  shows "client_inv c1" "client_inv (closeTerminal (sendTerminalClose c1 i k e) i k)" "client_inv (closeTerminal c1 i k)"
    "client_inv (SendWriteClose c1 i k e)"
  using client_inv_same[OF assms(1)] client_inv_close_after[OF assms(1,2)] same_trans[OF assms(3) same_terminal(1)]
    same_trans[OF assms(3) same_terminal(2)] assms(3) by blast+

lemma same_tunnels_simps:
  "same_tunnels c (handleStream c sf)" "same_tunnels c (handleExecResult c r)" "same_tunnels c (snd (beginRun c o'))"
  "same_tunnels c (c\<lparr>cl_sendError := e\<rparr>)"
  by (auto simp: same_tunnels_def handleStream_def handleExecResult_def clearCurrentRun_def updateSession_def beginRun_def
      installRunSession_def clientSend_def failCurrentRun_def Let_def split: option.splits)

lemma client_inv_step: "client_step host s s' \<Longrightarrow> client_inv (fst s) \<Longrightarrow> client_inv (fst s')"
proof (induction rule: client_step.induct)
  case (cs_connect c i m req)
  then show ?case using client_inv_connect by simp
next
  case (cs_frame c m i frame)
  then show ?case using client_inv_deliver by (simp add: HandleTunnelFrame_def split: option.split)
next
  case (cs_close c m i msg)
  then show ?case using client_inv_deliver by (simp add: HandleTunnelClose_def split: option.split)
next
  case (cs_outbound c i k m data how)
  obtain e c1 where send: "(if data = [] then (None, c)
      else clientSend c ((envelope i)\<lparr>en_TunnelFrame := Some \<lparr>tf_Data = data\<rparr>\<rparr>)) = (e, c1)" by fastforce
  then have "same_tunnels c c1" using same_send[of c] by (metis same_refl snd_conv)
  note inv = client_inv_relay[OF _ cs_outbound(1) this]
  show ?case using cs_outbound(2) inv
    by (simp add: relayOutbound_def send split: option.split read_end.split)
next
  case (cs_inbound c i k m w cw)
  have "same_tunnels c (updateTunnel k (\<lambda>t. t\<lparr>ht_recv := rest\<rparr>) c)" for rest by (rule same_update) simp
  note inv = client_inv_relay[OF _ cs_inbound(1) this]
  show ?case using cs_inbound(2) inv
    by (simp add: relayInbound_def Let_def split: list.split option.split)
qed (auto simp: clientProxyRequest_def clientDNSRequest_def clientLeafCertRequest_def clientMITMRequest_def same_tunnels_simps
    elim!: client_inv_same split: prod.splits)

text \<open>
  However the requests, messages, reads and failures of a client are interleaved, closing the
  client closes every connection that it has opened for a tunnel.
\<close>

theorem close_closes_all_tunnels:
  assumes "(client_step host)\<^sup>*\<^sup>* (newClient, m) (c, m')" and "k < length (cl_objects c)"
  shows "ht_closed (cl_objects (closeClient c) ! k)"
proof -
  have "client_inv c"
    using assms(1)
  proof (induction "(c, m')" arbitrary: c m' rule: rtranclp_induct)
    case base
    then show ?case by (simp add: client_inv_def open_tunnels_def registered_def newClient_def)
  next
    case (step s)
    then show ?case using client_inv_step by (cases s) fastforce
  qed
  then have reg: "k \<in> open_tunnels c \<Longrightarrow> k \<in> set (map snd (cl_tunnels c) @ map snd (cl_pendingTunnels c))"
    by (force simp: client_inv_def registered_def ran_def dest: map_of_SomeD)
  have fold: "ht_closed (cl_objects (foldl (\<lambda>c k. shutdown k c) c0 ks) ! k) \<longleftrightarrow> ht_closed (cl_objects c0 ! k) \<or> k \<in> set ks"
    if "k < length (cl_objects c0)" for c0 ks
    using that
  proof (induction ks arbitrary: c0)
    case (Cons a ks)
    then show ?case by (cases "a = k") (simp_all add: shutdown_def updateTunnel_def)
  qed simp
  show ?thesis
    using reg assms(2) fold[of "c\<lparr>cl_cancelled := True, cl_tunnels := [], cl_pendingTunnels := []\<rparr>"]
    by (auto simp: closeClient_def ShutdownTunnels_def open_tunnels_def simp del: foldl_append)
qed

subsection \<open>Runs\<close>

text \<open>
  A run whose caller gives up keeps its session: nothing is sent to stop the program, and every later
  run is refused, whatever streams in the meantime, until the program of the first run ends.
\<close>

theorem cancelled_run_blocks_later_runs:
  assumes "beginRun c o' = (Inr (i, j), c1)" and "c2 = snd (endRun c1 j (RunCancelled e))"
    and "c3 = foldl handleStream c2 frames"
  shows "cl_sent c2 = cl_sent c1 \<and> fst (beginRun c3 o'') = Inl ''another command is already running'' \<and>
     (\<exists>i' j' c4. cl_sendError c3 = None \<longrightarrow> beginRun (handleExecResult c3 r) o'' = (Inr (i', j'), c4))"
proof -
  have c2: "c2 = c1" using assms(2) by (simp add: endRun_def)
  have "cl_currentRun c1 = Some j"
    using assms(1) by (auto simp: beginRun_def installRunSession_def clientSend_def Let_def split: if_splits option.splits)
  then have run: "cl_currentRun c3 = Some j"
    unfolding assms(3) c2
    by (induction frames arbitrary: c1) (auto simp: handleStream_def updateSession_def)
  then show ?thesis
    by (auto simp: c2 beginRun_def installRunSession_def handleExecResult_def clearCurrentRun_def updateSession_def clientSend_def Let_def
        split: option.splits)
qed

subsection \<open>Examples\<close>

definition example_run :: client_run where
  "example_run = \<lparr>cr_Argv = [''sleep'', ''9''], cr_Env = [], cr_WorkDir = [], cr_Interactive = False, cr_Terminal = False,
     cr_Rows = 0, cr_Cols = 0, cr_Resize = False\<rparr>"

definition open_host :: "unit Host" where
  "open_host = \<lparr>ho_Proxy = \<lambda>m r. (m, None),
     ho_Connect = \<lambda>m r. (m, Some \<lparr>cs_StatusCode = 200, cs_Message = [], cs_Error = []\<rparr>),
     ho_DNS = \<lambda>m r. (m, None), ho_LeafCert = \<lambda>m r. (m, None), ho_MITM = \<lambda>m r. (m, None), ho_Dial = \<lambda>m h p. None\<rparr>"

theorem close_closes_all_tunnels_witness:
  "case clientConnectRequest open_host (newClient, ()) 1 \<lparr>cq_Host = ''a'', cq_Port = 1, cq_Transparent = False,
      cq_ProtocolMetadata = no_metadata\<rparr> of
     (c, _) \<Rightarrow> \<not> ht_closed (cl_objects c ! 0) \<and> ht_closed (cl_objects (closeClient c) ! 0)"
proof -
  let ?s = "clientConnectRequest open_host (newClient, ()) 1 \<lparr>cq_Host = ''a'', cq_Port = 1, cq_Transparent = False,
      cq_ProtocolMetadata = no_metadata\<rparr>"
  have run: "\<not> ht_closed (cl_objects (fst ?s) ! 0) \<and> 0 < length (cl_objects (fst ?s))" by code_simp
  have "tunnel newClient 1 = None" by (simp add: tunnel_def newClient_def)
  then have "(client_step open_host)\<^sup>*\<^sup>* (newClient, ()) (fst ?s, snd ?s)"
    using client_step.cs_connect[of newClient 1 open_host "()"] by (simp only: prod.collapse r_into_rtranclp)
  from close_closes_all_tunnels[OF this, of 0] run show ?thesis by (auto split: prod.split)
qed

theorem cancelled_run_blocks_later_runs_witness:
  "\<exists>i j c1. beginRun newClient example_run = (Inr (i, j), c1) \<and>
     fst (beginRun (snd (endRun c1 j (RunCancelled ''context canceled''))) example_run) = Inl ''another command is already running''"
proof -
  have "case beginRun newClient example_run of (Inr _, _) \<Rightarrow> True | _ \<Rightarrow> False" by code_simp
  then obtain i j c1 where run: "beginRun newClient example_run = (Inr (i, j), c1)" by (auto split: prod.splits sum.splits)
  from cancelled_run_blocks_later_runs[OF run refl refl, where frames = "[]" and e = "''context canceled''"]
  have "fst (beginRun (snd (endRun c1 j (RunCancelled ''context canceled''))) example_run) = Inl ''another command is already running''"
    by simp
  with run show ?thesis by blast
qed

end
