(* ===== verification/Helper_Link.thy ===== *)
theory Helper_Link
  imports Helper_Tunnels
begin

section \<open>Helper and host together\<close>

text \<open>
  The helper's bridge and the host's client over the two directions of the control channel, with every
  interleaving of callers, goroutines and relays as a step relation. Messages arrive in the order
  they were sent; a request is handled by a goroutine of its own, at any later time. Requests are
  numbered with 64 bits; the steps stop short of using a number twice.
\<close>

subsection \<open>The system\<close>

record 'm link =
  lk_bridge :: RuntimeBridge
  lk_client :: Client
  lk_manager :: 'm
  lk_hostRead :: nat
  lk_tasks :: "Envelope list"
  lk_helperRead :: nat
  lk_done :: "(64 word \<times> Envelope) list"

definition new_link :: "string \<Rightarrow> 'm \<Rightarrow> 'm link" where
  "new_link proxyAddr m = \<lparr>lk_bridge = newBridge proxyAddr, lk_client = newClient, lk_manager = m, lk_hostRead = 0,
     lk_tasks = [], lk_helperRead = 0, lk_done = []\<rparr>"

definition is_request :: "Envelope \<Rightarrow> bool" where
  "is_request env \<longleftrightarrow> en_Ready env = None \<and>
     (en_ProxyRequest env \<noteq> None \<or> en_ConnectRequest env \<noteq> None \<or> en_DNSRequest env \<noteq> None \<or>
      en_LeafCertRequest env \<noteq> None \<or> en_MITMRequest env \<noteq> None)"

definition is_answer :: "Envelope \<Rightarrow> bool" where
  "is_answer env \<longleftrightarrow> en_Hello env = None \<and>
     (en_ProxyResponse env \<noteq> None \<or> en_ConnectResponse env \<noteq> None \<or> en_DNSResponse env \<noteq> None \<or>
      en_LeafCertResponse env \<noteq> None \<or> en_MITMResponse env \<noteq> None)"

text \<open>The requests of callers other than \<^verbatim>\<open>Connect\<close>.\<close>

inductive request_kind :: "(64 word \<Rightarrow> Envelope) \<Rightarrow> bool" where
  "request_kind (proxyRequestEnvelope pr)"
| "request_kind (dnsRequestEnvelope dr)"
| "request_kind (leafCertRequestEnvelope host)"
| "request_kind (mitmRequestEnvelope mr)"
| "request_kind (connectRequestEnvelope host port transparent metadata)"

text \<open>Programs and their input are left out of this picture.\<close>

definition no_exec :: "unit exec_handlers" where
  "no_exec = \<lparr>eh_request = \<lambda>s i r. s, eh_input = \<lambda>s i x. Some s\<rparr>"

inductive link_step :: "'m Host \<Rightarrow> 'm link \<Rightarrow> 'm link \<Rightarrow> bool" for host where
  l_request: "request_kind f \<Longrightarrow> rb_nextID (lk_bridge s) + 1 \<noteq> 0 \<Longrightarrow> beginRequest (lk_bridge s) f = (Inr i, b) \<Longrightarrow>
    link_step host s (s\<lparr>lk_bridge := b\<rparr>)"
| l_connect: "rb_nextID (lk_bridge s) + 1 \<noteq> 0 \<Longrightarrow> beginConnect (lk_bridge s) chost port = (Inr i, b) \<Longrightarrow>
    link_step host s (s\<lparr>lk_bridge := b\<rparr>)"
| l_return: "map_of (rb_pending (lk_bridge s)) i = Some (Some env) \<Longrightarrow>
    link_step host s (s\<lparr>lk_bridge := endRequest (lk_bridge s) i, lk_done := lk_done s @ [(i, env)]\<rparr>)"
| l_cancel: "link_step host s (s\<lparr>lk_bridge := endRequest (lk_bridge s) i\<rparr>)"
| l_unregister: "link_step host s (s\<lparr>lk_bridge := UnregisterTunnel (lk_bridge s) i\<rparr>)"
| l_frame: "map_of (rb_tunnels (lk_bridge s)) i \<noteq> None \<Longrightarrow> sendFrame (lk_bridge s) i data = (None, b) \<Longrightarrow>
    link_step host s (s\<lparr>lk_bridge := b\<rparr>)"
| l_close: "map_of (rb_tunnels (lk_bridge s)) i \<noteq> None \<Longrightarrow> SendTunnelClose (lk_bridge s) i w e = (None, b) \<Longrightarrow>
    link_step host s (s\<lparr>lk_bridge := b\<rparr>)"
| l_take: "map_of (rb_tunnels (lk_bridge s)) i = Some (env # q) \<Longrightarrow>
    link_step host s (s\<lparr>lk_bridge := (lk_bridge s)\<lparr>rb_tunnels := gm_put i q (rb_tunnels (lk_bridge s))\<rparr>\<rparr>)"
| l_helper_read: "lk_helperRead s < length (cl_sent (lk_client s)) \<Longrightarrow>
    readTurn no_exec (lk_bridge s, ()) (cl_sent (lk_client s) ! lk_helperRead s) = Continue (b, u) \<Longrightarrow>
    link_step host s (s\<lparr>lk_bridge := b, lk_helperRead := Suc (lk_helperRead s)\<rparr>)"
| l_host_read: "lk_hostRead s < length (rb_sent (lk_bridge s)) \<Longrightarrow> env = rb_sent (lk_bridge s) ! lk_hostRead s \<Longrightarrow>
    is_request env \<Longrightarrow>
    link_step host s (s\<lparr>lk_hostRead := Suc (lk_hostRead s), lk_tasks := lk_tasks s @ [env]\<rparr>)"
| l_host_inline: "lk_hostRead s < length (rb_sent (lk_bridge s)) \<Longrightarrow> env = rb_sent (lk_bridge s) ! lk_hostRead s \<Longrightarrow>
    \<not> is_request env \<Longrightarrow> clientTurn host (lk_client s, lk_manager s) env = Continue (c, m) \<Longrightarrow>
    link_step host s (s\<lparr>lk_hostRead := Suc (lk_hostRead s), lk_client := c, lk_manager := m\<rparr>)"
| l_host_handle: "lk_tasks s = xs @ env # ys \<Longrightarrow> clientTurn host (lk_client s, lk_manager s) env = Continue (c, m) \<Longrightarrow>
    link_step host s (s\<lparr>lk_tasks := xs @ ys, lk_client := c, lk_manager := m\<rparr>)"
| l_outbound: "tunnel (lk_client s) i = Some k \<Longrightarrow>
    link_step host s (s\<lparr>lk_client := relayOutbound (lk_client s) i k data how\<rparr>)"
| l_inbound: "tunnel (lk_client s) i = Some k \<Longrightarrow>
    link_step host s (s\<lparr>lk_client := relayInbound wr cw (lk_client s) i k\<rparr>)"
| l_run: "link_step host s (s\<lparr>lk_client := snd (beginRun (lk_client s) o')\<rparr>)"

subsection \<open>What the operations send\<close>

text \<open>The host's other messages are no answers.\<close>

definition no_answers :: "Client \<Rightarrow> Client \<Rightarrow> bool" where
  "no_answers c c' \<longleftrightarrow> cl_sendError c' = cl_sendError c \<and> (\<exists>xs. cl_sent c' = cl_sent c @ xs \<and> (\<forall>a \<in> set xs. \<not> is_answer a))"

lemma no_answers_refl [simp]: "no_answers c c"
  by (simp add: no_answers_def)

lemma no_answers_trans: "no_answers a b \<Longrightarrow> no_answers b c \<Longrightarrow> no_answers a c"
  by (fastforce simp: no_answers_def)

lemma no_answers_send: "\<not> is_answer env \<Longrightarrow> no_answers c (snd (clientSend c env))"
  by (auto simp: no_answers_def clientSend_def split: option.split)

lemma no_answers_same: "cl_sent c' = cl_sent c \<Longrightarrow> cl_sendError c' = cl_sendError c \<Longrightarrow> no_answers c c'"
  by (simp add: no_answers_def)

lemma envelope_sel [simp]:
  "en_ID (envelope i) = i" "en_Hello (envelope i) = None" "en_Ready (envelope i) = None"
  "en_ProxyRequest (envelope i) = None" "en_ProxyResponse (envelope i) = None" "en_ConnectRequest (envelope i) = None"
  "en_ConnectResponse (envelope i) = None" "en_DNSRequest (envelope i) = None" "en_DNSResponse (envelope i) = None"
  "en_LeafCertRequest (envelope i) = None" "en_LeafCertResponse (envelope i) = None" "en_MITMRequest (envelope i) = None"
  "en_MITMResponse (envelope i) = None" "en_TunnelFrame (envelope i) = None" "en_TunnelClose (envelope i) = None"
  by (simp_all add: envelope_def)

lemma no_answers_close [simp]:
  "no_answers c (closeTerminal c i k)" "no_answers c (sendTerminalClose c i k e)" "no_answers c (SendWriteClose c i k e)"
proof -
  show "no_answers c (closeTerminal c i k)"
    by (rule no_answers_same) (simp_all add: closeTerminal_def shutdown_def updateTunnel_def unregisterTunnel_def)
  have upd: "no_answers c (updateTunnel k f c)" for f by (rule no_answers_same) (simp_all add: updateTunnel_def)
  show "no_answers c (sendTerminalClose c i k e)" "no_answers c (SendWriteClose c i k e)"
    by (auto simp: sendTerminalClose_def SendWriteClose_def is_answer_def intro!: no_answers_trans[OF upd no_answers_send])
qed

lemma no_answers_deliver [simp]: "no_answers c (deliverTunnel c i k env)"
  by (auto simp: deliverTunnel_def Let_def updateTunnel_def
      intro: no_answers_same no_answers_trans[OF no_answers_close(2) no_answers_close(1)])

lemma no_answers_relay:
  "no_answers c (relayOutbound c i k data how)" "no_answers c (relayInbound w cw c i k)" "no_answers c (snd (beginRun c o'))"
proof -
  have send: "no_answers c (snd (if data = [] then (None, c) else clientSend c ((envelope i)\<lparr>en_TunnelFrame := Some x\<rparr>)))" for x
    by (simp add: no_answers_send is_answer_def)
  have fin: "no_answers c1 (closeTerminal (sendTerminalClose c1 i k e) i k)" for c1 e
    by (rule no_answers_trans[OF no_answers_close(2) no_answers_close(1)])
  show "no_answers c (relayOutbound c i k data how)"
    using send[of "\<lparr>tf_Data = data\<rparr>"] no_answers_trans[OF _ fin] no_answers_trans[OF _ no_answers_close(3)]
    by (auto simp: relayOutbound_def Let_def split: prod.splits option.splits read_end.splits)
  have upd: "no_answers c (updateTunnel k f c)" for f by (rule no_answers_same) (simp_all add: updateTunnel_def)
  show "no_answers c (relayInbound w cw c i k)"
    using no_answers_trans[OF upd fin] no_answers_trans[OF upd no_answers_close(1)] upd
    by (auto simp: relayInbound_def Let_def split: list.splits option.splits)
  show "no_answers c (snd (beginRun c o'))"
    by (auto simp: no_answers_def beginRun_def installRunSession_def clientSend_def failCurrentRun_def clearCurrentRun_def
        updateSession_def is_answer_def Let_def split: option.split)
qed

lemma no_answers_inline:
  assumes "\<not> is_request env" and "clientTurn host (c, m) env = Continue (c', m')"
  shows "no_answers c c'"
  using assms
  by (auto simp: clientTurn_def is_request_def notifyReady_def HandleTunnelFrame_def HandleTunnelClose_def handleStream_def
      handleExecResult_def clearCurrentRun_def updateSession_def Let_def split: option.splits if_splits intro: no_answers_same)

text \<open>An answer to a request: what the client makes of the manager's response in some state.\<close>

definition answer_in :: "'m Host \<Rightarrow> 'm \<Rightarrow> Envelope \<Rightarrow> Envelope \<Rightarrow> bool" where
  "answer_in host m r a \<longleftrightarrow> is_answer a \<and> en_ID a = en_ID r \<and>
     (case en_ProxyRequest r of
        Some q \<Rightarrow> en_ProxyResponse a = Some (proxyReply (snd (ho_Proxy host m q)))
      | None \<Rightarrow> (case en_ConnectRequest r of
        Some q \<Rightarrow> (let response = connectReply (snd (ho_Connect host m q)) in
          en_ConnectResponse a = Some response \<or>
          200 \<le> cs_StatusCode response \<and> cs_StatusCode response < 300 \<and>
          (\<exists>e. en_ConnectResponse a = Some \<lparr>cs_StatusCode = 502, cs_Message = [], cs_Error = e\<rparr>))
      | None \<Rightarrow> (case en_DNSRequest r of
        Some q \<Rightarrow> en_DNSResponse a = Some (dnsReply (snd (ho_DNS host m q)))
      | None \<Rightarrow> (case en_LeafCertRequest r of
        Some q \<Rightarrow> en_LeafCertResponse a = Some (leafReply (snd (ho_LeafCert host m (lq_Host q))))
      | None \<Rightarrow> (case en_MITMRequest r of
        Some q \<Rightarrow> en_MITMResponse a = Some (mitmReply (snd (ho_MITM host m q)))
      | None \<Rightarrow> False)))))"

definition answers :: "'m Host \<Rightarrow> Envelope \<Rightarrow> Envelope \<Rightarrow> bool" where
  "answers host r a \<longleftrightarrow> (\<exists>m. answer_in host m r a)"

lemma reply_sent: "cl_sendError c = None \<Longrightarrow> cl_sent (sendReply c a) = cl_sent c @ [a] \<and> cl_sendError (sendReply c a) = None"
  by (simp add: sendReply_def clientSend_def)

lemma connect_answered:
  assumes "en_ProxyRequest env = None" "en_ConnectRequest env = Some q" and "cl_sendError c = None"
    and "clientConnectRequest host (c, m) (en_ID env) q = (c', m')"
  shows "cl_sendError c' = None \<and> (\<exists>a. cl_sent c' = cl_sent c @ [a] \<and> answer_in host m env a)"
  using assms
  by (auto simp: clientConnectRequest_def clientSend_def connectEnvelope_def registerPendingTunnel_def activateTunnel_def
      shutdown_def updateTunnel_def answer_in_def is_answer_def Let_def split: prod.splits option.splits if_splits)

lemma request_answered:
  assumes "is_request env" and "clientTurn host (c, m) env = Continue (c', m')" and "cl_sendError c = None"
  shows "cl_sendError c' = None \<and> (\<exists>a. cl_sent c' = cl_sent c @ [a] \<and> answers host env a)"
proof -
  have ready: "en_Ready env = None" using assms(1) by (simp add: is_request_def)
  have "cl_sendError c' = None \<and> (\<exists>a. cl_sent c' = cl_sent c @ [a] \<and> answer_in host m env a)"
  proof (cases "en_ProxyRequest env")
    case (Some q)
    then show ?thesis using assms(2,3) ready reply_sent[OF assms(3)]
      by (auto simp: clientTurn_def clientProxyRequest_def answer_in_def is_answer_def split: prod.splits)
  next
    case pr: None
    show ?thesis
    proof (cases "en_ConnectRequest env")
      case (Some q)
      then show ?thesis using assms(2) ready pr connect_answered[OF pr Some assms(3)] by (simp add: clientTurn_def)
    next
      case None
      then show ?thesis using assms(1,2) ready pr reply_sent[OF assms(3)]
        by (auto simp: clientTurn_def is_request_def clientDNSRequest_def clientLeafCertRequest_def clientMITMRequest_def answer_in_def
            is_answer_def split: prod.splits option.splits)
    qed
  qed
  then show ?thesis unfolding answers_def by blast
qed

subsection \<open>What the helper's operations do\<close>

lemma request_kind_envelope: "request_kind f \<Longrightarrow> is_request (f i) \<and> en_ID (f i) = i \<and> en_TunnelFrame (f i) = None \<and> en_TunnelClose (f i) = None"
  by (induction rule: request_kind.induct)
    (auto simp: proxyRequestEnvelope_def dnsRequestEnvelope_def leafCertRequestEnvelope_def mitmRequestEnvelope_def
      connectRequestEnvelope_def is_request_def)

text \<open>A new number is greater than the last.\<close>

lemma word_fresh: "(x :: 64 word) + 1 \<noteq> 0 \<Longrightarrow> x < x + 1"
  by (metis add.commute lessI unatSuc word_less_nat_alt)

lemma beginRequest_effect:
  assumes "beginRequest b f = (Inr i, b')"
  shows "i = rb_nextID b + 1 \<and> rb_nextID b' = i \<and> rb_sent b' = rb_sent b @ [f i] \<and>
     rb_pending b' = gm_put i None (rb_pending b) \<and> rb_tunnels b' = rb_tunnels b"
  using assms by (auto simp: beginRequest_def Send_def Let_def split: option.splits)

lemma beginConnect_effect:
  assumes "beginConnect b host port = (Inr i, b')"
  shows "i = rb_nextID b + 1 \<and> rb_nextID b' = i \<and>
     rb_sent b' = rb_sent b @ [connectRequestEnvelope host port False no_metadata i] \<and>
     rb_pending b' = gm_put i None (rb_pending b) \<and> rb_tunnels b' = gm_put i [] (rb_tunnels b)"
proof -
  from assms have "beginRequest (RegisterTunnel b (rb_nextID b + 1)) (connectRequestEnvelope host port False no_metadata) = (Inr i, b')"
    by (auto simp: beginConnect_def Let_def split: prod.splits sum.splits)
  from beginRequest_effect[OF this] show ?thesis by (simp add: RegisterTunnel_def)
qed

lemma sendFrame_effect:
  assumes "sendFrame b i data = (None, b')"
  shows "rb_nextID b' = rb_nextID b \<and> rb_pending b' = rb_pending b \<and> rb_tunnels b' = rb_tunnels b \<and>
     (\<exists>xs. rb_sent b' = rb_sent b @ xs \<and> (\<forall>e \<in> set xs. \<not> is_request e \<and> en_ID e = i))"
  using assms by (auto simp: sendFrame_def Send_def is_request_def split: if_splits option.splits)

lemma tunnelClose_effect:
  assumes "SendTunnelClose b i w closing = (None, b')"
  shows "rb_nextID b' = rb_nextID b \<and> rb_pending b' = rb_pending b \<and> rb_tunnels b' = rb_tunnels b \<and>
     (\<exists>xs. rb_sent b' = rb_sent b @ xs \<and> (\<forall>e \<in> set xs. \<not> is_request e \<and> en_ID e = i))"
  using assms by (auto simp: SendTunnelClose_def Send_def is_request_def split: option.splits)

lemma readTurn_answer:
  assumes "is_answer env" and "readTurn ex (b, s) env = Continue (b', s')"
  shows "b' = deliver b env"
  using assms by (auto simp: readTurn_def is_answer_def)

lemma readTurn_other:
  assumes "\<not> is_answer env" and "readTurn ex (b, s) env = Continue (b', s')"
  shows "rb_nextID b' = rb_nextID b \<and> rb_pending b' = rb_pending b \<and>
     (\<exists>xs. rb_sent b' = rb_sent b @ xs \<and> (\<forall>e \<in> set xs. \<not> is_request e \<and> en_TunnelFrame e = None \<and> en_TunnelClose e = None)) \<and>
     dom (map_of (rb_tunnels b')) \<subseteq> dom (map_of (rb_tunnels b))"
  using assms
  by (auto simp: readTurn_def is_answer_def handleHello_def Send_def DeliverTunnel_def is_request_def
      split: option.splits if_splits prod.splits)

lemma deliver_effect:
  "rb_nextID (deliver b env) = rb_nextID b" "rb_sent (deliver b env) = rb_sent b" "rb_tunnels (deliver b env) = rb_tunnels b"
  "map_of (rb_pending (deliver b env)) i =
     (if i = en_ID env \<and> map_of (rb_pending b) i = Some None then Some (Some env) else map_of (rb_pending b) i)"
  by (auto simp: deliver_def split: option.split)

subsection \<open>Answers belong to their requests\<close>

definition requests :: "RuntimeBridge \<Rightarrow> Envelope list" where
  "requests b = filter is_request (rb_sent b)"

definition numbered :: "RuntimeBridge \<Rightarrow> bool" where
  "numbered b \<longleftrightarrow> distinct (map en_ID (requests b)) \<and> (\<forall>r \<in> set (requests b). en_ID r \<le> rb_nextID b)"

definition answer_for :: "Client \<Rightarrow> 64 word \<Rightarrow> Envelope \<Rightarrow> bool" where
  "answer_for c i env \<longleftrightarrow> env \<in> set (cl_sent c) \<and> is_answer env \<and> en_ID env = i"

definition link_inv :: "'m Host \<Rightarrow> 'm link \<Rightarrow> bool" where
  "link_inv host s \<longleftrightarrow>
     cl_sendError (lk_client s) = None \<and> numbered (lk_bridge s) \<and> set (lk_tasks s) \<subseteq> set (requests (lk_bridge s)) \<and>
     (\<forall>a \<in> set (cl_sent (lk_client s)). is_answer a \<longrightarrow> (\<exists>r \<in> set (requests (lk_bridge s)). answers host r a)) \<and>
     (\<forall>i env. map_of (rb_pending (lk_bridge s)) i = Some (Some env) \<longrightarrow> answer_for (lk_client s) i env) \<and>
     (\<forall>(i, env) \<in> set (lk_done s). answer_for (lk_client s) i env)"

text \<open>A change of the helper that keeps the requests, and one of the host that sends no answer.\<close>

lemma link_inv_bridge:
  assumes "link_inv host s" and "requests b = requests (lk_bridge s)" and "rb_nextID b = rb_nextID (lk_bridge s)"
    and "\<And>i env. map_of (rb_pending b) i = Some (Some env) \<Longrightarrow> answer_for (lk_client s) i env"
  shows "link_inv host (s\<lparr>lk_bridge := b, lk_helperRead := n\<rparr>)" "link_inv host (s\<lparr>lk_bridge := b\<rparr>)"
  using assms by (auto simp: link_inv_def numbered_def)

lemma numbered_request:
  assumes "numbered b" and "is_request r" "en_ID r = rb_nextID b + 1" "rb_nextID b + 1 \<noteq> 0"
    and "rb_sent b' = rb_sent b @ [r]" "rb_nextID b' = rb_nextID b + 1"
  shows "numbered b' \<and> set (requests b) \<subseteq> set (requests b')"
proof -
  have fresh: "rb_nextID b < rb_nextID b + 1" by (rule word_fresh[OF assms(4)])
  have req: "requests b' = requests b @ [r]" using assms(2,5) by (simp add: requests_def)
  have old: "en_ID q < en_ID r" if "q \<in> set (requests b)" for q
    using assms(1,3) that fresh by (auto simp: numbered_def)
  then have "en_ID q \<le> rb_nextID b'" if "q \<in> set (requests b')" for q
    using that assms(3,6) by (auto simp: req less_imp_le)
  moreover have "distinct (map en_ID (requests b'))" using assms(1) old by (force simp: numbered_def req)
  ultimately show ?thesis by (auto simp: numbered_def req)
qed

lemma link_inv_request:
  assumes "link_inv host s" and "is_request r" "en_ID r = rb_nextID (lk_bridge s) + 1" "rb_nextID (lk_bridge s) + 1 \<noteq> 0"
    and "rb_sent b = rb_sent (lk_bridge s) @ [r]" "rb_nextID b = rb_nextID (lk_bridge s) + 1"
      "rb_pending b = gm_put (en_ID r) None (rb_pending (lk_bridge s))"
  shows "link_inv host (s\<lparr>lk_bridge := b\<rparr>)"
proof -
  have "numbered b \<and> set (requests (lk_bridge s)) \<subseteq> set (requests b)"
    using numbered_request[OF _ assms(2-6)] assms(1) by (simp add: link_inv_def)
  then show ?thesis using assms(1,7) by (fastforce simp: link_inv_def split: if_splits)
qed

lemma answer_for_extend: "answer_for c i env \<Longrightarrow> cl_sent c' = cl_sent c @ xs \<Longrightarrow> answer_for c' i env"
  by (simp add: answer_for_def)

lemma link_inv_client:
  assumes "link_inv host s" and "cl_sendError c = None" and "cl_sent c = cl_sent (lk_client s) @ xs"
    and "\<forall>a \<in> set xs. is_answer a \<longrightarrow> (\<exists>r \<in> set (requests (lk_bridge s)). answers host r a)"
  shows "link_inv host (s\<lparr>lk_client := c, lk_manager := m, lk_hostRead := n\<rparr>)"
    "set ts \<subseteq> set (lk_tasks s) \<Longrightarrow> link_inv host (s\<lparr>lk_tasks := ts, lk_client := c, lk_manager := m\<rparr>)"
    "link_inv host (s\<lparr>lk_client := c\<rparr>)"
  using assms answer_for_extend[OF _ assms(3)] by (auto simp: link_inv_def)

lemma link_inv_quiet:
  assumes "link_inv host s" and "no_answers (lk_client s) c"
  shows "link_inv host (s\<lparr>lk_client := c, lk_manager := m, lk_hostRead := n\<rparr>)" "link_inv host (s\<lparr>lk_client := c\<rparr>)"
proof -
  obtain xs where "cl_sent c = cl_sent (lk_client s) @ xs" "\<forall>a \<in> set xs. \<not> is_answer a" "cl_sendError c = None"
    using assms by (auto simp: no_answers_def link_inv_def)
  then show "link_inv host (s\<lparr>lk_client := c, lk_manager := m, lk_hostRead := n\<rparr>)" "link_inv host (s\<lparr>lk_client := c\<rparr>)"
    using link_inv_client[OF assms(1)] by simp_all
qed

lemma requests_extend: "rb_sent b' = rb_sent b @ xs \<Longrightarrow> \<forall>e \<in> set xs. \<not> is_request e \<Longrightarrow> requests b' = requests b"
  by (simp add: requests_def)

lemma link_inv_step: "link_step host s s' \<Longrightarrow> link_inv host s \<Longrightarrow> link_inv host s'"
proof (induction rule: link_step.induct)
  case (l_request f s i b)
  then show ?case
    using beginRequest_effect[OF l_request(3)] request_kind_envelope[OF l_request(1)] link_inv_request[of host s "f i" b] by simp
next
  case (l_connect s chost port i b)
  note r = request_kind_envelope[OF request_kind.intros(5), of chost port False no_metadata i]
  from l_connect show ?case
    using beginConnect_effect[OF l_connect(2)] r link_inv_request[of host s "connectRequestEnvelope chost port False no_metadata i" b] by simp
next
  case (l_return s i env)
  then show ?case by (auto simp: link_inv_def endRequest_def numbered_def requests_def split: if_splits)
next
  case (l_cancel s i)
  then show ?case by (auto simp: link_inv_def endRequest_def numbered_def requests_def split: if_splits)
next
  case (l_unregister s i)
  then show ?case by (auto simp: link_inv_def UnregisterTunnel_def numbered_def requests_def)
next
  case (l_frame s i data b)
  note eff = sendFrame_effect[OF l_frame(2)]
  then have "requests b = requests (lk_bridge s)" using requests_extend by blast
  from link_inv_bridge(2)[OF l_frame(3) this] eff l_frame(3) show ?case by (simp add: link_inv_def)
next
  case (l_close s i w e b)
  note eff = tunnelClose_effect[OF l_close(2)]
  then have "requests b = requests (lk_bridge s)" using requests_extend by blast
  from link_inv_bridge(2)[OF l_close(3) this] eff l_close(3) show ?case by (simp add: link_inv_def)
next
  case (l_take s i env q)
  then show ?case by (auto simp: link_inv_def numbered_def requests_def)
next
  case (l_helper_read s b u)
  let ?env = "cl_sent (lk_client s) ! lk_helperRead s"
  show ?case
  proof (cases "is_answer ?env")
    case True
    have env: "answer_for (lk_client s) (en_ID ?env) ?env" using True l_helper_read(1) by (simp add: answer_for_def)
    have b: "b = deliver (lk_bridge s) ?env" by (rule readTurn_answer[OF True l_helper_read(2)])
    show ?thesis
      by (rule link_inv_bridge(1)[OF l_helper_read(3)])
        (use env l_helper_read(3) in \<open>auto simp: b deliver_effect requests_def link_inv_def split: if_splits\<close>)
  next
    case False
    note eff = readTurn_other[OF False l_helper_read(2)]
    then have "requests b = requests (lk_bridge s)" using requests_extend by blast
    from link_inv_bridge(1)[OF l_helper_read(3) this] eff l_helper_read(3) show ?thesis by (simp add: link_inv_def)
  qed
next
  case (l_host_read s env)
  then have "env \<in> set (requests (lk_bridge s))" by (simp add: requests_def)
  with l_host_read(4) show ?case by (auto simp: link_inv_def)
next
  case (l_host_inline s env c m)
  from link_inv_quiet(1)[OF l_host_inline(5) no_answers_inline[OF l_host_inline(3,4)], where m = m and n = "Suc (lk_hostRead s)"]
  show ?case by (simp add: link_inv_def)
next
  case (l_host_handle s xs env ys c m)
  then have env: "env \<in> set (requests (lk_bridge s))" by (auto simp: link_inv_def)
  then have "is_request env" by (simp add: requests_def)
  from request_answered[OF this l_host_handle(2)] l_host_handle(3) obtain a where
    "cl_sendError c = None" "cl_sent c = cl_sent (lk_client s) @ [a]" "answers host env a"
    by (auto simp: link_inv_def)
  from link_inv_client(2)[OF l_host_handle(3) this(1,2), where ts = "xs @ ys" and m = m] this(3) env l_host_handle(1) show ?case by auto
next
  case (l_outbound s i k data how)
  then show ?case using link_inv_quiet(2) no_answers_relay by blast
next
  case (l_inbound s i k wr cw)
  then show ?case using link_inv_quiet(2) no_answers_relay by blast
next
  case (l_run s o')
  then show ?case using link_inv_quiet(2) no_answers_relay by blast
qed

lemma link_inv_reachable:
  assumes "(link_step host)\<^sup>*\<^sup>* (new_link proxyAddr m) s"
  shows "link_inv host s"
  using assms
proof (induction rule: rtranclp_induct)
  case base
  then show ?case by (simp add: link_inv_def new_link_def newClient_def newBridge_def numbered_def requests_def)
next
  case (step s s')
  then show ?case using link_inv_step by blast
qed

text \<open>
  C17. However callers, goroutines and tunnels are interleaved, a caller in the helper gets the answer to
  its own request: the answer that returns under a number is what the host makes of the manager's
  response to the only request that was sent under this number.
\<close>

theorem answers_match_requests:
  assumes "(link_step host)\<^sup>*\<^sup>* (new_link proxyAddr m) s" and "(i, env) \<in> set (lk_done s)"
  shows "\<exists>r \<in> set (requests (lk_bridge s)). en_ID r = i \<and> answers host r env \<and>
     (\<forall>r' \<in> set (requests (lk_bridge s)). en_ID r' = i \<longrightarrow> r' = r)"
proof -
  note inv = link_inv_reachable[OF assms(1), unfolded link_inv_def]
  from inv assms(2) have "answer_for (lk_client s) i env" by auto
  with inv obtain r where r: "r \<in> set (requests (lk_bridge s))" "answers host r env" "en_ID env = i"
    by (auto simp: answer_for_def)
  have "en_ID r = i" using r(2,3) by (auto simp: answers_def answer_in_def)
  moreover have "r' = r" if "r' \<in> set (requests (lk_bridge s))" "en_ID r' = i" for r'
    using inv that r(1) \<open>en_ID r = i\<close> by (auto simp: numbered_def distinct_map inj_on_def)
  ultimately show ?thesis using r by blast
qed

subsection \<open>No request is forgotten\<close>

text \<open>A caller without an answer: its request or the answer is still under way.\<close>

definition under_way :: "'m link \<Rightarrow> 64 word \<Rightarrow> bool" where
  "under_way s i \<longleftrightarrow>
     (\<exists>r \<in> set (drop (lk_hostRead s) (rb_sent (lk_bridge s))) \<union> set (lk_tasks s). is_request r \<and> en_ID r = i) \<or>
     (\<exists>a \<in> set (drop (lk_helperRead s) (cl_sent (lk_client s))). is_answer a \<and> en_ID a = i)"

definition attended :: "'m link \<Rightarrow> bool" where
  "attended s \<longleftrightarrow> lk_hostRead s \<le> length (rb_sent (lk_bridge s)) \<and> lk_helperRead s \<le> length (cl_sent (lk_client s)) \<and>
     (\<forall>i. map_of (rb_pending (lk_bridge s)) i = Some None \<longrightarrow> under_way s i)"

lemma attended_bounds:
  "attended s \<Longrightarrow> lk_hostRead s \<le> length (rb_sent (lk_bridge s))" "attended s \<Longrightarrow> lk_helperRead s \<le> length (cl_sent (lk_client s))"
  by (simp_all add: attended_def)

lemma under_way_grow:
  assumes "under_way s i" and "attended s" and "set (lk_tasks s) \<subseteq> set (lk_tasks s')"
    and "lk_hostRead s' = lk_hostRead s" "lk_helperRead s' = lk_helperRead s"
    and "rb_sent (lk_bridge s') = rb_sent (lk_bridge s) @ xs" "cl_sent (lk_client s') = cl_sent (lk_client s) @ ys"
  shows "under_way s' i"
  using assms(1,3-7) attended_bounds[OF assms(2)] unfolding under_way_def by (auto simp: bex_Un)

lemma attended_grow:
  assumes "attended s" and "set (lk_tasks s) \<subseteq> set (lk_tasks s')"
    and "lk_hostRead s' = lk_hostRead s" "lk_helperRead s' = lk_helperRead s"
    and "rb_sent (lk_bridge s') = rb_sent (lk_bridge s) @ xs" "cl_sent (lk_client s') = cl_sent (lk_client s) @ ys"
    and "\<And>i. map_of (rb_pending (lk_bridge s')) i = Some None \<Longrightarrow>
      map_of (rb_pending (lk_bridge s)) i = Some None \<or> (\<exists>r \<in> set xs. is_request r \<and> en_ID r = i)"
  shows "attended s'"
proof -
  have "under_way s' i" if "map_of (rb_pending (lk_bridge s')) i = Some None" for i
    using assms(7)[OF that]
  proof
    assume "map_of (rb_pending (lk_bridge s)) i = Some None"
    then have "under_way s i" using assms(1) by (simp add: attended_def)
    from under_way_grow[OF this assms(1-6)] show ?thesis .
  qed (use assms(1,3,5) in \<open>auto simp: under_way_def attended_def\<close>)
  then show ?thesis using assms by (simp add: attended_def)
qed

lemma no_answersE:
  assumes "no_answers c c'"
  obtains xs where "cl_sent c' = cl_sent c @ xs"
  using assms by (auto simp: no_answers_def)

lemma attended_client:
  assumes "attended s" and "no_answers (lk_client s) c"
  shows "attended (s\<lparr>lk_client := c\<rparr>)"
  using assms(2)
proof (rule no_answersE)
  fix xs
  assume "cl_sent c = cl_sent (lk_client s) @ xs"
  then show ?thesis by (intro attended_grow[OF assms(1), where xs = "[]" and ys = xs]) auto
qed

lemma attended_helper_read:
  assumes "attended s" and "lk_helperRead s < length (cl_sent (lk_client s))"
    and "readTurn no_exec (lk_bridge s, ()) (cl_sent (lk_client s) ! lk_helperRead s) = Continue (b, u)"
  shows "attended (s\<lparr>lk_bridge := b, lk_helperRead := Suc (lk_helperRead s)\<rparr>)"
proof -
  let ?env = "cl_sent (lk_client s) ! lk_helperRead s"
  have drop: "drop (lk_helperRead s) (cl_sent (lk_client s)) = ?env # drop (Suc (lk_helperRead s)) (cl_sent (lk_client s))"
    using assms(2) by (simp add: Cons_nth_drop_Suc)
  have sent: "\<exists>xs. rb_sent b = rb_sent (lk_bridge s) @ xs"
    using readTurn_answer[OF _ assms(3)] readTurn_other[OF _ assms(3)] deliver_effect(2) by (cases "is_answer ?env") auto
  have pend: "map_of (rb_pending (lk_bridge s)) i = Some None \<and> (is_answer ?env \<longrightarrow> en_ID ?env \<noteq> i)"
    if "map_of (rb_pending b) i = Some None" for i
    using that readTurn_answer[OF _ assms(3)] readTurn_other[OF _ assms(3)]
    by (cases "is_answer ?env") (auto simp: deliver_effect split: if_splits)
  have "under_way (s\<lparr>lk_bridge := b, lk_helperRead := Suc (lk_helperRead s)\<rparr>) i" if "map_of (rb_pending b) i = Some None" for i
  proof -
    have "under_way s i" using pend[OF that] assms(1) by (simp add: attended_def)
    then show ?thesis using pend[OF that] sent attended_bounds[OF assms(1)] unfolding under_way_def drop by (auto simp: bex_Un)
  qed
  then show ?thesis using assms(1,2) sent by (auto simp: attended_def)
qed

lemma attended_host_read:
  assumes "attended s" and "lk_hostRead s < length (rb_sent (lk_bridge s))" and "env = rb_sent (lk_bridge s) ! lk_hostRead s"
    and "is_request env \<longrightarrow> env \<in> set ts" and "set (lk_tasks s) \<subseteq> set ts" and "cl_sent c = cl_sent (lk_client s) @ xs"
  shows "attended (s\<lparr>lk_hostRead := Suc (lk_hostRead s), lk_tasks := ts, lk_client := c, lk_manager := m\<rparr>)"
proof -
  have "drop (lk_hostRead s) (rb_sent (lk_bridge s)) = env # drop (Suc (lk_hostRead s)) (rb_sent (lk_bridge s))"
    using assms(2,3) by (simp add: Cons_nth_drop_Suc)
  then have "under_way (s\<lparr>lk_hostRead := Suc (lk_hostRead s), lk_tasks := ts, lk_client := c, lk_manager := m\<rparr>) i" if "under_way s i" for i
    using that assms(4,5,6) attended_bounds[OF assms(1)] unfolding under_way_def by (auto simp: bex_Un)
  then show ?thesis using assms(1,2,6) by (auto simp: attended_def)
qed

lemma attended_handle:
  assumes "attended s" and "lk_tasks s = ts1 @ env # ts2" and "cl_sent c = cl_sent (lk_client s) @ [a]" "answers host env a"
  shows "attended (s\<lparr>lk_tasks := ts1 @ ts2, lk_client := c, lk_manager := m\<rparr>)"
proof -
  have "is_answer a" "en_ID a = en_ID env" using assms(4) by (auto simp: answers_def answer_in_def)
  then have "under_way (s\<lparr>lk_tasks := ts1 @ ts2, lk_client := c, lk_manager := m\<rparr>) i" if "under_way s i" for i
    using that assms(2,3) attended_bounds[OF assms(1)] unfolding under_way_def by (auto simp: bex_Un)
  then show ?thesis using assms(1,3) by (auto simp: attended_def)
qed

lemma attended_request:
  assumes "attended s" and "is_request r" and "rb_sent b = rb_sent (lk_bridge s) @ [r]"
    and "rb_pending b = gm_put (en_ID r) None (rb_pending (lk_bridge s))"
  shows "attended (s\<lparr>lk_bridge := b\<rparr>)"
  by (rule attended_grow[OF assms(1), where xs = "[r]" and ys = "[]"]) (use assms in \<open>simp_all split: if_splits\<close>)

lemma attended_same_pending:
  assumes "attended s" and "rb_sent b = rb_sent (lk_bridge s) @ xs" and "rb_pending b = rb_pending (lk_bridge s)"
  shows "attended (s\<lparr>lk_bridge := b\<rparr>)"
  by (rule attended_grow[OF assms(1), where xs = xs and ys = "[]"]) (use assms in simp_all)

lemma attended_step: "link_step host s s' \<Longrightarrow> link_inv host s \<Longrightarrow> attended s \<Longrightarrow> attended s'"
proof (induction rule: link_step.induct)
  case (l_request f s i b)
  from beginRequest_effect[OF l_request(3)] request_kind_envelope[OF l_request(1), of i]
  show ?case by (intro attended_request[OF l_request(5), of "f i"]) simp_all
next
  case (l_connect s chost port i b)
  from beginConnect_effect[OF l_connect(2)] request_kind_envelope[OF request_kind.intros(5), of chost port False no_metadata i]
  show ?case by (intro attended_request[OF l_connect(4), of "connectRequestEnvelope chost port False no_metadata i"]) simp_all
next
  case (l_frame s i data b)
  note eff = sendFrame_effect[OF l_frame(2)]
  then obtain xs where "rb_sent b = rb_sent (lk_bridge s) @ xs" by blast
  from attended_same_pending[OF l_frame(4) this] eff show ?case by blast
next
  case (l_close s i w e b)
  note eff = tunnelClose_effect[OF l_close(2)]
  then obtain xs where "rb_sent b = rb_sent (lk_bridge s) @ xs" by blast
  from attended_same_pending[OF l_close(4) this] eff show ?case by blast
next
  case (l_helper_read s b u)
  then show ?case using attended_helper_read by blast
next
  case (l_host_read s env)
  from attended_host_read[OF l_host_read(5,1,2), of "lk_tasks s @ [env]" "lk_client s" "[]" "lk_manager s"] show ?case
    by (simp add: attended_def under_way_def subset_insertI)
next
  case (l_host_inline s env c m)
  from no_answersE[OF no_answers_inline[OF l_host_inline(3,4)]] obtain xs where "cl_sent c = cl_sent (lk_client s) @ xs" .
  from attended_host_read[OF l_host_inline(6,1,2) _ _ this, of "lk_tasks s" m] l_host_inline(3) show ?case
    by (simp add: attended_def under_way_def)
next
  case (l_host_handle s xs env ys c m)
  then have "is_request env" "cl_sendError (lk_client s) = None" by (auto simp: link_inv_def requests_def)
  from request_answered[OF this(1) l_host_handle(2) this(2)] obtain a where
    "cl_sent c = cl_sent (lk_client s) @ [a]" "answers host env a" by blast
  from attended_handle[OF l_host_handle(4,1) this] show ?case .
next
  case (l_outbound s i k data how)
  then show ?case using attended_client no_answers_relay by blast
next
  case (l_inbound s i k wr cw)
  then show ?case using attended_client no_answers_relay by blast
next
  case (l_run s o')
  then show ?case using attended_client no_answers_relay by blast
next
  case (l_return s i env)
  show ?case by (rule attended_grow[OF l_return(3), where xs = "[]" and ys = "[]"]) (simp_all add: endRequest_def split: if_splits)
next
  case (l_cancel s i)
  show ?case by (rule attended_grow[OF l_cancel(2), where xs = "[]" and ys = "[]"]) (simp_all add: endRequest_def split: if_splits)
next
  case (l_unregister s i)
  show ?case by (rule attended_grow[OF l_unregister(2), where xs = "[]" and ys = "[]"]) (simp_all add: UnregisterTunnel_def)
next
  case (l_take s i env q)
  show ?case by (rule attended_grow[OF l_take(3), where xs = "[]" and ys = "[]"]) simp_all
qed

text \<open>
  C18. No request is forgotten: once the host and the helper have read all messages and the host's
  goroutines have ended, every caller that still waits has its answer.
\<close>

theorem no_request_forgotten:
  assumes "(link_step host)\<^sup>*\<^sup>* (new_link proxyAddr m) s"
    and "lk_hostRead s = length (rb_sent (lk_bridge s))" "lk_tasks s = []" "lk_helperRead s = length (cl_sent (lk_client s))"
    and "map_of (rb_pending (lk_bridge s)) i = Some slot"
  shows "\<exists>env. slot = Some env \<and> en_ID env = i"
proof -
  from assms(1) have "attended s \<and> link_inv host s"
  proof (induction rule: rtranclp_induct)
    case base
    then show ?case by (auto simp: attended_def new_link_def newBridge_def intro: link_inv_reachable[unfolded new_link_def newBridge_def])
  next
    case (step s s')
    then show ?case using attended_step link_inv_step by blast
  qed
  then show ?thesis using assms(2-5) by (cases slot) (auto simp: attended_def under_way_def link_inv_def answer_for_def)
qed

subsection \<open>Authorisations leave connections behind\<close>

definition is_tunnel_message :: "Envelope \<Rightarrow> bool" where
  "is_tunnel_message env \<longleftrightarrow> en_TunnelFrame env \<noteq> None \<or> en_TunnelClose env \<noteq> None"

definition asks_transparent :: "Envelope \<Rightarrow> bool" where
  "asks_transparent r \<longleftrightarrow> (\<exists>q. en_ConnectRequest r = Some q \<and> cq_Transparent q)"

text \<open>The helper keeps a tunnel only for the requests of \<^verbatim>\<open>Connect\<close>, and sends messages only for its tunnels.\<close>

definition tunnels_asked :: "RuntimeBridge \<Rightarrow> bool" where
  "tunnels_asked b \<longleftrightarrow>
     (\<forall>i \<in> dom (map_of (rb_tunnels b)). i \<le> rb_nextID b \<and> (\<forall>r \<in> set (requests b). en_ID r = i \<longrightarrow> \<not> asks_transparent r)) \<and>
     (\<forall>e \<in> set (rb_sent b). is_tunnel_message e \<longrightarrow>
        en_ID e \<le> rb_nextID b \<and> (\<forall>r \<in> set (requests b). en_ID r = en_ID e \<longrightarrow> \<not> asks_transparent r))"

lemma tunnels_asked_request:
  assumes "tunnels_asked b" and "is_request r" "\<not> is_tunnel_message r" "en_ID r = rb_nextID b + 1" "rb_nextID b + 1 \<noteq> 0"
    and "rb_sent b' = rb_sent b @ [r]" "rb_nextID b' = rb_nextID b + 1"
    and "dom (map_of (rb_tunnels b')) \<subseteq> (if asks_transparent r then {} else {en_ID r}) \<union> dom (map_of (rb_tunnels b))"
    and "numbered b"
  shows "tunnels_asked b'"
proof -
  have fresh: "rb_nextID b < en_ID r" using word_fresh[OF assms(5)] assms(4) by simp
  have req: "requests b' = requests b @ [r]" using assms(2,6) by (simp add: requests_def)
  have old: "i \<le> rb_nextID b' \<and> i \<noteq> en_ID r" if "i \<le> rb_nextID b" for i using that fresh assms(4,7) by auto
  have below: "en_ID q \<noteq> en_ID r" if "q \<in> set (requests b)" for q
    using assms(9) that fresh by (auto simp: numbered_def)
  have keep: "i \<le> rb_nextID b' \<and> (\<forall>q \<in> set (requests b'). en_ID q = i \<longrightarrow> \<not> asks_transparent q)"
    if "i \<le> rb_nextID b \<and> (\<forall>q \<in> set (requests b). en_ID q = i \<longrightarrow> \<not> asks_transparent q)" for i
    using that old by (auto simp: req)
  have "i \<le> rb_nextID b' \<and> (\<forall>q \<in> set (requests b'). en_ID q = i \<longrightarrow> \<not> asks_transparent q)" if "i \<in> dom (map_of (rb_tunnels b'))" for i
  proof (cases "i \<in> dom (map_of (rb_tunnels b))")
    case True
    with assms(1) show ?thesis unfolding tunnels_asked_def by (intro keep) blast
  next
    case False
    then have "i = en_ID r \<and> \<not> asks_transparent r" using assms(8) that by (auto split: if_splits)
    then show ?thesis using assms(4,7) below by (auto simp: req)
  qed
  moreover have "en_ID e \<le> rb_nextID b' \<and> (\<forall>q \<in> set (requests b'). en_ID q = en_ID e \<longrightarrow> \<not> asks_transparent q)"
    if "e \<in> set (rb_sent b')" "is_tunnel_message e" for e
  proof -
    have "e \<in> set (rb_sent b)" using that assms(3,6) by auto
    with assms(1) that(2) show ?thesis unfolding tunnels_asked_def by (intro keep) blast
  qed
  ultimately show ?thesis by (simp add: tunnels_asked_def)
qed

lemma tunnels_asked_same:
  assumes "tunnels_asked b" and "rb_sent b' = rb_sent b @ xs" "\<forall>e \<in> set xs. \<not> is_request e \<and> (is_tunnel_message e \<longrightarrow> en_ID e \<in> dom (map_of (rb_tunnels b)))"
    and "rb_nextID b' = rb_nextID b" "dom (map_of (rb_tunnels b')) \<subseteq> dom (map_of (rb_tunnels b))"
  shows "tunnels_asked b'"
proof -
  have "requests b' = requests b" using assms(2,3) requests_extend by blast
  then show ?thesis using assms by (auto simp: tunnels_asked_def dest: subsetD)
qed

lemma tunnels_asked_step: "link_step host s s' \<Longrightarrow> link_inv host s \<Longrightarrow> tunnels_asked (lk_bridge s) \<Longrightarrow> tunnels_asked (lk_bridge s')"
proof (induction rule: link_step.induct)
  case (l_request f s i b)
  from beginRequest_effect[OF l_request(3)] request_kind_envelope[OF l_request(1), of i] l_request(2,4)
  show ?case by (auto simp: is_tunnel_message_def link_inv_def intro!: tunnels_asked_request[OF l_request(5), of "f i"])
next
  case (l_connect s chost port i b)
  let ?r = "connectRequestEnvelope chost port False no_metadata i"
  have "\<not> asks_transparent ?r" by (simp add: asks_transparent_def connectRequestEnvelope_def)
  with beginConnect_effect[OF l_connect(2)] request_kind_envelope[OF request_kind.intros(5), of chost port False no_metadata i] l_connect(1,3)
  show ?case by (auto simp: is_tunnel_message_def link_inv_def intro!: tunnels_asked_request[OF l_connect(4), of ?r])
next
  case (l_frame s i data b)
  then obtain xs where "rb_sent b = rb_sent (lk_bridge s) @ xs" "\<forall>e \<in> set xs. \<not> is_request e \<and> en_ID e = i"
    "rb_nextID b = rb_nextID (lk_bridge s)" "rb_tunnels b = rb_tunnels (lk_bridge s)" using sendFrame_effect[OF l_frame(2)] by blast
  with l_frame(1,4) show ?case by (auto intro!: tunnels_asked_same[of "lk_bridge s" _ xs])
next
  case (l_close s i w e b)
  then obtain xs where "rb_sent b = rb_sent (lk_bridge s) @ xs" "\<forall>e \<in> set xs. \<not> is_request e \<and> en_ID e = i"
    "rb_nextID b = rb_nextID (lk_bridge s)" "rb_tunnels b = rb_tunnels (lk_bridge s)" using tunnelClose_effect[OF l_close(2)] by blast
  with l_close(1,4) show ?case by (auto intro!: tunnels_asked_same[of "lk_bridge s" _ xs])
next
  case (l_helper_read s b u)
  let ?env = "cl_sent (lk_client s) ! lk_helperRead s"
  show ?case
  proof (cases "is_answer ?env")
    case True
    then show ?thesis using readTurn_answer[OF True l_helper_read(2)] l_helper_read(4)
      by (auto simp: deliver_effect intro!: tunnels_asked_same[of "lk_bridge s" _ "[]"])
  next
    case False
    from readTurn_other[OF this l_helper_read(2)] obtain xs where "rb_sent b = rb_sent (lk_bridge s) @ xs"
      "\<forall>e \<in> set xs. \<not> is_request e \<and> en_TunnelFrame e = None \<and> en_TunnelClose e = None"
      "rb_nextID b = rb_nextID (lk_bridge s)" "dom (map_of (rb_tunnels b)) \<subseteq> dom (map_of (rb_tunnels (lk_bridge s)))" by blast
    with l_helper_read(4) show ?thesis by (auto simp: is_tunnel_message_def intro!: tunnels_asked_same[of "lk_bridge s" _ xs])
  qed
next
  case (l_return s i env)
  show ?case by (rule tunnels_asked_same[OF l_return(3), where xs = "[]"]) (simp_all add: endRequest_def)
next
  case (l_cancel s i)
  show ?case by (rule tunnels_asked_same[OF l_cancel(2), where xs = "[]"]) (simp_all add: endRequest_def)
next
  case (l_unregister s i)
  show ?case by (rule tunnels_asked_same[OF l_unregister(2), where xs = "[]"]) (auto simp: UnregisterTunnel_def split: if_splits)
next
  case (l_take s i env q)
  show ?case by (rule tunnels_asked_same[OF l_take(3), where xs = "[]"]) (use l_take(1) in \<open>auto split: if_splits\<close>)
qed simp_all

text \<open>
  C39. An authorisation of a transparent connection leaves a connection behind: the host dials the
  destination and registers a tunnel for every allowed request, also for one that only asks, and
  the helper never sends anything under the number of such a request that would use or close the tunnel.
\<close>

theorem authorisation_leaves_connection:
  assumes "(link_step host)\<^sup>*\<^sup>* (new_link proxyAddr m0) s" and "r \<in> set (requests (lk_bridge s))"
    and "en_ConnectRequest r = Some q" "cq_Transparent q" "en_ProxyRequest r = None"
    and "ho_Connect host m q = (m1, Some response)" "cs_StatusCode response = 200" "ho_Dial host m1 (cq_Host q) (cq_Port q) = None"
    and "cl_sendError c = None" "clientTurn host (c, m) r = Continue (c', m')"
  shows "(\<exists>k. tunnel c' (en_ID r) = Some k \<and> k < length (cl_objects c') \<and> \<not> ht_closed (cl_objects c' ! k)) \<and>
     (\<forall>e \<in> set (rb_sent (lk_bridge s)). en_ID e = en_ID r \<longrightarrow> \<not> is_tunnel_message e)"
proof
  have "en_Ready r = None" using assms(2) by (simp add: requests_def is_request_def)
  then show "\<exists>k. tunnel c' (en_ID r) = Some k \<and> k < length (cl_objects c') \<and> \<not> ht_closed (cl_objects c' ! k)"
    using assms(3-10)
    by (auto simp: clientTurn_def clientConnectRequest_def connectReply_def registerPendingTunnel_def clientSend_def activateTunnel_def
        tunnel_def newHostTunnel_def Let_def)
  have "tunnels_asked (lk_bridge s) \<and> link_inv host s"
    using assms(1)
  proof (induction rule: rtranclp_induct)
    case base
    have "link_inv host (new_link proxyAddr m0)" by (rule link_inv_reachable[OF rtranclp.rtrancl_refl])
    then show ?case by (simp add: tunnels_asked_def new_link_def newBridge_def)
  next
    case (step s s')
    then show ?case using tunnels_asked_step link_inv_step by blast
  qed
  then show "\<forall>e \<in> set (rb_sent (lk_bridge s)). en_ID e = en_ID r \<longrightarrow> \<not> is_tunnel_message e"
    using assms(2-4) by (fastforce simp: tunnels_asked_def asks_transparent_def)
qed

subsection \<open>A tunnel that is not read blocks the helper\<close>

definition tunnel_full :: "64 word \<Rightarrow> 'm link \<Rightarrow> bool" where
  "tunnel_full k s \<longleftrightarrow> (\<exists>q. map_of (rb_tunnels (lk_bridge s)) k = Some q \<and> 32 \<le> length q)"

definition next_is_frame :: "64 word \<Rightarrow> 'm link \<Rightarrow> bool" where
  "next_is_frame k s \<longleftrightarrow> lk_helperRead s < length (cl_sent (lk_client s)) \<and>
     (\<exists>data. cl_sent (lk_client s) ! lk_helperRead s = (envelope k)\<lparr>en_TunnelFrame := Some \<lparr>tf_Data = data\<rparr>\<rparr>)"

text \<open>Nothing has been delivered to the caller.\<close>

definition unanswered :: "64 word \<Rightarrow> 'm link \<Rightarrow> bool" where
  "unanswered i s \<longleftrightarrow> map_of (rb_pending (lk_bridge s)) i \<in> {None, Some None}"

lemma no_answers_grows: "no_answers c c' \<Longrightarrow> \<exists>ys. cl_sent c' = cl_sent c @ ys"
  by (auto simp: no_answers_def)

lemma client_grows:
  assumes "link_step host s s'" and "link_inv host s"
  shows "\<exists>ys. cl_sent (lk_client s') = cl_sent (lk_client s) @ ys"
  using assms
proof (induction rule: link_step.induct)
  case (l_host_inline s env c m)
  then show ?case using no_answers_inline[OF l_host_inline(3,4)] by (auto simp: no_answers_def)
next
  case (l_host_handle s xs env ys c m)
  then have "is_request env" "cl_sendError (lk_client s) = None" by (auto simp: link_inv_def requests_def)
  from request_answered[OF this(1) l_host_handle(2) this(2)] show ?case by auto
qed (auto intro: no_answers_grows no_answers_relay)

lemma full_blocks: "map_of (rb_tunnels b) k = Some q \<Longrightarrow> 32 \<le> length q \<Longrightarrow>
    readTurn no_exec (b, ()) ((envelope k)\<lparr>en_TunnelFrame := Some f\<rparr>) = Blocked"
  by (simp add: readTurn_def DeliverTunnel_def)

lemma stalled_step:
  assumes "link_step host s s'" and "tunnel_full k s" "next_is_frame k s" "unanswered i s"
  shows "lk_helperRead s' = lk_helperRead s \<and> unanswered i s'"
  using assms
proof (induction rule: link_step.induct)
  case (l_request f s i b)
  then show ?case using beginRequest_effect[OF l_request(3)] by (auto simp: unanswered_def)
next
  case (l_connect s chost port i b)
  then show ?case using beginConnect_effect[OF l_connect(2)] by (auto simp: unanswered_def)
next
  case (l_frame s i data b)
  then show ?case using sendFrame_effect[OF l_frame(2)] by (auto simp: unanswered_def)
next
  case (l_close s i w e b)
  then show ?case using tunnelClose_effect[OF l_close(2)] by (auto simp: unanswered_def)
next
  case (l_helper_read s b u)
  then show ?case using full_blocks by (auto simp: tunnel_full_def next_is_frame_def)
qed (auto simp: unanswered_def endRequest_def UnregisterTunnel_def split: if_splits)

text \<open>
  C40. A program that does not read from its tunnel stops all traffic of the sandbox: as long as the
  tunnel's queue in the helper is full and the next message is for this tunnel, no caller in the helper
  gets an answer, whatever else happens.
\<close>

theorem unread_tunnel_blocks_helper:
  assumes "(link_step host)\<^sup>*\<^sup>* (new_link proxyAddr m) s" and "tunnel_full k s" "next_is_frame k s" "unanswered i s"
    and "(\<lambda>s s'. link_step host s s' \<and> tunnel_full k s')\<^sup>*\<^sup>* s s'"
  shows "lk_helperRead s' = lk_helperRead s \<and> unanswered i s'"
proof -
  from assms(5) have "lk_helperRead s' = lk_helperRead s \<and> unanswered i s' \<and> tunnel_full k s' \<and> next_is_frame k s' \<and> link_inv host s'"
  proof (induction rule: rtranclp_induct)
    case base
    then show ?case using assms(2-4) link_inv_reachable[OF assms(1)] by simp
  next
    case (step t t')
    then have stalled: "lk_helperRead t' = lk_helperRead t \<and> unanswered i t'" using stalled_step by blast
    from client_grows[of host t t'] step obtain ys where "cl_sent (lk_client t') = cl_sent (lk_client t) @ ys" by blast
    then have "next_is_frame k t'" using step stalled by (auto simp: next_is_frame_def nth_append)
    then show ?case using step stalled link_inv_step[of host t t'] by auto
  qed
  then show ?thesis by blast
qed

subsection \<open>Examples\<close>

text \<open>A transparent connection is authorised; then the answer is read and returned.\<close>

definition example_ask :: Envelope where
  "example_ask = connectRequestEnvelope ''a'' 443 True no_metadata 1"

definition ex_asked :: "unit link" where
  "ex_asked = (new_link [] ())\<lparr>lk_bridge := snd (beginRequest (newBridge []) (connectRequestEnvelope ''a'' 443 True no_metadata))\<rparr>"

definition ex_task :: "unit link" where
  "ex_task = ex_asked\<lparr>lk_hostRead := 1, lk_tasks := [example_ask]\<rparr>"

definition ex_handled :: "unit link" where
  "ex_handled = ex_task\<lparr>lk_tasks := [], lk_client := fst (clientConnectRequest open_host (newClient, ()) 1
     \<lparr>cq_Host = ''a'', cq_Port = 443, cq_Transparent = True, cq_ProtocolMetadata = no_metadata\<rparr>), lk_manager := ()\<rparr>"

definition ex_answer :: Envelope where
  "ex_answer = connectEnvelope 1 \<lparr>cs_StatusCode = 200, cs_Message = [], cs_Error = []\<rparr>"

definition ex_delivered :: "unit link" where
  "ex_delivered = ex_handled\<lparr>lk_bridge := deliver (lk_bridge ex_handled) ex_answer, lk_helperRead := 1\<rparr>"

definition ex_returned :: "unit link" where
  "ex_returned = ex_delivered\<lparr>lk_bridge := endRequest (lk_bridge ex_delivered) 1, lk_done := [(1, ex_answer)]\<rparr>"

lemma example_steps:
  "link_step open_host (new_link [] ()) ex_asked" "link_step open_host ex_asked ex_task" "link_step open_host ex_task ex_handled"
  "link_step open_host ex_handled ex_delivered" "link_step open_host ex_delivered ex_returned"
proof -
  let ?f = "connectRequestEnvelope ''a'' 443 True no_metadata"
  have "beginRequest (lk_bridge (new_link [] ())) ?f = (Inr 1, lk_bridge ex_asked)" "rb_nextID (lk_bridge (new_link [] ())) + 1 \<noteq> 0"
    by code_simp+
  from l_request[OF request_kind.intros(5) this(2,1)] show "link_step open_host (new_link [] ()) ex_asked"
    by (simp add: ex_asked_def)
  have "lk_hostRead ex_asked < length (rb_sent (lk_bridge ex_asked))" "example_ask = rb_sent (lk_bridge ex_asked) ! lk_hostRead ex_asked"
    "is_request example_ask" "lk_hostRead ex_asked = 0" "lk_tasks ex_asked = []" by code_simp+
  from l_host_read[OF this(1-3), of open_host] this(4,5) show "link_step open_host ex_asked ex_task" by (simp add: ex_task_def)
  have "clientTurn open_host (lk_client ex_task, lk_manager ex_task) example_ask = Continue (lk_client ex_handled, ())" by code_simp
  from l_host_handle[of ex_task "[]" example_ask "[]", OF _ this] show "link_step open_host ex_task ex_handled"
    by (simp add: ex_handled_def ex_task_def)
  have "lk_helperRead ex_handled < length (cl_sent (lk_client ex_handled))" "lk_helperRead ex_handled = 0"
    "readTurn no_exec (lk_bridge ex_handled, ()) (cl_sent (lk_client ex_handled) ! lk_helperRead ex_handled) =
       Continue (deliver (lk_bridge ex_handled) ex_answer, ())" by code_simp+
  from l_helper_read[OF this(1,3), of open_host] this(2) show "link_step open_host ex_handled ex_delivered" by (simp add: ex_delivered_def)
  have "map_of (rb_pending (lk_bridge ex_delivered)) 1 = Some (Some ex_answer)" "lk_done ex_delivered = []" by code_simp+
  from l_return[OF this(1), of open_host] this(2) show "link_step open_host ex_delivered ex_returned" by (simp add: ex_returned_def)
qed

lemma example_reachable:
  "(link_step open_host)\<^sup>*\<^sup>* (new_link [] ()) ex_asked" "(link_step open_host)\<^sup>*\<^sup>* (new_link [] ()) ex_delivered"
  "(link_step open_host)\<^sup>*\<^sup>* (new_link [] ()) ex_returned"
proof -
  show asked: "(link_step open_host)\<^sup>*\<^sup>* (new_link [] ()) ex_asked" by (rule r_into_rtranclp[of "link_step open_host", OF example_steps(1)])
  have handled: "(link_step open_host)\<^sup>*\<^sup>* (new_link [] ()) ex_handled"
    by (rule rtranclp.rtrancl_into_rtrancl[OF rtranclp.rtrancl_into_rtrancl[OF asked example_steps(2)] example_steps(3)])
  show delivered: "(link_step open_host)\<^sup>*\<^sup>* (new_link [] ()) ex_delivered"
    by (rule rtranclp.rtrancl_into_rtrancl[OF handled example_steps(4)])
  show "(link_step open_host)\<^sup>*\<^sup>* (new_link [] ()) ex_returned"
    by (rule rtranclp.rtrancl_into_rtrancl[OF delivered example_steps(5)])
qed

theorem answers_match_requests_witness:
  "\<exists>r \<in> set (requests (lk_bridge ex_returned)). en_ID r = 1 \<and> answers open_host r ex_answer"
proof -
  have "(1, ex_answer) \<in> set (lk_done ex_returned)" by (simp add: ex_returned_def)
  from answers_match_requests[OF example_reachable(3) this] show ?thesis by blast
qed

theorem no_request_forgotten_witness:
  "\<exists>env. map_of (rb_pending (lk_bridge ex_delivered)) 1 = Some (Some env)"
proof -
  have "lk_hostRead ex_delivered = length (rb_sent (lk_bridge ex_delivered))" "lk_tasks ex_delivered = []"
    "lk_helperRead ex_delivered = length (cl_sent (lk_client ex_delivered))"
    "map_of (rb_pending (lk_bridge ex_delivered)) 1 = Some (Some ex_answer)" by code_simp+
  from no_request_forgotten[OF example_reachable(2) this] this(4) show ?thesis by blast
qed

theorem authorisation_leaves_connection_witness:
  "\<exists>k. tunnel (lk_client ex_handled) 1 = Some k \<and> \<not> ht_closed (cl_objects (lk_client ex_handled) ! k)"
proof -
  let ?q = "\<lparr>cq_Host = ''a'', cq_Port = 443, cq_Transparent = True, cq_ProtocolMetadata = no_metadata\<rparr>"
  have ask: "example_ask \<in> set (requests (lk_bridge ex_asked))" "en_ConnectRequest example_ask = Some ?q" "cq_Transparent ?q"
    "en_ProxyRequest example_ask = None" "ho_Connect open_host () ?q = ((), Some \<lparr>cs_StatusCode = 200, cs_Message = [], cs_Error = []\<rparr>)"
    "cs_StatusCode \<lparr>cs_StatusCode = 200, cs_Message = [], cs_Error = []\<rparr> = 200" "ho_Dial open_host () (cq_Host ?q) (cq_Port ?q) = None"
    "cl_sendError newClient = None" "en_ID example_ask = 1"
    "clientTurn open_host (newClient, ()) example_ask = Continue (lk_client ex_handled, ())" by code_simp+
  from authorisation_leaves_connection[OF example_reachable(1) ask(1-8,10)] ask(9) show ?thesis by auto
qed

text \<open>A server that sends without pause while the program does not read: the queue of the tunnel fills up.\<close>

definition filling :: "nat \<Rightarrow> unit link \<Rightarrow> bool" where
  "filling n s \<longleftrightarrow> (link_step open_host)\<^sup>*\<^sup>* (new_link [] ()) s \<and>
     (\<exists>q. map_of (rb_tunnels (lk_bridge s)) 1 = Some q \<and> length q = n) \<and> tunnel (lk_client s) 1 = Some 0 \<and>
     cl_sendError (lk_client s) = None \<and> lk_helperRead s = length (cl_sent (lk_client s)) \<and> unanswered 2 s"

definition server_sends :: "unit link \<Rightarrow> unit link" where
  "server_sends s = s\<lparr>lk_client := relayOutbound (lk_client s) 1 0 ''x'' ReadMore\<rparr>"

lemma server_sends_effect:
  assumes "filling n s"
  shows "cl_sent (lk_client (server_sends s)) = cl_sent (lk_client s) @ [(envelope 1)\<lparr>en_TunnelFrame := Some \<lparr>tf_Data = ''x''\<rparr>\<rparr>] \<and>
    (link_step open_host)\<^sup>*\<^sup>* (new_link [] ()) (server_sends s) \<and> lk_bridge (server_sends s) = lk_bridge s \<and>
    lk_helperRead (server_sends s) = lk_helperRead s \<and> tunnel (lk_client (server_sends s)) 1 = Some 0 \<and>
    cl_sendError (lk_client (server_sends s)) = None"
proof -
  from assms have "link_step open_host s (server_sends s)"
    unfolding server_sends_def filling_def by (intro l_outbound) blast
  then have "(link_step open_host)\<^sup>*\<^sup>* (new_link [] ()) (server_sends s)"
    using assms unfolding filling_def by (meson rtranclp.rtrancl_into_rtrancl)
  then show ?thesis using assms by (auto simp: filling_def server_sends_def relayOutbound_def clientSend_def tunnel_def split: option.splits)
qed

lemma filling_more:
  assumes "filling n s" and "n < 32"
  shows "\<exists>s'. filling (Suc n) s'"
proof -
  let ?t = "server_sends s"
  note sent = server_sends_effect[OF assms(1)]
  from assms(1) obtain q where q: "map_of (rb_tunnels (lk_bridge s)) 1 = Some q" "length q = n" by (auto simp: filling_def)
  let ?f = "(envelope 1)\<lparr>en_TunnelFrame := Some \<lparr>tf_Data = ''x''\<rparr>\<rparr>"
  let ?b = "(lk_bridge s)\<lparr>rb_tunnels := gm_put 1 (q @ [?f]) (rb_tunnels (lk_bridge s))\<rparr>"
  let ?u = "?t\<lparr>lk_bridge := ?b, lk_helperRead := Suc (lk_helperRead ?t)\<rparr>"
  have next_read: "lk_helperRead ?t < length (cl_sent (lk_client ?t))" "cl_sent (lk_client ?t) ! lk_helperRead ?t = ?f"
    using assms(1) sent by (auto simp: filling_def nth_append)
  have "readTurn no_exec (lk_bridge ?t, ()) ?f = Continue (?b, ())"
    using q assms(2) sent by (simp add: readTurn_def DeliverTunnel_def)
  with next_read have "link_step open_host ?t ?u" by (intro l_helper_read) simp_all
  with sent have "(link_step open_host)\<^sup>*\<^sup>* (new_link [] ()) ?u" by (meson rtranclp.rtrancl_into_rtrancl)
  then have "filling (Suc n) ?u" using assms(1) sent q by (auto simp: filling_def unanswered_def)
  then show ?thesis by blast
qed

definition fl_asked :: "unit link" where
  "fl_asked = (new_link [] ())\<lparr>lk_bridge := snd (beginConnect (newBridge []) ''a'' 443)\<rparr>"

definition fl_ask :: Envelope where
  "fl_ask = connectRequestEnvelope ''a'' 443 False no_metadata 1"

definition fl_task :: "unit link" where
  "fl_task = fl_asked\<lparr>lk_hostRead := 1, lk_tasks := [fl_ask]\<rparr>"

definition fl_handled :: "unit link" where
  "fl_handled = fl_task\<lparr>lk_tasks := [], lk_client := fst (clientConnectRequest open_host (newClient, ()) 1
     \<lparr>cq_Host = ''a'', cq_Port = 443, cq_Transparent = False, cq_ProtocolMetadata = no_metadata\<rparr>), lk_manager := ()\<rparr>"

definition fl_open :: "unit link" where
  "fl_open = fl_handled\<lparr>lk_bridge := deliver (lk_bridge fl_handled) ex_answer, lk_helperRead := 1\<rparr>"

lemma filling_start: "filling 0 fl_open"
proof -
  have "beginConnect (lk_bridge (new_link [] ())) ''a'' 443 = (Inr 1, lk_bridge fl_asked)" "rb_nextID (lk_bridge (new_link [] ())) + 1 \<noteq> 0"
    by code_simp+
  from l_connect[OF this(2,1)] have one: "link_step open_host (new_link [] ()) fl_asked" by (simp add: fl_asked_def)
  have "lk_hostRead fl_asked < length (rb_sent (lk_bridge fl_asked))" "fl_ask = rb_sent (lk_bridge fl_asked) ! lk_hostRead fl_asked"
    "is_request fl_ask" "lk_hostRead fl_asked = 0" "lk_tasks fl_asked = []" by code_simp+
  from l_host_read[OF this(1-3), of open_host] this(4,5) have two: "link_step open_host fl_asked fl_task" by (simp add: fl_task_def)
  have "clientTurn open_host (lk_client fl_task, lk_manager fl_task) fl_ask = Continue (lk_client fl_handled, ())" by code_simp
  from l_host_handle[of fl_task "[]" fl_ask "[]", OF _ this] have three: "link_step open_host fl_task fl_handled"
    by (simp add: fl_handled_def fl_task_def)
  have "lk_helperRead fl_handled < length (cl_sent (lk_client fl_handled))" "lk_helperRead fl_handled = 0"
    "readTurn no_exec (lk_bridge fl_handled, ()) (cl_sent (lk_client fl_handled) ! lk_helperRead fl_handled) =
       Continue (deliver (lk_bridge fl_handled) ex_answer, ())" by code_simp+
  from l_helper_read[OF this(1,3), of open_host] this(2) have four: "link_step open_host fl_handled fl_open" by (simp add: fl_open_def)
  have "(link_step open_host)\<^sup>*\<^sup>* (new_link [] ()) fl_open"
    by (rule rtranclp.rtrancl_into_rtrancl[OF rtranclp.rtrancl_into_rtrancl[OF rtranclp.rtrancl_into_rtrancl[OF
          r_into_rtranclp[of "link_step open_host", OF one] two] three] four])
  moreover have "map_of (rb_tunnels (lk_bridge fl_open)) 1 = Some []" "tunnel (lk_client fl_open) 1 = Some 0"
    "cl_sendError (lk_client fl_open) = None" "lk_helperRead fl_open = length (cl_sent (lk_client fl_open))"
    "map_of (rb_pending (lk_bridge fl_open)) 2 = None" by code_simp+
  ultimately show ?thesis by (simp add: filling_def unanswered_def)
qed

lemma filling_reached: "n \<le> 32 \<Longrightarrow> \<exists>s. filling n s"
proof (induction n)
  case 0
  show ?case using filling_start by blast
next
  case (Suc n)
  then show ?case using filling_more[of n] by auto
qed

theorem unread_tunnel_blocks_helper_witness:
  "\<exists>s. tunnel_full 1 s \<and> next_is_frame 1 s \<and>
     (\<forall>s'. (\<lambda>s s'. link_step open_host s s' \<and> tunnel_full 1 s')\<^sup>*\<^sup>* s s' \<longrightarrow> lk_helperRead s' = lk_helperRead s \<and> unanswered 2 s')"
proof -
  obtain t where t: "filling 32 t" using filling_reached[of 32] by auto
  let ?s = "server_sends t"
  note sent = server_sends_effect[OF t]
  have full: "tunnel_full 1 ?s" "next_is_frame 1 ?s" "unanswered 2 ?s"
    using t sent by (auto simp: filling_def tunnel_full_def next_is_frame_def unanswered_def)
  from sent have "(link_step open_host)\<^sup>*\<^sup>* (new_link [] ()) ?s" by blast
  from unread_tunnel_blocks_helper[OF this full] full show ?thesis by blast
qed

end
